(* ===== verification/Prelude.thy ===== *)
theory Prelude
  imports Complex_Main "HOL-Library.Char_ord" "HOL-Library.List_Lexorder"
    "HOL-Library.Product_Lexorder" "HOL-Library.Option_ord"
begin

text \<open>
  The shared library of the development.

  \<^item> The effect monad: an operation reads and changes a state and either returns a value
    (\<open>Inr\<close>) or throws (\<open>Inl\<close>). A throw keeps the state changes made before it, as an
    exception of the source does; only a transaction undoes them.
  \<^item> Tables: a table of the database is the list of its rows in insertion order; the
    statements of SQL are \<open>update_where\<close>, \<open>delete_where\<close>, \<open>select_where\<close> and
    \<open>select_first\<close>.
  \<^item> The string functions of the standard library that the sources call, on ASCII text, and
    the fixed-width decimal notation with its order.
\<close>

named_theorems preserves_intros "introduction rules for invariants of operations"
named_theorems table_simps "what a SQL statement does to a table"
named_theorems effect_simps "unfolding of the effect monad"

section \<open>Operations with a state that may throw\<close>

type_synonym ('e, 's, 'a) op = "'s \<Rightarrow> ('e + 'a) \<times> 's"

definition retE :: "'a \<Rightarrow> ('e, 's, 'a) op" where
  "retE x s = (Inr x, s)"

definition throwE :: "'e \<Rightarrow> ('e, 's, 'a) op" where
  "throwE e s = (Inl e, s)"

definition bindE :: "('e, 's, 'a) op \<Rightarrow> ('a \<Rightarrow> ('e, 's, 'b) op) \<Rightarrow> ('e, 's, 'b) op" where
  "bindE m k s = (case m s of (Inl e, s') \<Rightarrow> (Inl e, s') | (Inr x, s') \<Rightarrow> k x s')"

definition getE :: "('s \<Rightarrow> 'a) \<Rightarrow> ('e, 's, 'a) op" where
  "getE f s = (Inr (f s), s)"

definition modifyE :: "('s \<Rightarrow> 's) \<Rightarrow> ('e, 's, unit) op" where
  "modifyE f s = (Inr (), f s)"

definition guardE :: "('s \<Rightarrow> bool) \<Rightarrow> 'e \<Rightarrow> ('e, 's, unit) op" where
  "guardE p e s = (if p s then (Inr (), s) else (Inl e, s))"

definition catchE :: "('e, 's, 'a) op \<Rightarrow> ('e \<Rightarrow> ('e, 's, 'a) op) \<Rightarrow> ('e, 's, 'a) op" where
  "catchE m h s = (case m s of (Inl e, s') \<Rightarrow> h e s' | (Inr x, s') \<Rightarrow> (Inr x, s'))"

fun forE :: "('a \<Rightarrow> ('e, 's, unit) op) \<Rightarrow> 'a list \<Rightarrow> ('e, 's, unit) op" where
  "forE f [] = retE ()"
| "forE f (x # xs) = bindE (f x) (\<lambda>_. forE f xs)"

fun sumE :: "('a \<Rightarrow> ('e, 's, nat) op) \<Rightarrow> 'a list \<Rightarrow> ('e, 's, nat) op" where
  "sumE f [] = retE 0"
| "sumE f (x # xs) = bindE (f x) (\<lambda>n. bindE (sumE f xs) (\<lambda>m. retE (n + m)))"

lemmas effect_defs = retE_def throwE_def bindE_def getE_def modifyE_def guardE_def catchE_def

lemma bindE_retE [simp]: "bindE (retE x) k = k x"
  by (simp add: fun_eq_iff effect_defs)

lemma bindE_throwE [simp]: "bindE (throwE e) k = throwE e"
  by (simp add: fun_eq_iff effect_defs)

lemma bindE_assoc: "bindE (bindE m k) h = bindE m (\<lambda>x. bindE (k x) h)"
  by (auto simp: fun_eq_iff effect_defs split: prod.splits sum.splits)

lemma bindE_Inr_iff:
  "bindE m k s = (Inr y, t) \<longleftrightarrow> (\<exists>x u. m s = (Inr x, u) \<and> k x u = (Inr y, t))"
  by (auto simp: bindE_def split: prod.splits sum.splits)

lemma bindE_Inl_iff:
  "bindE m k s = (Inl e, t) \<longleftrightarrow>
     m s = (Inl e, t) \<or> (\<exists>x u. m s = (Inr x, u) \<and> k x u = (Inl e, t))"
  by (auto simp: bindE_def split: prod.splits sum.splits)

lemma op_apply [effect_simps]:
  "retE x s = (Inr x, s)" "throwE e s = (Inl e, s)" "getE f s = (Inr (f s), s)"
  "modifyE g s = (Inr (), g s)"
  by (simp_all add: effect_defs)

lemma guardE_iff [effect_simps]:
  "guardE p e s = (Inr u, t) \<longleftrightarrow> p s \<and> t = s"
  "guardE p e s = (Inl e', t) \<longleftrightarrow> \<not> p s \<and> t = s \<and> e' = e"
  by (auto simp: guardE_def)

text \<open>An invariant that an operation keeps whether it returns or throws.\<close>

definition preserves :: "('s \<Rightarrow> bool) \<Rightarrow> ('e, 's, 'a) op \<Rightarrow> bool" where
  "preserves I m \<longleftrightarrow> (\<forall>s. I s \<longrightarrow> I (snd (m s)))"

lemma preservesD: "preserves I m \<Longrightarrow> I s \<Longrightarrow> m s = (r, t) \<Longrightarrow> I t"
  by (metis preserves_def snd_conv)

lemma preserves_valueD: "(\<And>k. preserves (\<lambda>s. f s = k) m) \<Longrightarrow> m s = (r, t) \<Longrightarrow> f t = f s"
  by (simp add: preserves_def) (metis snd_conv)

lemma preserves_value: "(\<And>s. f (snd (m s)) = f s) \<Longrightarrow> preserves (\<lambda>s. f s = k) m"
  by (simp add: preserves_def)

lemma preserves_retE [preserves_intros]: "preserves I (retE x)"
  by (simp add: preserves_def effect_defs)

lemma preserves_throwE [preserves_intros]: "preserves I (throwE e)"
  by (simp add: preserves_def effect_defs)

lemma preserves_getE [preserves_intros]: "preserves I (getE f)"
  by (simp add: preserves_def effect_defs)

lemma preserves_guardE [preserves_intros]: "preserves I (guardE p e)"
  by (simp add: preserves_def effect_defs)

lemma preserves_modifyE: "(\<And>s. I s \<Longrightarrow> I (f s)) \<Longrightarrow> preserves I (modifyE f)"
  by (simp add: preserves_def effect_defs)

lemma preserves_bindE [preserves_intros]:
  "preserves I m \<Longrightarrow> (\<And>x. preserves I (k x)) \<Longrightarrow> preserves I (bindE m k)"
  by (simp add: preserves_def bindE_def split: prod.splits sum.splits) (metis snd_conv)

lemma preserves_catchE [preserves_intros]:
  "preserves I m \<Longrightarrow> (\<And>e. preserves I (h e)) \<Longrightarrow> preserves I (catchE m h)"
  by (simp add: preserves_def catchE_def split: prod.splits sum.splits) (metis snd_conv)

lemma preserves_forE [preserves_intros]:
  "(\<And>x. x \<in> set xs \<Longrightarrow> preserves I (f x)) \<Longrightarrow> preserves I (forE f xs)"
  by (induction xs) (auto intro!: preserves_intros)

lemma preserves_sumE [preserves_intros]:
  "(\<And>x. x \<in> set xs \<Longrightarrow> preserves I (f x)) \<Longrightarrow> preserves I (sumE f xs)"
  by (induction xs) (auto intro!: preserves_intros)

lemma preserves_if [preserves_intros]:
  "(b \<Longrightarrow> preserves I m) \<Longrightarrow> (\<not> b \<Longrightarrow> preserves I n) \<Longrightarrow> preserves I (if b then m else n)"
  by simp

lemma preserves_case_option [preserves_intros]:
  "(x = None \<Longrightarrow> preserves I m) \<Longrightarrow> (\<And>y. x = Some y \<Longrightarrow> preserves I (n y)) \<Longrightarrow>
     preserves I (case x of None \<Rightarrow> m | Some y \<Rightarrow> n y)"
  by (cases x) simp_all

lemma preserves_conj:
  "preserves I m \<Longrightarrow> preserves J m \<Longrightarrow> preserves (\<lambda>s. I s \<and> J s) m"
  by (simp add: preserves_def)

lemma preserves_case_prod [preserves_intros]:
  "(\<And>a b. p = (a, b) \<Longrightarrow> preserves I (f a b)) \<Longrightarrow> preserves I (case p of (a, b) \<Rightarrow> f a b)"
  by (cases p) simp

text \<open>What an operation establishes when it returns.\<close>

definition ensures :: "('s \<Rightarrow> bool) \<Rightarrow> ('e, 's, 'a) op \<Rightarrow> bool" where
  "ensures Q m \<longleftrightarrow> (\<forall>s x t. m s = (Inr x, t) \<longrightarrow> Q t)"

lemma ensuresD: "ensures Q m \<Longrightarrow> m s = (Inr x, t) \<Longrightarrow> Q t"
  by (auto simp: ensures_def)

lemma ensures_first: "ensures Q m \<Longrightarrow> (\<And>x. preserves Q (k x)) \<Longrightarrow> ensures Q (bindE m k)"
  unfolding ensures_def bindE_Inr_iff by (metis preservesD)

lemma ensures_rest: "(\<And>x. ensures Q (k x)) \<Longrightarrow> ensures Q (bindE m k)"
  by (auto simp: ensures_def bindE_Inr_iff)

lemma ensures_case_prod: "(\<And>a b. ensures Q (f a b)) \<Longrightarrow> ensures Q (case p of (a, b) \<Rightarrow> f a b)"
  by (cases p) simp

section \<open>Tables\<close>

type_synonym 'r table = "'r list"

definition select_where :: "('r \<Rightarrow> bool) \<Rightarrow> 'r table \<Rightarrow> 'r list" where
  "select_where p t = filter p t"

definition select_first :: "('r \<Rightarrow> bool) \<Rightarrow> 'r table \<Rightarrow> 'r option" where
  "select_first p t = List.find p t"

definition update_where :: "('r \<Rightarrow> bool) \<Rightarrow> ('r \<Rightarrow> 'r) \<Rightarrow> 'r table \<Rightarrow> 'r table" where
  "update_where p f t = map (\<lambda>r. if p r then f r else r) t"

definition delete_where :: "('r \<Rightarrow> bool) \<Rightarrow> 'r table \<Rightarrow> 'r table" where
  "delete_where p t = filter (\<lambda>r. \<not> p r) t"

definition count_where :: "('r \<Rightarrow> bool) \<Rightarrow> 'r table \<Rightarrow> nat" where
  "count_where p t = length (filter p t)"

definition exists_row :: "('r \<Rightarrow> bool) \<Rightarrow> 'r table \<Rightarrow> bool" where
  "exists_row p t = list_ex p t"

definition unique_on :: "('r \<Rightarrow> 'k) \<Rightarrow> 'r table \<Rightarrow> bool" where
  "unique_on k t = distinct (map k t)"

lemmas table_defs = select_where_def select_first_def update_where_def delete_where_def
  count_where_def exists_row_def unique_on_def

lemma exists_row_iff: "exists_row p t \<longleftrightarrow> (\<exists>r \<in> set t. p r)"
  by (simp add: exists_row_def list_ex_iff)

lemma exists_row_key [table_simps]: "exists_row (\<lambda>r. k r = x) t \<longleftrightarrow> x \<in> k ` set t"
  by (auto simp: exists_row_iff)

lemma exists_row_disj [table_simps]:
  "exists_row (\<lambda>r. p r \<or> q r) t \<longleftrightarrow> exists_row p t \<or> exists_row q t"
  by (auto simp: exists_row_iff)

lemma ball_update_where [table_simps]:
  "(\<forall>r \<in> set (update_where p f t). P r) \<longleftrightarrow> (\<forall>r \<in> set t. if p r then P (f r) else P r)"
  by (auto simp: update_where_def)

lemma set_delete_where [table_simps]: "set (delete_where p t) = {r \<in> set t. \<not> p r}"
  by (auto simp: delete_where_def)

lemma set_select_where [table_simps]: "set (select_where p t) = {r \<in> set t. p r}"
  by (auto simp: select_where_def)

lemma set_update_where:
  "set (update_where p f t) = f ` {r \<in> set t. p r} \<union> {r \<in> set t. \<not> p r}"
  by (auto simp: update_where_def)

lemma map_update_where:
  "(\<And>r. r \<in> set t \<Longrightarrow> p r \<Longrightarrow> k (f r) = k r) \<Longrightarrow> map k (update_where p f t) = map k t"
  by (auto simp: update_where_def)

lemma unique_on_update_where [table_simps]:
  "(\<And>r. k (f r) = k r) \<Longrightarrow> unique_on k (update_where p f t) = unique_on k t"
  by (simp add: unique_on_def map_update_where)

lemma unique_on_delete_where: "unique_on k t \<Longrightarrow> unique_on k (delete_where p t)"
  by (simp add: unique_on_def delete_where_def distinct_map_filter)

lemma delete_where_subset: "f ` set t \<subseteq> A \<Longrightarrow> f ` set (delete_where p t) \<subseteq> A"
  by (auto simp: delete_where_def)

lemma ball_delete_where: "(\<forall>r \<in> set (delete_where p t). P r) \<longleftrightarrow> (\<forall>r \<in> set t. \<not> p r \<longrightarrow> P r)"
  by (auto simp: delete_where_def)

lemmas delete_rules = unique_on_delete_where delete_where_subset ball_delete_where

lemma set_delete_subset: "set t \<subseteq> A \<Longrightarrow> set (delete_where p t) \<subseteq> A"
  by (auto simp: delete_where_def)

lemma unique_on_Nil [simp]: "unique_on k []"
  by (simp add: unique_on_def)

lemma unique_on_append1 [table_simps]:
  "unique_on k (t @ [r]) \<longleftrightarrow> unique_on k t \<and> k r \<notin> k ` set t"
  by (auto simp: unique_on_def)

lemma unique_onD: "unique_on k t \<Longrightarrow> r \<in> set t \<Longrightarrow> q \<in> set t \<Longrightarrow> k r = k q \<Longrightarrow> r = q"
  by (auto simp: unique_on_def distinct_map dest: inj_onD)

lemma select_first_Some: "select_first p t = Some r \<Longrightarrow> r \<in> set t \<and> p r"
  by (auto simp: select_first_def find_Some_iff)

lemma select_first_None [table_simps]: "select_first p t = None \<longleftrightarrow> (\<forall>r \<in> set t. \<not> p r)"
  by (auto simp: select_first_def find_None_iff)

lemma select_first_unique:
  assumes "unique_on k t" and "r \<in> set t" and "p r" and "\<And>q. p q \<Longrightarrow> k q = k r"
  shows "select_first p t = Some r"
proof (cases "select_first p t")
  case None
  with assms show ?thesis by (simp add: select_first_None)
next
  case (Some q)
  then show ?thesis using assms select_first_Some unique_onD by metis
qed

lemma select_first_append1:
  "select_first p (t @ [r]) =
     (case select_first p t of Some q \<Rightarrow> Some q | None \<Rightarrow> if p r then Some r else None)"
  by (induction t) (auto simp: select_first_def)

lemma select_first_update_where:
  "(\<And>r. p (g r) = p r) \<Longrightarrow>
     select_first p (update_where q g t) =
       map_option (\<lambda>r. if q r then g r else r) (select_first p t)"
  by (induction t) (auto simp: select_first_def update_where_def)

lemma count_where_0 [table_simps]: "count_where p t = 0 \<longleftrightarrow> (\<forall>r \<in> set t. \<not> p r)"
  by (auto simp: count_where_def filter_empty_conv)

lemma update_where_idem: "(\<And>r. r \<in> set t \<Longrightarrow> \<not> p r) \<Longrightarrow> update_where p f t = t"
  by (auto simp: update_where_def intro: map_idI)

lemma delete_where_idem: "(\<And>r. r \<in> set t \<Longrightarrow> \<not> p r) \<Longrightarrow> delete_where p t = t"
  by (auto simp: delete_where_def filter_id_conv)

lemma length_update_where [simp]: "length (update_where p f t) = length t"
  by (simp add: update_where_def)

lemma count_where_unique:
  assumes "unique_on k t" and "\<And>q r. p q \<Longrightarrow> p r \<Longrightarrow> k q = k r"
  shows "count_where p t = (if exists_row p t then 1 else 0)"
  using assms
proof (induction t)
  case Nil
  then show ?case by (simp add: count_where_def exists_row_def)
next
  case (Cons a t)
  have "unique_on k t" using Cons.prems(1) by (simp add: unique_on_def)
  then have IH: "count_where p t = (if exists_row p t then 1 else 0)"
    using Cons.IH Cons.prems(2) by blast
  have "\<not> exists_row p t" if "p a"
  proof -
    have "k a \<notin> k ` set t" using Cons.prems(1) by (simp add: unique_on_def)
    then show ?thesis using Cons.prems(2) [OF _ that] by (auto simp: exists_row_iff image_iff)
  qed
  with IH show ?case by (auto simp: count_where_def exists_row_def)
qed

text \<open>\<open>order by e limit 1\<close>: the first row of least key.\<close>

definition order_by :: "('r \<Rightarrow> 'k::linorder) \<Rightarrow> 'r list \<Rightarrow> 'r list" where
  "order_by k t = sort_key k t"

definition first_by :: "('r \<Rightarrow> 'k::linorder) \<Rightarrow> 'r list \<Rightarrow> 'r option" where
  "first_by k t = (case order_by k t of [] \<Rightarrow> None | r # _ \<Rightarrow> Some r)"

lemma set_order_by [simp]: "set (order_by k t) = set t"
  by (simp add: order_by_def)

lemma first_by_None [simp]: "first_by k t = None \<longleftrightarrow> t = []"
proof -
  have "order_by k t = [] \<longleftrightarrow> t = []" by (metis set_empty set_order_by)
  then show ?thesis by (auto simp: first_by_def split: list.splits)
qed

lemma first_by_Some:
  assumes "first_by k t = Some r"
  shows "r \<in> set t" and "\<And>q. q \<in> set t \<Longrightarrow> k r \<le> k q"
proof -
  obtain rs where rs: "order_by k t = r # rs"
    using assms by (auto simp: first_by_def split: list.splits)
  have "sorted (map k (r # rs))"
    using rs unfolding order_by_def by (metis sorted_sort_key)
  moreover have set: "set t = set (r # rs)"
    using rs by (metis set_order_by)
  ultimately show "r \<in> set t" and "\<And>q. q \<in> set t \<Longrightarrow> k r \<le> k q" by auto
qed

definition order_by_desc :: "('r \<Rightarrow> 'k::linorder) \<Rightarrow> 'r list \<Rightarrow> 'r list" where
  "order_by_desc k t = rev (sort_key k (rev t))"

lemma set_order_by_desc [simp]: "set (order_by_desc k t) = set t"
  by (simp add: order_by_desc_def)

definition first_by_desc :: "('r \<Rightarrow> 'k::linorder) \<Rightarrow> 'r list \<Rightarrow> 'r option" where
  "first_by_desc k t = (case order_by_desc k t of [] \<Rightarrow> None | r # _ \<Rightarrow> Some r)"

lemma first_by_desc_Some:
  assumes "first_by_desc k t = Some r"
  shows "r \<in> set t"
proof -
  obtain rs where "order_by_desc k t = r # rs"
    using assms by (auto simp: first_by_desc_def split: list.splits)
  then show ?thesis by (metis list.set_intros(1) set_order_by_desc)
qed

lemma first_by_desc_None [simp]: "first_by_desc k t = None \<longleftrightarrow> t = []"
proof -
  have "order_by_desc k t = [] \<longleftrightarrow> t = []" by (metis set_empty set_order_by_desc)
  then show ?thesis by (auto simp: first_by_desc_def split: list.splits)
qed

lemma image_update_where [table_simps]:
  "(\<And>r. k (f r) = k r) \<Longrightarrow> k ` set (update_where p f t) = k ` set t"
  using map_update_where [of t p k f] by (metis list.set_map)

section \<open>Optional values\<close>

text \<open>\<open>a ?? b\<close>, and \<open>x ? String(x) : undefined\<close> on a text column, where the empty
  string counts as absent.\<close>

definition nullish :: "'a option \<Rightarrow> 'a \<Rightarrow> 'a" where
  "nullish x d = (case x of None \<Rightarrow> d | Some y \<Rightarrow> y)"

definition coalesce :: "'a option \<Rightarrow> 'a option \<Rightarrow> 'a option" where
  "coalesce x y = (case x of None \<Rightarrow> y | Some z \<Rightarrow> Some z)"

definition truthy :: "string option \<Rightarrow> bool" where
  "truthy x = (case x of None \<Rightarrow> False | Some s \<Rightarrow> s \<noteq> [])"

definition text_or_undefined :: "string option \<Rightarrow> string option" where
  "text_or_undefined x = (if truthy x then x else None)"

lemma nullish_simps [simp]: "nullish None d = d" "nullish (Some y) d = y"
  by (simp_all add: nullish_def)

lemma coalesce_simps [simp]: "coalesce None y = y" "coalesce (Some z) y = Some z"
  by (simp_all add: coalesce_def)

lemma truthy_simps [simp]: "\<not> truthy None" "truthy (Some s) \<longleftrightarrow> s \<noteq> []"
  by (simp_all add: truthy_def)

lemma truthy_iff: "truthy x \<longleftrightarrow> (\<exists>s. x = Some s \<and> s \<noteq> [])"
  by (cases x) simp_all

section \<open>Strings\<close>

definition starts_with :: "string \<Rightarrow> string \<Rightarrow> bool" where
  "starts_with s p \<longleftrightarrow> take (length p) s = p"

definition ends_with :: "string \<Rightarrow> string \<Rightarrow> bool" where
  "ends_with s p \<longleftrightarrow> length p \<le> length s \<and> drop (length s - length p) s = p"

fun includes_str :: "string \<Rightarrow> string \<Rightarrow> bool" where
  "includes_str [] p \<longleftrightarrow> p = []"
| "includes_str (c # s) p \<longleftrightarrow> starts_with (c # s) p \<or> includes_str s p"

definition to_lower_char :: "char \<Rightarrow> char" where
  "to_lower_char c = (let n = of_char c :: nat in
     if 65 \<le> n \<and> n \<le> 90 then char_of (n + 32) else c)"

definition toLowerCase :: "string \<Rightarrow> string" where
  "toLowerCase s = map to_lower_char s"

definition is_space :: "char \<Rightarrow> bool" where
  "is_space c \<longleftrightarrow> (let n = of_char c :: nat in n = 32 \<or> (9 \<le> n \<and> n \<le> 13))"

definition trim :: "string \<Rightarrow> string" where
  "trim s = rev (dropWhile is_space (rev (dropWhile is_space s)))"

fun split_on :: "char \<Rightarrow> string \<Rightarrow> string list" where
  "split_on c [] = [[]]"
| "split_on c (x # xs) =
     (if x = c then [] # split_on c xs
      else case split_on c xs of [] \<Rightarrow> [[x]] | y # ys \<Rightarrow> (x # y) # ys)"

fun join_with :: "string \<Rightarrow> string list \<Rightarrow> string" where
  "join_with sep [] = []"
| "join_with sep [x] = x"
| "join_with sep (x # y # ys) = x @ sep @ join_with sep (y # ys)"

definition is_digit :: "char \<Rightarrow> bool" where
  "is_digit c \<longleftrightarrow> (let n = of_char c :: nat in 48 \<le> n \<and> n \<le> 57)"

definition code_between :: "nat \<Rightarrow> nat \<Rightarrow> char \<Rightarrow> bool" where
  "code_between a b c \<longleftrightarrow> a \<le> of_char c \<and> of_char c \<le> b"

definition is_alnum :: "char \<Rightarrow> bool" where
  "is_alnum c \<longleftrightarrow> is_digit c \<or> code_between 65 90 c \<or> code_between 97 122 c"

definition digit_val :: "char \<Rightarrow> nat" where
  "digit_val c = of_char c - 48"

definition digit_char :: "nat \<Rightarrow> char" where
  "digit_char n = char_of (48 + n)"

lemma toLowerCase_append [simp]: "toLowerCase (s @ t) = toLowerCase s @ toLowerCase t"
  by (simp add: toLowerCase_def)

lemma starts_with_iff: "starts_with s p \<longleftrightarrow> (\<exists>t. s = p @ t)"
  unfolding starts_with_def by (metis append_eq_conv_conj append_take_drop_id)

lemma ends_with_iff: "ends_with s p \<longleftrightarrow> (\<exists>t. s = t @ p)"
proof
  assume "ends_with s p"
  then show "\<exists>t. s = t @ p" unfolding ends_with_def by (metis append_take_drop_id)
next
  assume "\<exists>t. s = t @ p"
  then show "ends_with s p" by (auto simp: ends_with_def)
qed

lemma split_on_ne [simp]: "split_on c s \<noteq> []"
  by (induction s) (auto split: list.splits)

lemma split_on_append:
  "c \<notin> set a \<Longrightarrow> split_on c (a @ c # b) = a # split_on c b"
  by (induction a) auto

lemma split_on_notin: "c \<notin> set a \<Longrightarrow> split_on c a = [a]"
  by (induction a) auto

section \<open>Decimal notation\<close>

lemma of_char_digit_char [simp]: "n < 10 \<Longrightarrow> of_char (digit_char n) = 48 + n"
  by (simp add: digit_char_def)

lemma is_digit_digit_char [simp]: "n < 10 \<Longrightarrow> is_digit (digit_char n)"
  by (simp add: is_digit_def)

lemma digit_val_digit_char [simp]: "n < 10 \<Longrightarrow> digit_val (digit_char n) = n"
  by (simp add: digit_val_def)

lemma digit_char_less [simp]: "m < 10 \<Longrightarrow> n < 10 \<Longrightarrow> digit_char m < digit_char n \<longleftrightarrow> m < n"
  by (simp add: less_char_def)

lemma digit_char_eq [simp]: "m < 10 \<Longrightarrow> n < 10 \<Longrightarrow> digit_char m = digit_char n \<longleftrightarrow> m = n"
  by (metis digit_val_digit_char)

text \<open>\<open>pad k n\<close>: the number \<open>n\<close> in exactly \<open>k\<close> decimal digits.\<close>

fun pad :: "nat \<Rightarrow> nat \<Rightarrow> string" where
  "pad 0 n = []"
| "pad (Suc k) n = pad k (n div 10) @ [digit_char (n mod 10)]"

lemma length_pad [simp]: "length (pad k n) = k"
  by (induction k arbitrary: n) auto

lemma list_less_append:
  fixes a b c d :: "'a::linorder list"
  assumes "length a = length b"
  shows "a @ c < b @ d \<longleftrightarrow> a < b \<or> (a = b \<and> c < d)"
  using assms by (induction a b rule: list_induct2) auto

lemma less_div_mod_iff:
  "(m::nat) < n \<longleftrightarrow> m div k < n div k \<or> (m div k = n div k \<and> m mod k < n mod k)"
proof (cases "m div k" "n div k" rule: linorder_cases)
  case less
  then show ?thesis by (metis div_le_mono leD leI)
next
  case equal
  then show ?thesis by (metis div_mult_mod_eq nat_add_left_cancel_less less_irrefl)
next
  case greater
  then show ?thesis by (metis div_le_mono leD less_imp_le not_less_iff_gr_or_eq)
qed

lemma pad_less:
  "m < 10 ^ k \<Longrightarrow> n < 10 ^ k \<Longrightarrow> pad k m < pad k n \<longleftrightarrow> m < n"
proof (induction k arbitrary: m n)
  case 0
  then show ?case by simp
next
  case (Suc k)
  have q: "m div 10 < 10 ^ k" "n div 10 < 10 ^ k" using Suc.prems by auto
  have eq: "pad k (m div 10) = pad k (n div 10) \<longleftrightarrow> m div 10 = n div 10"
    using Suc.IH [OF q] Suc.IH [OF q(2) q(1)] by (metis less_irrefl nat_neq_iff)
  have "m < n \<longleftrightarrow> m div 10 < n div 10 \<or> (m div 10 = n div 10 \<and> m mod 10 < n mod 10)"
    by (rule less_div_mod_iff)
  then show ?case by (simp add: list_less_append Suc.IH [OF q] eq)
qed

lemma pad_eq: "m < 10 ^ k \<Longrightarrow> n < 10 ^ k \<Longrightarrow> pad k m = pad k n \<longleftrightarrow> m = n"
  by (metis pad_less less_irrefl nat_neq_iff)

text \<open>\<open>String(n)\<close> of an integer.\<close>

fun show_nat :: "nat \<Rightarrow> string" where
  "show_nat n = (if n < 10 then [digit_char n] else show_nat (n div 10) @ [digit_char (n mod 10)])"

declare show_nat.simps [simp del]

definition show_int :: "int \<Rightarrow> string" where
  "show_int i = (if i < 0 then ''-'' @ show_nat (nat (- i)) else show_nat (nat i))"

definition padStart :: "nat \<Rightarrow> char \<Rightarrow> string \<Rightarrow> string" where
  "padStart k c s = replicate (k - length s) c @ s"

text \<open>Reading digits.\<close>

definition nat_of_digits :: "string \<Rightarrow> nat" where
  "nat_of_digits s = foldl (\<lambda>n c. 10 * n + digit_val c) 0 s"

definition read_digits :: "nat \<Rightarrow> string \<Rightarrow> (nat \<times> string) option" where
  "read_digits k s = (if k \<le> length s \<and> list_all is_digit (take k s)
     then Some (nat_of_digits (take k s), drop k s) else None)"

definition read_char :: "char \<Rightarrow> string \<Rightarrow> string option" where
  "read_char c s = (case s of [] \<Rightarrow> None | x # xs \<Rightarrow> if x = c then Some xs else None)"

lemma nat_of_digits_snoc [simp]: "nat_of_digits (s @ [c]) = 10 * nat_of_digits s + digit_val c"
  by (simp add: nat_of_digits_def)

lemma nat_of_digits_pad [simp]: "n < 10 ^ k \<Longrightarrow> nat_of_digits (pad k n) = n"
proof (induction k arbitrary: n)
  case 0
  then show ?case by (simp add: nat_of_digits_def)
next
  case (Suc k)
  then have "n div 10 < 10 ^ k" by auto
  then show ?case by (simp add: Suc.IH)
qed

lemma list_all_is_digit_pad [simp]: "list_all is_digit (pad k n)"
  by (induction k arbitrary: n) auto

lemma read_digits_pad [simp]:
  "n < 10 ^ k \<Longrightarrow> read_digits k (pad k n @ rest) = Some (n, rest)"
  by (simp add: read_digits_def)

lemma show_nat_digits [simp]: "list_all is_digit (show_nat n)"
  by (induction n rule: show_nat.induct) (subst show_nat.simps, simp)

lemma show_nat_ne [simp]: "show_nat n \<noteq> []"
  by (subst show_nat.simps) simp

lemma nat_of_digits_show_nat [simp]: "nat_of_digits (show_nat n) = n"
proof (induction n rule: show_nat.induct)
  case (1 n)
  show ?case
  proof (cases "n < 10")
    case True
    then show ?thesis by (simp add: show_nat.simps [of n] nat_of_digits_def)
  next
    case False
    with 1 show ?thesis by (simp add: show_nat.simps [of n])
  qed
qed

lemma show_nat_inject [simp]: "show_nat m = show_nat n \<longleftrightarrow> m = n"
  by (metis nat_of_digits_show_nat)

section \<open>Number(s)\<close>

text \<open>
  The conversion of a string to a number: surrounding white space is ignored, the empty string
  is 0, and the literals are decimal (with fraction and exponent), \<open>0x\<close>, \<open>0o\<close>,
  \<open>0b\<close> and \<open>Infinity\<close>. Values are exact (\<open>rat\<close>): the rounding to a double is
  not modelled.
\<close>

datatype jsnum = NaN | Infinite bool | Finite rat

definition hex_val :: "char \<Rightarrow> nat option" where
  "hex_val c = (let n = of_char c :: nat in
     if 48 \<le> n \<and> n \<le> 57 then Some (n - 48)
     else if 97 \<le> n \<and> n \<le> 102 then Some (n - 87)
     else if 65 \<le> n \<and> n \<le> 70 then Some (n - 55) else None)"

fun radix_digits :: "nat \<Rightarrow> nat \<Rightarrow> string \<Rightarrow> nat option" where
  "radix_digits b acc [] = Some acc"
| "radix_digits b acc (c # cs) = (case hex_val c of None \<Rightarrow> None
     | Some d \<Rightarrow> if d < b then radix_digits b (b * acc + d) cs else None)"

definition radix_literal :: "nat \<Rightarrow> string \<Rightarrow> jsnum" where
  "radix_literal b s = (if s = [] then NaN
     else case radix_digits b 0 s of None \<Rightarrow> NaN | Some n \<Rightarrow> Finite (of_nat n))"

definition dec_literal :: "string \<Rightarrow> jsnum" where
  "dec_literal s =
     (let i = takeWhile is_digit s; r = dropWhile is_digit s;
          dot = (r \<noteq> [] \<and> hd r = CHR ''.'');
          f = (if dot then takeWhile is_digit (tl r) else []);
          r2 = (if dot then dropWhile is_digit (tl r) else r);
          m = (of_nat (nat_of_digits (i @ f)) / 10 ^ length f :: rat)
      in if i = [] \<and> f = [] then NaN
         else case r2 of [] \<Rightarrow> Finite m
         | e # r3 \<Rightarrow>
           if e = CHR ''e'' \<or> e = CHR ''E'' then
             let neg = (r3 \<noteq> [] \<and> hd r3 = CHR ''-'');
                 x = (if r3 \<noteq> [] \<and> (hd r3 = CHR ''-'' \<or> hd r3 = CHR ''+'') then tl r3 else r3)
             in if x = [] \<or> \<not> list_all is_digit x then NaN
                else Finite (if neg then m / 10 ^ nat_of_digits x else m * 10 ^ nat_of_digits x)
           else NaN)"

definition signed_literal :: "string \<Rightarrow> jsnum" where
  "signed_literal s =
     (let neg = (s \<noteq> [] \<and> hd s = CHR ''-'');
          x = (if s \<noteq> [] \<and> (hd s = CHR ''-'' \<or> hd s = CHR ''+'') then tl s else s)
      in if x = ''Infinity'' then Infinite neg
         else case dec_literal x of Finite r \<Rightarrow> Finite (if neg then - r else r) | v \<Rightarrow> v)"

definition jsNumber :: "string \<Rightarrow> jsnum" where
  "jsNumber s = (let t = trim s in
     if t = [] then Finite 0
     else if starts_with t ''0x'' \<or> starts_with t ''0X'' then radix_literal 16 (drop 2 t)
     else if starts_with t ''0o'' \<or> starts_with t ''0O'' then radix_literal 8 (drop 2 t)
     else if starts_with t ''0b'' \<or> starts_with t ''0B'' then radix_literal 2 (drop 2 t)
     else signed_literal t)"

lemma digit_not_space: "is_digit c \<Longrightarrow> \<not> is_space c"
  by (auto simp: is_digit_def is_space_def Let_def)

lemma trim_digits: "list_all is_digit s \<Longrightarrow> trim s = s"
proof -
  assume s: "list_all is_digit s"
  have "dropWhile is_space t = t" if "list_all is_digit t" for t
    using that by (cases t) (auto simp: digit_not_space)
  moreover have "list_all is_digit (rev s)" using s by (simp add: list_all_iff)
  ultimately show ?thesis using s by (simp add: trim_def)
qed

lemma digits_not_radix:
  assumes "list_all is_digit s"
  shows "\<not> starts_with s ''0x'' \<and> \<not> starts_with s ''0X'' \<and> \<not> starts_with s ''0o'' \<and>
    \<not> starts_with s ''0O'' \<and> \<not> starts_with s ''0b'' \<and> \<not> starts_with s ''0B''"
  using assms by (auto simp: starts_with_iff is_digit_def)

lemma jsNumber_digits:
  assumes "list_all is_digit s" and "s \<noteq> []"
  shows "jsNumber s = Finite (of_nat (nat_of_digits s))"
proof -
  have tw: "takeWhile is_digit s = s" "dropWhile is_digit s = []"
    using assms(1) by (simp_all add: list_all_iff)
  have hd: "hd s \<noteq> CHR ''-''" "hd s \<noteq> CHR ''+''" "s \<noteq> ''Infinity''"
    using assms by (cases s; auto simp: is_digit_def)+
  have "dec_literal s = Finite (of_nat (nat_of_digits s))"
    using assms(2) by (simp add: dec_literal_def tw)
  then show ?thesis
    using assms hd digits_not_radix [OF assms(1)]
    by (simp add: jsNumber_def trim_digits signed_literal_def)
qed

end
