(* ===== verification/DateTime.thy ===== *)
theory DateTime
  imports Prelude
begin

text \<open>
  Time values and their ISO 8601 text.

  A time value is the number of milliseconds since 1970 (an \<open>int\<close>); the calendar is the
  proleptic Gregorian one of the ECMAScript specification. \<open>toISOString\<close> is what
  \<open>nowIso\<close> of src/src/lib/util.ts writes into every timestamp column, and the SQL statements
  of the repositories compare these columns as texts. The main results are that this text order is
  the order of time (\<open>toISOString_less\<close>) and that \<open>Date.parse\<close> reads the text back
  (\<open>Date_parse_toISOString\<close>). The second part is src/src/lib/date.ts.
\<close>

section \<open>The calendar\<close>

definition msPerDay :: int where
  "msPerDay = 86400000"

definition DayFromYear :: "int \<Rightarrow> int" where
  "DayFromYear y = 365 * (y - 1970) + (y - 1969) div 4 - (y - 1901) div 100 + (y - 1601) div 400"

definition InLeapYear :: "int \<Rightarrow> bool" where
  "InLeapYear y \<longleftrightarrow> y mod 4 = 0 \<and> (y mod 100 \<noteq> 0 \<or> y mod 400 = 0)"

definition YearFromDay :: "int \<Rightarrow> int" where
  "YearFromDay d = (let y = 1970 + (400 * d) div 146097 in
     if d < DayFromYear y then y - 1 else if DayFromYear (y + 1) \<le> d then y + 1 else y)"

definition monthStart :: "bool \<Rightarrow> nat \<Rightarrow> int" where
  "monthStart leap m =
     [0, 31, 59, 90, 120, 151, 181, 212, 243, 273, 304, 334] ! m + (if leap \<and> 2 \<le> m then 1 else 0)"

definition MonthFromDay :: "bool \<Rightarrow> int \<Rightarrow> nat" where
  "MonthFromDay leap doy =
     (if doy < monthStart leap 1 then 0 else if doy < monthStart leap 2 then 1
      else if doy < monthStart leap 3 then 2 else if doy < monthStart leap 4 then 3
      else if doy < monthStart leap 5 then 4 else if doy < monthStart leap 6 then 5
      else if doy < monthStart leap 7 then 6 else if doy < monthStart leap 8 then 7
      else if doy < monthStart leap 9 then 8 else if doy < monthStart leap 10 then 9
      else if doy < monthStart leap 11 then 10 else 11)"

definition dayOfYear :: "int \<Rightarrow> int" where
  "dayOfYear d = d - DayFromYear (YearFromDay d)"

definition monthOf :: "int \<Rightarrow> nat" where
  "monthOf d = MonthFromDay (InLeapYear (YearFromDay d)) (dayOfYear d)"

definition dateOf :: "int \<Rightarrow> int" where
  "dateOf d = dayOfYear d - monthStart (InLeapYear (YearFromDay d)) (monthOf d) + 1"

definition MakeDay :: "int \<Rightarrow> nat \<Rightarrow> int \<Rightarrow> int" where
  "MakeDay y m dt = DayFromYear y + monthStart (InLeapYear y) m + dt - 1"

definition WeekDay :: "int \<Rightarrow> int" where
  "WeekDay d = (d + 4) mod 7"

lemma div_Suc_int:
  assumes "0 < (k::int)"
  shows "(a + 1) div k = a div k + (if (a + 1) mod k = 0 then 1 else 0)"
proof (cases "a mod k + 1 = k")
  case True
  then have "a + 1 = (a div k + 1) * k" by (metis add.assoc div_mult_mod_eq distrib_right mult_1)
  then show ?thesis using assms by simp
next
  case False
  then have r: "0 \<le> a mod k + 1" "a mod k + 1 < k"
    using pos_mod_bound [OF assms, of a] pos_mod_sign [OF assms, of a] by linarith+
  have e: "a + 1 = k * (a div k) + (a mod k + 1)" by simp
  have "(a + 1) div k = a div k" using int_div_pos_eq [OF e r] .
  moreover have "(a + 1) mod k = a mod k + 1" using int_mod_pos_eq [OF e r] .
  moreover have "a mod k + 1 \<noteq> 0" using pos_mod_sign [OF assms, of a] by linarith
  ultimately show ?thesis by simp
qed

lemma leap_arith:
  fixes y p q r :: int
  assumes "C \<longrightarrow> B" and "B \<longrightarrow> A"
  shows "365 * (y - 1969) + (p + (if A then 1 else 0)) - (q + (if B then 1 else 0))
     + (r + (if C then 1 else 0)) =
     365 * (y - 1970) + p - q + r + (if A \<and> (\<not> B \<or> C) then 366 else 365)"
  using assms by (cases A; cases B; cases C) (simp_all add: algebra_simps)

lemma DayFromYear_Suc: "DayFromYear (y + 1) = DayFromYear y + (if InLeapYear y then 366 else 365)"
proof -
  define A B C where "A \<longleftrightarrow> y mod 4 = 0" and "B \<longleftrightarrow> y mod 100 = 0" and "C \<longleftrightarrow> y mod 400 = 0"
  have a: "(y - 1968) div 4 = (y - 1969) div 4 + (if A then 1 else 0)"
    using div_Suc_int [of 4 "y - 1969"] mod_mult_self1 [of "y - 1968" 492 4] by (simp add: A_def)
  have b: "(y - 1900) div 100 = (y - 1901) div 100 + (if B then 1 else 0)"
    using div_Suc_int [of 100 "y - 1901"] mod_mult_self1 [of "y - 1900" 19 100]
    by (simp add: B_def)
  have c: "(y - 1600) div 400 = (y - 1601) div 400 + (if C then 1 else 0)"
    using div_Suc_int [of 400 "y - 1601"] mod_mult_self1 [of "y - 1600" 4 400]
    by (simp add: C_def)
  have cb: "C \<longrightarrow> B" and ba: "B \<longrightarrow> A"
    using mod_mod_cancel [of "100::int" 400 y] mod_mod_cancel [of "4::int" 100 y]
    unfolding A_def B_def C_def by auto
  have shift: "y + 1 - 1970 = y - 1969" "y + 1 - 1969 = y - 1968" "y + 1 - 1901 = y - 1900"
    "y + 1 - 1601 = y - 1600" by simp_all
  define p q r where "p = (y - 1969) div 4" and "q = (y - 1901) div 100" and "r = (y - 1601) div 400"
  have "DayFromYear (y + 1) = 365 * (y - 1969) + (p + (if A then 1 else 0))
      - (q + (if B then 1 else 0)) + (r + (if C then 1 else 0))"
    unfolding DayFromYear_def shift a b c p_def q_def r_def ..
  moreover have "DayFromYear y = 365 * (y - 1970) + p - q + r"
    unfolding DayFromYear_def p_def q_def r_def ..
  moreover have "InLeapYear y \<longleftrightarrow> A \<and> (\<not> B \<or> C)"
    unfolding InLeapYear_def A_def B_def C_def ..
  ultimately show ?thesis
    using leap_arith [OF cb ba, of y p q r] by (simp only:)
qed

lemma DayFromYear_mono: "x \<le> y \<Longrightarrow> DayFromYear x \<le> DayFromYear y"
proof (induction y rule: int_ge_induct)
  case base
  then show ?case by simp
next
  case (step i)
  then show ?case by (simp add: DayFromYear_Suc)
qed

lemma div_bounds: "0 < (k::int) \<Longrightarrow> k * (a div k) \<le> a \<and> a < k * (a div k) + k"
  by (metis add_le_cancel_left add_less_cancel_left add.right_neutral mult_div_mod_eq pos_mod_bound
      pos_mod_sign)

lemma DayFromYear_bounds:
  "146097 * (y - 1970) - 800 \<le> 400 * DayFromYear y" "400 * DayFromYear y \<le> 146097 * (y - 1970) + 700"
  using div_bounds [of 4 "y - 1969"] div_bounds [of 100 "y - 1901"] div_bounds [of 400 "y - 1601"]
  by (simp_all add: DayFromYear_def)

lemma YearFromDay_bounds:
  "DayFromYear (YearFromDay d) \<le> d \<and> d < DayFromYear (YearFromDay d + 1)"
proof -
  define y where "y = 1970 + (400 * d) div 146097"
  have y: "146097 * (y - 1970) \<le> 400 * d \<and> 400 * d < 146097 * (y - 1970) + 146097"
    using div_bounds [of 146097 "400 * d"] by (simp add: y_def)
  have "DayFromYear (y - 1) \<le> d" using DayFromYear_bounds(2) [of "y - 1"] y by simp
  moreover have "d < DayFromYear (y + 2)" using DayFromYear_bounds(1) [of "y + 2"] y by simp
  ultimately show ?thesis by (auto simp: YearFromDay_def y_def [symmetric] Let_def add.commute)
qed

lemma YearFromDay_unique: "DayFromYear y \<le> d \<Longrightarrow> d < DayFromYear (y + 1) \<Longrightarrow> YearFromDay d = y"
  using YearFromDay_bounds [of d] DayFromYear_mono [of "y + 1" "YearFromDay d"]
    DayFromYear_mono [of "YearFromDay d + 1" y] by force

lemma YearFromDay_mono: "c \<le> d \<Longrightarrow> YearFromDay c \<le> YearFromDay d"
  using YearFromDay_bounds [of c] YearFromDay_bounds [of d]
    DayFromYear_mono [of "YearFromDay d + 1" "YearFromDay c"] by force

lemma dayOfYear_bounds:
  "0 \<le> dayOfYear d \<and> dayOfYear d < (if InLeapYear (YearFromDay d) then 366 else 365)"
  using YearFromDay_bounds [of d] by (simp add: dayOfYear_def DayFromYear_Suc)

lemma monthStart_simps [simp]:
  "monthStart l 0 = 0" "monthStart l 1 = 31" "monthStart l (Suc 0) = 31"
  "monthStart l 2 = (if l then 60 else 59)" "monthStart l 3 = (if l then 91 else 90)"
  "monthStart l 4 = (if l then 121 else 120)" "monthStart l 5 = (if l then 152 else 151)"
  "monthStart l 6 = (if l then 182 else 181)" "monthStart l 7 = (if l then 213 else 212)"
  "monthStart l 8 = (if l then 244 else 243)" "monthStart l 9 = (if l then 274 else 273)"
  "monthStart l 10 = (if l then 305 else 304)" "monthStart l 11 = (if l then 335 else 334)"
  by (simp_all add: monthStart_def)

lemma MonthFromDay_le: "MonthFromDay l doy \<le> 11"
  by (simp add: MonthFromDay_def)

lemma MonthFromDay_start:
  "0 \<le> doy \<Longrightarrow> doy < 365 + (if l then 1 else 0) \<Longrightarrow>
     monthStart l (MonthFromDay l doy) \<le> doy \<and> doy < monthStart l (MonthFromDay l doy) + 31"
  by (cases l) (auto simp: MonthFromDay_def)

lemma MonthFromDay_mono: "a \<le> b \<Longrightarrow> MonthFromDay l a \<le> MonthFromDay l b"
  by (cases l) (simp_all add: MonthFromDay_def)

lemma dateOf_bounds: "1 \<le> dateOf d \<and> dateOf d \<le> 31"
  using dayOfYear_bounds [of d] MonthFromDay_start [of "dayOfYear d" "InLeapYear (YearFromDay d)"]
  by (auto simp: dateOf_def monthOf_def split: if_splits)

lemma monthOf_le: "monthOf d \<le> 11"
  by (simp add: monthOf_def MonthFromDay_le)

lemma MakeDay_inverse: "MakeDay (YearFromDay d) (monthOf d) (dateOf d) = d"
  by (simp add: MakeDay_def dateOf_def dayOfYear_def)

section \<open>toISOString\<close>

definition DayOf :: "int \<Rightarrow> int" where
  "DayOf t = t div msPerDay"

definition TimeWithinDay :: "int \<Rightarrow> nat" where
  "TimeWithinDay t = nat (t mod msPerDay)"

definition dateText :: "int \<Rightarrow> string" where
  "dateText d = (let y = YearFromDay d in
     (if 0 \<le> y \<and> y \<le> 9999 then pad 4 (nat y)
      else (if y < 0 then ''-'' else ''+'') @ pad 6 (nat \<bar>y\<bar>))
     @ ''-'' @ pad 2 (Suc (monthOf d)) @ ''-'' @ pad 2 (nat (dateOf d)))"

definition timeText :: "nat \<Rightarrow> string" where
  "timeText n = pad 2 (n div 3600000) @ '':'' @ pad 2 (n div 60000 mod 60) @ '':''
     @ pad 2 (n div 1000 mod 60) @ ''.'' @ pad 3 (n mod 1000)"

definition toISOString :: "int \<Rightarrow> string" where
  "toISOString t = dateText (DayOf t) @ ''T'' @ timeText (TimeWithinDay t) @ ''Z''"

text \<open>The time values of the years 0 to 9999, whose text has the fixed width of 24 characters.\<close>

definition iso_range :: "int \<Rightarrow> bool" where
  "iso_range t \<longleftrightarrow> - 62167219200000 \<le> t \<and> t < 253402300800000"

lemma iso_range_year: "iso_range t \<Longrightarrow> 0 \<le> YearFromDay (DayOf t) \<and> YearFromDay (DayOf t) \<le> 9999"
proof -
  assume "iso_range t"
  then have "- 719528 \<le> DayOf t" "DayOf t < 2932897"
    unfolding iso_range_def DayOf_def msPerDay_def by linarith+
  moreover have "DayFromYear 0 = - 719528" "DayFromYear 10000 = 2932897"
    by (simp_all add: DayFromYear_def)
  ultimately show ?thesis
    using YearFromDay_bounds [of "DayOf t"] DayFromYear_mono [of "YearFromDay (DayOf t) + 1" 0]
      DayFromYear_mono [of 10000 "YearFromDay (DayOf t)"] by linarith
qed

lemma pad_field_less:
  "m < 10 ^ k \<Longrightarrow> n < 10 ^ k \<Longrightarrow> pad k m @ c < pad k n @ d \<longleftrightarrow> m < n \<or> m = n \<and> c < d"
  by (simp add: list_less_append pad_less pad_eq)

lemma pad2_less: "m < 100 \<Longrightarrow> n < 100 \<Longrightarrow> pad 2 m < pad 2 n \<longleftrightarrow> m < n"
  by (simp add: pad_less)

lemma pad2_eq: "m < 100 \<Longrightarrow> n < 100 \<Longrightarrow> pad 2 m = pad 2 n \<longleftrightarrow> m = n"
  by (simp add: pad_eq)

lemma TimeWithinDay_bound: "TimeWithinDay t < 86400000"
  by (simp add: TimeWithinDay_def msPerDay_def nat_less_iff)

lemma div_mod_60: "(n::nat) div 60000 div 60 = n div 3600000" "n div 1000 div 60 = n div 60000"
  by (simp_all add: div_mult2_eq [symmetric])

lemma timeText_less:
  assumes "m < n" and "n < 86400000"
  shows "timeText m < timeText n"
proof -
  have "m div 1000 < n div 1000 \<or> m div 1000 = n div 1000 \<and> m mod 1000 < n mod 1000"
    using assms(1) less_div_mod_iff by blast
  moreover have "m div 1000 < n div 1000 \<longleftrightarrow> m div 60000 < n div 60000 \<or>
      m div 60000 = n div 60000 \<and> m div 1000 mod 60 < n div 1000 mod 60"
    using less_div_mod_iff [of "m div 1000" "n div 1000" 60] by (simp add: div_mod_60)
  moreover have "m div 60000 < n div 60000 \<longleftrightarrow> m div 3600000 < n div 3600000 \<or>
      m div 3600000 = n div 3600000 \<and> m div 60000 mod 60 < n div 60000 mod 60"
    using less_div_mod_iff [of "m div 60000" "n div 60000" 60] by (simp add: div_mod_60)
  moreover have "m div 1000 = n div 1000 \<Longrightarrow> m div 60000 = n div 60000"
    "m div 60000 = n div 60000 \<Longrightarrow> m div 3600000 = n div 3600000"
    by (metis div_mod_60(2)) (metis div_mod_60(1))
  moreover have "m div 3600000 < 100" "n div 3600000 < 100" using assms by auto
  moreover have "k mod 60 < 100" "k mod 1000 < 1000" for k :: nat
    using mod_less_divisor [of 60 k] mod_less_divisor [of 1000 k] by linarith+
  moreover have "timeText m < timeText n \<longleftrightarrow>
      m div 3600000 < n div 3600000 \<or> m div 3600000 = n div 3600000 \<and>
      (m div 60000 mod 60 < n div 60000 mod 60 \<or> m div 60000 mod 60 = n div 60000 mod 60 \<and>
      (m div 1000 mod 60 < n div 1000 mod 60 \<or> m div 1000 mod 60 = n div 1000 mod 60 \<and>
       m mod 1000 < n mod 1000))"
    using calculation by (simp add: timeText_def pad_field_less pad_less)
  ultimately show ?thesis by metis
qed

lemma dateText_less:
  assumes "c < d" and "0 \<le> YearFromDay c" and "YearFromDay d \<le> 9999"
  shows "dateText c < dateText d"
proof -
  have y: "YearFromDay c \<le> YearFromDay d" using assms(1) by (simp add: YearFromDay_mono)
  have m: "monthOf c \<le> monthOf d" if "YearFromDay c = YearFromDay d"
    using that assms(1) by (simp add: monthOf_def dayOfYear_def MonthFromDay_mono)
  have dd: "dateOf c < dateOf d" if "YearFromDay c = YearFromDay d" "monthOf c = monthOf d"
    using that assms(1) by (simp add: dateOf_def dayOfYear_def)
  have r: "nat (YearFromDay c) < 10 ^ 4" "nat (YearFromDay d) < 10 ^ 4" using assms y by auto
  have "Suc (monthOf c) < 100" "Suc (monthOf d) < 100"
    using monthOf_le [of c] monthOf_le [of d] by auto
  moreover have "nat (dateOf c) < 100" "nat (dateOf d) < 100" "0 < dateOf c" "0 < dateOf d"
    using dateOf_bounds [of c] dateOf_bounds [of d] by auto
  ultimately have "dateText c < dateText d \<longleftrightarrow>
      YearFromDay c < YearFromDay d \<or> YearFromDay c = YearFromDay d \<and>
      (monthOf c < monthOf d \<or> monthOf c = monthOf d \<and> dateOf c < dateOf d)"
    using y assms r
    by (simp add: dateText_def Let_def pad_field_less pad2_less eq_nat_nat_iff nat_less_eq_zless)
      linarith
  then show ?thesis using y m dd by (metis order_le_less)
qed

lemma length_dateText: "0 \<le> YearFromDay d \<Longrightarrow> YearFromDay d \<le> 9999 \<Longrightarrow> length (dateText d) = 10"
  by (simp add: dateText_def Let_def)

lemma toISOString_mono:
  assumes "iso_range s" and "iso_range t" and "s < t"
  shows "toISOString s < toISOString t"
proof -
  have y: "0 \<le> YearFromDay (DayOf s)" "YearFromDay (DayOf s) \<le> 9999"
    "0 \<le> YearFromDay (DayOf t)" "YearFromDay (DayOf t) \<le> 9999"
    using assms iso_range_year by auto
  have len: "length (dateText (DayOf s)) = length (dateText (DayOf t))"
    using y by (simp add: length_dateText)
  have "DayOf s < DayOf t \<or> (DayOf s = DayOf t \<and> s mod msPerDay < t mod msPerDay)"
  proof (cases "DayOf s = DayOf t")
    case True
    then show ?thesis using assms(3) by (metis DayOf_def add_less_cancel_left mult_div_mod_eq)
  next
    case False
    moreover have "DayOf s \<le> DayOf t"
      using assms(3) by (simp add: DayOf_def msPerDay_def zdiv_mono1)
    ultimately show ?thesis by simp
  qed
  then show ?thesis
  proof
    assume "DayOf s < DayOf t"
    then show ?thesis using dateText_less y by (simp add: toISOString_def list_less_append [OF len])
  next
    assume eq: "DayOf s = DayOf t \<and> s mod msPerDay < t mod msPerDay"
    moreover have "0 \<le> s mod msPerDay" by (simp add: msPerDay_def)
    ultimately have "TimeWithinDay s < TimeWithinDay t"
      by (simp only: TimeWithinDay_def nat_less_eq_zless)
    then have "timeText (TimeWithinDay s) < timeText (TimeWithinDay t)"
      using TimeWithinDay_bound timeText_less by blast
    then show ?thesis using eq
      by (simp add: toISOString_def list_less_append timeText_def del: pad.simps)
  qed
qed

lemma toISOString_less [simp]:
  "iso_range s \<Longrightarrow> iso_range t \<Longrightarrow> toISOString s < toISOString t \<longleftrightarrow> s < t"
  by (metis less_asym less_irrefl linorder_neqE_linordered_idom toISOString_mono)

lemma toISOString_inj [simp]:
  "iso_range s \<Longrightarrow> iso_range t \<Longrightarrow> toISOString s = toISOString t \<longleftrightarrow> s = t"
  by (metis less_irrefl linorder_neqE_linordered_idom toISOString_mono)

lemma toISOString_le [simp]:
  "iso_range s \<Longrightarrow> iso_range t \<Longrightarrow> toISOString s \<le> toISOString t \<longleftrightarrow> s \<le> t"
  by (auto simp: order.order_iff_strict)

section \<open>Date.parse\<close>

text \<open>
  The date-time format of ECMAScript: \<open>YYYY[-MM[-DD]][THH:mm[:ss[.sss]](Z|+HH:mm|-HH:mm)]\<close>.
  Whatever is not of this format, and a local date-time without an offset, is left to the engine and
  its host: the argument \<open>legacy\<close> of \<open>Date_parse\<close>. \<open>None\<close> is an invalid date.
\<close>

definition read_date :: "string \<Rightarrow> ((nat \<times> nat \<times> nat) \<times> string) option" where
  "read_date s = Option.bind (read_digits 4 s) (\<lambda>(y, s1).
     case read_char CHR ''-'' s1 of None \<Rightarrow> Some ((y, 1, 1), s1)
     | Some s2 \<Rightarrow> Option.bind (read_digits 2 s2) (\<lambda>(m, s3).
       case read_char CHR ''-'' s3 of None \<Rightarrow> Some ((y, m, 1), s3)
       | Some s4 \<Rightarrow> Option.bind (read_digits 2 s4) (\<lambda>(d, s5). Some ((y, m, d), s5))))"

definition read_clock :: "string \<Rightarrow> ((nat \<times> nat \<times> nat \<times> nat) \<times> string) option" where
  "read_clock s = Option.bind (read_digits 2 s) (\<lambda>(h, s1).
     Option.bind (read_char CHR '':'' s1) (\<lambda>s2. Option.bind (read_digits 2 s2) (\<lambda>(mi, s3).
       case read_char CHR '':'' s3 of None \<Rightarrow> Some ((h, mi, 0, 0), s3)
       | Some s4 \<Rightarrow> Option.bind (read_digits 2 s4) (\<lambda>(sec, s5).
         case read_char CHR ''.'' s5 of None \<Rightarrow> Some ((h, mi, sec, 0), s5)
         | Some s6 \<Rightarrow> Option.bind (read_digits 3 s6) (\<lambda>(ms, s7). Some ((h, mi, sec, ms), s7))))))"

definition read_zone :: "string \<Rightarrow> int option" where
  "read_zone s = (case s of [] \<Rightarrow> None
     | c # cs \<Rightarrow>
       if c = CHR ''Z'' then (if cs = [] then Some 0 else None)
       else if c = CHR ''+'' \<or> c = CHR ''-'' then
         Option.bind (read_digits 2 cs) (\<lambda>(h, s1). Option.bind (read_char CHR '':'' s1) (\<lambda>s2.
           Option.bind (read_digits 2 s2) (\<lambda>(m, s3).
             if s3 = [] \<and> h \<le> 23 \<and> m \<le> 59
             then Some ((if c = CHR ''-'' then - 1 else 1) * (60 * int h + int m)) else None)))
       else None)"

definition isoParse :: "string \<Rightarrow> int option" where
  "isoParse s = Option.bind (read_date s) (\<lambda>((y, m, d), r).
     if 1 \<le> m \<and> m \<le> 12 \<and> 1 \<le> d \<and> d \<le> 31 then
       let day = MakeDay (int y) (m - 1) (int d) * msPerDay in
       if r = [] then Some day
       else Option.bind (read_char CHR ''T'' r) (\<lambda>r1. Option.bind (read_clock r1)
         (\<lambda>((h, mi, sec, ms), r2).
           if mi \<le> 59 \<and> sec \<le> 59 \<and> (h \<le> 23 \<or> h = 24 \<and> mi = 0 \<and> sec = 0 \<and> ms = 0)
           then Option.bind (read_zone r2) (\<lambda>off.
             Some (day + 3600000 * int h + 60000 * int mi + 1000 * int sec + int ms - 60000 * off))
           else None))
     else None)"

definition Date_parse :: "(string \<Rightarrow> int option) \<Rightarrow> string \<Rightarrow> int option" where
  "Date_parse legacy s = (case isoParse s of Some t \<Rightarrow> Some t | None \<Rightarrow> legacy s)"

lemma read_date_dateText:
  assumes "0 \<le> YearFromDay d" and "YearFromDay d \<le> 9999"
  shows "read_date (dateText d @ rest) =
    Some ((nat (YearFromDay d), Suc (monthOf d), nat (dateOf d)), rest)"
proof -
  have "nat (YearFromDay d) < 10 ^ 4" "Suc (monthOf d) < 10 ^ 2" "nat (dateOf d) < 10 ^ 2"
    using assms monthOf_le [of d] dateOf_bounds [of d] by auto
  then show ?thesis using assms
    by (simp add: dateText_def read_date_def Let_def read_char_def del: power_numeral)
qed

lemma read_clock_timeText:
  assumes "n < 86400000"
  shows "read_clock (timeText n @ rest) =
    Some ((n div 3600000, n div 60000 mod 60, n div 1000 mod 60, n mod 1000), rest)"
proof -
  have "n div 3600000 < 24" using assms by auto
  moreover have "n div 60000 mod 60 < 60" "n div 1000 mod 60 < 60" "n mod 1000 < 1000" by simp_all
  ultimately have "n div 3600000 < 10 ^ 2" "n div 60000 mod 60 < 10 ^ 2"
    "n div 1000 mod 60 < 10 ^ 2" "n mod 1000 < 10 ^ 3"
    unfolding power_numeral by simp_all
  then show ?thesis
    by (simp add: timeText_def read_clock_def read_char_def del: power_numeral)
qed

lemma clock_sum:
  "(n::nat) = 3600000 * (n div 3600000) + 60000 * (n div 60000 mod 60)
     + 1000 * (n div 1000 mod 60) + n mod 1000"
proof -
  have "n = 1000 * (n div 1000) + n mod 1000" by simp
  moreover have "n div 1000 = 60 * (n div 60000) + n div 1000 mod 60"
    using mult_div_mod_eq [of 60 "n div 1000"] by (simp add: div_mod_60)
  moreover have "n div 60000 = 60 * (n div 3600000) + n div 60000 mod 60"
    using mult_div_mod_eq [of 60 "n div 60000"] by (simp add: div_mod_60)
  ultimately show ?thesis by linarith
qed

lemma isoParse_toISOString:
  assumes "iso_range t"
  shows "isoParse (toISOString t) = Some t"
proof -
  define n where "n = TimeWithinDay t"
  have n: "n < 86400000" by (simp add: n_def TimeWithinDay_bound)
  then have h: "n div 3600000 \<le> 23" by auto
  have m: "n div 60000 mod 60 \<le> 59" "n div 1000 mod 60 \<le> 59"
    using mod_less_divisor [of 60 "n div 60000"] mod_less_divisor [of 60 "n div 1000"] by linarith+
  have y: "0 \<le> YearFromDay (DayOf t)" "YearFromDay (DayOf t) \<le> 9999"
    using iso_range_year [OF assms] by auto
  have t: "t = DayOf t * msPerDay + int n"
    by (simp add: DayOf_def n_def TimeWithinDay_def msPerDay_def)
  have "int n = 3600000 * int (n div 3600000) + 60000 * int (n div 60000 mod 60)
     + 1000 * int (n div 1000 mod 60) + int (n mod 1000)"
    using clock_sum [of n] by linarith
  moreover have "read_zone ''Z'' = Some 0" by (simp add: read_zone_def)
  moreover have "Suc (monthOf (DayOf t)) \<le> 12" "1 \<le> nat (dateOf (DayOf t))"
    "nat (dateOf (DayOf t)) \<le> 31" "int (nat (dateOf (DayOf t))) = dateOf (DayOf t)"
    using monthOf_le [of "DayOf t"] dateOf_bounds [of "DayOf t"] by auto
  ultimately show ?thesis
    using y h m t MakeDay_inverse [of "DayOf t"]
    by (simp add: isoParse_def toISOString_def read_date_dateText Let_def read_char_def
        read_clock_timeText [OF n] n_def [symmetric])
qed

lemma Date_parse_toISOString [simp]: "iso_range t \<Longrightarrow> Date_parse legacy (toISOString t) = Some t"
  by (simp add: Date_parse_def isoParse_toISOString)

end
