(* ===== verification/LibDate.thy ===== *)
theory LibDate
  imports DateTime
begin

text \<open>
  src/src/lib/date.ts. The time zone database behind \<open>Intl.DateTimeFormat\<close> is the argument
  \<open>render\<close>, which gives the wall-clock reading of an instant in a zone. An \<open>Inl\<close> is
  the message of the \<open>Error\<close> thrown.
\<close>

record local_time =
  lt_year :: int
  lt_month :: nat
  lt_day :: nat
  lt_hour :: nat
  lt_minute :: nat
  lt_second :: nat

type_synonym tz_render = "string \<Rightarrow> int \<Rightarrow> local_time"

definition DAYS :: "string list" where
  "DAYS = [''sunday'', ''monday'', ''tuesday'', ''wednesday'', ''thursday'', ''friday'', ''saturday'']"

fun indexOf :: "'a list \<Rightarrow> 'a \<Rightarrow> nat option" where
  "indexOf [] a = None"
| "indexOf (x # xs) a = (if x = a then Some 0 else map_option Suc (indexOf xs a))"

definition time_clip_ok :: "int \<Rightarrow> bool" where
  "time_clip_ok t \<longleftrightarrow> \<bar>t\<bar> \<le> 8640000000000000"

definition resolveRelativeWeekday ::
    "(string \<Rightarrow> int option) \<Rightarrow> string \<Rightarrow> string option \<Rightarrow> string + string option" where
  "resolveRelativeWeekday legacy word publishedAt =
     (if \<not> truthy publishedAt then Inr None
      else case indexOf DAYS (toLowerCase word) of None \<Rightarrow> Inr None
      | Some idx \<Rightarrow>
        case Date_parse legacy (the publishedAt) of None \<Rightarrow> Inr None
        | Some d \<Rightarrow>
          let delta0 = (int idx - WeekDay (DayOf d) + 7) mod 7;
              delta = (if delta0 = 0 then 7 else delta0);
              d' = d + delta * msPerDay
          in if time_clip_ok d' then Inr (Some (take 10 (toISOString d')))
             else Inl ''Invalid time value'')"

definition Date_UTC :: "int \<Rightarrow> int \<Rightarrow> int \<Rightarrow> int \<Rightarrow> int \<Rightarrow> int \<Rightarrow> int" where
  "Date_UTC y m d h mi s =
     (let yr = (if 0 \<le> y \<and> y \<le> 99 then 1900 + y else y)
      in MakeDay (yr + m div 12) (nat (m mod 12)) d * msPerDay
         + 3600000 * h + 60000 * mi + 1000 * s)"

text \<open>A number of the split date: absent, or not a number, or not an integer, fails the
  calendar check below.\<close>

definition date_number :: "string list \<Rightarrow> nat \<Rightarrow> int option" where
  "date_number parts i =
     (if i < length parts then
        case jsNumber (parts ! i) of Finite r \<Rightarrow>
          if r \<noteq> 0 \<and> of_int \<lfloor>r\<rfloor> = r then Some \<lfloor>r\<rfloor> else None
        | _ \<Rightarrow> None
      else None)"

definition is_calendar_date :: "int \<Rightarrow> int \<Rightarrow> int \<Rightarrow> bool" where
  "is_calendar_date year month day =
     (let c = DayOf (Date_UTC year (month - 1) day 0 0 0)
      in YearFromDay c = year \<and> int (monthOf c) = month - 1 \<and> dateOf c = day)"

definition offset_text :: "int \<Rightarrow> string" where
  "offset_text offsetMinutes =
     (if 0 \<le> offsetMinutes then ''+'' else ''-'')
     @ padStart 2 CHR ''0'' (show_int (\<bar>offsetMinutes\<bar> div 60)) @ '':''
     @ padStart 2 CHR ''0'' (show_int (\<bar>offsetMinutes\<bar> mod 60))"

definition offsetForDate :: "tz_render \<Rightarrow> string \<Rightarrow> string \<Rightarrow> string + string" where
  "offsetForDate render date timeZone =
     (let parts = split_on CHR ''-'' date in
      case (date_number parts 0, date_number parts 1, date_number parts 2) of
        (Some year, Some month, Some day) \<Rightarrow>
          if is_calendar_date year month day then
            let sample = Date_UTC year (month - 1) day 12 0 0;
                v = render timeZone sample;
                renderedAsUtc = Date_UTC (lt_year v) (int (lt_month v) - 1) (int (lt_day v))
                  (int (lt_hour v)) (int (lt_minute v)) (int (lt_second v))
            in Inr (offset_text ((renderedAsUtc - sample + 30000) div 60000))
          else Inl (''Invalid calendar date: '' @ date)
      | _ \<Rightarrow> Inl (''Invalid calendar date: '' @ date))"

definition rendered_date :: "local_time \<Rightarrow> string" where
  "rendered_date v = show_int (lt_year v) @ ''-'' @ pad 2 (lt_month v) @ ''-'' @ pad 2 (lt_day v)"

definition validateLocalDateTime ::
    "(string \<Rightarrow> int option) \<Rightarrow> tz_render \<Rightarrow> string \<Rightarrow> string \<Rightarrow> nat \<Rightarrow> nat \<Rightarrow> string \<Rightarrow> string + string"
where
  "validateLocalDateTime legacy render value expectedDate expectedHour expectedMinute timeZone =
     (case Date_parse legacy value of None \<Rightarrow> Inl (''Invalid date-time: '' @ value)
      | Some instant \<Rightarrow>
        let v = render timeZone instant in
        if rendered_date v \<noteq> expectedDate \<or> lt_hour v \<noteq> expectedHour \<or> lt_minute v \<noteq> expectedMinute
        then Inl (''Local time does not exist in '' @ timeZone @ '': '' @ expectedDate)
        else Inr value)"

text \<open>The first match of the pattern \<open>(\d{1,2})(?::(\d{2}))?\s*(am|pm)?\<close>, case-insensitive:
  hours, minutes if given, lower-cased meridiem if given. Every part after the first digit is
  optional and greedy, so the match never backtracks.\<close>

definition time_match_here :: "string \<Rightarrow> nat \<times> nat option \<times> string option" where
  "time_match_here s =
     (let h = takeWhile is_digit (take 2 s); r = drop (length h) s;
          mi = Option.bind (read_char CHR '':'' r) (read_digits 2);
          r2 = dropWhile is_space (case mi of None \<Rightarrow> r | Some (_, x) \<Rightarrow> x);
          ap = toLowerCase (take 2 r2)
      in (nat_of_digits h, map_option fst mi,
          if ap = ''am'' \<or> ap = ''pm'' then Some ap else None))"

definition time_match :: "string \<Rightarrow> (nat \<times> nat option \<times> string option) option" where
  "time_match s = (let r = dropWhile (\<lambda>c. \<not> is_digit c) s in
     if r = [] then None else Some (time_match_here r))"

definition to_24_hour :: "nat \<Rightarrow> string option \<Rightarrow> nat" where
  "to_24_hour h ap =
     (let h1 = (if ap = Some ''pm'' \<and> h < 12 then h + 12 else h)
      in if ap = Some ''am'' \<and> h1 = 12 then 0 else h1)"

definition combineDateTime ::
    "(string \<Rightarrow> int option) \<Rightarrow> tz_render \<Rightarrow> string \<Rightarrow> string option \<Rightarrow> string \<Rightarrow> string + string" where
  "combineDateTime legacy render date time timeZone =
     (case offsetForDate render date timeZone of Inl e \<Rightarrow> Inl e
      | Inr offset \<Rightarrow>
        if \<not> truthy time then
          validateLocalDateTime legacy render (date @ ''T23:59:00'' @ offset) date 23 59 timeZone
        else case time_match (the time) of
          None \<Rightarrow> Inl (''Invalid local time: '' @ the time)
        | Some (h, m, ap) \<Rightarrow>
          let mi = nullish m 0 in
          if 59 < mi \<or> (ap \<noteq> None \<and> (h < 1 \<or> 12 < h)) \<or> (ap = None \<and> 23 < h)
          then Inl (''Invalid local time: '' @ the time)
          else let h24 = to_24_hour h ap in
            validateLocalDateTime legacy render
              (date @ ''T'' @ padStart 2 CHR ''0'' (show_nat h24) @ '':''
               @ padStart 2 CHR ''0'' (show_nat mi) @ '':00'' @ offset) date h24 mi timeZone)"

section \<open>Correctness\<close>

lemma indexOf_Some: "indexOf xs a = Some i \<Longrightarrow> i < length xs \<and> xs ! i = a"
  by (induction xs arbitrary: i) (auto split: if_splits)

lemma DayOf_add_days: "DayOf (t + k * msPerDay) = DayOf t + k"
  by (simp add: DayOf_def msPerDay_def)

lemma take10_toISOString: "iso_range t \<Longrightarrow> take 10 (toISOString t) = dateText (DayOf t)"
  using iso_range_year [of t] by (simp add: toISOString_def length_dateText)

text \<open>The day is the next one of that name strictly after publication: one to seven days on.\<close>

lemma resolveRelativeWeekday_next:
  assumes parsed: "Date_parse legacy p = Some t" and p: "p \<noteq> []"
    and day: "indexOf DAYS (toLowerCase word) = Some i"
    and range: "iso_range t" "iso_range (t + 7 * msPerDay)"
  shows "\<exists>k. 1 \<le> k \<and> k \<le> 7 \<and> WeekDay (DayOf t + k) = int i \<and>
    (\<forall>j. 1 \<le> j \<and> j < k \<longrightarrow> WeekDay (DayOf t + j) \<noteq> int i) \<and>
    resolveRelativeWeekday legacy word (Some p) = Inr (Some (dateText (DayOf t + k)))"
proof -
  define w where "w = WeekDay (DayOf t)"
  define e where "e = (int i - w + 7) mod 7"
  define k where "k = (if e = 0 then 7 else e)"
  have i: "int i < 7" using indexOf_Some [OF day] by (simp add: DAYS_def)
  have w: "0 \<le> w" "w < 7" by (simp_all add: w_def WeekDay_def)
  have e: "0 \<le> e" "e < 7" by (simp_all add: e_def)
  have k: "1 \<le> k" "k \<le> 7" using e by (auto simp: k_def)
  have wd: "WeekDay (DayOf t + j) = (w + j) mod 7" for j
    by (simp add: w_def WeekDay_def mod_simps algebra_simps)
  have ke: "k mod 7 = (int i - w) mod 7" by (simp add: k_def e_def)
  have "(w + k) mod 7 = (w + k mod 7) mod 7" by (simp add: mod_simps)
  also have "\<dots> = int i mod 7" by (simp add: ke mod_simps)
  finally have "WeekDay (DayOf t + k) = int i" using i by (simp add: wd)
  moreover have "WeekDay (DayOf t + j) \<noteq> int i" if "1 \<le> j" "j < k" for j
  proof
    assume "WeekDay (DayOf t + j) = int i"
    then have "(w + j) mod 7 = (w + k) mod 7" using \<open>WeekDay (DayOf t + k) = int i\<close> by (simp add: wd)
    then have "(k - j) mod 7 = 0" by (metis add_diff_cancel_left mod_eq_dvd_iff dvd_eq_mod_eq_0)
    then show False using that k by auto
  qed
  moreover have "resolveRelativeWeekday legacy word (Some p) = Inr (Some (dateText (DayOf t + k)))"
  proof -
    have r: "iso_range (t + k * msPerDay)" using range k by (auto simp: iso_range_def msPerDay_def)
    then have "time_clip_ok (t + k * msPerDay)" unfolding iso_range_def time_clip_ok_def by linarith
    moreover have "resolveRelativeWeekday legacy word (Some p) =
        (if time_clip_ok (t + k * msPerDay) then Inr (Some (take 10 (toISOString (t + k * msPerDay))))
         else Inl ''Invalid time value'')"
      by (simp add: resolveRelativeWeekday_def Let_def parsed p day k_def e_def w_def)
    ultimately show ?thesis using take10_toISOString [OF r] by (simp add: DayOf_add_days)
  qed
  ultimately show ?thesis using k by blast
qed

lemma validateLocalDateTime_Inr:
  "validateLocalDateTime legacy render value date h mi tz = Inr v \<longleftrightarrow>
     v = value \<and> (\<exists>t. Date_parse legacy value = Some t \<and> rendered_date (render tz t) = date \<and>
       lt_hour (render tz t) = h \<and> lt_minute (render tz t) = mi)"
  by (auto simp: validateLocalDateTime_def Let_def split: option.splits)

text \<open>The wall-clock reading that a time text asks for: 23:59 when there is none.\<close>

definition requested_time :: "string option \<Rightarrow> (nat \<times> nat) option" where
  "requested_time time =
     (if \<not> truthy time then Some (23, 59)
      else map_option (\<lambda>(h, m, ap). (to_24_hour h ap, nullish m 0)) (time_match (the time)))"

lemma to_24_hour_le:
  "(ap \<noteq> None \<longrightarrow> h \<le> 12) \<Longrightarrow> (ap = None \<longrightarrow> h \<le> 23) \<Longrightarrow> to_24_hour h ap \<le> 23"
  by (cases ap) (auto simp: to_24_hour_def Let_def)

lemma combineDateTime_sound:
  assumes "combineDateTime legacy render date time tz = Inr v"
  shows "\<exists>t h mi. Date_parse legacy v = Some t \<and> requested_time time = Some (h, mi) \<and>
    h \<le> 23 \<and> mi \<le> 59 \<and> rendered_date (render tz t) = date \<and>
    lt_hour (render tz t) = h \<and> lt_minute (render tz t) = mi"
proof -
  obtain off where off: "offsetForDate render date tz = Inr off"
    using assms by (cases "offsetForDate render date tz") (simp_all add: combineDateTime_def)
  show ?thesis
  proof (cases "truthy time")
    case False
    then show ?thesis using assms off
      by (auto simp: combineDateTime_def requested_time_def validateLocalDateTime_Inr)
  next
    case True
    then obtain h m ap where tm: "time_match (the time) = Some (h, m, ap)"
      using assms off by (auto simp: combineDateTime_def split: option.splits)
    have "to_24_hour h ap \<le> 23" "nullish m 0 \<le> 59"
      using assms off True tm
      by (auto simp: combineDateTime_def Let_def split: if_splits intro!: to_24_hour_le)
    then show ?thesis using assms off True tm
      by (auto simp: combineDateTime_def requested_time_def Let_def validateLocalDateTime_Inr
          split: if_splits)
  qed
qed

lemma offsetForDate_calendar:
  assumes "offsetForDate render date tz = Inr off"
  shows "\<exists>y m d. date_number (split_on CHR ''-'' date) 0 = Some y \<and>
    date_number (split_on CHR ''-'' date) 1 = Some m \<and>
    date_number (split_on CHR ''-'' date) 2 = Some d \<and> is_calendar_date y m d"
  using assms by (auto simp: offsetForDate_def Let_def split: option.splits if_splits)

end
