(* ===== verification/Domain.thy ===== *)
theory Domain
  imports LibDate
begin

text \<open>
  The data of src/src/domain/models.ts, src/src/domain/errors.ts, src/src/domain/data-policy.ts, the
  ports' result types, and the helpers of src/src/lib/util.ts. A JSON text column is modelled by the
  JSON value it holds; numbers inside JSON values are integers. SHA-256 is the argument \<open>sha\<close>
  (the hexadecimal digest of a text).
\<close>

section \<open>JSON\<close>

datatype json = JNull | JBool bool | JNum int | JStr string | JArr "json list"
  | JObj "(string \<times> json) list"

definition hex_digit :: "nat \<Rightarrow> char" where
  "hex_digit n = (if n < 10 then char_of (48 + n) else char_of (87 + n))"

definition escape_char :: "char \<Rightarrow> string" where
  "escape_char c =
     (let n = of_char c :: nat; b = char_of (92::nat) in
      if c = CHR 0x22 then [b, c] else if n = 92 then [b, b]
      else if n = 8 then [b, CHR ''b''] else if n = 12 then [b, CHR ''f'']
      else if n = 10 then [b, CHR ''n''] else if n = 13 then [b, CHR ''r'']
      else if n = 9 then [b, CHR ''t'']
      else if n < 32 then [b, CHR ''u'', CHR ''0'', CHR ''0'', hex_digit (n div 16), hex_digit (n mod 16)]
      else [c])"

definition quote :: "string \<Rightarrow> string" where
  "quote s = [CHR 0x22] @ concat (map escape_char s) @ [CHR 0x22]"

fun stringify :: "json \<Rightarrow> string" where
  "stringify JNull = ''null''"
| "stringify (JBool b) = (if b then ''true'' else ''false'')"
| "stringify (JNum n) = show_int n"
| "stringify (JStr s) = quote s"
| "stringify (JArr xs) = ''['' @ join_with '','' (map stringify xs) @ '']''"
| "stringify (JObj kvs) =
     ''{'' @ join_with '','' (map (\<lambda>(k, v). quote k @ '':'' @ stringify v) kvs) @ ''}''"

definition json_get :: "json \<Rightarrow> string \<Rightarrow> json option" where
  "json_get v k = (case v of JObj kvs \<Rightarrow> map_of kvs k | _ \<Rightarrow> None)"

definition json_text :: "json \<Rightarrow> string \<Rightarrow> string option" where
  "json_text v k = (case json_get v k of Some (JStr s) \<Rightarrow> Some s | _ \<Rightarrow> None)"

text \<open>\<open>String(v)\<close>.\<close>

fun js_String :: "json \<Rightarrow> string" where
  "js_String JNull = ''null''"
| "js_String (JBool b) = (if b then ''true'' else ''false'')"
| "js_String (JNum n) = show_int n"
| "js_String (JStr s) = s"
| "js_String (JArr xs) = join_with '','' (map (\<lambda>x. if x = JNull then [] else js_String x) xs)"
| "js_String (JObj kvs) = ''[object Object]''"

section \<open>Errors\<close>

datatype sql_error = UniqueViolation string | ForeignKeyViolation string
  | NotNullViolation string | CheckViolation string

datatype error = Error string | AppError string nat string bool | SqlError sql_error
  | TypeError string | RangeError string | ZodError string "(string list \<times> string) list" | ResponseSizeLimitError

definition AuthenticationError :: error where
  "AuthenticationError = AppError ''Authentication required'' 401 ''AUTHENTICATION_REQUIRED'' True"

definition AuthorizationError :: error where
  "AuthorizationError = AppError ''Not authorized'' 403 ''NOT_AUTHORIZED'' True"

definition ValidationError :: "string \<Rightarrow> error" where
  "ValidationError message = AppError message 422 ''VALIDATION_FAILED'' True"

definition RateLimitError :: error where
  "RateLimitError = AppError ''Rate limit exceeded'' 429 ''RATE_LIMITED'' True"

definition error_message :: "error \<Rightarrow> string" where
  "error_message e = (case e of Error m \<Rightarrow> m | AppError m _ _ _ \<Rightarrow> m | TypeError m \<Rightarrow> m
     | RangeError m \<Rightarrow> m | ZodError m _ \<Rightarrow> m
     | ResponseSizeLimitError \<Rightarrow> ''Response exceeds size limit''
     | SqlError (UniqueViolation t) \<Rightarrow> ''UNIQUE constraint failed: '' @ t
     | SqlError (ForeignKeyViolation t) \<Rightarrow> ''FOREIGN KEY constraint failed''
     | SqlError (NotNullViolation t) \<Rightarrow> ''NOT NULL constraint failed: '' @ t
     | SqlError (CheckViolation t) \<Rightarrow> ''CHECK constraint failed: '' @ t)"

section \<open>Models\<close>

definition DEFAULT_TENANT_ID :: string where
  "DEFAULT_TENANT_ID = ''tenant_default''"

datatype Role = student | organization_editor | platform_admin

datatype SourceType = gmail | groupme | instagram | linkedin | website | bio_link | application
  | screenshot | heel_life

fun source_type_text :: "SourceType \<Rightarrow> string" where
  "source_type_text gmail = ''gmail''"
| "source_type_text groupme = ''groupme''"
| "source_type_text instagram = ''instagram''"
| "source_type_text linkedin = ''linkedin''"
| "source_type_text website = ''website''"
| "source_type_text bio_link = ''bio_link''"
| "source_type_text application = ''application''"
| "source_type_text screenshot = ''screenshot''"
| "source_type_text heel_life = ''heel_life''"

definition PRIVATE_SOURCE_TYPES :: "SourceType list" where
  "PRIVATE_SOURCE_TYPES = [gmail, groupme, screenshot]"

definition DATA_POLICY_VERSION :: string where
  "DATA_POLICY_VERSION = ''2026-08-28''"

datatype ClaimField = application_open | application_deadline | application_url | field_event
  | requirement | field_status | social_handle | recruiting_note

fun claim_field_text :: "ClaimField \<Rightarrow> string" where
  "claim_field_text application_open = ''application_open''"
| "claim_field_text application_deadline = ''application_deadline''"
| "claim_field_text application_url = ''application_url''"
| "claim_field_text field_event = ''event''"
| "claim_field_text requirement = ''requirement''"
| "claim_field_text field_status = ''status''"
| "claim_field_text social_handle = ''social_handle''"
| "claim_field_text recruiting_note = ''recruiting_note''"

datatype SourceVersionStatus = received | queued | processing | succeeded | retryable_failed
  | terminal_failed

definition TemporalPrecision :: "string list" where
  "TemporalPrecision = [''date'', ''date_time'', ''relative_inferred'']"

record Organization =
  org_id :: string
  org_tenantId :: "string option"
  org_name :: string
  org_school :: string
  org_heelLifeUrl :: "string option"
  org_websiteUrl :: "string option"
  org_instagramHandle :: "string option"
  org_linkedinUrl :: "string option"

datatype MediaType = media_image | media_video | media_document

record MediaRef =
  media_type :: MediaType
  media_url :: "string option"
  media_base64 :: "string option"
  media_mimeType :: "string option"
  media_alt :: "string option"

record SourceItem =
  src_id :: string
  src_tenantId :: "string option"
  src_contributorUserId :: "string option"
  src_organizationId :: string
  src_sourceType :: SourceType
  src_externalId :: "string option"
  src_url :: "string option"
  src_title :: "string option"
  src_rawText :: string
  src_media :: "MediaRef list"
  src_publishedAt :: "string option"
  src_fetchedAt :: string
  src_metadata :: "json option"

record Claim =
  clm_id :: string
  clm_tenantId :: "string option"
  clm_organizationId :: string
  clm_sourceItemId :: string
  clm_field :: ClaimField
  clm_value :: json
  clm_confidence :: rat
  clm_publishedAt :: "string option"
  clm_extractedAt :: string
  clm_evidence :: "string option"
  clm_supersedes :: "string list"
  clm_temporalPrecision :: "string option"

datatype OpportunityKind = kind_application | kind_event | kind_task

text \<open>A confidence is a number or \<open>NaN\<close>, which is \<open>None\<close>.\<close>

record Opportunity =
  opp_id :: string
  opp_tenantId :: "string option"
  opp_organizationId :: string
  opp_kind :: OpportunityKind
  opp_title :: string
  opp_deadlineAt :: "string option"
  opp_startsAt :: "string option"
  opp_url :: "string option"
  opp_role :: "string option"
  opp_confidence :: "rat option"
  opp_stale :: bool
  opp_sourceClaimIds :: "string list"
  opp_explanation :: string
  opp_resolvedAt :: string
  opp_resolverVersion :: "string option"
  opp_deadlinePrecision :: "string option"
  opp_startsAtPrecision :: "string option"

text \<open>A patch has a value for each key it contains. It is kept as JSON text, and
  \<open>JSON.stringify\<close> leaves out a key whose value is \<open>undefined\<close>.\<close>

record OverridePatch =
  patch_title :: "string option"
  patch_deadlineAt :: "string option"
  patch_startsAt :: "string option"
  patch_url :: "string option"
  patch_stale :: "bool option"

record OpportunityOverride =
  ovr_id :: string
  ovr_tenantId :: string
  ovr_opportunityId :: string
  ovr_organizationId :: string
  ovr_actorId :: "string option"
  ovr_patch :: OverridePatch
  ovr_reason :: string
  ovr_createdAt :: string

record ExtractedClaim =
  ext_field :: ClaimField
  ext_value :: json
  ext_confidence :: rat
  ext_evidence :: "string option"
  ext_temporalPrecision :: "string option"

record ExtractionResult =
  res_claims :: "ExtractedClaim list"
  res_discoveredUrls :: "string list"

record StageSourceResult =
  stg_sourceId :: string
  stg_versionId :: string
  stg_status :: SourceVersionStatus
  stg_shouldProcess :: bool
  stg_unchanged :: bool
  stg_attemptCount :: nat

record ProcessingFailure =
  fail_retryable :: bool
  fail_message :: string
  fail_nextAttemptAt :: "string option"

record AuthPrincipal =
  prin_userId :: string
  prin_tenantId :: string
  prin_roles :: "Role list"
  prin_organizationIds :: "string list"
  prin_sessionId :: string

datatype JobStatus = job_queued | job_running | job_succeeded | job_retryable_failed
  | job_dead_letter | job_cancelled

record Job =
  job_id :: string
  job_tenantId :: string
  job_type :: string
  job_idempotencyKey :: string
  job_payload :: json
  job_status :: JobStatus
  job_attemptCount :: int
  job_maxAttempts :: int
  job_availableAt :: string
  job_leasedBy :: "string option"
  job_leasedUntil :: "string option"

section \<open>Helpers\<close>

definition nowIso :: "int \<Rightarrow> string" where
  "nowIso now = toISOString now"

definition uid :: "string \<Rightarrow> string \<Rightarrow> string" where
  "uid uuid prefix = prefix @ ''_'' @ uuid"

definition stableId :: "(string \<Rightarrow> string) \<Rightarrow> string \<Rightarrow> string \<Rightarrow> string" where
  "stableId sha prefix value = prefix @ ''_'' @ take 24 (sha value)"

definition stripTrailingPunctuation :: "string \<Rightarrow> string" where
  "stripTrailingPunctuation url = rev (dropWhile (\<lambda>c. c \<in> set '').,;!?'') (rev url))"

text \<open>The matches of \<open>https?:\/\/[^\s<>"']+\<close>, case-insensitive, from left to right.\<close>

definition url_char :: "char \<Rightarrow> bool" where
  "url_char c \<longleftrightarrow> \<not> is_space c \<and> c \<noteq> CHR ''<'' \<and> c \<noteq> CHR ''>'' \<and> c \<noteq> CHR 0x22 \<and> c \<noteq> CHR 0x27"

definition scheme_length :: "string \<Rightarrow> nat option" where
  "scheme_length s =
     (if starts_with (toLowerCase s) ''https://'' then Some 8
      else if starts_with (toLowerCase s) ''http://'' then Some 7 else None)"

definition url_match :: "string \<Rightarrow> string option" where
  "url_match s = (case scheme_length s of None \<Rightarrow> None
     | Some n \<Rightarrow> (let body = takeWhile url_char (drop n s)
        in if body = [] then None else Some (take n s @ body)))"

function url_hits :: "string \<Rightarrow> string list" where
  "url_hits [] = []"
| "url_hits (c # s) = (case url_match (c # s) of None \<Rightarrow> url_hits s
     | Some m \<Rightarrow> m # url_hits (drop (length m - 1) s))"
  by pat_completeness auto
termination
  by (relation "measure length") auto

fun dedup :: "'a list \<Rightarrow> 'a list" where
  "dedup [] = []"
| "dedup (x # xs) = x # filter (\<lambda>y. y \<noteq> x) (dedup xs)"

definition extractUrls :: "string \<Rightarrow> string list" where
  "extractUrls text = dedup (map stripTrailingPunctuation (url_hits text))"

definition clamp01 :: "rat \<Rightarrow> rat" where
  "clamp01 v = max 0 (min 1 v)"

definition normalizeHandle :: "string \<Rightarrow> string" where
  "normalizeHandle v = (let t = trim v in
     toLowerCase (if t \<noteq> [] \<and> hd t = CHR ''@'' then tl t else t))"

section \<open>Lemmas\<close>

lemma set_dedup [simp]: "set (dedup xs) = set xs"
  by (induction xs) auto

lemma distinct_dedup [simp]: "distinct (dedup xs)"
  by (induction xs) auto

lemma dedup_distinct: "distinct xs \<Longrightarrow> dedup xs = xs"
proof (induction xs)
  case Nil
  then show ?case by simp
next
  case (Cons a xs)
  then show ?case by (auto simp: filter_id_conv)
qed

lemma length_dedup: "length (dedup xs) \<le> length xs"
  by (induction xs) (auto intro: le_trans [OF length_filter_le])

lemma clamp01_range: "0 \<le> clamp01 v \<and> clamp01 v \<le> 1"
  by (simp add: clamp01_def)

lemma clamp01_id: "0 \<le> v \<Longrightarrow> v \<le> 1 \<Longrightarrow> clamp01 v = v"
  by (simp add: clamp01_def)

lemma stableId_inj:
  "length (sha a) = length (sha b) \<Longrightarrow>
     stableId sha p a = stableId sha p b \<longleftrightarrow> take 24 (sha a) = take 24 (sha b)"
  by (simp add: stableId_def)

definition http_text :: "string \<Rightarrow> bool" where
  "http_text m \<longleftrightarrow> (\<exists>scheme body. toLowerCase scheme \<in> {''http://'', ''https://''} \<and>
     m = scheme @ body \<and> body \<noteq> [] \<and> list_all url_char body)"

lemma take_toLowerCase: "take n (toLowerCase s) = toLowerCase (take n s)"
  by (simp add: toLowerCase_def take_map)

lemma url_match_shape:
  assumes "url_match s = Some m"
  shows "http_text m"
proof -
  obtain n where n: "scheme_length s = Some n"
    using assms by (auto simp: url_match_def split: option.splits)
  have "length ''https://'' = 8" "length ''http://'' = 7" by simp_all
  then have "toLowerCase (take n s) \<in> {''http://'', ''https://''}"
    using n by (auto simp only: scheme_length_def starts_with_def take_toLowerCase option.inject
        insert_iff split: if_splits)
  moreover have "m = take n s @ takeWhile url_char (drop n s)" "takeWhile url_char (drop n s) \<noteq> []"
    using assms n by (auto simp: url_match_def Let_def split: if_splits)
  moreover have "list_all url_char (takeWhile url_char (drop n s))"
    by (auto simp: list_all_iff dest: set_takeWhileD)
  ultimately show ?thesis unfolding http_text_def by blast
qed

lemma url_hits_shape: "m \<in> set (url_hits s) \<Longrightarrow> http_text m"
  by (induction s rule: url_hits.induct) (auto split: option.splits simp: url_match_shape)

end
