(* ===== verification/Database.thy ===== *)
theory Database
  imports Domain
begin

text \<open>
  The SQLite database of src/src/store.ts: one record per table of the schema, the whole database as a
  record of tables, the constraints of the schema, and the transaction of the \<open>Store\<close> class.
  Timestamps are texts, JSON columns are JSON values. \<open>db_ok\<close> is what the schema promises:
  every primary key, unique constraint, foreign key, \<open>not null\<close> and \<open>check\<close> of the
  modelled columns.
\<close>

section \<open>Rows\<close>

record tenant_row =
  tn_id :: string
  tn_name :: string
  tn_created_at :: string

record organization_row =
  og_tenant_id :: string
  og_id :: string
  og_name :: string
  og_school :: string
  og_heel_life_url :: "string option"
  og_website_url :: "string option"
  og_instagram_handle :: "string option"
  og_linkedin_url :: "string option"
  og_created_at :: string
  og_updated_at :: string

record source_row =
  sr_id :: string
  sr_tenant_id :: string
  sr_organization_id :: string
  sr_source_type :: SourceType
  sr_identity_key :: string
  sr_external_id :: "string option"
  sr_url :: "string option"
  sr_title :: "string option"
  sr_created_at :: string
  sr_last_seen_at :: string

record version_row =
  sv_id :: string
  sv_source_id :: string
  sv_tenant_id :: string
  sv_organization_id :: string
  sv_content_hash :: string
  sv_raw_text :: string
  sv_media :: "MediaRef list"
  sv_published_at :: "string option"
  sv_fetched_at :: string
  sv_metadata :: json
  sv_status :: SourceVersionStatus
  sv_attempt_count :: nat
  sv_next_attempt_at :: "string option"
  sv_last_error :: "string option"
  sv_started_at :: "string option"
  sv_completed_at :: "string option"
  sv_created_at :: string

record claim_row =
  cl_id :: string
  cl_tenant_id :: string
  cl_organization_id :: string
  cl_source_version_id :: string
  cl_field :: ClaimField
  cl_value :: json
  cl_confidence :: rat
  cl_published_at :: "string option"
  cl_extracted_at :: string
  cl_supersedes :: "string list"
  cl_evidence :: "string option"
  cl_temporal_precision :: "string option"

record opportunity_row =
  op_id :: string
  op_tenant_id :: string
  op_organization_id :: string
  op_kind :: OpportunityKind
  op_title :: string
  op_deadline_at :: "string option"
  op_starts_at :: "string option"
  op_url :: "string option"
  op_role :: "string option"
  op_confidence :: rat
  op_stale :: bool
  op_source_claim_ids :: "string list"
  op_explanation :: string
  op_resolver_version :: string
  op_resolved_at :: string
  op_deadline_precision :: "string option"
  op_starts_at_precision :: "string option"

record override_row =
  ov_id :: string
  ov_tenant_id :: string
  ov_opportunity_id :: string
  ov_organization_id :: string
  ov_actor_id :: string
  ov_patch :: OverridePatch
  ov_reason :: string
  ov_created_at :: string
  ov_revoked_at :: "string option"

record connector_state_row =
  cs_tenant_id :: string
  cs_connector :: string
  cs_scope :: string
  cs_cursor :: "string option"
  cs_metadata :: json
  cs_owner_user_id :: "string option"
  cs_updated_at :: string

record audit_row =
  au_id :: string
  au_tenant_id :: string
  au_actor_id :: "string option"
  au_action :: string
  au_resource_type :: string
  au_resource_id :: "string option"
  au_request_id :: "string option"
  au_metadata :: json
  au_created_at :: string

record job_row =
  jb_id :: string
  jb_tenant_id :: string
  jb_type :: string
  jb_idempotency_key :: string
  jb_payload :: json
  jb_status :: JobStatus
  jb_priority :: int
  jb_attempt_count :: int
  jb_max_attempts :: int
  jb_available_at :: string
  jb_leased_until :: "string option"
  jb_leased_by :: "string option"
  jb_last_error :: "string option"
  jb_created_at :: string
  jb_updated_at :: string

record tenant_queue_row =
  tq_tenant_id :: string
  tq_last_leased_at :: "string option"

record user_row =
  us_id :: string
  us_issuer :: string
  us_subject :: string
  us_email :: "string option"
  us_display_name :: "string option"
  us_created_at :: string
  us_updated_at :: string

record membership_row =
  mb_tenant_id :: string
  mb_user_id :: string
  mb_roles :: "Role list"
  mb_organization_ids :: "string list"
  mb_created_at :: string
  mb_updated_at :: string

record session_row =
  ss_id :: string
  ss_tenant_id :: string
  ss_user_id :: string
  ss_token_hash :: string
  ss_csrf_hash :: string
  ss_expires_at :: string
  ss_revoked_at :: "string option"
  ss_created_at :: string
  ss_last_seen_at :: string

record credential_row =
  cr_id :: string
  cr_tenant_id :: string
  cr_user_id :: string
  cr_provider :: string
  cr_encrypted_payload :: "nat list"
  cr_key_version :: string
  cr_scopes :: "string list"
  cr_expires_at :: "string option"
  cr_revoked_at :: "string option"
  cr_created_at :: string
  cr_updated_at :: string

record contributor_row =
  ct_tenant_id :: string
  ct_source_version_id :: string
  ct_user_id :: string
  ct_created_at :: string

section \<open>Keys and references\<close>

definition org_key :: "organization_row \<Rightarrow> string \<times> string" where
  "org_key r = (og_tenant_id r, og_id r)"

definition source_key :: "source_row \<Rightarrow> string \<times> string \<times> SourceType \<times> string" where
  "source_key r =
     (sr_tenant_id r, sr_organization_id r, sr_source_type r, sr_identity_key r)"

definition version_key :: "version_row \<Rightarrow> string \<times> string" where
  "version_key r = (sv_source_id r, sv_content_hash r)"

definition claim_key :: "claim_row \<Rightarrow> string \<times> ClaimField \<times> json" where
  "claim_key r = (cl_source_version_id r, cl_field r, cl_value r)"

definition opportunity_key :: "opportunity_row \<Rightarrow> string \<times> string" where
  "opportunity_key r = (op_tenant_id r, op_id r)"

definition connector_key :: "connector_state_row \<Rightarrow> string \<times> string \<times> string" where
  "connector_key r = (cs_tenant_id r, cs_connector r, cs_scope r)"

definition job_key :: "job_row \<Rightarrow> string \<times> string \<times> string" where
  "job_key r = (jb_tenant_id r, jb_type r, jb_idempotency_key r)"

definition user_key :: "user_row \<Rightarrow> string \<times> string" where
  "user_key r = (us_issuer r, us_subject r)"

definition member_key :: "membership_row \<Rightarrow> string \<times> string" where
  "member_key r = (mb_tenant_id r, mb_user_id r)"

definition credential_key :: "credential_row \<Rightarrow> string \<times> string \<times> string" where
  "credential_key r = (cr_tenant_id r, cr_user_id r, cr_provider r)"

definition contributor_key :: "contributor_row \<Rightarrow> string \<times> string \<times> string" where
  "contributor_key r = (ct_tenant_id r, ct_source_version_id r, ct_user_id r)"

definition source_org :: "source_row \<Rightarrow> string \<times> string" where
  "source_org r = (sr_tenant_id r, sr_organization_id r)"

definition opportunity_org :: "opportunity_row \<Rightarrow> string \<times> string" where
  "opportunity_org r = (op_tenant_id r, op_organization_id r)"

definition override_org :: "override_row \<Rightarrow> string \<times> string" where
  "override_org r = (ov_tenant_id r, ov_organization_id r)"

definition contributor_member :: "contributor_row \<Rightarrow> string \<times> string" where
  "contributor_member r = (ct_tenant_id r, ct_user_id r)"

definition owner_ok :: "(string \<times> string) set \<Rightarrow> connector_state_row \<Rightarrow> bool" where
  "owner_ok ms r =
     (case cs_owner_user_id r of None \<Rightarrow> True | Some u \<Rightarrow> (cs_tenant_id r, u) \<in> ms)"

text \<open>Updates of columns outside a key keep the key.\<close>

lemma key_updates [simp]:
  "org_key (o1\<lparr>og_name := n1\<rparr>) = org_key o1" "org_key (o1\<lparr>og_school := n1\<rparr>) = org_key o1"
  "org_key (o1\<lparr>og_heel_life_url := x1\<rparr>) = org_key o1"
  "org_key (o1\<lparr>og_website_url := x1\<rparr>) = org_key o1"
  "org_key (o1\<lparr>og_instagram_handle := x1\<rparr>) = org_key o1"
  "org_key (o1\<lparr>og_linkedin_url := x1\<rparr>) = org_key o1"
  "org_key (o1\<lparr>og_updated_at := n1\<rparr>) = org_key o1"
  "source_key (r1\<lparr>sr_external_id := x1\<rparr>) = source_key r1"
  "source_key (r1\<lparr>sr_url := x1\<rparr>) = source_key r1" "source_key (r1\<lparr>sr_title := x1\<rparr>) = source_key r1"
  "source_key (r1\<lparr>sr_last_seen_at := n1\<rparr>) = source_key r1"
  "source_org (r1\<lparr>sr_external_id := x1\<rparr>) = source_org r1"
  "source_org (r1\<lparr>sr_url := x1\<rparr>) = source_org r1" "source_org (r1\<lparr>sr_title := x1\<rparr>) = source_org r1"
  "source_org (r1\<lparr>sr_last_seen_at := n1\<rparr>) = source_org r1"
  "claim_key (c1\<lparr>cl_confidence := q\<rparr>) = claim_key c1"
  "claim_key (c1\<lparr>cl_evidence := x1\<rparr>) = claim_key c1"
  "claim_key (c1\<lparr>cl_extracted_at := n1\<rparr>) = claim_key c1"
  "connector_key (k1\<lparr>cs_cursor := x1\<rparr>) = connector_key k1"
  "connector_key (k1\<lparr>cs_metadata := j\<rparr>) = connector_key k1"
  "connector_key (k1\<lparr>cs_owner_user_id := x1\<rparr>) = connector_key k1"
  "connector_key (k1\<lparr>cs_updated_at := n1\<rparr>) = connector_key k1"
  by (simp_all add: org_key_def source_key_def source_org_def claim_key_def connector_key_def)

section \<open>The database\<close>

record db =
  tenants :: "tenant_row table"
  organizations :: "organization_row table"
  sources :: "source_row table"
  source_versions :: "version_row table"
  claims :: "claim_row table"
  opportunities :: "opportunity_row table"
  opportunity_overrides :: "override_row table"
  connector_state :: "connector_state_row table"
  audit_events :: "audit_row table"
  jobs :: "job_row table"
  tenant_queue_state :: "tenant_queue_row table"
  users :: "user_row table"
  memberships :: "membership_row table"
  sessions :: "session_row table"
  credentials :: "credential_row table"
  source_version_contributors :: "contributor_row table"

definition empty_db :: db where
  "empty_db = \<lparr>tenants = [], organizations = [], sources = [], source_versions = [], claims = [],
     opportunities = [], opportunity_overrides = [], connector_state = [], audit_events = [],
     jobs = [], tenant_queue_state = [], users = [], memberships = [], sessions = [],
     credentials = [], source_version_contributors = []\<rparr>"

text \<open>The \<open>Store\<close> object: its database and the depth of the transaction it is in.\<close>

record store = db +
  transactionDepth :: nat

type_synonym 'a store_op = "(error, store, 'a) op"

abbreviation tenant_exists :: "string \<Rightarrow> ('m) db_scheme \<Rightarrow> bool" where
  "tenant_exists t s \<equiv> exists_row (\<lambda>r. tn_id r = t) (tenants s)"

abbreviation organization_exists :: "string \<Rightarrow> string \<Rightarrow> ('m) db_scheme \<Rightarrow> bool" where
  "organization_exists t i s \<equiv>
     exists_row (\<lambda>r. org_key r = (t, i)) (organizations s)"

abbreviation membership_exists :: "string \<Rightarrow> string \<Rightarrow> ('m) db_scheme \<Rightarrow> bool" where
  "membership_exists t u s \<equiv> exists_row (\<lambda>r. member_key r = (t, u)) (memberships s)"

abbreviation user_exists :: "string \<Rightarrow> ('m) db_scheme \<Rightarrow> bool" where
  "user_exists u s \<equiv> exists_row (\<lambda>r. us_id r = u) (users s)"

definition precision_ok :: "string option \<Rightarrow> bool" where
  "precision_ok p = (case p of None \<Rightarrow> True | Some x \<Rightarrow> x \<in> set TemporalPrecision)"

definition confidence_ok :: "rat \<Rightarrow> bool" where
  "confidence_ok c \<longleftrightarrow> 0 \<le> c \<and> c \<le> 1"

section \<open>Transactions\<close>

text \<open>\<open>Store.transaction\<close>: a nested call runs inside the open transaction; the outermost one
  commits on return and rolls every table back on a throw. The callbacks passed to it await only
  operations of the same store, and are taken to run without another request's operations in
  between.\<close>

definition transaction :: "'a store_op \<Rightarrow> 'a store_op" where
  "transaction operation s =
     (if 0 < transactionDepth s then operation s
      else case operation (s\<lparr>transactionDepth := transactionDepth s + 1\<rparr>) of
        (Inr x, s') \<Rightarrow> (Inr x, s'\<lparr>transactionDepth := transactionDepth s' - 1\<rparr>)
      | (Inl e, s') \<Rightarrow> (Inl e, s\<lparr>transactionDepth := transactionDepth s' - 1\<rparr>))"

text \<open>An operation that leaves the depth as it found it.\<close>

abbreviation keeps_depth :: "'a store_op \<Rightarrow> bool" where
  "keeps_depth m \<equiv> \<forall>n. preserves (\<lambda>s. transactionDepth s = n) m"

lemma transaction_keeps_depth:
  assumes "keeps_depth m"
  shows "preserves (\<lambda>s. transactionDepth s = n) (transaction m)"
  unfolding preserves_def
proof (intro allI impI)
  fix s :: store assume n: "transactionDepth s = n"
  obtain r s' where m: "m (s\<lparr>transactionDepth := transactionDepth s + 1\<rparr>) = (r, s')" by fastforce
  have "preserves (\<lambda>s. transactionDepth s = Suc n) m" using assms by blast
  from preservesD [OF this _ m] n have "transactionDepth s' = Suc n" by simp
  moreover have "preserves (\<lambda>s. transactionDepth s = n) m" using assms by blast
  ultimately show "transactionDepth (snd (transaction m s)) = n"
    using n m by (cases r) (auto simp: transaction_def preserves_def split: prod.splits)
qed

text \<open>Atomicity: a throw out of an outermost transaction leaves the store as it was.\<close>

lemma transaction_rollback:
  assumes "keeps_depth m" and "transactionDepth s = 0" and "transaction m s = (Inl e, t)"
  shows "t = s"
proof -
  obtain r s' where m: "m (s\<lparr>transactionDepth := 1\<rparr>) = (r, s')" by fastforce
  have "preserves (\<lambda>s. transactionDepth s = 1) m" using assms(1) by blast
  from preservesD [OF this _ m] have "transactionDepth s' = 1" by simp
  then show ?thesis using assms(2,3) m by (cases r) (auto simp: transaction_def)
qed

lemma transaction_Inr:
  "transactionDepth s = 0 \<Longrightarrow> transaction m s = (Inr x, t) \<longleftrightarrow>
     (\<exists>s'. m (s\<lparr>transactionDepth := 1\<rparr>) = (Inr x, s') \<and>
        t = s'\<lparr>transactionDepth := transactionDepth s' - 1\<rparr>)"
  by (auto simp: transaction_def split: prod.splits sum.splits)

lemma transaction_Inl:
  "transactionDepth s = 0 \<Longrightarrow> transaction m s = (Inl e, t) \<Longrightarrow>
     \<exists>s'. m (s\<lparr>transactionDepth := 1\<rparr>) = (Inl e, s')"
  by (auto simp: transaction_def split: prod.splits sum.splits)

text \<open>Nested or not, a transaction that returns ran its operation on the same tables.\<close>

lemma transaction_returns:
  assumes "transaction m s = (Inr x, t)"
  obtains n k u where "m (s\<lparr>transactionDepth := n\<rparr>) = (Inr x, u)" "t = u\<lparr>transactionDepth := k\<rparr>"
proof (cases "0 < transactionDepth s")
  case True
  show thesis
    by (rule that [of "transactionDepth s" t "transactionDepth t"]) (use True assms in \<open>simp_all add: transaction_def\<close>)
next
  case False
  then obtain u where "m (s\<lparr>transactionDepth := 1\<rparr>) = (Inr x, u)"
    "t = u\<lparr>transactionDepth := transactionDepth u - 1\<rparr>"
    using assms by (auto simp: transaction_Inr)
  then show thesis by (rule that)
qed

text \<open>An invariant of the tables alone.\<close>

lemma preserves_transaction:
  assumes "preserves I m" and "\<And>s n. I (s\<lparr>transactionDepth := n\<rparr>) = I s"
  shows "preserves I (transaction m)"
  unfolding preserves_def
proof (intro allI impI)
  fix s :: store assume I: "I s"
  obtain r s' where m: "m (s\<lparr>transactionDepth := transactionDepth s + 1\<rparr>) = (r, s')" by fastforce
  have "I s'" using preservesD [OF assms(1) _ m] I assms(2) by blast
  then show "I (snd (transaction m s))"
    using m I assms by (cases r) (auto simp: transaction_def preserves_def split: prod.splits)
qed

section \<open>Integrity\<close>

text \<open>Primary keys and unique constraints.\<close>

definition keys_ok :: "'m db_scheme \<Rightarrow> bool" where
  "keys_ok s \<longleftrightarrow>
     unique_on tn_id (tenants s) \<and> unique_on org_key (organizations s) \<and>
     unique_on sr_id (sources s) \<and> unique_on source_key (sources s) \<and>
     unique_on sv_id (source_versions s) \<and> unique_on version_key (source_versions s) \<and>
     unique_on cl_id (claims s) \<and> unique_on claim_key (claims s) \<and>
     unique_on opportunity_key (opportunities s) \<and> unique_on ov_id (opportunity_overrides s) \<and>
     unique_on connector_key (connector_state s) \<and> unique_on au_id (audit_events s) \<and>
     unique_on jb_id (jobs s) \<and> unique_on job_key (jobs s) \<and>
     unique_on tq_tenant_id (tenant_queue_state s) \<and>
     unique_on us_id (users s) \<and> unique_on user_key (users s) \<and>
     unique_on member_key (memberships s) \<and>
     unique_on ss_id (sessions s) \<and> unique_on ss_token_hash (sessions s) \<and>
     unique_on cr_id (credentials s) \<and> unique_on credential_key (credentials s) \<and>
     unique_on contributor_key (source_version_contributors s)"

text \<open>Foreign keys: the references a table makes are keys of the table it refers to.\<close>

definition evidence_refs_ok :: "'m db_scheme \<Rightarrow> bool" where
  "evidence_refs_ok s \<longleftrightarrow>
     og_tenant_id ` set (organizations s) \<subseteq> tn_id ` set (tenants s) \<and>
     source_org ` set (sources s) \<subseteq> org_key ` set (organizations s) \<and>
     sv_source_id ` set (source_versions s) \<subseteq> sr_id ` set (sources s) \<and>
     cl_source_version_id ` set (claims s) \<subseteq> sv_id ` set (source_versions s) \<and>
     opportunity_org ` set (opportunities s) \<subseteq> org_key ` set (organizations s) \<and>
     override_org ` set (opportunity_overrides s) \<subseteq> org_key ` set (organizations s) \<and>
     ct_source_version_id ` set (source_version_contributors s) \<subseteq> sv_id ` set (source_versions s)"

definition account_refs_ok :: "'m db_scheme \<Rightarrow> bool" where
  "account_refs_ok s \<longleftrightarrow>
     cs_tenant_id ` set (connector_state s) \<subseteq> tn_id ` set (tenants s) \<and>
     (\<forall>r \<in> set (connector_state s). owner_ok (member_key ` set (memberships s)) r) \<and>
     jb_tenant_id ` set (jobs s) \<subseteq> tn_id ` set (tenants s) \<and>
     tq_tenant_id ` set (tenant_queue_state s) \<subseteq> tn_id ` set (tenants s) \<and>
     mb_tenant_id ` set (memberships s) \<subseteq> tn_id ` set (tenants s) \<and>
     mb_user_id ` set (memberships s) \<subseteq> us_id ` set (users s) \<and>
     ss_tenant_id ` set (sessions s) \<subseteq> tn_id ` set (tenants s) \<and>
     ss_user_id ` set (sessions s) \<subseteq> us_id ` set (users s) \<and>
     cr_tenant_id ` set (credentials s) \<subseteq> tn_id ` set (tenants s) \<and>
     cr_user_id ` set (credentials s) \<subseteq> us_id ` set (users s) \<and>
     ct_tenant_id ` set (source_version_contributors s) \<subseteq> tn_id ` set (tenants s) \<and>
     contributor_member ` set (source_version_contributors s) \<subseteq> member_key ` set (memberships s)"

definition claim_checks :: "claim_row \<Rightarrow> bool" where
  "claim_checks r \<longleftrightarrow>
     confidence_ok (cl_confidence r) \<and> precision_ok (cl_temporal_precision r)"

definition opportunity_checks :: "opportunity_row \<Rightarrow> bool" where
  "opportunity_checks r \<longleftrightarrow> confidence_ok (op_confidence r) \<and>
     precision_ok (op_deadline_precision r) \<and> precision_ok (op_starts_at_precision r)"

definition checks_ok :: "'m db_scheme \<Rightarrow> bool" where
  "checks_ok s \<longleftrightarrow> (\<forall>r \<in> set (claims s). claim_checks r) \<and>
     (\<forall>r \<in> set (opportunities s). opportunity_checks r)"

definition db_ok :: "'m db_scheme \<Rightarrow> bool" where
  "db_ok s \<longleftrightarrow> keys_ok s \<and> evidence_refs_ok s \<and> account_refs_ok s \<and> checks_ok s"

lemmas db_ok_defs = db_ok_def keys_ok_def evidence_refs_ok_def account_refs_ok_def checks_ok_def

lemma db_ok_depth [simp]: "db_ok (s\<lparr>transactionDepth := n\<rparr>) = db_ok s"
  by (simp add: db_ok_defs)

lemma db_ok_empty: "db_ok empty_db"
  by (simp add: db_ok_defs empty_db_def)

lemma db_ok_transaction [preserves_intros]:
  "preserves db_ok m \<Longrightarrow> preserves db_ok (transaction m)"
  by (rule preserves_transaction) simp_all

end
