(* ===== verification/Store.thy ===== *)
theory Store
  imports Database
begin

text \<open>
  The evidence repository, src/src/store.ts. Every method of the class \<open>Store\<close> is an operation
  on the store state; the tenant argument is the resolved one (the source's default arguments are
  \<open>tenant_arg\<close>). An argument \<open>now\<close> is the clock reading of the method, \<open>clk n\<close> its
  n-th reading where it makes several.
\<close>

section \<open>Content identity\<close>

definition tenant_arg :: "string \<Rightarrow> string option \<Rightarrow> string" where
  "tenant_arg defaultTenantId tenantId = nullish tenantId defaultTenantId"

definition opt_member :: "string \<Rightarrow> string option \<Rightarrow> (string \<times> json) list" where
  "opt_member k v = (case v of None \<Rightarrow> [] | Some x \<Rightarrow> [(k, JStr x)])"

definition media_json :: "MediaRef \<Rightarrow> json" where
  "media_json m = JObj
     ([(''type'', JStr (case media_type m of media_image \<Rightarrow> ''image'' | media_video \<Rightarrow> ''video''
          | media_document \<Rightarrow> ''document''))]
      @ opt_member ''url'' (media_url m) @ opt_member ''base64'' (media_base64 m)
      @ opt_member ''mimeType'' (media_mimeType m) @ opt_member ''alt'' (media_alt m))"

definition content_json :: "SourceItem \<Rightarrow> json" where
  "content_json source = JObj
     [(''rawText'', JStr (src_rawText source)),
      (''media'', JArr (map media_json (src_media source))),
      (''publishedAt'', case src_publishedAt source of None \<Rightarrow> JNull | Some p \<Rightarrow> JStr p),
      (''metadata'', nullish (src_metadata source) (JObj []))]"

definition contentHash :: "(string \<Rightarrow> string) \<Rightarrow> SourceItem \<Rightarrow> string" where
  "contentHash sha source = sha (stringify (content_json source))"

definition sourceIdentity :: "SourceItem \<Rightarrow> string" where
  "sourceIdentity source = nullish (src_externalId source) (nullish (src_url source) (src_id source))"

definition source_id_of :: "(string \<Rightarrow> string) \<Rightarrow> SourceItem \<Rightarrow> string \<Rightarrow> string" where
  "source_id_of sha source tenantId = stableId sha ''src''
     (tenantId @ '':'' @ src_organizationId source @ '':''
      @ source_type_text (src_sourceType source) @ '':'' @ sourceIdentity source)"

definition version_id_of :: "(string \<Rightarrow> string) \<Rightarrow> SourceItem \<Rightarrow> string \<Rightarrow> string" where
  "version_id_of sha source tenantId = stableId sha ''srcv''
     (source_id_of sha source tenantId @ '':'' @ contentHash sha source)"

section \<open>Tenants and organizations\<close>

definition ensureTenant :: "int \<Rightarrow> string \<Rightarrow> string \<Rightarrow> unit store_op" where
  "ensureTenant now i name = modifyE (\<lambda>s.
     if tenant_exists i s then s
     else s\<lparr>tenants := tenants s @ [\<lparr>tn_id = i, tn_name = name, tn_created_at = nowIso now\<rparr>]\<rparr>)"

definition new_Store :: "int \<Rightarrow> string \<Rightarrow> store" where
  "new_Store now defaultTenantId =
     snd ((ensureTenant now defaultTenantId ''Default tenant'' :: unit store_op)
       (db.extend empty_db (store.fields 0)))"

definition upsert_organization_row :: "organization_row \<Rightarrow> unit store_op" where
  "upsert_organization_row row s =
     (if \<not> tenant_exists (og_tenant_id row) s
      then (Inl (SqlError (ForeignKeyViolation ''organizations'')), s)
      else if exists_row (\<lambda>r. org_key r = org_key row) (organizations s) then
        (Inr (), s\<lparr>organizations := update_where (\<lambda>r. org_key r = org_key row)
          (\<lambda>r. r\<lparr>og_name := og_name row, og_school := og_school row,
            og_heel_life_url := coalesce (og_heel_life_url row) (og_heel_life_url r),
            og_website_url := coalesce (og_website_url row) (og_website_url r),
            og_instagram_handle := coalesce (og_instagram_handle row) (og_instagram_handle r),
            og_linkedin_url := coalesce (og_linkedin_url row) (og_linkedin_url r),
            og_updated_at := og_updated_at row\<rparr>) (organizations s)\<rparr>)
      else (Inr (), s\<lparr>organizations := organizations s @ [row]\<rparr>))"

definition upsertOrganization :: "(nat \<Rightarrow> int) \<Rightarrow> Organization \<Rightarrow> string \<Rightarrow> unit store_op" where
  "upsertOrganization clk organization tenantId =
     bindE (ensureTenant (clk 0) tenantId tenantId) (\<lambda>_.
       upsert_organization_row
         \<lparr>og_tenant_id = tenantId, og_id = org_id organization, og_name = org_name organization,
          og_school = org_school organization, og_heel_life_url = org_heelLifeUrl organization,
          og_website_url = org_websiteUrl organization,
          og_instagram_handle = org_instagramHandle organization,
          og_linkedin_url = org_linkedinUrl organization,
          og_created_at = nowIso (clk 1), og_updated_at = nowIso (clk 1)\<rparr>)"

definition mapOrganization :: "organization_row \<Rightarrow> Organization" where
  "mapOrganization row = \<lparr>org_id = og_id row, org_tenantId = Some (og_tenant_id row),
     org_name = og_name row, org_school = og_school row,
     org_heelLifeUrl = text_or_undefined (og_heel_life_url row),
     org_websiteUrl = text_or_undefined (og_website_url row),
     org_instagramHandle = text_or_undefined (og_instagram_handle row),
     org_linkedinUrl = text_or_undefined (og_linkedin_url row)\<rparr>"

definition getOrganization :: "string \<Rightarrow> string \<Rightarrow> Organization option store_op" where
  "getOrganization i tenantId = getE (\<lambda>s. map_option mapOrganization
     (select_first (\<lambda>r. og_tenant_id r = tenantId \<and> og_id r = i) (organizations s)))"

definition listOrganizations :: "string \<Rightarrow> Organization list store_op" where
  "listOrganizations tenantId = getE (\<lambda>s. map mapOrganization
     (order_by og_name (select_where (\<lambda>r. og_tenant_id r = tenantId) (organizations s))))"

section \<open>Sources and their versions\<close>

definition upsert_source_row :: "source_row \<Rightarrow> unit store_op" where
  "upsert_source_row row s =
     (if exists_row (\<lambda>r. org_key r = source_org row) (organizations s) then
        if exists_row (\<lambda>r. source_key r = source_key row) (sources s) then
          (Inr (), s\<lparr>sources := update_where (\<lambda>r. source_key r = source_key row)
            (\<lambda>r. r\<lparr>sr_external_id := sr_external_id row, sr_url := sr_url row,
               sr_title := sr_title row, sr_last_seen_at := sr_last_seen_at row\<rparr>) (sources s)\<rparr>)
        else if exists_row (\<lambda>r. sr_id r = sr_id row) (sources s) then
          (Inl (SqlError (UniqueViolation ''sources.id'')), s)
        else (Inr (), s\<lparr>sources := sources s @ [row]\<rparr>)
      else (Inl (SqlError (ForeignKeyViolation ''sources'')), s))"

definition insert_or_ignore_version :: "version_row \<Rightarrow> unit store_op" where
  "insert_or_ignore_version row s =
     (if exists_row (\<lambda>r. sv_id r = sv_id row \<or> version_key r = version_key row) (source_versions s)
      then (Inr (), s)
      else if \<not> exists_row (\<lambda>r. sr_id r = sv_source_id row) (sources s) then
        (Inl (SqlError (ForeignKeyViolation ''source_versions'')), s)
      else (Inr (), s\<lparr>source_versions := source_versions s @ [row]\<rparr>))"

definition insert_or_ignore_contributor :: "contributor_row \<Rightarrow> unit store_op" where
  "insert_or_ignore_contributor row s =
     (if exists_row (\<lambda>r. contributor_key r = contributor_key row) (source_version_contributors s)
      then (Inr (), s)
      else if \<not> (tenant_exists (ct_tenant_id row) s \<and>
          exists_row (\<lambda>r. sv_id r = ct_source_version_id row) (source_versions s) \<and>
          exists_row (\<lambda>r. member_key r = contributor_member row) (memberships s)) then
        (Inl (SqlError (ForeignKeyViolation ''source_version_contributors'')), s)
      else (Inr (), s\<lparr>source_version_contributors := source_version_contributors s @ [row]\<rparr>))"

definition update_versions :: "(version_row \<Rightarrow> bool) \<Rightarrow> (version_row \<Rightarrow> version_row) \<Rightarrow> nat store_op" where
  "update_versions p f s = (Inr (count_where p (source_versions s)),
     s\<lparr>source_versions := update_where p f (source_versions s)\<rparr>)"

definition record_contributor :: "int \<Rightarrow> string \<Rightarrow> string \<Rightarrow> string option \<Rightarrow> unit store_op" where
  "record_contributor now tenantId versionId contributorUserId =
     (if truthy contributorUserId then
        bindE (guardE (membership_exists tenantId (the contributorUserId))
            (Error ''Source contributor is not a tenant member'')) (\<lambda>_.
          insert_or_ignore_contributor \<lparr>ct_tenant_id = tenantId, ct_source_version_id = versionId,
            ct_user_id = the contributorUserId, ct_created_at = nowIso now\<rparr>)
      else retE ())"

definition find_version :: "string \<Rightarrow> string \<Rightarrow> 'm db_scheme \<Rightarrow> version_row option" where
  "find_version tenantId versionId s =
     select_first (\<lambda>r. sv_tenant_id r = tenantId \<and> sv_id r = versionId) (source_versions s)"

definition source_row_of :: "(string \<Rightarrow> string) \<Rightarrow> int \<Rightarrow> SourceItem \<Rightarrow> string \<Rightarrow> source_row" where
  "source_row_of sha now source tenantId =
     \<lparr>sr_id = source_id_of sha source tenantId, sr_tenant_id = tenantId,
      sr_organization_id = src_organizationId source, sr_source_type = src_sourceType source,
      sr_identity_key = sourceIdentity source, sr_external_id = src_externalId source,
      sr_url = src_url source, sr_title = src_title source,
      sr_created_at = nowIso now, sr_last_seen_at = nowIso now\<rparr>"

definition version_row_of :: "(string \<Rightarrow> string) \<Rightarrow> int \<Rightarrow> SourceItem \<Rightarrow> string \<Rightarrow> version_row" where
  "version_row_of sha now source tenantId =
     \<lparr>sv_id = version_id_of sha source tenantId, sv_source_id = source_id_of sha source tenantId,
      sv_tenant_id = tenantId, sv_organization_id = src_organizationId source,
      sv_content_hash = contentHash sha source, sv_raw_text = src_rawText source,
      sv_media = src_media source, sv_published_at = src_publishedAt source,
      sv_fetched_at = src_fetchedAt source, sv_metadata = nullish (src_metadata source) (JObj []),
      sv_status = received, sv_attempt_count = 0, sv_next_attempt_at = None,
      sv_last_error = None, sv_started_at = None, sv_completed_at = None,
      sv_created_at = nowIso now\<rparr>"

text \<open>A version is processed when it is new or its last attempt failed and may be retried.\<close>

definition should_process :: "SourceVersionStatus \<Rightarrow> bool" where
  "should_process st \<longleftrightarrow> st = received \<or> st = retryable_failed"

definition stageSource :: "(string \<Rightarrow> string) \<Rightarrow> int \<Rightarrow> SourceItem \<Rightarrow> string \<Rightarrow> StageSourceResult store_op"
where
  "stageSource sha now source tenantId = transaction
     (bindE (upsert_source_row (source_row_of sha now source tenantId)) (\<lambda>_.
      bindE (insert_or_ignore_version (version_row_of sha now source tenantId)) (\<lambda>_.
      bindE (record_contributor now tenantId (version_id_of sha source tenantId)
         (src_contributorUserId source)) (\<lambda>_.
      bindE (getE (find_version tenantId (version_id_of sha source tenantId))) (\<lambda>found.
        case found of None \<Rightarrow> throwE (TypeError ''Cannot read properties of undefined'')
        | Some row \<Rightarrow>
          let shouldProcess = should_process (sv_status row) in
          bindE (if shouldProcess then
              update_versions
                (\<lambda>r. sv_tenant_id r = tenantId \<and> sv_id r = version_id_of sha source tenantId)
                (\<lambda>r. r\<lparr>sv_status := queued, sv_next_attempt_at := None\<rparr>)
            else retE 0) (\<lambda>_.
          retE \<lparr>stg_sourceId = source_id_of sha source tenantId,
            stg_versionId = version_id_of sha source tenantId,
            stg_status = (if shouldProcess then queued else sv_status row),
            stg_shouldProcess = shouldProcess, stg_unchanged = (sv_status row \<noteq> received),
            stg_attemptCount = sv_attempt_count row\<rparr>))))))"

definition putSource :: "(string \<Rightarrow> string) \<Rightarrow> int \<Rightarrow> string \<Rightarrow> SourceItem \<Rightarrow> bool store_op" where
  "putSource sha now defaultTenantId source =
     bindE (stageSource sha now source (tenant_arg defaultTenantId (src_tenantId source)))
       (\<lambda>r. retE (stg_shouldProcess r))"

definition ready_for_processing :: "SourceVersionStatus \<Rightarrow> bool" where
  "ready_for_processing st \<longleftrightarrow> st = queued \<or> st = retryable_failed \<or> st = received"

definition markSourceProcessing :: "int \<Rightarrow> string \<Rightarrow> string \<Rightarrow> nat store_op" where
  "markSourceProcessing now versionId tenantId =
     bindE (update_versions
         (\<lambda>r. sv_tenant_id r = tenantId \<and> sv_id r = versionId \<and> ready_for_processing (sv_status r))
         (\<lambda>r. r\<lparr>sv_status := processing, sv_attempt_count := sv_attempt_count r + 1,
            sv_started_at := Some (nowIso now), sv_last_error := None\<rparr>)) (\<lambda>changes.
       if changes \<noteq> 1 then throwE (Error ''Source version is not ready for processing'')
       else bindE (getE (find_version tenantId versionId)) (\<lambda>found.
         case found of None \<Rightarrow> throwE (TypeError ''Cannot read properties of undefined'')
         | Some row \<Rightarrow> retE (sv_attempt_count row)))"

definition markSourceSucceeded :: "int \<Rightarrow> string \<Rightarrow> string \<Rightarrow> unit store_op" where
  "markSourceSucceeded now versionId tenantId =
     bindE (update_versions (\<lambda>r. sv_tenant_id r = tenantId \<and> sv_id r = versionId)
       (\<lambda>r. r\<lparr>sv_status := succeeded, sv_completed_at := Some (nowIso now),
          sv_next_attempt_at := None, sv_last_error := None\<rparr>)) (\<lambda>_. retE ())"

definition markSourceFailed :: "int \<Rightarrow> string \<Rightarrow> ProcessingFailure \<Rightarrow> string \<Rightarrow> unit store_op" where
  "markSourceFailed now versionId failure tenantId =
     bindE (update_versions (\<lambda>r. sv_tenant_id r = tenantId \<and> sv_id r = versionId)
       (\<lambda>r. r\<lparr>sv_status := (if fail_retryable failure then retryable_failed else terminal_failed),
          sv_last_error := Some (take 500 (fail_message failure)),
          sv_next_attempt_at := fail_nextAttemptAt failure,
          sv_completed_at := Some (nowIso now)\<rparr>)) (\<lambda>_. retE ())"

definition join_source :: "'m db_scheme \<Rightarrow> version_row \<Rightarrow> (version_row \<times> source_row) list" where
  "join_source s v = map (Pair v) (select_where (\<lambda>r. sr_id r = sv_source_id v) (sources s))"

definition source_item_of :: "version_row \<times> source_row \<Rightarrow> SourceItem" where
  "source_item_of vr = (let v = fst vr; r = snd vr in
     \<lparr>src_id = sv_id v, src_tenantId = Some (sv_tenant_id v), src_contributorUserId = None,
      src_organizationId = sv_organization_id v, src_sourceType = sr_source_type r,
      src_externalId = text_or_undefined (sr_external_id r), src_url = text_or_undefined (sr_url r),
      src_title = text_or_undefined (sr_title r), src_rawText = sv_raw_text v,
      src_media = sv_media v, src_publishedAt = text_or_undefined (sv_published_at v),
      src_fetchedAt = sv_fetched_at v, src_metadata = Some (sv_metadata v)\<rparr>)"

definition getSource :: "string \<Rightarrow> string \<Rightarrow> SourceItem option store_op" where
  "getSource i tenantId = getE (\<lambda>s. map_option source_item_of
     (first_by_desc (\<lambda>vr. sv_fetched_at (fst vr))
       (filter (\<lambda>vr. sv_tenant_id (fst vr) = tenantId \<and> (sv_id (fst vr) = i \<or> sr_id (snd vr) = i))
         (concat (map (join_source s) (source_versions s))))))"

definition getSourceVersionStatus ::
    "string \<Rightarrow> string \<Rightarrow> (SourceVersionStatus \<times> nat \<times> string option) option store_op" where
  "getSourceVersionStatus versionId tenantId = getE (\<lambda>s. map_option
     (\<lambda>row. (sv_status row, sv_attempt_count row, text_or_undefined (sv_last_error row)))
     (find_version tenantId versionId s))"

section \<open>Claims\<close>

definition upsert_claim_row :: "claim_row \<Rightarrow> unit store_op" where
  "upsert_claim_row row s =
     (if \<not> claim_checks row then (Inl (SqlError (CheckViolation ''claims'')), s)
      else if exists_row (\<lambda>r. claim_key r = claim_key row) (claims s) then
        (Inr (), s\<lparr>claims := update_where (\<lambda>r. claim_key r = claim_key row)
          (\<lambda>r. r\<lparr>cl_confidence := cl_confidence row, cl_evidence := cl_evidence row,
             cl_extracted_at := cl_extracted_at row\<rparr>) (claims s)\<rparr>)
      else if exists_row (\<lambda>r. cl_id r = cl_id row) (claims s) then
        (Inl (SqlError (UniqueViolation ''claims.id'')), s)
      else if \<not> exists_row (\<lambda>r. sv_id r = cl_source_version_id row) (source_versions s) then
        (Inl (SqlError (ForeignKeyViolation ''claims'')), s)
      else (Inr (), s\<lparr>claims := claims s @ [row]\<rparr>))"

definition claim_row_of :: "string \<Rightarrow> Claim \<Rightarrow> claim_row" where
  "claim_row_of tenantId claim =
     \<lparr>cl_id = clm_id claim, cl_tenant_id = nullish (clm_tenantId claim) tenantId,
      cl_organization_id = clm_organizationId claim,
      cl_source_version_id = clm_sourceItemId claim, cl_field = clm_field claim,
      cl_value = clm_value claim, cl_confidence = clm_confidence claim,
      cl_published_at = clm_publishedAt claim, cl_extracted_at = clm_extractedAt claim,
      cl_supersedes = clm_supersedes claim, cl_evidence = clm_evidence claim,
      cl_temporal_precision = clm_temporalPrecision claim\<rparr>"

definition putClaims :: "Claim list \<Rightarrow> string \<Rightarrow> unit store_op" where
  "putClaims cs tenantId = forE (\<lambda>c. upsert_claim_row (claim_row_of tenantId c)) cs"

definition claim_of_row :: "claim_row \<Rightarrow> Claim" where
  "claim_of_row row =
     \<lparr>clm_id = cl_id row, clm_tenantId = Some (cl_tenant_id row),
      clm_organizationId = cl_organization_id row, clm_sourceItemId = cl_source_version_id row,
      clm_field = cl_field row, clm_value = cl_value row, clm_confidence = cl_confidence row,
      clm_publishedAt = text_or_undefined (cl_published_at row),
      clm_extractedAt = cl_extracted_at row, clm_evidence = text_or_undefined (cl_evidence row),
      clm_supersedes = cl_supersedes row,
      clm_temporalPrecision = text_or_undefined (cl_temporal_precision row)\<rparr>"

definition listClaims :: "string \<Rightarrow> string \<Rightarrow> Claim list store_op" where
  "listClaims organizationId tenantId = getE (\<lambda>s. map claim_of_row
     (order_by (\<lambda>r. nullish (cl_published_at r) (cl_extracted_at r))
       (select_where (\<lambda>r. cl_tenant_id r = tenantId \<and> cl_organization_id r = organizationId)
         (claims s))))"

section \<open>Opportunities and reviewed overrides\<close>

definition insert_opportunity_row :: "opportunity_row \<Rightarrow> unit store_op" where
  "insert_opportunity_row row s =
     (if \<not> opportunity_checks row then (Inl (SqlError (CheckViolation ''opportunities'')), s)
      else if exists_row (\<lambda>r. opportunity_key r = opportunity_key row) (opportunities s) then
        (Inl (SqlError (UniqueViolation ''opportunities.tenant_id, opportunities.id'')), s)
      else if \<not> exists_row (\<lambda>r. org_key r = opportunity_org row) (organizations s) then
        (Inl (SqlError (ForeignKeyViolation ''opportunities'')), s)
      else (Inr (), s\<lparr>opportunities := opportunities s @ [row]\<rparr>))"

definition opportunity_row_of :: "string \<Rightarrow> rat \<Rightarrow> Opportunity \<Rightarrow> opportunity_row" where
  "opportunity_row_of tenantId c o' =
     \<lparr>op_id = opp_id o', op_tenant_id = nullish (opp_tenantId o') tenantId,
      op_organization_id = opp_organizationId o', op_kind = opp_kind o',
      op_title = opp_title o', op_deadline_at = opp_deadlineAt o',
      op_starts_at = opp_startsAt o', op_url = opp_url o', op_role = opp_role o',
      op_confidence = c, op_stale = opp_stale o',
      op_source_claim_ids = opp_sourceClaimIds o', op_explanation = opp_explanation o',
      op_resolver_version = nullish (opp_resolverVersion o') ''resolver-v1'',
      op_resolved_at = opp_resolvedAt o',
      op_deadline_precision = opp_deadlinePrecision o',
      op_starts_at_precision = opp_startsAtPrecision o'\<rparr>"

definition insert_opportunity :: "string \<Rightarrow> Opportunity \<Rightarrow> unit store_op" where
  "insert_opportunity tenantId o' =
     (case opp_confidence o' of
        None \<Rightarrow> throwE (SqlError (NotNullViolation ''opportunities.confidence''))
      | Some c \<Rightarrow> insert_opportunity_row (opportunity_row_of tenantId c o'))"

definition delete_opportunities :: "string \<Rightarrow> string \<Rightarrow> unit store_op" where
  "delete_opportunities tenantId organizationId = modifyE (\<lambda>s. s\<lparr>opportunities :=
     delete_where (\<lambda>r. op_tenant_id r = tenantId \<and> op_organization_id r = organizationId)
       (opportunities s)\<rparr>)"

definition replaceOpportunities :: "string \<Rightarrow> Opportunity list \<Rightarrow> string \<Rightarrow> unit store_op" where
  "replaceOpportunities organizationId os tenantId =
     bindE (delete_opportunities tenantId organizationId) (\<lambda>_.
       forE (insert_opportunity tenantId) os)"

definition opportunity_of_row :: "opportunity_row \<Rightarrow> Opportunity" where
  "opportunity_of_row row =
     \<lparr>opp_id = op_id row, opp_tenantId = Some (op_tenant_id row),
      opp_organizationId = op_organization_id row, opp_kind = op_kind row,
      opp_title = op_title row, opp_deadlineAt = text_or_undefined (op_deadline_at row),
      opp_startsAt = text_or_undefined (op_starts_at row),
      opp_url = text_or_undefined (op_url row), opp_role = text_or_undefined (op_role row),
      opp_confidence = Some (op_confidence row), opp_stale = op_stale row,
      opp_sourceClaimIds = op_source_claim_ids row, opp_explanation = op_explanation row,
      opp_resolvedAt = op_resolved_at row, opp_resolverVersion = Some (op_resolver_version row),
      opp_deadlinePrecision = text_or_undefined (op_deadline_precision row),
      opp_startsAtPrecision = text_or_undefined (op_starts_at_precision row)\<rparr>"

definition listOpportunities :: "string option \<Rightarrow> string \<Rightarrow> Opportunity list store_op" where
  "listOpportunities organizationId tenantId = getE (\<lambda>s. map opportunity_of_row
     (order_by (\<lambda>r. coalesce (op_deadline_at r) (op_starts_at r))
       (select_where (\<lambda>r. op_tenant_id r = tenantId \<and>
          (truthy organizationId \<longrightarrow> op_organization_id r = the organizationId)) (opportunities s))))"

definition insert_override_row :: "override_row \<Rightarrow> unit store_op" where
  "insert_override_row row s =
     (if exists_row (\<lambda>r. ov_id r = ov_id row) (opportunity_overrides s) then
        (Inl (SqlError (UniqueViolation ''opportunity_overrides.id'')), s)
      else if \<not> exists_row (\<lambda>r. org_key r = override_org row) (organizations s) then
        (Inl (SqlError (ForeignKeyViolation ''opportunity_overrides'')), s)
      else (Inr (), s\<lparr>opportunity_overrides := opportunity_overrides s @ [row]\<rparr>))"

definition putOpportunityOverride :: "OpportunityOverride \<Rightarrow> string \<Rightarrow> unit store_op" where
  "putOpportunityOverride override tenantId =
     (if \<not> truthy (ovr_actorId override)
      then throwE (Error ''Opportunity override actor is required'')
      else insert_override_row
        \<lparr>ov_id = ovr_id override, ov_tenant_id = tenantId,
         ov_opportunity_id = ovr_opportunityId override,
         ov_organization_id = ovr_organizationId override,
         ov_actor_id = the (ovr_actorId override), ov_patch = ovr_patch override,
         ov_reason = ovr_reason override, ov_created_at = ovr_createdAt override,
         ov_revoked_at = None\<rparr>)"

definition override_of_row :: "override_row \<Rightarrow> OpportunityOverride" where
  "override_of_row row =
     \<lparr>ovr_id = ov_id row, ovr_tenantId = ov_tenant_id row,
      ovr_opportunityId = ov_opportunity_id row, ovr_organizationId = ov_organization_id row,
      ovr_actorId = text_or_undefined (Some (ov_actor_id row)), ovr_patch = ov_patch row,
      ovr_reason = ov_reason row, ovr_createdAt = ov_created_at row\<rparr>"

definition listOpportunityOverrides :: "string \<Rightarrow> string \<Rightarrow> OpportunityOverride list store_op" where
  "listOpportunityOverrides organizationId tenantId = getE (\<lambda>s. map override_of_row
     (order_by ov_created_at (select_where (\<lambda>r. ov_tenant_id r = tenantId \<and>
        ov_organization_id r = organizationId \<and> ov_revoked_at r = None) (opportunity_overrides s))))"

section \<open>Connector cursors\<close>

definition getConnectorState ::
    "string \<Rightarrow> string \<Rightarrow> string \<Rightarrow> (string option \<times> json) store_op" where
  "getConnectorState connector scope tenantId = getE (\<lambda>s.
     case select_first (\<lambda>r. connector_key r = (tenantId, connector, scope)) (connector_state s) of
       None \<Rightarrow> (None, JObj [])
     | Some row \<Rightarrow> (text_or_undefined (cs_cursor row), cs_metadata row))"

definition upsert_connector_row :: "connector_state_row \<Rightarrow> unit store_op" where
  "upsert_connector_row row s =
     (if \<not> tenant_exists (cs_tenant_id row) s \<or>
         \<not> owner_ok (member_key ` set (memberships s)) row then
        (Inl (SqlError (ForeignKeyViolation ''connector_state'')), s)
      else if exists_row (\<lambda>r. connector_key r = connector_key row) (connector_state s) then
        (Inr (), s\<lparr>connector_state := update_where (\<lambda>r. connector_key r = connector_key row)
          (\<lambda>r. r\<lparr>cs_cursor := cs_cursor row, cs_metadata := cs_metadata row,
             cs_owner_user_id := cs_owner_user_id row, cs_updated_at := cs_updated_at row\<rparr>)
          (connector_state s)\<rparr>)
      else (Inr (), s\<lparr>connector_state := connector_state s @ [row]\<rparr>))"

definition setConnectorState ::
    "int \<Rightarrow> string \<Rightarrow> string \<Rightarrow> string option \<Rightarrow> json \<Rightarrow> string \<Rightarrow> string option \<Rightarrow> unit store_op" where
  "setConnectorState now connector scope cursor metadata tenantId ownerUserId =
     upsert_connector_row \<lparr>cs_tenant_id = tenantId, cs_connector = connector, cs_scope = scope,
       cs_cursor = cursor, cs_metadata = metadata, cs_owner_user_id = ownerUserId,
       cs_updated_at = nowIso now\<rparr>"

end
