(* ===== verification/StoreIntegrity.thy ===== *)
theory StoreIntegrity
  imports Store
begin

text \<open>
  Every operation of the repository keeps the integrity of the database, whether it returns or
  throws, and leaves the transaction depth as it found it. The statements come first, the methods
  follow from them by the rules of \<open>preserves\<close>.
\<close>

lemma db_ok_ensureTenant [preserves_intros]: "preserves db_ok (ensureTenant now i name)"
  unfolding ensureTenant_def
  by (rule preserves_modifyE) (auto simp: db_ok_defs table_simps subset_insertI2)

lemma db_ok_upsert_organization [preserves_intros]: "preserves db_ok (upsert_organization_row row)"
  by (auto simp: preserves_def upsert_organization_row_def db_ok_defs table_simps subset_insertI2)

lemma db_ok_upsert_source [preserves_intros]: "preserves db_ok (upsert_source_row row)"
  by (auto simp: preserves_def upsert_source_row_def db_ok_defs table_simps subset_insertI2)

lemma db_ok_insert_version [preserves_intros]: "preserves db_ok (insert_or_ignore_version row)"
  by (auto simp: preserves_def insert_or_ignore_version_def db_ok_defs table_simps subset_insertI2)

lemma db_ok_insert_contributor [preserves_intros]:
  "preserves db_ok (insert_or_ignore_contributor row)"
  by (auto simp: preserves_def insert_or_ignore_contributor_def db_ok_defs table_simps subset_insertI2)

lemma db_ok_update_versions:
  assumes "\<And>r. sv_id (f r) = sv_id r" "\<And>r. version_key (f r) = version_key r"
    "\<And>r. sv_source_id (f r) = sv_source_id r"
  shows "preserves db_ok (update_versions p f)"
  using assms by (auto simp: preserves_def update_versions_def db_ok_defs unique_on_update_where
      image_update_where)

lemma db_ok_upsert_claim [preserves_intros]: "preserves db_ok (upsert_claim_row row)"
  by (auto simp: preserves_def upsert_claim_row_def db_ok_defs table_simps claim_checks_def)

lemma db_ok_delete_opportunities [preserves_intros]: "preserves db_ok (delete_opportunities t i)"
  unfolding delete_opportunities_def
  by (rule preserves_modifyE)
    (auto simp: db_ok_defs unique_on_delete_where set_delete_where)

lemma db_ok_insert_opportunity_row [preserves_intros]: "preserves db_ok (insert_opportunity_row row)"
  by (auto simp: preserves_def insert_opportunity_row_def db_ok_defs table_simps)

lemma db_ok_insert_override [preserves_intros]: "preserves db_ok (insert_override_row row)"
  by (auto simp: preserves_def insert_override_row_def db_ok_defs table_simps)

lemma owner_ok_update:
  "connector_key r = connector_key row \<Longrightarrow>
     owner_ok ms (r\<lparr>cs_cursor := c, cs_metadata := m, cs_owner_user_id := cs_owner_user_id row,
       cs_updated_at := n\<rparr>) = owner_ok ms row"
  by (simp add: owner_ok_def connector_key_def split: option.splits)

lemma db_ok_upsert_connector [preserves_intros]: "preserves db_ok (upsert_connector_row row)"
proof -
  have keys: "k ` set (update_where (\<lambda>r. connector_key r = connector_key row)
      (\<lambda>r. r\<lparr>cs_cursor := c, cs_metadata := m, cs_owner_user_id := u, cs_updated_at := n\<rparr>) t)
      = k ` set t" if "k = cs_tenant_id" for k c m u n t
    using that by (simp add: image_update_where)
  show ?thesis
    by (simp add: preserves_def upsert_connector_row_def db_ok_defs table_simps owner_ok_update keys)
qed

section \<open>The methods\<close>

lemma db_ok_upsertOrganization: "preserves db_ok (upsertOrganization clk org t)"
  unfolding upsertOrganization_def by (intro preserves_intros)

lemma db_ok_record_contributor [preserves_intros]:
  "preserves db_ok (record_contributor now t v u)"
  unfolding record_contributor_def by (intro preserves_intros)

lemma db_ok_stageSource [preserves_intros]: "preserves db_ok (stageSource sha now source t)"
  unfolding stageSource_def Let_def
  by (intro preserves_intros db_ok_update_versions) (simp_all add: version_key_def)

lemma db_ok_markSourceProcessing [preserves_intros]:
  "preserves db_ok (markSourceProcessing now v t)"
  unfolding markSourceProcessing_def
  by (intro preserves_intros db_ok_update_versions) (simp_all add: version_key_def)

lemma db_ok_markSourceSucceeded [preserves_intros]: "preserves db_ok (markSourceSucceeded now v t)"
  unfolding markSourceSucceeded_def
  by (intro preserves_intros db_ok_update_versions) (simp_all add: version_key_def)

lemma db_ok_markSourceFailed [preserves_intros]: "preserves db_ok (markSourceFailed now v f t)"
  unfolding markSourceFailed_def
  by (intro preserves_intros db_ok_update_versions) (simp_all add: version_key_def)

lemma db_ok_putClaims [preserves_intros]: "preserves db_ok (putClaims cs t)"
  unfolding putClaims_def by (intro preserves_intros)

lemma db_ok_insert_opportunity [preserves_intros]: "preserves db_ok (insert_opportunity t o')"
  unfolding insert_opportunity_def by (intro preserves_intros)

lemma db_ok_replaceOpportunities [preserves_intros]:
  "preserves db_ok (replaceOpportunities i os t)"
  unfolding replaceOpportunities_def by (intro preserves_intros)

lemma db_ok_putOpportunityOverride [preserves_intros]:
  "preserves db_ok (putOpportunityOverride override t)"
  unfolding putOpportunityOverride_def by (intro preserves_intros)

lemma db_ok_setConnectorState [preserves_intros]:
  "preserves db_ok (setConnectorState now c sc cu m t u)"
  unfolding setConnectorState_def by (intro preserves_intros)

section \<open>The transaction depth\<close>

text \<open>Statements change tables only.\<close>

lemma depth_statements [preserves_intros]:
  "preserves (\<lambda>s. transactionDepth s = n) (ensureTenant now i name)"
  "preserves (\<lambda>s. transactionDepth s = n) (upsert_organization_row row1)"
  "preserves (\<lambda>s. transactionDepth s = n) (upsert_source_row row2)"
  "preserves (\<lambda>s. transactionDepth s = n) (insert_or_ignore_version row3)"
  "preserves (\<lambda>s. transactionDepth s = n) (insert_or_ignore_contributor row4)"
  "preserves (\<lambda>s. transactionDepth s = n) (update_versions p f)"
  "preserves (\<lambda>s. transactionDepth s = n) (upsert_claim_row row5)"
  "preserves (\<lambda>s. transactionDepth s = n) (delete_opportunities t org)"
  "preserves (\<lambda>s. transactionDepth s = n) (insert_opportunity_row row6)"
  "preserves (\<lambda>s. transactionDepth s = n) (insert_override_row row7)"
  "preserves (\<lambda>s. transactionDepth s = n) (upsert_connector_row row8)"
  by (simp_all add: preserves_def ensureTenant_def modifyE_def upsert_organization_row_def
      upsert_source_row_def insert_or_ignore_version_def insert_or_ignore_contributor_def
      update_versions_def upsert_claim_row_def delete_opportunities_def insert_opportunity_row_def
      insert_override_row_def upsert_connector_row_def)

lemma depth_methods [preserves_intros]:
  "preserves (\<lambda>s. transactionDepth s = n) (upsertOrganization clk org t)"
  "preserves (\<lambda>s. transactionDepth s = n) (record_contributor now t v u)"
  "preserves (\<lambda>s. transactionDepth s = n) (markSourceProcessing now v t)"
  "preserves (\<lambda>s. transactionDepth s = n) (markSourceSucceeded now v t)"
  "preserves (\<lambda>s. transactionDepth s = n) (markSourceFailed now v f t)"
  "preserves (\<lambda>s. transactionDepth s = n) (putClaims cs t)"
  "preserves (\<lambda>s. transactionDepth s = n) (insert_opportunity t o')"
  unfolding upsertOrganization_def record_contributor_def markSourceProcessing_def
    markSourceSucceeded_def markSourceFailed_def putClaims_def insert_opportunity_def
  by (intro preserves_intros)+

lemma depth_methods2 [preserves_intros]:
  "preserves (\<lambda>s. transactionDepth s = n) (replaceOpportunities i os t)"
  "preserves (\<lambda>s. transactionDepth s = n) (putOpportunityOverride override t)"
  "preserves (\<lambda>s. transactionDepth s = n) (setConnectorState now c sc cu m t u)"
  unfolding replaceOpportunities_def putOpportunityOverride_def setConnectorState_def
  by (intro preserves_intros)+

lemma depth_stageSource [preserves_intros]:
  "preserves (\<lambda>s. transactionDepth s = n) (stageSource sha now source t)"
  unfolding stageSource_def Let_def
  by (intro transaction_keeps_depth allI preserves_intros)

end
