(* ===== verification/JobQueue.thy ===== *)
theory JobQueue
  imports StoreIntegrity
begin

text \<open>
  The job queue on SQLite, src/src/infrastructure/queue/sqlite-job-queue.ts, with the port
  src/src/application/ports/job-queue.ts. \<open>clk n\<close> is the n-th reading of the clock inside a
  call, in the order in which the call makes them. A payload column is the JSON value it holds; the
  payloads that are enqueued are objects.
\<close>

record EnqueueJob =
  enq_tenantId :: string
  enq_type :: string
  enq_idempotencyKey :: string
  enq_payload :: json
  enq_priority :: "int option"
  enq_maxAttempts :: "int option"
  enq_availableAt :: "string option"

record CancelPendingJobs =
  can_tenantId :: string
  can_type :: string
  can_payload :: "(string \<times> string) list"

definition redactedPayload :: "int \<Rightarrow> json" where
  "redactedPayload now = JObj [(''retentionRedacted'', JBool True),
     (''redactedAt'', JStr (nowIso now)), (''reason'', JStr ''terminal-screenshot-job'')]"

text \<open>\<open>case when type='ingest.screenshot' then ? else payload end\<close>\<close>

definition redact_screenshot :: "int \<Rightarrow> job_row \<Rightarrow> json" where
  "redact_screenshot now r =
     (if jb_type r = ''ingest.screenshot'' then redactedPayload now else jb_payload r)"

definition job_of_row :: "job_row \<Rightarrow> Job" where
  "job_of_row row =
     \<lparr>job_id = jb_id row, job_tenantId = jb_tenant_id row, job_type = jb_type row,
      job_idempotencyKey = jb_idempotency_key row, job_payload = jb_payload row,
      job_status = jb_status row, job_attemptCount = jb_attempt_count row,
      job_maxAttempts = jb_max_attempts row, job_availableAt = jb_available_at row,
      job_leasedBy = text_or_undefined (jb_leased_by row),
      job_leasedUntil = text_or_undefined (jb_leased_until row)\<rparr>"

section \<open>Enqueueing and cancelling\<close>

definition enqueue_id :: "(string \<Rightarrow> string) \<Rightarrow> EnqueueJob \<Rightarrow> string" where
  "enqueue_id sha input = stableId sha ''job''
     (enq_tenantId input @ '':'' @ enq_type input @ '':'' @ enq_idempotencyKey input)"

definition enqueue_row :: "(string \<Rightarrow> string) \<Rightarrow> int \<Rightarrow> EnqueueJob \<Rightarrow> job_row" where
  "enqueue_row sha now input =
     \<lparr>jb_id = enqueue_id sha input, jb_tenant_id = enq_tenantId input, jb_type = enq_type input,
      jb_idempotency_key = enq_idempotencyKey input, jb_payload = enq_payload input,
      jb_status = job_queued, jb_priority = nullish (enq_priority input) 100,
      jb_attempt_count = 0, jb_max_attempts = nullish (enq_maxAttempts input) 5,
      jb_available_at = nullish (enq_availableAt input) (nowIso now), jb_leased_until = None,
      jb_leased_by = None, jb_last_error = None, jb_created_at = nowIso now,
      jb_updated_at = nowIso now\<rparr>"

definition upsert_job_row :: "job_row \<Rightarrow> unit store_op" where
  "upsert_job_row row s =
     (if exists_row (\<lambda>r. job_key r = job_key row) (jobs s) then
        (Inr (), s\<lparr>jobs := update_where
          (\<lambda>r. job_key r = job_key row \<and> jb_status r = job_cancelled)
          (\<lambda>r. r\<lparr>jb_payload := jb_payload row, jb_status := job_queued,
             jb_priority := jb_priority row, jb_attempt_count := 0,
             jb_max_attempts := jb_max_attempts row, jb_available_at := jb_available_at row,
             jb_leased_until := None, jb_leased_by := None, jb_last_error := None,
             jb_updated_at := jb_updated_at row\<rparr>) (jobs s)\<rparr>)
      else if exists_row (\<lambda>r. jb_id r = jb_id row) (jobs s) then
        (Inl (SqlError (UniqueViolation ''jobs.id'')), s)
      else if \<not> tenant_exists (jb_tenant_id row) s then
        (Inl (SqlError (ForeignKeyViolation ''jobs'')), s)
      else (Inr (), s\<lparr>jobs := jobs s @ [row]\<rparr>))"

definition find_job :: "string \<Rightarrow> 'm db_scheme \<Rightarrow> job_row option" where
  "find_job i s = select_first (\<lambda>r. jb_id r = i) (jobs s)"

definition enqueue :: "(string \<Rightarrow> string) \<Rightarrow> (nat \<Rightarrow> int) \<Rightarrow> EnqueueJob \<Rightarrow> Job store_op" where
  "enqueue sha clk input =
     bindE (transaction (bindE (ensureTenant (clk 1) (enq_tenantId input) (enq_tenantId input)) (\<lambda>_.
         upsert_job_row (enqueue_row sha (clk 0) input)))) (\<lambda>_.
     bindE (getE (find_job (enqueue_id sha input))) (\<lambda>found.
       case found of None \<Rightarrow> throwE (TypeError ''Cannot read properties of undefined'')
       | Some row \<Rightarrow> retE (job_of_row row)))"

definition waiting :: "job_row \<Rightarrow> bool" where
  "waiting r \<longleftrightarrow> jb_status r = job_queued \<or> jb_status r = job_retryable_failed"

definition payload_matches :: "(string \<times> string) list \<Rightarrow> json \<Rightarrow> bool" where
  "payload_matches wanted payload \<longleftrightarrow>
     list_all (\<lambda>(k, v). json_get payload k = Some (JStr v)) wanted"

definition update_jobs :: "(job_row \<Rightarrow> bool) \<Rightarrow> (job_row \<Rightarrow> job_row) \<Rightarrow> nat store_op" where
  "update_jobs p f s =
     (Inr (count_where p (jobs s)), s\<lparr>jobs := update_where p f (jobs s)\<rparr>)"

definition cancel_statement :: "int \<Rightarrow> int \<Rightarrow> string \<Rightarrow> nat store_op" where
  "cancel_statement now1 now2 i = update_jobs (\<lambda>r. jb_id r = i \<and> waiting r)
     (\<lambda>r. r\<lparr>jb_status := job_cancelled, jb_leased_by := None, jb_leased_until := None,
        jb_last_error := Some ''Cancelled by connector revocation'',
        jb_payload := redact_screenshot now1 r, jb_updated_at := nowIso now2\<rparr>)"

definition cancel_candidates :: "CancelPendingJobs \<Rightarrow> 'm db_scheme \<Rightarrow> string list" where
  "cancel_candidates input s = map jb_id (filter (\<lambda>r. payload_matches (can_payload input) (jb_payload r))
     (select_where (\<lambda>r. jb_tenant_id r = can_tenantId input \<and> jb_type r = can_type input \<and> waiting r)
       (jobs s)))"

definition cancelPending :: "(nat \<Rightarrow> int) \<Rightarrow> CancelPendingJobs \<Rightarrow> nat store_op" where
  "cancelPending clk input =
     bindE (getE (cancel_candidates input)) (\<lambda>ids.
       if ids = [] then retE 0
       else transaction (sumE (\<lambda>(n, i). cancel_statement (clk (2 * n)) (clk (2 * n + 1)) i)
              (enumerate 0 ids)))"

section \<open>Leasing\<close>

text \<open>\<open>x < ?\<close> in SQL: not true when the column is null.\<close>

definition column_less :: "string option \<Rightarrow> string \<Rightarrow> bool" where
  "column_less x y = (case x of None \<Rightarrow> False | Some v \<Rightarrow> v < y)"

definition expire_leases :: "int \<Rightarrow> int \<Rightarrow> int \<Rightarrow> nat store_op" where
  "expire_leases now1 now2 now3 = update_jobs
     (\<lambda>r. jb_status r = job_running \<and> column_less (jb_leased_until r) (nowIso now3) \<and>
        jb_attempt_count r \<ge> jb_max_attempts r)
     (\<lambda>r. r\<lparr>jb_status := job_dead_letter, jb_leased_by := None, jb_leased_until := None,
        jb_last_error := Some ''Worker lease expired after final attempt'',
        jb_payload := redact_screenshot now1 r, jb_updated_at := nowIso now2\<rparr>)"

definition leasable :: "int \<Rightarrow> int \<Rightarrow> int \<Rightarrow> job_row \<Rightarrow> bool" where
  "leasable now1 now2 now3 r \<longleftrightarrow>
     waiting r \<and> jb_available_at r \<le> nowIso now1 \<and>
       (jb_leased_until r = None \<or> column_less (jb_leased_until r) (nowIso now2)) \<or>
     jb_status r = job_running \<and> column_less (jb_leased_until r) (nowIso now3) \<and>
       jb_attempt_count r < jb_max_attempts r"

definition priority_key :: "job_row \<Rightarrow> int \<times> string" where
  "priority_key r = (jb_priority r, jb_created_at r)"

definition tenant_head :: "(job_row \<Rightarrow> bool) \<Rightarrow> job_row table \<Rightarrow> job_row \<Rightarrow> bool" where
  "tenant_head p t r \<longleftrightarrow>
     (case first_by priority_key (filter (\<lambda>q. p q \<and> jb_tenant_id q = jb_tenant_id r) t) of
        None \<Rightarrow> False | Some q \<Rightarrow> jb_id q = jb_id r)"

definition last_leased :: "'m db_scheme \<Rightarrow> string \<Rightarrow> string" where
  "last_leased s tenantId =
     (case select_first (\<lambda>q. tq_tenant_id q = tenantId) (tenant_queue_state s) of
        None \<Rightarrow> ''1970-01-01T00:00:00.000Z''
      | Some q \<Rightarrow> nullish (tq_last_leased_at q) ''1970-01-01T00:00:00.000Z'')"

definition lease_key :: "'m db_scheme \<Rightarrow> job_row \<Rightarrow> string \<times> int \<times> string" where
  "lease_key s r = (last_leased s (jb_tenant_id r), priority_key r)"

definition next_job :: "(job_row \<Rightarrow> bool) \<Rightarrow> 'm db_scheme \<Rightarrow> job_row option" where
  "next_job p s =
     first_by (lease_key s) (filter (\<lambda>r. p r \<and> tenant_head p (jobs s) r) (jobs s))"

definition upsert_tenant_queue :: "string \<Rightarrow> string \<Rightarrow> unit store_op" where
  "upsert_tenant_queue tenantId leasedAt s =
     (if \<not> tenant_exists tenantId s then
        (Inl (SqlError (ForeignKeyViolation ''tenant_queue_state'')), s)
      else if exists_row (\<lambda>q. tq_tenant_id q = tenantId) (tenant_queue_state s) then
        (Inr (), s\<lparr>tenant_queue_state := update_where (\<lambda>q. tq_tenant_id q = tenantId)
          (\<lambda>q. q\<lparr>tq_last_leased_at := Some leasedAt\<rparr>) (tenant_queue_state s)\<rparr>)
      else (Inr (), s\<lparr>tenant_queue_state := tenant_queue_state s @
        [\<lparr>tq_tenant_id = tenantId, tq_last_leased_at = Some leasedAt\<rparr>]\<rparr>))"

definition leased_row :: "string \<Rightarrow> string \<Rightarrow> job_row \<Rightarrow> job_row" where
  "leased_row workerId leasedUntil r = r\<lparr>jb_status := job_running,
     jb_attempt_count := jb_attempt_count r + 1, jb_leased_by := Some workerId,
     jb_leased_until := Some leasedUntil\<rparr>"

definition leaseNext :: "(nat \<Rightarrow> int) \<Rightarrow> string \<Rightarrow> int \<Rightarrow> Job option store_op" where
  "leaseNext clk workerId leaseSeconds = transaction
     (bindE (expire_leases (clk 0) (clk 1) (clk 2)) (\<lambda>_.
      bindE (getE (next_job (leasable (clk 3) (clk 4) (clk 5)))) (\<lambda>found.
        case found of None \<Rightarrow> retE None
        | Some row \<Rightarrow>
          bindE (update_jobs (\<lambda>r. jb_id r = jb_id row)
            (\<lambda>r. (leased_row workerId (toISOString (clk 6 + leaseSeconds * 1000)) r)
               \<lparr>jb_updated_at := nowIso (clk 7)\<rparr>)) (\<lambda>_.
          bindE (upsert_tenant_queue (jb_tenant_id row) (nowIso (clk 8))) (\<lambda>_.
          retE (Some (job_of_row
            (leased_row workerId (toISOString (clk 6 + leaseSeconds * 1000)) row))))))))"

text \<open>The lease a call presents: the row it names is still running under it, and it has not
  expired.\<close>

definition holds_lease :: "Job \<Rightarrow> int \<Rightarrow> job_row \<Rightarrow> bool" where
  "holds_lease job now r \<longleftrightarrow> jb_id r = job_id job \<and> jb_status r = job_running \<and>
     jb_leased_by r = job_leasedBy job \<and> jb_leased_until r = job_leasedUntil job \<and>
     (case jb_leased_until r of None \<Rightarrow> False | Some u \<Rightarrow> u > nowIso now)"

definition lease_missing :: "Job \<Rightarrow> bool" where
  "lease_missing job \<longleftrightarrow> \<not> truthy (job_leasedBy job) \<or> \<not> truthy (job_leasedUntil job)"

definition renewLease :: "(nat \<Rightarrow> int) \<Rightarrow> Job \<Rightarrow> int \<Rightarrow> Job option store_op" where
  "renewLease clk job leaseSeconds =
     (if lease_missing job then retE None
      else bindE (update_jobs (holds_lease job (clk 2))
          (\<lambda>r. r\<lparr>jb_leased_until := Some (toISOString (clk 0 + leaseSeconds * 1000)),
             jb_updated_at := nowIso (clk 1)\<rparr>)) (\<lambda>changed.
        retE (if changed \<noteq> 0
          then Some (job\<lparr>job_leasedUntil := Some (toISOString (clk 0 + leaseSeconds * 1000))\<rparr>)
          else None)))"

definition complete :: "(nat \<Rightarrow> int) \<Rightarrow> Job \<Rightarrow> unit store_op" where
  "complete clk job =
     (if lease_missing job then throwE (Error ''Job lease is missing'')
      else bindE (update_jobs (holds_lease job (clk 2))
          (\<lambda>r. r\<lparr>jb_status := job_succeeded, jb_leased_by := None, jb_leased_until := None,
             jb_last_error := None, jb_payload := redact_screenshot (clk 0) r,
             jb_updated_at := nowIso (clk 1)\<rparr>)) (\<lambda>changed.
        if changed = 0 then throwE (Error ''Job lease is no longer valid'') else retE ()))"

definition retry_delay :: "int \<Rightarrow> int" where
  "retry_delay attemptCount = min 900 (2 ^ nat (min attemptCount 9))"

definition fail :: "(nat \<Rightarrow> int) \<Rightarrow> Job \<Rightarrow> error \<Rightarrow> unit store_op" where
  "fail clk job err =
     (if lease_missing job then throwE (Error ''Job lease is missing'')
      else let terminal = job_attemptCount job \<ge> job_maxAttempts job in
        bindE (update_jobs (holds_lease job (clk 3))
          (\<lambda>r. r\<lparr>jb_status := (if terminal then job_dead_letter else job_retryable_failed),
             jb_available_at := toISOString (clk 0 + retry_delay (job_attemptCount job) * 1000),
             jb_leased_by := None, jb_leased_until := None,
             jb_last_error := Some (take 500 (error_message err)),
             jb_payload := (if terminal then redact_screenshot (clk 1) r else jb_payload r),
             jb_updated_at := nowIso (clk 2)\<rparr>)) (\<lambda>changed.
        if changed = 0 then throwE (Error ''Job lease is no longer valid'') else retE ()))"

section \<open>Statistics\<close>

record QueueStats =
  stat_queued :: nat
  stat_running :: nat
  stat_retryableFailed :: nat
  stat_deadLetter :: nat
  stat_cancelled :: nat
  stat_oldestReadyAgeSeconds :: "rat option"

text \<open>\<open>Date.parse\<close> of text that is not in the ISO format is the argument \<open>legacy\<close>; an age
  computed from text that does not parse is \<open>NaN\<close> (\<open>None\<close>).\<close>

definition stats :: "(string \<Rightarrow> int option) \<Rightarrow> (nat \<Rightarrow> int) \<Rightarrow> string \<Rightarrow> QueueStats store_op" where
  "stats legacy clk tenantId = getE (\<lambda>s.
     let mine = select_where (\<lambda>r. jb_tenant_id r = tenantId) (jobs s);
         count = (\<lambda>st. count_where (\<lambda>r. jb_status r = st) mine);
         ready = select_where (\<lambda>r. waiting r \<and> jb_available_at r \<le> nowIso (clk 0)) mine
     in \<lparr>stat_queued = count job_queued, stat_running = count job_running,
         stat_retryableFailed = count job_retryable_failed,
         stat_deadLetter = count job_dead_letter, stat_cancelled = count job_cancelled,
         stat_oldestReadyAgeSeconds =
           (case first_by (\<lambda>x. x) (map jb_available_at ready) of
              None \<Rightarrow> Some 0
            | Some a \<Rightarrow> if a = [] then Some 0 else
                map_option (\<lambda>t. max 0 (of_int (clk 1 - t) / 1000)) (Date_parse legacy a))\<rparr>)"

section \<open>Lemmas\<close>

lemma leased_row_simps [simp]:
  "jb_id (leased_row w u r) = jb_id r" "jb_tenant_id (leased_row w u r) = jb_tenant_id r"
  "jb_type (leased_row w u r) = jb_type r" "job_key (leased_row w u r) = job_key r"
  "jb_status (leased_row w u r) = job_running" "jb_leased_by (leased_row w u r) = Some w"
  "jb_leased_until (leased_row w u r) = Some u" "jb_payload (leased_row w u r) = jb_payload r"
  "jb_attempt_count (leased_row w u r) = jb_attempt_count r + 1"
  "jb_max_attempts (leased_row w u r) = jb_max_attempts r"
  "jb_available_at (leased_row w u r) = jb_available_at r"
  by (simp_all add: leased_row_def job_key_def)

lemma job_key_updates [simp]:
  "job_key (r\<lparr>jb_payload := p\<rparr>) = job_key r" "job_key (r\<lparr>jb_status := st\<rparr>) = job_key r"
  "job_key (r\<lparr>jb_priority := i\<rparr>) = job_key r" "job_key (r\<lparr>jb_attempt_count := i\<rparr>) = job_key r"
  "job_key (r\<lparr>jb_max_attempts := i\<rparr>) = job_key r"
  "job_key (r\<lparr>jb_available_at := a\<rparr>) = job_key r"
  "job_key (r\<lparr>jb_leased_until := x\<rparr>) = job_key r" "job_key (r\<lparr>jb_leased_by := x\<rparr>) = job_key r"
  "job_key (r\<lparr>jb_last_error := x\<rparr>) = job_key r" "job_key (r\<lparr>jb_updated_at := a\<rparr>) = job_key r"
  by (simp_all add: job_key_def)

text \<open>The columns that no statement on an existing job changes.\<close>

definition same_job :: "job_row \<Rightarrow> job_row \<Rightarrow> bool" where
  "same_job q r \<longleftrightarrow> jb_id q = jb_id r \<and> job_key q = job_key r"

lemma job_tenant_exists: "db_ok s \<Longrightarrow> r \<in> set (jobs s) \<Longrightarrow> tenant_exists (jb_tenant_id r) s"
proof -
  assume "db_ok s" and r: "r \<in> set (jobs s)"
  then have "jb_tenant_id ` set (jobs s) \<subseteq> tn_id ` set (tenants s)" by (simp add: db_ok_defs)
  then show ?thesis using r by (auto simp: exists_row_key)
qed

lemma db_ok_update_jobs:
  assumes "\<And>r. same_job (f r) r"
  shows "preserves db_ok (update_jobs p f)"
proof -
  have "jb_id (f r) = jb_id r" "job_key (f r) = job_key r" "jb_tenant_id (f r) = jb_tenant_id r" for r
    using assms [of r] by (simp_all add: same_job_def job_key_def)
  then show ?thesis
    by (simp add: preserves_def update_jobs_def db_ok_defs unique_on_update_where image_update_where)
qed

lemma db_ok_upsert_job [preserves_intros]: "preserves db_ok (upsert_job_row row)"
  by (simp add: preserves_def upsert_job_row_def db_ok_defs table_simps)

lemma db_ok_upsert_tenant_queue [preserves_intros]: "preserves db_ok (upsert_tenant_queue t a)"
  by (simp add: preserves_def upsert_tenant_queue_def db_ok_defs table_simps)

lemma depth_job_statements [preserves_intros]:
  "preserves (\<lambda>s. transactionDepth s = n) (upsert_job_row row)"
  "preserves (\<lambda>s. transactionDepth s = n) (update_jobs p f)"
  "preserves (\<lambda>s. transactionDepth s = n) (upsert_tenant_queue t a)"
  by (simp_all add: preserves_def upsert_job_row_def update_jobs_def upsert_tenant_queue_def)

lemma db_ok_enqueue: "preserves db_ok (enqueue sha clk input)"
  unfolding enqueue_def by (intro preserves_intros)

lemma db_ok_cancelPending: "preserves db_ok (cancelPending clk input)"
  unfolding cancelPending_def cancel_statement_def
  by (intro preserves_intros) (auto intro!: db_ok_update_jobs simp: same_job_def)

lemma db_ok_leaseNext: "preserves db_ok (leaseNext clk w n)"
  unfolding leaseNext_def expire_leases_def
  by (intro preserves_intros db_ok_update_jobs) (simp_all add: same_job_def)

lemma db_ok_renewLease: "preserves db_ok (renewLease clk job n)"
  unfolding renewLease_def by (intro preserves_intros db_ok_update_jobs) (simp_all add: same_job_def)

lemma db_ok_complete: "preserves db_ok (complete clk job)"
  unfolding complete_def by (intro preserves_intros db_ok_update_jobs) (simp_all add: same_job_def)

lemma db_ok_fail: "preserves db_ok (fail clk job e)"
  unfolding fail_def Let_def
  by (intro preserves_intros db_ok_update_jobs) (simp_all add: same_job_def)

end
