(* ===== verification/JobSystem.thy ===== *)
theory JobSystem
  imports JobQueue
begin

text \<open>
  The queue in use: workers lease, renew, complete and fail jobs while producers enqueue and cancel
  them, in any order. A worker keeps the copy of the job that \<open>leaseNext\<close> or \<open>renewLease\<close>
  gave it and drops it when it calls \<open>complete\<close> or \<open>fail\<close>. The clock is shared and does not
  go backwards. The invariant gives fencing: of all the copies of a job in the workers' hands, at
  most one can still complete it.
\<close>

section \<open>The table after each call\<close>

definition expired_row :: "(nat \<Rightarrow> int) \<Rightarrow> job_row \<Rightarrow> job_row" where
  "expired_row clk r =
     (if jb_status r = job_running \<and> column_less (jb_leased_until r) (nowIso (clk 2)) \<and>
         jb_attempt_count r \<ge> jb_max_attempts r
      then r\<lparr>jb_status := job_dead_letter, jb_leased_by := None, jb_leased_until := None,
        jb_last_error := Some ''Worker lease expired after final attempt'',
        jb_payload := redact_screenshot (clk 0) r, jb_updated_at := nowIso (clk 1)\<rparr>
      else r)"

definition granted_row :: "(nat \<Rightarrow> int) \<Rightarrow> string \<Rightarrow> int \<Rightarrow> string \<Rightarrow> job_row \<Rightarrow> job_row" where
  "granted_row clk w n i r =
     (if jb_id r = i then (leased_row w (toISOString (clk 6 + n * 1000)) r)
        \<lparr>jb_updated_at := nowIso (clk 7)\<rparr> else r)"

lemma expired_row_id [simp]: "jb_id (expired_row clk r) = jb_id r"
  by (simp add: expired_row_def)

lemma granted_row_id [simp]: "jb_id (granted_row clk w n i r) = jb_id r"
  by (simp add: granted_row_def)

lemma next_job_Some:
  assumes "next_job p s = Some row"
  shows "row \<in> set (jobs s)" and "p row"
  using first_by_Some(1) assms unfolding next_job_def by fastforce+

lemma next_job_min:
  "next_job p s = Some row \<Longrightarrow> q \<in> set (jobs s) \<Longrightarrow> p q \<Longrightarrow> tenant_head p (jobs s) q \<Longrightarrow>
     lease_key s row \<le> lease_key s q"
  using first_by_Some(2) unfolding next_job_def by fastforce

lemma tenant_head_exists:
  assumes "q \<in> set t" "p q"
  shows "\<exists>h \<in> set t. p h \<and> jb_tenant_id h = jb_tenant_id q \<and> tenant_head p t h \<and>
    priority_key h \<le> priority_key q"
proof -
  let ?c = "filter (\<lambda>r. p r \<and> jb_tenant_id r = jb_tenant_id q) t"
  have "q \<in> set ?c" using assms by simp
  then obtain h where h: "first_by priority_key ?c = Some h"
    by (metis empty_iff first_by_None list.set(1) not_Some_eq)
  then have "h \<in> set ?c" "priority_key h \<le> priority_key q"
    using first_by_Some [OF h] \<open>q \<in> set ?c\<close> by auto
  moreover from this have "tenant_head p t h" using h by (simp add: tenant_head_def)
  ultimately show ?thesis by auto
qed

lemma next_job_None: "next_job p s = None \<longleftrightarrow> (\<forall>r \<in> set (jobs s). \<not> p r)"
proof -
  have "next_job p s = None \<longleftrightarrow> (\<forall>r \<in> set (jobs s). p r \<longrightarrow> \<not> tenant_head p (jobs s) r)"
    by (auto simp: next_job_def filter_empty_conv)
  then show ?thesis using tenant_head_exists by blast
qed

lemma expire_leases_table:
  "\<exists>k. expire_leases (clk 0) (clk 1) (clk 2) s = (Inr k, s\<lparr>jobs := map (expired_row clk) (jobs s)\<rparr>)"
  by (auto simp: expire_leases_def update_jobs_def update_where_def expired_row_def [abs_def]
      simp del: One_nat_def)

lemma grant_table:
  "\<exists>k. update_jobs (\<lambda>r. jb_id r = i) (\<lambda>r. (leased_row w (toISOString (clk 6 + n * 1000)) r)
       \<lparr>jb_updated_at := nowIso (clk 7)\<rparr>) s
     = (Inr k, s\<lparr>jobs := map (granted_row clk w n i) (jobs s)\<rparr>)"
  by (auto simp: update_jobs_def update_where_def granted_row_def [abs_def])

lemma next_job_depth:
  "next_job p (s\<lparr>transactionDepth := k, jobs := T\<rparr>) = next_job p (s\<lparr>jobs := T\<rparr>)"
  by (simp add: next_job_def lease_key_def [abs_def] last_leased_def)

lemma upsert_tenant_queue_cases:
  "(\<exists>q. upsert_tenant_queue t a s = (Inr (), s\<lparr>tenant_queue_state := q\<rparr>)) \<or>
   (\<not> tenant_exists t s \<and> (\<exists>e. upsert_tenant_queue t a s = (Inl e, s)))"
  by (auto simp: upsert_tenant_queue_def)

lemma leaseNext_cases:
  assumes "transactionDepth s = 0" and "leaseNext clk w n s = (res, t)"
  shows "(res = Inr None \<and> jobs t = map (expired_row clk) (jobs s) \<and>
       (\<forall>r \<in> set (jobs t). \<not> leasable (clk 3) (clk 4) (clk 5) r)) \<or>
     (\<exists>row. next_job (leasable (clk 3) (clk 4) (clk 5))
          (s\<lparr>jobs := map (expired_row clk) (jobs s)\<rparr>) = Some row \<and>
        res = Inr (Some (job_of_row (leased_row w (toISOString (clk 6 + n * 1000)) row))) \<and>
        jobs t = map (granted_row clk w n (jb_id row) \<circ> expired_row clk) (jobs s)) \<or>
     (\<exists>e row. res = Inl e \<and> t = s \<and> row \<in> set (jobs s) \<and> \<not> tenant_exists (jb_tenant_id row) s)"
proof -
  let ?T = "map (expired_row clk) (jobs s)" and ?p = "leasable (clk 3) (clk 4) (clk 5)"
  let ?s0 = "s\<lparr>transactionDepth := 1\<rparr>"
  obtain k where e: "expire_leases (clk 0) (clk 1) (clk 2) ?s0 = (Inr k, ?s0\<lparr>jobs := ?T\<rparr>)"
    using expire_leases_table [of clk ?s0] by auto
  show ?thesis
  proof (cases "next_job ?p (s\<lparr>jobs := ?T\<rparr>)")
    case None
    then have "leaseNext clk w n s = (Inr None, s\<lparr>transactionDepth := 0, jobs := ?T\<rparr>)"
      using assms(1) e by (simp add: leaseNext_def transaction_def bindE_def getE_def next_job_depth
          retE_def del: One_nat_def)
    moreover have "\<forall>r \<in> set ?T. \<not> ?p r" using None unfolding next_job_None by simp
    ultimately show ?thesis using assms(2) by auto
  next
    case (Some row)
    obtain k' where g: "update_jobs (\<lambda>r. jb_id r = jb_id row)
        (\<lambda>r. (leased_row w (toISOString (clk 6 + n * 1000)) r)\<lparr>jb_updated_at := nowIso (clk 7)\<rparr>)
        (?s0\<lparr>jobs := ?T\<rparr>)
        = (Inr k', ?s0\<lparr>jobs := map (granted_row clk w n (jb_id row)) ?T\<rparr>)" (is "_ = (_, ?s2)")
      using grant_table [of "jb_id row" clk w n "?s0\<lparr>jobs := ?T\<rparr>"] by auto
    obtain r where r: "r \<in> set (jobs s)" "jb_tenant_id row = jb_tenant_id r"
      using next_job_Some(1) [OF Some] by (auto simp: expired_row_def)
    show ?thesis
      using upsert_tenant_queue_cases [of "jb_tenant_id row" "nowIso (clk 8)" ?s2] assms e g Some r
      by (auto simp: leaseNext_def transaction_def bindE_def getE_def next_job_depth retE_def
          simp del: One_nat_def)
  qed
qed

lemma enqueue_cases:
  assumes "transactionDepth s = 0" and "enqueue sha clk input s = (res, t)"
  shows "jobs t = jobs s \<or>
     jobs t = update_where (\<lambda>r. job_key r = job_key (enqueue_row sha (clk 0) input) \<and>
         jb_status r = job_cancelled)
       (\<lambda>r. r\<lparr>jb_payload := enq_payload input, jb_status := job_queued,
          jb_priority := nullish (enq_priority input) 100, jb_attempt_count := 0,
          jb_max_attempts := nullish (enq_maxAttempts input) 5,
          jb_available_at := nullish (enq_availableAt input) (nowIso (clk 0)),
          jb_leased_until := None, jb_leased_by := None, jb_last_error := None,
          jb_updated_at := nowIso (clk 0)\<rparr>) (jobs s) \<or>
     enqueue_id sha input \<notin> jb_id ` set (jobs s) \<and>
       jobs t = jobs s @ [enqueue_row sha (clk 0) input]"
proof -
  let ?r = "enqueue_row sha (clk 0) input"
  have r: "jb_id ?r = enqueue_id sha input" "jb_tenant_id ?r = enq_tenantId input"
    "jb_payload ?r = enq_payload input" "jb_priority ?r = nullish (enq_priority input) 100"
    "jb_max_attempts ?r = nullish (enq_maxAttempts input) 5"
    "jb_available_at ?r = nullish (enq_availableAt input) (nowIso (clk 0))"
    "jb_updated_at ?r = nowIso (clk 0)"
    by (simp_all add: enqueue_row_def)
  show ?thesis
  proof (cases "exists_row (\<lambda>r. job_key r = job_key ?r) (jobs s)")
    case True
    then show ?thesis using assms by (auto simp: enqueue_def transaction_def effect_defs
          ensureTenant_def upsert_job_row_def r split: option.splits if_splits)
  next
    case False
    show ?thesis
    proof (cases "exists_row (\<lambda>r. jb_id r = enqueue_id sha input) (jobs s)")
      case True
      with False show ?thesis using assms by (auto simp: enqueue_def transaction_def effect_defs
            ensureTenant_def upsert_job_row_def r split: option.splits if_splits)
    next
      case False2: False
      with False show ?thesis using assms by (auto simp: enqueue_def transaction_def effect_defs
            ensureTenant_def upsert_job_row_def r exists_row_key [where k = jb_id]
            split: option.splits if_splits)
    qed
  qed
qed

lemma enqueue_new:
  assumes "transactionDepth s = 0" and "job_key (enqueue_row sha (clk 0) input) \<notin> job_key ` set (jobs s)"
    and "enqueue_id sha input \<notin> jb_id ` set (jobs s)"
  shows "\<exists>t. enqueue sha clk input s = (Inr (job_of_row (enqueue_row sha (clk 0) input)), t) \<and>
    jobs t = jobs s @ [enqueue_row sha (clk 0) input]"
proof -
  let ?r = "enqueue_row sha (clk 0) input"
  have r: "jb_id ?r = enqueue_id sha input" "jb_tenant_id ?r = enq_tenantId input"
    by (simp_all add: enqueue_row_def)
  have "select_first (\<lambda>q. jb_id q = enqueue_id sha input) (jobs s) = None"
    unfolding select_first_None using assms(3) by (metis imageI)
  then have "select_first (\<lambda>q. jb_id q = enqueue_id sha input) (jobs s @ [?r]) = Some ?r"
    using r by (simp add: select_first_append1)
  then show ?thesis
    using assms r by (auto simp: enqueue_def transaction_def effect_defs ensureTenant_def
        upsert_job_row_def exists_row_key find_job_def)
qed

text \<open>A cancellation changes waiting rows only, each at most once.\<close>

definition cancelled_row :: "int \<Rightarrow> int \<Rightarrow> job_row \<Rightarrow> job_row" where
  "cancelled_row now1 now2 r = r\<lparr>jb_status := job_cancelled, jb_leased_by := None,
     jb_leased_until := None, jb_last_error := Some ''Cancelled by connector revocation'',
     jb_payload := redact_screenshot now1 r, jb_updated_at := nowIso now2\<rparr>"

definition cancels :: "job_row \<Rightarrow> job_row \<Rightarrow> bool" where
  "cancels r r' \<longleftrightarrow> r' = r \<or> waiting r \<and> (\<exists>now1 now2. r' = cancelled_row now1 now2 r)"

lemma cancels_trans: "cancels q r \<Longrightarrow> cancels r t \<Longrightarrow> cancels q t"
  by (auto simp: cancels_def waiting_def cancelled_row_def)

lemma list_all2_trans1:
  "(\<And>x y z. R x y \<Longrightarrow> R y z \<Longrightarrow> R x z) \<Longrightarrow> list_all2 R a b \<Longrightarrow> list_all2 R b c \<Longrightarrow> list_all2 R a c"
  by (rule list_all2_trans)

lemma cancel_statement_table:
  "\<exists>k T. cancel_statement n1 n2 i s = (Inr k, s\<lparr>jobs := T\<rparr>) \<and> list_all2 cancels (jobs s) T"
proof -
  let ?T = "update_where (\<lambda>r. jb_id r = i \<and> waiting r) (cancelled_row n1 n2) (jobs s)"
  have "cancel_statement n1 n2 i s
      = (Inr (count_where (\<lambda>r. jb_id r = i \<and> waiting r) (jobs s)), s\<lparr>jobs := ?T\<rparr>)"
    by (simp add: cancel_statement_def update_jobs_def cancelled_row_def [abs_def])
  moreover have "list_all2 cancels (jobs s) ?T"
    by (auto simp: update_where_def list_all2_map2 cancels_def intro!: list_all2_refl)
  ultimately show ?thesis by blast
qed

lemma cancel_loop_table:
  "\<exists>k T. sumE (\<lambda>(n, i). cancel_statement (f n) (g n) i) xs s = (Inr k, s\<lparr>jobs := T\<rparr>) \<and>
     list_all2 cancels (jobs s) T"
proof (induction xs arbitrary: s)
  case Nil
  have "list_all2 cancels (jobs s) (jobs s)" by (rule list_all2_refl) (simp add: cancels_def)
  then show ?case by (auto simp: retE_def intro!: exI [of _ "jobs s"])
next
  case (Cons x xs)
  obtain n i where x: "x = (n, i)" by (cases x)
  obtain k T where 1: "cancel_statement (f n) (g n) i s = (Inr k, s\<lparr>jobs := T\<rparr>)"
    "list_all2 cancels (jobs s) T" using cancel_statement_table by blast
  obtain k' T' where 2: "sumE (\<lambda>(n, i). cancel_statement (f n) (g n) i) xs (s\<lparr>jobs := T\<rparr>)
      = (Inr k', s\<lparr>jobs := T'\<rparr>)" "list_all2 cancels T T'"
    using Cons.IH [of "s\<lparr>jobs := T\<rparr>"] by auto
  have "list_all2 cancels (jobs s) T'"
    using list_all2_trans1 [of cancels, OF cancels_trans 1(2) 2(2)] .
  then show ?case using 1 2 x by (auto simp: bindE_def retE_def)
qed

lemma cancelPending_table:
  assumes "transactionDepth s = 0" and "cancelPending clk input s = (res, t)"
  shows "list_all2 cancels (jobs s) (jobs t) \<and> (\<exists>k. res = Inr k)"
proof -
  let ?s0 = "s\<lparr>transactionDepth := 1\<rparr>"
  obtain k T where "sumE (\<lambda>(n, i). cancel_statement (clk (2 * n)) (clk (2 * n + 1)) i)
      (enumerate 0 (cancel_candidates input s)) ?s0 = (Inr k, ?s0\<lparr>jobs := T\<rparr>)"
    "list_all2 cancels (jobs ?s0) T"
    using cancel_loop_table [of "\<lambda>n. clk (2 * n)" "\<lambda>n. clk (2 * n + 1)"
        "enumerate 0 (cancel_candidates input s)" ?s0] by blast
  moreover have "list_all2 cancels (jobs s) (jobs s)" by (rule list_all2_refl) (simp add: cancels_def)
  ultimately show ?thesis using assms
    by (auto simp: cancelPending_def transaction_def bindE_def getE_def retE_def split: if_splits)
qed

section \<open>The system\<close>

record job_system =
  sys_store :: store
  sys_time :: int
  sys_issued :: nat
  sys_leases :: "(nat \<times> Job) list"

definition clock_runs :: "job_system \<Rightarrow> (nat \<Rightarrow> int) \<Rightarrow> int \<Rightarrow> bool" where
  "clock_runs \<sigma> clk now' \<longleftrightarrow> mono clk \<and> sys_time \<sigma> \<le> clk 0 \<and> (\<forall>n. clk n \<le> now') \<and>
     iso_range (sys_time \<sigma>) \<and> iso_range now'"

definition drop_lease :: "nat \<Rightarrow> (nat \<times> Job) list \<Rightarrow> (nat \<times> Job) list" where
  "drop_lease k ls = filter (\<lambda>l. fst l \<noteq> k) ls"

definition add_lease :: "nat \<Rightarrow> error + Job option \<Rightarrow> (nat \<times> Job) list \<Rightarrow> (nat \<times> Job) list" where
  "add_lease k res ls = (case res of Inr (Some j) \<Rightarrow> (k, j) # drop_lease k ls | _ \<Rightarrow> ls)"

inductive job_step :: "(string \<Rightarrow> string) \<Rightarrow> job_system \<Rightarrow> job_system \<Rightarrow> bool" for sha where
  step_enqueue: "clock_runs \<sigma> clk now' \<Longrightarrow> enqueue sha clk input (sys_store \<sigma>) = (res, t) \<Longrightarrow>
     job_step sha \<sigma> (\<sigma>\<lparr>sys_store := t, sys_time := now'\<rparr>)"
| step_cancel: "clock_runs \<sigma> clk now' \<Longrightarrow> cancelPending clk request (sys_store \<sigma>) = (res', t) \<Longrightarrow>
     job_step sha \<sigma> (\<sigma>\<lparr>sys_store := t, sys_time := now'\<rparr>)"
| step_lease: "clock_runs \<sigma> clk now' \<Longrightarrow> w \<noteq> [] \<Longrightarrow> 0 < n \<Longrightarrow> iso_range (now' + n * 1000) \<Longrightarrow>
     leaseNext clk w n (sys_store \<sigma>) = (lease, t) \<Longrightarrow>
     job_step sha \<sigma> (\<sigma>\<lparr>sys_store := t, sys_time := now', sys_issued := Suc (sys_issued \<sigma>),
       sys_leases := add_lease (sys_issued \<sigma>) lease (sys_leases \<sigma>)\<rparr>)"
| step_renew: "clock_runs \<sigma> clk now' \<Longrightarrow> (k, c) \<in> set (sys_leases \<sigma>) \<Longrightarrow> 0 < n \<Longrightarrow>
     iso_range (now' + n * 1000) \<Longrightarrow> renewLease clk c n (sys_store \<sigma>) = (lease, t) \<Longrightarrow>
     job_step sha \<sigma> (\<sigma>\<lparr>sys_store := t, sys_time := now',
       sys_leases := add_lease k lease (sys_leases \<sigma>)\<rparr>)"
| step_complete: "clock_runs \<sigma> clk now' \<Longrightarrow> (k, c) \<in> set (sys_leases \<sigma>) \<Longrightarrow>
     complete clk c (sys_store \<sigma>) = (outcome, t) \<Longrightarrow>
     job_step sha \<sigma> (\<sigma>\<lparr>sys_store := t, sys_time := now',
       sys_leases := drop_lease k (sys_leases \<sigma>)\<rparr>)"
| step_fail: "clock_runs \<sigma> clk now' \<Longrightarrow> (k, c) \<in> set (sys_leases \<sigma>) \<Longrightarrow>
     fail clk c e (sys_store \<sigma>) = (outcome, t) \<Longrightarrow>
     job_step sha \<sigma> (\<sigma>\<lparr>sys_store := t, sys_time := now',
       sys_leases := drop_lease k (sys_leases \<sigma>)\<rparr>)"

definition initial_system :: "int \<Rightarrow> store \<Rightarrow> job_system" where
  "initial_system now s = \<lparr>sys_store = s, sys_time = now, sys_issued = 0, sys_leases = []\<rparr>"

inductive job_reachable :: "(string \<Rightarrow> string) \<Rightarrow> job_system \<Rightarrow> bool" for sha where
  reach_start: "job_reachable sha (initial_system now (new_Store now t))"
| reach_step: "job_reachable sha \<sigma> \<Longrightarrow> job_step sha \<sigma> \<sigma>' \<Longrightarrow> job_reachable sha \<sigma>'"

section \<open>The invariant\<close>

text \<open>A row by itself: attempts within the budget, a lease exactly on running rows, and no
  screenshot in a row that will not run again.\<close>

definition lease_columns_ok :: "job_row \<Rightarrow> bool" where
  "lease_columns_ok r \<longleftrightarrow>
     (jb_status r = job_running \<longleftrightarrow> jb_leased_until r \<noteq> None) \<and>
     (jb_status r = job_running \<longleftrightarrow> jb_leased_by r \<noteq> None)"

definition attempts_ok :: "job_row \<Rightarrow> bool" where
  "attempts_ok r \<longleftrightarrow> 0 \<le> jb_attempt_count r \<and> jb_attempt_count r \<le> max 1 (jb_max_attempts r) \<and>
     (jb_status r = job_queued \<longrightarrow> jb_attempt_count r = 0) \<and>
     (jb_status r = job_running \<longrightarrow> 1 \<le> jb_attempt_count r) \<and>
     (jb_status r = job_retryable_failed \<longrightarrow> jb_attempt_count r < jb_max_attempts r)"

definition finished :: "JobStatus \<Rightarrow> bool" where
  "finished st \<longleftrightarrow> st = job_succeeded \<or> st = job_dead_letter \<or> st = job_cancelled"

definition redacted_ok :: "job_row \<Rightarrow> bool" where
  "redacted_ok r \<longleftrightarrow> (finished (jb_status r) \<and> jb_type r = ''ingest.screenshot'' \<longrightarrow>
     (\<exists>now. jb_payload r = redactedPayload now))"

definition row_ok :: "job_row \<Rightarrow> bool" where
  "row_ok r \<longleftrightarrow> lease_columns_ok r \<and> attempts_ok r \<and> redacted_ok r"

lemmas row_ok_defs = row_ok_def lease_columns_ok_def attempts_ok_def redacted_ok_def finished_def

text \<open>A copy and its row: the row runs under the copy's lease, or the lease has run out and any
  later one ends later.\<close>

definition current :: "job_row \<Rightarrow> Job \<Rightarrow> bool" where
  "current r c \<longleftrightarrow> jb_status r = job_running \<and> jb_leased_by r = job_leasedBy c \<and>
     jb_leased_until r = job_leasedUntil c \<and> jb_attempt_count r = job_attemptCount c \<and>
     jb_max_attempts r = job_maxAttempts c"

definition lost :: "int \<Rightarrow> job_row \<Rightarrow> Job \<Rightarrow> bool" where
  "lost now r c \<longleftrightarrow> (\<exists>u. job_leasedUntil c = Some (toISOString u) \<and> iso_range u \<and> u < now \<and>
     (\<forall>v. jb_leased_until r = Some v \<longrightarrow> toISOString u < v))"

definition lease_ok :: "int \<Rightarrow> job_row table \<Rightarrow> Job \<Rightarrow> bool" where
  "lease_ok now T c \<longleftrightarrow> job_id c \<in> jb_id ` set T \<and> \<not> lease_missing c \<and>
     (\<exists>u. job_leasedUntil c = Some (toISOString u) \<and> iso_range u) \<and>
     (\<forall>r \<in> set T. jb_id r = job_id c \<longrightarrow> current r c \<or> lost now r c)"

definition leases_distinct :: "(nat \<times> Job) list \<Rightarrow> bool" where
  "leases_distinct ls \<longleftrightarrow> distinct (map fst ls) \<and>
     (\<forall>(k, c) \<in> set ls. \<forall>(m, d) \<in> set ls. k \<noteq> m \<longrightarrow> job_id c = job_id d \<longrightarrow>
        job_leasedUntil c \<noteq> job_leasedUntil d)"

definition system_ok :: "job_system \<Rightarrow> bool" where
  "system_ok \<sigma> \<longleftrightarrow> transactionDepth (sys_store \<sigma>) = 0 \<and> db_ok (sys_store \<sigma>) \<and>
     (\<forall>r \<in> set (jobs (sys_store \<sigma>)). row_ok r) \<and>
     (\<forall>(k, c) \<in> set (sys_leases \<sigma>). k < sys_issued \<sigma> \<and>
        lease_ok (sys_time \<sigma>) (jobs (sys_store \<sigma>)) c) \<and>
     leases_distinct (sys_leases \<sigma>)"

lemma current_not_lost: "current r c \<Longrightarrow> \<not> lost now r c"
  by (auto simp: current_def lost_def)

text \<open>A table whose rows change one by one keeps the leases that the change of a row keeps.\<close>

lemma lease_ok_change:
  assumes "lease_ok now T c" and "now \<le> now'"
    and "jb_id ` set T \<subseteq> jb_id ` set T'"
    and "\<And>r'. r' \<in> set T' \<Longrightarrow> jb_id r' = job_id c \<Longrightarrow>
      \<exists>r \<in> set T. jb_id r = job_id c \<and> Q r r'"
    and "\<And>r r'. r \<in> set T \<Longrightarrow> jb_id r = job_id c \<Longrightarrow> Q r r' \<Longrightarrow> current r c \<Longrightarrow>
      current r' c \<or> lost now' r' c"
    and "\<And>r r'. r \<in> set T \<Longrightarrow> jb_id r = job_id c \<Longrightarrow> Q r r' \<Longrightarrow> lost now r c \<Longrightarrow> lost now' r' c"
  shows "lease_ok now' T' c"
proof -
  have "current r' c \<or> lost now' r' c" if r': "r' \<in> set T'" "jb_id r' = job_id c" for r'
  proof -
    obtain r where r: "r \<in> set T" "jb_id r = job_id c" "Q r r'" using assms(4) [OF r'] by blast
    then have "current r c \<or> lost now r c" using assms(1) by (simp add: lease_ok_def)
    then show ?thesis using assms(5,6) [OF r] by blast
  qed
  then show ?thesis using assms(1,3) by (auto simp: lease_ok_def)
qed

lemma lost_later:
  assumes "lost now r c" and "now \<le> now'"
    and "\<And>v. jb_leased_until r' = Some v \<Longrightarrow> jb_leased_until r = Some v"
  shows "lost now' r' c"
proof -
  obtain u where "job_leasedUntil c = Some (toISOString u)" "iso_range u" "u < now"
    "\<forall>v. jb_leased_until r = Some v \<longrightarrow> toISOString u < v" using assms(1) unfolding lost_def by blast
  then show ?thesis using assms(2,3) unfolding lost_def by (intro exI [of _ u]) simp
qed

lemma lost_released: "job_leasedUntil c = Some (toISOString u) \<Longrightarrow> iso_range u \<Longrightarrow> u < now \<Longrightarrow>
    jb_leased_until r = None \<Longrightarrow> lost now r c"
  by (auto simp: lost_def)

lemma lost_superseded: "job_leasedUntil c = Some (toISOString u) \<Longrightarrow> iso_range u \<Longrightarrow> u < now \<Longrightarrow>
    jb_leased_until r = Some (toISOString v) \<Longrightarrow> iso_range v \<Longrightarrow> u < v \<Longrightarrow> lost now r c"
  by (auto simp: lost_def)

lemma lease_ok_map:
  assumes "lease_ok now T c" and "now \<le> now'" and "\<And>r. r \<in> set T \<Longrightarrow> jb_id (g r) = jb_id r"
    and "\<And>r. r \<in> set T \<Longrightarrow> jb_id r = job_id c \<Longrightarrow> current r c \<Longrightarrow>
      current (g r) c \<or> lost now' (g r) c"
    and "\<And>r. r \<in> set T \<Longrightarrow> jb_id r = job_id c \<Longrightarrow> lost now r c \<Longrightarrow> lost now' (g r) c"
  shows "lease_ok now' (map g T) c"
proof (rule lease_ok_change [where Q = "\<lambda>r r'. r' = g r", OF assms(1,2)])
  show "jb_id ` set T \<subseteq> jb_id ` set (map g T)" using assms(3) by (simp add: image_image)
qed (use assms in auto)

lemma lease_ok_same: "lease_ok now T c \<Longrightarrow> now \<le> now' \<Longrightarrow> lease_ok now' T c"
  using lease_ok_map [of now T c now' "\<lambda>r. r"] lost_later by (metis list.map_ident)

lemma lease_ok_append:
  assumes "lease_ok now T c" and "jb_id r \<notin> jb_id ` set T"
  shows "lease_ok now (T @ [r]) c"
  using assms by (auto simp: lease_ok_def)

lemma iso_range_between: "iso_range a \<Longrightarrow> iso_range b \<Longrightarrow> a \<le> t \<Longrightarrow> t \<le> b \<Longrightarrow> iso_range t"
  by (simp add: iso_range_def)

lemma clock_reading:
  assumes "clock_runs \<sigma> clk now'"
  shows "sys_time \<sigma> \<le> clk n" "clk n \<le> now'" "iso_range (clk n)" "sys_time \<sigma> \<le> now'" "iso_range now'"
    "m \<le> n \<Longrightarrow> clk m \<le> clk n"
proof -
  show 1: "sys_time \<sigma> \<le> clk n" using assms by (auto simp: clock_runs_def mono_def intro: order_trans)
  show 2: "clk n \<le> now'" using assms by (simp add: clock_runs_def)
  show "iso_range (clk n)"
    using assms 1 2 by (auto simp: clock_runs_def intro: iso_range_between)
  show "sys_time \<sigma> \<le> now'" using 1 2 by simp
  show "iso_range now'" using assms by (simp add: clock_runs_def)
  show "m \<le> n \<Longrightarrow> clk m \<le> clk n" using assms by (simp add: clock_runs_def mono_def)
qed

lemma column_less_iso:
  "iso_range u \<Longrightarrow> iso_range t \<Longrightarrow> column_less (Some (toISOString u)) (nowIso t) \<longleftrightarrow> u < t"
  by (simp add: column_less_def nowIso_def)

text \<open>The expiry of leases at their last attempt.\<close>

lemma lease_ok_expired:
  assumes "clock_runs \<sigma> clk now'" and "lease_ok (sys_time \<sigma>) T c"
  shows "lease_ok now' (map (expired_row clk) T) c"
proof (rule lease_ok_map [OF assms(2)])
  fix r assume "current r c"
  obtain u where u: "job_leasedUntil c = Some (toISOString u)" "iso_range u"
    using assms(2) by (auto simp: lease_ok_def)
  show "current (expired_row clk r) c \<or> lost now' (expired_row clk r) c"
  proof (cases "expired_row clk r = r")
    case False
    then have "column_less (jb_leased_until r) (nowIso (clk 2))"
      "jb_leased_until (expired_row clk r) = None"
      by (auto simp: expired_row_def split: if_splits)
    then have "u < now'" "jb_leased_until (expired_row clk r) = None"
      using u \<open>current r c\<close> column_less_iso clock_reading(2,3) [OF assms(1), of 2]
      by (auto simp: current_def)
    then show ?thesis using lost_released [OF u] by blast
  qed (use \<open>current r c\<close> in simp)
next
  fix r assume "lost (sys_time \<sigma>) r c"
  then show "lost now' (expired_row clk r) c"
    by (rule lost_later) (use clock_reading [OF assms(1)] in \<open>auto simp: expired_row_def split: if_splits\<close>)
qed (use clock_reading [OF assms(1)] in auto)

text \<open>A grant: the leases given out before it on the same job have run out.\<close>

lemma granted_later:
  assumes clk: "clock_runs \<sigma> clk now'" and ok: "lease_ok (sys_time \<sigma>) T c"
    and row: "row \<in> set (map (expired_row clk) T)" "jb_id row = job_id c" "lease_columns_ok row"
    and leasable: "leasable (clk 3) (clk 4) (clk 5) row"
  shows "\<exists>u. job_leasedUntil c = Some (toISOString u) \<and> iso_range u \<and> u < clk 6 \<and> u < now'"
proof -
  have t5: "iso_range (clk 5)" "clk 5 \<le> clk 6" "clk 5 \<le> now'" "clk 6 \<le> now'" "sys_time \<sigma> \<le> clk 6"
    using clock_reading [OF clk] by auto
  obtain r where r: "r \<in> set T" "row = expired_row clk r" "jb_id r = job_id c" using row by auto
  then consider "lost (sys_time \<sigma>) r c" | "current r c" using ok by (auto simp: lease_ok_def)
  then show ?thesis
  proof cases
    case 1
    then show ?thesis using t5 by (auto simp: lost_def)
  next
    case 2
    obtain u where u: "job_leasedUntil c = Some (toISOString u)" "iso_range u"
      using ok by (auto simp: lease_ok_def)
    have "row = r"
      using leasable 2 r(2) row(3)
      by (auto simp: expired_row_def leasable_def waiting_def lease_columns_ok_def split: if_splits)
    then have "column_less (Some (toISOString u)) (nowIso (clk 5))"
      using leasable 2 u by (auto simp: leasable_def current_def waiting_def)
    then show ?thesis using u t5 by (auto simp: column_less_iso)
  qed
qed

lemma row_ok_expired: "row_ok r \<Longrightarrow> row_ok (expired_row clk r)"
  by (auto simp: row_ok_defs expired_row_def redact_screenshot_def)

lemma row_ok_granted:
  assumes "row_ok r" and "jb_id r = i \<Longrightarrow> leasable a b d r"
  shows "row_ok (granted_row clk w n i r)"
  using assms
  by (auto simp: row_ok_defs granted_row_def leasable_def waiting_def)

lemma lease_ok_granted:
  assumes clk: "clock_runs \<sigma> clk now'" and n: "0 < n" "iso_range (now' + n * 1000)"
    and ok: "lease_ok (sys_time \<sigma>) T c"
    and row: "row \<in> set (map (expired_row clk) T)" "lease_columns_ok row" "unique_on jb_id T"
    and leasable: "leasable (clk 3) (clk 4) (clk 5) row"
  shows "lease_ok now' (map (granted_row clk w n (jb_id row)) (map (expired_row clk) T)) c"
proof (rule lease_ok_map [OF lease_ok_expired [OF clk ok]])
  have t: "iso_range (clk 6 + n * 1000)" "clk 6 < clk 6 + n * 1000"
    using iso_range_between [OF clock_reading(3) [OF clk, of 6] n(2)] n(1)
      clock_reading(2) [OF clk, of 6] by auto
  have new: "lost now' (granted_row clk w n (jb_id row) r) c"
    if ids: "jb_id r = job_id c" "jb_id row = job_id c" for r
  proof -
    obtain u where "job_leasedUntil c = Some (toISOString u)" "iso_range u" "u < clk 6" "u < now'"
      using granted_later [OF clk ok row(1) ids(2) row(2) leasable] by auto
    then show ?thesis using lost_superseded [of c u now' _ "clk 6 + n * 1000"] t ids
      by (auto simp: granted_row_def)
  qed
  fix r :: job_row assume r: "jb_id r = job_id c"
  show "current (granted_row clk w n (jb_id row) r) c \<or> lost now' (granted_row clk w n (jb_id row) r) c"
    if "current r c" using new [OF r] that r by (cases "jb_id row = job_id c") (auto simp: granted_row_def)
  show "lost now' (granted_row clk w n (jb_id row) r) c" if "lost now' r c"
    using new [OF r] that r by (cases "jb_id row = job_id c") (auto simp: granted_row_def)
qed auto

text \<open>A call that presents a lease finds the row that runs under it, or none.\<close>

lemma holds_lease_current:
  assumes "lease_ok now T c" and "r \<in> set T" and "holds_lease c t r"
  shows "current r c"
  using assms by (auto simp: lease_ok_def holds_lease_def lost_def)

text \<open>Changing the row held under one lease keeps the other leases, when the row loses its lease
  or gets a later one.\<close>

lemma lease_ok_held:
  assumes ok: "lease_ok now T d" "lease_ok now T c" and now': "now \<le> now'"
    and differ: "job_id c = job_id d \<Longrightarrow> job_leasedUntil c \<noteq> job_leasedUntil d"
    and f: "\<And>r. jb_id (f r) = jb_id r"
      "\<And>r. jb_leased_until (f r) = None \<or>
        (\<exists>v. jb_leased_until (f r) = Some (toISOString v) \<and> iso_range v \<and> now \<le> v)"
  shows "lease_ok now' (update_where (holds_lease c t) f T) d"
  unfolding update_where_def
proof (rule lease_ok_map [OF ok(1) now'])
  fix r assume r: "r \<in> set T" "jb_id r = job_id d"
  have held: "\<not> current r d" if "holds_lease c t r"
    using holds_lease_current [OF ok(2) r(1) that] that r(2) differ
    by (auto simp: current_def holds_lease_def)
  show "current (if holds_lease c t r then f r else r) d \<or>
      lost now' (if holds_lease c t r then f r else r) d" if "current r d"
    using that held by auto
  show "lost now' (if holds_lease c t r then f r else r) d" if lost: "lost now r d"
  proof (cases "holds_lease c t r")
    case True
    obtain u where "job_leasedUntil d = Some (toISOString u)" "iso_range u" "u < now"
      using lost by (auto simp: lost_def)
    then have "lost now' (f r) d"
      using f(2) [of r] now' lost_superseded [of d u now' "f r"] lost_released [of d u now' "f r"]
      by fastforce
    then show ?thesis using True by simp
  next
    case False
    then show ?thesis using lost_later [OF lost now'] by simp
  qed
qed (use f in auto)

section \<open>Every step keeps the invariant\<close>

lemma depth_jobs [preserves_intros]:
  "preserves (\<lambda>s. transactionDepth s = n) (enqueue sha clk input)"
  "preserves (\<lambda>s. transactionDepth s = n) (cancelPending clk request)"
  "preserves (\<lambda>s. transactionDepth s = n) (leaseNext clk w k)"
  "preserves (\<lambda>s. transactionDepth s = n) (renewLease clk job k)"
  "preserves (\<lambda>s. transactionDepth s = n) (complete clk job)"
  "preserves (\<lambda>s. transactionDepth s = n) (fail clk job e)"
  unfolding enqueue_def cancelPending_def leaseNext_def renewLease_def complete_def fail_def
    cancel_statement_def expire_leases_def Let_def
  by (intro transaction_keeps_depth allI preserves_intros;
      auto simp: case_prod_beta intro!: preserves_intros)+

lemma store_kept:
  assumes "system_ok \<sigma>" and "preserves db_ok m" and "preserves (\<lambda>s. transactionDepth s = 0) m"
    and "m (sys_store \<sigma>) = (res, t)"
  shows "db_ok t" and "transactionDepth t = 0"
  using assms preservesD [OF assms(2) _ assms(4)] preservesD [OF assms(3) _ assms(4)]
  by (simp_all add: system_ok_def)

lemma row_ok_cancels:
  assumes "row_ok r" and "cancels r r'"
  shows "row_ok r'"
proof -
  have "row_ok (cancelled_row a b r)" for a b
    using assms(1) by (simp add: row_ok_defs cancelled_row_def redact_screenshot_def) blast
  then show ?thesis using assms by (auto simp: cancels_def)
qed

lemma lease_ok_cancels:
  assumes "lease_ok now T c" and "now \<le> now'" and "list_all2 cancels T T'"
  shows "lease_ok now' T' c"
proof (rule lease_ok_change [where Q = cancels, OF assms(1,2)])
  have ids: "cancels r r' \<Longrightarrow> jb_id r' = jb_id r" for r r'
    by (auto simp: cancels_def cancelled_row_def)
  have "map jb_id T' = map jb_id T"
    using assms(3) by (induction rule: list_all2_induct) (simp_all add: ids)
  then show "jb_id ` set T \<subseteq> jb_id ` set T'" by (metis list.set_map order_refl)
  fix r' assume "r' \<in> set T'" "jb_id r' = job_id c"
  then show "\<exists>r \<in> set T. jb_id r = job_id c \<and> cancels r r'"
    using assms(3) ids by (metis in_set_conv_nth list_all2_conv_all_nth)
next
  fix r r' assume q: "cancels r r'"
  show "current r' c \<or> lost now' r' c" if "current r c"
    using that q by (auto simp: cancels_def current_def waiting_def)
  show "lost now' r' c" if "lost now r c"
    using q by (intro lost_later [OF that assms(2)]) (auto simp: cancels_def cancelled_row_def)
qed

lemma system_ok_cancel:
  assumes ok: "system_ok \<sigma>" and clk: "clock_runs \<sigma> clk now'"
    and run: "cancelPending clk request (sys_store \<sigma>) = (res, t)"
  shows "system_ok (\<sigma>\<lparr>sys_store := t, sys_time := now'\<rparr>)"
proof -
  have T: "list_all2 cancels (jobs (sys_store \<sigma>)) (jobs t)"
    using cancelPending_table [OF _ run] ok by (simp add: system_ok_def)
  have "row_ok r'" if r': "r' \<in> set (jobs t)" for r'
  proof -
    obtain r where "r \<in> set (jobs (sys_store \<sigma>))" "cancels r r'"
      using r' T by (metis in_set_conv_nth list_all2_conv_all_nth)
    then show ?thesis using ok row_ok_cancels by (auto simp: system_ok_def)
  qed
  moreover have "db_ok t" "transactionDepth t = 0"
    using store_kept [OF ok db_ok_cancelPending depth_jobs(2) run] .
  moreover have "lease_ok now' (jobs t) c" if "lease_ok (sys_time \<sigma>) (jobs (sys_store \<sigma>)) c" for c
    using lease_ok_cancels [OF that clock_reading(4) [OF clk] T] .
  ultimately show ?thesis using ok by (auto simp: system_ok_def)
qed

lemma row_ok_enqueued: "row_ok (enqueue_row sha now input)"
  by (simp add: row_ok_defs enqueue_row_def)

lemma system_ok_enqueue:
  assumes ok: "system_ok \<sigma>" and clk: "clock_runs \<sigma> clk now'"
    and run: "enqueue sha clk input (sys_store \<sigma>) = (res, t)"
  shows "system_ok (\<sigma>\<lparr>sys_store := t, sys_time := now'\<rparr>)"
proof -
  let ?T = "jobs (sys_store \<sigma>)"
  let ?p = "\<lambda>r. job_key r = job_key (enqueue_row sha (clk 0) input) \<and> jb_status r = job_cancelled"
  let ?f = "\<lambda>r. r\<lparr>jb_payload := enq_payload input, jb_status := job_queued,
          jb_priority := nullish (enq_priority input) 100, jb_attempt_count := 0,
          jb_max_attempts := nullish (enq_maxAttempts input) 5,
          jb_available_at := nullish (enq_availableAt input) (nowIso (clk 0)),
          jb_leased_until := None, jb_leased_by := None, jb_last_error := None,
          jb_updated_at := nowIso (clk 0)\<rparr>"
  have depth: "transactionDepth (sys_store \<sigma>) = 0" using ok by (simp add: system_ok_def)
  have rows: "\<forall>r \<in> set ?T. row_ok r" using ok by (simp add: system_ok_def)
  have time: "sys_time \<sigma> \<le> now'" using clock_reading(4) [OF clk] .
  have f: "row_ok (?f r)" for r by (simp add: row_ok_defs)
  have "(\<forall>r \<in> set (jobs t). row_ok r) \<and>
      (\<forall>c. lease_ok (sys_time \<sigma>) ?T c \<longrightarrow> lease_ok now' (jobs t) c)"
    using enqueue_cases [OF depth run]
  proof (elim disjE conjE)
    assume "jobs t = ?T"
    then show ?thesis using rows lease_ok_same [OF _ time] by simp
  next
    assume t: "jobs t = update_where ?p ?f ?T"
    have "lease_ok now' (jobs t) c" if "lease_ok (sys_time \<sigma>) ?T c" for c
      unfolding t update_where_def
      by (rule lease_ok_map [OF that time])
        (auto simp: current_def intro: lost_later [OF _ time])
    then show ?thesis using rows f t by (auto simp: update_where_def)
  next
    assume "enqueue_id sha input \<notin> jb_id ` set ?T" "jobs t = ?T @ [enqueue_row sha (clk 0) input]"
    then show ?thesis using rows row_ok_enqueued lease_ok_append lease_ok_same [OF _ time]
      by (auto simp: enqueue_row_def)
  qed
  then show ?thesis using ok store_kept [OF ok db_ok_enqueue depth_jobs(1) run]
    by (auto simp: system_ok_def)
qed

lemma update_jobs_table:
  "update_jobs p f s = (Inr (count_where p (jobs s)), s\<lparr>jobs := update_where p f (jobs s)\<rparr>)"
  by (simp add: update_jobs_def)

lemma in_drop_lease: "l \<in> set (drop_lease k ls) \<longleftrightarrow> l \<in> set ls \<and> fst l \<noteq> k"
  by (simp add: drop_lease_def)

lemma leases_distinct_drop: "leases_distinct ls \<Longrightarrow> leases_distinct (drop_lease k ls)"
  by (auto simp: leases_distinct_def drop_lease_def distinct_map_filter)

lemma leases_distinct_add:
  assumes "leases_distinct ls"
    and "\<And>m d. (m, d) \<in> set ls \<Longrightarrow> m \<noteq> k \<Longrightarrow> job_id d = job_id j \<Longrightarrow>
      job_leasedUntil d \<noteq> job_leasedUntil j"
  shows "leases_distinct ((k, j) # drop_lease k ls)"
  using leases_distinct_drop [OF assms(1), of k] assms(2)
  by (fastforce simp: leases_distinct_def drop_lease_def)

lemma leases_distinctD:
  "leases_distinct ls \<Longrightarrow> (k, c) \<in> set ls \<Longrightarrow> (m, d) \<in> set ls \<Longrightarrow> k \<noteq> m \<Longrightarrow>
     job_id c = job_id d \<Longrightarrow> job_leasedUntil c \<noteq> job_leasedUntil d"
  by (fastforce simp: leases_distinct_def)

lemma system_okD:
  assumes "system_ok \<sigma>"
  shows "transactionDepth (sys_store \<sigma>) = 0" and "db_ok (sys_store \<sigma>)"
    and "unique_on jb_id (jobs (sys_store \<sigma>))" and "leases_distinct (sys_leases \<sigma>)"
    and "r \<in> set (jobs (sys_store \<sigma>)) \<Longrightarrow> row_ok r"
    and "(k, c) \<in> set (sys_leases \<sigma>) \<Longrightarrow> lease_ok (sys_time \<sigma>) (jobs (sys_store \<sigma>)) c"
    and "(k, c) \<in> set (sys_leases \<sigma>) \<Longrightarrow> k < sys_issued \<sigma>"
  using assms by (auto simp: system_ok_def db_ok_defs)

text \<open>\<open>complete\<close> and \<open>fail\<close>: the held row, if there is one, gives up its lease.\<close>

lemma system_ok_release:
  assumes ok: "system_ok \<sigma>" and clk: "clock_runs \<sigma> clk now'"
    and lease: "(k, c) \<in> set (sys_leases \<sigma>)"
    and t: "jobs t = update_where (holds_lease c tm) f (jobs (sys_store \<sigma>))"
      "db_ok t" "transactionDepth t = 0"
    and f: "\<And>r. jb_id (f r) = jb_id r" "\<And>r. jb_leased_until (f r) = None"
      "\<And>r. row_ok r \<Longrightarrow> current r c \<Longrightarrow> row_ok (f r)"
  shows "system_ok (\<sigma>\<lparr>sys_store := t, sys_time := now',
    sys_leases := drop_lease k (sys_leases \<sigma>)\<rparr>)"
proof -
  note D = system_okD [OF ok]
  have rows: "row_ok r'" if r': "r' \<in> set (jobs t)" for r'
  proof -
    obtain r where "r \<in> set (jobs (sys_store \<sigma>))" "r' = (if holds_lease c tm r then f r else r)"
      using r' t(1) by (auto simp: update_where_def)
    then show ?thesis using D(5) f(3) holds_lease_current [OF D(6) [OF lease]] by auto
  qed
  have "lease_ok now' (jobs t) d" if "(m, d) \<in> set (sys_leases \<sigma>)" "m \<noteq> k" for m d
    unfolding t(1)
    using leases_distinctD [OF D(4) lease that(1)] that f
    by (intro lease_ok_held [OF D(6) [OF that(1)] D(6) [OF lease] clock_reading(4) [OF clk]]) auto
  then show ?thesis using rows t D(7) leases_distinct_drop [OF D(4)]
    by (auto simp: system_ok_def in_drop_lease)
qed

lemma system_ok_complete:
  assumes ok: "system_ok \<sigma>" and clk: "clock_runs \<sigma> clk now'"
    and lease: "(k, c) \<in> set (sys_leases \<sigma>)" and run: "complete clk c (sys_store \<sigma>) = (res, t)"
  shows "system_ok (\<sigma>\<lparr>sys_store := t, sys_time := now', sys_leases := drop_lease k (sys_leases \<sigma>)\<rparr>)"
proof (rule system_ok_release [OF ok clk lease])
  have "\<not> lease_missing c" using system_okD(6) [OF ok lease] by (simp add: lease_ok_def)
  then show "jobs t = update_where (holds_lease c (clk 2))
      (\<lambda>r. r\<lparr>jb_status := job_succeeded, jb_leased_by := None, jb_leased_until := None,
             jb_last_error := None, jb_payload := redact_screenshot (clk 0) r,
             jb_updated_at := nowIso (clk 1)\<rparr>) (jobs (sys_store \<sigma>))"
    using run by (auto simp: complete_def bindE_def update_jobs_table throwE_def retE_def
        simp del: One_nat_def split: if_splits)
  show "db_ok t" "transactionDepth t = 0"
    using store_kept [OF ok db_ok_complete depth_jobs(5) run] .
qed (auto simp: row_ok_defs redact_screenshot_def)

lemma system_ok_fail:
  assumes ok: "system_ok \<sigma>" and clk: "clock_runs \<sigma> clk now'"
    and lease: "(k, c) \<in> set (sys_leases \<sigma>)" and run: "fail clk c e (sys_store \<sigma>) = (res, t)"
  shows "system_ok (\<sigma>\<lparr>sys_store := t, sys_time := now', sys_leases := drop_lease k (sys_leases \<sigma>)\<rparr>)"
proof (rule system_ok_release [OF ok clk lease])
  have "\<not> lease_missing c" using system_okD(6) [OF ok lease] by (simp add: lease_ok_def)
  then show "jobs t = update_where (holds_lease c (clk 3))
      (\<lambda>r. r\<lparr>jb_status := (if job_attemptCount c \<ge> job_maxAttempts c then job_dead_letter
               else job_retryable_failed),
             jb_available_at := toISOString (clk 0 + retry_delay (job_attemptCount c) * 1000),
             jb_leased_by := None, jb_leased_until := None,
             jb_last_error := Some (take 500 (error_message e)),
             jb_payload := (if job_attemptCount c \<ge> job_maxAttempts c
               then redact_screenshot (clk 1) r else jb_payload r),
             jb_updated_at := nowIso (clk 2)\<rparr>) (jobs (sys_store \<sigma>))"
    using run by (auto simp: fail_def bindE_def update_jobs_table throwE_def retE_def Let_def
        simp del: One_nat_def split: if_splits)
  show "db_ok t" "transactionDepth t = 0"
    using store_kept [OF ok db_ok_fail depth_jobs(6) run] .
qed (auto simp: row_ok_defs redact_screenshot_def current_def)

text \<open>\<open>renewLease\<close>: the held row, if there is one, gets a later end of its lease.\<close>

lemma holds_lease_unique:
  assumes "unique_on jb_id T" and "r \<in> set T" and "holds_lease c t r" and "q \<in> set T"
    and "jb_id q = job_id c"
  shows "q = r"
  using assms unique_onD [of jb_id T q r] by (auto simp: holds_lease_def)

lemma system_ok_renew:
  assumes ok: "system_ok \<sigma>" and clk: "clock_runs \<sigma> clk now'"
    and lease: "(k, c) \<in> set (sys_leases \<sigma>)" and n: "0 < n" "iso_range (now' + n * 1000)"
    and run: "renewLease clk c n (sys_store \<sigma>) = (res, t)"
  shows "system_ok (\<sigma>\<lparr>sys_store := t, sys_time := now', sys_leases := add_lease k res (sys_leases \<sigma>)\<rparr>)"
proof -
  note D = system_okD [OF ok]
  let ?T = "jobs (sys_store \<sigma>)" and ?p = "holds_lease c (clk 2)"
  let ?u = "clk 0 + n * 1000"
  let ?f = "\<lambda>r. r\<lparr>jb_leased_until := Some (toISOString ?u), jb_updated_at := nowIso (clk 1)\<rparr>"
  let ?j = "c\<lparr>job_leasedUntil := Some (toISOString ?u)\<rparr>"
  have c: "lease_ok (sys_time \<sigma>) ?T c" "\<not> lease_missing c" using D(6) [OF lease] by (auto simp: lease_ok_def)
  have u: "iso_range ?u" "sys_time \<sigma> < ?u"
    using iso_range_between [OF clock_reading(3) [OF clk, of 0] n(2)] n(1)
      clock_reading(1,2) [OF clk, of 0] by auto
  have t: "jobs t = update_where ?p ?f ?T" "db_ok t" "transactionDepth t = 0"
    "res = Inr (if count_where ?p ?T \<noteq> 0 then Some ?j else None)"
    using run c(2) store_kept [OF ok db_ok_renewLease depth_jobs(4) run]
    by (auto simp: renewLease_def bindE_def update_jobs_table retE_def simp del: One_nat_def)
  have "row_ok (?f r)" if "row_ok r" "jb_status r = job_running" for r
    using that by (simp add: row_ok_defs)
  then have rows: "\<forall>r \<in> set (jobs t). row_ok r"
    using D(5) unfolding t(1) ball_update_where by (simp add: holds_lease_def)
  have others: "lease_ok now' (jobs t) d" if "(m, d) \<in> set (sys_leases \<sigma>)" "m \<noteq> k" for m d
    unfolding t(1)
    using leases_distinctD [OF D(4) lease that(1)] that u
    by (intro lease_ok_held [OF D(6) [OF that(1)] c(1) clock_reading(4) [OF clk]]) auto
  show ?thesis
  proof (cases "\<exists>r \<in> set ?T. ?p r")
    case False
    then have "jobs t = ?T" "res = Inr None" using t by (auto simp: update_where_idem count_where_0)
    then show ?thesis using t rows D lease_ok_same [OF _ clock_reading(4) [OF clk]]
      by (auto simp: system_ok_def add_lease_def)
  next
    case True
    then obtain r where r: "r \<in> set ?T" "?p r" by blast
    have res: "res = Inr (Some ?j)" using t(4) r by (auto simp: count_where_0)
    have cur: "current r c" using holds_lease_current [OF c(1) r] .
    have "lease_ok now' (jobs t) ?j"
    proof -
      have "current r' ?j" if "r' \<in> set (jobs t)" "jb_id r' = job_id c" for r'
        using that cur r holds_lease_unique [OF D(3) r]
        by (auto simp: t(1) update_where_def current_def split: if_splits)
      moreover have "job_id c \<in> jb_id ` set (jobs t)"
        using c(1) unfolding t(1) by (simp add: image_update_where lease_ok_def)
      ultimately show ?thesis using c(2) u(1) toISOString_def
        by (auto simp: lease_ok_def lease_missing_def)
    qed
    moreover have "job_leasedUntil d \<noteq> job_leasedUntil ?j"
      if d: "(m, d) \<in> set (sys_leases \<sigma>)" "m \<noteq> k" "job_id d = job_id ?j" for m d
    proof -
      have "\<not> current r d"
        using leases_distinctD [OF D(4) lease d(1)] d cur by (auto simp: current_def)
      then have "lost (sys_time \<sigma>) r d"
        using D(6) [OF d(1)] r d(3) by (auto simp: lease_ok_def holds_lease_def)
      then show ?thesis using u by (auto simp: lost_def)
    qed
    then have "leases_distinct ((k, ?j) # drop_lease k (sys_leases \<sigma>))"
      by (intro leases_distinct_add [OF D(4)])
    ultimately show ?thesis using t rows others D(7) lease
      by (auto simp: system_ok_def res add_lease_def in_drop_lease)
  qed
qed

lemma system_ok_lease:
  assumes ok: "system_ok \<sigma>" and clk: "clock_runs \<sigma> clk now'" and w: "w \<noteq> []"
    and n: "0 < n" "iso_range (now' + n * 1000)"
    and run: "leaseNext clk w n (sys_store \<sigma>) = (res, t)"
  shows "system_ok (\<sigma>\<lparr>sys_store := t, sys_time := now', sys_issued := Suc (sys_issued \<sigma>),
     sys_leases := add_lease (sys_issued \<sigma>) res (sys_leases \<sigma>)\<rparr>)"
proof -
  note D = system_okD [OF ok] and time = clock_reading(4) [OF clk]
  let ?T = "jobs (sys_store \<sigma>)" and ?u = "clk 6 + n * 1000"
  let ?T1 = "map (expired_row clk) ?T"
  have t: "db_ok t" "transactionDepth t = 0"
    using store_kept [OF ok db_ok_leaseNext depth_jobs(3) run] by simp_all
  have rows1: "row_ok r" if "r \<in> set ?T1" for r using that D(5) row_ok_expired by auto
  from leaseNext_cases [OF D(1) run] show ?thesis
  proof (elim disjE exE conjE)
    assume "res = Inr None" "jobs t = ?T1"
    then show ?thesis using t rows1 D lease_ok_expired [OF clk]
      by (fastforce simp: system_ok_def add_lease_def)
  next
    fix e assume "res = Inl e" "t = sys_store \<sigma>"
    then show ?thesis using D lease_ok_same [OF _ time]
      by (fastforce simp: system_ok_def add_lease_def)
  next
    fix row assume sel: "next_job (leasable (clk 3) (clk 4) (clk 5)) (sys_store \<sigma>\<lparr>jobs := ?T1\<rparr>) = Some row"
      and res: "res = Inr (Some (job_of_row (leased_row w (toISOString ?u) row)))"
      and jobs: "jobs t = map (granted_row clk w n (jb_id row) \<circ> expired_row clk) ?T"
    let ?j = "job_of_row (leased_row w (toISOString ?u) row)"
    have row: "row \<in> set ?T1" "leasable (clk 3) (clk 4) (clk 5) row"
      using next_job_Some [OF sel] by auto
    have cols: "lease_columns_ok row" using rows1 [OF row(1)] by (simp add: row_ok_def)
    have uniq: "unique_on jb_id ?T1" using D(3) by (simp add: unique_on_def comp_def)
    have u: "iso_range ?u" "clk 6 < ?u"
      using iso_range_between [OF clock_reading(3) [OF clk, of 6] n(2)] n(1)
        clock_reading(2) [OF clk, of 6] by auto
    have jobs': "jobs t = map (granted_row clk w n (jb_id row)) ?T1" using jobs by simp
    have r': "r = row" if "r \<in> set ?T1" "jb_id r = jb_id row" for r
      using unique_onD [OF uniq that(1) row(1) that(2)] .
    have rows: "row_ok r" if "r \<in> set (jobs t)" for r
    proof -
      obtain q where "q \<in> set ?T1" "r = granted_row clk w n (jb_id row) q"
        using \<open>r \<in> set (jobs t)\<close> unfolding jobs' by auto
      then show ?thesis using rows1 row(2) r' row_ok_granted [of q "jb_id row"] by blast
    qed
    have ne: "toISOString ?u \<noteq> []" by (simp add: toISOString_def)
    have j: "job_id ?j = jb_id row" "job_leasedUntil ?j = Some (toISOString ?u)"
      "job_leasedBy ?j = Some w" "job_attemptCount ?j = jb_attempt_count row + 1"
      "job_maxAttempts ?j = jb_max_attempts row"
      using w ne by (simp_all add: job_of_row_def text_or_undefined_def)
    have new: "lease_ok now' (jobs t) ?j"
      unfolding lease_ok_def
    proof (intro conjI ballI impI disjI1)
      have "jb_id ` set (jobs t) = jb_id ` set ?T1" unfolding jobs' by (simp add: image_image)
      then show "job_id ?j \<in> jb_id ` set (jobs t)" using row(1) j by blast
      show "\<not> lease_missing ?j" using w ne j by (simp add: lease_missing_def)
      show "\<exists>u. job_leasedUntil ?j = Some (toISOString u) \<and> iso_range u" using u j by blast
      fix r assume r: "r \<in> set (jobs t)" "jb_id r = job_id ?j"
      then obtain q where "q \<in> set ?T1" "r = granted_row clk w n (jb_id row) q"
        unfolding jobs' by auto
      then have "r = granted_row clk w n (jb_id row) row" using r(2) r' [of q] j by simp
      then show "current r ?j" using j by (simp add: current_def granted_row_def)
    qed
    have "job_leasedUntil d \<noteq> job_leasedUntil ?j"
      if d: "(m, d) \<in> set (sys_leases \<sigma>)" "job_id d = job_id ?j" for m d
      using granted_later [OF clk D(6) [OF d(1)] row(1) _ cols row(2)] d(2) j u by auto
    then have "leases_distinct ((sys_issued \<sigma>, ?j) # drop_lease (sys_issued \<sigma>) (sys_leases \<sigma>))"
      by (intro leases_distinct_add [OF D(4)]) blast
    moreover have "lease_ok now' (jobs t) d" if "(m, d) \<in> set (sys_leases \<sigma>)" for m d
      using lease_ok_granted [OF clk n D(6) [OF that] row(1) cols D(3) row(2)] unfolding jobs' .
    ultimately show ?thesis using t rows new D(7)
      by (fastforce simp: system_ok_def res add_lease_def in_drop_lease)
  qed
qed

lemma system_ok_step: "job_step sha \<sigma> \<sigma>' \<Longrightarrow> system_ok \<sigma> \<Longrightarrow> system_ok \<sigma>'"
  by (induction rule: job_step.induct)
    (blast intro: system_ok_enqueue system_ok_cancel system_ok_lease system_ok_renew
      system_ok_complete system_ok_fail)+

lemma new_Store_simps:
  "jobs (new_Store now t) = []" "transactionDepth (new_Store now t) = 0" "db_ok (new_Store now t)"
  by (simp_all add: new_Store_def ensureTenant_def modifyE_def db.defs store.defs empty_db_def
      db_ok_defs exists_row_def unique_on_def)

lemma system_ok_reachable: "job_reachable sha \<sigma> \<Longrightarrow> system_ok \<sigma>"
proof (induction rule: job_reachable.induct)
  case (reach_start now t)
  then show ?case
    by (simp add: system_ok_def initial_system_def new_Store_simps leases_distinct_def)
qed (rule system_ok_step)

section \<open>Properties\<close>

lemma unheld_calls:
  assumes "\<forall>r \<in> set (jobs s). \<not> holds_lease d t r" and "\<not> lease_missing d"
  shows "update_jobs (holds_lease d t) f s = (Inr 0, s)"
  using assms by (simp add: update_jobs_def update_where_idem count_where_0)

lemma superseded_not_held:
  assumes "system_ok \<sigma>" and "(k, c) \<in> set (sys_leases \<sigma>)" and "(m, d) \<in> set (sys_leases \<sigma>)"
    and "k \<noteq> m" and "job_id c = job_id d" and "\<exists>r \<in> set (jobs (sys_store \<sigma>)). holds_lease c t r"
  shows "\<forall>r \<in> set (jobs (sys_store \<sigma>)). \<not> holds_lease d t' r"
proof
  fix q assume q: "q \<in> set (jobs (sys_store \<sigma>))"
  obtain r where r: "r \<in> set (jobs (sys_store \<sigma>))" "holds_lease c t r" using assms(6) by blast
  note D = system_okD [OF assms(1)]
  show "\<not> holds_lease d t' q"
  proof
    assume h: "holds_lease d t' q"
    then have "q = r"
      using holds_lease_unique [OF D(3) r q] assms(5) by (simp add: holds_lease_def)
    then show False
      using h r(2) leases_distinctD [OF D(4) assms(2-5)] by (simp add: holds_lease_def)
  qed
qed

lemma complete_Inr_held:
  assumes "complete clk c s = (Inr (), t)"
  shows "\<exists>r \<in> set (jobs s). holds_lease c (clk 2) r"
  using assms by (auto simp: complete_def bindE_def update_jobs_def throwE_def retE_def count_where_0
      split: if_splits)

text \<open>A concrete run, on which the hypotheses of the properties hold: a job is enqueued, a worker
  leases it, its lease runs out, and a second worker leases it.\<close>

definition demo_input :: EnqueueJob where
  "demo_input = \<lparr>enq_tenantId = ''t'', enq_type = ''ingest.screenshot'', enq_idempotencyKey = ''k'',
     enq_payload = JObj [], enq_priority = None, enq_maxAttempts = None, enq_availableAt = None\<rparr>"

definition demo1 :: job_system where
  "demo1 = (initial_system 0 (new_Store 0 ''t''))\<lparr>
     sys_store := snd (enqueue id (\<lambda>_. 1000) demo_input (new_Store 0 ''t'')), sys_time := 1000\<rparr>"

definition demo_lease :: "int \<Rightarrow> string \<Rightarrow> job_system \<Rightarrow> job_system" where
  "demo_lease t w \<sigma> = (case leaseNext (\<lambda>_. t) w 60 (sys_store \<sigma>) of (res, s) \<Rightarrow>
     \<sigma>\<lparr>sys_store := s, sys_time := t, sys_issued := Suc (sys_issued \<sigma>),
       sys_leases := add_lease (sys_issued \<sigma>) res (sys_leases \<sigma>)\<rparr>)"

definition demo2 :: job_system where
  "demo2 = demo_lease 2000 ''w1'' demo1"

definition demo3 :: job_system where
  "demo3 = demo_lease 70000 ''w2'' demo2"

lemma demo_clock: "sys_time \<sigma> \<le> t \<Longrightarrow> iso_range (sys_time \<sigma>) \<Longrightarrow> iso_range t \<Longrightarrow> clock_runs \<sigma> (\<lambda>_. t) t"
  by (simp add: clock_runs_def mono_def)

lemma demo_lease_reachable:
  assumes "job_reachable sha \<sigma>" "sys_time \<sigma> \<le> t" "iso_range (sys_time \<sigma>)" "iso_range (t + 60000)" "w \<noteq> []"
  shows "job_reachable sha (demo_lease t w \<sigma>)"
proof -
  have t: "iso_range t" using iso_range_between [OF assms(3,4,2)] by simp
  obtain res s where "leaseNext (\<lambda>_. t) w 60 (sys_store \<sigma>) = (res, s)" by fastforce
  then show ?thesis
    using reach_step [OF assms(1) step_lease [OF demo_clock [OF assms(2,3) t] assms(5), of 60]] assms(4)
    by (simp add: demo_lease_def)
qed

lemma demo1_reachable: "job_reachable id demo1"
proof -
  let ?s0 = "initial_system 0 (new_Store 0 ''t'')"
  have "job_step id ?s0 demo1"
    unfolding demo1_def
    by (rule step_enqueue [where clk = "\<lambda>_. 1000" and input = demo_input
          and res = "fst (enqueue id (\<lambda>_. 1000) demo_input (new_Store 0 ''t''))"])
      (simp_all add: demo_clock initial_system_def iso_range_def)
  then show ?thesis using reach_step [OF reach_start] by blast
qed

lemma demo2_reachable: "job_reachable id demo2"
  unfolding demo2_def by (rule demo_lease_reachable [OF demo1_reachable])
    (simp_all add: demo1_def iso_range_def)

lemma demo_lease_time [simp]: "sys_time (demo_lease t w \<sigma>) = t"
  by (simp add: demo_lease_def split: prod.splits)

lemma demo3_reachable: "job_reachable id demo3"
  unfolding demo3_def by (rule demo_lease_reachable [OF demo2_reachable])
    (simp_all add: demo2_def iso_range_def)

definition demo_row :: job_row where
  "demo_row = enqueue_row id 1000 demo_input"

abbreviation demo_row1 :: job_row where
  "demo_row1 \<equiv> granted_row (\<lambda>_. 2000) ''w1'' 60 (jb_id demo_row) demo_row"

abbreviation demo_row2 :: job_row where
  "demo_row2 \<equiv> granted_row (\<lambda>_. 70000) ''w2'' 60 (jb_id demo_row) demo_row1"

definition demo_copy1 :: Job where
  "demo_copy1 = job_of_row (leased_row ''w1'' (toISOString 62000) demo_row)"

definition demo_copy2 :: Job where
  "demo_copy2 = job_of_row (leased_row ''w2'' (toISOString 130000) demo_row1)"

lemmas demo_row_defs = demo_row_def enqueue_row_def demo_input_def

lemma toISOString_ne [simp]: "toISOString t \<noteq> []"
  by (simp add: toISOString_def)

lemma demo1_state: "jobs (sys_store demo1) = [demo_row]" "sys_issued demo1 = 0" "sys_leases demo1 = []"
  by (simp_all add: demo1_def enqueue_def upsert_job_row_def find_job_def initial_system_def
      transaction_def effect_defs ensureTenant_def new_Store_def db.defs store.defs empty_db_def
      table_defs demo_row_defs)

lemma next_job_single: "jobs s = [r] \<Longrightarrow> next_job p s = (if p r then Some r else None)"
  by (auto simp: next_job_def first_by_def order_by_def tenant_head_def)

lemma demo_lease_single:
  assumes "system_ok \<sigma>" "jobs (sys_store \<sigma>) = [r]" "expired_row (\<lambda>_. t) r = r" "leasable t t t r"
  shows "jobs (sys_store (demo_lease t w \<sigma>)) = [granted_row (\<lambda>_. t) w 60 (jb_id r) r]"
    and "sys_leases (demo_lease t w \<sigma>) = (sys_issued \<sigma>,
      job_of_row (leased_row w (toISOString (t + 60000)) r)) # drop_lease (sys_issued \<sigma>) (sys_leases \<sigma>)"
    and "sys_issued (demo_lease t w \<sigma>) = Suc (sys_issued \<sigma>)"
proof -
  note D = system_okD [OF assms(1)]
  obtain res s where run: "leaseNext (\<lambda>_. t) w 60 (sys_store \<sigma>) = (res, s)" by fastforce
  have "next_job (leasable t t t) (sys_store \<sigma>\<lparr>jobs := map (expired_row (\<lambda>_. t)) (jobs (sys_store \<sigma>))\<rparr>)
      = Some r"
    using assms by (subst next_job_single [of _ r]) auto
  moreover have "tenant_exists (jb_tenant_id r) (sys_store \<sigma>)"
    using job_tenant_exists [OF D(2)] assms(2) by simp
  ultimately have "res = Inr (Some (job_of_row (leased_row w (toISOString (t + 60000)) r)))"
    "jobs s = [granted_row (\<lambda>_. t) w 60 (jb_id r) r]"
    using leaseNext_cases [OF D(1) run] assms by auto
  then show "jobs (sys_store (demo_lease t w \<sigma>)) = [granted_row (\<lambda>_. t) w 60 (jb_id r) r]"
    and "sys_leases (demo_lease t w \<sigma>) = (sys_issued \<sigma>,
      job_of_row (leased_row w (toISOString (t + 60000)) r)) # drop_lease (sys_issued \<sigma>) (sys_leases \<sigma>)"
    and "sys_issued (demo_lease t w \<sigma>) = Suc (sys_issued \<sigma>)"
    using run by (simp_all add: demo_lease_def add_lease_def)
qed

lemma demo2_state: "jobs (sys_store demo2) = [demo_row1]" "sys_issued demo2 = 1"
  "sys_leases demo2 = [(0, demo_copy1)]"
proof -
  have "expired_row (\<lambda>_. 2000) demo_row = demo_row" "leasable 2000 2000 2000 demo_row"
    by (simp_all add: expired_row_def leasable_def waiting_def demo_row_defs nowIso_def iso_range_def)
  note lease = demo_lease_single [OF system_ok_reachable [OF demo1_reachable] demo1_state(1) this]
  show "jobs (sys_store demo2) = [demo_row1]" "sys_issued demo2 = 1"
    "sys_leases demo2 = [(0, demo_copy1)]"
    by (simp_all add: demo2_def lease demo1_state drop_lease_def demo_copy1_def)
qed

lemma demo3_state: "jobs (sys_store demo3) = [demo_row2]"
  "sys_leases demo3 = [(1, demo_copy2), (0, demo_copy1)]"
proof -
  have "expired_row (\<lambda>_. 70000) demo_row1 = demo_row1" "leasable 70000 70000 70000 demo_row1"
    by (simp_all add: expired_row_def leasable_def granted_row_def column_less_iso demo_row_defs
        iso_range_def)
  note lease = demo_lease_single [OF system_ok_reachable [OF demo2_reachable] demo2_state(1) this]
  show "jobs (sys_store demo3) = [demo_row2]"
    "sys_leases demo3 = [(1, demo_copy2), (0, demo_copy1)]"
    by (simp_all add: demo3_def lease demo2_state drop_lease_def demo_copy2_def)
qed

lemma demo3_complete: "\<exists>t. complete (\<lambda>_. 71000) demo_copy2 (sys_store demo3) = (Inr (), t)"
  by (simp add: complete_def bindE_def update_jobs_def demo3_state lease_missing_def demo_copy2_def
      job_of_row_def text_or_undefined_def count_where_def holds_lease_def granted_row_def
      nowIso_def iso_range_def retE_def)

lemma leaseNext_total:
  assumes "db_ok s" and "transactionDepth s = 0"
    and "q \<in> set (map (expired_row clk) (jobs s))" and "leasable (clk 3) (clk 4) (clk 5) q"
  shows "\<exists>j t. leaseNext clk w n s = (Inr (Some j), t)"
proof -
  obtain r t where run: "leaseNext clk w n s = (r, t)" by fastforce
  from leaseNext_cases [OF assms(2) run] show ?thesis
    using assms(3,4) run job_tenant_exists [OF assms(1)] by auto
qed

text \<open>C1. Fencing. When two copies of one job are in the workers' hands in a reachable state (a
  lease that was given out again after it ran out) and one of them can complete the job, then the
  other can neither complete nor fail nor renew it, at any time: every such call is refused and
  changes nothing.\<close>

theorem fencing:
  assumes "job_reachable sha \<sigma>" and "(k, c) \<in> set (sys_leases \<sigma>)" and "(m, d) \<in> set (sys_leases \<sigma>)"
    and "k \<noteq> m" and "job_id c = job_id d" and "complete clk c (sys_store \<sigma>) = (Inr (), t)"
  shows "complete clk' d (sys_store \<sigma>) = (Inl (Error ''Job lease is no longer valid''), sys_store \<sigma>) \<and>
     fail clk' d e (sys_store \<sigma>) = (Inl (Error ''Job lease is no longer valid''), sys_store \<sigma>) \<and>
     renewLease clk' d n (sys_store \<sigma>) = (Inr None, sys_store \<sigma>)"
proof -
  have ok: "system_ok \<sigma>" using assms(1) by (rule system_ok_reachable)
  have un: "\<forall>r \<in> set (jobs (sys_store \<sigma>)). \<not> holds_lease d t' r" for t'
    using superseded_not_held [OF ok assms(2-5) complete_Inr_held [OF assms(6)]] .
  have lm: "\<not> lease_missing d" using system_okD(6) [OF ok assms(3)] by (simp add: lease_ok_def)
  show ?thesis
    using lm by (simp add: complete_def fail_def renewLease_def bindE_def unheld_calls [OF un lm]
        throwE_def retE_def Let_def)
qed

text \<open>C2. Mutual exclusion in time. While the lease of a copy in a worker's hands has not run out,
  \<open>leaseNext\<close> does not give the job to anyone.\<close>

theorem lease_exclusive:
  assumes "job_reachable sha \<sigma>" and "clock_runs \<sigma> clk now'" and "(k, c) \<in> set (sys_leases \<sigma>)"
    and "job_leasedUntil c = Some (toISOString u)" and "iso_range u" and "now' \<le> u"
    and "leaseNext clk w n (sys_store \<sigma>) = (Inr (Some j), t)"
  shows "job_id j \<noteq> job_id c"
proof
  assume same: "job_id j = job_id c"
  have ok: "system_ok \<sigma>" using assms(1) by (rule system_ok_reachable)
  note D = system_okD [OF ok]
  obtain row where sel: "next_job (leasable (clk 3) (clk 4) (clk 5))
      (sys_store \<sigma>\<lparr>jobs := map (expired_row clk) (jobs (sys_store \<sigma>))\<rparr>) = Some row"
    and j: "j = job_of_row (leased_row w (toISOString (clk 6 + n * 1000)) row)"
    using leaseNext_cases [OF D(1) assms(7)] by auto
  have row: "row \<in> set (map (expired_row clk) (jobs (sys_store \<sigma>)))"
    "leasable (clk 3) (clk 4) (clk 5) row" using next_job_Some [OF sel] by auto
  have "row_ok row" using row(1) D(5) row_ok_expired by auto
  then obtain v where "job_leasedUntil c = Some (toISOString v)" "iso_range v" "v < now'"
    using granted_later [OF assms(2) D(6) [OF assms(3)] row(1) _ _ row(2)] same j
    by (auto simp: row_ok_def job_of_row_def)
  then show False using assms(4-6) by simp
qed

text \<open>C3. The attempt budget. In every reachable state a job has been attempted at most
  \<open>maxAttempts\<close> times (once, when the budget is not positive), a queued job not at all, a running
  job at least once, and a job waiting for a retry has an attempt left.\<close>

theorem attempts_bounded:
  assumes "job_reachable sha \<sigma>" and "r \<in> set (jobs (sys_store \<sigma>))"
  shows "0 \<le> jb_attempt_count r \<and> jb_attempt_count r \<le> max 1 (jb_max_attempts r) \<and>
     (jb_status r = job_queued \<longrightarrow> jb_attempt_count r = 0) \<and>
     (jb_status r = job_running \<longrightarrow> 1 \<le> jb_attempt_count r) \<and>
     (jb_status r = job_retryable_failed \<longrightarrow> jb_attempt_count r < jb_max_attempts r)"
  using system_okD(5) [OF system_ok_reachable [OF assms(1)] assms(2)]
  by (simp add: row_ok_def attempts_ok_def)

text \<open>C4. Data retention. In every reachable state a screenshot job that will not run again
  (succeeded, dead letter or cancelled) holds the redaction marker in place of the screenshot, and
  only a running job carries the name of a worker and the end of a lease.\<close>

theorem finished_screenshots_redacted:
  assumes "job_reachable sha \<sigma>" and "r \<in> set (jobs (sys_store \<sigma>))"
  shows "(jb_status r \<in> {job_succeeded, job_dead_letter, job_cancelled} \<and>
       jb_type r = ''ingest.screenshot'' \<longrightarrow> (\<exists>now. jb_payload r = redactedPayload now)) \<and>
     (jb_status r \<noteq> job_running \<longrightarrow> jb_leased_by r = None \<and> jb_leased_until r = None)"
  using system_okD(5) [OF system_ok_reachable [OF assms(1)] assms(2)]
  by (auto simp: row_ok_defs)

text \<open>C5. Scheduling. On a database that satisfies its constraints \<open>leaseNext\<close> does not throw.
  After the leases that ran out at their last attempt are closed, it returns nothing exactly when no
  job can be leased; otherwise it leases a job of a tenant whose last lease is the oldest among the
  tenants with a job to lease, and no other job of that tenant that can be leased comes before it by
  priority and age.\<close>

theorem leaseNext_schedules:
  assumes "db_ok s" and "transactionDepth s = 0"
  shows "\<exists>res t. leaseNext clk w n s = (Inr res, t) \<and>
    (let ready = filter (leasable (clk 3) (clk 4) (clk 5)) (map (expired_row clk) (jobs s)) in
      case res of None \<Rightarrow> ready = []
      | Some j \<Rightarrow> \<exists>row \<in> set ready.
          j = job_of_row (leased_row w (toISOString (clk 6 + n * 1000)) row) \<and>
          (\<forall>q \<in> set ready. last_leased s (jb_tenant_id row) \<le> last_leased s (jb_tenant_id q) \<and>
             (jb_tenant_id q = jb_tenant_id row \<longrightarrow> priority_key row \<le> priority_key q)))"
proof -
  let ?p = "leasable (clk 3) (clk 4) (clk 5)" and ?s1 = "s\<lparr>jobs := map (expired_row clk) (jobs s)\<rparr>"
  obtain r t where run: "leaseNext clk w n s = (r, t)" by fastforce
  note fk = job_tenant_exists [OF assms(1)]
  from leaseNext_cases [OF assms(2) run] show ?thesis
  proof (elim disjE exE conjE)
    assume "r = Inr None" "jobs t = map (expired_row clk) (jobs s)" "\<forall>r \<in> set (jobs t). \<not> ?p r"
    then show ?thesis using run by (auto simp: filter_empty_conv)
  next
    fix row assume sel: "next_job ?p ?s1 = Some row"
      and r: "r = Inr (Some (job_of_row (leased_row w (toISOString (clk 6 + n * 1000)) row)))"
    have row: "row \<in> set (filter ?p (map (expired_row clk) (jobs s)))"
      using next_job_Some [OF sel] by simp
    have least: "last_leased s (jb_tenant_id row) \<le> last_leased s (jb_tenant_id q) \<and>
        (jb_tenant_id q = jb_tenant_id row \<longrightarrow> priority_key row \<le> priority_key q)"
      if q: "q \<in> set (jobs ?s1)" "?p q" for q
    proof -
      obtain h where h: "h \<in> set (jobs ?s1)" "?p h" "jb_tenant_id h = jb_tenant_id q"
        "tenant_head ?p (jobs ?s1) h" "priority_key h \<le> priority_key q"
        using tenant_head_exists [of q "jobs ?s1" ?p] q by blast
      have "lease_key ?s1 row \<le> lease_key ?s1 h" using next_job_min [OF sel h(1,2,4)] .
      then show ?thesis using h(3,5)
        by (auto simp: lease_key_def last_leased_def less_eq_prod_simp)
    qed
    then show ?thesis using run r row by auto
  next
    fix e row assume "row \<in> set (jobs s)" "\<not> tenant_exists (jb_tenant_id row) s"
    then show ?thesis using fk by blast
  qed
qed

text \<open>Idempotent enqueueing. Enqueueing under a key whose job exists and is not cancelled
  changes nothing and returns that job.\<close>

lemma enqueue_idempotent:
  assumes "db_ok s" and "transactionDepth s = 0" and "r \<in> set (jobs s)"
    and "job_key r = (enq_tenantId input, enq_type input, enq_idempotencyKey input)"
    and "jb_id r = enqueue_id sha input" and "jb_status r \<noteq> job_cancelled"
  shows "enqueue sha clk input s = (Inr (job_of_row r), s)"
proof -
  have tenant: "tenant_exists (enq_tenantId input) s"
    using job_tenant_exists [OF assms(1,3)] assms(4) by (simp add: job_key_def)
  have keys: "unique_on job_key (jobs s)" "unique_on jb_id (jobs s)"
    using assms(1) by (simp_all add: db_ok_defs)
  have row: "job_key (enqueue_row sha (clk 0) input) = job_key r"
    using assms(4) by (simp add: job_key_def enqueue_row_def)
  have "update_where (\<lambda>q. job_key q = job_key r \<and> jb_status q = job_cancelled) f (jobs s) = jobs s" for f
    using unique_onD [OF keys(1) _ assms(3)] assms(6) by (intro update_where_idem) auto
  moreover have "job_key r \<in> job_key ` set (jobs s)" using assms(3) by blast
  moreover have "find_job (enqueue_id sha input) s = Some r"
    unfolding find_job_def using keys(2) assms(3,5) by (intro select_first_unique [where k = jb_id]) auto
  moreover have "transaction (bindE (ensureTenant (clk 1) (enq_tenantId input) (enq_tenantId input))
      (\<lambda>_. upsert_job_row (enqueue_row sha (clk 0) input))) s = (Inr (), s)"
    using assms(2) tenant calculation(1,2)
    by (simp add: transaction_def effect_defs ensureTenant_def upsert_job_row_def row exists_row_key)
  ultimately show ?thesis by (simp add: enqueue_def bindE_def getE_def retE_def)
qed

fun may_become :: "JobStatus \<Rightarrow> JobStatus \<Rightarrow> bool" where
  "may_become job_queued st = (st \<in> {job_running, job_cancelled})"
| "may_become job_retryable_failed st = (st \<in> {job_running, job_cancelled})"
| "may_become job_running st =
     (st \<in> {job_running, job_succeeded, job_retryable_failed, job_dead_letter})"
| "may_become job_cancelled st = (st = job_queued)"
| "may_become job_succeeded st = False"
| "may_become job_dead_letter st = False"

definition row_evolves :: "job_row \<Rightarrow> job_row \<Rightarrow> bool" where
  "row_evolves r r' \<longleftrightarrow> r' = r \<or> same_job r' r \<and> may_become (jb_status r) (jb_status r')"

lemma update_where_evolves:
  assumes "\<And>r. r \<in> set T \<Longrightarrow> p r \<Longrightarrow> row_evolves r (f r)" and "r \<in> set T"
  shows "\<exists>r' \<in> set (update_where p f T). row_evolves r r'"
proof -
  have "(if p r then f r else r) \<in> set (update_where p f T)"
    using assms(2) unfolding update_where_def by (force simp: image_iff)
  moreover have "row_evolves r (if p r then f r else r)" using assms by (simp add: row_evolves_def)
  ultimately show ?thesis by blast
qed

lemma evolves_held:
  assumes "r \<in> set (jobs s)" and "update_jobs (holds_lease c t) f s = (res, s')"
    and "\<And>r. same_job (f r) r \<and> may_become job_running (jb_status (f r))
       \<or> jb_status r \<noteq> job_running"
  shows "\<exists>r' \<in> set (jobs s'). row_evolves r r'"
proof -
  have "row_evolves q (f q)" if "holds_lease c t q" for q
    using that assms(3) [of q] by (auto simp: row_evolves_def holds_lease_def)
  then show ?thesis
    using update_where_evolves [of "jobs s" "holds_lease c t" f r] assms(1,2)
    by (auto simp: update_jobs_def)
qed

lemma evolves_refl: "r \<in> set T \<Longrightarrow> \<exists>r' \<in> set T. row_evolves r r'"
  by (auto simp: row_evolves_def)

lemma lease_evolves:
  assumes "transactionDepth s = 0" and "unique_on jb_id (jobs s)" and "r \<in> set (jobs s)"
    and "leaseNext clk w n s = (res, t)"
  shows "\<exists>r' \<in> set (jobs t). row_evolves r r'"
proof -
  have exp: "row_evolves r (expired_row clk r)"
    by (simp add: row_evolves_def expired_row_def same_job_def)
  from leaseNext_cases [OF assms(1,4)] show ?thesis
  proof (elim disjE exE conjE)
    fix row assume sel: "next_job (leasable (clk 3) (clk 4) (clk 5))
        (s\<lparr>jobs := map (expired_row clk) (jobs s)\<rparr>) = Some row"
      and t: "jobs t = map (granted_row clk w n (jb_id row) \<circ> expired_row clk) (jobs s)"
    let ?r = "granted_row clk w n (jb_id row) (expired_row clk r)"
    have in_t: "?r \<in> set (jobs t)" using assms(3) t by auto
    have row: "row \<in> set (map (expired_row clk) (jobs s))" "leasable (clk 3) (clk 4) (clk 5) row"
      using next_job_Some [OF sel] by auto
    show ?thesis
    proof (cases "jb_id r = jb_id row")
      case False
      then show ?thesis using exp in_t by (auto simp: granted_row_def)
    next
      case True
      obtain q where q: "q \<in> set (jobs s)" "row = expired_row clk q" using row(1) by auto
      then have "row = expired_row clk r" using True unique_onD [OF assms(2,3), of q] by auto
      then have "expired_row clk r = r" using row(2)
        by (auto simp: expired_row_def leasable_def waiting_def split: if_splits)
      then have "row_evolves r ?r"
        using row(2) \<open>row = expired_row clk r\<close>
        by (auto simp: row_evolves_def granted_row_def same_job_def leasable_def waiting_def)
      then show ?thesis using in_t by blast
    qed
  qed (use assms(3) exp evolves_refl in auto)
qed

lemma cancel_evolves:
  assumes "list_all2 cancels T T'" and "r \<in> set T"
  shows "\<exists>r' \<in> set T'. row_evolves r r'"
proof -
  obtain r' where r': "r' \<in> set T'" "cancels r r'"
    using assms by (metis in_set_conv_nth list_all2_conv_all_nth)
  have "row_evolves r (cancelled_row a b r)" if "waiting r" for a b
    using that by (auto simp: cancelled_row_def waiting_def row_evolves_def same_job_def)
  then have "row_evolves r r'" using r'(2) by (auto simp: cancels_def row_evolves_def)
  then show ?thesis using r'(1) by blast
qed

lemma renew_evolves:
  assumes "r \<in> set (jobs s)" and "renewLease clk c n s = (res, t)"
  shows "\<exists>r' \<in> set (jobs t). row_evolves r r'"
proof (cases "lease_missing c")
  case True
  then show ?thesis using assms evolves_refl by (simp add: renewLease_def retE_def)
next
  case False
  show ?thesis
    by (rule evolves_held [OF assms(1), of c "clk 2"
          "\<lambda>r. r\<lparr>jb_leased_until := Some (toISOString (clk 0 + n * 1000)),
             jb_updated_at := nowIso (clk 1)\<rparr>" "Inr (count_where (holds_lease c (clk 2)) (jobs s))"])
      (use assms(2) False in \<open>auto simp: renewLease_def bindE_def retE_def update_jobs_def same_job_def
          simp del: One_nat_def\<close>)
qed

lemma complete_evolves:
  assumes "r \<in> set (jobs s)" and "complete clk c s = (res, t)"
  shows "\<exists>r' \<in> set (jobs t). row_evolves r r'"
proof (cases "lease_missing c")
  case True
  then show ?thesis using assms evolves_refl by (simp add: complete_def throwE_def)
next
  case False
  show ?thesis
    by (rule evolves_held [OF assms(1), of c "clk 2"
          "\<lambda>r. r\<lparr>jb_status := job_succeeded, jb_leased_by := None, jb_leased_until := None,
             jb_last_error := None, jb_payload := redact_screenshot (clk 0) r,
             jb_updated_at := nowIso (clk 1)\<rparr>" "Inr (count_where (holds_lease c (clk 2)) (jobs s))"])
      (use assms(2) False in \<open>auto simp: complete_def bindE_def retE_def throwE_def update_jobs_def
          same_job_def simp del: One_nat_def split: if_splits\<close>)
qed

lemma fail_evolves:
  assumes "r \<in> set (jobs s)" and "fail clk c e s = (res, t)"
  shows "\<exists>r' \<in> set (jobs t). row_evolves r r'"
proof (cases "lease_missing c")
  case True
  then show ?thesis using assms evolves_refl by (simp add: fail_def throwE_def)
next
  case False
  let ?terminal = "job_attemptCount c \<ge> job_maxAttempts c"
  show ?thesis
    by (rule evolves_held [OF assms(1), of c "clk 3"
          "\<lambda>r. r\<lparr>jb_status := (if ?terminal then job_dead_letter else job_retryable_failed),
             jb_available_at := toISOString (clk 0 + retry_delay (job_attemptCount c) * 1000),
             jb_leased_by := None, jb_leased_until := None,
             jb_last_error := Some (take 500 (error_message e)),
             jb_payload := (if ?terminal then redact_screenshot (clk 1) r else jb_payload r),
             jb_updated_at := nowIso (clk 2)\<rparr>" "Inr (count_where (holds_lease c (clk 3)) (jobs s))"])
      (use assms(2) False in \<open>auto simp: fail_def Let_def bindE_def retE_def throwE_def update_jobs_def
          same_job_def simp del: One_nat_def split: if_splits\<close>)
qed

text \<open>C6. The life cycle of a job. A step of the system moves the status of a job along the state
  machine below or leaves it, never removes a job, and leaves the row of a job that succeeded or
  became a dead letter exactly as it is.\<close>

theorem job_step_lifecycle:
  assumes "job_reachable sha \<sigma>" and "job_step sha \<sigma> \<sigma>'" and "r \<in> set (jobs (sys_store \<sigma>))"
  shows "\<exists>r' \<in> set (jobs (sys_store \<sigma>')). r' = r \<or>
     jb_id r' = jb_id r \<and> job_key r' = job_key r \<and> may_become (jb_status r) (jb_status r')"
proof -
  note D = system_okD [OF system_ok_reachable [OF assms(1)]]
  from assms(2) have "\<exists>r' \<in> set (jobs (sys_store \<sigma>')). row_evolves r r'"
  proof cases
    case (step_enqueue clk now' input res t)
    from enqueue_cases [OF D(1) step_enqueue(3)] show ?thesis
    proof (elim disjE conjE)
      assume "jobs t = update_where (\<lambda>r. job_key r = job_key (enqueue_row sha (clk 0) input) \<and>
         jb_status r = job_cancelled)
       (\<lambda>r. r\<lparr>jb_payload := enq_payload input, jb_status := job_queued,
          jb_priority := nullish (enq_priority input) 100, jb_attempt_count := 0,
          jb_max_attempts := nullish (enq_maxAttempts input) 5,
          jb_available_at := nullish (enq_availableAt input) (nowIso (clk 0)),
          jb_leased_until := None, jb_leased_by := None, jb_last_error := None,
          jb_updated_at := nowIso (clk 0)\<rparr>) (jobs (sys_store \<sigma>))"
      moreover have "sys_store \<sigma>' = t" using step_enqueue(1) by simp
      ultimately show ?thesis using assms(3)
        by (auto intro!: update_where_evolves) (simp add: row_evolves_def same_job_def)
    qed (use step_enqueue(1) assms(3) in \<open>auto simp: row_evolves_def\<close>)
  next
    case (step_cancel clk now' request res' t)
    then show ?thesis
      using cancel_evolves [OF conjunct1 [OF cancelPending_table [OF D(1)]] assms(3)] by simp
  next
    case (step_lease clk now' w n lease t)
    then show ?thesis using lease_evolves [OF D(1,3) assms(3)] by simp
  next
    case (step_renew clk now' k c n lease t)
    then show ?thesis using renew_evolves [OF assms(3)] by simp
  next
    case (step_complete clk now' k c outcome t)
    then show ?thesis using complete_evolves [OF assms(3)] by simp
  next
    case (step_fail clk now' k c e outcome t)
    then show ?thesis using fail_evolves [OF assms(3)] by simp
  qed
  then show ?thesis by (auto simp: row_evolves_def same_job_def)
qed

text \<open>C7. Retries. A failed attempt that is not the last one puts the job back: it becomes
  leasable at every later time from the end of its delay on, which is at least one second and at
  most 900 seconds, and its last error has at most 500 characters.\<close>

theorem fail_retries:
  assumes "db_ok s" and "r \<in> set (jobs s)" and "holds_lease job (clk 3) r" and "\<not> lease_missing job"
    and "0 \<le> job_attemptCount job" and "job_attemptCount job < job_maxAttempts job"
    and "iso_range (clk 0 + 900000)" and "iso_range (clk 0)" and "iso_range now"
    and "clk 0 + retry_delay (job_attemptCount job) * 1000 \<le> now"
  shows "\<exists>t r'. fail clk job e s = (Inr (), t) \<and> find_job (job_id job) t = Some r' \<and>
     jb_status r' = job_retryable_failed \<and> leasable now a b r' \<and>
     (\<exists>m. jb_last_error r' = Some m \<and> length m \<le> 500) \<and>
     1 \<le> retry_delay (job_attemptCount job) \<and> retry_delay (job_attemptCount job) \<le> 900"
proof -
  let ?f = "\<lambda>r. r\<lparr>jb_status := job_retryable_failed,
      jb_available_at := toISOString (clk 0 + retry_delay (job_attemptCount job) * 1000),
      jb_leased_by := None, jb_leased_until := None,
      jb_last_error := Some (take 500 (error_message e)), jb_updated_at := nowIso (clk 2)\<rparr>"
  let ?t = "s\<lparr>jobs := update_where (holds_lease job (clk 3)) ?f (jobs s)\<rparr>"
  have delay: "1 \<le> retry_delay (job_attemptCount job)" "retry_delay (job_attemptCount job) \<le> 900"
    by (simp_all add: retry_delay_def)
  have iso: "iso_range (clk 0 + retry_delay (job_attemptCount job) * 1000)"
    using iso_range_between [OF assms(8,7)] delay by simp
  have "fail clk job e s = (Inr (), ?t)"
    using assms(2-6) by (auto simp: fail_def bindE_def update_jobs_def retE_def throwE_def count_where_0)
  moreover have "find_job (job_id job) ?t = Some (?f r)"
  proof -
    have "unique_on jb_id (jobs s)" using assms(1) by (simp add: db_ok_defs)
    then have "select_first (\<lambda>q. jb_id q = job_id job) (jobs s) = Some r"
      using assms(2,3) by (intro select_first_unique [where k = jb_id]) (auto simp: holds_lease_def)
    then show ?thesis using assms(3) by (simp add: find_job_def select_first_update_where)
  qed
  moreover have "leasable now a b (?f r)"
    using iso assms(9,10) by (simp add: leasable_def waiting_def nowIso_def)
  ultimately show ?thesis using delay by (intro exI [of _ ?t] exI [of _ "?f r"]) simp
qed

section \<open>The properties on the concrete run\<close>

theorem fencing_witness:
  "complete (\<lambda>_. 71000) demo_copy1 (sys_store demo3)
     = (Inl (Error ''Job lease is no longer valid''), sys_store demo3)"
proof -
  obtain t where "complete (\<lambda>_. 71000) demo_copy2 (sys_store demo3) = (Inr (), t)"
    using demo3_complete by blast
  from fencing [OF demo3_reachable _ _ _ _ this, of 1 0 demo_copy1 "\<lambda>_. 71000"]
  show ?thesis by (simp add: demo3_state demo_copy1_def demo_copy2_def job_of_row_def)
qed

lemma demo3_db: "db_ok (sys_store demo3)" "transactionDepth (sys_store demo3) = 0"
  "demo_row2 \<in> set (jobs (sys_store demo3))"
  using system_okD(1,2) [OF system_ok_reachable [OF demo3_reachable]] by (simp_all add: demo3_state)

text \<open>A second job is enqueued while the first worker holds the first one.\<close>

definition demo_input2 :: EnqueueJob where
  "demo_input2 = demo_input\<lparr>enq_type := ''sync'', enq_idempotencyKey := ''k2''\<rparr>"

definition demo5 :: job_system where
  "demo5 = demo2\<lparr>sys_store := snd (enqueue id (\<lambda>_. 3000) demo_input2 (sys_store demo2)), sys_time := 3000\<rparr>"

lemma demo5_reachable: "job_reachable id demo5"
proof -
  have clk: "clock_runs demo2 (\<lambda>_. 3000) 3000"
    by (rule demo_clock) (simp_all add: demo2_def iso_range_def)
  have "job_step id demo2 demo5"
    unfolding demo5_def by (rule step_enqueue [OF clk, where input = demo_input2
        and res = "fst (enqueue id (\<lambda>_. 3000) demo_input2 (sys_store demo2))"]) simp
  then show ?thesis by (rule reach_step [OF demo2_reachable])
qed

lemma demo5_state: "jobs (sys_store demo5) = [demo_row1, enqueue_row id 3000 demo_input2]"
  "sys_leases demo5 = [(0, demo_copy1)]"
proof -
  have "transactionDepth (sys_store demo2) = 0"
    using system_okD(1) [OF system_ok_reachable [OF demo2_reachable]] .
  then show "jobs (sys_store demo5) = [demo_row1, enqueue_row id 3000 demo_input2]"
    using enqueue_new [of "sys_store demo2" id "\<lambda>_. 3000" demo_input2]
    by (auto simp: demo5_def demo2_state granted_row_def job_key_def demo_row_defs demo_input2_def
        enqueue_id_def stableId_def leased_row_def)
qed (simp add: demo5_def demo2_state)

theorem lease_exclusive_witness:
  "\<exists>j t. leaseNext (\<lambda>_. 4000) ''w2'' 60 (sys_store demo5) = (Inr (Some j), t) \<and>
     job_id j \<noteq> job_id demo_copy1"
proof -
  note D = system_okD(1,2) [OF system_ok_reachable [OF demo5_reachable]]
  let ?r = "enqueue_row id 3000 demo_input2"
  have "expired_row (\<lambda>_. 4000) ?r = ?r" "leasable 4000 4000 4000 ?r"
    by (simp_all add: expired_row_def leasable_def waiting_def enqueue_row_def demo_input2_def
        demo_input_def nowIso_def iso_range_def)
  then obtain j t where run: "leaseNext (\<lambda>_. 4000) ''w2'' 60 (sys_store demo5) = (Inr (Some j), t)"
    using leaseNext_total [OF D(2,1), of ?r "\<lambda>_. 4000" "''w2''" 60] by (auto simp: demo5_state)
  have clk: "clock_runs demo5 (\<lambda>_. 4000) 4000"
    by (rule demo_clock) (simp_all add: demo5_def iso_range_def)
  have copy: "(0, demo_copy1) \<in> set (sys_leases demo5)"
    "job_leasedUntil demo_copy1 = Some (toISOString 62000)"
    by (simp_all add: demo5_state demo_copy1_def job_of_row_def text_or_undefined_def)
  show ?thesis
    using run lease_exclusive [OF demo5_reachable clk copy _ _ run] by (simp add: iso_range_def)
qed

theorem attempts_bounded_witness:
  "jb_attempt_count demo_row2 = 2 \<and> jb_attempt_count demo_row2 \<le> max 1 (jb_max_attempts demo_row2)"
  using attempts_bounded [OF demo3_reachable demo3_db(3)]
  by (simp add: granted_row_def demo_row_defs)

text \<open>The same run with the job completed.\<close>

definition demo4 :: job_system where
  "demo4 = demo3\<lparr>sys_store := snd (complete (\<lambda>_. 71000) demo_copy2 (sys_store demo3)),
     sys_time := 71000, sys_leases := drop_lease 1 (sys_leases demo3)\<rparr>"

lemma demo4_step: "job_step id demo3 demo4"
  unfolding demo4_def
proof (rule step_complete [where clk = "\<lambda>_. 71000" and c = demo_copy2
      and outcome = "fst (complete (\<lambda>_. 71000) demo_copy2 (sys_store demo3))"])
  show "clock_runs demo3 (\<lambda>_. 71000) 71000"
    by (rule demo_clock) (simp_all add: demo3_def iso_range_def)
qed (simp_all add: demo3_state)

lemma demo4_jobs: "\<exists>r. jobs (sys_store demo4) = [r] \<and> jb_status r = job_succeeded \<and>
    jb_type r = ''ingest.screenshot''"
  by (simp add: demo4_def complete_def bindE_def update_jobs_def demo3_state lease_missing_def
      demo_copy2_def job_of_row_def text_or_undefined_def count_where_def holds_lease_def
      granted_row_def nowIso_def iso_range_def retE_def update_where_def demo_row_defs)

theorem finished_screenshots_redacted_witness:
  "\<exists>r now. jobs (sys_store demo4) = [r] \<and> jb_status r = job_succeeded \<and>
     jb_payload r = redactedPayload now"
proof -
  obtain r where r: "jobs (sys_store demo4) = [r]" "jb_status r = job_succeeded"
    "jb_type r = ''ingest.screenshot''" using demo4_jobs by blast
  have "job_reachable id demo4" using reach_step [OF demo3_reachable demo4_step] .
  from finished_screenshots_redacted [OF this, of r] r show ?thesis by auto
qed

theorem leaseNext_schedules_witness:
  "db_ok (sys_store demo1) \<and> (\<exists>res t. leaseNext (\<lambda>_. 2000) ''w1'' 60 (sys_store demo1) = (Inr (Some res), t) \<and>
     job_id res = jb_id demo_row)"
proof -
  have ok: "db_ok (sys_store demo1)" "transactionDepth (sys_store demo1) = 0"
    using system_okD(1,2) [OF system_ok_reachable [OF demo1_reachable]] by simp_all
  have "expired_row (\<lambda>_. 2000) demo_row = demo_row" "leasable 2000 2000 2000 demo_row"
    by (simp_all add: expired_row_def leasable_def waiting_def demo_row_defs nowIso_def iso_range_def)
  then show ?thesis
    using ok leaseNext_schedules [OF ok, of "\<lambda>_. 2000" "''w1''" 60]
    by (auto simp: demo1_state Let_def job_of_row_def split: option.splits)
qed

lemma enqueue_idempotent_witness:
  "enqueue id (\<lambda>_. 90000) demo_input (sys_store demo3) = (Inr (job_of_row demo_row2), sys_store demo3)"
proof (rule enqueue_idempotent [OF demo3_db])
  have "job_key demo_row2 = job_key demo_row" by (simp add: granted_row_def)
  then show "job_key demo_row2 =
      (enq_tenantId demo_input, enq_type demo_input, enq_idempotencyKey demo_input)"
    by (simp add: job_key_def demo_row_def enqueue_row_def)
qed (simp_all add: granted_row_def demo_row_def enqueue_row_def)

theorem job_step_lifecycle_witness:
  "\<exists>r' \<in> set (jobs (sys_store demo4)). r' = demo_row2 \<or> jb_id r' = jb_id demo_row2 \<and>
     job_key r' = job_key demo_row2 \<and> may_become (jb_status demo_row2) (jb_status r')"
  by (rule job_step_lifecycle [OF demo3_reachable demo4_step demo3_db(3)])

theorem fail_retries_witness:
  "\<exists>t r'. fail (\<lambda>_. 71000) demo_copy2 (Error ''boom'') (sys_store demo3) = (Inr (), t) \<and>
     find_job (job_id demo_copy2) t = Some r' \<and> leasable 75000 75000 75000 r'"
proof -
  have held: "holds_lease demo_copy2 71000 demo_row2" "\<not> lease_missing demo_copy2"
    "0 \<le> job_attemptCount demo_copy2" "job_attemptCount demo_copy2 < job_maxAttempts demo_copy2"
    "retry_delay (job_attemptCount demo_copy2) = 4"
    by (simp_all add: holds_lease_def lease_missing_def demo_copy2_def job_of_row_def
        text_or_undefined_def granted_row_def nowIso_def iso_range_def demo_row_defs retry_delay_def)
  show ?thesis
    using fail_retries [OF demo3_db(1,3), of demo_copy2 "\<lambda>_. 71000" 75000 "Error ''boom''" 75000 75000]
      held by (simp add: iso_range_def) blast
qed

end
