(* ===== verification/PgQueue.thy ===== *)
theory PgQueue
  imports JobSystem
begin

text \<open>
  The job queue on Postgres: src/src/infrastructure/queue/postgres-job-queue.ts with the functions of the
  migrations that it calls, \<open>app.lease_job\<close> and \<open>app.finish_job\<close> in their last version (008) and
  \<open>app.renew_job_lease\<close> (006). A column of type timestamptz is a number of microseconds. A call has two
  readings of the clock: \<open>now\<close>, the start of its transaction, and \<open>clock\<close>, that of \<open>clock_timestamp()\<close>.
  \<open>locked\<close> are the jobs that other transactions hold locked, which \<open>skip locked\<close> passes over.

  That this queue does what the queue on SQLite does is shown in PgRefines.
\<close>

section \<open>The platform\<close>

text \<open>What the driver and the server do with times: the driver reads a timestamptz as a Date (milliseconds),
  the server reads a text as a timestamptz, and writes one into JSON.\<close>

record pg_platform =
  pp_date :: "int \<Rightarrow> int"
  pp_timestamptz :: "string \<Rightarrow> int option"
  pp_json_time :: "int \<Rightarrow> string"

text \<open>Whole milliseconds are read exactly, in both directions.\<close>

definition platform_ok :: "pg_platform \<Rightarrow> bool" where
  "platform_ok pl \<longleftrightarrow> (\<forall>t. pp_date pl (1000 * t) = t) \<and>
     (\<forall>t. iso_range t \<longrightarrow> pp_timestamptz pl (toISOString t) = Some (1000 * t))"

text \<open>A platform that reads and writes ISO texts.\<close>

definition demo_platform :: pg_platform where
  "demo_platform = \<lparr>pp_date = (\<lambda>m. m div 1000), pp_timestamptz = (\<lambda>x. map_option (\<lambda>t. 1000 * t) (Date_parse (\<lambda>_. None) x)),
     pp_json_time = (\<lambda>m. toISOString (m div 1000))\<rparr>"

lemma demo_platform_ok: "platform_ok demo_platform"
  by (simp add: platform_ok_def demo_platform_def)

text \<open>\<open>begin\<close>, the statements, \<open>commit\<close>; a throw rolls back. A single statement is its own transaction.\<close>

definition pg_transaction :: "('e, 's, 'a) op \<Rightarrow> ('e, 's, 'a) op" where
  "pg_transaction m s = (case m s of (Inl e, _) \<Rightarrow> (Inl e, s) | (Inr x, t) \<Rightarrow> (Inr x, t))"

definition date_text :: "pg_platform \<Rightarrow> int \<Rightarrow> string" where
  "date_text pl t = toISOString (pp_date pl t)"

text \<open>A text parameter for a column of type timestamptz.\<close>

definition time_param :: "pg_platform \<Rightarrow> string \<Rightarrow> (error, 's, int) op" where
  "time_param pl x = (case pp_timestamptz pl x of Some t \<Rightarrow> retE t
     | None \<Rightarrow> throwE (Error (''invalid input syntax for type timestamp with time zone'')))"

section \<open>Tables\<close>

record pg_job =
  pj_id :: string
  pj_tenant_id :: string
  pj_type :: string
  pj_idempotency_key :: string
  pj_payload :: json
  pj_status :: JobStatus
  pj_priority :: int
  pj_attempt_count :: int
  pj_max_attempts :: int
  pj_available_at :: int
  pj_leased_until :: "int option"
  pj_leased_by :: "string option"
  pj_last_error :: "string option"
  pj_created_at :: int
  pj_updated_at :: int

record pg_queue =
  pq_tenants :: "string list"
  pq_jobs :: "pg_job list"
  pq_states :: "(string \<times> int option) list"

type_synonym 'a pg_queue_op = "(error, pg_queue, 'a) op"

definition pg_job_key :: "pg_job \<Rightarrow> string \<times> string \<times> string" where
  "pg_job_key r = (pj_tenant_id r, pj_type r, pj_idempotency_key r)"

text \<open>Row-level security: a statement sees the rows of the tenant that \<open>set_config\<close> named.\<close>

definition pg_visible :: "string \<Rightarrow> pg_job \<Rightarrow> bool" where
  "pg_visible tenant r \<longleftrightarrow> tenant \<noteq> [] \<and> pj_tenant_id r = tenant"

definition pg_waiting :: "pg_job \<Rightarrow> bool" where
  "pg_waiting r \<longleftrightarrow> pj_status r = job_queued \<or> pj_status r = job_retryable_failed"

definition map_row :: "pg_platform \<Rightarrow> pg_job \<Rightarrow> Job" where
  "map_row pl row = \<lparr>job_id = pj_id row, job_tenantId = pj_tenant_id row, job_type = pj_type row,
     job_idempotencyKey = pj_idempotency_key row, job_payload = pj_payload row, job_status = pj_status row,
     job_attemptCount = pj_attempt_count row, job_maxAttempts = pj_max_attempts row,
     job_availableAt = date_text pl (pj_available_at row), job_leasedBy = pj_leased_by row,
     job_leasedUntil = map_option (date_text pl) (pj_leased_until row)\<rparr>"

definition pg_redactedPayload :: "pg_platform \<Rightarrow> int \<Rightarrow> json" where
  "pg_redactedPayload pl now = JObj [(''retentionRedacted'', JBool True),
     (''redactedAt'', JStr (pp_json_time pl now)), (''reason'', JStr ''terminal-screenshot-job'')]"

definition pg_redact :: "pg_platform \<Rightarrow> int \<Rightarrow> pg_job \<Rightarrow> json" where
  "pg_redact pl now r = (if pj_type r = ''ingest.screenshot'' then pg_redactedPayload pl now else pj_payload r)"

definition pg_update_jobs :: "(pg_job \<Rightarrow> bool) \<Rightarrow> (pg_job \<Rightarrow> pg_job) \<Rightarrow> nat pg_queue_op" where
  "pg_update_jobs p f s = (Inr (count_where p (pq_jobs s)), s\<lparr>pq_jobs := update_where p f (pq_jobs s)\<rparr>)"

section \<open>Enqueueing and cancelling\<close>

definition pg_new_row :: "(string \<Rightarrow> string) \<Rightarrow> int \<Rightarrow> EnqueueJob \<Rightarrow> int \<Rightarrow> pg_job" where
  "pg_new_row sha now input available = \<lparr>pj_id = enqueue_id sha input, pj_tenant_id = enq_tenantId input,
     pj_type = enq_type input, pj_idempotency_key = enq_idempotencyKey input, pj_payload = enq_payload input,
     pj_status = job_queued, pj_priority = nullish (enq_priority input) 100, pj_attempt_count = 0,
     pj_max_attempts = nullish (enq_maxAttempts input) 5, pj_available_at = available, pj_leased_until = None,
     pj_leased_by = None, pj_last_error = None, pj_created_at = now, pj_updated_at = now\<rparr>"

definition pg_upsert_job :: "int \<Rightarrow> pg_job \<Rightarrow> unit pg_queue_op" where
  "pg_upsert_job now row s =
     (if pj_tenant_id row = [] then (Inl (Error ''new row violates row-level security policy for table jobs''), s)
      else if exists_row (\<lambda>r. pg_job_key r = pg_job_key row) (pq_jobs s) then
        (Inr (), s\<lparr>pq_jobs := update_where (\<lambda>r. pg_job_key r = pg_job_key row \<and> pj_status r = job_cancelled)
           (\<lambda>r. r\<lparr>pj_payload := pj_payload row, pj_status := job_queued, pj_priority := pj_priority row,
              pj_attempt_count := 0, pj_max_attempts := pj_max_attempts row,
              pj_available_at := pj_available_at row, pj_leased_until := None, pj_leased_by := None,
              pj_last_error := None, pj_updated_at := now\<rparr>) (pq_jobs s)\<rparr>)
      else if exists_row (\<lambda>r. pj_id r = pj_id row) (pq_jobs s) then
        (Inl (SqlError (UniqueViolation ''jobs_pkey'')), s)
      else if pj_tenant_id row \<notin> set (pq_tenants s) then (Inl (SqlError (ForeignKeyViolation ''jobs'')), s)
      else (Inr (), s\<lparr>pq_jobs := pq_jobs s @ [row]\<rparr>))"

text \<open>\<open>date\<close> is the reading of the process for \<open>new Date()\<close>. The row that is read back after the insertion is
  mapped after the commit.\<close>

definition pg_enqueue :: "pg_platform \<Rightarrow> (string \<Rightarrow> string) \<Rightarrow> int \<Rightarrow> int \<Rightarrow> EnqueueJob \<Rightarrow> Job pg_queue_op" where
  "pg_enqueue pl sha date now input =
     bindE (pg_transaction
       (bindE (time_param pl (nullish (enq_availableAt input) (toISOString date))) (\<lambda>available.
        bindE (pg_upsert_job now (pg_new_row sha now input available)) (\<lambda>_.
          getE (\<lambda>s. select_first (\<lambda>r. pj_id r = enqueue_id sha input \<and> pg_visible (enq_tenantId input) r)
            (pq_jobs s)))))) (\<lambda>found.
       case found of None \<Rightarrow> throwE (TypeError ''Cannot read properties of undefined'')
       | Some row \<Rightarrow> retE (map_row pl row))"

definition pg_cancelPending :: "int \<Rightarrow> CancelPendingJobs \<Rightarrow> nat pg_queue_op" where
  "pg_cancelPending now input = pg_transaction (pg_update_jobs
     (\<lambda>r. pg_visible (can_tenantId input) r \<and> pj_type r = can_type input \<and> pg_waiting r \<and>
        payload_matches (can_payload input) (pj_payload r))
     (\<lambda>r. r\<lparr>pj_status := job_cancelled, pj_leased_by := None, pj_leased_until := None,
        pj_last_error := Some ''Cancelled by connector revocation'', pj_updated_at := now\<rparr>))"

section \<open>Leasing\<close>

definition pg_before :: "int option \<Rightarrow> int \<Rightarrow> bool" where
  "pg_before x now = (case x of None \<Rightarrow> False | Some v \<Rightarrow> v < now)"

definition pg_expire :: "pg_platform \<Rightarrow> int \<Rightarrow> nat pg_queue_op" where
  "pg_expire pl now = pg_update_jobs
     (\<lambda>r. pj_status r = job_running \<and> pg_before (pj_leased_until r) now \<and> pj_attempt_count r \<ge> pj_max_attempts r)
     (\<lambda>r. r\<lparr>pj_status := job_dead_letter, pj_leased_by := None, pj_leased_until := None,
        pj_last_error := Some ''Worker lease expired after final attempt'', pj_payload := pg_redact pl now r,
        pj_updated_at := now\<rparr>)"

definition pg_leasable :: "int \<Rightarrow> pg_job \<Rightarrow> bool" where
  "pg_leasable now r \<longleftrightarrow>
     pg_waiting r \<and> pj_available_at r \<le> now \<and> (pj_leased_until r = None \<or> pg_before (pj_leased_until r) now) \<or>
     pj_status r = job_running \<and> pg_before (pj_leased_until r) now \<and> pj_attempt_count r < pj_max_attempts r"

definition pg_priority_key :: "pg_job \<Rightarrow> int \<times> int" where
  "pg_priority_key r = (pj_priority r, pj_created_at r)"

text \<open>\<open>row_number() over(partition by tenant_id order by priority,created_at) = 1\<close>; of equals the first row.\<close>

definition pg_tenant_head :: "(pg_job \<Rightarrow> bool) \<Rightarrow> pg_job list \<Rightarrow> pg_job \<Rightarrow> bool" where
  "pg_tenant_head p t r \<longleftrightarrow>
     (case first_by pg_priority_key (filter (\<lambda>q. p q \<and> pj_tenant_id q = pj_tenant_id r) t) of
        None \<Rightarrow> False | Some q \<Rightarrow> pj_id q = pj_id r)"

definition pg_last_leased :: "pg_queue \<Rightarrow> string \<Rightarrow> int" where
  "pg_last_leased s tenant = (case map_of (pq_states s) tenant of Some (Some t) \<Rightarrow> t | _ \<Rightarrow> 0)"

definition pg_lease_key :: "pg_queue \<Rightarrow> pg_job \<Rightarrow> int \<times> int \<times> int" where
  "pg_lease_key s r = (pg_last_leased s (pj_tenant_id r), pg_priority_key r)"

definition pg_candidate :: "string list \<Rightarrow> int \<Rightarrow> pg_queue \<Rightarrow> pg_job option" where
  "pg_candidate locked now s = first_by (pg_lease_key s)
     (filter (\<lambda>r. pg_leasable now r \<and> pg_tenant_head (pg_leasable now) (pq_jobs s) r \<and> pj_id r \<notin> set locked)
       (pq_jobs s))"

definition pg_touch_tenant :: "string \<Rightarrow> int \<Rightarrow> unit pg_queue_op" where
  "pg_touch_tenant tenant now s =
     (if tenant \<notin> set (pq_tenants s) then (Inl (SqlError (ForeignKeyViolation ''tenant_queue_state'')), s)
      else if tenant \<in> fst ` set (pq_states s) then
        (Inr (), s\<lparr>pq_states := map (\<lambda>(t, l). (t, if t = tenant then Some now else l)) (pq_states s)\<rparr>)
      else (Inr (), s\<lparr>pq_states := pq_states s @ [(tenant, Some now)]\<rparr>))"

text \<open>\<open>date_trunc('milliseconds', clock_timestamp()) + make_interval(secs => n)\<close>\<close>

definition pg_lease_end :: "int \<Rightarrow> int \<Rightarrow> int" where
  "pg_lease_end clock n = clock div 1000 * 1000 + n * 1000000"

definition lease_duration_ok :: "int \<Rightarrow> bool" where
  "lease_duration_ok n \<longleftrightarrow> 5 \<le> n \<and> n \<le> 3600"

definition pg_grant :: "string \<Rightarrow> int \<Rightarrow> int \<Rightarrow> pg_job \<Rightarrow> pg_job" where
  "pg_grant worker until now r = r\<lparr>pj_status := job_running, pj_attempt_count := pj_attempt_count r + 1,
     pj_leased_by := Some worker, pj_leased_until := Some until, pj_updated_at := now\<rparr>"

definition lease_job :: "pg_platform \<Rightarrow> string list \<Rightarrow> int \<Rightarrow> int \<Rightarrow> string \<Rightarrow> int \<Rightarrow> pg_job option pg_queue_op" where
  "lease_job pl locked now clock worker n =
     (if \<not> lease_duration_ok n then throwE (Error ''invalid job lease duration'')
      else bindE (pg_expire pl now) (\<lambda>_.
        bindE (getE (pg_candidate locked now)) (\<lambda>found. case found of None \<Rightarrow> retE None
        | Some row \<Rightarrow>
          bindE (pg_update_jobs (\<lambda>r. pj_id r = pj_id row) (pg_grant worker (pg_lease_end clock n) now)) (\<lambda>_.
          bindE (pg_touch_tenant (pj_tenant_id row) now) (\<lambda>_.
            retE (Some (pg_grant worker (pg_lease_end clock n) now row)))))))"

definition pg_leaseNext :: "pg_platform \<Rightarrow> string list \<Rightarrow> int \<Rightarrow> int \<Rightarrow> string \<Rightarrow> int \<Rightarrow> Job option pg_queue_op" where
  "pg_leaseNext pl locked now clock workerId leaseSeconds =
     bindE (pg_transaction (lease_job pl locked now clock workerId leaseSeconds))
       (\<lambda>row. retE (map_option (map_row pl) row))"

definition pg_holds :: "string \<Rightarrow> int option \<Rightarrow> string option \<Rightarrow> int \<Rightarrow> pg_job \<Rightarrow> bool" where
  "pg_holds i until worker now r \<longleftrightarrow> pj_id r = i \<and> pj_status r = job_running \<and> worker \<noteq> None \<and>
     pj_leased_by r = worker \<and> until \<noteq> None \<and> pj_leased_until r = until \<and> now < the until"

definition renew_job_lease :: "int \<Rightarrow> int \<Rightarrow> string \<Rightarrow> int option \<Rightarrow> string option \<Rightarrow> int \<Rightarrow> int option pg_queue_op" where
  "renew_job_lease now clock i until worker n =
     (if \<not> lease_duration_ok n then throwE (Error ''invalid job lease duration'')
      else bindE (pg_update_jobs (pg_holds i until worker now)
          (\<lambda>r. r\<lparr>pj_leased_until := Some (pg_lease_end clock n), pj_updated_at := now\<rparr>)) (\<lambda>changed.
        retE (if changed \<noteq> 0 then Some (pg_lease_end clock n) else None)))"

definition lease_param :: "pg_platform \<Rightarrow> string option \<Rightarrow> (error, 's, int option) op" where
  "lease_param pl x = (case x of None \<Rightarrow> retE None | Some v \<Rightarrow> bindE (time_param pl v) (\<lambda>t. retE (Some t)))"

definition pg_renewLease :: "pg_platform \<Rightarrow> int \<Rightarrow> int \<Rightarrow> Job \<Rightarrow> int \<Rightarrow> Job option pg_queue_op" where
  "pg_renewLease pl now clock job leaseSeconds =
     (if lease_missing job then retE None
      else bindE (pg_transaction (bindE (lease_param pl (job_leasedUntil job)) (\<lambda>until.
          renew_job_lease now clock (job_id job) until (job_leasedBy job) leaseSeconds))) (\<lambda>renewed.
        retE (map_option (\<lambda>t. job\<lparr>job_leasedUntil := Some (date_text pl t)\<rparr>) renewed)))"

text \<open>\<open>x is distinct from y\<close> compares nulls as values; \<open>leased_until <= now()\<close> is not true of a null.\<close>

definition lease_lost :: "int option \<Rightarrow> string option \<Rightarrow> int \<Rightarrow> pg_job \<Rightarrow> bool" where
  "lease_lost until worker now r \<longleftrightarrow> pj_status r \<noteq> job_running \<or> pj_leased_by r \<noteq> worker \<or>
     pj_leased_until r \<noteq> until \<or> (case pj_leased_until r of None \<Rightarrow> False | Some u \<Rightarrow> u \<le> now)"

definition succeeded_row :: "pg_platform \<Rightarrow> int \<Rightarrow> pg_job \<Rightarrow> pg_job" where
  "succeeded_row pl now r = r\<lparr>pj_status := job_succeeded, pj_leased_by := None, pj_leased_until := None,
     pj_last_error := None, pj_payload := pg_redact pl now r, pj_updated_at := now\<rparr>"

definition dead_row :: "pg_platform \<Rightarrow> int \<Rightarrow> string \<Rightarrow> pg_job \<Rightarrow> pg_job" where
  "dead_row pl now failure r = r\<lparr>pj_status := job_dead_letter, pj_leased_by := None, pj_leased_until := None,
     pj_last_error := Some (take 500 failure), pj_payload := pg_redact pl now r, pj_updated_at := now\<rparr>"

definition retry_row :: "int \<Rightarrow> string \<Rightarrow> int \<Rightarrow> pg_job \<Rightarrow> pg_job" where
  "retry_row now failure attempts r = r\<lparr>pj_status := job_retryable_failed,
     pj_available_at := now + retry_delay attempts * 1000000, pj_leased_by := None, pj_leased_until := None,
     pj_last_error := Some (take 500 failure), pj_updated_at := now\<rparr>"

definition finish_job ::
    "pg_platform \<Rightarrow> int \<Rightarrow> string \<Rightarrow> int option \<Rightarrow> string option \<Rightarrow> string option \<Rightarrow> unit pg_queue_op" where
  "finish_job pl now i until worker failure =
     bindE (getE (\<lambda>s. select_first (\<lambda>r. pj_id r = i) (pq_jobs s))) (\<lambda>found. case found of
       None \<Rightarrow> throwE (Error ''job lease is no longer valid'')
     | Some row \<Rightarrow>
         if lease_lost until worker now row then throwE (Error ''job lease is no longer valid'')
         else bindE (pg_update_jobs (\<lambda>r. pj_id r = i) (case failure of
             None \<Rightarrow> succeeded_row pl now
           | Some message \<Rightarrow> if pj_attempt_count row \<ge> pj_max_attempts row then dead_row pl now message
               else retry_row now message (pj_attempt_count row))) (\<lambda>_. retE ()))"

definition pg_complete :: "pg_platform \<Rightarrow> int \<Rightarrow> Job \<Rightarrow> unit pg_queue_op" where
  "pg_complete pl now job = pg_transaction (bindE (lease_param pl (job_leasedUntil job)) (\<lambda>until.
     finish_job pl now (job_id job) until (job_leasedBy job) None))"

definition pg_fail :: "pg_platform \<Rightarrow> int \<Rightarrow> Job \<Rightarrow> error \<Rightarrow> unit pg_queue_op" where
  "pg_fail pl now job err = pg_transaction (bindE (lease_param pl (job_leasedUntil job)) (\<lambda>until.
     finish_job pl now (job_id job) until (job_leasedBy job) (Some (take 500 (error_message err)))))"

section \<open>Statistics\<close>

definition pg_stats :: "int \<Rightarrow> string \<Rightarrow> QueueStats pg_queue_op" where
  "pg_stats now tenantId = getE (\<lambda>s.
     let mine = select_where (pg_visible tenantId) (pq_jobs s);
         count = (\<lambda>st. count_where (\<lambda>r. pj_status r = st) mine);
         ready = select_where (\<lambda>r. pg_waiting r \<and> pj_available_at r \<le> now) mine
     in \<lparr>stat_queued = count job_queued, stat_running = count job_running,
         stat_retryableFailed = count job_retryable_failed, stat_deadLetter = count job_dead_letter,
         stat_cancelled = count job_cancelled,
         stat_oldestReadyAgeSeconds = (case first_by (\<lambda>x. x) (map pj_available_at ready) of None \<Rightarrow> Some 0
           | Some a \<Rightarrow> Some (max 0 (of_int (now - a) / 1000000)))\<rparr>)"

end
