(* ===== verification/PgRefines.thy ===== *)
theory PgRefines
  imports PgQueue
begin

text \<open>
  The queue on Postgres refines the queue on SQLite: \<open>queue_rel\<close> relates their tables, and from related
  tables a call with the same clock gives related results and related tables (\<open>call_simulated\<close>), so any
  sequence of calls does (\<open>postgres_queue_refines_sqlite\<close>). What is not compared: the time of redaction inside
  a redacted payload, which the two servers write in different formats, the time of availability of a job that
  will not run again, and the time of the last update. The last section shows for any clock with microseconds
  that a worker can settle the job it leased (\<open>pg_lease_settles\<close>).
\<close>

section \<open>Related lists\<close>

lemma update_rel:
  assumes "list_all2 R xs ys"
    and "\<And>x y. R x y \<Longrightarrow> P x \<longleftrightarrow> Q y"
    and "\<And>x y. y \<in> set ys \<Longrightarrow> R x y \<Longrightarrow> Q y \<Longrightarrow> R (f x) (g y)"
  shows "list_all2 R (update_where P f xs) (update_where Q g ys) \<and> count_where P xs = count_where Q ys"
  using assms
proof (induction xs ys rule: list_all2_induct)
  case Nil
  then show ?case by (simp add: update_where_def count_where_def)
next
  case (Cons x xs y ys)
  then have "list_all2 R (update_where P f xs) (update_where Q g ys) \<and> count_where P xs = count_where Q ys"
    by simp
  then show ?case using Cons by (auto simp: update_where_def count_where_def)
qed

lemma filter_rel:
  "list_all2 R xs ys \<Longrightarrow> (\<And>x y. R x y \<Longrightarrow> P x \<longleftrightarrow> Q y) \<Longrightarrow> list_all2 R (filter P xs) (filter Q ys)"
  by (induction xs ys rule: list_all2_induct) auto

lemma select_first_rel:
  "list_all2 R xs ys \<Longrightarrow> (\<And>x y. R x y \<Longrightarrow> P x \<longleftrightarrow> Q y) \<Longrightarrow>
     rel_option R (select_first P xs) (select_first Q ys)"
  unfolding select_first_def by (induction xs ys rule: list_all2_induct) auto

lemma exists_row_rel:
  "list_all2 R xs ys \<Longrightarrow> (\<And>x y. R x y \<Longrightarrow> P x \<longleftrightarrow> Q y) \<Longrightarrow> exists_row P xs \<longleftrightarrow> exists_row Q ys"
  unfolding exists_row_def by (induction xs ys rule: list_all2_induct) auto

lemma insort_rel:
  fixes k :: "'a \<Rightarrow> 'k::linorder" and l :: "'b \<Rightarrow> 'm::linorder"
  assumes "list_all2 R xs ys" and "R x y" and "\<And>x y x' y'. R x y \<Longrightarrow> R x' y' \<Longrightarrow> k x \<le> k x' \<longleftrightarrow> l y \<le> l y'"
  shows "list_all2 R (insort_key k x xs) (insort_key l y ys)"
  using assms by (induction xs ys rule: list_all2_induct) auto

lemma first_by_rel:
  fixes k :: "'a \<Rightarrow> 'k::linorder" and l :: "'b \<Rightarrow> 'm::linorder"
  assumes "list_all2 R xs ys" and "\<And>x y x' y'. R x y \<Longrightarrow> R x' y' \<Longrightarrow> k x \<le> k x' \<longleftrightarrow> l y \<le> l y'"
  shows "rel_option R (first_by k xs) (first_by l ys)"
proof -
  have "list_all2 R (sort_key k xs) (sort_key l ys)"
    using assms(1)
  proof (induction xs ys rule: list_all2_induct)
    case (Cons x xs y ys)
    then show ?case using insort_rel [OF Cons.IH Cons.hyps(1) assms(2)] by simp
  qed simp
  then show ?thesis unfolding first_by_def order_by_def by (cases "sort_key k xs") (auto simp: list_all2_Cons1)
qed

section \<open>Related tables\<close>

definition ts_rel :: "int \<Rightarrow> string \<Rightarrow> bool" where
  "ts_rel m x \<longleftrightarrow> (\<exists>t. m = 1000 * t \<and> iso_range t \<and> x = toISOString t)"

lemma ts_rel_less: "ts_rel a x \<Longrightarrow> ts_rel b y \<Longrightarrow> a < b \<longleftrightarrow> x < y"
  by (auto simp: ts_rel_def)

lemma ts_rel_le: "ts_rel a x \<Longrightarrow> ts_rel b y \<Longrightarrow> a \<le> b \<longleftrightarrow> x \<le> y"
  by (auto simp: ts_rel_def)

lemma ts_rel_eq: "ts_rel a x \<Longrightarrow> ts_rel b y \<Longrightarrow> a = b \<longleftrightarrow> x = y"
  by (auto simp: ts_rel_def)

lemma ts_rel_now: "iso_range t \<Longrightarrow> ts_rel (1000 * t) (toISOString t)"
  by (auto simp: ts_rel_def)

lemma ts_rel_nonempty: "ts_rel a x \<Longrightarrow> x \<noteq> []"
  by (auto simp: ts_rel_def toISOString_def)

definition payload_rel :: "pg_platform \<Rightarrow> json \<Rightarrow> json \<Rightarrow> bool" where
  "payload_rel pl v w \<longleftrightarrow> v = w \<or> (\<exists>m t. v = pg_redactedPayload pl m \<and> w = redactedPayload t)"

definition job_rel :: "pg_platform \<Rightarrow> pg_job \<Rightarrow> job_row \<Rightarrow> bool" where
  "job_rel pl p r \<longleftrightarrow> pj_id p = jb_id r \<and> pj_tenant_id p = jb_tenant_id r \<and> pj_type p = jb_type r \<and>
     pj_idempotency_key p = jb_idempotency_key r \<and> pj_status p = jb_status r \<and> pj_priority p = jb_priority r \<and>
     pj_attempt_count p = jb_attempt_count r \<and> pj_max_attempts p = jb_max_attempts r \<and>
     rel_option ts_rel (pj_leased_until p) (jb_leased_until r) \<and> pj_leased_by p = jb_leased_by r \<and>
     jb_leased_by r \<noteq> Some [] \<and> pj_last_error p = jb_last_error r \<and> ts_rel (pj_created_at p) (jb_created_at r) \<and>
     (if finished (jb_status r) then payload_rel pl (pj_payload p) (jb_payload r)
      else pj_payload p = jb_payload r \<and> ts_rel (pj_available_at p) (jb_available_at r))"

definition state_rel :: "string \<times> int option \<Rightarrow> tenant_queue_row \<Rightarrow> bool" where
  "state_rel p q \<longleftrightarrow> fst p = tq_tenant_id q \<and> rel_option ts_rel (snd p) (tq_last_leased_at q)"

definition queue_rel :: "pg_platform \<Rightarrow> pg_queue \<Rightarrow> store \<Rightarrow> bool" where
  "queue_rel pl p s \<longleftrightarrow> list_all2 (job_rel pl) (pq_jobs p) (jobs s) \<and>
     list_all2 state_rel (pq_states p) (tenant_queue_state s) \<and> set (pq_tenants p) = tn_id ` set (tenants s) \<and>
     transactionDepth s = 0 \<and> db_ok s"

definition job_out_rel :: "pg_platform \<Rightarrow> Job \<Rightarrow> Job \<Rightarrow> bool" where
  "job_out_rel pl j k \<longleftrightarrow> j = k \<or> finished (job_status k) \<and> payload_rel pl (job_payload j) (job_payload k) \<and>
     j\<lparr>job_payload := job_payload k, job_availableAt := job_availableAt k\<rparr> = k"

lemma date_text_rel: "platform_ok pl \<Longrightarrow> ts_rel m x \<Longrightarrow> date_text pl m = x"
  by (auto simp: platform_ok_def ts_rel_def date_text_def)

lemma map_row_rel:
  assumes "platform_ok pl" and "job_rel pl p r"
  shows "job_out_rel pl (map_row pl p) (job_of_row r)"
proof -
  have "map_option (date_text pl) (pj_leased_until p) = text_or_undefined (jb_leased_until r)"
    using assms by (cases "pj_leased_until p"; cases "jb_leased_until r")
      (auto simp: job_rel_def text_or_undefined_def date_text_rel dest: ts_rel_nonempty)
  moreover have "pj_leased_by p = text_or_undefined (jb_leased_by r)"
    using assms by (cases "jb_leased_by r") (auto simp: job_rel_def text_or_undefined_def)
  ultimately show ?thesis
    using assms by (auto simp: job_rel_def job_out_rel_def map_row_def job_of_row_def date_text_rel split: if_splits)
qed

lemma job_rel_key: "job_rel pl p r \<Longrightarrow> pg_job_key p = job_key r"
  by (simp add: job_rel_def pg_job_key_def job_key_def)

lemma job_rel_id: "job_rel pl p r \<Longrightarrow> pj_id p = jb_id r"
  by (simp add: job_rel_def)

lemma job_rel_waiting: "job_rel pl p r \<Longrightarrow> pg_waiting p \<longleftrightarrow> waiting r"
  by (simp add: job_rel_def pg_waiting_def waiting_def)

lemma job_rel_available: "job_rel pl p r \<Longrightarrow> waiting r \<Longrightarrow> ts_rel (pj_available_at p) (jb_available_at r)"
  by (auto simp: job_rel_def waiting_def finished_def)

lemma redact_rel: "job_rel pl p r \<Longrightarrow> payload_rel pl (pg_redact pl m p) (redact_screenshot t r)"
  by (auto simp: job_rel_def pg_redact_def redact_screenshot_def payload_rel_def split: if_splits)

lemma job_ids_unique: "queue_rel pl p s \<Longrightarrow> q \<in> set (jobs s) \<Longrightarrow> r \<in> set (jobs s) \<Longrightarrow> jb_id q = jb_id r \<Longrightarrow> q = r"
  by (auto simp: queue_rel_def db_ok_defs dest: unique_onD)

section \<open>Settling and renewing\<close>

text \<open>A time in the format that \<open>toISOString\<close> writes.\<close>

definition iso_text :: "string \<Rightarrow> bool" where
  "iso_text x \<longleftrightarrow> (case Date_parse (\<lambda>_. None) x of None \<Rightarrow> False | Some u \<Rightarrow> iso_range u \<and> x = toISOString u)"

lemma iso_text_iff: "iso_text x \<longleftrightarrow> (\<exists>u. iso_range u \<and> x = toISOString u)"
  by (auto simp: iso_text_def split: option.splits)

text \<open>The copy of a job that a worker presents.\<close>

definition copy_ok :: "Job \<Rightarrow> bool" where
  "copy_ok job \<longleftrightarrow> job_leasedBy job \<noteq> None \<and> job_leasedBy job \<noteq> Some [] \<and>
     (case job_leasedUntil job of None \<Rightarrow> False | Some x \<Rightarrow> iso_text x)"

definition copy_until :: "Job \<Rightarrow> int" where
  "copy_until job = the (Date_parse (\<lambda>_. None) (the (job_leasedUntil job)))"

lemma copy_okD:
  assumes "copy_ok job"
  shows "\<not> lease_missing job \<and> job_leasedUntil job = Some (toISOString (copy_until job)) \<and> iso_range (copy_until job)"
proof -
  obtain u where "job_leasedUntil job = Some (toISOString u)" "iso_range u"
    using assms by (auto simp: copy_ok_def iso_text_iff split: option.splits)
  moreover have "toISOString u \<noteq> []" by (simp add: toISOString_def)
  ultimately show ?thesis using assms by (auto simp: copy_ok_def lease_missing_def copy_until_def)
qed

lemma lease_param_ok:
  "platform_ok pl \<Longrightarrow> iso_range u \<Longrightarrow> lease_param pl (Some (toISOString u)) = retE (Some (1000 * u))"
  by (simp add: lease_param_def time_param_def platform_ok_def)

lemma holds_rel:
  assumes "job_rel pl p r" and "copy_ok job" and "iso_range t"
  shows "pg_holds (job_id job) (Some (1000 * copy_until job)) (job_leasedBy job) (1000 * t) p \<longleftrightarrow> holds_lease job t r"
    and "jb_id r = job_id job \<Longrightarrow>
      lease_lost (Some (1000 * copy_until job)) (job_leasedBy job) (1000 * t) p \<longleftrightarrow> \<not> holds_lease job t r"
proof -
  note c = copy_okD [OF assms(2)]
  have worker: "job_leasedBy job \<noteq> None" using assms(2) by (auto simp: copy_ok_def)
  have u: "ts_rel (1000 * copy_until job) (toISOString (copy_until job))" using c ts_rel_now by blast
  have until: "pj_leased_until p = Some (1000 * copy_until job) \<longleftrightarrow> jb_leased_until r = job_leasedUntil job"
    using assms(1) c u by (cases "pj_leased_until p"; cases "jb_leased_until r") (auto simp: job_rel_def ts_rel_eq)
  have late: "1000 * t < 1000 * copy_until job \<longleftrightarrow> nowIso t < toISOString (copy_until job)"
    using c assms(3) by (simp add: nowIso_def)
  show "pg_holds (job_id job) (Some (1000 * copy_until job)) (job_leasedBy job) (1000 * t) p \<longleftrightarrow> holds_lease job t r"
    using assms(1) until late c by (auto simp: pg_holds_def holds_lease_def job_rel_def worker)
  show "lease_lost (Some (1000 * copy_until job)) (job_leasedBy job) (1000 * t) p \<longleftrightarrow> \<not> holds_lease job t r"
    if "jb_id r = job_id job"
  proof -
    have "(case pj_leased_until p of None \<Rightarrow> False | Some v \<Rightarrow> v \<le> 1000 * t) \<longleftrightarrow>
        \<not> 1000 * t < 1000 * copy_until job" if "pj_leased_until p = Some (1000 * copy_until job)"
      using that by auto
    then show ?thesis using assms(1) until late c that
      by (auto simp: lease_lost_def holds_lease_def job_rel_def)
  qed
qed

lemma holds_lease_id: "holds_lease job t r \<Longrightarrow> jb_id r = job_id job"
  by (simp add: holds_lease_def)

text \<open>What settling does to the tables of SQLite.\<close>

lemma settle_found:
  assumes "queue_rel pl p s" and "r \<in> set (jobs s)" and "holds_lease job t r"
  shows "update_where (holds_lease job t) g (jobs s) = update_where (\<lambda>q. jb_id q = job_id job) g (jobs s) \<and>
    count_where (holds_lease job t) (jobs s) \<noteq> 0"
proof -
  have "holds_lease job t q \<longleftrightarrow> jb_id q = job_id job" if "q \<in> set (jobs s)" for q
    using job_ids_unique [OF assms(1) that assms(2)] assms(3) holds_lease_id by metis
  then show ?thesis using assms(2,3) by (auto simp: update_where_def count_where_0 simp del: length_greater_0_conv)
qed

lemma settle_lost:
  assumes "queue_rel pl p s" and "r \<in> set (jobs s)" and "jb_id r = job_id job" and "\<not> holds_lease job t r"
  shows "update_where (holds_lease job t) g (jobs s) = jobs s \<and> count_where (holds_lease job t) (jobs s) = 0"
proof -
  have "\<not> holds_lease job t q" if "q \<in> set (jobs s)" for q
    using job_ids_unique [OF assms(1) that assms(2)] assms(3,4) holds_lease_id by metis
  then show ?thesis by (auto simp: count_where_0 intro: update_where_idem)
qed

lemma settle_absent:
  assumes "\<forall>r \<in> set (jobs s). jb_id r \<noteq> job_id job"
  shows "update_where (holds_lease job t) g (jobs s) = jobs s \<and> count_where (holds_lease job t) (jobs s) = 0"
  using assms holds_lease_id by (auto simp: count_where_0 intro!: update_where_idem)

lemma queue_rel_jobs:
  assumes "queue_rel pl p s" and "list_all2 (job_rel pl) xs ys" and "db_ok (s\<lparr>jobs := ys\<rparr>)"
  shows "queue_rel pl (p\<lparr>pq_jobs := xs\<rparr>) (s\<lparr>jobs := ys\<rparr>)"
  using assms by (simp add: queue_rel_def)

lemma settle_rel:
  assumes rel: "queue_rel pl p s" and r: "r \<in> set (jobs s)" "holds_lease job t r"
    and row: "\<And>x. job_rel pl x r \<Longrightarrow> job_rel pl (f x) (g r)" and same: "\<And>q. same_job (g q) q"
  shows "queue_rel pl (p\<lparr>pq_jobs := update_where (\<lambda>r. pj_id r = job_id job) f (pq_jobs p)\<rparr>)
    (s\<lparr>jobs := update_where (holds_lease job t) g (jobs s)\<rparr>)"
proof -
  have "list_all2 (job_rel pl) (update_where (\<lambda>r. pj_id r = job_id job) f (pq_jobs p))
      (update_where (\<lambda>r. jb_id r = job_id job) g (jobs s)) \<and>
    count_where (\<lambda>r. pj_id r = job_id job) (pq_jobs p) = count_where (\<lambda>r. jb_id r = job_id job) (jobs s)"
  proof (rule update_rel)
    show "list_all2 (job_rel pl) (pq_jobs p) (jobs s)" using rel by (simp add: queue_rel_def)
    fix x y assume y: "y \<in> set (jobs s)" "job_rel pl x y" "jb_id y = job_id job"
    have "y = r" using job_ids_unique [OF rel y(1) r(1)] y(3) holds_lease_id [OF r(2)] by simp
    then show "job_rel pl (f x) (g y)" using row y(2) by simp
  qed (simp add: job_rel_def)
  moreover have "db_ok (s\<lparr>jobs := update_where (holds_lease job t) g (jobs s)\<rparr>)"
    using db_ok_update_jobs [of g "holds_lease job t", OF same] rel
    by (auto simp: preserves_def update_jobs_def queue_rel_def)
  ultimately show ?thesis using queue_rel_jobs [OF rel] settle_found [OF rel r, of g] by simp
qed

text \<open>A settled row of each kind.\<close>

lemma succeeded_rel:
  "job_rel pl p r \<Longrightarrow> job_rel pl (succeeded_row pl (1000 * t) p)
     (r\<lparr>jb_status := job_succeeded, jb_leased_by := None, jb_leased_until := None, jb_last_error := None,
        jb_payload := redact_screenshot t r, jb_updated_at := nowIso t\<rparr>)"
  using redact_rel [of pl p r "1000 * t" t] by (simp add: job_rel_def succeeded_row_def finished_def)

lemma dead_rel:
  "job_rel pl p r \<Longrightarrow> job_rel pl (dead_row pl (1000 * t) message p)
     (r\<lparr>jb_status := job_dead_letter, jb_available_at := a, jb_leased_by := None, jb_leased_until := None,
        jb_last_error := Some (take 500 message), jb_payload := redact_screenshot t r, jb_updated_at := nowIso t\<rparr>)"
  using redact_rel [of pl p r "1000 * t" t] by (simp add: job_rel_def dead_row_def finished_def)

lemma retry_rel:
  assumes "job_rel pl p r" and "jb_status r = job_running" and "iso_range (t + retry_delay n * 1000)"
  shows "job_rel pl (retry_row (1000 * t) message n p)
     (r\<lparr>jb_status := job_retryable_failed, jb_available_at := toISOString (t + retry_delay n * 1000),
        jb_leased_by := None, jb_leased_until := None, jb_last_error := Some (take 500 message),
        jb_payload := jb_payload r, jb_updated_at := nowIso t\<rparr>)"
proof -
  have "ts_rel (1000 * t + retry_delay n * 1000000) (toISOString (t + retry_delay n * 1000))"
    unfolding ts_rel_def using assms(3) by (intro exI [of _ "t + retry_delay n * 1000"]) simp
  then show ?thesis using assms
    by (simp add: job_rel_def retry_row_def finished_def)
qed

text \<open>One settlement for all: the row found under the lease is changed on both sides, or neither.\<close>

lemma finish_rel:
  assumes pl: "platform_ok pl" and rel: "queue_rel pl p s" and copy: "copy_ok job" and t: "iso_range t"
    and row: "\<And>x y. job_rel pl x y \<Longrightarrow> y \<in> set (jobs s) \<Longrightarrow> holds_lease job t y \<Longrightarrow>
      job_rel pl ((case failure of None \<Rightarrow> succeeded_row pl (1000 * t)
        | Some m \<Rightarrow> if pj_attempt_count x \<ge> pj_max_attempts x then dead_row pl (1000 * t) m
            else retry_row (1000 * t) m (pj_attempt_count x)) x) (g y)"
    and same: "\<And>r. same_job (g r) r"
  shows "(finish_job pl (1000 * t) (job_id job) (Some (1000 * copy_until job)) (job_leasedBy job) failure p
        = (Inl (Error ''job lease is no longer valid''), p)) \<and> update_jobs (holds_lease job t) g s = (Inr 0, s) \<or>
    (\<exists>p' s' k. finish_job pl (1000 * t) (job_id job) (Some (1000 * copy_until job)) (job_leasedBy job) failure p
        = (Inr (), p') \<and> update_jobs (holds_lease job t) g s = (Inr k, s') \<and> k \<noteq> 0 \<and> queue_rel pl p' s')"
proof -
  have jobs: "list_all2 (job_rel pl) (pq_jobs p) (jobs s)" using rel by (simp add: queue_rel_def)
  have found: "rel_option (job_rel pl) (select_first (\<lambda>r. pj_id r = job_id job) (pq_jobs p))
      (select_first (\<lambda>r. jb_id r = job_id job) (jobs s))"
    by (rule select_first_rel [OF jobs]) (simp add: job_rel_def)
  show ?thesis
  proof (cases "select_first (\<lambda>r. jb_id r = job_id job) (jobs s)")
    case None
    then have "select_first (\<lambda>r. pj_id r = job_id job) (pq_jobs p) = None"
      "\<forall>r \<in> set (jobs s). jb_id r \<noteq> job_id job"
      using found unfolding select_first_None by (auto simp: select_first_None [symmetric])
    then show ?thesis using settle_absent [of s job t g]
      by (simp add: finish_job_def bindE_def effect_simps update_jobs_def)
  next
    case (Some r)
    then obtain x where x: "select_first (\<lambda>r. pj_id r = job_id job) (pq_jobs p) = Some x" "job_rel pl x r"
      using found by (auto simp: option_rel_Some2)
    have r: "r \<in> set (jobs s)" "jb_id r = job_id job" using select_first_Some [OF Some] by auto
    note lost = holds_rel(2) [OF x(2) copy t r(2)]
    show ?thesis
    proof (cases "holds_lease job t r")
      case False
      then show ?thesis using settle_lost [OF rel r False, of g] lost
        by (auto simp: finish_job_def bindE_def effect_simps update_jobs_def x)
    next
      case True
      define f where "f = (case failure of None \<Rightarrow> succeeded_row pl (1000 * t)
        | Some m \<Rightarrow> if pj_attempt_count x \<ge> pj_max_attempts x then dead_row pl (1000 * t) m
            else retry_row (1000 * t) m (pj_attempt_count x))"
      have "job_rel pl (f x') (g r)" if "job_rel pl x' r" for x'
      proof -
        have n: "pj_attempt_count x' = pj_attempt_count x" "pj_max_attempts x' = pj_max_attempts x"
          using that x(2) by (simp_all add: job_rel_def)
        show ?thesis using row [OF that r(1) True] unfolding n f_def .
      qed
      then have "queue_rel pl (p\<lparr>pq_jobs := update_where (\<lambda>r. pj_id r = job_id job) f (pq_jobs p)\<rparr>)
          (s\<lparr>jobs := update_where (holds_lease job t) g (jobs s)\<rparr>)"
        by (rule settle_rel [OF rel r(1) True _ same])
      then show ?thesis using settle_found [OF rel r(1) True, of g] lost True
        by (auto simp: finish_job_def bindE_def effect_simps update_jobs_def pg_update_jobs_def x f_def)
    qed
  qed
qed

text \<open>One call on each side. The errors of the two sides are the same, but for a capital letter of the code's own
  message and the name of the violated constraint, which each database spells in its way.\<close>

definition same_error :: "error \<Rightarrow> error \<Rightarrow> bool" where
  "same_error e e' \<longleftrightarrow> e = e' \<or>
     e = Error ''job lease is no longer valid'' \<and> e' = Error ''Job lease is no longer valid'' \<or>
     (\<exists>a b. e = SqlError (UniqueViolation a) \<and> e' = SqlError (UniqueViolation b))"

lemma same_error_simps [simp]:
  "same_error e e" "same_error (Error ''job lease is no longer valid'') (Error ''Job lease is no longer valid'')"
  "same_error (SqlError (UniqueViolation a)) (SqlError (UniqueViolation b))"
  by (simp_all add: same_error_def)

definition simulated ::
    "pg_platform \<Rightarrow> ('a \<Rightarrow> 'b \<Rightarrow> bool) \<Rightarrow> 'a pg_queue_op \<Rightarrow> (error, store, 'b) op \<Rightarrow> pg_queue \<Rightarrow> store \<Rightarrow> bool" where
  "simulated pl R m n p s \<longleftrightarrow> rel_sum same_error R (fst (m p)) (fst (n s)) \<and> queue_rel pl (snd (m p)) (snd (n s))"

lemma simulatedI:
  "m p = (x, p') \<Longrightarrow> n s = (y, s') \<Longrightarrow> rel_sum same_error R x y \<Longrightarrow> queue_rel pl p' s' \<Longrightarrow> simulated pl R m n p s"
  by (simp add: simulated_def)

lemma pg_transaction_simps:
  "m p = (Inr x, p') \<Longrightarrow> pg_transaction m p = (Inr x, p')" "m p = (Inl e, p') \<Longrightarrow> pg_transaction m p = (Inl e, p)"
  by (simp_all add: pg_transaction_def)

lemma complete_simulated:
  assumes pl: "platform_ok pl" and rel: "queue_rel pl p s" and copy: "copy_ok job" and t: "iso_range t"
  shows "simulated pl (=) (pg_complete pl (1000 * t) job) (complete (\<lambda>_. t) job) p s"
proof -
  note c = copy_okD [OF copy]
  let ?g = "\<lambda>r. r\<lparr>jb_status := job_succeeded, jb_leased_by := None, jb_leased_until := None,
     jb_last_error := None, jb_payload := redact_screenshot t r, jb_updated_at := nowIso t\<rparr>"
  have run: "pg_complete pl (1000 * t) job = pg_transaction (finish_job pl (1000 * t) (job_id job) (Some (1000 * copy_until job)) (job_leasedBy job) (None))"
    using c by (simp add: pg_complete_def lease_param_ok [OF pl])
  have "(finish_job pl (1000 * t) (job_id job) (Some (1000 * copy_until job)) (job_leasedBy job) None p
        = (Inl (Error ''job lease is no longer valid''), p)) \<and> update_jobs (holds_lease job t) ?g s = (Inr 0, s) \<or>
    (\<exists>p' s' k. finish_job pl (1000 * t) (job_id job) (Some (1000 * copy_until job)) (job_leasedBy job) None p
        = (Inr (), p') \<and> update_jobs (holds_lease job t) ?g s = (Inr k, s') \<and> k \<noteq> 0 \<and> queue_rel pl p' s')"
    by (rule finish_rel [OF pl rel copy t]) (simp_all add: succeeded_rel same_job_def)
  then show ?thesis using c rel unfolding run
    by (auto simp: simulated_def complete_def pg_transaction_def bindE_def effect_simps)
qed

lemma fail_simulated:
  assumes pl: "platform_ok pl" and rel: "queue_rel pl p s" and copy: "copy_ok job" and t: "iso_range t"
    and later: "iso_range (t + 900000)"
    and attempts: "\<And>r. r \<in> set (jobs s) \<Longrightarrow> holds_lease job t r \<Longrightarrow>
      jb_attempt_count r = job_attemptCount job \<and> jb_max_attempts r = job_maxAttempts job"
  shows "simulated pl (=) (pg_fail pl (1000 * t) job err) (fail (\<lambda>_. t) job err) p s"
proof -
  note c = copy_okD [OF copy]
  let ?terminal = "job_attemptCount job \<ge> job_maxAttempts job" and ?m = "take 500 (error_message err)"
  let ?g = "\<lambda>r. r\<lparr>jb_status := (if ?terminal then job_dead_letter else job_retryable_failed),
     jb_available_at := toISOString (t + retry_delay (job_attemptCount job) * 1000),
     jb_leased_by := None, jb_leased_until := None, jb_last_error := Some ?m,
     jb_payload := (if ?terminal then redact_screenshot t r else jb_payload r), jb_updated_at := nowIso t\<rparr>"
  have run: "pg_fail pl (1000 * t) job err = pg_transaction (finish_job pl (1000 * t) (job_id job) (Some (1000 * copy_until job)) (job_leasedBy job) (Some ?m))"
    using c by (simp add: pg_fail_def lease_param_ok [OF pl])
  have "0 \<le> retry_delay (job_attemptCount job)" "retry_delay (job_attemptCount job) \<le> 900"
    by (simp_all add: retry_delay_def)
  then have range: "iso_range (t + retry_delay (job_attemptCount job) * 1000)"
    using t later unfolding iso_range_def by linarith
  have "(finish_job pl (1000 * t) (job_id job) (Some (1000 * copy_until job)) (job_leasedBy job) (Some ?m) p
        = (Inl (Error ''job lease is no longer valid''), p)) \<and> update_jobs (holds_lease job t) ?g s = (Inr 0, s) \<or>
    (\<exists>p' s' k. finish_job pl (1000 * t) (job_id job) (Some (1000 * copy_until job)) (job_leasedBy job) (Some ?m) p
        = (Inr (), p') \<and> update_jobs (holds_lease job t) ?g s = (Inr k, s') \<and> k \<noteq> 0 \<and> queue_rel pl p' s')"
  proof (rule finish_rel [OF pl rel copy t])
    fix x y assume x: "job_rel pl x y" "y \<in> set (jobs s)" "holds_lease job t y"
    have n: "pj_attempt_count x = job_attemptCount job" "pj_max_attempts x = job_maxAttempts job"
      using attempts [OF x(2,3)] x(1) by (simp_all add: job_rel_def)
    have "jb_status y = job_running" using x(3) by (simp add: holds_lease_def)
    then show "job_rel pl ((case Some ?m of None \<Rightarrow> succeeded_row pl (1000 * t)
        | Some m \<Rightarrow> if pj_attempt_count x \<ge> pj_max_attempts x then dead_row pl (1000 * t) m
            else retry_row (1000 * t) m (pj_attempt_count x)) x) (?g y)"
      using dead_rel [OF x(1), of t ?m] retry_rel [OF x(1) _ range, of ?m] n by simp
  qed (simp add: same_job_def)
  then show ?thesis using c rel unfolding run
    by (auto simp: simulated_def fail_def Let_def pg_transaction_def bindE_def effect_simps)
qed

text \<open>The end of a lease on both sides.\<close>

lemma pg_lease_end_rel: "iso_range (t + n * 1000) \<Longrightarrow> ts_rel (pg_lease_end (1000 * t) n) (toISOString (t + n * 1000))"
  unfolding ts_rel_def pg_lease_end_def by (intro exI [of _ "t + n * 1000"]) simp

lemma renew_simulated:
  assumes pl: "platform_ok pl" and rel: "queue_rel pl p s" and copy: "copy_ok job" and t: "iso_range t"
    and n: "lease_duration_ok n" "iso_range (t + n * 1000)"
  shows "simulated pl (=) (pg_renewLease pl (1000 * t) (1000 * t) job n) (renewLease (\<lambda>_. t) job n) p s"
proof -
  note c = copy_okD [OF copy]
  let ?f = "\<lambda>r. r\<lparr>pj_leased_until := Some (pg_lease_end (1000 * t) n), pj_updated_at := 1000 * t\<rparr>"
  let ?g = "\<lambda>r. r\<lparr>jb_leased_until := Some (toISOString (t + n * 1000)), jb_updated_at := nowIso t\<rparr>"
  let ?P = "pg_holds (job_id job) (Some (1000 * copy_until job)) (job_leasedBy job) (1000 * t)"
  have run: "pg_renewLease pl (1000 * t) (1000 * t) job n = bindE (pg_transaction (renew_job_lease (1000 * t) (1000 * t) (job_id job) (Some (1000 * copy_until job)) (job_leasedBy job) n)) (\<lambda>renewed. retE (map_option (\<lambda>t. job\<lparr>job_leasedUntil := Some (date_text pl t)\<rparr>) renewed))"
    using c by (simp add: pg_renewLease_def lease_param_ok [OF pl])
  have jobs: "list_all2 (job_rel pl) (pq_jobs p) (jobs s)" using rel by (simp add: queue_rel_def)
  have both: "list_all2 (job_rel pl) (update_where ?P ?f (pq_jobs p)) (update_where (holds_lease job t) ?g (jobs s)) \<and>
      count_where ?P (pq_jobs p) = count_where (holds_lease job t) (jobs s)"
  proof (rule update_rel [OF jobs])
    show "?P x \<longleftrightarrow> holds_lease job t y" if "job_rel pl x y" for x y using holds_rel(1) [OF that copy t] .
    show "job_rel pl (?f x) (?g y)" if "job_rel pl x y" for x y
      using that pg_lease_end_rel [OF n(2)] by (simp add: job_rel_def)
  qed
  have "db_ok (s\<lparr>jobs := update_where (holds_lease job t) ?g (jobs s)\<rparr>)"
    using db_ok_update_jobs [of ?g "holds_lease job t"] rel
    by (auto simp: preserves_def update_jobs_def queue_rel_def same_job_def)
  then have "queue_rel pl (p\<lparr>pq_jobs := update_where ?P ?f (pq_jobs p)\<rparr>)
      (s\<lparr>jobs := update_where (holds_lease job t) ?g (jobs s)\<rparr>)"
    using queue_rel_jobs [OF rel] both by simp
  then show ?thesis using c both n(1) date_text_rel [OF pl pg_lease_end_rel [OF n(2)]] unfolding run
    by (auto simp: simulated_def renewLease_def renew_job_lease_def pg_transaction_def
        bindE_def effect_simps update_jobs_def pg_update_jobs_def)
qed

section \<open>Leasing\<close>

lemma before_rel: "rel_option ts_rel x y \<Longrightarrow> iso_range t \<Longrightarrow> pg_before x (1000 * t) \<longleftrightarrow> column_less y (nowIso t)"
  using ts_rel_less [OF _ ts_rel_now]
  by (cases x; cases y) (auto simp: pg_before_def column_less_def nowIso_def)

lemma leasable_rel:
  assumes "job_rel pl x y" and t: "iso_range t"
  shows "pg_leasable (1000 * t) x \<longleftrightarrow> leasable t t t y"
proof -
  have "pg_before (pj_leased_until x) (1000 * t) \<longleftrightarrow> column_less (jb_leased_until y) (nowIso t)"
    using assms before_rel by (simp add: job_rel_def)
  moreover have "pj_leased_until x = None \<longleftrightarrow> jb_leased_until y = None"
    using assms by (auto simp: job_rel_def)
  moreover have "pj_available_at x \<le> 1000 * t \<longleftrightarrow> jb_available_at y \<le> nowIso t" if "waiting y"
  proof -
    have "ts_rel (pj_available_at x) (jb_available_at y)" using job_rel_available [OF assms(1) that] .
    then show ?thesis using ts_rel_le [OF _ ts_rel_now [OF t]] by (simp add: nowIso_def)
  qed
  ultimately show ?thesis using job_rel_waiting [OF assms(1)] assms(1)
    by (auto simp: pg_leasable_def leasable_def job_rel_def)
qed

lemma priority_rel:
  assumes "job_rel pl x y" and "job_rel pl x' y'"
  shows "pg_priority_key x \<le> pg_priority_key x' \<longleftrightarrow> priority_key y \<le> priority_key y'"
proof -
  have "pj_created_at x \<le> pj_created_at x' \<longleftrightarrow> jb_created_at y \<le> jb_created_at y'"
    using assms by (intro ts_rel_le) (simp_all add: job_rel_def)
  then show ?thesis using assms by (simp add: pg_priority_key_def priority_key_def job_rel_def)
qed

lemma tenant_head_rel:
  assumes "list_all2 (job_rel pl) xs ys" and "\<And>x y. job_rel pl x y \<Longrightarrow> P x \<longleftrightarrow> Q y" and "job_rel pl x y"
  shows "pg_tenant_head P xs x \<longleftrightarrow> tenant_head Q ys y"
proof -
  have "list_all2 (job_rel pl) (filter (\<lambda>q. P q \<and> pj_tenant_id q = pj_tenant_id x) xs)
      (filter (\<lambda>q. Q q \<and> jb_tenant_id q = jb_tenant_id y) ys)"
    by (rule filter_rel [OF assms(1)]) (use assms(2,3) in \<open>auto simp: job_rel_def\<close>)
  then have "rel_option (job_rel pl)
      (first_by pg_priority_key (filter (\<lambda>q. P q \<and> pj_tenant_id q = pj_tenant_id x) xs))
      (first_by priority_key (filter (\<lambda>q. Q q \<and> jb_tenant_id q = jb_tenant_id y) ys))"
    by (rule first_by_rel) (rule priority_rel)
  then show ?thesis unfolding pg_tenant_head_def tenant_head_def
    by (rule option.rel_cases) (use job_rel_id assms(3) in \<open>simp_all del: first_by_None\<close>)
qed

lemma epoch_text: "toISOString 0 = ''1970-01-01T00:00:00.000Z''"
proof -
  have "dateText 0 = ''1970-01-01''" by code_simp
  moreover have "pad 2 0 = ''00''" "pad 3 0 = ''000''" by code_simp+
  ultimately show ?thesis by (simp add: toISOString_def DayOf_def TimeWithinDay_def timeText_def del: pad.simps)
qed

lemma state_lookup_rel:
  "list_all2 state_rel xs qs \<Longrightarrow> rel_option (rel_option ts_rel) (map_of xs tenant)
     (map_option tq_last_leased_at (List.find (\<lambda>q. tq_tenant_id q = tenant) qs))"
  by (induction xs qs rule: list_all2_induct) (auto simp: state_rel_def)

lemma last_leased_rel:
  assumes "list_all2 state_rel (pq_states p) (tenant_queue_state s)"
  shows "ts_rel (pg_last_leased p tenant) (last_leased s tenant)"
proof -
  have zero: "ts_rel 0 ''1970-01-01T00:00:00.000Z''"
    using ts_rel_now [of 0] by (simp add: epoch_text iso_range_def)
  show ?thesis
    using state_lookup_rel [OF assms, of tenant] zero
    by (cases "map_of (pq_states p) tenant"; cases "List.find (\<lambda>q. tq_tenant_id q = tenant) (tenant_queue_state s)")
      (auto simp: pg_last_leased_def last_leased_def select_first_def split: option.splits elim: option.rel_cases)
qed

lemma candidate_rel:
  assumes "list_all2 (job_rel pl) (pq_jobs p) (jobs s)" and "list_all2 state_rel (pq_states p) (tenant_queue_state s)"
    and t: "iso_range t"
  shows "rel_option (job_rel pl) (pg_candidate [] (1000 * t) p) (next_job (leasable t t t) s)"
proof -
  have "list_all2 (job_rel pl)
      (filter (\<lambda>r. pg_leasable (1000 * t) r \<and> pg_tenant_head (pg_leasable (1000 * t)) (pq_jobs p) r \<and> pj_id r \<notin> set []) (pq_jobs p))
      (filter (\<lambda>r. leasable t t t r \<and> tenant_head (leasable t t t) (jobs s) r) (jobs s))"
    by (rule filter_rel [OF assms(1)]) (use leasable_rel [OF _ t] tenant_head_rel [OF assms(1)] in \<open>simp\<close>)
  then show ?thesis unfolding pg_candidate_def next_job_def
  proof (rule first_by_rel)
    fix x y x' y' assume r: "job_rel pl x y" "job_rel pl x' y'"
    have l: "ts_rel (pg_last_leased p i) (last_leased s i)" for i using last_leased_rel [OF assms(2)] .
    have i: "pj_tenant_id x = jb_tenant_id y" "pj_tenant_id x' = jb_tenant_id y'" using r by (simp_all add: job_rel_def)
    show "pg_lease_key p x \<le> pg_lease_key p x' \<longleftrightarrow> lease_key s y \<le> lease_key s y'"
      using ts_rel_less [OF l l] ts_rel_le [OF l l] priority_rel [OF r]
      by (simp add: pg_lease_key_def lease_key_def i)
  qed
qed

text \<open>The statements of a lease one by one, inside the transaction.\<close>

definition tables_rel :: "pg_platform \<Rightarrow> pg_queue \<Rightarrow> store \<Rightarrow> bool" where
  "tables_rel pl p s \<longleftrightarrow> list_all2 (job_rel pl) (pq_jobs p) (jobs s) \<and>
     list_all2 state_rel (pq_states p) (tenant_queue_state s) \<and> set (pq_tenants p) = tn_id ` set (tenants s) \<and>
     unique_on jb_id (jobs s)"

text \<open>A statement or a body on both sides, and their composition.\<close>

definition step_sim ::
    "pg_platform \<Rightarrow> ('a \<Rightarrow> 'b \<Rightarrow> bool) \<Rightarrow> 'a pg_queue_op \<Rightarrow> (error, store, 'b) op \<Rightarrow> pg_queue \<Rightarrow> store \<Rightarrow> bool" where
  "step_sim pl R m n p s \<longleftrightarrow> rel_sum same_error R (fst (m p)) (fst (n s)) \<and> tables_rel pl (snd (m p)) (snd (n s))"

lemma step_simI:
  "m p = (Inr a, p') \<Longrightarrow> n s = (Inr b, s') \<Longrightarrow> R a b \<Longrightarrow> tables_rel pl p' s' \<Longrightarrow> step_sim pl R m n p s"
  by (simp add: step_sim_def)

lemma step_sim_bind:
  assumes "step_sim pl R m n p s"
    and "\<And>a b p' s'. m p = (Inr a, p') \<Longrightarrow> n s = (Inr b, s') \<Longrightarrow> R a b \<Longrightarrow> tables_rel pl p' s' \<Longrightarrow>
      step_sim pl S (f a) (g b) p' s'"
  shows "step_sim pl S (bindE m f) (bindE n g) p s"
proof -
  obtain x p' y s' where run: "m p = (x, p')" "n s = (y, s')" by fastforce
  then have rel: "rel_sum same_error R x y" "tables_rel pl p' s'" using assms(1) by (simp_all add: step_sim_def)
  then show ?thesis using assms(2) run
    by (cases x; cases y) (auto simp: step_sim_def bindE_def)
qed

lemma step_sim_ret: "tables_rel pl p s \<Longrightarrow> R a b \<Longrightarrow> step_sim pl R (retE a) (retE b) p s"
  by (simp add: step_sim_def retE_def)

lemma step_sim_get: "tables_rel pl p s \<Longrightarrow> R (f p) (g s) \<Longrightarrow> step_sim pl R (getE f) (getE g) p s"
  by (simp add: step_sim_def getE_def)

lemma tables_rel_depth [simp]: "tables_rel pl p (s\<lparr>transactionDepth := n\<rparr>) \<longleftrightarrow> tables_rel pl p s"
  by (simp add: tables_rel_def)

lemma queue_rel_iff: "queue_rel pl p s \<longleftrightarrow> tables_rel pl p s \<and> transactionDepth s = 0 \<and> db_ok s"
  by (auto simp: queue_rel_def tables_rel_def db_ok_defs)

text \<open>A transaction on both sides: both commit, or both roll back.\<close>

lemma transaction_simulated:
  assumes rel: "queue_rel pl p s" and body: "step_sim pl R m n p (s\<lparr>transactionDepth := 1\<rparr>)"
    and kept: "preserves (\<lambda>s. transactionDepth s = 1) n" "preserves db_ok (transaction n)"
  shows "simulated pl R (pg_transaction m) (transaction n) p s"
proof -
  have s: "transactionDepth s = 0" "db_ok s" using rel by (simp_all add: queue_rel_def)
  obtain x p' y s' where run: "m p = (x, p')" "n (s\<lparr>transactionDepth := 1\<rparr>) = (y, s')" by fastforce
  then have b: "rel_sum same_error R x y" "tables_rel pl p' s'" using body by (simp_all add: step_sim_def)
  have depth: "transactionDepth s' = 1" using preservesD [OF kept(1) _ run(2)] by simp
  have ok: "db_ok (snd (transaction n s))" using kept(2) s(2) by (simp add: preserves_def)
  have unchanged: "s\<lparr>transactionDepth := 0\<rparr> = s" using s(1) by simp
  show ?thesis
    using b rel s ok run depth unchanged
    by (cases x; cases y) (auto simp: simulated_def pg_transaction_def transaction_def queue_rel_iff)
qed

lemma update_step:
  assumes rel: "tables_rel pl p s"
    and "\<And>x y. job_rel pl x y \<Longrightarrow> P x \<longleftrightarrow> Q y"
    and "\<And>x y. y \<in> set (jobs s) \<Longrightarrow> job_rel pl x y \<Longrightarrow> Q y \<Longrightarrow> job_rel pl (f x) (g y)"
    and "\<And>r. jb_id (g r) = jb_id r"
  shows "step_sim pl (=) (pg_update_jobs P f) (update_jobs Q g) p s"
proof -
  have "list_all2 (job_rel pl) (update_where P f (pq_jobs p)) (update_where Q g (jobs s)) \<and>
      count_where P (pq_jobs p) = count_where Q (jobs s)"
    using rel by (intro update_rel assms(2,3)) (simp_all add: tables_rel_def)
  then show ?thesis using rel assms(4)
    by (simp add: pg_update_jobs_def update_jobs_def tables_rel_def unique_on_update_where step_sim_def)
qed

lemma expire_step:
  assumes "tables_rel pl p s" and t: "iso_range t"
  shows "step_sim pl (=) (pg_expire pl (1000 * t)) (expire_leases t t t) p s"
  unfolding pg_expire_def expire_leases_def
proof (rule update_step [OF assms(1)])
  fix x y assume r: "job_rel pl x y"
  show "pj_status x = job_running \<and> pg_before (pj_leased_until x) (1000 * t) \<and> pj_attempt_count x \<ge> pj_max_attempts x
      \<longleftrightarrow> jb_status y = job_running \<and> column_less (jb_leased_until y) (nowIso t) \<and> jb_attempt_count y \<ge> jb_max_attempts y"
    using r before_rel [OF _ t, of "pj_leased_until x" "jb_leased_until y"] by (auto simp: job_rel_def)
  show "job_rel pl (x\<lparr>pj_status := job_dead_letter, pj_leased_by := None, pj_leased_until := None,
        pj_last_error := Some ''Worker lease expired after final attempt'', pj_payload := pg_redact pl (1000 * t) x,
        pj_updated_at := 1000 * t\<rparr>)
      (y\<lparr>jb_status := job_dead_letter, jb_leased_by := None, jb_leased_until := None,
        jb_last_error := Some ''Worker lease expired after final attempt'',
        jb_payload := redact_screenshot t y, jb_updated_at := nowIso t\<rparr>)"
    using r redact_rel [OF r, of "1000 * t" t] by (simp add: job_rel_def finished_def)
qed simp

lemma grant_rel:
  assumes "job_rel pl x y" and "leasable t t t y" and "w \<noteq> []" and "ts_rel e u"
  shows "job_rel pl (pg_grant w e m x) ((leased_row w u y)\<lparr>jb_updated_at := a\<rparr>)"
    and "job_rel pl (pg_grant w e m x) (leased_row w u y)"
  using assms by (auto simp: job_rel_def pg_grant_def leased_row_def finished_def leasable_def waiting_def)

lemma touch_step:
  assumes rel: "tables_rel pl p s" and t: "iso_range t"
  shows "step_sim pl (=) (pg_touch_tenant i (1000 * t)) (upsert_tenant_queue i (nowIso t)) p s"
proof -
  have states: "list_all2 state_rel (pq_states p) (tenant_queue_state s)" using rel by (simp add: tables_rel_def)
  have ex: "i \<in> fst ` set xs \<longleftrightarrow> exists_row (\<lambda>q. tq_tenant_id q = i) qs" if "list_all2 state_rel xs qs" for xs qs
    using that by (induction xs qs rule: list_all2_induct) (auto simp: exists_row_def state_rel_def)
  have up: "list_all2 state_rel (map (\<lambda>(t', l). (t', if t' = i then Some (1000 * t) else l)) xs)
      (update_where (\<lambda>q. tq_tenant_id q = i) (\<lambda>q. q\<lparr>tq_last_leased_at := Some (nowIso t)\<rparr>) qs)"
    if "list_all2 state_rel xs qs" for xs qs
    using that ts_rel_now [OF t]
    by (induction xs qs rule: list_all2_induct) (auto simp: state_rel_def update_where_def nowIso_def)
  have new: "list_all2 state_rel (pq_states p @ [(i, Some (1000 * t))])
      (tenant_queue_state s @ [\<lparr>tq_tenant_id = i, tq_last_leased_at = Some (nowIso t)\<rparr>])"
    using states ts_rel_now [OF t] by (simp add: list_all2_appendI state_rel_def nowIso_def)
  show ?thesis
    using ex [OF states] up [OF states] new rel
    by (auto simp: pg_touch_tenant_def upsert_tenant_queue_def exists_row_key tables_rel_def step_sim_def)
qed

text \<open>The rest of a lease, from the row chosen.\<close>

lemma lease_found_step:
  assumes rel: "tables_rel pl p s" and x: "job_rel pl x y" and y: "y \<in> set (jobs s)" "leasable t t t y"
    and t: "iso_range t" and w: "w \<noteq> []" and e: "ts_rel e u" and pl: "platform_ok pl"
  shows "step_sim pl (\<lambda>a b. rel_option (\<lambda>q j. map_row pl q = j) a b)
    (bindE (pg_update_jobs (\<lambda>r. pj_id r = pj_id x) (pg_grant w e (1000 * t))) (\<lambda>_.
       bindE (pg_touch_tenant (pj_tenant_id x) (1000 * t)) (\<lambda>_. retE (Some (pg_grant w e (1000 * t) x)))))
    (bindE (update_jobs (\<lambda>r. jb_id r = jb_id y) (\<lambda>r. (leased_row w u r)\<lparr>jb_updated_at := nowIso t\<rparr>)) (\<lambda>_.
       bindE (upsert_tenant_queue (jb_tenant_id y) (nowIso t)) (\<lambda>_. retE (Some (job_of_row (leased_row w u y))))))
    p s"
proof (rule step_sim_bind [OF update_step [OF rel]])
  show "pj_id x' = pj_id x \<longleftrightarrow> jb_id y' = jb_id y" if "job_rel pl x' y'" for x' y'
    using that x by (simp add: job_rel_def)
  show "job_rel pl (pg_grant w e (1000 * t) x') ((leased_row w u y')\<lparr>jb_updated_at := nowIso t\<rparr>)"
    if "y' \<in> set (jobs s)" "job_rel pl x' y'" "jb_id y' = jb_id y" for x' y'
  proof -
    have "y' = y" using rel that(1,3) y(1) unique_onD [of jb_id "jobs s"] by (simp add: tables_rel_def)
    then show ?thesis using grant_rel(1) [OF that(2) _ w e] y(2) by simp
  qed
  fix p' s' assume "tables_rel pl p' s'"
  then have touch: "step_sim pl (=) (pg_touch_tenant (pj_tenant_id x) (1000 * t))
      (upsert_tenant_queue (jb_tenant_id y) (nowIso t)) p' s'"
    using touch_step [OF _ t, of pl p' s' "jb_tenant_id y"] x by (simp add: job_rel_def)
  have "job_out_rel pl (map_row pl (pg_grant w e (1000 * t) x)) (job_of_row (leased_row w u y))"
    using map_row_rel [OF pl grant_rel(2) [OF x y(2) w e]] .
  then have out: "map_row pl (pg_grant w e (1000 * t) x) = job_of_row (leased_row w u y)"
    by (auto simp: job_out_rel_def job_of_row_def finished_def)
  show "step_sim pl (\<lambda>a b. rel_option (\<lambda>q j. map_row pl q = j) a b)
      (bindE (pg_touch_tenant (pj_tenant_id x) (1000 * t)) (\<lambda>_. retE (Some (pg_grant w e (1000 * t) x))))
      (bindE (upsert_tenant_queue (jb_tenant_id y) (nowIso t)) (\<lambda>_. retE (Some (job_of_row (leased_row w u y)))))
      p' s'"
    by (rule step_sim_bind [OF touch]) (simp add: step_sim_ret out)
qed simp

lemma lease_body_step:
  assumes rel: "tables_rel pl p s" and t: "iso_range t" and w: "w \<noteq> []" and pl: "platform_ok pl"
    and n: "lease_duration_ok n" "iso_range (t + n * 1000)"
  shows "step_sim pl (rel_option (\<lambda>q j. map_row pl q = j)) (lease_job pl [] (1000 * t) (1000 * t) w n)
    (bindE (expire_leases t t t) (\<lambda>_.
      bindE (getE (next_job (leasable t t t))) (\<lambda>found.
        case found of None \<Rightarrow> retE None
        | Some row \<Rightarrow>
          bindE (update_jobs (\<lambda>r. jb_id r = jb_id row)
            (\<lambda>r. (leased_row w (toISOString (t + n * 1000)) r)\<lparr>jb_updated_at := nowIso t\<rparr>)) (\<lambda>_.
          bindE (upsert_tenant_queue (jb_tenant_id row) (nowIso t)) (\<lambda>_.
          retE (Some (job_of_row (leased_row w (toISOString (t + n * 1000)) row))))))))
    p s"
proof -
  let ?S = "rel_option (\<lambda>q j. map_row pl q = j)" and ?e = "pg_lease_end (1000 * t) n" and ?u = "toISOString (t + n * 1000)"
  let ?f = "\<lambda>row. bindE (pg_update_jobs (\<lambda>r. pj_id r = pj_id row) (pg_grant w ?e (1000 * t))) (\<lambda>_.
    bindE (pg_touch_tenant (pj_tenant_id row) (1000 * t)) (\<lambda>_. retE (Some (pg_grant w ?e (1000 * t) row))))"
  let ?g = "\<lambda>row. bindE (update_jobs (\<lambda>r. jb_id r = jb_id row) (\<lambda>r. (leased_row w ?u r)\<lparr>jb_updated_at := nowIso t\<rparr>)) (\<lambda>_.
    bindE (upsert_tenant_queue (jb_tenant_id row) (nowIso t)) (\<lambda>_. retE (Some (job_of_row (leased_row w ?u row)))))"
  have chosen: "step_sim pl ?S (case a of None \<Rightarrow> retE None | Some row \<Rightarrow> ?f row)
      (case b of None \<Rightarrow> retE None | Some row \<Rightarrow> ?g row) q u"
    if "b = next_job (leasable t t t) u" "rel_option (job_rel pl) a b" "tables_rel pl q u" for a b q u
  proof (cases b)
    case None
    then show ?thesis using that by (simp add: step_sim_ret)
  next
    case (Some y)
    have "\<exists>x. a = Some x \<and> job_rel pl x y" using that(2) Some by (simp add: option_rel_Some2)
    then obtain x where x: "a = Some x" "job_rel pl x y" by blast
    have y: "y \<in> set (jobs u)" "leasable t t t y"
      using next_job_Some [of "leasable t t t" u y] that(1) Some by auto
    show ?thesis
      using lease_found_step [OF that(3) x(2) y t w pg_lease_end_rel [OF n(2)] pl] Some x(1) by simp
  qed
  have rest: "step_sim pl ?S (bindE (getE (pg_candidate [] (1000 * t))) (\<lambda>found. case found of None \<Rightarrow> retE None | Some row \<Rightarrow> ?f row))
      (bindE (getE (next_job (leasable t t t))) (\<lambda>found. case found of None \<Rightarrow> retE None | Some row \<Rightarrow> ?g row)) q u"
    if "tables_rel pl q u" for q u
  proof (rule step_sim_bind)
    have "rel_option (job_rel pl) (pg_candidate [] (1000 * t) q) (next_job (leasable t t t) u)"
      using that t by (intro candidate_rel) (simp_all add: tables_rel_def)
    then show "step_sim pl (rel_option (job_rel pl)) (getE (pg_candidate [] (1000 * t))) (getE (next_job (leasable t t t))) q u"
      using that by (simp add: step_sim_def getE_def)
  qed (use chosen in \<open>auto simp: getE_def\<close>)
  have "step_sim pl ?S (bindE (pg_expire pl (1000 * t)) (\<lambda>_. bindE (getE (pg_candidate [] (1000 * t)))
        (\<lambda>found. case found of None \<Rightarrow> retE None | Some row \<Rightarrow> ?f row)))
      (bindE (expire_leases t t t) (\<lambda>_. bindE (getE (next_job (leasable t t t)))
        (\<lambda>found. case found of None \<Rightarrow> retE None | Some row \<Rightarrow> ?g row))) p s"
    by (rule step_sim_bind [OF expire_step [OF rel t]]) (rule rest)
  then show ?thesis using n(1) by (simp add: lease_job_def)
qed

lemma simulated_map:
  assumes "simulated pl R m n p s" and "\<And>a b. R a b \<Longrightarrow> S (f a) b"
  shows "simulated pl S (bindE m (\<lambda>a. retE (f a))) n p s"
proof -
  obtain x p' where run: "m p = (x, p')" by fastforce
  show ?thesis using assms run
    by (cases x; cases "fst (n s)") (auto simp: simulated_def bindE_def retE_def)
qed

lemma lease_simulated:
  assumes pl: "platform_ok pl" and rel: "queue_rel pl p s" and t: "iso_range t" and w: "w \<noteq> []"
    and n: "lease_duration_ok n" "iso_range (t + n * 1000)"
  shows "simulated pl (=) (pg_leaseNext pl [] (1000 * t) (1000 * t) w n) (leaseNext (\<lambda>_. t) w n) p s"
  unfolding pg_leaseNext_def
proof (rule simulated_map)
  have tables: "tables_rel pl p (s\<lparr>transactionDepth := 1\<rparr>)" using rel by (simp add: queue_rel_iff)
  show "simulated pl (rel_option (\<lambda>q j. map_row pl q = j)) (pg_transaction (lease_job pl [] (1000 * t) (1000 * t) w n))
      (leaseNext (\<lambda>_. t) w n) p s"
    unfolding leaseNext_def
  proof (rule transaction_simulated [OF rel lease_body_step [OF tables t w pl n]])
    show "preserves db_ok (transaction (bindE (expire_leases t t t) (\<lambda>_.
      bindE (getE (next_job (leasable t t t))) (\<lambda>found.
        case found of None \<Rightarrow> retE None
        | Some row \<Rightarrow>
          bindE (update_jobs (\<lambda>r. jb_id r = jb_id row)
            (\<lambda>r. (leased_row w (toISOString (t + n * 1000)) r)\<lparr>jb_updated_at := nowIso t\<rparr>)) (\<lambda>_.
          bindE (upsert_tenant_queue (jb_tenant_id row) (nowIso t)) (\<lambda>_.
          retE (Some (job_of_row (leased_row w (toISOString (t + n * 1000)) row)))))))))"
      using db_ok_leaseNext [of "\<lambda>_. t" w n] by (simp add: leaseNext_def)
  qed (unfold expire_leases_def, intro preserves_intros)
next
  fix a b assume "rel_option (\<lambda>q j. map_row pl q = j) a b"
  then show "map_option (map_row pl) a = b" by (cases a; cases b) auto
qed

section \<open>Enqueueing and cancelling\<close>

text \<open>On SQLite the loop over the candidates does what one statement would.\<close>

lemma update_split:
  assumes "\<And>r. P r \<Longrightarrow> \<not> Q r \<and> \<not> Q (f r)"
  shows "update_where Q f (update_where P f xs) = update_where (\<lambda>r. P r \<or> Q r) f xs \<and>
    count_where P xs + count_where Q (update_where P f xs) = count_where (\<lambda>r. P r \<or> Q r) xs"
  unfolding update_where_def count_where_def by (induction xs) (use assms in auto)

lemma update_same:
  assumes "\<And>r. r \<in> set xs \<Longrightarrow> P r \<longleftrightarrow> Q r"
  shows "update_where P f xs = update_where Q f xs \<and> count_where P xs = count_where Q xs"
  unfolding update_where_def count_where_def using assms by (induction xs) auto

lemma cancel_loop_statement:
  assumes "distinct ids"
  shows "sumE (\<lambda>(n, i). cancel_statement t t i) (enumerate k ids) s =
    update_jobs (\<lambda>r. jb_id r \<in> set ids \<and> waiting r) (cancelled_row t t) s"
  using assms
proof (induction ids arbitrary: k s)
  case Nil
  then show ?case by (simp add: retE_def update_jobs_def count_where_0 update_where_def)
next
  case (Cons i ids)
  let ?P = "\<lambda>r. jb_id r = i \<and> waiting r" and ?Q = "\<lambda>r. jb_id r \<in> set ids \<and> waiting r"
  have "\<not> waiting (cancelled_row t t r)" for r by (simp add: waiting_def cancelled_row_def)
  then have "update_where ?Q (cancelled_row t t) (update_where ?P (cancelled_row t t) (jobs s))
      = update_where (\<lambda>r. ?P r \<or> ?Q r) (cancelled_row t t) (jobs s) \<and>
    count_where ?P (jobs s) + count_where ?Q (update_where ?P (cancelled_row t t) (jobs s))
      = count_where (\<lambda>r. ?P r \<or> ?Q r) (jobs s)"
    using Cons.prems by (intro update_split) auto
  moreover have "(\<lambda>r. ?P r \<or> ?Q r) = (\<lambda>r. jb_id r \<in> set (i # ids) \<and> waiting r)" by auto
  moreover have "cancel_statement t t i = update_jobs ?P (cancelled_row t t)"
    by (simp add: cancel_statement_def cancelled_row_def [abs_def])
  ultimately show ?case using Cons.IH Cons.prems by (simp add: bindE_def update_jobs_def retE_def)
qed

definition cancellable :: "CancelPendingJobs \<Rightarrow> job_row \<Rightarrow> bool" where
  "cancellable input r \<longleftrightarrow> jb_tenant_id r = can_tenantId input \<and> jb_type r = can_type input \<and> waiting r \<and>
     payload_matches (can_payload input) (jb_payload r)"

lemma cancelPending_statement:
  assumes "transactionDepth s = 0" and "unique_on jb_id (jobs s)"
  shows "cancelPending (\<lambda>_. t) input s = update_jobs (cancellable input) (cancelled_row t t) s"
proof -
  let ?ids = "cancel_candidates input s"
  have chosen: "jb_id r \<in> set ?ids \<and> waiting r \<longleftrightarrow> cancellable input r" if r: "r \<in> set (jobs s)" for r
  proof
    assume "jb_id r \<in> set ?ids \<and> waiting r"
    then obtain q where "q \<in> set (jobs s)" "cancellable input q" "jb_id q = jb_id r"
      by (auto simp: cancel_candidates_def select_where_def cancellable_def)
    then show "cancellable input r" using unique_onD [OF assms(2) _ r] by blast
  qed (use r in \<open>auto simp: cancel_candidates_def select_where_def cancellable_def\<close>)
  have "unique_on jb_id (filter P (jobs s))" for P
    using assms(2) by (simp add: unique_on_def distinct_map_filter)
  then have "distinct ?ids"
    by (simp add: cancel_candidates_def select_where_def unique_on_def)
  then have loop: "sumE (\<lambda>(n, i). cancel_statement t t i) (enumerate 0 ?ids) u =
      update_jobs (\<lambda>r. jb_id r \<in> set ?ids \<and> waiting r) (cancelled_row t t) u" for u
    by (rule cancel_loop_statement)
  have same: "update_where (\<lambda>r. jb_id r \<in> set ?ids \<and> waiting r) (cancelled_row t t) (jobs s)
      = update_where (cancellable input) (cancelled_row t t) (jobs s) \<and>
    count_where (\<lambda>r. jb_id r \<in> set ?ids \<and> waiting r) (jobs s) = count_where (cancellable input) (jobs s)"
    by (rule update_same) (rule chosen)
  show ?thesis
  proof (cases "?ids = []")
    case True
    then have "\<not> cancellable input r" if "r \<in> set (jobs s)" for r using chosen [OF that] by simp
    then have "update_where (cancellable input) (cancelled_row t t) (jobs s) = jobs s"
      "count_where (cancellable input) (jobs s) = 0"
      by (auto simp: count_where_0 intro: update_where_idem)
    then show ?thesis using True by (simp add: cancelPending_def bindE_def getE_def retE_def update_jobs_def)
  next
    case False
    have "s\<lparr>transactionDepth := 0\<rparr> = s" using assms(1) by simp
    then have "s\<lparr>transactionDepth := 0, jobs := T\<rparr> = s\<lparr>jobs := T\<rparr>" for T using assms(1) by simp
    then show ?thesis
      using False assms(1) same
      by (simp add: cancelPending_def bindE_def getE_def transaction_def loop update_jobs_def)
  qed
qed

lemma cancel_simulated:
  assumes rel: "queue_rel pl p s" and tenant: "can_tenantId input \<noteq> []" and type: "can_type input \<noteq> ''ingest.screenshot''"
  shows "simulated pl (=) (pg_cancelPending (1000 * t) input) (cancelPending (\<lambda>_. t) input) p s"
proof -
  have tables: "tables_rel pl p s" "transactionDepth s = 0" "unique_on jb_id (jobs s)"
    using rel by (simp_all add: queue_rel_iff tables_rel_def)
  let ?m = "pg_update_jobs
     (\<lambda>r. pg_visible (can_tenantId input) r \<and> pj_type r = can_type input \<and> pg_waiting r \<and>
        payload_matches (can_payload input) (pj_payload r))
     (\<lambda>r. r\<lparr>pj_status := job_cancelled, pj_leased_by := None, pj_leased_until := None,
        pj_last_error := Some ''Cancelled by connector revocation'', pj_updated_at := 1000 * t\<rparr>)"
  have step: "step_sim pl (=) ?m (update_jobs (cancellable input) (cancelled_row t t)) p s"
  proof (rule update_step [OF tables(1)])
    fix x y assume r: "job_rel pl x y"
    have "pj_payload x = jb_payload y" if "waiting y"
      using r that by (auto simp: job_rel_def waiting_def finished_def)
    then show "pg_visible (can_tenantId input) x \<and> pj_type x = can_type input \<and> pg_waiting x \<and>
        payload_matches (can_payload input) (pj_payload x) \<longleftrightarrow> cancellable input y"
      using r tenant job_rel_waiting [OF r] by (auto simp: job_rel_def pg_visible_def cancellable_def)
    assume "cancellable input y"
    then show "job_rel pl (x\<lparr>pj_status := job_cancelled, pj_leased_by := None, pj_leased_until := None,
        pj_last_error := Some ''Cancelled by connector revocation'', pj_updated_at := 1000 * t\<rparr>) (cancelled_row t t y)"
      using r type by (auto simp: job_rel_def cancellable_def cancelled_row_def redact_screenshot_def payload_rel_def
          finished_def waiting_def)
  qed (simp add: cancelled_row_def)
  have "db_ok (snd (cancelPending (\<lambda>_. t) input s))"
    using db_ok_cancelPending rel by (auto simp: preserves_def queue_rel_def)
  then show ?thesis using step tables(2) unfolding cancelPending_statement [OF tables(2,3)]
    by (simp add: step_sim_def simulated_def queue_rel_iff pg_cancelPending_def pg_transaction_def update_jobs_def
        pg_update_jobs_def cancelPending_statement [OF tables(2,3)])
qed

text \<open>The type is not compared for screenshots because the two differ there: on SQLite a cancelled screenshot job
  is redacted, on Postgres it keeps its payload.\<close>

lemma pg_cancel_keeps_payload:
  "map pj_payload (pq_jobs (snd (pg_cancelPending now input p))) = map pj_payload (pq_jobs p)"
  by (simp add: pg_cancelPending_def pg_transaction_def pg_update_jobs_def update_where_def)

text \<open>The time from which a new job may run.\<close>

definition available_ok :: "EnqueueJob \<Rightarrow> bool" where
  "available_ok input \<longleftrightarrow> (case enq_availableAt input of None \<Rightarrow> True | Some x \<Rightarrow> iso_text x)"

lemma upsert_step:
  assumes rel: "tables_rel pl p s" and tenant: "enq_tenantId input \<noteq> []" and t: "iso_range t"
    and a: "ts_rel a (nullish (enq_availableAt input) (nowIso t))"
  shows "step_sim pl (=) (pg_upsert_job (1000 * t) (pg_new_row sha (1000 * t) input a))
    (upsert_job_row (enqueue_row sha t input)) p s"
proof -
  let ?x = "pg_new_row sha (1000 * t) input a" and ?y = "enqueue_row sha t input"
  have jobs: "list_all2 (job_rel pl) (pq_jobs p) (jobs s)" and uniq: "unique_on jb_id (jobs s)"
    and ten: "set (pq_tenants p) = tn_id ` set (tenants s)" using rel by (simp_all add: tables_rel_def)
  have new: "job_rel pl ?x ?y" using a ts_rel_now [OF t]
    by (simp add: job_rel_def pg_new_row_def enqueue_row_def nowIso_def finished_def)
  have key: "exists_row (\<lambda>r. pg_job_key r = pg_job_key ?x) (pq_jobs p) \<longleftrightarrow> exists_row (\<lambda>r. job_key r = job_key ?y) (jobs s)"
    by (rule exists_row_rel [OF jobs]) (simp add: job_rel_key job_rel_key [OF new])
  have ids: "exists_row (\<lambda>r. pj_id r = pj_id ?x) (pq_jobs p) \<longleftrightarrow> exists_row (\<lambda>r. jb_id r = jb_id ?y) (jobs s)"
    by (rule exists_row_rel [OF jobs]) (simp add: job_rel_id job_rel_id [OF new])
  have again: "step_sim pl (=)
    (pg_update_jobs (\<lambda>r. pg_job_key r = pg_job_key ?x \<and> pj_status r = job_cancelled)
      (\<lambda>r. r\<lparr>pj_payload := pj_payload ?x, pj_status := job_queued, pj_priority := pj_priority ?x,
         pj_attempt_count := 0, pj_max_attempts := pj_max_attempts ?x, pj_available_at := pj_available_at ?x,
         pj_leased_until := None, pj_leased_by := None, pj_last_error := None, pj_updated_at := 1000 * t\<rparr>))
    (update_jobs (\<lambda>r. job_key r = job_key ?y \<and> jb_status r = job_cancelled)
      (\<lambda>r. r\<lparr>jb_payload := jb_payload ?y, jb_status := job_queued, jb_priority := jb_priority ?y,
         jb_attempt_count := 0, jb_max_attempts := jb_max_attempts ?y, jb_available_at := jb_available_at ?y,
         jb_leased_until := None, jb_leased_by := None, jb_last_error := None,
         jb_updated_at := jb_updated_at ?y\<rparr>)) p s"
  proof (rule update_step [OF rel])
    show "pg_job_key x = pg_job_key ?x \<and> pj_status x = job_cancelled \<longleftrightarrow> job_key y = job_key ?y \<and> jb_status y = job_cancelled"
      if "job_rel pl x y" for x y
      using that job_rel_key [OF that] job_rel_key [OF new] by (simp add: job_rel_def)
  qed (use new in \<open>simp_all add: job_rel_def finished_def pg_new_row_def enqueue_row_def\<close>)
  have id: "unique_on jb_id (jobs s @ [?y])" if "\<not> exists_row (\<lambda>r. jb_id r = jb_id ?y) (jobs s)"
    using uniq that by (auto simp: unique_on_def exists_row_key)
  have nonempty: "pj_tenant_id ?x \<noteq> []" "pj_tenant_id ?x = jb_tenant_id ?y"
    using tenant by (simp_all add: pg_new_row_def enqueue_row_def)
  have tn: "pj_tenant_id ?x \<in> set (pq_tenants p) \<longleftrightarrow> tenant_exists (jb_tenant_id ?y) s"
    using ten nonempty by (auto simp: exists_row_key)
  have added: "list_all2 (job_rel pl) (pq_jobs p @ [?x]) (jobs s @ [?y])"
    using jobs new by (simp add: list_all2_appendI)
  show ?thesis
    using again key ids id tn added rel nonempty(1)
    by (auto simp: step_sim_def pg_upsert_job_def upsert_job_row_def pg_update_jobs_def update_jobs_def tables_rel_def)
qed

lemma visible_row_rel:
  assumes "list_all2 (job_rel pl) xs ys" and "tenant \<noteq> []"
    and "\<And>r. r \<in> set ys \<Longrightarrow> jb_id r = i \<Longrightarrow> jb_tenant_id r = tenant"
  shows "rel_option (job_rel pl) (select_first (\<lambda>r. pj_id r = i \<and> pg_visible tenant r) xs)
    (select_first (\<lambda>r. jb_id r = i) ys)"
  using assms unfolding select_first_def
  by (induction xs ys rule: list_all2_induct) (auto simp: job_rel_def pg_visible_def)

lemma enqueue_run:
  assumes "transactionDepth s = 0" and "tenant_exists (enq_tenantId input) s"
    and run: "upsert_job_row (enqueue_row sha t input) s = (y, s')"
    and "transactionDepth s' = 0" and "\<And>e. y = Inl e \<Longrightarrow> s' = s"
  shows "enqueue sha (\<lambda>_. t) input s = (case y of Inl e \<Rightarrow> (Inl e, s')
    | Inr _ \<Rightarrow> (case find_job (enqueue_id sha input) s' of
          None \<Rightarrow> (Inl (TypeError ''Cannot read properties of undefined''), s')
        | Some row \<Rightarrow> (Inr (job_of_row row), s')))"
proof -
  let ?y = "enqueue_row sha t input"
  have depth: "upsert_job_row ?y (s\<lparr>transactionDepth := 1\<rparr>) = (y, s'\<lparr>transactionDepth := 1\<rparr>)"
    using run by (auto simp: upsert_job_row_def split: if_splits)
  have "transaction (bindE (ensureTenant t (enq_tenantId input) (enq_tenantId input)) (\<lambda>_. upsert_job_row ?y)) s = (y, s')"
    using assms(1,2,4,5) depth
    by (cases y) (auto simp: transaction_def bindE_def ensureTenant_def modifyE_def)
  then show ?thesis
    by (cases y; cases "find_job (enqueue_id sha input) s'") (simp_all add: enqueue_def bindE_def effect_defs)
qed

lemma enqueue_simulated:
  assumes pl: "platform_ok pl" and rel: "queue_rel pl p s" and t: "iso_range t"
    and tenant: "enq_tenantId input \<noteq> []" "tenant_exists (enq_tenantId input) s" and available: "available_ok input"
    and own: "\<And>r. r \<in> set (jobs s) \<Longrightarrow> jb_id r = enqueue_id sha input \<Longrightarrow> jb_tenant_id r = enq_tenantId input"
  shows "simulated pl (job_out_rel pl) (pg_enqueue pl sha t (1000 * t) input) (enqueue sha (\<lambda>_. t) input) p s"
proof -
  let ?i = "enqueue_id sha input" and ?y = "enqueue_row sha t input"
  obtain u where u: "nullish (enq_availableAt input) (toISOString t) = toISOString u" "iso_range u"
    using available t by (cases "enq_availableAt input") (auto simp: available_ok_def iso_text_iff)
  have time: "time_param pl (nullish (enq_availableAt input) (toISOString t)) = retE (1000 * u)"
    using u pl by (simp add: time_param_def platform_ok_def)
  have tables: "tables_rel pl p s" "transactionDepth s = 0" "db_ok s" using rel by (simp_all add: queue_rel_iff)
  have "ts_rel (1000 * u) (nullish (enq_availableAt input) (nowIso t))"
    using ts_rel_now [OF u(2)] u(1) by (simp add: nowIso_def)
  then have step: "step_sim pl (=) (pg_upsert_job (1000 * t) (pg_new_row sha (1000 * t) input (1000 * u)))
      (upsert_job_row ?y) p s"
    using upsert_step [OF tables(1) tenant(1) t] by blast
  obtain x p' y s' where run: "pg_upsert_job (1000 * t) (pg_new_row sha (1000 * t) input (1000 * u)) p = (x, p')"
    "upsert_job_row ?y s = (y, s')" by fastforce
  have after: "rel_sum same_error (=) x y" "tables_rel pl p' s'" using step run by (simp_all add: step_sim_def)
  have kept: "db_ok s'" "transactionDepth s' = 0" and rolled: "y = Inl e \<Longrightarrow> s' = s" for e
    using run(2) preservesD [OF db_ok_upsert_job tables(3) run(2)]
      preservesD [OF depth_job_statements(1) tables(2) run(2)]
    by (auto simp: upsert_job_row_def split: if_splits)
  have own': "jb_tenant_id r = enq_tenantId input" if "r \<in> set (jobs s')" "jb_id r = ?i" for r
    using that run(2) own
    by (auto simp: upsert_job_row_def set_update_where enqueue_row_def split: if_splits)
  have found: "rel_option (job_rel pl) (select_first (\<lambda>r. pj_id r = ?i \<and> pg_visible (enq_tenantId input) r) (pq_jobs p'))
      (find_job ?i s')"
    unfolding find_job_def using after(2) tenant(1) own' by (intro visible_row_rel) (simp_all add: tables_rel_def)
  note lite = enqueue_run [OF tables(2) tenant(2) run(2) kept(2) rolled]
  show ?thesis
  proof (cases x)
    case (Inl e)
    then obtain e' where "y = Inl e'" "same_error e e'" using after(1) by (cases y) auto
    then show ?thesis using Inl run(1) lite rolled rel
      by (simp add: simulated_def pg_enqueue_def pg_transaction_def time bindE_def)
  next
    case (Inr v)
    then obtain v' where y: "y = Inr v'" using after(1) by (cases y) auto
    then show ?thesis using Inr run(1) lite found after(2) kept map_row_rel [OF pl]
      by (cases "find_job ?i s'"; cases "select_first (\<lambda>r. pj_id r = ?i \<and> pg_visible (enq_tenantId input) r) (pq_jobs p')")
        (auto simp: simulated_def pg_enqueue_def pg_transaction_def time bindE_def effect_defs queue_rel_iff)
  qed
qed

lemma oldest_rel:
  assumes "list_all2 (job_rel pl) xs ys" and "\<And>y. y \<in> set ys \<Longrightarrow> waiting y"
  shows "rel_option ts_rel (first_by (\<lambda>x. x) (map pj_available_at xs)) (first_by (\<lambda>x. x) (map jb_available_at ys))"
proof (rule first_by_rel)
  show "list_all2 ts_rel (map pj_available_at xs) (map jb_available_at ys)"
    using assms by (induction xs ys rule: list_all2_induct) (auto intro: job_rel_available)
qed (rule ts_rel_le)

lemma stats_simulated:
  assumes rel: "queue_rel pl p s" and t: "iso_range t" and tenant: "tenant \<noteq> []"
  shows "simulated pl (=) (pg_stats (1000 * t) tenant) (stats legacy (\<lambda>_. t) tenant) p s"
proof -
  let ?mine = "select_where (pg_visible tenant) (pq_jobs p)" and ?own = "select_where (\<lambda>r. jb_tenant_id r = tenant) (jobs s)"
  have mine: "list_all2 (job_rel pl) ?mine ?own"
    unfolding select_where_def using rel tenant
    by (intro filter_rel) (auto simp: queue_rel_def pg_visible_def job_rel_def)
  have count: "count_where (\<lambda>r. pj_status r = st) ?mine = count_where (\<lambda>r. jb_status r = st) ?own" for st
    using update_rel [OF mine, of "\<lambda>r. pj_status r = st" "\<lambda>r. jb_status r = st" "\<lambda>r. r" "\<lambda>r. r"]
    by (simp add: job_rel_def)
  have ready: "list_all2 (job_rel pl) (select_where (\<lambda>r. pg_waiting r \<and> pj_available_at r \<le> 1000 * t) ?mine)
      (select_where (\<lambda>r. waiting r \<and> jb_available_at r \<le> nowIso t) ?own)"
    unfolding select_where_def [of "\<lambda>r. pg_waiting r \<and> pj_available_at r \<le> 1000 * t"]
      select_where_def [of "\<lambda>r. waiting r \<and> jb_available_at r \<le> nowIso t"]
  proof (rule filter_rel [OF mine])
    fix x y assume r: "job_rel pl x y"
    have "pj_available_at x \<le> 1000 * t \<longleftrightarrow> jb_available_at y \<le> nowIso t" if "waiting y"
      using ts_rel_le [OF job_rel_available [OF r that] ts_rel_now [OF t]] by (simp add: nowIso_def)
    then show "pg_waiting x \<and> pj_available_at x \<le> 1000 * t \<longleftrightarrow> waiting y \<and> jb_available_at y \<le> nowIso t"
      using job_rel_waiting [OF r] by auto
  qed
  have "rel_option ts_rel
      (first_by (\<lambda>x. x) (map pj_available_at (select_where (\<lambda>r. pg_waiting r \<and> pj_available_at r \<le> 1000 * t) ?mine)))
      (first_by (\<lambda>x. x) (map jb_available_at (select_where (\<lambda>r. waiting r \<and> jb_available_at r \<le> nowIso t) ?own)))"
    by (rule oldest_rel [OF ready]) (auto simp: select_where_def)
  moreover have "(case a of None \<Rightarrow> Some 0 | Some a \<Rightarrow> Some (max 0 (of_int (1000 * t - a) / 1000000))) =
      (case b of None \<Rightarrow> Some 0 | Some a \<Rightarrow> if a = [] then Some 0 else
         map_option (\<lambda>t'. max 0 (of_int (t - t') / 1000 :: rat)) (Date_parse legacy a))"
    if "rel_option ts_rel a b" for a b
    using that
  proof (cases b)
    case (Some y)
    then obtain x where x: "a = Some x" "ts_rel x y" using \<open>rel_option ts_rel a b\<close> by (auto simp: option_rel_Some2)
    then obtain v where v: "x = 1000 * v" "iso_range v" "y = toISOString v" by (auto simp: ts_rel_def)
    have scale: "(1000 * c - 1000 * d) / 1000000 = (c - d) / (1000 :: rat)" for c d by (simp add: field_simps)
    show ?thesis using v x(1) Some ts_rel_nonempty [OF x(2)] by (simp add: scale)
  qed simp
  ultimately have "fst (pg_stats (1000 * t) tenant p) = fst (stats legacy (\<lambda>_. t) tenant s)"
    by (simp add: pg_stats_def stats_def getE_def Let_def count)
  then show ?thesis using rel
    by (simp add: simulated_def pg_stats_def stats_def getE_def)
qed

section \<open>Sequences of calls\<close>

datatype queue_call =
    EnqueueCall EnqueueJob
  | CancelCall CancelPendingJobs
  | LeaseCall string int
  | RenewCall Job int
  | CompleteCall Job
  | FailCall Job error
  | StatsCall string

datatype queue_result =
    JobResult Job
  | CountResult nat
  | LeaseResult "Job option"
  | DoneResult
  | StatsResult QueueStats

definition mapE :: "('a \<Rightarrow> 'b) \<Rightarrow> ('e, 's, 'a) op \<Rightarrow> ('e, 's, 'b) op" where
  "mapE f m = bindE m (\<lambda>x. retE (f x))"

fun pg_call :: "pg_platform \<Rightarrow> (string \<Rightarrow> string) \<Rightarrow> int \<Rightarrow> queue_call \<Rightarrow> queue_result pg_queue_op" where
  "pg_call pl sha t (EnqueueCall input) = mapE JobResult (pg_enqueue pl sha t (1000 * t) input)"
| "pg_call pl sha t (CancelCall input) = mapE CountResult (pg_cancelPending (1000 * t) input)"
| "pg_call pl sha t (LeaseCall w n) = mapE LeaseResult (pg_leaseNext pl [] (1000 * t) (1000 * t) w n)"
| "pg_call pl sha t (RenewCall job n) = mapE LeaseResult (pg_renewLease pl (1000 * t) (1000 * t) job n)"
| "pg_call pl sha t (CompleteCall job) = mapE (\<lambda>_. DoneResult) (pg_complete pl (1000 * t) job)"
| "pg_call pl sha t (FailCall job err) = mapE (\<lambda>_. DoneResult) (pg_fail pl (1000 * t) job err)"
| "pg_call pl sha t (StatsCall tenant) = mapE StatsResult (pg_stats (1000 * t) tenant)"

fun sqlite_call :: "(string \<Rightarrow> string) \<Rightarrow> int \<Rightarrow> queue_call \<Rightarrow> queue_result store_op" where
  "sqlite_call sha t (EnqueueCall input) = mapE JobResult (enqueue sha (\<lambda>_. t) input)"
| "sqlite_call sha t (CancelCall input) = mapE CountResult (cancelPending (\<lambda>_. t) input)"
| "sqlite_call sha t (LeaseCall w n) = mapE LeaseResult (leaseNext (\<lambda>_. t) w n)"
| "sqlite_call sha t (RenewCall job n) = mapE LeaseResult (renewLease (\<lambda>_. t) job n)"
| "sqlite_call sha t (CompleteCall job) = mapE (\<lambda>_. DoneResult) (complete (\<lambda>_. t) job)"
| "sqlite_call sha t (FailCall job err) = mapE (\<lambda>_. DoneResult) (fail (\<lambda>_. t) job err)"
| "sqlite_call sha t (StatsCall tenant) = mapE StatsResult (stats (\<lambda>_. None) (\<lambda>_. t) tenant)"

text \<open>What the two queues are compared on: the tenant of a job exists and is not the empty string, the duration
  of a lease is one that Postgres accepts, a worker presents the copy it was given, and no job with a screenshot
  is cancelled.\<close>

fun call_ok :: "(string \<Rightarrow> string) \<Rightarrow> int \<Rightarrow> store \<Rightarrow> queue_call \<Rightarrow> bool" where
  "call_ok sha t s (EnqueueCall input) \<longleftrightarrow> enq_tenantId input \<noteq> [] \<and> tenant_exists (enq_tenantId input) s \<and>
     available_ok input \<and>
     list_all (\<lambda>r. jb_id r = enqueue_id sha input \<longrightarrow> jb_tenant_id r = enq_tenantId input) (jobs s)"
| "call_ok sha t s (CancelCall input) \<longleftrightarrow> can_tenantId input \<noteq> [] \<and> can_type input \<noteq> ''ingest.screenshot''"
| "call_ok sha t s (LeaseCall w n) \<longleftrightarrow> w \<noteq> [] \<and> lease_duration_ok n \<and> iso_range (t + n * 1000)"
| "call_ok sha t s (RenewCall job n) \<longleftrightarrow> copy_ok job \<and> lease_duration_ok n \<and> iso_range (t + n * 1000)"
| "call_ok sha t s (CompleteCall job) \<longleftrightarrow> copy_ok job"
| "call_ok sha t s (FailCall job err) \<longleftrightarrow> copy_ok job \<and> iso_range (t + 900000) \<and>
     list_all (\<lambda>r. holds_lease job t r \<longrightarrow> jb_attempt_count r = job_attemptCount job \<and>
       jb_max_attempts r = job_maxAttempts job) (jobs s)"
| "call_ok sha t s (StatsCall tenant) \<longleftrightarrow> tenant \<noteq> []"

fun result_rel :: "pg_platform \<Rightarrow> queue_result \<Rightarrow> queue_result \<Rightarrow> bool" where
  "result_rel pl (JobResult j) (JobResult k) \<longleftrightarrow> job_out_rel pl j k"
| "result_rel pl a b \<longleftrightarrow> a = b"

lemma simulated_results:
  assumes "simulated pl R m n p s" and "\<And>a b. R a b \<Longrightarrow> S (f a) (g b)"
  shows "simulated pl S (mapE f m) (mapE g n) p s"
proof -
  obtain x p' y s' where run: "m p = (x, p')" "n s = (y, s')" by fastforce
  show ?thesis using assms run
    by (cases x; cases y) (auto simp: simulated_def mapE_def bindE_def retE_def)
qed

lemma call_simulated:
  assumes pl: "platform_ok pl" and rel: "queue_rel pl p s" and t: "iso_range t" and ok: "call_ok sha t s c"
  shows "simulated pl (result_rel pl) (pg_call pl sha t c) (sqlite_call sha t c) p s"
proof (cases c)
  case (EnqueueCall input)
  then show ?thesis using ok unfolding EnqueueCall pg_call.simps sqlite_call.simps
    by (intro simulated_results [OF enqueue_simulated [OF pl rel t]]) (auto simp: list_all_iff)
next
  case (CancelCall input)
  then show ?thesis using ok unfolding CancelCall pg_call.simps sqlite_call.simps
    by (intro simulated_results [OF cancel_simulated [OF rel]]) auto
next
  case (LeaseCall w n)
  then show ?thesis using ok unfolding LeaseCall pg_call.simps sqlite_call.simps
    by (intro simulated_results [OF lease_simulated [OF pl rel t]]) auto
next
  case (RenewCall job n)
  then show ?thesis using ok t unfolding RenewCall pg_call.simps sqlite_call.simps
    by (intro simulated_results [OF renew_simulated [OF pl rel]]) auto
next
  case (CompleteCall job)
  then show ?thesis using ok t unfolding CompleteCall pg_call.simps sqlite_call.simps
    by (intro simulated_results [OF complete_simulated [OF pl rel]]) auto
next
  case (FailCall job err)
  then show ?thesis using ok t unfolding FailCall pg_call.simps sqlite_call.simps
    by (intro simulated_results [OF fail_simulated [OF pl rel]]) (auto simp: list_all_iff)
next
  case (StatsCall tenant)
  then show ?thesis using ok t unfolding StatsCall pg_call.simps sqlite_call.simps
    by (intro simulated_results [OF stats_simulated [OF rel]]) auto
qed

fun run_calls :: "(int \<Rightarrow> queue_call \<Rightarrow> (error, 's, 'a) op) \<Rightarrow> (int \<times> queue_call) list \<Rightarrow> 's \<Rightarrow> (error + 'a) list \<times> 's" where
  "run_calls f [] s = ([], s)"
| "run_calls f ((t, c) # cs) s = (case f t c s of (r, s') \<Rightarrow>
     case run_calls f cs s' of (rs, u) \<Rightarrow> (r # rs, u))"

fun calls_ok :: "(string \<Rightarrow> string) \<Rightarrow> (int \<times> queue_call) list \<Rightarrow> store \<Rightarrow> bool" where
  "calls_ok sha [] s \<longleftrightarrow> True"
| "calls_ok sha ((t, c) # cs) s \<longleftrightarrow> iso_range t \<and> call_ok sha t s c \<and> calls_ok sha cs (snd (sqlite_call sha t c s))"

text \<open>C16. The two queues do the same on the calls that both admit. From related tables, a sequence of calls
  \<open>enqueue\<close>, \<open>cancelPending\<close>, \<open>leaseNext\<close>, \<open>renewLease\<close>, \<open>complete\<close>, \<open>fail\<close> and \<open>stats\<close>, each at a time of its
  own, gives related tables, and call by call both queues return the same result (in the job that \<open>enqueue\<close>
  returns, up to the time written into a redacted payload and the time of availability) or both throw the same
  error (up to a capital letter and the name of a violated key). The calls are those of \<open>calls_ok\<close>: no job with a
  screenshot is cancelled, the tenant of a call is not empty and that of a new job exists, a lease is
  asked for by a named worker for 5 to 3600 seconds, and a worker presents a copy with its lease and, when the job
  failed, with the attempts of the row that it holds. No rows are locked by another transaction, and the times are those
  that ISO texts of four-digit years name. Outside of these calls the two queues differ, see
  \<open>pg_cancel_keeps_payload\<close>.\<close>

theorem postgres_queue_refines_sqlite:
  assumes "platform_ok pl" and "queue_rel pl p s" and "calls_ok sha cs s"
  shows "list_all2 (rel_sum same_error (result_rel pl)) (fst (run_calls (pg_call pl sha) cs p)) (fst (run_calls (sqlite_call sha) cs s)) \<and>
    queue_rel pl (snd (run_calls (pg_call pl sha) cs p)) (snd (run_calls (sqlite_call sha) cs s))"
  using assms(2,3)
proof (induction cs arbitrary: p s)
  case (Cons a cs)
  obtain t c where a: "a = (t, c)" by (cases a)
  obtain x p' y s' where run: "pg_call pl sha t c p = (x, p')" "sqlite_call sha t c s = (y, s')" by fastforce
  have "simulated pl (result_rel pl) (pg_call pl sha t c) (sqlite_call sha t c) p s"
    using Cons.prems by (intro call_simulated [OF assms(1)]) (simp_all add: a)
  then have "rel_sum same_error (result_rel pl) x y" "queue_rel pl p' s'" using run by (simp_all add: simulated_def)
  then show ?case using Cons.IH [of p' s'] Cons.prems run by (simp add: a case_prod_unfold)
qed simp

lemmas demo_store_defs = new_Store_def ensureTenant_def modifyE_def db.defs store.defs empty_db_def exists_row_def
  unique_on_def

definition demo_calls :: "(int \<times> queue_call) list" where
  "demo_calls = [(1000, EnqueueCall \<lparr>enq_tenantId = ''t'', enq_type = ''sync'', enq_idempotencyKey = ''k'',
      enq_payload = JNull, enq_priority = None, enq_maxAttempts = None, enq_availableAt = None\<rparr>),
    (2000, LeaseCall ''w'' 60), (3000, StatsCall ''t''),
    (4000, CompleteCall \<lparr>job_id = ''j'', job_tenantId = ''t'', job_type = ''sync'', job_idempotencyKey = ''k'',
      job_payload = JNull, job_status = job_running, job_attemptCount = 1, job_maxAttempts = 5,
      job_availableAt = toISOString 1000, job_leasedBy = Some ''w'', job_leasedUntil = Some (toISOString 62000)\<rparr>),
    (5000, CancelCall \<lparr>can_tenantId = ''t'', can_type = ''sync'', can_payload = []\<rparr>)]"

theorem postgres_queue_refines_sqlite_witness:
  "queue_rel demo_platform
    (snd (run_calls (pg_call demo_platform (\<lambda>x. x)) demo_calls \<lparr>pq_tenants = [''t''], pq_jobs = [], pq_states = []\<rparr>))
    (snd (run_calls (sqlite_call (\<lambda>x. x)) demo_calls (new_Store 0 ''t'')))"
proof -
  have "queue_rel demo_platform \<lparr>pq_tenants = [''t''], pq_jobs = [], pq_states = []\<rparr> (new_Store 0 ''t'')"
    by (simp add: queue_rel_def db_ok_defs demo_store_defs)
  moreover have "calls_ok (\<lambda>x. x) demo_calls (new_Store 0 ''t'')"
    by (simp add: demo_calls_def demo_store_defs available_ok_def copy_ok_def iso_text_iff
        lease_duration_ok_def iso_range_def) (auto intro: exI [of _ 62000])
  ultimately show ?thesis using postgres_queue_refines_sqlite [OF demo_platform_ok] by blast
qed

section \<open>The lease as a token\<close>

text \<open>The worker gets the end of its lease as text with milliseconds and presents that text. The column has
  microseconds, and the server compares for equality.\<close>

lemma pg_lease_end_date:
  assumes "platform_ok pl" and "iso_range (clock div 1000 + n * 1000)"
  shows "date_text pl (pg_lease_end clock n) = toISOString (clock div 1000 + n * 1000) \<and>
    time_param pl (toISOString (clock div 1000 + n * 1000)) = retE (pg_lease_end clock n)"
proof -
  define u where "u = clock div 1000 + n * 1000"
  have "pg_lease_end clock n = 1000 * u" by (simp add: pg_lease_end_def u_def)
  then show ?thesis using assms unfolding u_def [symmetric]
    by (simp add: platform_ok_def date_text_def time_param_def)
qed

lemma pg_leaseNext_Some:
  assumes "pg_leaseNext pl locked now clock w n p = (Inr (Some j), p')" and "unique_on pj_id (pq_jobs p)"
  obtains row T where "row \<in> set T" and "unique_on pj_id T" and "j = map_row pl (pg_grant w (pg_lease_end clock n) now row)"
    and "pq_jobs p' = update_where (\<lambda>r. pj_id r = pj_id row) (pg_grant w (pg_lease_end clock n) now) T"
proof -
  obtain k p1 where e: "pg_expire pl now p = (Inr k, p1)" and u: "unique_on pj_id (pq_jobs p1)"
    using assms(2) by (auto simp: pg_expire_def pg_update_jobs_def unique_on_update_where)
  have "lease_duration_ok n" using assms(1)
    by (auto simp: pg_leaseNext_def lease_job_def bindE_def pg_transaction_def throwE_def split: if_splits)
  then obtain row where row: "pg_candidate locked now p1 = Some row" "j = map_row pl (pg_grant w (pg_lease_end clock n) now row)"
    "pq_jobs p' = update_where (\<lambda>r. pj_id r = pj_id row) (pg_grant w (pg_lease_end clock n) now) (pq_jobs p1)"
    using assms(1) e
    by (cases "pg_candidate locked now p1")
      (auto simp: pg_leaseNext_def lease_job_def pg_transaction_def pg_update_jobs_def pg_touch_tenant_def
        bindE_def effect_defs split: if_splits)
  moreover have "row \<in> set (pq_jobs p1)"
    using row(1) first_by_Some unfolding pg_candidate_def by fastforce
  ultimately show thesis using that u by blast
qed

text \<open>C17. On Postgres a lease can be used until it ends. Whatever the microseconds of the server's clock and
  whatever jobs are locked by others, the job that \<open>leaseNext\<close> returns carries the worker's name and an end of
  the lease in whole milliseconds; presented at any time before that end, \<open>complete\<close> accepts it and the job has
  succeeded; with another worker's name \<open>complete\<close> throws and changes nothing.\<close>

theorem pg_lease_settles:
  assumes "platform_ok pl" and "unique_on pj_id (pq_jobs p)"
    and "pg_leaseNext pl locked now clock w n p = (Inr (Some j), p')"
    and "iso_range (clock div 1000 + n * 1000)" and "later < pg_lease_end clock n"
  shows "job_leasedBy j = Some w \<and> job_leasedUntil j = Some (toISOString (clock div 1000 + n * 1000)) \<and>
    (\<exists>q r. pg_complete pl later j p' = (Inr (), q) \<and> r \<in> set (pq_jobs q) \<and> pj_id r = job_id j \<and>
       pj_status r = job_succeeded) \<and>
    (\<forall>x. x \<noteq> w \<longrightarrow> pg_complete pl later (j\<lparr>job_leasedBy := Some x\<rparr>) p' = (Inl (Error ''job lease is no longer valid''), p'))"
proof -
  obtain row T where row: "row \<in> set T" "unique_on pj_id T" "j = map_row pl (pg_grant w (pg_lease_end clock n) now row)"
    "pq_jobs p' = update_where (\<lambda>r. pj_id r = pj_id row) (pg_grant w (pg_lease_end clock n) now) T"
    using pg_leaseNext_Some [OF assms(3,2)] .
  let ?r = "pg_grant w (pg_lease_end clock n) now row"
  note token = pg_lease_end_date [OF assms(1,4)]
  have id: "pj_id (pg_grant w e m r) = pj_id r" for e m r by (simp add: pg_grant_def)
  have r: "?r \<in> set (pq_jobs p')" using row(1,4) by (auto simp: set_update_where)
  have uniq: "unique_on pj_id (pq_jobs p')" using row(2,4) by (simp add: unique_on_update_where id)
  have found: "select_first (\<lambda>q. pj_id q = pj_id row) (pq_jobs p') = Some ?r"
    using uniq r by (intro select_first_unique [where k = pj_id]) (auto simp: id)
  have param: "lease_param pl (job_leasedUntil j) = (retE (Some (pg_lease_end clock n)) :: int option pg_queue_op)"
    by (simp add: row(3) map_row_def pg_grant_def lease_param_def token)
  have j: "job_id j = pj_id row" "job_leasedBy j = Some w" "job_leasedUntil j = Some (date_text pl (pg_lease_end clock n))"
    by (simp_all add: row(3) map_row_def pg_grant_def)
  have held: "lease_lost (Some (pg_lease_end clock n)) (Some x) later ?r \<longleftrightarrow> x \<noteq> w" for x
    using assms(5) by (auto simp: lease_lost_def pg_grant_def)
  have "succeeded_row pl later ?r \<in> set (update_where (\<lambda>q. pj_id q = pj_id row) (succeeded_row pl later) (pq_jobs p'))"
    using r id by (force simp: set_update_where)
  moreover have "pj_id (succeeded_row pl later ?r) = pj_id row" "pj_status (succeeded_row pl later ?r) = job_succeeded"
    by (simp_all add: succeeded_row_def id)
  ultimately have "\<exists>q r. pg_complete pl later j p' = (Inr (), q) \<and> r \<in> set (pq_jobs q) \<and> pj_id r = job_id j \<and>
       pj_status r = job_succeeded"
    using param found held
    by (auto simp: pg_complete_def finish_job_def pg_transaction_def pg_update_jobs_def bindE_def effect_defs j)
  moreover have "pg_complete pl later (j\<lparr>job_leasedBy := Some x\<rparr>) p' = (Inl (Error ''job lease is no longer valid''), p')"
    if "x \<noteq> w" for x
    using param found held that
    by (simp add: pg_complete_def finish_job_def pg_transaction_def bindE_def effect_defs j)
  ultimately show ?thesis using j by (simp add: token)
qed

text \<open>A job leased at 2.000001 s, with the microsecond that no Date can hold.\<close>

definition demo_pg :: pg_queue where
  "demo_pg = \<lparr>pq_tenants = [''t''], pq_jobs = [\<lparr>pj_id = ''j'', pj_tenant_id = ''t'', pj_type = ''sync'',
     pj_idempotency_key = ''k'', pj_payload = JNull, pj_status = job_queued, pj_priority = 100, pj_attempt_count = 0,
     pj_max_attempts = 5, pj_available_at = 0, pj_leased_until = None, pj_leased_by = None, pj_last_error = None,
     pj_created_at = 0, pj_updated_at = 0\<rparr>], pq_states = []\<rparr>"

theorem pg_lease_settles_witness:
  "\<exists>j p'. pg_leaseNext demo_platform [] 2000000 2000001 ''w'' 60 demo_pg = (Inr (Some j), p') \<and>
     fst (pg_complete demo_platform 61999999 j p') = Inr ()"
proof -
  have "\<exists>j p'. pg_leaseNext demo_platform [] 2000000 2000001 ''w'' 60 demo_pg = (Inr (Some j), p')"
    by (simp add: pg_leaseNext_def lease_job_def pg_transaction_def pg_expire_def pg_update_jobs_def pg_candidate_def
        pg_leasable_def pg_waiting_def pg_tenant_head_def pg_touch_tenant_def bindE_def effect_defs demo_pg_def
        lease_duration_ok_def update_where_def first_by_def order_by_def)
  then obtain j p' where run: "pg_leaseNext demo_platform [] 2000000 2000001 ''w'' 60 demo_pg = (Inr (Some j), p')"
    by blast
  have "unique_on pj_id (pq_jobs demo_pg)" by (simp add: demo_pg_def unique_on_def)
  then show ?thesis
    using pg_lease_settles [OF demo_platform_ok _ run, of 61999999] run by (auto simp: pg_lease_end_def iso_range_def)
qed

end
