(* ===== verification/Resolver.thy ===== *)
theory Resolver
  imports StoreIntegrity
begin

text \<open>
  The resolver, src/src/resolver.ts: from the claims of an organization to its opportunities. The
  repository is the interface of src/src/application/ports/recruiting-repository.ts, a record of the
  operations that the resolver and the ingestion service call, instantiated with the operations of
  the SQLite store. Scores are exact rationals in place of doubles, \<open>None\<close> is \<open>NaN\<close>. The value
  of an event claim has text members, as its type in src/src/domain/models.ts says. \<open>clk n\<close> is
  the clock when the n-th claim is scored and \<open>stamp\<close> the clock when the opportunities are built.
\<close>

section \<open>The repository interface\<close>

record 's repository =
  repo_stageSource :: "int \<Rightarrow> SourceItem \<Rightarrow> string \<Rightarrow> (error, 's, StageSourceResult) op"
  repo_markSourceProcessing :: "int \<Rightarrow> string \<Rightarrow> string \<Rightarrow> (error, 's, nat) op"
  repo_markSourceSucceeded :: "int \<Rightarrow> string \<Rightarrow> string \<Rightarrow> (error, 's, unit) op"
  repo_markSourceFailed :: "int \<Rightarrow> string \<Rightarrow> ProcessingFailure \<Rightarrow> string \<Rightarrow> (error, 's, unit) op"
  repo_getSource :: "string \<Rightarrow> string \<Rightarrow> (error, 's, SourceItem option) op"
  repo_putClaims :: "Claim list \<Rightarrow> string \<Rightarrow> (error, 's, unit) op"
  repo_listClaims :: "string \<Rightarrow> string \<Rightarrow> (error, 's, Claim list) op"
  repo_replaceOpportunities :: "string \<Rightarrow> Opportunity list \<Rightarrow> string \<Rightarrow> (error, 's, unit) op"
  repo_listOpportunityOverrides :: "string \<Rightarrow> string \<Rightarrow> (error, 's, OpportunityOverride list) op"
  repo_transaction :: "(error, 's, unit) op \<Rightarrow> (error, 's, unit) op"

definition sqlite_repository :: "(string \<Rightarrow> string) \<Rightarrow> store repository" where
  "sqlite_repository sha =
     \<lparr>repo_stageSource = stageSource sha, repo_markSourceProcessing = markSourceProcessing,
      repo_markSourceSucceeded = markSourceSucceeded, repo_markSourceFailed = markSourceFailed,
      repo_getSource = getSource, repo_putClaims = putClaims, repo_listClaims = listClaims,
      repo_replaceOpportunities = replaceOpportunities,
      repo_listOpportunityOverrides = listOpportunityOverrides, repo_transaction = transaction\<rparr>"

section \<open>Scores\<close>

fun authority :: "SourceType \<Rightarrow> rat" where
  "authority application = 1"
| "authority groupme = 96/100"
| "authority instagram = 94/100"
| "authority gmail = 92/100"
| "authority linkedin = 88/100"
| "authority website = 78/100"
| "authority bio_link = 75/100"
| "authority screenshot = 72/100"
| "authority heel_life = 55/100"

definition RESOLVER_VERSION :: string where
  "RESOLVER_VERSION = ''resolver-v2''"

definition claim_time :: "(string \<Rightarrow> int option) \<Rightarrow> Claim \<Rightarrow> int option" where
  "claim_time legacy c = Date_parse legacy (nullish (clm_publishedAt c) (clm_extractedAt c))"

definition recency :: "int \<Rightarrow> int \<Rightarrow> rat" where
  "recency now t = (let ageDays = max 0 (of_int (now - t) / 86400000) in
     max (55/100) (1 - min ageDays 365 / 800))"

definition score_value ::
    "(string \<Rightarrow> int option) \<Rightarrow> int \<Rightarrow> SourceType option \<Rightarrow> Claim \<Rightarrow> rat option" where
  "score_value legacy now src c =
     (let a = (case src of None \<Rightarrow> 1/2 | Some st \<Rightarrow> authority st) in
      map_option (\<lambda>t. clm_confidence c * a * recency now t) (claim_time legacy c))"

definition scoreClaim ::
    "'s repository \<Rightarrow> (string \<Rightarrow> int option) \<Rightarrow> int \<Rightarrow> Claim \<Rightarrow> string \<Rightarrow> (error, 's, rat option) op"
where
  "scoreClaim repo legacy now c tenantId =
     bindE (repo_getSource repo (clm_sourceItemId c) tenantId) (\<lambda>src.
       retE (score_value legacy now (map_option src_sourceType src) c))"

text \<open>\<open>sort\<close> with a comparator whose \<open>NaN\<close> counts as 0, and its first element. The sort is
  stable; where the comparator is not consistent (some score is \<open>NaN\<close>) the language leaves the
  order open, and the insertion order below is one of the admissible ones.\<close>

type_synonym 'a comparator = "'a \<Rightarrow> 'a \<Rightarrow> rat option"

fun js_insert :: "'a comparator \<Rightarrow> 'a \<Rightarrow> 'a list \<Rightarrow> 'a list" where
  "js_insert cmp x [] = [x]"
| "js_insert cmp x (y # ys) = (if nullish (cmp x y) 0 \<le> 0 then x # y # ys else y # js_insert cmp x ys)"

definition js_sort :: "'a comparator \<Rightarrow> 'a list \<Rightarrow> 'a list" where
  "js_sort cmp xs = foldr (js_insert cmp) xs []"

definition js_first :: "'a list \<Rightarrow> 'a option" where
  "js_first xs = (case xs of [] \<Rightarrow> None | x # _ \<Rightarrow> Some x)"

definition js_minus :: "rat option \<Rightarrow> rat option \<Rightarrow> rat option" where
  "js_minus x y = (case (x, y) of (Some a, Some b) \<Rightarrow> Some (a - b) | _ \<Rightarrow> None)"

definition by_score :: "(Claim \<Rightarrow> rat option) \<Rightarrow> Claim comparator" where
  "by_score score a b = js_minus (score b) (score a)"

definition newest :: "(string \<Rightarrow> int option) \<Rightarrow> Claim list \<Rightarrow> Claim option" where
  "newest legacy xs = js_first (js_sort (\<lambda>a b.
     js_minus (map_option of_int (claim_time legacy b)) (map_option of_int (claim_time legacy a))) xs)"

section \<open>Opportunities\<close>

definition score_of :: "(string \<times> rat option) list \<Rightarrow> Claim option \<Rightarrow> rat option" where
  "score_of scores claim = (case claim of None \<Rightarrow> Some 0
     | Some c \<Rightarrow> nullish (map_of (rev scores) (clm_id c)) (Some 0))"

definition js_max :: "rat option \<Rightarrow> rat option \<Rightarrow> rat option" where
  "js_max x y = (case (x, y) of (Some a, Some b) \<Rightarrow> Some (max a b) | _ \<Rightarrow> None)"

definition of_field :: "ClaimField \<Rightarrow> Claim list \<Rightarrow> Claim list" where
  "of_field f cs = filter (\<lambda>c. clm_field c = f) cs"

definition best_claim :: "(string \<times> rat option) list \<Rightarrow> Claim list \<Rightarrow> Claim option" where
  "best_claim scores cs = js_first (js_sort (by_score (\<lambda>c. score_of scores (Some c))) cs)"

text \<open>The time of a claim as the comparisons use it: 0 when there is no claim, no time (\<open>NaN\<close>,
  every comparison false) when its text does not parse.\<close>

definition time_or_zero :: "(string \<Rightarrow> int option) \<Rightarrow> Claim option \<Rightarrow> int option" where
  "time_or_zero legacy c = (case c of None \<Rightarrow> Some 0 | Some x \<Rightarrow> claim_time legacy x)"

definition nan_less :: "int option \<Rightarrow> int option \<Rightarrow> bool" where
  "nan_less x y = (case (x, y) of (Some a, Some b) \<Rightarrow> a < b | _ \<Rightarrow> False)"

definition nan_le :: "int option \<Rightarrow> int option \<Rightarrow> bool" where
  "nan_le x y = (case (x, y) of (Some a, Some b) \<Rightarrow> a \<le> b | _ \<Rightarrow> False)"

definition open_value :: "Claim option \<Rightarrow> json option" where
  "open_value c = map_option clm_value c"

definition explicitlyClosed :: "(string \<Rightarrow> int option) \<Rightarrow> Claim option \<Rightarrow> Claim option \<Rightarrow> bool" where
  "explicitlyClosed legacy bestDeadline latestOpen \<longleftrightarrow> open_value latestOpen = Some (JBool False) \<and>
     nan_le (time_or_zero legacy bestDeadline) (time_or_zero legacy latestOpen)"

definition reopened :: "(string \<Rightarrow> int option) \<Rightarrow> Claim option \<Rightarrow> Claim option \<Rightarrow> bool" where
  "reopened legacy bestDeadline latestOpen \<longleftrightarrow> open_value latestOpen = Some (JBool True) \<and>
     nan_less (time_or_zero legacy bestDeadline) (time_or_zero legacy latestOpen)"

definition deadline_time :: "(string \<Rightarrow> int option) \<Rightarrow> Claim option \<Rightarrow> int option" where
  "deadline_time legacy bestDeadline = (case bestDeadline of None \<Rightarrow> None
     | Some d \<Rightarrow> let text = js_String (clm_value d) in if text = [] then None else Date_parse legacy text)"

definition application_stale ::
    "(string \<Rightarrow> int option) \<Rightarrow> int \<Rightarrow> Claim option \<Rightarrow> Claim option \<Rightarrow> bool" where
  "application_stale legacy now bestDeadline latestOpen \<longleftrightarrow>
     explicitlyClosed legacy bestDeadline latestOpen \<or>
     \<not> reopened legacy bestDeadline latestOpen \<and>
       nan_less (deadline_time legacy bestDeadline) (Some now)"

definition application_explanation ::
    "(string \<Rightarrow> int option) \<Rightarrow> int \<Rightarrow> Claim option \<Rightarrow> Claim option \<Rightarrow> string" where
  "application_explanation legacy now bestDeadline latestOpen =
     (if reopened legacy bestDeadline latestOpen then
        ''A newer source says applications are open; older deadline suppressed until a current deadline is confirmed.''
      else if explicitlyClosed legacy bestDeadline latestOpen then
        ''The newest authoritative source says applications are closed.''
      else if application_stale legacy now bestDeadline latestOpen then
        ''The best-supported deadline is in the past.''
      else ''Resolved from the highest-confidence application claims.'')"

definition claim_ids :: "Claim option list \<Rightarrow> string list" where
  "claim_ids cs = filter (\<lambda>i. i \<noteq> []) (map clm_id (concat (map (\<lambda>c. case c of None \<Rightarrow> [] | Some x \<Rightarrow> [x]) cs)))"

definition application_opportunity ::
    "(string \<Rightarrow> int option) \<Rightarrow> (string \<Rightarrow> string) \<Rightarrow> int \<Rightarrow> int \<Rightarrow> string \<Rightarrow> (string \<times> rat option) list \<Rightarrow>
       Claim option \<Rightarrow> Claim option \<Rightarrow> Claim option \<Rightarrow> Opportunity" where
  "application_opportunity legacy sha now stamp orgId scores bestDeadline bestUrl latestOpen =
     \<lparr>opp_id = stableId sha ''opp'' (orgId @ '':application''), opp_tenantId = None,
      opp_organizationId = orgId, opp_kind = kind_application, opp_title = ''Application'',
      opp_deadlineAt = (if reopened legacy bestDeadline latestOpen then None
        else map_option (\<lambda>d. js_String (clm_value d)) bestDeadline),
      opp_startsAt = None, opp_url = map_option (\<lambda>u. js_String (clm_value u)) bestUrl,
      opp_role = None,
      opp_confidence = js_max (score_of scores bestDeadline) (score_of scores latestOpen),
      opp_stale = application_stale legacy now bestDeadline latestOpen,
      opp_sourceClaimIds = claim_ids [bestDeadline, bestUrl, latestOpen],
      opp_explanation = application_explanation legacy now bestDeadline latestOpen,
      opp_resolvedAt = nowIso stamp, opp_resolverVersion = Some RESOLVER_VERSION,
      opp_deadlinePrecision = (if reopened legacy bestDeadline latestOpen then None
        else Option.bind bestDeadline clm_temporalPrecision),
      opp_startsAtPrecision = None\<rparr>"

text \<open>\<open>`${v.title}`\<close>, \<open>v.startsAt ?? ''\<close>.\<close>

definition template_member :: "json \<Rightarrow> string \<Rightarrow> string" where
  "template_member v k = (case json_get v k of None \<Rightarrow> ''undefined'' | Some x \<Rightarrow> js_String x)"

definition member_or :: "json \<Rightarrow> string \<Rightarrow> string \<Rightarrow> string" where
  "member_or v k d = (case json_get v k of None \<Rightarrow> d | Some x \<Rightarrow> if x = JNull then d else js_String x)"

definition is_object :: "json \<Rightarrow> bool" where
  "is_object v = (case v of JObj _ \<Rightarrow> True | JArr _ \<Rightarrow> True | _ \<Rightarrow> False)"

definition event_id :: "(string \<Rightarrow> string) \<Rightarrow> string \<Rightarrow> json \<Rightarrow> string" where
  "event_id sha orgId v = stableId sha ''opp''
     (orgId @ '':event:'' @ template_member v ''title'' @ '':'' @ member_or v ''startsAt'' [])"

definition event_opportunity ::
    "(string \<Rightarrow> int option) \<Rightarrow> (string \<Rightarrow> string) \<Rightarrow> int \<Rightarrow> int \<Rightarrow> string \<Rightarrow> (string \<times> rat option) list \<Rightarrow>
       Claim \<Rightarrow> Opportunity" where
  "event_opportunity legacy sha now stamp orgId scores c = (let v = clm_value c in
     \<lparr>opp_id = event_id sha orgId v, opp_tenantId = None, opp_organizationId = orgId,
      opp_kind = kind_event, opp_title = member_or v ''title'' ''Recruiting event'',
      opp_deadlineAt = None, opp_startsAt = json_text v ''startsAt'', opp_url = json_text v ''url'',
      opp_role = None, opp_confidence = score_of scores (Some c),
      opp_stale = (case json_text v ''startsAt'' of None \<Rightarrow> False
        | Some t \<Rightarrow> t \<noteq> [] \<and> nan_less (Date_parse legacy t) (Some now)),
      opp_sourceClaimIds = [clm_id c],
      opp_explanation = ''Event extracted from recruiting source.'',
      opp_resolvedAt = nowIso stamp, opp_resolverVersion = Some RESOLVER_VERSION,
      opp_deadlinePrecision = None, opp_startsAtPrecision = json_text v ''startsAtPrecision''\<rparr>)"

definition resolve_claims ::
    "(string \<Rightarrow> int option) \<Rightarrow> (string \<Rightarrow> string) \<Rightarrow> int \<Rightarrow> int \<Rightarrow> string \<Rightarrow> (string \<times> rat option) list \<Rightarrow>
       Claim list \<Rightarrow> Opportunity list" where
  "resolve_claims legacy sha now stamp orgId scores cs =
     (let bestDeadline = best_claim scores (of_field application_deadline cs);
          bestUrl = best_claim scores (of_field application_url cs);
          latestOpen = newest legacy (of_field application_open cs)
      in (if bestDeadline \<noteq> None \<or> latestOpen \<noteq> None
          then [application_opportunity legacy sha now stamp orgId scores bestDeadline bestUrl latestOpen]
          else [])
         @ map (event_opportunity legacy sha now stamp orgId scores)
             (filter (\<lambda>c. is_object (clm_value c)) (of_field field_event cs)))"

section \<open>Reviewed overrides\<close>

definition apply_patch :: "OpportunityOverride \<Rightarrow> Opportunity \<Rightarrow> Opportunity" where
  "apply_patch override o' = (let p = ovr_patch override in
     o'\<lparr>opp_title := nullish (patch_title p) (opp_title o'),
       opp_deadlineAt := coalesce (patch_deadlineAt p) (opp_deadlineAt o'),
       opp_startsAt := coalesce (patch_startsAt p) (opp_startsAt o'),
       opp_url := coalesce (patch_url p) (opp_url o'),
       opp_stale := nullish (patch_stale p) (opp_stale o'),
       opp_explanation := opp_explanation o' @ '' Reviewed override: '' @ ovr_reason override,
       opp_resolverVersion := Some (RESOLVER_VERSION @ ''+review'')\<rparr>)"

fun update_first :: "('a \<Rightarrow> bool) \<Rightarrow> ('a \<Rightarrow> 'a) \<Rightarrow> 'a list \<Rightarrow> 'a list" where
  "update_first p f [] = []"
| "update_first p f (x # xs) = (if p x then f x # xs else x # update_first p f xs)"

definition apply_override :: "Opportunity list \<Rightarrow> OpportunityOverride \<Rightarrow> Opportunity list" where
  "apply_override out override =
     update_first (\<lambda>o'. opp_id o' = ovr_opportunityId override) (apply_patch override) out"

definition apply_overrides :: "OpportunityOverride list \<Rightarrow> Opportunity list \<Rightarrow> Opportunity list" where
  "apply_overrides overrides out = foldl apply_override out overrides"

fun mapE :: "('a \<Rightarrow> ('e, 's, 'b) op) \<Rightarrow> 'a list \<Rightarrow> ('e, 's, 'b list) op" where
  "mapE f [] = retE []"
| "mapE f (x # xs) = bindE (f x) (\<lambda>y. bindE (mapE f xs) (\<lambda>ys. retE (y # ys)))"

definition resolveOrganization ::
    "'s repository \<Rightarrow> (string \<Rightarrow> int option) \<Rightarrow> (string \<Rightarrow> string) \<Rightarrow> (nat \<Rightarrow> int) \<Rightarrow> int \<Rightarrow> string \<Rightarrow> int \<Rightarrow>
       string \<Rightarrow> (error, 's, Opportunity list) op" where
  "resolveOrganization repo legacy sha clk stamp orgId now tenantId =
     bindE (repo_listClaims repo orgId tenantId) (\<lambda>cs.
     bindE (mapE (\<lambda>(n, c). bindE (scoreClaim repo legacy (clk n) c tenantId) (\<lambda>x. retE (clm_id c, x)))
         (enumerate 0 cs)) (\<lambda>scores.
     bindE (repo_listOpportunityOverrides repo orgId tenantId) (\<lambda>overrides.
       let out = apply_overrides overrides (resolve_claims legacy sha now stamp orgId scores cs) in
       bindE (repo_replaceOpportunities repo orgId out tenantId) (\<lambda>_. retE out))))"

section \<open>Sorting\<close>

lemma set_js_insert [simp]: "set (js_insert cmp x xs) = insert x (set xs)"
  by (induction xs) auto

lemma set_js_sort [simp]: "set (js_sort cmp xs) = set xs"
  by (induction xs) (simp_all add: js_sort_def)

lemma js_insert_sorted:
  assumes "\<And>a b. a \<in> insert x (set ys) \<Longrightarrow> b \<in> insert x (set ys) \<Longrightarrow> cmp a b = Some (g b - g a)"
    and "sorted_wrt (\<lambda>a b. g b \<le> g a) ys"
  shows "sorted_wrt (\<lambda>a b. g b \<le> g a) (js_insert cmp x ys)"
  using assms
proof (induction ys)
  case Nil
  then show ?case by simp
next
  case (Cons y ys)
  have c: "cmp x y = Some (g y - g x)" using Cons.prems(1) by simp
  show ?case
  proof (cases "g y \<le> g x")
    case True
    then show ?thesis using Cons.prems(2) c by auto
  next
    case False
    moreover have "sorted_wrt (\<lambda>a b. g b \<le> g a) (js_insert cmp x ys)"
      using Cons.prems by (intro Cons.IH) auto
    ultimately show ?thesis using Cons.prems(2) c by auto
  qed
qed

lemma js_sort_sorted:
  assumes "\<And>a b. a \<in> set xs \<Longrightarrow> b \<in> set xs \<Longrightarrow> cmp a b = Some (g b - g a)"
  shows "sorted_wrt (\<lambda>a b. g b \<le> g a) (js_sort cmp xs)"
  using assms
proof (induction xs)
  case Nil
  then show ?case by (simp add: js_sort_def)
next
  case (Cons x xs)
  have "sorted_wrt (\<lambda>a b. g b \<le> g a) (js_sort cmp xs)" using Cons by simp
  then have "sorted_wrt (\<lambda>a b. g b \<le> g a) (js_insert cmp x (js_sort cmp xs))"
    using Cons.prems by (intro js_insert_sorted) auto
  then show ?case by (simp add: js_sort_def)
qed

lemma js_first_in: "js_first xs = Some x \<Longrightarrow> x \<in> set xs"
  by (auto simp: js_first_def split: list.splits)

lemma js_first_None [simp]: "js_first xs = None \<longleftrightarrow> xs = []"
  by (auto simp: js_first_def split: list.splits)

lemma js_sort_Nil [simp]: "js_sort cmp xs = [] \<longleftrightarrow> xs = []"
  using set_js_sort [of cmp xs] by (metis set_empty)

lemma js_first_max:
  assumes "\<And>a b. a \<in> set xs \<Longrightarrow> b \<in> set xs \<Longrightarrow> cmp a b = Some (g b - g a)"
    and "js_first (js_sort cmp xs) = Some m" and "x \<in> set xs"
  shows "g x \<le> g m"
proof -
  obtain ys where ys: "js_sort cmp xs = m # ys"
    using assms(2) by (auto simp: js_first_def split: list.splits)
  have "sorted_wrt (\<lambda>a b. g b \<le> g a) (m # ys)"
    unfolding ys [symmetric] by (rule js_sort_sorted) (rule assms(1))
  moreover have "x \<in> set (m # ys)" using assms(3) ys by (metis set_js_sort)
  ultimately show ?thesis by auto
qed

lemma best_claim_in: "best_claim scores cs = Some c \<Longrightarrow> c \<in> set cs"
  unfolding best_claim_def by (auto dest: js_first_in)

lemma newest_in: "newest legacy cs = Some c \<Longrightarrow> c \<in> set cs"
  unfolding newest_def by (auto dest: js_first_in)

lemma of_field_subset: "set (of_field f cs) \<subseteq> set cs"
  by (auto simp: of_field_def)

lemma js_minus_Some: "x \<noteq> None \<Longrightarrow> y \<noteq> None \<Longrightarrow> js_minus x y = Some (the x - the y)"
  by (auto simp: js_minus_def)

lemma best_claim_max:
  assumes "\<And>x. x \<in> set cs \<Longrightarrow> score_of scores (Some x) \<noteq> None"
    and "best_claim scores cs = Some c" and "x \<in> set cs"
  shows "the (score_of scores (Some x)) \<le> the (score_of scores (Some c))"
  by (rule js_first_max [OF _ assms(2) [unfolded best_claim_def] assms(3)])
    (simp add: by_score_def js_minus_Some assms(1))

lemma newest_max:
  assumes "\<And>x. x \<in> set cs \<Longrightarrow> claim_time legacy x \<noteq> None"
    and "newest legacy cs = Some c" and "x \<in> set cs"
  shows "the (claim_time legacy x) \<le> the (claim_time legacy c)"
proof -
  have "of_int (the (claim_time legacy x)) \<le> (of_int (the (claim_time legacy c)) :: rat)"
    by (rule js_first_max [OF _ assms(2) [unfolded newest_def] assms(3)])
      (simp add: js_minus_Some assms(1) option.map_sel)
  then show ?thesis by simp
qed

section \<open>Scores are confidences\<close>

lemma authority_range: "0 < authority st \<and> authority st \<le> 1"
  by (cases st) simp_all

lemma recency_range: "0 < recency now t \<and> recency now t \<le> 1"
  by (auto simp: recency_def Let_def max_def min_def)

lemma score_value_range:
  assumes "0 \<le> clm_confidence c" and "clm_confidence c \<le> 1" and "score_value legacy now src c = Some x"
  shows "0 \<le> x \<and> x \<le> 1"
proof -
  obtain t where x: "x = clm_confidence c * (case src of None \<Rightarrow> 1/2 | Some st \<Rightarrow> authority st) * recency now t"
    using assms(3) by (auto simp: score_value_def Let_def)
  have a: "0 \<le> (case src of None \<Rightarrow> 1/2 | Some st \<Rightarrow> authority st)"
    "(case src of None \<Rightarrow> 1/2 | Some st \<Rightarrow> authority st) \<le> 1"
    using authority_range by (auto split: option.splits intro: less_imp_le)
  have r: "0 \<le> recency now t" "recency now t \<le> 1" using recency_range [of now t] by simp_all
  show ?thesis unfolding x using assms(1,2) a r by (auto intro!: mult_nonneg_nonneg mult_le_one)
qed

section \<open>Provenance\<close>

lemma claim_ids_subset:
  "(\<And>c. Some c \<in> set cs \<Longrightarrow> c \<in> C) \<Longrightarrow> set (claim_ids cs) \<subseteq> clm_id ` C"
  by (auto simp: claim_ids_def split: option.splits)

lemma resolve_claims_cases:
  assumes "o' \<in> set (resolve_claims legacy sha now stamp org scores cs)"
  obtains (app) "o' = application_opportunity legacy sha now stamp org scores
      (best_claim scores (of_field application_deadline cs))
      (best_claim scores (of_field application_url cs)) (newest legacy (of_field application_open cs))"
  | (event) c where "c \<in> set cs" "clm_field c = field_event" "is_object (clm_value c)"
      "o' = event_opportunity legacy sha now stamp org scores c"
  using assms by (auto simp: resolve_claims_def Let_def of_field_def split: if_splits)

lemma opportunity_claim_ids:
  "opp_sourceClaimIds (application_opportunity legacy sha now stamp org scores a b c) = claim_ids [a, b, c]"
  "opp_sourceClaimIds (event_opportunity legacy sha now stamp org scores e) = [clm_id e]"
  by (simp_all add: application_opportunity_def event_opportunity_def Let_def)

lemma resolve_claims_provenance:
  assumes "o' \<in> set (resolve_claims legacy sha now stamp org scores cs)"
  shows "set (opp_sourceClaimIds o') \<subseteq> clm_id ` set cs"
proof -
  have ids: "set (claim_ids [best_claim scores (of_field f cs), best_claim scores (of_field g cs),
      newest legacy (of_field h cs)]) \<subseteq> clm_id ` set cs" for f g h
  proof (rule claim_ids_subset)
    fix c assume "Some c \<in> set [best_claim scores (of_field f cs), best_claim scores (of_field g cs),
      newest legacy (of_field h cs)]"
    then have "c \<in> set (of_field f cs) \<or> c \<in> set (of_field g cs) \<or> c \<in> set (of_field h cs)"
      using best_claim_in newest_in by (metis empty_iff empty_set set_ConsD)
    then show "c \<in> set cs" using of_field_subset by blast
  qed
  from assms show ?thesis
    by (cases rule: resolve_claims_cases) (use ids in \<open>auto simp only: opportunity_claim_ids, auto\<close>)
qed

text \<open>An override changes neither the identity of an opportunity nor what it rests on.\<close>

lemma apply_patch_keeps:
  "opp_id (apply_patch v o') = opp_id o'" "opp_sourceClaimIds (apply_patch v o') = opp_sourceClaimIds o'"
  "opp_confidence (apply_patch v o') = opp_confidence o'" "opp_tenantId (apply_patch v o') = opp_tenantId o'"
  "opp_organizationId (apply_patch v o') = opp_organizationId o'"
  "opp_deadlinePrecision (apply_patch v o') = opp_deadlinePrecision o'"
  "opp_startsAtPrecision (apply_patch v o') = opp_startsAtPrecision o'"
  "opp_kind (apply_patch v o') = opp_kind o'"
  by (simp_all add: apply_patch_def Let_def)

lemma map_update_first:
  "(\<And>x. k (f x) = k x) \<Longrightarrow> map k (update_first p f xs) = map k xs"
  by (induction xs) auto

lemma map_apply_overrides:
  assumes "\<And>v x. k (apply_patch v x) = k x"
  shows "map k (apply_overrides vs out) = map k out"
  unfolding apply_overrides_def
proof (induction vs arbitrary: out)
  case (Cons v vs)
  then show ?case using assms by (simp add: apply_override_def map_update_first)
qed simp

lemma mapE_getE:
  assumes "\<And>x. f x = getE (g x)"
  shows "mapE f xs s = (Inr (map (\<lambda>x. g x s) xs), s)"
  by (induction xs) (simp_all add: assms effect_defs)

section \<open>The resolver on the store\<close>

definition stored_claims :: "string \<Rightarrow> string \<Rightarrow> 'm db_scheme \<Rightarrow> Claim list" where
  "stored_claims org t s = map claim_of_row
     (order_by (\<lambda>r. nullish (cl_published_at r) (cl_extracted_at r))
       (select_where (\<lambda>r. cl_tenant_id r = t \<and> cl_organization_id r = org) (claims s)))"

definition stored_source :: "string \<Rightarrow> string \<Rightarrow> 'm db_scheme \<Rightarrow> SourceItem option" where
  "stored_source i t s = map_option source_item_of
     (first_by_desc (\<lambda>vr. sv_fetched_at (fst vr))
       (filter (\<lambda>vr. sv_tenant_id (fst vr) = t \<and> (sv_id (fst vr) = i \<or> sr_id (snd vr) = i))
         (concat (map (join_source s) (source_versions s)))))"

definition stored_overrides :: "string \<Rightarrow> string \<Rightarrow> 'm db_scheme \<Rightarrow> OpportunityOverride list" where
  "stored_overrides org t s = map override_of_row
     (order_by ov_created_at (select_where (\<lambda>r. ov_tenant_id r = t \<and>
        ov_organization_id r = org \<and> ov_revoked_at r = None) (opportunity_overrides s)))"

definition stored_scores ::
    "(string \<Rightarrow> int option) \<Rightarrow> (nat \<Rightarrow> int) \<Rightarrow> string \<Rightarrow> string \<Rightarrow> 'm db_scheme \<Rightarrow> (string \<times> rat option) list" where
  "stored_scores legacy clk org t s = map (\<lambda>(n, c). (clm_id c,
     score_value legacy (clk n) (map_option src_sourceType (stored_source (clm_sourceItemId c) t s)) c))
     (enumerate 0 (stored_claims org t s))"

definition resolved ::
    "(string \<Rightarrow> int option) \<Rightarrow> (string \<Rightarrow> string) \<Rightarrow> (nat \<Rightarrow> int) \<Rightarrow> int \<Rightarrow> string \<Rightarrow> int \<Rightarrow> string \<Rightarrow>
       'm db_scheme \<Rightarrow> Opportunity list" where
  "resolved legacy sha clk stamp org now t s = apply_overrides (stored_overrides org t s)
     (resolve_claims legacy sha now stamp org (stored_scores legacy clk org t s) (stored_claims org t s))"

lemma repository_reads:
  "repo_listClaims (sqlite_repository sha) org t = getE (stored_claims org t)"
  "repo_getSource (sqlite_repository sha) i t = getE (stored_source i t)"
  "repo_listOpportunityOverrides (sqlite_repository sha) org t = getE (stored_overrides org t)"
  "repo_replaceOpportunities (sqlite_repository sha) = replaceOpportunities"
  by (simp_all add: sqlite_repository_def listClaims_def stored_claims_def [abs_def] getSource_def
      stored_source_def [abs_def] listOpportunityOverrides_def stored_overrides_def [abs_def])

lemma bindE_getE: "bindE (getE f) (\<lambda>x. retE (g x)) = getE (\<lambda>s. g (f s))"
  by (simp add: fun_eq_iff effect_defs)

lemma mapE_scores:
  "mapE (\<lambda>(n, c). bindE (scoreClaim (sqlite_repository sh) legacy (clk n) c t) (\<lambda>x. retE (clm_id c, x)))
     (enumerate 0 (stored_claims org t s)) s = (Inr (stored_scores legacy clk org t s), s)"
  unfolding stored_scores_def case_prod_beta
  by (rule mapE_getE) (simp add: scoreClaim_def repository_reads bindE_getE)

lemma resolveOrganization_run:
  "resolveOrganization (sqlite_repository sh) legacy sha clk stamp org now t s =
     bindE (replaceOpportunities org (resolved legacy sha clk stamp org now t s) t)
       (\<lambda>_. retE (resolved legacy sha clk stamp org now t s)) s"
  using mapE_scores [of sh legacy clk t org s]
  by (simp add: resolveOrganization_def repository_reads bindE_def [where m = "getE f" for f]
      bindE_def [where m = "mapE f xs" for f xs] getE_def resolved_def Let_def)

lemma resolved_provenance:
  assumes "o' \<in> set (resolved legacy sha clk stamp org now t s)"
  shows "set (opp_sourceClaimIds o') \<subseteq> clm_id ` set (stored_claims org t s)"
proof -
  have "opp_sourceClaimIds o' \<in> opp_sourceClaimIds ` set (resolve_claims legacy sha now stamp org
      (stored_scores legacy clk org t s) (stored_claims org t s))"
    using assms map_apply_overrides [of opp_sourceClaimIds] apply_patch_keeps(2)
    unfolding resolved_def by (metis image_eqI list.set_map)
  then show ?thesis using resolve_claims_provenance by (metis imageE)
qed

lemma stored_claims_rows:
  "c \<in> set (stored_claims org t s) \<longleftrightarrow>
     (\<exists>r \<in> set (claims s). cl_tenant_id r = t \<and> cl_organization_id r = org \<and> c = claim_of_row r)"
  by (auto simp: stored_claims_def set_select_where)

section \<open>Replacing the opportunities of an organization\<close>

lemma insert_opportunity_Inr:
  assumes "insert_opportunity t o' s = (Inr (), s')"
  shows "\<exists>c. opp_confidence o' = Some c \<and> opportunities s' = opportunities s @ [opportunity_row_of t c o'] \<and>
    (nullish (opp_tenantId o') t, opp_id o') \<notin> opportunity_key ` set (opportunities s)"
proof -
  have key: "opportunity_key (opportunity_row_of t c o') = (nullish (opp_tenantId o') t, opp_id o')" for c
    by (simp add: opportunity_key_def opportunity_row_of_def)
  show ?thesis
    using assms by (auto simp: insert_opportunity_def insert_opportunity_row_def throwE_def exists_row_key
        key split: option.splits if_splits)
qed

definition row_for :: "string \<Rightarrow> Opportunity \<Rightarrow> opportunity_row" where
  "row_for t o' = opportunity_row_of t (the (opp_confidence o')) o'"

lemma insert_opportunities_Inr:
  assumes "forE (insert_opportunity t) os s = (Inr (), s')"
  shows "opportunities s' = opportunities s @ map (row_for t) os \<and>
    (unique_on opportunity_key (opportunities s) \<longrightarrow> unique_on opportunity_key (opportunities s')) \<and>
    list_all (\<lambda>o'. opp_confidence o' \<noteq> None) os"
  using assms
proof (induction os arbitrary: s)
  case Nil
  then show ?case by (simp add: retE_def)
next
  case (Cons o' os)
  then obtain u where u: "insert_opportunity t o' s = (Inr (), u)" "forE (insert_opportunity t) os u = (Inr (), s')"
    by (auto simp: bindE_Inr_iff)
  from insert_opportunity_Inr [OF u(1)] obtain c where c: "opp_confidence o' = Some c"
    "opportunities u = opportunities s @ [opportunity_row_of t c o']"
    "(nullish (opp_tenantId o') t, opp_id o') \<notin> opportunity_key ` set (opportunities s)" by blast
  have "unique_on opportunity_key (opportunities s) \<longrightarrow> unique_on opportunity_key (opportunities u)"
    using c by (simp add: unique_on_append1 opportunity_key_def opportunity_row_of_def)
  then show ?case using Cons.IH [OF u(2)] c(1,2) by (auto simp: row_for_def)
qed

lemma replaceOpportunities_Inr:
  assumes "replaceOpportunities org os t s = (Inr (), s')"
  shows "opportunities s' = delete_where (\<lambda>r. op_tenant_id r = t \<and> op_organization_id r = org)
      (opportunities s) @ map (row_for t) os"
    and "unique_on opportunity_key (opportunities s) \<Longrightarrow> unique_on opportunity_key (opportunities s')"
    and "list_all (\<lambda>o'. opp_confidence o' \<noteq> None) os"
  using assms insert_opportunities_Inr [of t os "s\<lparr>opportunities := delete_where (\<lambda>r. op_tenant_id r = t \<and>
      op_organization_id r = org) (opportunities s)\<rparr>" s']
  by (auto simp: replaceOpportunities_def delete_opportunities_def bindE_def modifyE_def
      unique_on_delete_where)

lemma duplicate_ids_refused:
  assumes "db_ok s" and "\<forall>o' \<in> set os. opp_tenantId o' = None" and "\<not> distinct (map opp_id os)"
  shows "\<exists>e s'. replaceOpportunities org os t s = (Inl e, s')"
proof (rule ccontr)
  assume "\<not> ?thesis"
  then obtain s' where run: "replaceOpportunities org os t s = (Inr (), s')"
    by (cases "replaceOpportunities org os t s"; cases "fst (replaceOpportunities org os t s)") auto
  have "unique_on opportunity_key (opportunities s')"
    using replaceOpportunities_Inr(2) [OF run] assms(1) by (simp add: db_ok_defs)
  then have "distinct (map opportunity_key (map (row_for t) os))"
    unfolding replaceOpportunities_Inr(1) [OF run] unique_on_def by simp
  moreover have "map opportunity_key (map (row_for t) os) = map (Pair t) (map opp_id os)"
    using assms(2) by (simp add: row_for_def opportunity_row_of_def opportunity_key_def)
  ultimately have "distinct (map (Pair t) (map opp_id os))" by (simp only:)
  then show False using assms(3) unfolding distinct_map [of "Pair t"] by blast
qed

lemma resolved_ids:
  "map opp_id (resolved legacy sha clk stamp org now t s) = map opp_id (resolve_claims legacy sha now stamp org
     (stored_scores legacy clk org t s) (stored_claims org t s))"
  "map opp_tenantId (resolved legacy sha clk stamp org now t s) = map opp_tenantId (resolve_claims legacy sha
     now stamp org (stored_scores legacy clk org t s) (stored_claims org t s))"
  by (simp_all add: resolved_def map_apply_overrides apply_patch_keeps)

lemma resolve_claims_tenant:
  "o' \<in> set (resolve_claims legacy sha now stamp org scores cs) \<Longrightarrow> opp_tenantId o' = None"
  by (erule resolve_claims_cases) (simp_all add: application_opportunity_def event_opportunity_def Let_def)

lemma resolved_tenant:
  assumes "o' \<in> set (resolved legacy sha clk stamp org now t s)"
  shows "opp_tenantId o' = None"
proof -
  have "opp_tenantId o' \<in> opp_tenantId ` set (resolve_claims legacy sha now stamp org
      (stored_scores legacy clk org t s) (stored_claims org t s))"
    using assms resolved_ids(2) [of legacy sha clk stamp org now t s] by (metis image_eqI list.set_map)
  then show ?thesis using resolve_claims_tenant by fastforce
qed

lemma not_distinct_filter_map:
  assumes "distinct xs" and "a \<in> set xs" and "b \<in> set xs" and "a \<noteq> b" and "f a = f b"
  shows "\<not> distinct (map f xs)"
  using assms by (auto simp: distinct_map dest: inj_onD)

text \<open>The deadline patches of the overrides of an opportunity, in the order they are applied.\<close>

definition deadline_patches :: "OpportunityOverride list \<Rightarrow> string \<Rightarrow> string list" where
  "deadline_patches vs i = concat (map (\<lambda>v. case patch_deadlineAt (ovr_patch v) of
     Some text \<Rightarrow> if ovr_opportunityId v = i then [text] else [] | None \<Rightarrow> []) vs)"

definition patched :: "OpportunityOverride list \<Rightarrow> Opportunity \<Rightarrow> Opportunity" where
  "patched vs o' = foldl (\<lambda>x v. if opp_id x = ovr_opportunityId v then apply_patch v x else x) o' vs"

lemma deadline_patches_simps [simp]:
  "deadline_patches [] i = []"
  "deadline_patches (v # vs) i = (case patch_deadlineAt (ovr_patch v) of
     Some text \<Rightarrow> if ovr_opportunityId v = i then text # deadline_patches vs i else deadline_patches vs i
   | None \<Rightarrow> deadline_patches vs i)"
  by (auto simp: deadline_patches_def split: option.splits)

lemma patched_simps [simp]:
  "patched [] o' = o'"
  "patched (v # vs) o' = patched vs (if opp_id o' = ovr_opportunityId v then apply_patch v o' else o')"
  by (simp_all add: patched_def)

lemma patched_deadline:
  "opp_id (patched vs o') = opp_id o' \<and> opp_deadlineAt (patched vs o') =
     (if deadline_patches vs (opp_id o') = [] then opp_deadlineAt o' else Some (last (deadline_patches vs (opp_id o'))))"
proof (induction vs arbitrary: o')
  case (Cons v vs)
  have "opp_deadlineAt (apply_patch v o') = coalesce (patch_deadlineAt (ovr_patch v)) (opp_deadlineAt o')"
    by (simp add: apply_patch_def Let_def)
  then show ?case
    using Cons.IH [of "apply_patch v o'"] Cons.IH [of o'] by (simp add: apply_patch_keeps split: option.splits)
qed simp

lemma apply_overrides_Cons:
  "\<exists>rest. apply_overrides vs (o' # os) = patched vs o' # rest \<and> map opp_kind rest = map opp_kind os"
proof (induction vs arbitrary: o' os)
  case (Cons v vs)
  show ?case
  proof (cases "opp_id o' = ovr_opportunityId v")
    case True
    then show ?thesis using Cons.IH [of "apply_patch v o'" os] by (simp add: apply_overrides_def apply_override_def)
  next
    case False
    let ?os = "update_first (\<lambda>o'. opp_id o' = ovr_opportunityId v) (apply_patch v) os"
    have "map opp_kind ?os = map opp_kind os" by (rule map_update_first) (simp add: apply_patch_keeps)
    then show ?thesis using False Cons.IH [of o' ?os] by (auto simp: apply_overrides_def apply_override_def)
  qed
qed (simp add: apply_overrides_def)

text \<open>The one application of an organization is the first opportunity, patched by its overrides.\<close>

lemma resolved_application:
  assumes "o' \<in> set (resolved legacy sha clk stamp org now t s)" and "opp_kind o' = kind_application"
  shows "o' = patched (stored_overrides org t s) (application_opportunity legacy sha now stamp org
      (stored_scores legacy clk org t s)
      (best_claim (stored_scores legacy clk org t s) (of_field application_deadline (stored_claims org t s)))
      (best_claim (stored_scores legacy clk org t s) (of_field application_url (stored_claims org t s)))
      (newest legacy (of_field application_open (stored_claims org t s))))"
proof -
  let ?cs = "stored_claims org t s" and ?sc = "stored_scores legacy clk org t s" and ?vs = "stored_overrides org t s"
  let ?app = "application_opportunity legacy sha now stamp org ?sc (best_claim ?sc (of_field application_deadline ?cs))
      (best_claim ?sc (of_field application_url ?cs)) (newest legacy (of_field application_open ?cs))"
  let ?evs = "map (event_opportunity legacy sha now stamp org ?sc)
      (filter (\<lambda>c. is_object (clm_value c)) (of_field field_event ?cs))"
  have events: "set (map opp_kind ?evs) \<subseteq> {kind_event}" by (auto simp: event_opportunity_def Let_def)
  have kinds: "opp_kind x = kind_event" if "map opp_kind xs = map opp_kind ?evs" "x \<in> set xs" for x xs
  proof -
    have "opp_kind x \<in> set (map opp_kind xs)" using that(2) by simp
    then show ?thesis using that(1) events by (metis singletonD subsetD)
  qed
  have "resolve_claims legacy sha now stamp org ?sc ?cs = ?app # ?evs \<or> resolve_claims legacy sha now stamp org ?sc ?cs = ?evs"
    unfolding resolve_claims_def Let_def by (simp only: append_Cons append_Nil split: if_split) blast
  then show ?thesis
  proof
    assume 1: "resolve_claims legacy sha now stamp org ?sc ?cs = ?app # ?evs"
    obtain rest where "resolved legacy sha clk stamp org now t s = patched ?vs ?app # rest" "map opp_kind rest = map opp_kind ?evs"
      using apply_overrides_Cons unfolding resolved_def 1 by metis
    then show ?thesis using assms kinds by fastforce
  next
    assume 2: "resolve_claims legacy sha now stamp org ?sc ?cs = ?evs"
    have "map opp_kind (resolved legacy sha clk stamp org now t s) = map opp_kind ?evs"
      unfolding resolved_def 2 by (rule map_apply_overrides) (simp add: apply_patch_keeps)
    then show ?thesis using assms kinds by fastforce
  qed
qed

lemma stored_claim_ids:
  assumes "db_ok s"
  shows "distinct (map clm_id (stored_claims org t s))"
proof -
  have "distinct (map cl_id (claims s))" using assms by (simp add: db_ok_defs unique_on_def)
  then show ?thesis
    by (simp add: stored_claims_def order_by_def select_where_def distinct_map comp_def claim_of_row_def
        inj_on_def)
qed

lemma stored_score:
  assumes "db_ok s" and "c \<in> set (stored_claims org t s)"
  shows "\<exists>n < length (stored_claims org t s). score_of (stored_scores legacy clk org t s) (Some c) =
    score_value legacy (clk n) (map_option src_sourceType (stored_source (clm_sourceItemId c) t s)) c"
proof -
  let ?cs = "stored_claims org t s"
  let ?x = "\<lambda>n c. score_value legacy (clk n) (map_option src_sourceType (stored_source (clm_sourceItemId c) t s)) c"
  obtain n where n: "n < length ?cs" "?cs ! n = c" using assms(2) by (metis in_set_conv_nth)
  have "map fst (stored_scores legacy clk org t s) = map clm_id ?cs"
    by (simp add: stored_scores_def comp_def case_prod_beta flip: map_map [of clm_id snd, unfolded comp_def])
  then have "distinct (map fst (rev (stored_scores legacy clk org t s)))"
    using stored_claim_ids [OF assms(1), of org t] by (metis distinct_rev rev_map)
  moreover have "(n, c) \<in> set (enumerate 0 ?cs)" using n by (simp add: in_set_enumerate_eq)
  then have "(clm_id c, ?x n c) \<in> set (rev (stored_scores legacy clk org t s))"
    by (force simp: stored_scores_def)
  ultimately have "map_of (rev (stored_scores legacy clk org t s)) (clm_id c) = Some (?x n c)"
    by (simp add: map_of_eq_Some_iff)
  then show ?thesis using n(1) by (auto simp: score_of_def)
qed

definition best_scored :: "(string \<times> rat option) list \<Rightarrow> Claim list \<Rightarrow> Claim \<Rightarrow> bool" where
  "best_scored scores cs d \<longleftrightarrow> d \<in> set cs \<and> clm_field d = application_deadline \<and>
     (\<forall>c \<in> set cs. clm_field c = application_deadline \<longrightarrow> the (score_of scores (Some c)) \<le> the (score_of scores (Some d)))"

text \<open>The newest statement says that applications are open, and is later than the claim.\<close>

definition reopened_after :: "(string \<Rightarrow> int option) \<Rightarrow> Claim list \<Rightarrow> Claim \<Rightarrow> bool" where
  "reopened_after legacy cs d \<longleftrightarrow> (case newest legacy (of_field application_open cs) of None \<Rightarrow> False
     | Some p \<Rightarrow> clm_value p = JBool True \<and> nan_less (claim_time legacy d) (claim_time legacy p))"

section \<open>Properties\<close>

text \<open>C11. Every opportunity cites evidence of its own tenant and organization: each claim id of a
  resolved opportunity is the id of a stored claim of that tenant and organization. Reviewed
  overrides do not change it.\<close>

theorem opportunities_cite_claims:
  assumes "resolveOrganization (sqlite_repository sh) legacy sha clk stamp org now t s = (Inr out, s')"
    and "o' \<in> set out" and "i \<in> set (opp_sourceClaimIds o')"
  shows "\<exists>r \<in> set (claims s). cl_id r = i \<and> cl_tenant_id r = t \<and> cl_organization_id r = org"
proof -
  have "out = resolved legacy sha clk stamp org now t s"
    using assms(1) by (auto simp: resolveOrganization_run bindE_Inr_iff retE_def)
  then have "i \<in> clm_id ` set (stored_claims org t s)"
    using assms(2,3) resolved_provenance by blast
  then show ?thesis by (force simp: stored_claims_rows claim_of_row_def)
qed

text \<open>C12. The deadline that is shown for an organization, after the reviewed overrides. Let a call of the resolver
  succeed on a consistent store in which the time of every deadline claim of the organization parses, so that
  the scores of these claims are numbers. When active overrides of the application set a deadline, the last of them decides.
  Otherwise the deadline that is shown is the value of a deadline claim that no other deadline claim outscores,
  and the newest statement about the application is not a later one that says it is open. None is
  shown only when there is no deadline claim, or when the newest statement says that the application is open and
  was made after such a best-scored deadline claim.\<close>

theorem deadline_choice:
  assumes "db_ok s"
    and "resolveOrganization (sqlite_repository sh) legacy sha clk stamp org now t s = (Inr out, s')"
    and "\<And>c. c \<in> set (stored_claims org t s) \<Longrightarrow> clm_field c = application_deadline \<Longrightarrow> claim_time legacy c \<noteq> None"
    and "o' \<in> set out" and "opp_kind o' = kind_application"
  shows "if deadline_patches (stored_overrides org t s) (opp_id o') \<noteq> []
    then opp_deadlineAt o' = Some (last (deadline_patches (stored_overrides org t s) (opp_id o')))
    else case opp_deadlineAt o' of
      Some text \<Rightarrow> (\<exists>d. best_scored (stored_scores legacy clk org t s) (stored_claims org t s) d \<and>
        text = js_String (clm_value d) \<and> \<not> reopened_after legacy (stored_claims org t s) d)
    | None \<Rightarrow> (\<forall>c \<in> set (stored_claims org t s). clm_field c \<noteq> application_deadline) \<or>
        (\<exists>d. best_scored (stored_scores legacy clk org t s) (stored_claims org t s) d \<and>
           reopened_after legacy (stored_claims org t s) d)"
proof -
  let ?cs = "stored_claims org t s" and ?sc = "stored_scores legacy clk org t s"
  let ?d = "best_claim ?sc (of_field application_deadline ?cs)"
  let ?app = "application_opportunity legacy sha now stamp org ?sc ?d (best_claim ?sc (of_field application_url ?cs))
      (newest legacy (of_field application_open ?cs))"
  have "out = resolved legacy sha clk stamp org now t s"
    using assms(2) by (auto simp: resolveOrganization_run bindE_Inr_iff retE_def)
  then have "o' = patched (stored_overrides org t s) ?app"
    using assms(4,5) by (auto intro: resolved_application)
  then have shown: "opp_id o' = opp_id ?app" "opp_deadlineAt o' =
      (if deadline_patches (stored_overrides org t s) (opp_id ?app) = [] then opp_deadlineAt ?app
       else Some (last (deadline_patches (stored_overrides org t s) (opp_id ?app))))"
    using patched_deadline by simp_all
  have best: "best_scored ?sc ?cs d" if d: "?d = Some d" for d
  proof -
    have "score_of ?sc (Some c) \<noteq> None" if "c \<in> set (of_field application_deadline ?cs)" for c
      using that stored_score [OF assms(1), of c org t legacy clk] assms(3) [of c]
      by (auto simp: of_field_def score_value_def Let_def)
    then have "the (score_of ?sc (Some c)) \<le> the (score_of ?sc (Some d))" if "c \<in> set (of_field application_deadline ?cs)" for c
      using that best_claim_max [OF _ d] by blast
    then show ?thesis using best_claim_in [OF d] by (auto simp: best_scored_def of_field_def)
  qed
  have reopened: "reopened legacy ?d (newest legacy (of_field application_open ?cs)) \<longleftrightarrow> reopened_after legacy ?cs d"
    if "?d = Some d" for d
    using that by (auto simp: reopened_def reopened_after_def open_value_def time_or_zero_def split: option.splits)
  have app: "opp_deadlineAt ?app = (if reopened legacy ?d (newest legacy (of_field application_open ?cs)) then None
      else map_option (\<lambda>d. js_String (clm_value d)) ?d)"
    by (simp add: application_opportunity_def)
  show ?thesis
  proof (cases ?d)
    case None
    then have "of_field application_deadline ?cs = []" by (simp add: best_claim_def)
    then have "\<forall>c \<in> set ?cs. clm_field c \<noteq> application_deadline" by (auto simp: of_field_def filter_empty_conv)
    then show ?thesis using None shown app by simp
  next
    case (Some d)
    then show ?thesis using shown app best [OF Some] reopened [OF Some] by auto
  qed
qed

text \<open>C13. Two sources that announce the same event block an organization. When two stored event
  claims have the same title and start, the opportunities built from them have the same id, and
  the resolver throws: nothing is resolved for the organization, in this call and in every later
  one that finds the two claims.\<close>

theorem duplicate_events_block:
  assumes "db_ok s" and "c \<in> set (stored_claims org t s)" and "d \<in> set (stored_claims org t s)"
    and "clm_id c \<noteq> clm_id d" and "clm_field c = field_event" and "clm_field d = field_event"
    and "is_object (clm_value c)" and "is_object (clm_value d)"
    and "template_member (clm_value c) ''title'' = template_member (clm_value d) ''title''"
    and "member_or (clm_value c) ''startsAt'' [] = member_or (clm_value d) ''startsAt'' []"
  shows "\<exists>e s'. resolveOrganization (sqlite_repository sh) legacy sha clk stamp org now t s = (Inl e, s')"
proof -
  let ?cs = "stored_claims org t s" and ?sc = "stored_scores legacy clk org t s"
  let ?ev = "filter (\<lambda>c. is_object (clm_value c)) (of_field field_event ?cs)"
  have dist: "distinct ?ev"
    using stored_claim_ids [OF assms(1), of org t] by (simp add: distinct_map of_field_def)
  have "\<not> distinct (map (\<lambda>c. event_id sha org (clm_value c)) ?ev)"
    using assms by (intro not_distinct_filter_map [OF dist, of c d]) (auto simp: of_field_def event_id_def)
  then have "\<not> distinct (map opp_id (resolve_claims legacy sha now stamp org ?sc ?cs))"
    by (simp add: resolve_claims_def Let_def comp_def event_opportunity_def)
  then have "\<exists>e s'. replaceOpportunities org (resolved legacy sha clk stamp org now t s) t s = (Inl e, s')"
    using resolved_tenant by (intro duplicate_ids_refused [OF assms(1)]) (auto simp: resolved_ids(1))
  then show ?thesis by (auto simp: resolveOrganization_run bindE_def)
qed

section \<open>The properties on concrete evidence\<close>

definition demo_claim :: "string \<Rightarrow> ClaimField \<Rightarrow> json \<Rightarrow> claim_row" where
  "demo_claim i f v = \<lparr>cl_id = i, cl_tenant_id = ''t'', cl_organization_id = ''o'',
     cl_source_version_id = ''v'', cl_field = f, cl_value = v, cl_confidence = 1/2,
     cl_published_at = None, cl_extracted_at = nowIso 0, cl_supersedes = [], cl_evidence = None,
     cl_temporal_precision = None\<rparr>"

definition demo_evidence :: "claim_row list \<Rightarrow> store" where
  "demo_evidence cs = (new_Store 0 ''t'')\<lparr>
     organizations := [\<lparr>og_tenant_id = ''t'', og_id = ''o'', og_name = ''O'', og_school = ''S'',
       og_heel_life_url = None, og_website_url = None, og_instagram_handle = None,
       og_linkedin_url = None, og_created_at = [], og_updated_at = []\<rparr>],
     sources := [\<lparr>sr_id = ''s'', sr_tenant_id = ''t'', sr_organization_id = ''o'',
       sr_source_type = website, sr_identity_key = ''k'', sr_external_id = None, sr_url = None,
       sr_title = None, sr_created_at = [], sr_last_seen_at = []\<rparr>],
     source_versions := [\<lparr>sv_id = ''v'', sv_source_id = ''s'', sv_tenant_id = ''t'',
       sv_organization_id = ''o'', sv_content_hash = [], sv_raw_text = [], sv_media = [],
       sv_published_at = None, sv_fetched_at = [], sv_metadata = JObj [], sv_status = succeeded,
       sv_attempt_count = 1, sv_next_attempt_at = None, sv_last_error = None, sv_started_at = None,
       sv_completed_at = None, sv_created_at = []\<rparr>],
     claims := cs\<rparr>"

lemmas demo_evidence_defs = demo_evidence_def new_Store_def ensureTenant_def modifyE_def db.defs
  store.defs empty_db_def exists_row_def

lemma demo_evidence_ok:
  assumes "unique_on cl_id cs" and "unique_on claim_key cs"
    and "\<And>c. c \<in> set cs \<Longrightarrow> claim_checks c \<and> cl_source_version_id c = ''v''"
  shows "db_ok (demo_evidence cs)"
  using assms by (auto simp: db_ok_defs demo_evidence_defs unique_on_def org_key_def source_org_def)

definition demo_deadline :: claim_row where
  "demo_deadline = demo_claim ''c1'' application_deadline (JStr ''2026-09-01'')"

lemma demo_stored_claims:
  "stored_claims ''o'' ''t'' (demo_evidence [demo_deadline]) = [claim_of_row demo_deadline]"
  by (simp add: stored_claims_def demo_evidence_def demo_deadline_def demo_claim_def select_where_def
      order_by_def)

lemma demo_stored_source:
  "map_option src_sourceType (stored_source ''v'' ''t'' (demo_evidence cs)) = Some website"
  by (simp add: stored_source_def demo_evidence_def join_source_def select_where_def first_by_desc_def
      order_by_desc_def source_item_of_def Let_def)

lemma demo_deadline_claim: "clm_id (claim_of_row demo_deadline) = ''c1''"
  "clm_sourceItemId (claim_of_row demo_deadline) = ''v''" "clm_confidence (claim_of_row demo_deadline) = 1/2"
  "claim_time legacy (claim_of_row demo_deadline) = Some 0"
  by (simp_all add: claim_of_row_def demo_deadline_def demo_claim_def claim_time_def text_or_undefined_def
      nowIso_def iso_range_def)

lemma demo_stored_scores:
  "stored_scores legacy (\<lambda>_. 0) ''o'' ''t'' (demo_evidence [demo_deadline]) = [(''c1'', Some (39/100))]"
proof -
  obtain src where "stored_source ''v'' ''t'' (demo_evidence [demo_deadline]) = Some src"
    "src_sourceType src = website" using demo_stored_source [of "[demo_deadline]"] by auto
  then show ?thesis
    unfolding stored_scores_def demo_stored_claims
    by (simp add: demo_deadline_claim score_value_def recency_def)
qed

definition demo_application :: Opportunity where
  "demo_application = application_opportunity (\<lambda>_. None) id 0 0 ''o'' [(''c1'', Some (39/100))]
     (Some (claim_of_row demo_deadline)) None None"

lemma demo_resolved:
  "resolved (\<lambda>_. None) id (\<lambda>_. 0) 0 ''o'' 0 ''t'' (demo_evidence [demo_deadline]) = [demo_application]"
proof -
  have "stored_overrides ''o'' ''t'' (demo_evidence [demo_deadline]) = []"
    by (simp add: stored_overrides_def demo_evidence_defs select_where_def order_by_def)
  moreover have "clm_field (claim_of_row demo_deadline) = application_deadline"
    by (simp add: claim_of_row_def demo_deadline_def demo_claim_def)
  ultimately show ?thesis
    by (simp add: resolved_def demo_stored_claims demo_stored_scores apply_overrides_def resolve_claims_def
        of_field_def best_claim_def js_sort_def js_first_def newest_def demo_application_def)
qed

lemma demo_application_simps:
  "opp_confidence demo_application = Some (39/100)" "opp_tenantId demo_application = None"
  "opp_organizationId demo_application = ''o''" "opp_sourceClaimIds demo_application = [''c1'']"
  "opp_deadlinePrecision demo_application = None" "opp_startsAtPrecision demo_application = None"
  "opp_kind demo_application = kind_application" "opp_deadlineAt demo_application = Some ''2026-09-01''"
  by (simp_all add: demo_application_def application_opportunity_def score_of_def js_max_def
      claim_of_row_def demo_deadline_def demo_claim_def claim_ids_def reopened_def open_value_def
      text_or_undefined_def)

lemma demo_run:
  "\<exists>s'. resolveOrganization (sqlite_repository id) (\<lambda>_. None) id (\<lambda>_. 0) 0 ''o'' 0 ''t''
      (demo_evidence [demo_deadline]) = (Inr [demo_application], s')"
proof -
  have "\<exists>s'. replaceOpportunities ''o'' [demo_application] ''t'' (demo_evidence [demo_deadline]) = (Inr (), s')"
    by (simp add: replaceOpportunities_def delete_opportunities_def
        effect_defs insert_opportunity_def insert_opportunity_row_def demo_application_simps opportunity_row_of_def
        opportunity_checks_def confidence_ok_def precision_ok_def demo_evidence_defs delete_where_def
        org_key_def opportunity_org_def)
  then show ?thesis unfolding resolveOrganization_run demo_resolved by (auto simp: bindE_def retE_def)
qed

theorem opportunities_cite_claims_witness:
  "\<exists>s'. resolveOrganization (sqlite_repository id) (\<lambda>_. None) id (\<lambda>_. 0) 0 ''o'' 0 ''t''
      (demo_evidence [demo_deadline]) = (Inr [demo_application], s') \<and>
    (\<exists>r. cl_id r = ''c1'' \<and> r \<in> set (claims (demo_evidence [demo_deadline])) \<and> cl_tenant_id r = ''t'')"
proof -
  obtain s' where run: "resolveOrganization (sqlite_repository id) (\<lambda>_. None) id (\<lambda>_. 0) 0 ''o'' 0 ''t''
      (demo_evidence [demo_deadline]) = (Inr [demo_application], s')"
    using demo_run by blast
  show ?thesis
    using run opportunities_cite_claims [OF run, of demo_application "''c1''"] demo_application_simps(4) by auto
qed

theorem deadline_choice_witness:
  "db_ok (demo_evidence [demo_deadline]) \<and> stored_overrides ''o'' ''t'' (demo_evidence [demo_deadline]) = [] \<and>
   opp_deadlineAt demo_application = Some ''2026-09-01'' \<and>
   (\<exists>d. best_scored [(''c1'', Some (39/100))] [claim_of_row demo_deadline] d \<and>
     js_String (clm_value d) = ''2026-09-01'')"
proof -
  obtain s' where run: "resolveOrganization (sqlite_repository id) (\<lambda>_. None) id (\<lambda>_. 0) 0 ''o'' 0 ''t''
      (demo_evidence [demo_deadline]) = (Inr [demo_application], s')"
    using demo_run by blast
  have ok: "db_ok (demo_evidence [demo_deadline])"
    by (rule demo_evidence_ok) (auto simp: unique_on_def demo_deadline_def demo_claim_def claim_key_def
        claim_checks_def confidence_ok_def precision_ok_def)
  have none: "stored_overrides ''o'' ''t'' (demo_evidence [demo_deadline]) = []"
    by (simp add: stored_overrides_def demo_evidence_defs select_where_def order_by_def)
  have "claim_time (\<lambda>_. None) c \<noteq> None" if "c \<in> set (stored_claims ''o'' ''t'' (demo_evidence [demo_deadline]))" for c
    using that by (auto simp: demo_stored_claims demo_deadline_claim)
  from deadline_choice [OF ok run this, of demo_application] ok none show ?thesis
    by (auto simp: demo_application_simps demo_stored_claims demo_stored_scores deadline_patches_def)
qed

definition demo_event :: "string \<Rightarrow> string \<Rightarrow> claim_row" where
  "demo_event i place = demo_claim i field_event (JObj [(''title'', JStr ''Info night''), (''place'', JStr place)])"

theorem duplicate_events_block_witness:
  "\<exists>e s'. resolveOrganization (sqlite_repository id) (\<lambda>_. None) id (\<lambda>_. 0) 0 ''o'' 0 ''t''
     (demo_evidence [demo_event ''c1'' ''a'', demo_event ''c2'' ''b'']) = (Inl e, s')"
proof (rule duplicate_events_block)
  let ?s = "demo_evidence [demo_event ''c1'' ''a'', demo_event ''c2'' ''b'']"
  show "db_ok ?s"
    by (rule demo_evidence_ok) (auto simp: unique_on_def demo_event_def demo_claim_def claim_key_def
        claim_checks_def confidence_ok_def precision_ok_def)
  show "claim_of_row (demo_event ''c1'' ''a'') \<in> set (stored_claims ''o'' ''t'' ?s)"
    "claim_of_row (demo_event ''c2'' ''b'') \<in> set (stored_claims ''o'' ''t'' ?s)"
    by (auto simp: stored_claims_rows demo_evidence_def demo_event_def demo_claim_def)
qed (simp_all add: claim_of_row_def demo_event_def demo_claim_def is_object_def template_member_def
    member_or_def json_get_def)

end
