(* ===== verification/Urls.thy ===== *)
theory Urls
  imports Domain "HOL-Library.Word"
begin

text \<open>
  URLs and addresses: src/src/url.ts and src/src/lib/safe-url.ts. The URL parser of the platform is the
  argument \<open>parse\<close> (a text to the components of its URL, nothing when it is not one), the name
  resolution of the system the argument \<open>lookup\<close>. \<open>isIP\<close> of the platform's library is
  modelled: 4 and 6 for the texts of IPv4 and IPv6 addresses, 0 otherwise.
\<close>

unbundle bit_operations_syntax

record URL =
  url_protocol :: string
  url_username :: string
  url_password :: string
  url_hostname :: string
  url_port :: string
  url_pathname :: string
  url_search :: string
  url_hash :: string
  url_origin :: string
  url_href :: string

section \<open>Classification\<close>

datatype UrlKind = url_application | url_bio_link | url_groupme | url_instagram | url_linkedin
  | url_heel_life | url_website | url_unknown

definition domain_or_sub :: "string \<Rightarrow> string \<Rightarrow> bool" where
  "domain_or_sub host domain \<longleftrightarrow> host = domain \<or> ends_with host (CHR ''.'' # domain)"

definition classifyUrl :: "(string \<Rightarrow> URL option) \<Rightarrow> string \<Rightarrow> UrlKind" where
  "classifyUrl parse raw = (case parse raw of None \<Rightarrow> url_unknown
     | Some url \<Rightarrow>
       let host = toLowerCase (url_hostname url);
           full = toLowerCase (host @ url_pathname url)
       in if host = ''forms.gle'' \<or> host = ''docs.google.com'' \<or> ends_with host ''.qualtrics.com'' \<or>
             includes_str full ''apply'' then url_application
          else if list_ex (domain_or_sub host) [''linktr.ee'', ''beacons.ai'', ''carrd.co'', ''bio.site'']
            then url_bio_link
          else if domain_or_sub host ''groupme.com'' then url_groupme
          else if domain_or_sub host ''instagram.com'' then url_instagram
          else if domain_or_sub host ''linkedin.com'' then url_linkedin
          else if host = ''heellife.unc.edu'' then url_heel_life
          else if url_protocol url = ''http:'' \<or> url_protocol url = ''https:'' then url_website
          else url_unknown)"

section \<open>Address texts\<close>

definition v4_segment :: "string \<Rightarrow> bool" where
  "v4_segment s \<longleftrightarrow> s \<noteq> [] \<and> list_all is_digit s \<and> (length s = 1 \<or> hd s \<noteq> CHR ''0'') \<and>
     length s \<le> 3 \<and> nat_of_digits s \<le> 255"

definition is_ipv4 :: "string \<Rightarrow> bool" where
  "is_ipv4 s \<longleftrightarrow> length (split_on CHR ''.'' s) = 4 \<and> list_all v4_segment (split_on CHR ''.'' s)"

definition is_hex :: "char \<Rightarrow> bool" where
  "is_hex c \<longleftrightarrow> hex_val c \<noteq> None"

definition v6_segment :: "string \<Rightarrow> bool" where
  "v6_segment s \<longleftrightarrow> 1 \<le> length s \<and> length s \<le> 4 \<and> list_all is_hex s"

text \<open>The text before and after the first \<open>::\<close>.\<close>

fun split_double :: "string \<Rightarrow> (string \<times> string) option" where
  "split_double (a # b # s) =
     (if a = CHR '':'' \<and> b = CHR '':'' then Some ([], s)
      else map_option (\<lambda>(l, r). (a # l, r)) (split_double (b # s)))"
| "split_double s = None"

definition v6_groups :: "string \<Rightarrow> string list" where
  "v6_groups s = (if s = [] then [] else split_on CHR '':'' s)"

text \<open>The number of 16-bit units of a list of groups whose last one may be an IPv4 address.\<close>

definition v6_units :: "bool \<Rightarrow> string list \<Rightarrow> nat option" where
  "v6_units v4_last gs =
     (if list_all v6_segment gs then Some (length gs)
      else if v4_last \<and> gs \<noteq> [] \<and> list_all v6_segment (butlast gs) \<and> is_ipv4 (last gs)
        then Some (length gs + 1)
      else None)"

definition is_ipv6 :: "string \<Rightarrow> bool" where
  "is_ipv6 s = (case split_double s of
       None \<Rightarrow> v6_units True (v6_groups s) = Some 8
     | Some (l, r) \<Rightarrow>
         (case (v6_units False (v6_groups l), v6_units True (v6_groups r)) of
            (Some m, Some n) \<Rightarrow> m + n \<le> 7 | _ \<Rightarrow> False))"

text \<open>With a zone (\<open>%\<close> and at least one character of \<open>[0-9a-zA-Z-.:]\<close>) the address is
  still an IPv6 address.\<close>

definition zone_char :: "char \<Rightarrow> bool" where
  "zone_char c \<longleftrightarrow> (let n = of_char c :: nat in 48 \<le> n \<and> n \<le> 57 \<or> 65 \<le> n \<and> n \<le> 90 \<or> 97 \<le> n \<and> n \<le> 122)
     \<or> c = CHR ''-'' \<or> c = CHR ''.'' \<or> c = CHR '':''"

definition isIP :: "string \<Rightarrow> nat" where
  "isIP s = (if is_ipv4 s then 4
     else if is_ipv6 s then 6
     else case dropWhile (\<lambda>c. c \<noteq> CHR ''%'') s of [] \<Rightarrow> 0
       | _ # zone \<Rightarrow> if is_ipv6 (takeWhile (\<lambda>c. c \<noteq> CHR ''%'') s) \<and> zone \<noteq> [] \<and> list_all zone_char zone
           then 6 else 0)"

section \<open>Public addresses\<close>

definition octet :: "jsnum \<Rightarrow> nat option" where
  "octet x = (case x of Finite q \<Rightarrow>
     if q \<in> \<int> \<and> 0 \<le> q \<and> q \<le> 255 then Some (nat \<lfloor>q\<rfloor>) else None | _ \<Rightarrow> None)"

definition ipv4Number :: "string \<Rightarrow> 32 word option" where
  "ipv4Number address = (case map (\<lambda>p. octet (jsNumber p)) (split_on CHR ''.'' address) of
       [Some a, Some b, Some c, Some d] \<Rightarrow>
         Some (push_bit 24 (of_nat a) + push_bit 16 (of_nat b) + push_bit 8 (of_nat c) + of_nat d)
     | _ \<Rightarrow> None)"

definition prefix_mask :: "nat \<Rightarrow> 32 word" where
  "prefix_mask prefix = (if prefix = 0 then 0 else push_bit (32 - prefix) (- 1))"

definition inIpv4Cidr :: "string \<Rightarrow> string \<Rightarrow> nat \<Rightarrow> bool" where
  "inIpv4Cidr address network prefix = (case (ipv4Number address, ipv4Number network) of
       (Some value, Some base) \<Rightarrow> value AND prefix_mask prefix = base AND prefix_mask prefix
     | _ \<Rightarrow> False)"

definition blocked :: "(string \<times> nat) list" where
  "blocked = [(''0.0.0.0'', 8), (''10.0.0.0'', 8), (''100.64.0.0'', 10), (''127.0.0.0'', 8),
     (''169.254.0.0'', 16), (''172.16.0.0'', 12), (''192.0.0.0'', 24), (''192.0.2.0'', 24),
     (''192.168.0.0'', 16), (''198.18.0.0'', 15), (''198.51.100.0'', 24), (''203.0.113.0'', 24),
     (''224.0.0.0'', 4), (''240.0.0.0'', 4)]"

definition ipv4_public :: "string \<Rightarrow> bool" where
  "ipv4_public normalized \<longleftrightarrow> \<not> list_ex (\<lambda>(network, prefix). inIpv4Cidr normalized network prefix) blocked"

definition ipv6_blocked :: "string \<Rightarrow> bool" where
  "ipv6_blocked s \<longleftrightarrow> s = ''::'' \<or> s = ''::1'' \<or> starts_with s ''fc'' \<or> starts_with s ''fd'' \<or>
     (starts_with s ''fe'' \<and> 3 \<le> length s \<and> s ! 2 \<in> set ''89ab'') \<or>
     starts_with s ''ff'' \<or> starts_with s ''2001:db8''"

text \<open>\<open>^::ffff:(\d+\.\d+\.\d+\.\d+)$\<close> and \<open>^::ffff:([0-9a-f]{1,4}):([0-9a-f]{1,4})$\<close>.\<close>

definition mapped_v4 :: "string \<Rightarrow> string option" where
  "mapped_v4 s = (if starts_with s ''::ffff:'' \<and>
       (let ps = split_on CHR ''.'' (drop 7 s) in
        length ps = 4 \<and> list_all (\<lambda>p. p \<noteq> [] \<and> list_all is_digit p) ps)
     then Some (drop 7 s) else None)"

definition lower_hex :: "string \<Rightarrow> bool" where
  "lower_hex s \<longleftrightarrow> 1 \<le> length s \<and> length s \<le> 4 \<and> list_all (\<lambda>c. is_hex c \<and> to_lower_char c = c) s"

definition mapped_hex :: "string \<Rightarrow> (nat \<times> nat) option" where
  "mapped_hex s = (if starts_with s ''::ffff:'' then
     (case split_on CHR '':'' (drop 7 s) of
        [h, l] \<Rightarrow> if lower_hex h \<and> lower_hex l then
            (case (radix_digits 16 0 h, radix_digits 16 0 l) of
               (Some x, Some y) \<Rightarrow> Some (x, y) | _ \<Rightarrow> None)
          else None
      | _ \<Rightarrow> None) else None)"

definition dotted :: "nat \<Rightarrow> nat \<Rightarrow> string" where
  "dotted high low = show_nat (drop_bit 8 high) @ ''.'' @ show_nat (high AND 255) @ ''.'' @
     show_nat (drop_bit 8 low) @ ''.'' @ show_nat (low AND 255)"

definition normalized_address :: "string \<Rightarrow> string" where
  "normalized_address address = takeWhile (\<lambda>c. c \<noteq> CHR ''%'') (toLowerCase address)"

text \<open>The recursive calls are on the text of an IPv4 address (which is not an IPv6 address), so
  \<open>isPublicIp_v4\<close> is the whole function there.\<close>

definition isPublicIp_v4 :: "string \<Rightarrow> bool" where
  "isPublicIp_v4 address = (let normalized = normalized_address address in
     isIP normalized = 4 \<and> ipv4_public normalized)"

definition isPublicIp :: "string \<Rightarrow> bool" where
  "isPublicIp address = (let normalized = normalized_address address in
     if isIP normalized = 4 then ipv4_public normalized
     else if isIP normalized \<noteq> 6 then False
     else if ipv6_blocked normalized then False
     else case mapped_v4 normalized of
       Some m \<Rightarrow> isPublicIp_v4 m
     | None \<Rightarrow> (case mapped_hex normalized of
           Some (high, low) \<Rightarrow> isPublicIp_v4 (dotted high low)
         | None \<Rightarrow> True))"

section \<open>Targets of outbound requests\<close>

record address_record =
  addr_address :: string
  addr_family :: nat

record PublicHttpTarget =
  target_url :: URL
  target_addresses :: "address_record list"

definition port_allowed :: "URL \<Rightarrow> bool" where
  "port_allowed url \<longleftrightarrow> url_port url = [] \<or> url_protocol url = ''http:'' \<and> url_port url = ''80'' \<or>
     url_protocol url = ''https:'' \<and> url_port url = ''443''"

definition local_host :: "string \<Rightarrow> bool" where
  "local_host host \<longleftrightarrow> host = ''localhost'' \<or> ends_with host ''.localhost'' \<or> ends_with host ''.local''"

definition resolvePublicHttpTarget ::
    "(string \<Rightarrow> URL option) \<Rightarrow> (string \<Rightarrow> error + address_record list) \<Rightarrow> string \<Rightarrow>
       error + PublicHttpTarget" where
  "resolvePublicHttpTarget parse lookup raw = (case parse raw of
       None \<Rightarrow> Inl (TypeError ''Invalid URL'')
     | Some url \<Rightarrow>
       if url_protocol url \<noteq> ''http:'' \<and> url_protocol url \<noteq> ''https:'' then
         Inl (Error ''Only http(s) URLs are allowed'')
       else if url_username url \<noteq> [] \<or> url_password url \<noteq> [] then
         Inl (Error ''Credentialed URLs are not allowed'')
       else if \<not> port_allowed url then Inl (Error ''Non-standard ports are not allowed'')
       else let host = toLowerCase (url_hostname url) in
         if local_host host then Inl (Error ''Local hosts are not allowed'')
         else case (if isIP host \<noteq> 0 then Inr [\<lparr>addr_address = host, addr_family = isIP host\<rparr>]
                    else lookup host) of
             Inl e \<Rightarrow> Inl e
           | Inr records \<Rightarrow>
               if records = [] \<or> list_ex (\<lambda>r. \<not> isPublicIp (addr_address r)) records then
                 Inl (Error ''Host resolves to a non-public IP'')
               else Inr \<lparr>target_url = url, target_addresses = records\<rparr>)"

definition assertPublicHttpUrl ::
    "(string \<Rightarrow> URL option) \<Rightarrow> (string \<Rightarrow> error + address_record list) \<Rightarrow> string \<Rightarrow> error + URL" where
  "assertPublicHttpUrl parse lookup raw = map_sum id target_url (resolvePublicHttpTarget parse lookup raw)"

section \<open>Safe links\<close>

definition localOrigin :: string where
  "localOrigin = ''https://recruiting-os.invalid''"

text \<open>\<open>parse_at\<close> is the URL parser with a base URL.\<close>

definition safeRelativeReturnTo :: "(string \<Rightarrow> string \<Rightarrow> URL option) \<Rightarrow> string \<Rightarrow> string \<Rightarrow> string" where
  "safeRelativeReturnTo parse_at value fallback =
     (if \<not> starts_with value ''/'' \<or> CHR 0x5C \<in> set value then fallback
      else case parse_at value localOrigin of None \<Rightarrow> fallback
        | Some url \<Rightarrow> if url_origin url \<noteq> localOrigin then fallback
            else url_pathname url @ url_search url @ url_hash url)"

definition safeHttpUrl :: "(string \<Rightarrow> URL option) \<Rightarrow> string option \<Rightarrow> string option" where
  "safeHttpUrl parse value = (if \<not> truthy value then None
     else case parse (the value) of None \<Rightarrow> None
       | Some url \<Rightarrow> if url_protocol url \<notin> set [''http:'', ''https:''] \<or> url_username url \<noteq> [] \<or>
             url_password url \<noteq> [] then None
           else Some (url_href url))"

section \<open>Lemmas on IPv4 addresses\<close>

definition quad :: "nat \<Rightarrow> nat \<Rightarrow> nat \<Rightarrow> nat \<Rightarrow> string" where
  "quad a b c d = show_nat a @ ''.'' @ show_nat b @ ''.'' @ show_nat c @ ''.'' @ show_nat d"

text \<open>The reserved IPv4 ranges, on the octets.\<close>

definition reserved_v4 :: "nat \<Rightarrow> nat \<Rightarrow> nat \<Rightarrow> nat \<Rightarrow> bool" where
  "reserved_v4 a b c d \<longleftrightarrow> a = 0 \<or> a = 10 \<or> a = 100 \<and> 64 \<le> b \<and> b \<le> 127 \<or> a = 127 \<or>
     a = 169 \<and> b = 254 \<or> a = 172 \<and> 16 \<le> b \<and> b \<le> 31 \<or> a = 192 \<and> b = 0 \<and> (c = 0 \<or> c = 2) \<or>
     a = 192 \<and> b = 168 \<or> a = 198 \<and> (b = 18 \<or> b = 19) \<or> a = 198 \<and> b = 51 \<and> c = 100 \<or>
     a = 203 \<and> b = 0 \<and> c = 113 \<or> 224 \<le> a"

lemma digits_notin: "list_all is_digit s \<Longrightarrow> \<not> is_digit c \<Longrightarrow> c \<notin> set s"
  by (auto simp: list_all_iff)

lemma show_nat_notin [simp]: "\<not> is_digit c \<Longrightarrow> c \<notin> set (show_nat n)"
  by (rule digits_notin) simp_all

lemma split_quad: "split_on CHR ''.'' (quad a b c d) = [show_nat a, show_nat b, show_nat c, show_nat d]"
  by (simp add: quad_def split_on_append split_on_notin is_digit_def)

lemma show_nat_small: "n < 10 \<Longrightarrow> show_nat n = [digit_char n]"
  by (simp add: show_nat.simps)

lemma show_nat_step: "10 \<le> n \<Longrightarrow> show_nat n = show_nat (n div 10) @ [digit_char (n mod 10)]"
  by (subst show_nat.simps) simp

lemma digit_char_0: "digit_char 0 = CHR ''0''"
  by (simp add: digit_char_def char_of_def bit_0)

lemma show_nat_octet: "n \<le> 255 \<Longrightarrow> v4_segment (show_nat n)"
proof -
  assume n: "n \<le> 255"
  have "length (show_nat n) \<le> 3 \<and> (length (show_nat n) = 1 \<or> hd (show_nat n) \<noteq> CHR ''0'')"
  proof (cases "n < 10")
    case True
    then show ?thesis by (simp add: show_nat_small)
  next
    case False
    show ?thesis
    proof (cases "n < 100")
      case True
      then have "show_nat n = [digit_char (n div 10), digit_char (n mod 10)]"
        using False by (simp add: show_nat_step show_nat_small)
      moreover have "digit_char (n div 10) \<noteq> digit_char 0" using True False by simp
      ultimately show ?thesis by (simp add: digit_char_0)
    next
      case F2: False
      then have "show_nat n = [digit_char (n div 100), digit_char (n div 10 mod 10), digit_char (n mod 10)]"
        using n by (simp add: show_nat_step show_nat_small div_mult2_eq [symmetric])
      moreover have "digit_char (n div 100) \<noteq> digit_char 0" using F2 n by simp
      ultimately show ?thesis by (simp add: digit_char_0)
    qed
  qed
  then show ?thesis using n by (simp add: v4_segment_def)
qed

lemma is_ipv4_quad: "a \<le> 255 \<Longrightarrow> b \<le> 255 \<Longrightarrow> c \<le> 255 \<Longrightarrow> d \<le> 255 \<Longrightarrow> is_ipv4 (quad a b c d)"
  by (simp add: is_ipv4_def split_quad show_nat_octet)

lemma octet_show: "n \<le> 255 \<Longrightarrow> octet (jsNumber (show_nat n)) = Some n"
  by (simp add: jsNumber_digits octet_def)

definition quad_value :: "nat \<Rightarrow> nat \<Rightarrow> nat \<Rightarrow> nat \<Rightarrow> nat" where
  "quad_value a b c d = a * 16777216 + b * 65536 + c * 256 + d"

lemma ipv4Number_quad:
  assumes "a \<le> 255" "b \<le> 255" "c \<le> 255" "d \<le> 255"
  shows "ipv4Number (quad a b c d) = Some (of_nat (quad_value a b c d))"
proof -
  have "push_bit 24 (of_nat a) + push_bit 16 (of_nat b) + push_bit 8 (of_nat c) + of_nat d
      = (of_nat (quad_value a b c d) :: 32 word)"
    by (simp add: push_bit_eq_mult quad_value_def)
  then show ?thesis using assms by (simp add: ipv4Number_def split_quad octet_show)
qed

lemma prefix_mask_eq:
  assumes "0 < p" "p \<le> 32" "m < 2 ^ 32" "n < 2 ^ 32"
  shows "(of_nat m AND prefix_mask p = (of_nat n :: 32 word) AND prefix_mask p) \<longleftrightarrow>
    m div 2 ^ (32 - p) = n div 2 ^ (32 - p)"
proof -
  have pm: "prefix_mask p = NOT (mask (32 - p))" using assms(1) by (simp add: prefix_mask_def)
  have and_push: "w AND NOT (mask k) = push_bit k (drop_bit k w)" for w :: "32 word" and k
    by (rule bit_word_eqI) (auto simp: bit_simps)
  have drop: "drop_bit k (push_bit k (drop_bit k w)) = drop_bit k w" for w :: "32 word" and k
    by (rule bit_word_eqI) (auto simp: bit_simps dest: bit_imp_le_length)
  have "(of_nat m AND prefix_mask p = (of_nat n :: 32 word) AND prefix_mask p) \<longleftrightarrow>
      drop_bit (32 - p) (of_nat m :: 32 word) = drop_bit (32 - p) (of_nat n)"
    unfolding pm and_push using drop by metis
  also have "\<dots> \<longleftrightarrow> m div 2 ^ (32 - p) = n div 2 ^ (32 - p)"
    using assms(3,4) unfolding word_unat_eq_iff unat_drop_bit_eq
    by (simp add: drop_bit_eq_div unat_of_nat)
  finally show ?thesis .
qed

lemma blocked_quads:
  "blocked = [(quad 0 0 0 0, 8), (quad 10 0 0 0, 8), (quad 100 64 0 0, 10), (quad 127 0 0 0, 8),
     (quad 169 254 0 0, 16), (quad 172 16 0 0, 12), (quad 192 0 0 0, 24), (quad 192 0 2 0, 24),
     (quad 192 168 0 0, 16), (quad 198 18 0 0, 15), (quad 198 51 100 0, 24), (quad 203 0 113 0, 24),
     (quad 224 0 0 0, 4), (quad 240 0 0 0, 4)]"
  by (simp add: blocked_def quad_def show_nat.simps digit_char_def char_of_def bit_0)

lemma inIpv4Cidr_quad:
  assumes "a \<le> 255" "b \<le> 255" "c \<le> 255" "d \<le> 255" "a' \<le> 255" "b' \<le> 255" "c' \<le> 255" "d' \<le> 255"
    and "0 < p" "p \<le> 32"
  shows "inIpv4Cidr (quad a b c d) (quad a' b' c' d') p \<longleftrightarrow>
    quad_value a b c d div 2 ^ (32 - p) = quad_value a' b' c' d' div 2 ^ (32 - p)"
proof -
  have "quad_value a b c d < 2 ^ 32" "quad_value a' b' c' d' < 2 ^ 32"
    using assms by (simp_all add: quad_value_def)
  then show ?thesis using assms by (simp add: inIpv4Cidr_def ipv4Number_quad prefix_mask_eq)
qed

lemma quad_value_div:
  assumes "b \<le> 255" "c \<le> 255" "d \<le> 255"
  shows "quad_value a b c d div 16777216 = a" "quad_value a b c d div 65536 = a * 256 + b"
    "quad_value a b c d div 256 = a * 65536 + b * 256 + c"
    "quad_value a b c d div 4194304 = a * 4 + b div 64"
    "quad_value a b c d div 1048576 = a * 16 + b div 16"
    "quad_value a b c d div 131072 = a * 128 + b div 2"
    "quad_value a b c d div 268435456 = a div 16"
  using assms unfolding quad_value_def by linarith+

lemma mixed_radix: "x < k \<Longrightarrow> (a * k + x = v) \<longleftrightarrow> a = v div k \<and> x = v mod (k::nat)"
  by (metis div_mult_mod_eq div_mult_self3 add.commute add_cancel_left_left bot_nat_0.not_eq_extremum
      div_eq_0_iff less_nat_zero_code mod_less mod_mult_self3)

lemma ipv4_public_quad:
  assumes "a \<le> 255" "b \<le> 255" "c \<le> 255" "d \<le> 255"
  shows "ipv4_public (quad a b c d) \<longleftrightarrow> \<not> reserved_v4 a b c d"
proof -
  have "ipv4_public (quad a b c d) \<longleftrightarrow> \<not> (a = 0 \<or> a = 10 \<or> a * 4 + b div 64 = 401 \<or> a = 127 \<or>
      a * 256 + b = 43518 \<or> a * 16 + b div 16 = 2753 \<or> a * 65536 + b * 256 + c = 12582912 \<or>
      a * 65536 + b * 256 + c = 12582914 \<or> a * 256 + b = 49320 \<or> a * 128 + b div 2 = 25353 \<or>
      a * 65536 + b * 256 + c = 12989284 \<or> a * 65536 + b * 256 + c = 13303921 \<or>
      a div 16 = 14 \<or> a div 16 = 15)"
    using assms unfolding ipv4_public_def blocked_quads
    by (simp add: inIpv4Cidr_quad quad_value_div)
  also have "\<dots> \<longleftrightarrow> \<not> reserved_v4 a b c d"
  proof -
    have b: "b div 64 < 4" "b div 16 < 16" "b div 2 < 128" "b < 256" "c < 256" "b * 256 + c < 65536"
      using assms by simp_all
    have "a * 4 + b div 64 = 401 \<longleftrightarrow> a = 100 \<and> 64 \<le> b \<and> b \<le> 127"
      unfolding mixed_radix [OF b(1)] by auto
    moreover have "a * 256 + b = 43518 \<longleftrightarrow> a = 169 \<and> b = 254" "a * 256 + b = 49320 \<longleftrightarrow> a = 192 \<and> b = 168"
      unfolding mixed_radix [OF b(4)] by simp_all
    moreover have "a * 16 + b div 16 = 2753 \<longleftrightarrow> a = 172 \<and> 16 \<le> b \<and> b \<le> 31"
      unfolding mixed_radix [OF b(2)] by auto
    moreover have "a * 65536 + b * 256 + c = 12582912 \<longleftrightarrow> a = 192 \<and> b = 0 \<and> c = 0"
      "a * 65536 + b * 256 + c = 12582914 \<longleftrightarrow> a = 192 \<and> b = 0 \<and> c = 2"
      "a * 65536 + b * 256 + c = 12989284 \<longleftrightarrow> a = 198 \<and> b = 51 \<and> c = 100"
      "a * 65536 + b * 256 + c = 13303921 \<longleftrightarrow> a = 203 \<and> b = 0 \<and> c = 113"
      unfolding add.assoc mixed_radix [OF b(6)] mixed_radix [OF b(5)] by simp_all
    moreover have "a * 128 + b div 2 = 25353 \<longleftrightarrow> a = 198 \<and> (b = 18 \<or> b = 19)"
      unfolding mixed_radix [OF b(3)] by auto
    moreover have "a div 16 = 14 \<or> a div 16 = 15 \<longleftrightarrow> 224 \<le> a" using assms(1) by auto
    ultimately show ?thesis by (simp only: reserved_v4_def) argo
  qed
  finally show ?thesis .
qed

lemma digit_lower: "is_digit c \<Longrightarrow> to_lower_char c = c"
  by (auto simp: is_digit_def to_lower_char_def Let_def)

lemma toLowerCase_digits: "list_all is_digit s \<Longrightarrow> toLowerCase s = s"
  by (induction s) (auto simp: toLowerCase_def digit_lower)

lemma toLowerCase_Cons [simp]: "toLowerCase [] = []" "toLowerCase (c # s) = to_lower_char c # toLowerCase s"
  by (simp_all add: toLowerCase_def)

lemma toLowerCase_quad: "toLowerCase (quad a b c d) = quad a b c d"
  by (simp add: quad_def toLowerCase_digits to_lower_char_def)

lemma set_quad: "x \<in> set (quad a b c d) \<Longrightarrow> is_digit x \<or> x = CHR ''.''"
  using show_nat_digits by (auto simp: quad_def list_all_iff)

lemma quad_no_percent: "takeWhile (\<lambda>c. c \<noteq> CHR ''%'') (quad a b c d) = quad a b c d"
  by (rule takeWhile_eq_all_conv [THEN iffD2]) (auto dest!: set_quad simp: is_digit_def)

lemma normalized_quad: "normalized_address (quad a b c d) = quad a b c d"
  by (simp add: normalized_address_def toLowerCase_quad quad_no_percent)

lemma isPublicIp_v4_quad:
  "a \<le> 255 \<Longrightarrow> b \<le> 255 \<Longrightarrow> c \<le> 255 \<Longrightarrow> d \<le> 255 \<Longrightarrow>
     isPublicIp_v4 (quad a b c d) \<longleftrightarrow> \<not> reserved_v4 a b c d"
  by (simp add: isPublicIp_v4_def normalized_quad isIP_def is_ipv4_quad ipv4_public_quad)

lemma isPublicIp_quad:
  "a \<le> 255 \<Longrightarrow> b \<le> 255 \<Longrightarrow> c \<le> 255 \<Longrightarrow> d \<le> 255 \<Longrightarrow>
     isPublicIp (quad a b c d) \<longleftrightarrow> \<not> reserved_v4 a b c d"
  by (simp add: isPublicIp_def normalized_quad isIP_def is_ipv4_quad ipv4_public_quad)

section \<open>Lemmas on mapped addresses\<close>

lemma quad_no_colon: "CHR '':'' \<notin> set (quad a b c d)"
  by (auto dest!: set_quad simp: is_digit_def)

lemma not_v6_segment_quad: "\<not> v6_segment (quad a b c d)"
proof -
  have "CHR ''.'' \<in> set (quad a b c d)" by (simp add: quad_def)
  moreover have "\<not> is_hex CHR ''.''" by (simp add: is_hex_def hex_val_def)
  ultimately show ?thesis by (auto simp: v6_segment_def list_all_iff)
qed

definition mapped_text :: "string \<Rightarrow> string" where
  "mapped_text s = ''::ffff:'' @ s"

lemma mapped_text_Cons: "mapped_text s = CHR '':'' # CHR '':'' # ''ffff'' @ CHR '':'' # s"
  by (simp add: mapped_text_def)

lemma split_on_mapped: "split_on CHR '':'' (''ffff'' @ CHR '':'' # s) = ''ffff'' # split_on CHR '':'' s"
  by (rule split_on_append) simp

lemma v6_segment_ffff: "v6_segment ''ffff''"
  by (simp add: v6_segment_def is_hex_def hex_val_def)

lemma is_ipv6_mapped:
  assumes "a \<le> 255" "b \<le> 255" "c \<le> 255" "d \<le> 255"
  shows "is_ipv6 (mapped_text (quad a b c d))"
proof -
  have "v6_groups (''ffff'' @ CHR '':'' # quad a b c d) = [''ffff'', quad a b c d]"
    unfolding v6_groups_def split_on_mapped by (simp add: split_on_notin quad_no_colon)
  then show ?thesis
    using assms by (simp add: mapped_text_Cons is_ipv6_def v6_units_def v6_groups_def [of "[]"]
        not_v6_segment_quad v6_segment_ffff is_ipv4_quad)
qed

lemma mapped_not_v4: "\<not> is_ipv4 (mapped_text s)"
proof
  assume v4: "is_ipv4 (mapped_text s)"
  obtain p ps where ps: "split_on CHR ''.'' (mapped_text s) = p # ps"
    by (metis list.exhaust split_on_ne)
  have "hd p = CHR '':'' \<and> p \<noteq> []"
    using ps by (auto simp: mapped_text_Cons split: list.splits)
  then show False using v4 ps by (cases p) (auto simp: is_ipv4_def v4_segment_def is_digit_def)
qed

lemma normalized_mapped:
  assumes "toLowerCase s = s" and "CHR ''%'' \<notin> set s"
  shows "normalized_address (mapped_text s) = mapped_text s"
proof -
  have "toLowerCase (mapped_text s) = mapped_text s"
    using assms(1) by (simp add: mapped_text_def to_lower_char_def)
  moreover have "CHR ''%'' \<notin> set (mapped_text s)" using assms(2) by (simp add: mapped_text_def)
  ultimately show ?thesis
    unfolding normalized_address_def by (simp add: takeWhile_eq_all_conv) (metis)
qed

lemma mapped_not_blocked: "s \<noteq> [] \<Longrightarrow> \<not> ipv6_blocked (mapped_text s)"
  by (simp add: ipv6_blocked_def mapped_text_def starts_with_def)

lemma mapped_v4_quad: "mapped_v4 (mapped_text (quad a b c d)) = Some (quad a b c d)"
  by (simp add: mapped_v4_def mapped_text_def starts_with_def split_quad)

lemma isPublicIp_mapped:
  assumes "a \<le> 255" "b \<le> 255" "c \<le> 255" "d \<le> 255"
  shows "isPublicIp (mapped_text (quad a b c d)) \<longleftrightarrow> \<not> reserved_v4 a b c d"
proof -
  have "CHR ''%'' \<notin> set (quad a b c d)" by (auto dest!: set_quad simp: is_digit_def)
  then have "normalized_address (mapped_text (quad a b c d)) = mapped_text (quad a b c d)"
    by (rule normalized_mapped [OF toLowerCase_quad])
  moreover have "quad a b c d \<noteq> []" by (simp add: quad_def)
  ultimately show ?thesis
    using assms by (simp add: isPublicIp_def isIP_def mapped_not_v4 is_ipv6_mapped mapped_not_blocked
        mapped_v4_quad isPublicIp_v4_quad)
qed

section \<open>Properties\<close>

text \<open>C14. The address filter against its specification. For every IPv4 address in dotted decimal
  notation, and for its IPv4-mapped IPv6 form \<open>::ffff:a.b.c.d\<close>, the verdict of the bit-mask
  arithmetic is exactly that the octets are outside the reserved ranges.\<close>

theorem isPublicIp_reserved:
  assumes "a \<le> 255" and "b \<le> 255" and "c \<le> 255" and "d \<le> 255"
  shows "(isPublicIp (quad a b c d) \<longleftrightarrow> \<not> reserved_v4 a b c d) \<and>
    (isPublicIp (''::ffff:'' @ quad a b c d) \<longleftrightarrow> \<not> reserved_v4 a b c d)"
  using isPublicIp_quad [OF assms] isPublicIp_mapped [OF assms] by (simp add: mapped_text_def)

theorem isPublicIp_reserved_witness:
  "\<not> isPublicIp (quad 172 31 255 255) \<and> isPublicIp (quad 172 32 0 1) \<and>
     \<not> isPublicIp (''::ffff:'' @ quad 127 0 0 1)"
proof -
  have "\<not> isPublicIp (quad 172 31 255 255)"
    using isPublicIp_reserved [of 172 31 255 255] by (simp add: reserved_v4_def)
  moreover have "isPublicIp (quad 172 32 0 1)"
    using isPublicIp_reserved [of 172 32 0 1] by (simp add: reserved_v4_def)
  moreover have "\<not> isPublicIp (''::ffff:'' @ quad 127 0 0 1)"
    using isPublicIp_reserved [of 127 0 0 1] by (simp add: reserved_v4_def)
  ultimately show ?thesis by blast
qed

text \<open>Targets of outbound requests. A target is accepted only when its text is an http or
  https URL without credentials, on the scheme's own port, whose host is not a local name and
  resolves to at least one address, all of them public.\<close>

lemma resolvePublicHttpTarget_sound:
  assumes "resolvePublicHttpTarget parse lookup raw = Inr target"
  shows "parse raw = Some (target_url target) \<and>
    url_protocol (target_url target) \<in> {''http:'', ''https:''} \<and>
    url_username (target_url target) = [] \<and> url_password (target_url target) = [] \<and>
    port_allowed (target_url target) \<and> \<not> local_host (toLowerCase (url_hostname (target_url target))) \<and>
    target_addresses target \<noteq> [] \<and>
    (\<forall>r \<in> set (target_addresses target). isPublicIp (addr_address r))"
  using assms
  by (auto simp: resolvePublicHttpTarget_def Let_def list_ex_iff
      split: option.splits if_splits sum.splits)

lemma resolvePublicHttpTarget_addresses:
  assumes "resolvePublicHttpTarget parse lookup raw = Inr target"
  shows "if isIP (toLowerCase (url_hostname (target_url target))) \<noteq> 0
    then map addr_address (target_addresses target) = [toLowerCase (url_hostname (target_url target))]
    else lookup (toLowerCase (url_hostname (target_url target))) = Inr (target_addresses target)"
  using assms by (auto simp: resolvePublicHttpTarget_def Let_def split: option.splits if_splits sum.splits)

definition demo_url :: URL where
  "demo_url = \<lparr>url_protocol = ''https:'', url_username = [], url_password = [],
     url_hostname = ''example.org'', url_port = [], url_pathname = ''/'', url_search = [],
     url_hash = [], url_origin = ''https://example.org'', url_href = ''https://example.org/''\<rparr>"

lemma demo_target:
  "resolvePublicHttpTarget (\<lambda>_. Some demo_url)
     (\<lambda>_. Inr [\<lparr>addr_address = quad 93 184 216 34, addr_family = 4\<rparr>]) raw =
   Inr \<lparr>target_url = demo_url, target_addresses = [\<lparr>addr_address = quad 93 184 216 34, addr_family = 4\<rparr>]\<rparr>"
proof -
  have pub: "isPublicIp (quad 93 184 216 34)"
    by (simp add: isPublicIp_quad reserved_v4_def)
  have host: "toLowerCase (url_hostname demo_url) = ''example.org''"
    by (simp add: demo_url_def to_lower_char_def)
  have ip: "isIP ''example.org'' = 0"
    by (simp add: isIP_def is_ipv4_def is_ipv6_def v6_units_def
        v6_groups_def v6_segment_def is_hex_def hex_val_def)
  have local: "\<not> local_host ''example.org''" by (simp add: local_host_def ends_with_def)
  have url: "port_allowed demo_url" "url_protocol demo_url = ''https:''" "url_username demo_url = []"
    "url_password demo_url = []" by (simp_all add: port_allowed_def demo_url_def)
  show ?thesis using pub by (simp add: resolvePublicHttpTarget_def Let_def host ip local url)
qed

text \<open>The return address of a login is filtered twice, when the login starts and when it
  ends, and yet is not always a path of this site. The URL standard resolves the text
  \<open>/.//recruiting-os.invalid//evil.example\<close> against the placeholder origin to a path that begins
  with two slashes, and reads that path, given to the filter again, as the placeholder host followed
  by the path \<open>//evil.example\<close>. For every parser that agrees with the standard on these two texts
  the two filters let the protocol-relative address of another site through.\<close>

lemma safeRelativeReturnTo_open_redirect:
  assumes first: "parse_at ''/.//recruiting-os.invalid//evil.example'' localOrigin = Some ua"
      "url_origin ua = localOrigin" "url_pathname ua = ''//recruiting-os.invalid//evil.example''"
      "url_search ua = []" "url_hash ua = []"
    and second: "parse_at ''//recruiting-os.invalid//evil.example'' localOrigin = Some ub"
      "url_origin ub = localOrigin" "url_pathname ub = ''//evil.example''"
      "url_search ub = []" "url_hash ub = []"
  shows "safeRelativeReturnTo parse_at
    (safeRelativeReturnTo parse_at ''/.//recruiting-os.invalid//evil.example'' fallback) fallback
    = ''//evil.example''"
proof -
  have "safeRelativeReturnTo parse_at ''/.//recruiting-os.invalid//evil.example'' fallback
      = ''//recruiting-os.invalid//evil.example''"
    using first by (simp add: safeRelativeReturnTo_def starts_with_def)
  then show ?thesis
    using second by (simp add: safeRelativeReturnTo_def starts_with_def)
qed

definition demo_parse_at :: "string \<Rightarrow> string \<Rightarrow> URL option" where
  "demo_parse_at text base =
     (if text = ''/.//recruiting-os.invalid//evil.example''
      then Some (demo_url\<lparr>url_origin := base, url_pathname := ''//recruiting-os.invalid//evil.example''\<rparr>)
      else if text = ''//recruiting-os.invalid//evil.example''
      then Some (demo_url\<lparr>url_origin := base, url_pathname := ''//evil.example''\<rparr>)
      else None)"

lemma safeRelativeReturnTo_open_redirect_example:
  "safeRelativeReturnTo demo_parse_at
     (safeRelativeReturnTo demo_parse_at ''/.//recruiting-os.invalid//evil.example'' ''/'') ''/''
     = ''//evil.example''"
  by (rule safeRelativeReturnTo_open_redirect [where
        ua = "demo_url\<lparr>url_origin := localOrigin, url_pathname := ''//recruiting-os.invalid//evil.example''\<rparr>"
        and ub = "demo_url\<lparr>url_origin := localOrigin, url_pathname := ''//evil.example''\<rparr>"])
    (simp_all add: demo_parse_at_def demo_url_def)

end
