(* ===== verification/Ingest.thy ===== *)
theory Ingest
  imports Resolver Urls
begin

text \<open>
  The ingestion service, src/src/ingest.ts: stage a source, extract claims from it, store the claims
  and resolve the organization in one transaction, record the outcome on the source version, then
  follow the links. The extractor, the web connector and the classification of URLs (which uses the
  URL parser of the platform) are arguments. \<open>clk\<close> names the clock readings of a call: 0 for
  staging, 1 for the start of processing, 2 and 3 for the resolver, 4 for success, 5 and 6 for
  failure, \<open>7 + 2 * i\<close> and \<open>8 + 2 * i\<close> for the i-th claim.

  The locale \<open>repository\<close> states what the service relies on; the store of src/src/store.ts
  satisfies it.
\<close>

section \<open>The service\<close>

record IngestResult =
  ing_versionId :: string
  ing_processed :: bool
  ing_unchanged :: bool

definition ingest_claim ::
    "(string \<Rightarrow> string) \<Rightarrow> SourceItem \<Rightarrow> string \<Rightarrow> int \<Rightarrow> nat \<Rightarrow> ExtractedClaim \<Rightarrow> Claim" where
  "ingest_claim sha source versionId now index claim =
     \<lparr>clm_id = stableId sha ''clm'' (versionId @ '':'' @ show_nat index @ '':'' @
        claim_field_text (ext_field claim) @ '':'' @ stringify (ext_value claim)),
      clm_tenantId = src_tenantId source, clm_organizationId = src_organizationId source,
      clm_sourceItemId = versionId, clm_field = ext_field claim, clm_value = ext_value claim,
      clm_confidence = ext_confidence claim, clm_publishedAt = src_publishedAt source,
      clm_extractedAt = nowIso now, clm_evidence = ext_evidence claim, clm_supersedes = [],
      clm_temporalPrecision = ext_temporalPrecision claim\<rparr>"

definition ingest_claims ::
    "(string \<Rightarrow> string) \<Rightarrow> (nat \<Rightarrow> int) \<Rightarrow> SourceItem \<Rightarrow> string \<Rightarrow> ExtractionResult \<Rightarrow> Claim list" where
  "ingest_claims sha clk source versionId result =
     map (\<lambda>(i, c). ingest_claim sha source versionId (clk (7 + 2 * i)) i c) (enumerate 0 (res_claims result))"

definition store_claims ::
    "'s repository \<Rightarrow> (string \<Rightarrow> int option) \<Rightarrow> (string \<Rightarrow> string) \<Rightarrow> (nat \<Rightarrow> int) \<Rightarrow> SourceItem \<Rightarrow> string \<Rightarrow>
       string \<Rightarrow> ExtractionResult \<Rightarrow> (error, 's, unit) op" where
  "store_claims repo legacy sha clk source versionId tenantId result =
     repo_transaction repo
       (bindE (repo_putClaims repo (ingest_claims sha clk source versionId result) tenantId) (\<lambda>_.
        bindE (resolveOrganization repo legacy sha (\<lambda>i. clk (8 + 2 * i)) (clk 3)
            (src_organizationId source) (clk 2) tenantId) (\<lambda>_.
          repo_markSourceSucceeded repo (clk 4) versionId tenantId)))"

definition ingest_delay :: "nat \<Rightarrow> int" where
  "ingest_delay attempt = min 900 (2 ^ min attempt 9)"

definition ingest_failure :: "(nat \<Rightarrow> int) \<Rightarrow> nat \<Rightarrow> error \<Rightarrow> ProcessingFailure" where
  "ingest_failure clk attempt e =
     \<lparr>fail_retryable = (attempt < 5), fail_message = error_message e,
      fail_nextAttemptAt = (if attempt < 5
        then Some (toISOString (clk 5 + ingest_delay attempt * 1000)) else None)\<rparr>"

definition process_source ::
    "'s repository \<Rightarrow> (string \<Rightarrow> int option) \<Rightarrow> (string \<Rightarrow> string) \<Rightarrow> (SourceItem \<Rightarrow> error + ExtractionResult) \<Rightarrow>
       (nat \<Rightarrow> int) \<Rightarrow> SourceItem \<Rightarrow> string \<Rightarrow> string \<Rightarrow> nat \<Rightarrow> (error, 's, ExtractionResult) op" where
  "process_source repo legacy sha extract clk source versionId tenantId attempt =
     catchE
       (case extract source of Inl e \<Rightarrow> throwE e
        | Inr result \<Rightarrow>
            bindE (store_claims repo legacy sha clk source versionId tenantId result) (\<lambda>_. retE result))
       (\<lambda>e. bindE (repo_markSourceFailed repo (clk 6) versionId (ingest_failure clk attempt e) tenantId)
          (\<lambda>_. throwE e))"

text \<open>The call without following links, with the extraction result that the rest needs.\<close>

definition ingest_source ::
    "'s repository \<Rightarrow> (string \<Rightarrow> int option) \<Rightarrow> (string \<Rightarrow> string) \<Rightarrow> string \<Rightarrow>
       (SourceItem \<Rightarrow> error + ExtractionResult) \<Rightarrow> (nat \<Rightarrow> int) \<Rightarrow> SourceItem \<Rightarrow>
       (error, 's, IngestResult \<times> ExtractionResult option) op" where
  "ingest_source repo legacy sha defaultTenantId extract clk source =
     (let tenantId = tenant_arg defaultTenantId (src_tenantId source) in
      bindE (repo_stageSource repo (clk 0) source tenantId) (\<lambda>staged.
        if \<not> stg_shouldProcess staged then
          retE (\<lparr>ing_versionId = stg_versionId staged, ing_processed = False, ing_unchanged = True\<rparr>, None)
        else
          bindE (repo_markSourceProcessing repo (clk 1) (stg_versionId staged) tenantId) (\<lambda>attempt.
          bindE (process_source repo legacy sha extract clk source (stg_versionId staged) tenantId attempt)
            (\<lambda>result. retE (\<lparr>ing_versionId = stg_versionId staged, ing_processed = True,
               ing_unchanged = False\<rparr>, Some result)))))"

definition child_source :: "SourceItem \<Rightarrow> SourceItem \<Rightarrow> SourceItem" where
  "child_source source child = child\<lparr>src_tenantId := src_tenantId source,
     src_contributorUserId := src_contributorUserId source\<rparr>"

definition ignore_errors :: "('e, 's, unit) op \<Rightarrow> ('e, 's, unit) op" where
  "ignore_errors m = catchE m (\<lambda>_. retE ())"

type_synonym web_fetch = "string \<Rightarrow> string \<Rightarrow> error + (SourceItem \<times> string list)"

definition ingest_link ::
    "(nat \<Rightarrow> SourceItem \<Rightarrow> (error, 's, unit) op) \<Rightarrow> (string \<Rightarrow> UrlKind) \<Rightarrow> web_fetch \<Rightarrow> SourceItem \<Rightarrow> nat \<Rightarrow>
       string \<Rightarrow> (error, 's, unit) op" where
  "ingest_link ingest_child classify web source maxDepth url = ignore_errors
     (case web (src_organizationId source) url of Inl e \<Rightarrow> throwE e
      | Inr (child, links) \<Rightarrow>
        bindE (ingest_child 0 (child_source source child)) (\<lambda>_.
          if maxDepth > 1 \<and> classify url = url_bio_link then
            forE (\<lambda>(j, next). ignore_errors
                (case web (src_organizationId source) next of Inl e \<Rightarrow> throwE e
                 | Inr (fetched, _) \<Rightarrow> ingest_child (j + 1) (child_source source fetched)))
              (enumerate 0 (take 10 (filter (\<lambda>l. classify l \<in> {url_application, url_website}) links)))
          else retE ()))"

definition ingest ::
    "'s repository \<Rightarrow> (string \<Rightarrow> int option) \<Rightarrow> (string \<Rightarrow> string) \<Rightarrow> string \<Rightarrow>
       (SourceItem \<Rightarrow> error + ExtractionResult) \<Rightarrow> (string \<Rightarrow> UrlKind) \<Rightarrow> web_fetch option \<Rightarrow>
       (nat \<Rightarrow> nat \<Rightarrow> nat \<Rightarrow> int) \<Rightarrow> SourceItem \<Rightarrow> bool \<Rightarrow> nat \<Rightarrow> (error, 's, IngestResult) op" where
  "ingest repo legacy sha defaultTenantId extract classify web clks source followLinks maxDepth =
     bindE (ingest_source repo legacy sha defaultTenantId extract (clks 0 0) source) (\<lambda>(res, extracted).
       case (extracted, web) of
         (Some result, Some fetch) \<Rightarrow>
           if followLinks \<and> maxDepth > 0 then
             bindE (forE (\<lambda>(i, url). ingest_link
                 (\<lambda>j child. bindE (ingest_source repo legacy sha defaultTenantId extract
                    (clks (i + 1) j) child) (\<lambda>_. retE ()))
                 classify fetch source maxDepth url)
               (enumerate 0 (take 12 (filter
                  (\<lambda>url. classify url \<in> {url_application, url_bio_link, url_website})
                  (dedup (res_discoveredUrls result)))))) (\<lambda>_. retE res)
           else retE res
       | _ \<Rightarrow> retE res)"

section \<open>The interface of the repository\<close>

text \<open>Reading does not change the state, and every operation keeps the invariant.\<close>

locale repository =
  fixes repo :: "'s repository" and I :: "'s \<Rightarrow> bool"
  assumes stage_keeps: "preserves I (repo_stageSource repo now source t)"
    and processing_keeps: "preserves I (repo_markSourceProcessing repo now v t)"
    and succeeded_keeps: "preserves I (repo_markSourceSucceeded repo now v t)"
    and failed_keeps: "preserves I (repo_markSourceFailed repo now v failure t)"
    and getSource_keeps: "preserves I (repo_getSource repo i t)"
    and putClaims_keeps: "preserves I (repo_putClaims repo cs t)"
    and listClaims_keeps: "preserves I (repo_listClaims repo org t)"
    and replace_keeps: "preserves I (repo_replaceOpportunities repo org os t)"
    and overrides_keeps: "preserves I (repo_listOpportunityOverrides repo org t)"
    and transaction_keeps: "preserves I m \<Longrightarrow> preserves I (repo_transaction repo m)"
begin

lemmas keeps = stage_keeps processing_keeps succeeded_keeps failed_keeps getSource_keeps
  putClaims_keeps listClaims_keeps replace_keeps overrides_keeps transaction_keeps

lemma preserves_mapE: "(\<And>x. preserves I (f x)) \<Longrightarrow> preserves I (mapE f xs)"
  by (induction xs) (auto intro!: preserves_intros)

lemma scoreClaim_keeps: "preserves I (scoreClaim repo legacy now c t)"
  unfolding scoreClaim_def by (intro preserves_intros keeps)

lemma resolveOrganization_keeps: "preserves I (resolveOrganization repo legacy sha clk stamp org now t)"
  unfolding resolveOrganization_def Let_def case_prod_beta
  by (intro preserves_intros keeps preserves_mapE scoreClaim_keeps)

lemma store_claims_keeps: "preserves I (store_claims repo legacy sha clk source v t result)"
  unfolding store_claims_def by (intro preserves_intros keeps resolveOrganization_keeps)

lemma process_source_keeps: "preserves I (process_source repo legacy sha extract clk source v t attempt)"
  unfolding process_source_def
  by (cases "extract source") (auto intro!: preserves_intros keeps store_claims_keeps)

lemma ingest_source_keeps: "preserves I (ingest_source repo legacy sha dt extract clk source)"
  unfolding ingest_source_def Let_def by (intro preserves_intros keeps process_source_keeps)

lemma ignore_errors_keeps: "preserves I m \<Longrightarrow> preserves I (ignore_errors m)"
  unfolding ignore_errors_def by (intro preserves_intros)

lemma ingest_link_keeps:
  "(\<And>j c. preserves I (child j c)) \<Longrightarrow> preserves I (ingest_link child classify web source d url)"
  unfolding ingest_link_def case_prod_beta
  by (auto intro!: preserves_intros ignore_errors_keeps split: sum.splits)

lemma ingest_keeps:
  "preserves I (ingest repo legacy sha dt extract classify web clks source follow d)"
  unfolding ingest_def case_prod_beta
  by (auto intro!: preserves_intros ingest_source_keeps ingest_link_keeps split: option.splits)

end

text \<open>The evidence is the view of the claims and opportunities. Only a transaction that commits
  changes it.\<close>

locale evidence_repository =
  fixes repo :: "'s repository" and outer :: "'s \<Rightarrow> bool" and evidence :: "'s \<Rightarrow> 'v"
  assumes stage_evidence: "repo_stageSource repo now source t s = (res1, s') \<Longrightarrow>
      evidence s' = evidence s \<and> (outer s \<longrightarrow> outer s')"
    and processing_evidence: "repo_markSourceProcessing repo now v t s = (res2, s') \<Longrightarrow>
      evidence s' = evidence s \<and> (outer s \<longrightarrow> outer s')"
    and failed_evidence: "repo_markSourceFailed repo now v failure t s = (res3, s') \<Longrightarrow>
      evidence s' = evidence s"
    and transaction_aborts: "outer s \<Longrightarrow> repo_transaction repo m s = (Inl e, s') \<Longrightarrow>
      evidence s' = evidence s"
begin

lemma process_source_atomic:
  assumes "outer s" and "process_source repo legacy sha extract clk source v t attempt s = (Inl e, s')"
  shows "evidence s' = evidence s"
proof -
  obtain e' u where "evidence u = evidence s"
    and fail: "bindE (repo_markSourceFailed repo (clk 6) v (ingest_failure clk attempt e') t)
      (\<lambda>_. throwE e' :: (error, 's, ExtractionResult) op) u = (Inl e, s')"
  proof (cases "extract source")
    case (Inl e')
    then have "bindE (repo_markSourceFailed repo (clk 6) v (ingest_failure clk attempt e') t)
        (\<lambda>_. throwE e' :: (error, 's, ExtractionResult) op) s = (Inl e, s')"
      using assms(2) by (simp add: process_source_def catchE_def op_apply)
    then show ?thesis using that by blast
  next
    case (Inr result)
    then obtain e' u where "bindE (store_claims repo legacy sha clk source v t result) (\<lambda>_. retE result) s
        = (Inl e', u)" "bindE (repo_markSourceFailed repo (clk 6) v (ingest_failure clk attempt e') t)
      (\<lambda>_. throwE e' :: (error, 's, ExtractionResult) op) u = (Inl e, s')"
      using assms(2) by (auto simp: process_source_def catchE_def split: prod.splits sum.splits)
    moreover from this have "evidence u = evidence s"
      using transaction_aborts [OF assms(1)]
      by (auto simp: bindE_Inl_iff store_claims_def retE_def)
    ultimately show ?thesis using that by blast
  qed
  then show ?thesis using failed_evidence by (auto simp: bindE_Inl_iff throwE_def dest!: failed_evidence)
qed

lemma ingest_source_atomic:
  assumes "outer s" and "ingest_source repo legacy sha dt extract clk source s = (Inl e, s')"
  shows "evidence s' = evidence s"
proof -
  let ?t = "tenant_arg dt (src_tenantId source)"
  consider "repo_stageSource repo (clk 0) source ?t s = (Inl e, s')"
    | staged u where "repo_stageSource repo (clk 0) source ?t s = (Inr staged, u)"
        "repo_markSourceProcessing repo (clk 1) (stg_versionId staged) ?t u = (Inl e, s')"
    | staged u a v where "repo_stageSource repo (clk 0) source ?t s = (Inr staged, u)"
        "repo_markSourceProcessing repo (clk 1) (stg_versionId staged) ?t u = (Inr a, v)"
        "process_source repo legacy sha extract clk source (stg_versionId staged) ?t a v = (Inl e, s')"
    using assms(2)
    by (auto simp: ingest_source_def Let_def bindE_Inl_iff retE_def split: if_splits)
  then show ?thesis
    by cases (use assms(1) in \<open>auto dest!: stage_evidence processing_evidence process_source_atomic\<close>)
qed

end

section \<open>The store satisfies the interface\<close>

interpretation sqlite: repository "sqlite_repository sha" db_ok for sha
  by unfold_locales
    (simp_all add: sqlite_repository_def db_ok_stageSource db_ok_markSourceProcessing
      db_ok_markSourceSucceeded db_ok_markSourceFailed db_ok_putClaims db_ok_replaceOpportunities
      db_ok_transaction getSource_def listClaims_def listOpportunityOverrides_def preserves_getE)

definition evidence_view :: "'m db_scheme \<Rightarrow> claim_row table \<times> opportunity_row table" where
  "evidence_view s = (claims s, opportunities s)"

lemma evidence_statements:
  "preserves (\<lambda>s. evidence_view s = ev) (upsert_source_row row2)"
  "preserves (\<lambda>s. evidence_view s = ev) (insert_or_ignore_version row3)"
  "preserves (\<lambda>s. evidence_view s = ev) (insert_or_ignore_contributor row4)"
  "preserves (\<lambda>s. evidence_view s = ev) (update_versions p f)"
  by (simp_all add: preserves_def upsert_source_row_def insert_or_ignore_version_def
      insert_or_ignore_contributor_def update_versions_def evidence_view_def)

lemma evidence_transaction:
  "preserves (\<lambda>s. evidence_view s = ev) m \<Longrightarrow> preserves (\<lambda>s. evidence_view s = ev) (transaction m)"
  by (rule preserves_transaction) (simp_all add: evidence_view_def)

lemma evidence_record_contributor:
  "preserves (\<lambda>s. evidence_view s = ev) (record_contributor now t v u)"
  unfolding record_contributor_def by (intro preserves_intros evidence_statements)

lemma evidence_kept:
  "preserves (\<lambda>s. evidence_view s = ev) (stageSource sha now source t)"
  "preserves (\<lambda>s. evidence_view s = ev) (markSourceProcessing now v t)"
  "preserves (\<lambda>s. evidence_view s = ev) (markSourceSucceeded now v t)"
  "preserves (\<lambda>s. evidence_view s = ev) (markSourceFailed now v failure t)"
  unfolding stageSource_def markSourceProcessing_def markSourceSucceeded_def markSourceFailed_def Let_def
  by (intro preserves_intros evidence_transaction evidence_statements evidence_record_contributor)+

lemma transaction_abort_evidence:
  "transactionDepth s = 0 \<Longrightarrow> transaction m s = (Inl e, t) \<Longrightarrow> evidence_view t = evidence_view s"
  by (auto simp: transaction_def evidence_view_def split: prod.splits sum.splits)

interpretation sqlite_evidence: evidence_repository "sqlite_repository sha"
    "\<lambda>s. transactionDepth s = 0" evidence_view for sha
proof unfold_locales
  fix now source t s res s'
  assume "repo_stageSource (sqlite_repository sha) now source t s = (res, s')"
  then have run: "stageSource sha now source t s = (res, s')" by (simp add: sqlite_repository_def)
  show "evidence_view s' = evidence_view s \<and> (transactionDepth s = 0 \<longrightarrow> transactionDepth s' = 0)"
    using preservesD [OF evidence_kept(1) _ run] preservesD [OF depth_stageSource _ run] by simp
next
  fix now v t s res s'
  assume "repo_markSourceProcessing (sqlite_repository sha) now v t s = (res, s')"
  then have run: "markSourceProcessing now v t s = (res, s')" by (simp add: sqlite_repository_def)
  show "evidence_view s' = evidence_view s \<and> (transactionDepth s = 0 \<longrightarrow> transactionDepth s' = 0)"
    using preservesD [OF evidence_kept(2) _ run] preservesD [OF depth_methods(3) _ run] by simp
next
  fix now v failure t s res s'
  assume "repo_markSourceFailed (sqlite_repository sha) now v failure t s = (res, s')"
  then have run: "markSourceFailed now v failure t s = (res, s')" by (simp add: sqlite_repository_def)
  show "evidence_view s' = evidence_view s" using preservesD [OF evidence_kept(4) _ run] by simp
next
  fix s m e s'
  assume "transactionDepth s = 0" "repo_transaction (sqlite_repository sha) m s = (Inl e, s')"
  then show "evidence_view s' = evidence_view s"
    using transaction_abort_evidence by (simp add: sqlite_repository_def)
qed

section \<open>The version that a call works on\<close>

lemma versions_kept:
  "preserves (\<lambda>s. source_versions s = V) (upsert_source_row row)"
  "preserves (\<lambda>s. source_versions s = V) (record_contributor now t v u)"
  unfolding record_contributor_def
  by (auto simp: preserves_def upsert_source_row_def insert_or_ignore_contributor_def effect_defs
      split: sum.splits)

lemma find_version_row:
  "find_version t v s = Some r \<Longrightarrow> r \<in> set (source_versions s) \<and> sv_tenant_id r = t \<and> sv_id r = v"
  unfolding find_version_def by (drule select_first_Some) auto

lemma find_version_depth [simp]:
  "find_version t v (s\<lparr>transactionDepth := n\<rparr>) = find_version t v s"
  by (simp add: find_version_def)

lemma find_version_update:
  assumes "\<And>r. sv_id (f r) = sv_id r" and "\<And>r. sv_tenant_id (f r) = sv_tenant_id r"
  shows "find_version t v (s\<lparr>source_versions := update_where p f (source_versions s)\<rparr>) =
    map_option (\<lambda>r. if p r then f r else r) (find_version t v s)"
  using assms by (simp add: find_version_def select_first_update_where)

lemma insert_version_find:
  assumes "insert_or_ignore_version row s = (Inr (), u)"
  shows "find_version t v u = find_version t v s \<or>
    find_version t v s = None \<and> source_versions u = source_versions s @ [row] \<and>
      find_version t v u = (if sv_tenant_id row = t \<and> sv_id row = v then Some row else None)"
  using assms by (auto simp: insert_or_ignore_version_def find_version_def select_first_append1
      split: if_splits option.splits)

text \<open>What staging returns, and the version afterwards.\<close>

lemma stage_version:
  assumes depth: "transactionDepth s = 0" and run: "stageSource sha now source t s = (Inr st, u)"
  shows "stg_versionId st = version_id_of sha source t \<and>
    (\<exists>row. find_version t (version_id_of sha source t) u = Some row \<and>
       sv_status row = stg_status st \<and> sv_attempt_count row = stg_attemptCount st \<and>
       (if stg_shouldProcess st then sv_status row = queued else \<not> should_process (sv_status row)))"
    and "find_version t (version_id_of sha source t) s = Some r \<Longrightarrow>
      stg_shouldProcess st = should_process (sv_status r) \<and> stg_attemptCount st = sv_attempt_count r \<and>
      (\<not> should_process (sv_status r) \<longrightarrow> find_version t (version_id_of sha source t) u = Some r)"
proof -
  let ?v = "version_id_of sha source t" and ?s = "s\<lparr>transactionDepth := 1\<rparr>"
  obtain u' where u: "u = u'\<lparr>transactionDepth := transactionDepth u' - 1\<rparr>"
    and body: "(bindE (upsert_source_row (source_row_of sha now source t)) (\<lambda>_.
      bindE (insert_or_ignore_version (version_row_of sha now source t)) (\<lambda>_.
      bindE (record_contributor now t ?v (src_contributorUserId source)) (\<lambda>_.
      bindE (getE (find_version t ?v)) (\<lambda>found.
        case found of None \<Rightarrow> throwE (TypeError ''Cannot read properties of undefined'')
        | Some row \<Rightarrow>
          let shouldProcess = should_process (sv_status row) in
          bindE (if shouldProcess then
              update_versions (\<lambda>r. sv_tenant_id r = t \<and> sv_id r = ?v)
                (\<lambda>r. r\<lparr>sv_status := queued, sv_next_attempt_at := None\<rparr>)
            else retE 0) (\<lambda>_.
          retE \<lparr>stg_sourceId = source_id_of sha source t, stg_versionId = ?v,
            stg_status = (if shouldProcess then queued else sv_status row),
            stg_shouldProcess = shouldProcess, stg_unchanged = (sv_status row \<noteq> received),
            stg_attemptCount = sv_attempt_count row\<rparr>)))))) ?s = (Inr st, u')"
    using run unfolding stageSource_def transaction_Inr [OF depth] by blast
  obtain a b c where 1: "upsert_source_row (source_row_of sha now source t) ?s = (Inr (), a)"
    and 2: "insert_or_ignore_version (version_row_of sha now source t) a = (Inr (), b)"
    and 3: "record_contributor now t ?v (src_contributorUserId source) b = (Inr (), c)"
    using body by (auto simp: bindE_Inr_iff)
  have V: "source_versions a = source_versions s" "source_versions c = source_versions b"
    using preservesD [OF versions_kept(1) refl 1] preservesD [OF versions_kept(2) refl 3] by simp_all
  obtain row where row: "find_version t ?v c = Some row"
    using body 1 2 3 by (auto simp: bindE_def getE_def throwE_def split: option.splits)
  have rest: "st = \<lparr>stg_sourceId = source_id_of sha source t, stg_versionId = ?v,
      stg_status = (if should_process (sv_status row) then queued else sv_status row),
      stg_shouldProcess = should_process (sv_status row), stg_unchanged = (sv_status row \<noteq> received),
      stg_attemptCount = sv_attempt_count row\<rparr> \<and>
      source_versions u' = (if should_process (sv_status row) then
        update_where (\<lambda>r. sv_tenant_id r = t \<and> sv_id r = ?v)
          (\<lambda>r. r\<lparr>sv_status := queued, sv_next_attempt_at := None\<rparr>) (source_versions c)
        else source_versions c)"
    using body 1 2 3 row by (auto simp: bindE_def getE_def Let_def update_versions_def retE_def)
  have fu: "find_version t ?v u = Some (if should_process (sv_status row)
      then row\<lparr>sv_status := queued, sv_next_attempt_at := None\<rparr> else row)"
    using rest row find_version_row [OF row]
      find_version_update [of "\<lambda>r. r\<lparr>sv_status := queued, sv_next_attempt_at := None\<rparr>" t ?v
        "\<lambda>r. sv_tenant_id r = t \<and> sv_id r = ?v" c]
    unfolding u by (auto simp: find_version_def)
  then show "stg_versionId st = ?v \<and> (\<exists>row. find_version t ?v u = Some row \<and>
       sv_status row = stg_status st \<and> sv_attempt_count row = stg_attemptCount st \<and>
       (if stg_shouldProcess st then sv_status row = queued else \<not> should_process (sv_status row)))"
    using rest by auto
  assume r: "find_version t ?v s = Some r"
  have "find_version t ?v a = Some r" "find_version t ?v c = find_version t ?v b"
    using r V by (simp_all add: find_version_def)
  then have "row = r" using insert_version_find [OF 2, of t ?v] row by auto
  then show "stg_shouldProcess st = should_process (sv_status r) \<and> stg_attemptCount st = sv_attempt_count r \<and>
      (\<not> should_process (sv_status r) \<longrightarrow> find_version t ?v u = Some r)"
    using rest fu by simp
qed

lemma markSourceProcessing_run:
  assumes "db_ok s" and "find_version t v s = Some row" and "ready_for_processing (sv_status row)"
  shows "\<exists>u row'. markSourceProcessing now v t s = (Inr (sv_attempt_count row + 1), u) \<and>
    find_version t v u = Some row' \<and> sv_status row' = processing \<and>
    sv_attempt_count row' = sv_attempt_count row + 1"
proof -
  let ?p = "\<lambda>r. sv_tenant_id r = t \<and> sv_id r = v \<and> ready_for_processing (sv_status r)"
  let ?f = "\<lambda>r. r\<lparr>sv_status := processing, sv_attempt_count := sv_attempt_count r + 1,
    sv_started_at := Some (nowIso now), sv_last_error := None\<rparr>"
  have row: "row \<in> set (source_versions s)" "?p row"
    using find_version_row [OF assms(2)] assms(3) by auto
  have "unique_on sv_id (source_versions s)" using assms(1) by (simp add: db_ok_defs)
  then have "count_where ?p (source_versions s) = 1"
    using row by (subst count_where_unique [where k = sv_id]) (auto simp: exists_row_iff)
  moreover have "find_version t v (s\<lparr>source_versions := update_where ?p ?f (source_versions s)\<rparr>) = Some (?f row)"
    using row assms(2) by (simp add: find_version_update)
  ultimately show ?thesis
    by (auto simp: markSourceProcessing_def update_versions_def bindE_def getE_def retE_def)
qed

lemma markSourceFailed_run:
  assumes "find_version t v s = Some row"
  shows "\<exists>u row'. markSourceFailed now v failure t s = (Inr (), u) \<and> find_version t v u = Some row' \<and>
    sv_status row' = (if fail_retryable failure then retryable_failed else terminal_failed) \<and>
    sv_attempt_count row' = sv_attempt_count row \<and>
    sv_last_error row' = Some (take 500 (fail_message failure))"
  using assms find_version_row [OF assms]
  by (auto simp: markSourceFailed_def update_versions_def bindE_def retE_def find_version_update)

lemma sqlite_ops:
  "repo_stageSource (sqlite_repository sha) = stageSource sha"
  "repo_markSourceProcessing (sqlite_repository sha) = markSourceProcessing"
  "repo_markSourceSucceeded (sqlite_repository sha) = markSourceSucceeded"
  "repo_markSourceFailed (sqlite_repository sha) = markSourceFailed"
  "repo_putClaims (sqlite_repository sha) = putClaims"
  "repo_transaction (sqlite_repository sha) = transaction"
  by (simp_all add: sqlite_repository_def)

text \<open>A claim that was stored is there.\<close>

definition has_claim :: "string \<Rightarrow> ClaimField \<Rightarrow> json \<Rightarrow> 'm db_scheme \<Rightarrow> bool" where
  "has_claim v f x s \<longleftrightarrow> (v, f, x) \<in> claim_key ` set (claims s)"

lemma upsert_claim_keys:
  assumes "upsert_claim_row row s = (Inr (), u)"
  shows "claim_key ` set (claims u) = insert (claim_key row) (claim_key ` set (claims s))"
proof (cases "claim_key row \<in> claim_key ` set (claims s)")
  case True
  then have "claims u = update_where (\<lambda>r. claim_key r = claim_key row)
      (\<lambda>r. r\<lparr>cl_confidence := cl_confidence row, cl_evidence := cl_evidence row,
         cl_extracted_at := cl_extracted_at row\<rparr>) (claims s)"
    using assms by (auto simp: upsert_claim_row_def exists_row_key split: if_splits)
  then show ?thesis using True by (simp add: image_update_where insert_absorb)
next
  case False
  then have "claims u = claims s @ [row]"
    using assms by (auto simp: upsert_claim_row_def exists_row_key split: if_splits)
  then show ?thesis by simp
qed

lemma putClaims_keys:
  "putClaims cs t s = (Inr (), u) \<Longrightarrow>
     claim_key ` set (claims u) = claim_key ` set (claims s) \<union> (\<lambda>c. claim_key (claim_row_of t c)) ` set cs"
  unfolding putClaims_def
proof (induction cs arbitrary: s)
  case Nil
  then show ?case by (simp add: retE_def)
next
  case (Cons c cs)
  then obtain a where a: "upsert_claim_row (claim_row_of t c) s = (Inr (), a)"
    "forE (\<lambda>c. upsert_claim_row (claim_row_of t c)) cs a = (Inr (), u)" by (auto simp: bindE_Inr_iff)
  show ?case using Cons.IH [OF a(2)] upsert_claim_keys [OF a(1)] by simp
qed

lemma claims_kept:
  "preserves (\<lambda>s. claims s = C) (replaceOpportunities org os t)"
  "preserves (\<lambda>s. claims s = C) (markSourceSucceeded now v t)"
proof -
  have 1: "preserves (\<lambda>s. claims s = C) (insert_opportunity t x)" for x
    unfolding insert_opportunity_def
    by (intro preserves_intros) (simp_all add: preserves_def insert_opportunity_row_def)
  show "preserves (\<lambda>s. claims s = C) (replaceOpportunities org os t)"
    unfolding replaceOpportunities_def delete_opportunities_def
    by (intro preserves_intros preserves_modifyE 1) simp
  show "preserves (\<lambda>s. claims s = C) (markSourceSucceeded now v t)"
    by (simp add: preserves_def markSourceSucceeded_def update_versions_def bindE_def retE_def)
qed

lemma versions_kept_resolve:
  "preserves (\<lambda>s. source_versions s = V) (replaceOpportunities org os t)"
  "preserves (\<lambda>s. source_versions s = V) (putClaims cs t)"
proof -
  have 1: "preserves (\<lambda>s. source_versions s = V) (insert_opportunity t x)" for x
    unfolding insert_opportunity_def
    by (intro preserves_intros) (simp_all add: preserves_def insert_opportunity_row_def)
  show "preserves (\<lambda>s. source_versions s = V) (replaceOpportunities org os t)"
    unfolding replaceOpportunities_def delete_opportunities_def
    by (intro preserves_intros preserves_modifyE 1) simp
  show "preserves (\<lambda>s. source_versions s = V) (putClaims cs t)"
    unfolding putClaims_def by (intro preserves_intros) (simp add: preserves_def upsert_claim_row_def)
qed

lemma store_claims_Inr:
  assumes depth: "transactionDepth s = 0" and row: "find_version t v s = Some row"
    and run: "store_claims (sqlite_repository sha) legacy sha clk source v t result s = (Inr (), u)"
  shows "(\<exists>row'. find_version t v u = Some row' \<and> sv_status row' = succeeded \<and>
      sv_attempt_count row' = sv_attempt_count row) \<and>
    (\<forall>c \<in> set (res_claims result). has_claim v (ext_field c) (ext_value c) u)"
proof -
  let ?cs = "ingest_claims sha clk source v result"
  let ?out = "resolved legacy sha (\<lambda>i. clk (8 + 2 * i)) (clk 3) (src_organizationId source) (clk 2) t"
  obtain a b u' where 1: "putClaims ?cs t (s\<lparr>transactionDepth := 1\<rparr>) = (Inr (), a)"
    and 2: "replaceOpportunities (src_organizationId source) (?out a) t a = (Inr (), b)"
    and 3: "markSourceSucceeded (clk 4) v t b = (Inr (), u')"
    and u: "u = u'\<lparr>transactionDepth := transactionDepth u' - 1\<rparr>"
    using run unfolding store_claims_def sqlite_ops transaction_Inr [OF depth]
    by (auto simp: bindE_Inr_iff resolveOrganization_run retE_def)
  have "claims u' = claims b" "claims b = claims a"
    using preservesD [OF claims_kept(2) refl 3] preservesD [OF claims_kept(1) refl 2] by auto
  moreover have "(\<lambda>c. claim_key (claim_row_of t c)) ` set ?cs \<subseteq> claim_key ` set (claims a)"
    using putClaims_keys [OF 1] by auto
  moreover have "(v, ext_field c, ext_value c) \<in> (\<lambda>c. claim_key (claim_row_of t c)) ` set ?cs"
    if c: "c \<in> set (res_claims result)" for c
  proof -
    obtain i where "i < length (res_claims result)" "c = res_claims result ! i"
      using c by (auto simp: in_set_conv_nth)
    then have "(i, c) \<in> set (enumerate 0 (res_claims result))" by (simp add: in_set_enumerate_eq)
    then have "ingest_claim sha source v (clk (7 + 2 * i)) i c \<in> set ?cs"
      by (force simp: ingest_claims_def)
    then show ?thesis
      by (rule rev_image_eqI) (simp add: claim_key_def claim_row_of_def ingest_claim_def)
  qed
  ultimately have claims: "\<forall>c \<in> set (res_claims result). has_claim v (ext_field c) (ext_value c) u"
    by (auto simp: has_claim_def u)
  have "source_versions b = source_versions s"
    using preservesD [OF versions_kept_resolve(1) refl 2] preservesD [OF versions_kept_resolve(2) refl 1]
    by simp
  then have "find_version t v b = Some row" using row by (simp add: find_version_def)
  then have "\<exists>row'. find_version t v u' = Some row' \<and> sv_status row' = succeeded \<and>
      sv_attempt_count row' = sv_attempt_count row"
    using 3 find_version_row [OF row]
    by (auto simp: markSourceSucceeded_def update_versions_def bindE_def retE_def find_version_update)
  then show ?thesis using claims u by simp
qed

lemma extraction_failure:
  assumes "db_ok s" and "transactionDepth s = 0"
    and "stageSource sha (clk 0) source (tenant_arg dt (src_tenantId source)) s = (Inr staged, u)"
    and "stg_shouldProcess staged" and "extract source = Inl e"
  shows "\<exists>s' row. ingest_source (sqlite_repository sha) legacy sha dt extract clk source s = (Inl e, s') \<and>
    find_version (tenant_arg dt (src_tenantId source)) (stg_versionId staged) s' = Some row \<and>
    sv_attempt_count row = stg_attemptCount staged + 1 \<and>
    sv_status row = (if stg_attemptCount staged + 1 < 5 then retryable_failed else terminal_failed) \<and>
    sv_last_error row = Some (take 500 (error_message e))"
proof -
  let ?t = "tenant_arg dt (src_tenantId source)"
  obtain row where row: "find_version ?t (stg_versionId staged) u = Some row" "sv_status row = queued"
    "sv_attempt_count row = stg_attemptCount staged"
    using stage_version(1) [OF assms(2,3)] assms(4) by auto
  have "db_ok u" using preservesD [OF db_ok_stageSource assms(1,3)] .
  from markSourceProcessing_run [OF this row(1), of "clk 1"] row obtain v row2 where v:
    "markSourceProcessing (clk 1) (stg_versionId staged) ?t u = (Inr (stg_attemptCount staged + 1), v)"
    "find_version ?t (stg_versionId staged) v = Some row2"
    "sv_attempt_count row2 = stg_attemptCount staged + 1"
    by (auto simp: ready_for_processing_def)
  let ?f = "ingest_failure clk (stg_attemptCount staged + 1) e"
  obtain w row3 where w: "markSourceFailed (clk 6) (stg_versionId staged) ?f ?t v = (Inr (), w)"
    "find_version ?t (stg_versionId staged) w = Some row3"
    "sv_status row3 = (if fail_retryable ?f then retryable_failed else terminal_failed)"
    "sv_attempt_count row3 = stg_attemptCount staged + 1"
    "sv_last_error row3 = Some (take 500 (fail_message ?f))"
    using markSourceFailed_run [OF v(2)] v(3) by metis
  have "ingest_source (sqlite_repository sha) legacy sha dt extract clk source s = (Inl e, w)"
    using assms(3-5) v(1) w(1)
    by (simp add: ingest_source_def process_source_def sqlite_ops Let_def effect_defs)
  then show ?thesis using w by (simp add: ingest_failure_def)
qed

section \<open>Properties\<close>

text \<open>C8. A failed ingestion leaves no partial evidence. When the processing of a source throws,
  whether while staging, extracting, storing claims or resolving, the claims and the opportunities
  of the whole database are what they were before the call.\<close>

theorem ingest_failure_leaves_evidence:
  assumes "transactionDepth s = 0"
    and "ingest_source (sqlite_repository sha) legacy sha dt extract clk source s = (Inl e, s')"
  shows "claims s' = claims s \<and> opportunities s' = opportunities s"
  using sqlite_evidence.ingest_source_atomic [OF assms] by (simp add: evidence_view_def)

text \<open>Ingestion keeps the integrity of the database: keys, references and checks of the schema
  hold after it, returned or thrown, with any extractor, any web connector and any links followed.\<close>

lemma ingest_keeps_integrity:
  assumes "db_ok s"
    and "ingest (sqlite_repository sha) legacy sha dt extract classify web clks source follow depth s = (res, s')"
  shows "db_ok s'"
  using preservesD [OF sqlite.ingest_keeps assms] .

text \<open>C10. A failure of the extractor is recorded and bounded. The attempt is counted, the message
  is kept (500 characters of it), the version may be retried while fewer than five attempts were made
  and is given up at the fifth, and the caller sees the extractor's error.\<close>

theorem ingest_records_failure:
  assumes "db_ok s" and "transactionDepth s = 0"
    and "stageSource sha (clk 0) source (tenant_arg dt (src_tenantId source)) s = (Inr staged, u)"
    and "stg_shouldProcess staged" and "extract source = Inl e"
  shows "\<exists>s' row. ingest_source (sqlite_repository sha) legacy sha dt extract clk source s = (Inl e, s') \<and>
    find_version (tenant_arg dt (src_tenantId source)) (stg_versionId staged) s' = Some row \<and>
    sv_attempt_count row = stg_attemptCount staged + 1 \<and>
    sv_status row = (if stg_attemptCount staged + 1 < 5 then retryable_failed else terminal_failed) \<and>
    sv_last_error row = Some (take 500 (error_message e))"
  using assms by (rule extraction_failure)

text \<open>A version is processed again only when it is new or failed and may be retried. For a
  version in any other state (succeeded, given up, but also queued or being processed) a call that
  returns reports it as unchanged, stores nothing and leaves its state. So a version that a crash
  left queued or being processed is not processed by any later delivery of the same content.\<close>

lemma settled_version_not_processed:
  assumes "transactionDepth s = 0"
    and "find_version (tenant_arg dt (src_tenantId source))
      (version_id_of sha source (tenant_arg dt (src_tenantId source))) s = Some row"
    and "sv_status row \<notin> {received, retryable_failed}"
    and "ingest_source (sqlite_repository sha) legacy sha dt extract clk source s = (Inr (res, x), s')"
  shows "\<not> ing_processed res \<and> ing_unchanged res \<and> claims s' = claims s \<and>
    opportunities s' = opportunities s \<and>
    find_version (tenant_arg dt (src_tenantId source))
      (version_id_of sha source (tenant_arg dt (src_tenantId source))) s' = Some row"
proof -
  let ?t = "tenant_arg dt (src_tenantId source)"
  obtain staged u where st: "stageSource sha (clk 0) source ?t s = (Inr staged, u)"
    using assms(4) by (auto simp: ingest_source_def Let_def bindE_Inr_iff sqlite_ops)
  have "\<not> stg_shouldProcess staged" "find_version ?t (version_id_of sha source ?t) u = Some row"
    using stage_version(2) [OF assms(1) st assms(2)] assms(3) by (auto simp: should_process_def)
  moreover have "evidence_view u = evidence_view s"
    using preservesD [OF evidence_kept(1) refl st] .
  ultimately show ?thesis using assms(4) st
    by (auto simp: ingest_source_def Let_def bindE_Inr_iff sqlite_ops retE_def evidence_view_def)
qed

text \<open>C9. A successful ingestion is complete: the version is marked as succeeded with one more
  attempt, and every claim the extractor found is stored under it.\<close>

theorem ingest_success_complete:
  assumes "db_ok s" and "transactionDepth s = 0"
    and "ingest_source (sqlite_repository sha) legacy sha dt extract clk source s = (Inr (res, Some result), s')"
  shows "extract source = Inr result \<and> ing_processed res \<and>
    (\<exists>row. find_version (tenant_arg dt (src_tenantId source)) (ing_versionId res) s' = Some row \<and>
       sv_status row = succeeded) \<and>
    (\<forall>c \<in> set (res_claims result). has_claim (ing_versionId res) (ext_field c) (ext_value c) s')"
proof -
  let ?t = "tenant_arg dt (src_tenantId source)"
  obtain staged u where st: "stageSource sha (clk 0) source ?t s = (Inr staged, u)" "stg_shouldProcess staged"
    using assms(3) by (auto simp: ingest_source_def Let_def bindE_Inr_iff sqlite_ops retE_def split: if_splits)
  obtain row where row: "find_version ?t (stg_versionId staged) u = Some row" "sv_status row = queued"
    using stage_version(1) [OF assms(2) st(1)] st(2) by auto
  have u: "db_ok u" "transactionDepth u = 0"
    using preservesD [OF db_ok_stageSource assms(1) st(1)] preservesD [OF depth_stageSource assms(2) st(1)] .
  from markSourceProcessing_run [OF u(1) row(1), of "clk 1"] row(2) obtain v row2 where v:
    "markSourceProcessing (clk 1) (stg_versionId staged) ?t u = (Inr (sv_attempt_count row + 1), v)"
    "find_version ?t (stg_versionId staged) v = Some row2" by (auto simp: ready_for_processing_def)
  have depth: "transactionDepth v = 0" using preservesD [OF depth_methods(3) u(2) v(1)] .
  have "process_source (sqlite_repository sha) legacy sha extract clk source (stg_versionId staged) ?t
      (sv_attempt_count row + 1) v = (Inr result, s')" "ing_processed res" "ing_versionId res = stg_versionId staged"
    using assms(3) st v(1) by (auto simp: ingest_source_def Let_def bindE_Inr_iff sqlite_ops retE_def)
  moreover from this(1) have "extract source = Inr result" and sc: "store_claims (sqlite_repository sha)
      legacy sha clk source (stg_versionId staged) ?t result v = (Inr (), s')"
    by (auto simp: process_source_def catchE_def throwE_def bindE_def retE_def split: sum.splits prod.splits)
  ultimately show ?thesis using store_claims_Inr [OF depth v(2) sc] by auto
qed

section \<open>The properties on concrete sources\<close>

definition demo_source :: SourceItem where
  "demo_source = \<lparr>src_id = ''x'', src_tenantId = Some ''t'', src_contributorUserId = None,
     src_organizationId = ''o'', src_sourceType = application, src_externalId = None, src_url = None,
     src_title = None, src_rawText = ''Apply now'', src_media = [], src_publishedAt = None,
     src_fetchedAt = nowIso 0, src_metadata = None\<rparr>"

definition demo_db :: store where
  "demo_db = demo_evidence []"

lemma demo_db_ok: "db_ok demo_db" "transactionDepth demo_db = 0"
  unfolding demo_db_def by (rule demo_evidence_ok) (simp_all add: demo_evidence_defs)

lemma demo_tenant: "tenant_arg ''t'' (src_tenantId demo_source) = ''t''"
  by (simp add: tenant_arg_def demo_source_def)

lemma demo_find: "find_version ''t'' (version_id_of id demo_source ''t'') demo_db = None"
  by (simp add: find_version_def select_first_def demo_db_def demo_evidence_defs version_id_of_def
      stableId_def)

lemma demo_stage: "\<exists>staged u. stageSource id 0 demo_source ''t'' demo_db = (Inr staged, u) \<and>
    stg_shouldProcess staged \<and> stg_attemptCount staged = 0"
  by (simp add: stageSource_def transaction_def effect_defs upsert_source_row_def
      insert_or_ignore_version_def record_contributor_def find_version_def select_first_def demo_db_def
      demo_evidence_defs source_row_of_def version_row_of_def source_org_def org_key_def
      source_key_def version_key_def version_id_of_def source_id_of_def stableId_def should_process_def
      update_versions_def demo_source_def)

theorem ingest_records_failure_witness:
  "\<exists>s' row. ingest_source (sqlite_repository id) (\<lambda>_. None) id ''t'' (\<lambda>_. Inl (Error ''down'')) (\<lambda>_. 0)
      demo_source demo_db = (Inl (Error ''down''), s') \<and>
    find_version ''t'' (version_id_of id demo_source ''t'') s' = Some row \<and> sv_attempt_count row = 1 \<and>
    sv_status row = retryable_failed"
proof -
  obtain staged u where st: "stageSource id 0 demo_source ''t'' demo_db = (Inr staged, u)"
    "stg_shouldProcess staged" "stg_attemptCount staged = 0" using demo_stage by blast
  have "stg_versionId staged = version_id_of id demo_source ''t''"
    using stage_version(1) [OF demo_db_ok(2) st(1)] by simp
  with ingest_records_failure [OF demo_db_ok, of id "\<lambda>_. 0" demo_source "''t''" staged u
      "\<lambda>_. Inl (Error ''down'')" "Error ''down''" "\<lambda>_. None"] st
  show ?thesis by (auto simp: demo_tenant)
qed

theorem ingest_failure_leaves_evidence_witness:
  "\<exists>s'. ingest_source (sqlite_repository id) (\<lambda>_. None) id ''t'' (\<lambda>_. Inl (Error ''down'')) (\<lambda>_. 0)
      demo_source demo_db = (Inl (Error ''down''), s') \<and> claims s' = [] \<and> opportunities s' = []"
proof -
  obtain s' where run: "ingest_source (sqlite_repository id) (\<lambda>_. None) id ''t''
      (\<lambda>_. Inl (Error ''down'')) (\<lambda>_. 0) demo_source demo_db = (Inl (Error ''down''), s')"
    using extraction_failure [OF demo_db_ok, of id "\<lambda>_. 0" demo_source "''t''" _ _
        "\<lambda>_. Inl (Error ''down'')" "Error ''down''" "\<lambda>_. None"] demo_stage by (auto simp: demo_tenant)
  have "claims demo_db = []" "opportunities demo_db = []" by (simp_all add: demo_db_def demo_evidence_defs)
  then show ?thesis
    using run ingest_failure_leaves_evidence [OF demo_db_ok(2) run] by (intro exI [of _ s']) simp
qed

lemma ingest_keeps_integrity_witness:
  "db_ok (snd (ingest (sqlite_repository id) (\<lambda>_. None) id ''t'' (\<lambda>_. Inl (Error ''down'')) (\<lambda>_. url_unknown)
     None (\<lambda>_ _ _. 0) demo_source True 2 demo_db))"
  by (rule ingest_keeps_integrity [OF demo_db_ok(1), where
        res = "fst (ingest (sqlite_repository id) (\<lambda>_. None) id ''t'' (\<lambda>_. Inl (Error ''down''))
          (\<lambda>_. url_unknown) None (\<lambda>_ _ _. 0) demo_source True 2 demo_db)"]) simp

text \<open>The store after a crash between staging and processing.\<close>

definition demo_staged :: store where
  "demo_staged = snd (stageSource id 0 demo_source ''t'' demo_db)"

lemma demo_staged_version:
  "\<exists>row. find_version ''t'' (version_id_of id demo_source ''t'') demo_staged = Some row \<and> sv_status row = queued"
  "transactionDepth demo_staged = 0"
proof -
  obtain staged u where st: "stageSource id 0 demo_source ''t'' demo_db = (Inr staged, u)"
    "stg_shouldProcess staged" using demo_stage by blast
  have u: "demo_staged = u" using st by (simp add: demo_staged_def)
  show "\<exists>row. find_version ''t'' (version_id_of id demo_source ''t'') demo_staged = Some row \<and>
      sv_status row = queued"
    using stage_version(1) [OF demo_db_ok(2) st(1)] st(2) unfolding u by auto
  show "transactionDepth demo_staged = 0"
    unfolding u using preservesD [OF depth_stageSource demo_db_ok(2) st(1)] .
qed

lemma demo_restage: "\<exists>staged u. stageSource id 0 demo_source ''t'' demo_staged = (Inr staged, u) \<and>
    \<not> stg_shouldProcess staged"
  by (simp add: demo_staged_def stageSource_def transaction_def effect_defs upsert_source_row_def
      insert_or_ignore_version_def record_contributor_def find_version_def select_first_def demo_db_def
      demo_evidence_defs source_row_of_def version_row_of_def source_org_def org_key_def
      source_key_def version_key_def version_id_of_def source_id_of_def stableId_def should_process_def
      update_versions_def update_where_def demo_source_def)

lemma settled_version_not_processed_witness:
  "\<exists>res s'. ingest_source (sqlite_repository id) (\<lambda>_. None) id ''t'' (\<lambda>_. Inl (Error ''down'')) (\<lambda>_. 0)
      demo_source demo_staged = (Inr (res, None), s') \<and> \<not> ing_processed res \<and>
    (\<exists>row. find_version ''t'' (version_id_of id demo_source ''t'') s' = Some row \<and> sv_status row = queued)"
proof -
  obtain row where row: "find_version ''t'' (version_id_of id demo_source ''t'') demo_staged = Some row"
    "sv_status row = queued" using demo_staged_version(1) by blast
  obtain res s' where run: "ingest_source (sqlite_repository id) (\<lambda>_. None) id ''t''
      (\<lambda>_. Inl (Error ''down'')) (\<lambda>_. 0) demo_source demo_staged = (Inr (res, None), s')"
    using demo_restage
    by (auto simp: ingest_source_def demo_tenant Let_def sqlite_ops bindE_def retE_def)
  show ?thesis
    using run settled_version_not_processed [OF demo_staged_version(2) _ _ run, unfolded demo_tenant, OF row(1)]
      row(2) by auto
qed

definition demo_result :: ExtractionResult where
  "demo_result = \<lparr>res_claims = [\<lparr>ext_field = recruiting_note, ext_value = JStr ''soon'', ext_confidence = 1/2,
     ext_evidence = None, ext_temporalPrecision = None\<rparr>], res_discoveredUrls = []\<rparr>"

lemma resolve_notes:
  "(\<And>c. c \<in> set cs \<Longrightarrow> clm_field c = recruiting_note) \<Longrightarrow> resolve_claims legacy sha now stamp org scores cs = []"
proof -
  assume "\<And>c. c \<in> set cs \<Longrightarrow> clm_field c = recruiting_note"
  then have "of_field application_deadline cs = []" "of_field application_open cs = []"
    "of_field field_event cs = []" by (auto simp: of_field_def filter_empty_conv)
  then show ?thesis by (simp add: resolve_claims_def best_claim_def newest_def js_sort_def js_first_def)
qed

lemma apply_overrides_Nil: "apply_overrides vs [] = []"
  unfolding apply_overrides_def by (induction vs) (simp_all add: apply_override_def)

lemma store_note:
  assumes "transactionDepth s = 0" and "claims s = []" and "find_version ''t'' v s = Some row"
  shows "\<exists>u. store_claims (sqlite_repository id) (\<lambda>_. None) id (\<lambda>_. 0) demo_source v ''t'' demo_result s = (Inr (), u)"
proof -
  let ?c = "claim_row_of ''t'' (ingest_claim id demo_source v 0 0 (hd (res_claims demo_result)))"
  let ?s = "s\<lparr>transactionDepth := 1\<rparr>"
  have "claim_checks ?c" "cl_source_version_id ?c = v" "cl_field ?c = recruiting_note"
    by (simp_all add: claim_checks_def claim_row_of_def ingest_claim_def demo_result_def confidence_ok_def
        precision_ok_def)
  moreover have "v \<in> sv_id ` set (source_versions s)" using find_version_row [OF assms(3)] by auto
  ultimately have 1: "putClaims (ingest_claims id (\<lambda>_. 0) demo_source v demo_result) ''t'' ?s
      = (Inr (), ?s\<lparr>claims := [?c]\<rparr>)"
    using assms(2) by (simp add: putClaims_def ingest_claims_def demo_result_def upsert_claim_row_def
        exists_row_key bindE_def retE_def)
  have "clm_field c = recruiting_note" if "c \<in> set (stored_claims ''o'' ''t'' (?s\<lparr>claims := [?c]\<rparr>))" for c
    using that \<open>cl_field ?c = recruiting_note\<close> by (auto simp: stored_claims_rows claim_of_row_def)
  then have "resolved (\<lambda>_. None) id (\<lambda>_. 0) 0 ''o'' 0 ''t'' (?s\<lparr>claims := [?c]\<rparr>) = []"
    unfolding resolved_def by (simp add: resolve_notes apply_overrides_Nil)
  then show ?thesis
    using assms(1) 1
    by (simp add: store_claims_def sqlite_ops transaction_def resolveOrganization_run bindE_def retE_def
        replaceOpportunities_def delete_opportunities_def modifyE_def markSourceSucceeded_def
        update_versions_def demo_source_def)
qed

theorem ingest_success_complete_witness:
  "\<exists>res s'. ingest_source (sqlite_repository id) (\<lambda>_. None) id ''t'' (\<lambda>_. Inr demo_result) (\<lambda>_. 0)
      demo_source demo_db = (Inr (res, Some demo_result), s') \<and>
    has_claim (ing_versionId res) recruiting_note (JStr ''soon'') s'"
proof -
  obtain staged u where st: "stageSource id 0 demo_source ''t'' demo_db = (Inr staged, u)"
    "stg_shouldProcess staged" using demo_stage by blast
  obtain row where row: "find_version ''t'' (stg_versionId staged) u = Some row" "sv_status row = queued"
    using stage_version(1) [OF demo_db_ok(2) st(1)] st(2) by auto
  have u: "db_ok u" "transactionDepth u = 0"
    using preservesD [OF db_ok_stageSource demo_db_ok(1) st(1)]
      preservesD [OF depth_stageSource demo_db_ok(2) st(1)] .
  from markSourceProcessing_run [OF u(1) row(1), of 0] row(2) obtain v row2 where v:
    "markSourceProcessing 0 (stg_versionId staged) ''t'' u = (Inr (sv_attempt_count row + 1), v)"
    "find_version ''t'' (stg_versionId staged) v = Some row2" by (auto simp: ready_for_processing_def)
  have "evidence_view v = evidence_view demo_db"
    using preservesD [OF evidence_kept(1) refl st(1)] preservesD [OF evidence_kept(2) refl v(1)] by simp
  then have "claims v = []" by (simp add: evidence_view_def demo_db_def demo_evidence_defs)
  moreover have "transactionDepth v = 0" using preservesD [OF depth_methods(3) u(2) v(1)] .
  ultimately obtain w where "store_claims (sqlite_repository id) (\<lambda>_. None) id (\<lambda>_. 0) demo_source
      (stg_versionId staged) ''t'' demo_result v = (Inr (), w)" using store_note v(2) by blast
  then obtain res where run: "ingest_source (sqlite_repository id) (\<lambda>_. None) id ''t''
      (\<lambda>_. Inr demo_result) (\<lambda>_. 0) demo_source demo_db = (Inr (res, Some demo_result), w)"
    using st v(1) by (auto simp: ingest_source_def process_source_def demo_tenant Let_def sqlite_ops
        bindE_def catchE_def retE_def)
  have "\<exists>c \<in> set (res_claims demo_result). ext_field c = recruiting_note \<and> ext_value c = JStr ''soon''"
    by (simp add: demo_result_def)
  then show ?thesis using run ingest_success_complete [OF demo_db_ok run] by metis
qed

end
