(* ===== verification/PgDatabase.thy ===== *)
theory PgDatabase
  imports PgQueue Ingest
begin

text \<open>
  The Postgres database of src/migrations: one record per table, the connection with its tenant setting, and
  row-level security. A column of type timestamptz is a number of microseconds, a column of type jsonb a JSON
  value. The database is what one connection sees between the transactions of others.
\<close>

section \<open>Rows\<close>

record pg_tenant =
  gt_id :: string
  gt_name :: string
  gt_created_at :: int

record pg_user =
  gu_id :: string
  gu_issuer :: string
  gu_subject :: string
  gu_email :: "string option"
  gu_display_name :: "string option"
  gu_created_at :: int
  gu_updated_at :: int
  gu_membership_count :: int

record pg_member =
  gm_tenant_id :: string
  gm_user_id :: string
  gm_roles :: "Role list"
  gm_organization_ids :: "string list"
  gm_created_at :: int
  gm_updated_at :: int

record pg_organization =
  go_tenant_id :: string
  go_id :: string
  go_name :: string
  go_school :: string
  go_heel_life_url :: "string option"
  go_website_url :: "string option"
  go_instagram_handle :: "string option"
  go_linkedin_url :: "string option"
  go_created_at :: int
  go_updated_at :: int

record pg_source =
  gs_id :: string
  gs_tenant_id :: string
  gs_organization_id :: string
  gs_source_type :: SourceType
  gs_identity_key :: string
  gs_external_id :: "string option"
  gs_url :: "string option"
  gs_title :: "string option"
  gs_created_at :: int
  gs_last_seen_at :: int

record pg_version =
  gv_id :: string
  gv_source_id :: string
  gv_tenant_id :: string
  gv_organization_id :: string
  gv_content_hash :: string
  gv_raw_text :: string
  gv_media :: "MediaRef list"
  gv_published_at :: "int option"
  gv_fetched_at :: int
  gv_metadata :: json
  gv_status :: SourceVersionStatus
  gv_attempt_count :: nat
  gv_next_attempt_at :: "int option"
  gv_last_error :: "string option"
  gv_started_at :: "int option"
  gv_completed_at :: "int option"
  gv_created_at :: int

record pg_contributor =
  gx_tenant_id :: string
  gx_source_version_id :: string
  gx_user_id :: string
  gx_created_at :: int

record pg_claim =
  gc_id :: string
  gc_tenant_id :: string
  gc_organization_id :: string
  gc_source_version_id :: string
  gc_field :: ClaimField
  gc_value :: json
  gc_confidence :: rat
  gc_published_at :: "int option"
  gc_extracted_at :: int
  gc_supersedes :: "string list"
  gc_evidence :: "string option"
  gc_temporal_precision :: "string option"

record pg_opportunity =
  gp_id :: string
  gp_tenant_id :: string
  gp_organization_id :: string
  gp_kind :: OpportunityKind
  gp_title :: string
  gp_deadline_at :: "int option"
  gp_starts_at :: "int option"
  gp_url :: "string option"
  gp_role :: "string option"
  gp_confidence :: rat
  gp_stale :: bool
  gp_source_claim_ids :: "string list"
  gp_explanation :: string
  gp_resolver_version :: string
  gp_resolved_at :: int
  gp_deadline_precision :: "string option"
  gp_starts_at_precision :: "string option"

record pg_override =
  gr_id :: string
  gr_tenant_id :: string
  gr_opportunity_id :: string
  gr_organization_id :: string
  gr_actor_id :: "string option"
  gr_patch :: OverridePatch
  gr_reason :: string
  gr_created_at :: int
  gr_revoked_at :: "int option"

record pg_connector =
  gk_tenant_id :: string
  gk_connector :: string
  gk_scope :: string
  gk_cursor :: "string option"
  gk_metadata :: json
  gk_owner_user_id :: "string option"
  gk_updated_at :: int

record pg_session =
  gz_id :: string
  gz_tenant_id :: string
  gz_user_id :: string
  gz_token_hash :: string
  gz_csrf_hash :: string
  gz_expires_at :: int
  gz_revoked_at :: "int option"
  gz_created_at :: int
  gz_last_seen_at :: int

record pg_credential =
  gd_id :: string
  gd_tenant_id :: string
  gd_user_id :: string
  gd_provider :: string
  gd_encrypted_payload :: "nat list"
  gd_key_version :: string
  gd_scopes :: "string list"
  gd_expires_at :: "int option"
  gd_revoked_at :: "int option"
  gd_created_at :: int
  gd_updated_at :: int

record pg_audit =
  ga_id :: string
  ga_tenant_id :: string
  ga_actor_id :: "string option"
  ga_action :: string
  ga_resource_type :: string
  ga_resource_id :: "string option"
  ga_request_id :: "string option"
  ga_metadata :: json
  ga_created_at :: int

section \<open>Keys\<close>

definition pg_user_key :: "pg_user \<Rightarrow> string \<times> string" where
  "pg_user_key r = (gu_issuer r, gu_subject r)"

definition pg_member_key :: "pg_member \<Rightarrow> string \<times> string" where
  "pg_member_key r = (gm_tenant_id r, gm_user_id r)"

definition pg_org_key :: "pg_organization \<Rightarrow> string \<times> string" where
  "pg_org_key r = (go_tenant_id r, go_id r)"

definition pg_source_key :: "pg_source \<Rightarrow> string \<times> string \<times> SourceType \<times> string" where
  "pg_source_key r = (gs_tenant_id r, gs_organization_id r, gs_source_type r, gs_identity_key r)"

definition pg_version_key :: "pg_version \<Rightarrow> string \<times> string" where
  "pg_version_key r = (gv_source_id r, gv_content_hash r)"

definition pg_contributor_key :: "pg_contributor \<Rightarrow> string \<times> string \<times> string" where
  "pg_contributor_key r = (gx_tenant_id r, gx_source_version_id r, gx_user_id r)"

definition pg_claim_key :: "pg_claim \<Rightarrow> string \<times> ClaimField \<times> json" where
  "pg_claim_key r = (gc_source_version_id r, gc_field r, gc_value r)"

definition pg_opportunity_key :: "pg_opportunity \<Rightarrow> string \<times> string" where
  "pg_opportunity_key r = (gp_tenant_id r, gp_id r)"

definition pg_connector_key :: "pg_connector \<Rightarrow> string \<times> string \<times> string" where
  "pg_connector_key r = (gk_tenant_id r, gk_connector r, gk_scope r)"

definition pg_credential_key :: "pg_credential \<Rightarrow> string \<times> string \<times> string" where
  "pg_credential_key r = (gd_tenant_id r, gd_user_id r, gd_provider r)"

section \<open>The database and its connection\<close>

record pg_db =
  tb_tenants :: "pg_tenant table"
  tb_users :: "pg_user table"
  tb_memberships :: "pg_member table"
  tb_organizations :: "pg_organization table"
  tb_sources :: "pg_source table"
  tb_versions :: "pg_version table"
  tb_contributors :: "pg_contributor table"
  tb_claims :: "pg_claim table"
  tb_opportunities :: "pg_opportunity table"
  tb_overrides :: "pg_override table"
  tb_connectors :: "pg_connector table"
  tb_sessions :: "pg_session table"
  tb_credentials :: "pg_credential table"
  tb_audit :: "pg_audit table"
  tb_jobs :: "pg_job table"
  cn_setting :: string
  cn_open :: bool

type_synonym 'a pg_op = "(error, pg_db, 'a) op"

text \<open>\<open>tenant_id = app.current_tenant_id()\<close>: what a statement sees and may write.\<close>

definition rls :: "string \<Rightarrow> pg_db \<Rightarrow> bool" where
  "rls tenant s \<longleftrightarrow> cn_setting s \<noteq> [] \<and> tenant = cn_setting s"

definition rls_check :: "string \<Rightarrow> string \<Rightarrow> unit pg_op" where
  "rls_check table_name tenant = guardE (rls tenant)
     (Error (''new row violates row-level security policy for table '' @ table_name))"

definition unique_check :: "string \<Rightarrow> (pg_db \<Rightarrow> bool) \<Rightarrow> unit pg_op" where
  "unique_check index taken = guardE (\<lambda>s. \<not> taken s) (SqlError (UniqueViolation index))"

definition reference_check :: "string \<Rightarrow> (pg_db \<Rightarrow> bool) \<Rightarrow> unit pg_op" where
  "reference_check table_name present = guardE present (SqlError (ForeignKeyViolation table_name))"

definition pg_tenant_exists :: "string \<Rightarrow> pg_db \<Rightarrow> bool" where
  "pg_tenant_exists t s \<longleftrightarrow> exists_row (\<lambda>r. gt_id r = t) (tb_tenants s)"

definition pg_organization_exists :: "string \<Rightarrow> string \<Rightarrow> pg_db \<Rightarrow> bool" where
  "pg_organization_exists t i s \<longleftrightarrow> exists_row (\<lambda>r. pg_org_key r = (t, i)) (tb_organizations s)"

definition pg_membership_exists :: "string \<Rightarrow> string \<Rightarrow> pg_db \<Rightarrow> bool" where
  "pg_membership_exists t u s \<longleftrightarrow> exists_row (\<lambda>r. pg_member_key r = (t, u)) (tb_memberships s)"

definition pg_user_exists :: "string \<Rightarrow> pg_db \<Rightarrow> bool" where
  "pg_user_exists u s \<longleftrightarrow> exists_row (\<lambda>r. gu_id r = u) (tb_users s)"

text \<open>\<open>select set_config('app.tenant_id', $1, true)\<close>: until the end of the transaction.\<close>

definition set_tenant :: "string \<Rightarrow> unit pg_op" where
  "set_tenant t = modifyE (\<lambda>s. s\<lparr>cn_setting := t\<rparr>)"

text \<open>\<open>PostgresStore.transaction\<close>: a nested call joins the open transaction; the outermost one commits, or
  rolls back on a throw.\<close>

definition pg_store_transaction :: "'a pg_op \<Rightarrow> 'a pg_op" where
  "pg_store_transaction operation s =
     (if cn_open s then operation s
      else case operation (s\<lparr>cn_open := True, cn_setting := []\<rparr>) of
        (Inl e, _) \<Rightarrow> (Inl e, s)
      | (Inr x, t) \<Rightarrow> (Inr x, t\<lparr>cn_open := False, cn_setting := cn_setting s\<rparr>))"

definition pg_withTenant :: "string \<Rightarrow> 'a pg_op \<Rightarrow> 'a pg_op" where
  "pg_withTenant t operation = pg_store_transaction (bindE (set_tenant t) (\<lambda>_. operation))"

text \<open>\<open>insert into tenants(id,name) values($1,$1) on conflict(id) do nothing\<close>\<close>

definition pg_insert_tenant :: "int \<Rightarrow> string \<Rightarrow> unit pg_op" where
  "pg_insert_tenant now i = modifyE (\<lambda>s. if pg_tenant_exists i s then s
     else s\<lparr>tb_tenants := tb_tenants s @ [\<lparr>gt_id = i, gt_name = i, gt_created_at = now\<rparr>]\<rparr>)"

section \<open>Isolation\<close>

text \<open>The rows of the other tenants.\<close>

definition pg_others :: "string \<Rightarrow> pg_db \<Rightarrow> pg_db" where
  "pg_others t s = s\<lparr>tb_tenants := [], tb_users := [],
     tb_memberships := filter (\<lambda>r. gm_tenant_id r \<noteq> t) (tb_memberships s),
     tb_organizations := filter (\<lambda>r. go_tenant_id r \<noteq> t) (tb_organizations s),
     tb_sources := filter (\<lambda>r. gs_tenant_id r \<noteq> t) (tb_sources s),
     tb_versions := filter (\<lambda>r. gv_tenant_id r \<noteq> t) (tb_versions s),
     tb_contributors := filter (\<lambda>r. gx_tenant_id r \<noteq> t) (tb_contributors s),
     tb_claims := filter (\<lambda>r. gc_tenant_id r \<noteq> t) (tb_claims s),
     tb_opportunities := filter (\<lambda>r. gp_tenant_id r \<noteq> t) (tb_opportunities s),
     tb_overrides := filter (\<lambda>r. gr_tenant_id r \<noteq> t) (tb_overrides s),
     tb_connectors := filter (\<lambda>r. gk_tenant_id r \<noteq> t) (tb_connectors s),
     tb_sessions := filter (\<lambda>r. gz_tenant_id r \<noteq> t) (tb_sessions s),
     tb_credentials := filter (\<lambda>r. gd_tenant_id r \<noteq> t) (tb_credentials s),
     tb_audit := filter (\<lambda>r. ga_tenant_id r \<noteq> t) (tb_audit s),
     tb_jobs := filter (\<lambda>r. pj_tenant_id r \<noteq> t) (tb_jobs s), cn_setting := [], cn_open := False\<rparr>"

definition isolates :: "string \<Rightarrow> 'a pg_op \<Rightarrow> bool" where
  "isolates t m \<longleftrightarrow> (\<forall>s. cn_setting s = t \<longrightarrow> cn_setting (snd (m s)) = t \<and> pg_others t (snd (m s)) = pg_others t s)"

named_theorems isolates_intros "introduction rules for isolation"

lemma isolatesI:
  "(\<And>s. cn_setting s = t \<Longrightarrow> cn_setting (snd (m s)) = t \<and> pg_others t (snd (m s)) = pg_others t s) \<Longrightarrow> isolates t m"
  by (simp add: isolates_def)

lemma isolates_basic [isolates_intros]:
  "isolates t (retE x)" "isolates t (throwE e)" "isolates t (getE f)" "isolates t (guardE p e)"
  by (simp_all add: isolates_def effect_defs)

lemma isolates_bindE [isolates_intros]:
  assumes "isolates t m" and "\<And>x. isolates t (k x)"
  shows "isolates t (bindE m k)"
proof (rule isolatesI)
  fix s :: pg_db assume s: "cn_setting s = t"
  obtain r u where m: "m s = (r, u)" by fastforce
  have u: "cn_setting u = t" "pg_others t u = pg_others t s" using assms(1) s m unfolding isolates_def by force+
  show "cn_setting (snd (bindE m k s)) = t \<and> pg_others t (snd (bindE m k s)) = pg_others t s"
    using assms(2) u m by (cases r) (simp_all add: bindE_def isolates_def)
qed

lemma isolates_if [isolates_intros]: "isolates t m \<Longrightarrow> isolates t n \<Longrightarrow> isolates t (if b then m else n)"
  by simp

lemma isolates_option [isolates_intros]:
  "isolates t m \<Longrightarrow> (\<And>x. isolates t (n x)) \<Longrightarrow> isolates t (case v of None \<Rightarrow> m | Some x \<Rightarrow> n x)"
  by (cases v) simp_all

lemma isolates_forE [isolates_intros]: "(\<And>x. isolates t (f x)) \<Longrightarrow> isolates t (forE f xs)"
  by (induction xs) (auto intro: isolates_intros)

lemma isolates_checks [isolates_intros]:
  "isolates t (rls_check n u)" "isolates t (unique_check i p)" "isolates t (reference_check n p)"
  by (simp_all add: rls_check_def unique_check_def reference_check_def isolates_basic)

lemma isolates_time_param [isolates_intros]: "isolates t (time_param pl x)" "isolates t (lease_param pl y)"
  unfolding time_param_def lease_param_def by (auto intro!: isolates_intros split: option.splits simp: time_param_def)

lemma isolates_insert_tenant [isolates_intros]: "isolates t (pg_insert_tenant now i)"
  by (auto simp: isolates_def pg_insert_tenant_def modifyE_def pg_others_def)

text \<open>A call with \<open>withTenant\<close> leaves the rows of every other tenant as they are.\<close>

lemma pg_others_connection [simp]: "pg_others t (s\<lparr>cn_open := b\<rparr>) = pg_others t s" "pg_others t (s\<lparr>cn_setting := x\<rparr>) = pg_others t s"
  by (simp_all add: pg_others_def)

lemma pg_others_transaction:
  assumes "\<And>u. pg_others t (snd (m u)) = pg_others t u"
  shows "pg_others t (snd (pg_store_transaction m s)) = pg_others t s"
proof (cases "cn_open s")
  case False
  obtain r u where m: "m (s\<lparr>cn_open := True, cn_setting := []\<rparr>) = (r, u)" by fastforce
  have "pg_others t u = pg_others t s" using assms [of "s\<lparr>cn_open := True, cn_setting := []\<rparr>"] m by simp
  then show ?thesis using m False by (cases r) (simp_all add: pg_store_transaction_def)
qed (simp add: pg_store_transaction_def assms)

lemma pg_others_withTenant:
  assumes "isolates t m"
  shows "pg_others t (snd (pg_withTenant t m s)) = pg_others t s"
  unfolding pg_withTenant_def
proof (rule pg_others_transaction)
  fix u
  have "pg_others t (snd (m (u\<lparr>cn_setting := t\<rparr>))) = pg_others t (u\<lparr>cn_setting := t\<rparr>)"
    using assms by (simp add: isolates_def)
  then show "pg_others t (snd (bindE (set_tenant t) (\<lambda>_. m) u)) = pg_others t u"
    by (simp add: bindE_def set_tenant_def modifyE_def)
qed

text \<open>Statements on rows: an insertion that was checked, a change or a deletion of visible rows.\<close>

lemma filter_update: "(\<And>r. P r \<Longrightarrow> \<not> Q r \<and> \<not> Q (f r)) \<Longrightarrow> filter Q (update_where P f xs) = filter Q xs"
  unfolding update_where_def by (induction xs) auto

lemma filter_delete: "(\<And>r. P r \<Longrightarrow> \<not> Q r) \<Longrightarrow> filter Q (delete_where P xs) = filter Q xs"
  unfolding delete_where_def by (induction xs) auto

end
