(* ===== verification/PgStore.thy ===== *)
theory PgStore
  imports PgDatabase
begin

text \<open>
  The evidence repository on Postgres: src/src/infrastructure/database/postgres/postgres-store.ts. Every method
  is an operation on the database; the tenant argument is the resolved one. \<open>now\<close> is the start of the
  transaction (\<open>now()\<close>). The identities of sources and versions are those of the store on SQLite. The order
  of texts in \<open>order by\<close> is that of the collation of the server, an argument.
\<close>

section \<open>Parameters and columns\<close>

definition pg_hashSource :: "(string \<Rightarrow> string) \<Rightarrow> SourceItem \<Rightarrow> string" where
  "pg_hashSource sha source = sha (stringify (JObj
     [(''rawText'', JStr (src_rawText source)), (''media'', JArr (map media_json (src_media source))),
      (''publishedAt'', case src_publishedAt source of None \<Rightarrow> JNull | Some p \<Rightarrow> JStr p),
      (''metadata'', nullish (src_metadata source) (JObj []))]))"

definition pg_identity :: "SourceItem \<Rightarrow> string" where
  "pg_identity source = nullish (src_externalId source) (nullish (src_url source) (src_id source))"

definition pg_source_id :: "(string \<Rightarrow> string) \<Rightarrow> SourceItem \<Rightarrow> string \<Rightarrow> string" where
  "pg_source_id sha source tenantId = stableId sha ''src''
     (tenantId @ '':'' @ src_organizationId source @ '':'' @ source_type_text (src_sourceType source) @ '':''
      @ pg_identity source)"

definition pg_version_id :: "(string \<Rightarrow> string) \<Rightarrow> SourceItem \<Rightarrow> string \<Rightarrow> string" where
  "pg_version_id sha source tenantId =
     stableId sha ''srcv'' (pg_source_id sha source tenantId @ '':'' @ pg_hashSource sha source)"

lemma pg_identities:
  "pg_hashSource sha source = contentHash sha source" "pg_identity source = sourceIdentity source"
  "pg_source_id sha source t = source_id_of sha source t" "pg_version_id sha source t = version_id_of sha source t"
  by (simp_all add: pg_hashSource_def contentHash_def content_json_def pg_identity_def sourceIdentity_def
      pg_source_id_def source_id_of_def pg_version_id_def version_id_of_def)

definition date_member :: "pg_platform \<Rightarrow> int option \<Rightarrow> string option" where
  "date_member pl x = map_option (date_text pl) x"

section \<open>Organizations\<close>

definition pg_upsert_organization_row :: "pg_organization \<Rightarrow> unit pg_op" where
  "pg_upsert_organization_row row =
     bindE (rls_check ''organizations'' (go_tenant_id row)) (\<lambda>_.
     bindE (getE (\<lambda>s. exists_row (\<lambda>r. pg_org_key r = pg_org_key row) (tb_organizations s))) (\<lambda>found.
       if found then modifyE (\<lambda>s. s\<lparr>tb_organizations := update_where (\<lambda>r. pg_org_key r = pg_org_key row)
         (\<lambda>r. r\<lparr>go_name := go_name row, go_school := go_school row,
            go_heel_life_url := coalesce (go_heel_life_url row) (go_heel_life_url r),
            go_website_url := coalesce (go_website_url row) (go_website_url r),
            go_instagram_handle := coalesce (go_instagram_handle row) (go_instagram_handle r),
            go_linkedin_url := coalesce (go_linkedin_url row) (go_linkedin_url r),
            go_updated_at := go_updated_at row\<rparr>) (tb_organizations s)\<rparr>)
       else bindE (reference_check ''organizations'' (pg_tenant_exists (go_tenant_id row))) (\<lambda>_.
         modifyE (\<lambda>s. s\<lparr>tb_organizations := tb_organizations s @ [row]\<rparr>))))"

definition pg_upsertOrganization :: "int \<Rightarrow> Organization \<Rightarrow> string \<Rightarrow> unit pg_op" where
  "pg_upsertOrganization now organization tenantId = pg_store_transaction
     (bindE (pg_insert_tenant now tenantId) (\<lambda>_.
      bindE (set_tenant tenantId) (\<lambda>_.
        pg_upsert_organization_row
          \<lparr>go_tenant_id = tenantId, go_id = org_id organization, go_name = org_name organization,
           go_school = org_school organization, go_heel_life_url = org_heelLifeUrl organization,
           go_website_url = org_websiteUrl organization,
           go_instagram_handle = org_instagramHandle organization,
           go_linkedin_url = org_linkedinUrl organization, go_created_at = now, go_updated_at = now\<rparr>)))"

definition pg_mapOrganization :: "pg_organization \<Rightarrow> Organization" where
  "pg_mapOrganization row = \<lparr>org_id = go_id row, org_tenantId = Some (go_tenant_id row), org_name = go_name row,
     org_school = go_school row, org_heelLifeUrl = go_heel_life_url row, org_websiteUrl = go_website_url row,
     org_instagramHandle = go_instagram_handle row, org_linkedinUrl = go_linkedin_url row\<rparr>"

definition pg_getOrganization :: "string \<Rightarrow> string \<Rightarrow> Organization option pg_op" where
  "pg_getOrganization i tenantId = pg_withTenant tenantId (getE (\<lambda>s. map_option pg_mapOrganization
     (select_first (\<lambda>r. rls (go_tenant_id r) s \<and> go_tenant_id r = tenantId \<and> go_id r = i) (tb_organizations s))))"

definition pg_listOrganizations :: "(string \<Rightarrow> string) \<Rightarrow> string \<Rightarrow> Organization list pg_op" where
  "pg_listOrganizations collate tenantId = pg_withTenant tenantId (getE (\<lambda>s. map pg_mapOrganization
     (order_by (\<lambda>r. collate (go_name r))
       (select_where (\<lambda>r. rls (go_tenant_id r) s \<and> go_tenant_id r = tenantId) (tb_organizations s)))))"

section \<open>Sources and their versions\<close>

definition pg_upsert_source_row :: "pg_source \<Rightarrow> unit pg_op" where
  "pg_upsert_source_row row =
     bindE (rls_check ''sources'' (gs_tenant_id row)) (\<lambda>_.
     bindE (getE (\<lambda>s. exists_row (\<lambda>r. pg_source_key r = pg_source_key row) (tb_sources s))) (\<lambda>found.
       if found then modifyE (\<lambda>s. s\<lparr>tb_sources := update_where (\<lambda>r. pg_source_key r = pg_source_key row)
         (\<lambda>r. r\<lparr>gs_external_id := gs_external_id row, gs_url := gs_url row, gs_title := gs_title row,
            gs_last_seen_at := gs_last_seen_at row\<rparr>) (tb_sources s)\<rparr>)
       else bindE (unique_check ''sources_pkey'' (\<lambda>s. exists_row (\<lambda>r. gs_id r = gs_id row) (tb_sources s))) (\<lambda>_.
         bindE (reference_check ''sources'' (pg_organization_exists (gs_tenant_id row) (gs_organization_id row))) (\<lambda>_.
           modifyE (\<lambda>s. s\<lparr>tb_sources := tb_sources s @ [row]\<rparr>)))))"

definition pg_insert_version :: "pg_version \<Rightarrow> unit pg_op" where
  "pg_insert_version row =
     bindE (rls_check ''source_versions'' (gv_tenant_id row)) (\<lambda>_.
     bindE (getE (\<lambda>s. exists_row (\<lambda>r. pg_version_key r = pg_version_key row) (tb_versions s))) (\<lambda>found.
       if found then retE ()
       else bindE (unique_check ''source_versions_pkey'' (\<lambda>s. exists_row (\<lambda>r. gv_id r = gv_id row) (tb_versions s))) (\<lambda>_.
         bindE (reference_check ''source_versions'' (\<lambda>s. exists_row (\<lambda>r. gs_id r = gv_source_id row) (tb_sources s) \<and>
             pg_organization_exists (gv_tenant_id row) (gv_organization_id row) s)) (\<lambda>_.
           modifyE (\<lambda>s. s\<lparr>tb_versions := tb_versions s @ [row]\<rparr>)))))"

text \<open>\<open>insert ... select $1,$2,$3 from memberships where ... on conflict do nothing\<close>, with the number of rows.\<close>

definition pg_insert_contributor :: "int \<Rightarrow> string \<Rightarrow> string \<Rightarrow> string \<Rightarrow> nat pg_op" where
  "pg_insert_contributor now t v u =
     bindE (getE (\<lambda>s. rls t s \<and> pg_membership_exists t u s \<and>
         \<not> exists_row (\<lambda>r. pg_contributor_key r = (t, v, u)) (tb_contributors s))) (\<lambda>inserts.
       if \<not> inserts then retE 0
       else bindE (reference_check ''source_version_contributors''
           (\<lambda>s. exists_row (\<lambda>r. gv_tenant_id r = t \<and> gv_id r = v) (tb_versions s))) (\<lambda>_.
         bindE (modifyE (\<lambda>s. s\<lparr>tb_contributors := tb_contributors s @
             [\<lparr>gx_tenant_id = t, gx_source_version_id = v, gx_user_id = u, gx_created_at = now\<rparr>]\<rparr>)) (\<lambda>_. retE 1)))"

definition pg_record_contributor :: "int \<Rightarrow> string \<Rightarrow> string \<Rightarrow> string option \<Rightarrow> unit pg_op" where
  "pg_record_contributor now tenantId versionId contributorUserId =
     (if truthy contributorUserId then
        bindE (pg_insert_contributor now tenantId versionId (the contributorUserId)) (\<lambda>n.
          if n \<noteq> 1 then guardE (\<lambda>s. rls tenantId s \<and>
              exists_row (\<lambda>r. pg_contributor_key r = (tenantId, versionId, the contributorUserId)) (tb_contributors s))
            (Error ''Source contributor is not a tenant member'')
          else retE ())
      else retE ())"

definition pg_update_versions :: "(pg_version \<Rightarrow> bool) \<Rightarrow> (pg_version \<Rightarrow> pg_version) \<Rightarrow> nat pg_op" where
  "pg_update_versions p f s = (Inr (count_where (\<lambda>r. rls (gv_tenant_id r) s \<and> p r) (tb_versions s)),
     s\<lparr>tb_versions := update_where (\<lambda>r. rls (gv_tenant_id r) s \<and> p r) f (tb_versions s)\<rparr>)"

definition pg_find_version :: "string \<Rightarrow> string \<Rightarrow> pg_db \<Rightarrow> pg_version option" where
  "pg_find_version tenantId versionId s = select_first
     (\<lambda>r. rls (gv_tenant_id r) s \<and> gv_tenant_id r = tenantId \<and> gv_id r = versionId) (tb_versions s)"

definition pg_source_row :: "(string \<Rightarrow> string) \<Rightarrow> int \<Rightarrow> SourceItem \<Rightarrow> string \<Rightarrow> pg_source" where
  "pg_source_row sha now source tenantId = \<lparr>gs_id = pg_source_id sha source tenantId, gs_tenant_id = tenantId,
     gs_organization_id = src_organizationId source, gs_source_type = src_sourceType source,
     gs_identity_key = pg_identity source, gs_external_id = src_externalId source, gs_url = src_url source,
     gs_title = src_title source, gs_created_at = now, gs_last_seen_at = now\<rparr>"

definition pg_version_row ::
    "(string \<Rightarrow> string) \<Rightarrow> int \<Rightarrow> SourceItem \<Rightarrow> string \<Rightarrow> int option \<Rightarrow> int \<Rightarrow> pg_version" where
  "pg_version_row sha now source tenantId published fetched = \<lparr>gv_id = pg_version_id sha source tenantId,
     gv_source_id = pg_source_id sha source tenantId, gv_tenant_id = tenantId,
     gv_organization_id = src_organizationId source, gv_content_hash = pg_hashSource sha source,
     gv_raw_text = src_rawText source, gv_media = src_media source, gv_published_at = published,
     gv_fetched_at = fetched, gv_metadata = nullish (src_metadata source) (JObj []), gv_status = received,
     gv_attempt_count = 0, gv_next_attempt_at = None, gv_last_error = None, gv_started_at = None,
     gv_completed_at = None, gv_created_at = now\<rparr>"

definition pg_stage_result ::
    "int \<Rightarrow> string \<Rightarrow> string \<Rightarrow> string \<Rightarrow> StageSourceResult pg_op" where
  "pg_stage_result now tenantId sourceId versionId =
     bindE (getE (pg_find_version tenantId versionId)) (\<lambda>found. case found of
       None \<Rightarrow> throwE (Error ''Failed to stage source version'')
     | Some row \<Rightarrow>
         let shouldProcess = (gv_status row = received \<or> gv_status row = retryable_failed) in
         bindE (if shouldProcess then pg_update_versions (\<lambda>r. gv_tenant_id r = tenantId \<and> gv_id r = versionId)
             (\<lambda>r. r\<lparr>gv_status := queued, gv_next_attempt_at := None\<rparr>) else retE 0) (\<lambda>_.
           retE \<lparr>stg_sourceId = sourceId, stg_versionId = versionId,
             stg_status = (if shouldProcess then queued else gv_status row), stg_shouldProcess = shouldProcess,
             stg_unchanged = (gv_status row \<noteq> received), stg_attemptCount = gv_attempt_count row\<rparr>))"

definition pg_stageSource ::
    "pg_platform \<Rightarrow> (string \<Rightarrow> string) \<Rightarrow> int \<Rightarrow> SourceItem \<Rightarrow> string \<Rightarrow> StageSourceResult pg_op" where
  "pg_stageSource pl sha now source tenantId = pg_withTenant tenantId
     (bindE (pg_upsert_source_row (pg_source_row sha now source tenantId)) (\<lambda>_.
      bindE (lease_param pl (src_publishedAt source)) (\<lambda>published.
      bindE (time_param pl (src_fetchedAt source)) (\<lambda>fetched.
      bindE (pg_insert_version (pg_version_row sha now source tenantId published fetched)) (\<lambda>_.
      bindE (pg_record_contributor now tenantId (pg_version_id sha source tenantId) (src_contributorUserId source)) (\<lambda>_.
        pg_stage_result now tenantId (pg_source_id sha source tenantId) (pg_version_id sha source tenantId)))))))"

text \<open>The row that an update with \<open>returning\<close> gives back first.\<close>

definition pg_markSourceProcessing :: "int \<Rightarrow> string \<Rightarrow> string \<Rightarrow> nat pg_op" where
  "pg_markSourceProcessing now versionId tenantId = pg_withTenant tenantId
     (bindE (getE (\<lambda>s. select_first (\<lambda>r. rls (gv_tenant_id r) s \<and> gv_tenant_id r = tenantId \<and> gv_id r = versionId \<and>
          gv_status r \<in> {queued, retryable_failed, received}) (tb_versions s))) (\<lambda>row.
      bindE (pg_update_versions (\<lambda>r. gv_tenant_id r = tenantId \<and> gv_id r = versionId \<and>
          gv_status r \<in> {queued, retryable_failed, received})
        (\<lambda>r. r\<lparr>gv_status := processing, gv_attempt_count := gv_attempt_count r + 1, gv_started_at := Some now,
           gv_last_error := None\<rparr>)) (\<lambda>_.
        case row of None \<Rightarrow> throwE (Error ''Source version is not ready for processing'')
        | Some r \<Rightarrow> retE (gv_attempt_count r + 1))))"

definition pg_markSourceSucceeded :: "int \<Rightarrow> string \<Rightarrow> string \<Rightarrow> unit pg_op" where
  "pg_markSourceSucceeded now versionId tenantId = pg_withTenant tenantId
     (bindE (pg_update_versions (\<lambda>r. gv_tenant_id r = tenantId \<and> gv_id r = versionId)
        (\<lambda>r. r\<lparr>gv_status := succeeded, gv_completed_at := Some now, gv_next_attempt_at := None,
           gv_last_error := None\<rparr>)) (\<lambda>_. retE ()))"

definition pg_markSourceFailed :: "pg_platform \<Rightarrow> int \<Rightarrow> string \<Rightarrow> ProcessingFailure \<Rightarrow> string \<Rightarrow> unit pg_op" where
  "pg_markSourceFailed pl now versionId failure tenantId = pg_withTenant tenantId
     (bindE (lease_param pl (fail_nextAttemptAt failure)) (\<lambda>next.
      bindE (pg_update_versions (\<lambda>r. gv_tenant_id r = tenantId \<and> gv_id r = versionId)
        (\<lambda>r. r\<lparr>gv_status := (if fail_retryable failure then retryable_failed else terminal_failed),
           gv_last_error := Some (take 500 (fail_message failure)), gv_next_attempt_at := next,
           gv_completed_at := Some now\<rparr>)) (\<lambda>_. retE ())))"

definition pg_join_source :: "pg_db \<Rightarrow> pg_version \<Rightarrow> (pg_version \<times> pg_source) list" where
  "pg_join_source s v = map (Pair v)
     (select_where (\<lambda>r. rls (gs_tenant_id r) s \<and> gs_id r = gv_source_id v) (tb_sources s))"

definition pg_source_item :: "pg_platform \<Rightarrow> pg_version \<times> pg_source \<Rightarrow> SourceItem" where
  "pg_source_item pl vr = (let v = fst vr; r = snd vr in
     \<lparr>src_id = gv_id v, src_tenantId = Some (gv_tenant_id v), src_contributorUserId = None,
      src_organizationId = gv_organization_id v, src_sourceType = gs_source_type r,
      src_externalId = gs_external_id r, src_url = gs_url r, src_title = gs_title r, src_rawText = gv_raw_text v,
      src_media = gv_media v, src_publishedAt = date_member pl (gv_published_at v),
      src_fetchedAt = date_text pl (gv_fetched_at v), src_metadata = Some (gv_metadata v)\<rparr>)"

definition pg_getSource :: "pg_platform \<Rightarrow> string \<Rightarrow> string \<Rightarrow> SourceItem option pg_op" where
  "pg_getSource pl i tenantId = pg_withTenant tenantId (getE (\<lambda>s. map_option (pg_source_item pl)
     (first_by_desc (\<lambda>vr. gv_fetched_at (fst vr))
       (filter (\<lambda>vr. rls (gv_tenant_id (fst vr)) s \<and> gv_tenant_id (fst vr) = tenantId \<and>
           (gv_id (fst vr) = i \<or> gs_id (snd vr) = i))
         (concat (map (pg_join_source s) (tb_versions s)))))))"

section \<open>Claims\<close>

definition pg_claim_checks :: "pg_claim \<Rightarrow> bool" where
  "pg_claim_checks r \<longleftrightarrow> confidence_ok (gc_confidence r) \<and> precision_ok (gc_temporal_precision r)"

text \<open>\<open>on conflict do update\<close> of a row that the policy hides is refused.\<close>

definition pg_upsert_claim_row :: "pg_claim \<Rightarrow> unit pg_op" where
  "pg_upsert_claim_row row =
     bindE (rls_check ''claims'' (gc_tenant_id row)) (\<lambda>_.
     bindE (guardE (\<lambda>_. pg_claim_checks row) (SqlError (CheckViolation ''claims''))) (\<lambda>_.
     bindE (getE (\<lambda>s. select_first (\<lambda>r. pg_claim_key r = pg_claim_key row) (tb_claims s))) (\<lambda>found. case found of
       Some old \<Rightarrow> bindE (rls_check ''claims'' (gc_tenant_id old)) (\<lambda>_.
         modifyE (\<lambda>s. s\<lparr>tb_claims := update_where (\<lambda>r. rls (gc_tenant_id r) s \<and> pg_claim_key r = pg_claim_key row)
           (\<lambda>r. r\<lparr>gc_confidence := gc_confidence row, gc_evidence := gc_evidence row,
              gc_extracted_at := gc_extracted_at row\<rparr>) (tb_claims s)\<rparr>))
     | None \<Rightarrow>
         bindE (unique_check ''claims_pkey'' (\<lambda>s. exists_row (\<lambda>r. gc_id r = gc_id row) (tb_claims s))) (\<lambda>_.
         bindE (reference_check ''claims'' (\<lambda>s. exists_row (\<lambda>r. gv_id r = gc_source_version_id row) (tb_versions s) \<and>
             pg_organization_exists (gc_tenant_id row) (gc_organization_id row) s)) (\<lambda>_.
           modifyE (\<lambda>s. s\<lparr>tb_claims := tb_claims s @ [row]\<rparr>))))))"

definition pg_claim_row :: "string \<Rightarrow> Claim \<Rightarrow> int option \<Rightarrow> int \<Rightarrow> pg_claim" where
  "pg_claim_row tenantId claim published extracted = \<lparr>gc_id = clm_id claim,
     gc_tenant_id = nullish (clm_tenantId claim) tenantId, gc_organization_id = clm_organizationId claim,
     gc_source_version_id = clm_sourceItemId claim, gc_field = clm_field claim, gc_value = clm_value claim,
     gc_confidence = clm_confidence claim, gc_published_at = published, gc_extracted_at = extracted,
     gc_supersedes = clm_supersedes claim, gc_evidence = clm_evidence claim,
     gc_temporal_precision = clm_temporalPrecision claim\<rparr>"

definition pg_put_claim :: "pg_platform \<Rightarrow> string \<Rightarrow> Claim \<Rightarrow> unit pg_op" where
  "pg_put_claim pl tenantId claim =
     bindE (lease_param pl (clm_publishedAt claim)) (\<lambda>published.
     bindE (time_param pl (clm_extractedAt claim)) (\<lambda>extracted.
       pg_upsert_claim_row (pg_claim_row tenantId claim published extracted)))"

definition pg_putClaims :: "pg_platform \<Rightarrow> Claim list \<Rightarrow> string \<Rightarrow> unit pg_op" where
  "pg_putClaims pl cs tenantId = pg_withTenant tenantId (forE (pg_put_claim pl tenantId) cs)"

definition pg_claim_of :: "pg_platform \<Rightarrow> pg_claim \<Rightarrow> Claim" where
  "pg_claim_of pl row = \<lparr>clm_id = gc_id row, clm_tenantId = Some (gc_tenant_id row),
     clm_organizationId = gc_organization_id row, clm_sourceItemId = gc_source_version_id row,
     clm_field = gc_field row, clm_value = gc_value row, clm_confidence = gc_confidence row,
     clm_publishedAt = date_member pl (gc_published_at row), clm_extractedAt = date_text pl (gc_extracted_at row),
     clm_evidence = gc_evidence row, clm_supersedes = gc_supersedes row,
     clm_temporalPrecision = gc_temporal_precision row\<rparr>"

definition pg_listClaims :: "pg_platform \<Rightarrow> string \<Rightarrow> string \<Rightarrow> Claim list pg_op" where
  "pg_listClaims pl organizationId tenantId = pg_withTenant tenantId (getE (\<lambda>s. map (pg_claim_of pl)
     (order_by (\<lambda>r. nullish (gc_published_at r) (gc_extracted_at r))
       (select_where (\<lambda>r. rls (gc_tenant_id r) s \<and> gc_tenant_id r = tenantId \<and> gc_organization_id r = organizationId)
         (tb_claims s)))))"

section \<open>Opportunities and overrides\<close>

definition pg_opportunity_checks :: "pg_opportunity \<Rightarrow> bool" where
  "pg_opportunity_checks r \<longleftrightarrow> confidence_ok (gp_confidence r) \<and> precision_ok (gp_deadline_precision r) \<and>
     precision_ok (gp_starts_at_precision r)"

definition pg_insert_opportunity_row :: "pg_opportunity \<Rightarrow> unit pg_op" where
  "pg_insert_opportunity_row row =
     bindE (rls_check ''opportunities'' (gp_tenant_id row)) (\<lambda>_.
     bindE (guardE (\<lambda>_. pg_opportunity_checks row) (SqlError (CheckViolation ''opportunities''))) (\<lambda>_.
     bindE (unique_check ''opportunities_pkey''
         (\<lambda>s. exists_row (\<lambda>r. pg_opportunity_key r = pg_opportunity_key row) (tb_opportunities s))) (\<lambda>_.
     bindE (reference_check ''opportunities'' (pg_organization_exists (gp_tenant_id row) (gp_organization_id row))) (\<lambda>_.
       modifyE (\<lambda>s. s\<lparr>tb_opportunities := tb_opportunities s @ [row]\<rparr>)))))"

text \<open>The column holds a \<open>NaN\<close>, but its check refuses it: a \<open>NaN\<close> is greater than every number.\<close>

definition pg_insert_opportunity :: "pg_platform \<Rightarrow> string \<Rightarrow> Opportunity \<Rightarrow> unit pg_op" where
  "pg_insert_opportunity pl tenantId o' =
     bindE (lease_param pl (opp_deadlineAt o')) (\<lambda>deadline.
     bindE (lease_param pl (opp_startsAt o')) (\<lambda>starts.
     bindE (time_param pl (opp_resolvedAt o')) (\<lambda>resolved.
       case opp_confidence o' of
         None \<Rightarrow> bindE (rls_check ''opportunities'' (nullish (opp_tenantId o') tenantId))
           (\<lambda>_. throwE (SqlError (CheckViolation ''opportunities'')))
       | Some c \<Rightarrow> pg_insert_opportunity_row \<lparr>gp_id = opp_id o', gp_tenant_id = nullish (opp_tenantId o') tenantId,
           gp_organization_id = opp_organizationId o', gp_kind = opp_kind o', gp_title = opp_title o',
           gp_deadline_at = deadline, gp_starts_at = starts, gp_url = opp_url o', gp_role = opp_role o',
           gp_confidence = c, gp_stale = opp_stale o', gp_source_claim_ids = opp_sourceClaimIds o',
           gp_explanation = opp_explanation o', gp_resolver_version = nullish (opp_resolverVersion o') ''resolver-v2'',
           gp_resolved_at = resolved, gp_deadline_precision = opp_deadlinePrecision o',
           gp_starts_at_precision = opp_startsAtPrecision o'\<rparr>)))"

definition pg_delete_opportunities :: "string \<Rightarrow> string \<Rightarrow> unit pg_op" where
  "pg_delete_opportunities tenantId organizationId = modifyE (\<lambda>s. s\<lparr>tb_opportunities := delete_where
     (\<lambda>r. rls (gp_tenant_id r) s \<and> gp_tenant_id r = tenantId \<and> gp_organization_id r = organizationId)
     (tb_opportunities s)\<rparr>)"

definition pg_replaceOpportunities :: "pg_platform \<Rightarrow> string \<Rightarrow> Opportunity list \<Rightarrow> string \<Rightarrow> unit pg_op" where
  "pg_replaceOpportunities pl organizationId os tenantId = pg_withTenant tenantId
     (bindE (pg_delete_opportunities tenantId organizationId) (\<lambda>_. forE (pg_insert_opportunity pl tenantId) os))"

definition pg_opportunity_of :: "pg_platform \<Rightarrow> pg_opportunity \<Rightarrow> Opportunity" where
  "pg_opportunity_of pl row = \<lparr>opp_id = gp_id row, opp_tenantId = Some (gp_tenant_id row),
     opp_organizationId = gp_organization_id row, opp_kind = gp_kind row, opp_title = gp_title row,
     opp_deadlineAt = date_member pl (gp_deadline_at row), opp_startsAt = date_member pl (gp_starts_at row),
     opp_url = gp_url row, opp_role = gp_role row, opp_confidence = Some (gp_confidence row),
     opp_stale = gp_stale row, opp_sourceClaimIds = gp_source_claim_ids row, opp_explanation = gp_explanation row,
     opp_resolvedAt = date_text pl (gp_resolved_at row), opp_resolverVersion = Some (gp_resolver_version row),
     opp_deadlinePrecision = gp_deadline_precision row, opp_startsAtPrecision = gp_starts_at_precision row\<rparr>"

text \<open>In an ascending order of Postgres nulls are last.\<close>

definition nulls_last :: "int option \<Rightarrow> bool \<times> int" where
  "nulls_last x = (case x of None \<Rightarrow> (True, 0) | Some t \<Rightarrow> (False, t))"

definition pg_listOpportunities :: "pg_platform \<Rightarrow> string option \<Rightarrow> string \<Rightarrow> Opportunity list pg_op" where
  "pg_listOpportunities pl organizationId tenantId = pg_withTenant tenantId (getE (\<lambda>s. map (pg_opportunity_of pl)
     (order_by (\<lambda>r. nulls_last (coalesce (gp_deadline_at r) (gp_starts_at r)))
       (select_where (\<lambda>r. rls (gp_tenant_id r) s \<and> gp_tenant_id r = tenantId \<and>
          (truthy organizationId \<longrightarrow> gp_organization_id r = the organizationId)) (tb_opportunities s)))))"

definition pg_insert_override_row :: "pg_override \<Rightarrow> unit pg_op" where
  "pg_insert_override_row row =
     bindE (rls_check ''opportunity_overrides'' (gr_tenant_id row)) (\<lambda>_.
     bindE (unique_check ''opportunity_overrides_pkey''
         (\<lambda>s. exists_row (\<lambda>r. gr_id r = gr_id row) (tb_overrides s))) (\<lambda>_.
     bindE (reference_check ''opportunity_overrides'' (\<lambda>s.
         pg_organization_exists (gr_tenant_id row) (gr_organization_id row) s \<and>
         (case gr_actor_id row of None \<Rightarrow> True | Some u \<Rightarrow> pg_user_exists u s))) (\<lambda>_.
       modifyE (\<lambda>s. s\<lparr>tb_overrides := tb_overrides s @ [row]\<rparr>))))"

definition pg_putOpportunityOverride :: "pg_platform \<Rightarrow> OpportunityOverride \<Rightarrow> string \<Rightarrow> unit pg_op" where
  "pg_putOpportunityOverride pl override tenantId =
     (if \<not> truthy (ovr_actorId override) then throwE (Error ''Opportunity override actor is required'')
      else pg_withTenant tenantId (bindE (time_param pl (ovr_createdAt override)) (\<lambda>created.
        pg_insert_override_row \<lparr>gr_id = ovr_id override, gr_tenant_id = tenantId,
          gr_opportunity_id = ovr_opportunityId override, gr_organization_id = ovr_organizationId override,
          gr_actor_id = ovr_actorId override, gr_patch = ovr_patch override, gr_reason = ovr_reason override,
          gr_created_at = created, gr_revoked_at = None\<rparr>)))"

definition pg_override_of :: "pg_platform \<Rightarrow> pg_override \<Rightarrow> OpportunityOverride" where
  "pg_override_of pl row = \<lparr>ovr_id = gr_id row, ovr_tenantId = gr_tenant_id row,
     ovr_opportunityId = gr_opportunity_id row, ovr_organizationId = gr_organization_id row,
     ovr_actorId = gr_actor_id row, ovr_patch = gr_patch row, ovr_reason = gr_reason row,
     ovr_createdAt = date_text pl (gr_created_at row)\<rparr>"

definition pg_listOpportunityOverrides :: "pg_platform \<Rightarrow> string \<Rightarrow> string \<Rightarrow> OpportunityOverride list pg_op" where
  "pg_listOpportunityOverrides pl organizationId tenantId = pg_withTenant tenantId (getE (\<lambda>s. map (pg_override_of pl)
     (order_by gr_created_at (select_where (\<lambda>r. rls (gr_tenant_id r) s \<and> gr_tenant_id r = tenantId \<and>
        gr_organization_id r = organizationId \<and> gr_revoked_at r = None) (tb_overrides s)))))"

section \<open>Connector cursors\<close>

definition pg_getConnectorState :: "string \<Rightarrow> string \<Rightarrow> string \<Rightarrow> (string option \<times> json) pg_op" where
  "pg_getConnectorState connector scope tenantId = pg_withTenant tenantId (getE (\<lambda>s.
     case select_first (\<lambda>r. rls (gk_tenant_id r) s \<and> pg_connector_key r = (tenantId, connector, scope)) (tb_connectors s) of
       None \<Rightarrow> (None, JObj []) | Some row \<Rightarrow> (gk_cursor row, gk_metadata row)))"

definition pg_owner_ok :: "pg_db \<Rightarrow> pg_connector \<Rightarrow> bool" where
  "pg_owner_ok s r = (case gk_owner_user_id r of None \<Rightarrow> True | Some u \<Rightarrow> pg_membership_exists (gk_tenant_id r) u s)"

definition pg_upsert_connector_row :: "pg_connector \<Rightarrow> unit pg_op" where
  "pg_upsert_connector_row row =
     bindE (rls_check ''connector_state'' (gk_tenant_id row)) (\<lambda>_.
     bindE (reference_check ''connector_state'' (\<lambda>s. pg_tenant_exists (gk_tenant_id row) s \<and> pg_owner_ok s row)) (\<lambda>_.
       modifyE (\<lambda>s. if exists_row (\<lambda>r. pg_connector_key r = pg_connector_key row) (tb_connectors s)
         then s\<lparr>tb_connectors := update_where (\<lambda>r. pg_connector_key r = pg_connector_key row)
           (\<lambda>r. r\<lparr>gk_cursor := gk_cursor row, gk_metadata := gk_metadata row,
              gk_owner_user_id := gk_owner_user_id row, gk_updated_at := gk_updated_at row\<rparr>) (tb_connectors s)\<rparr>
         else s\<lparr>tb_connectors := tb_connectors s @ [row]\<rparr>)))"

definition pg_setConnectorState ::
    "int \<Rightarrow> string \<Rightarrow> string \<Rightarrow> string option \<Rightarrow> json \<Rightarrow> string \<Rightarrow> string option \<Rightarrow> unit pg_op" where
  "pg_setConnectorState now connector scope cursor metadata tenantId ownerUserId = pg_withTenant tenantId
     (pg_upsert_connector_row \<lparr>gk_tenant_id = tenantId, gk_connector = connector, gk_scope = scope,
        gk_cursor = cursor, gk_metadata = metadata, gk_owner_user_id = ownerUserId, gk_updated_at = now\<rparr>)"

definition pg_repository :: "pg_platform \<Rightarrow> (string \<Rightarrow> string) \<Rightarrow> pg_db repository" where
  "pg_repository pl sha =
     \<lparr>repo_stageSource = (\<lambda>now. pg_stageSource pl sha (1000 * now)),
      repo_markSourceProcessing = (\<lambda>now. pg_markSourceProcessing (1000 * now)),
      repo_markSourceSucceeded = (\<lambda>now. pg_markSourceSucceeded (1000 * now)),
      repo_markSourceFailed = (\<lambda>now. pg_markSourceFailed pl (1000 * now)),
      repo_getSource = pg_getSource pl, repo_putClaims = pg_putClaims pl, repo_listClaims = pg_listClaims pl,
      repo_replaceOpportunities = pg_replaceOpportunities pl,
      repo_listOpportunityOverrides = pg_listOpportunityOverrides pl, repo_transaction = pg_store_transaction\<rparr>"

end
