(* ===== verification/PgIntegrity.thy ===== *)
theory PgIntegrity
  imports PgStore
begin

text \<open>
  What the evidence repository on Postgres guarantees. Row-level security: a call for a tenant, whatever its
  other arguments, leaves the rows of every other tenant as they are (\<open>pg_store_isolated\<close>). The repository
  satisfies the two interfaces that the ingestion service relies on, with the unique keys of the tables as
  invariant and the claims and opportunities as evidence, so a failed ingestion leaves the evidence as it was
  on Postgres too (\<open>pg_ingest_atomic\<close>).
\<close>

section \<open>Row-level security\<close>

lemma isolates_rls [isolates_intros]:
  assumes "u = t \<Longrightarrow> isolates t (k ())"
  shows "isolates t (bindE (rls_check n u) k)"
proof (cases "u = t")
  case False
  then show ?thesis by (auto simp: isolates_def rls_check_def guardE_def rls_def bindE_def)
next
  case True
  then show ?thesis using isolates_bindE [OF isolates_checks(1), of t k n u] assms by simp
qed

lemma isolates_modify:
  "(\<And>s. cn_setting s = t \<Longrightarrow> cn_setting (f s) = t) \<Longrightarrow> (\<And>s. cn_setting s = t \<Longrightarrow> pg_others t (f s) = pg_others t s) \<Longrightarrow>
     isolates t (modifyE f)"
  by (simp add: isolates_def modifyE_def)

lemma pg_others_tables:
  "filter (\<lambda>r. go_tenant_id r \<noteq> t) a = filter (\<lambda>r. go_tenant_id r \<noteq> t) (tb_organizations s) \<Longrightarrow>
     pg_others t (s\<lparr>tb_organizations := a\<rparr>) = pg_others t s"
  "filter (\<lambda>r. gs_tenant_id r \<noteq> t) b = filter (\<lambda>r. gs_tenant_id r \<noteq> t) (tb_sources s) \<Longrightarrow>
     pg_others t (s\<lparr>tb_sources := b\<rparr>) = pg_others t s"
  "filter (\<lambda>r. gv_tenant_id r \<noteq> t) c = filter (\<lambda>r. gv_tenant_id r \<noteq> t) (tb_versions s) \<Longrightarrow>
     pg_others t (s\<lparr>tb_versions := c\<rparr>) = pg_others t s"
  "filter (\<lambda>r. gx_tenant_id r \<noteq> t) d = filter (\<lambda>r. gx_tenant_id r \<noteq> t) (tb_contributors s) \<Longrightarrow>
     pg_others t (s\<lparr>tb_contributors := d\<rparr>) = pg_others t s"
  "filter (\<lambda>r. gc_tenant_id r \<noteq> t) e = filter (\<lambda>r. gc_tenant_id r \<noteq> t) (tb_claims s) \<Longrightarrow>
     pg_others t (s\<lparr>tb_claims := e\<rparr>) = pg_others t s"
  "filter (\<lambda>r. gp_tenant_id r \<noteq> t) f = filter (\<lambda>r. gp_tenant_id r \<noteq> t) (tb_opportunities s) \<Longrightarrow>
     pg_others t (s\<lparr>tb_opportunities := f\<rparr>) = pg_others t s"
  "filter (\<lambda>r. gr_tenant_id r \<noteq> t) g = filter (\<lambda>r. gr_tenant_id r \<noteq> t) (tb_overrides s) \<Longrightarrow>
     pg_others t (s\<lparr>tb_overrides := g\<rparr>) = pg_others t s"
  "filter (\<lambda>r. gk_tenant_id r \<noteq> t) h = filter (\<lambda>r. gk_tenant_id r \<noteq> t) (tb_connectors s) \<Longrightarrow>
     pg_others t (s\<lparr>tb_connectors := h\<rparr>) = pg_others t s"
  by (simp_all add: pg_others_def)

text \<open>A change of one table of the tenant.\<close>

lemmas isolates_table = isolates_modify [OF _ pg_others_tables(1)] isolates_modify [OF _ pg_others_tables(2)]
  isolates_modify [OF _ pg_others_tables(3)] isolates_modify [OF _ pg_others_tables(4)]
  isolates_modify [OF _ pg_others_tables(5)] isolates_modify [OF _ pg_others_tables(6)]
  isolates_modify [OF _ pg_others_tables(7)] isolates_modify [OF _ pg_others_tables(8)]

lemmas isolates_statement = isolates_rls isolates_table isolates_intros

lemma isolates_upserts [isolates_intros]:
  "isolates t (pg_upsert_organization_row row1)" "isolates t (pg_upsert_source_row row2)"
  unfolding pg_upsert_organization_row_def pg_upsert_source_row_def
  by (intro isolates_statement; auto simp: pg_org_key_def pg_source_key_def intro!: filter_update)+

lemma isolates_insertions [isolates_intros]:
  "isolates t (pg_insert_version row3)" "isolates t (pg_insert_opportunity_row row4)"
  "isolates t (pg_insert_override_row row5)"
  unfolding pg_insert_version_def pg_insert_opportunity_row_def pg_insert_override_row_def
  by (intro isolates_statement; simp)+

lemma isolates_connector [isolates_intros]: "isolates t (pg_upsert_connector_row row)"
  unfolding pg_upsert_connector_row_def
  by (intro isolates_rls isolates_intros isolates_modify)
    (auto simp: pg_connector_key_def intro!: pg_others_tables filter_update)

lemma isolates_claim_row [isolates_intros]: "isolates t (pg_upsert_claim_row row)"
  unfolding pg_upsert_claim_row_def
  by (intro isolates_statement; auto simp: rls_def intro!: filter_update)

lemma isolates_versions [isolates_intros]:
  assumes "\<And>r. gv_tenant_id (f r) = gv_tenant_id r"
  shows "isolates t (pg_update_versions p f)"
  using assms by (auto simp: isolates_def pg_update_versions_def rls_def intro!: pg_others_tables filter_update)

lemma isolates_delete [isolates_intros]: "isolates t (pg_delete_opportunities u org)"
  unfolding pg_delete_opportunities_def
  by (intro isolates_table) (auto simp: rls_def intro!: filter_delete)

lemma isolates_contributor [isolates_intros]: "isolates t (pg_insert_contributor now u v w)"
proof (rule isolatesI)
  fix s :: pg_db assume "cn_setting s = t"
  then show "cn_setting (snd (pg_insert_contributor now u v w s)) = t \<and>
      pg_others t (snd (pg_insert_contributor now u v w s)) = pg_others t s"
    by (auto simp: pg_insert_contributor_def bindE_def effect_defs reference_check_def rls_def intro!: pg_others_tables)
qed

lemma isolates_stage [isolates_intros]:
  "isolates t (pg_record_contributor now u v w)" "isolates t (pg_stage_result now u i v)"
  "isolates t (pg_put_claim pl u c)" "isolates t (pg_insert_opportunity pl u opp)"
  unfolding pg_record_contributor_def pg_stage_result_def pg_put_claim_def pg_insert_opportunity_def Let_def
  by (intro isolates_intros; simp)+

text \<open>C18. Row-level security keeps tenants apart. Every method of the repository on Postgres that writes, called
  for a tenant with any other arguments, inside a transaction or not, leaves the rows of all other tenants in all
  tables as they are, also when it throws and also when the claims or opportunities that are passed carry another
  tenant.\<close>

theorem pg_store_isolated:
  "pg_others t (snd (pg_upsertOrganization now organization t s)) = pg_others t s \<and>
   pg_others t (snd (pg_stageSource pl sha now source t s)) = pg_others t s \<and>
   pg_others t (snd (pg_markSourceProcessing now v t s)) = pg_others t s \<and>
   pg_others t (snd (pg_markSourceSucceeded now v t s)) = pg_others t s \<and>
   pg_others t (snd (pg_markSourceFailed pl now v failure t s)) = pg_others t s \<and>
   pg_others t (snd (pg_putClaims pl cs t s)) = pg_others t s \<and>
   pg_others t (snd (pg_replaceOpportunities pl org os t s)) = pg_others t s \<and>
   pg_others t (snd (pg_putOpportunityOverride pl override t s)) = pg_others t s \<and>
   pg_others t (snd (pg_setConnectorState now connector scope cursor metadata t owner s)) = pg_others t s"
proof -
  have org: "pg_others t (snd (pg_upsertOrganization now organization t s)) = pg_others t s"
    unfolding pg_upsertOrganization_def
  proof (rule pg_others_transaction)
    fix u
    let ?row = "\<lparr>go_tenant_id = t, go_id = org_id organization, go_name = org_name organization,
           go_school = org_school organization, go_heel_life_url = org_heelLifeUrl organization,
           go_website_url = org_websiteUrl organization,
           go_instagram_handle = org_instagramHandle organization,
           go_linkedin_url = org_linkedinUrl organization, go_created_at = now, go_updated_at = now\<rparr>"
    have tenant: "pg_others t (snd (pg_insert_tenant now t v)) = pg_others t v" for v
      by (simp add: pg_insert_tenant_def modifyE_def pg_others_def)
    have row: "pg_others t (snd (pg_upsert_organization_row ?row (v\<lparr>cn_setting := t\<rparr>))) = pg_others t v" for v
      using isolates_upserts(1) [of t ?row] by (simp add: isolates_def)
    show "pg_others t (snd (bindE (pg_insert_tenant now t) (\<lambda>_. bindE (set_tenant t)
        (\<lambda>_. pg_upsert_organization_row ?row)) u)) = pg_others t u"
      using tenant [of u] row by (simp add: bindE_def set_tenant_def modifyE_def pg_insert_tenant_def)
  qed
  have override: "pg_others t (snd (pg_putOpportunityOverride pl override t s)) = pg_others t s"
    unfolding pg_putOpportunityOverride_def
    by (auto simp: throwE_def intro!: pg_others_withTenant isolates_intros)
  show ?thesis
    unfolding pg_stageSource_def pg_markSourceProcessing_def pg_markSourceSucceeded_def pg_markSourceFailed_def
      pg_putClaims_def pg_replaceOpportunities_def pg_setConnectorState_def
    by (intro conjI org override pg_others_withTenant isolates_intros; simp)
qed

section \<open>Integrity\<close>

definition pg_keys_ok :: "pg_db \<Rightarrow> bool" where
  "pg_keys_ok s \<longleftrightarrow> unique_on gt_id (tb_tenants s) \<and> unique_on pg_org_key (tb_organizations s) \<and>
     unique_on gs_id (tb_sources s) \<and> unique_on pg_source_key (tb_sources s) \<and>
     unique_on gv_id (tb_versions s) \<and> unique_on pg_version_key (tb_versions s) \<and>
     unique_on pg_contributor_key (tb_contributors s) \<and>
     unique_on gc_id (tb_claims s) \<and> unique_on pg_claim_key (tb_claims s) \<and>
     unique_on pg_opportunity_key (tb_opportunities s) \<and> unique_on gr_id (tb_overrides s) \<and>
     unique_on pg_connector_key (tb_connectors s)"

definition pg_refs_ok :: "pg_db \<Rightarrow> bool" where
  "pg_refs_ok s \<longleftrightarrow> go_tenant_id ` set (tb_organizations s) \<subseteq> gt_id ` set (tb_tenants s) \<and>
     (\<lambda>r. (gs_tenant_id r, gs_organization_id r)) ` set (tb_sources s) \<subseteq> pg_org_key ` set (tb_organizations s) \<and>
     gv_source_id ` set (tb_versions s) \<subseteq> gs_id ` set (tb_sources s) \<and>
     (\<lambda>r. (gv_tenant_id r, gv_organization_id r)) ` set (tb_versions s) \<subseteq> pg_org_key ` set (tb_organizations s) \<and>
     gc_source_version_id ` set (tb_claims s) \<subseteq> gv_id ` set (tb_versions s) \<and>
     (\<lambda>r. (gc_tenant_id r, gc_organization_id r)) ` set (tb_claims s) \<subseteq> pg_org_key ` set (tb_organizations s) \<and>
     (\<lambda>r. (gp_tenant_id r, gp_organization_id r)) ` set (tb_opportunities s) \<subseteq> pg_org_key ` set (tb_organizations s) \<and>
     (\<lambda>r. (gr_tenant_id r, gr_organization_id r)) ` set (tb_overrides s) \<subseteq> pg_org_key ` set (tb_organizations s) \<and>
     (\<lambda>r. (gx_tenant_id r, gx_source_version_id r)) ` set (tb_contributors s) \<subseteq>
       (\<lambda>r. (gv_tenant_id r, gv_id r)) ` set (tb_versions s) \<and>
     (\<lambda>r. (gx_tenant_id r, gx_user_id r)) ` set (tb_contributors s) \<subseteq> pg_member_key ` set (tb_memberships s) \<and>
     gk_tenant_id ` set (tb_connectors s) \<subseteq> gt_id ` set (tb_tenants s) \<and>
     (\<forall>r \<in> set (tb_connectors s). pg_owner_ok s r)"

definition pg_ok :: "pg_db \<Rightarrow> bool" where
  "pg_ok s \<longleftrightarrow> pg_keys_ok s \<and> pg_refs_ok s \<and> (\<forall>r \<in> set (tb_claims s). pg_claim_checks r) \<and>
     (\<forall>r \<in> set (tb_opportunities s). pg_opportunity_checks r)"

lemmas pg_ok_defs = pg_ok_def pg_keys_ok_def pg_refs_ok_def

lemma pg_owner_ok_frame [simp]:
  "pg_owner_ok (s\<lparr>tb_tenants := a\<rparr>) = pg_owner_ok s" "pg_owner_ok (s\<lparr>tb_organizations := b\<rparr>) = pg_owner_ok s"
  "pg_owner_ok (s\<lparr>tb_sources := c\<rparr>) = pg_owner_ok s" "pg_owner_ok (s\<lparr>tb_versions := d\<rparr>) = pg_owner_ok s"
  "pg_owner_ok (s\<lparr>tb_contributors := e\<rparr>) = pg_owner_ok s" "pg_owner_ok (s\<lparr>tb_claims := f\<rparr>) = pg_owner_ok s"
  "pg_owner_ok (s\<lparr>tb_opportunities := g\<rparr>) = pg_owner_ok s" "pg_owner_ok (s\<lparr>tb_connectors := h\<rparr>) = pg_owner_ok s"
  "pg_owner_ok (s\<lparr>cn_open := b'\<rparr>) = pg_owner_ok s" "pg_owner_ok (s\<lparr>cn_setting := x\<rparr>) = pg_owner_ok s"
  by (simp_all add: fun_eq_iff pg_owner_ok_def pg_membership_exists_def split: option.splits)

lemma pg_ok_connection [simp]: "pg_ok (s\<lparr>cn_open := b\<rparr>) = pg_ok s" "pg_ok (s\<lparr>cn_setting := x\<rparr>) = pg_ok s"
  by (simp_all add: pg_ok_defs)

lemmas pg_checks = rls_check_def unique_check_def reference_check_def pg_tenant_exists_def
  pg_organization_exists_def pg_membership_exists_def

lemma preserves_set_tenant: "(\<And>s x. I (s\<lparr>cn_setting := x\<rparr>) = I s) \<Longrightarrow> preserves I (set_tenant t)"
  by (simp add: preserves_def set_tenant_def modifyE_def)

lemma preserves_pg_transaction:
  assumes m: "preserves I m" and c: "\<And>s b. I (s\<lparr>cn_open := b\<rparr>) = I s" "\<And>s x. I (s\<lparr>cn_setting := x\<rparr>) = I s"
  shows "preserves I (pg_store_transaction m)"
  unfolding preserves_def
proof (intro allI impI)
  fix s :: pg_db assume I: "I s"
  let ?s = "s\<lparr>cn_open := True, cn_setting := []\<rparr>"
  have open_ok: "I ?s" using I c by simp
  obtain r u where run: "m ?s = (r, u)" by fastforce
  have "I u" using preservesD [OF m open_ok run] .
  then show "I (snd (pg_store_transaction m s))"
    using I m run c by (cases r) (auto simp: pg_store_transaction_def preserves_def)
qed

lemma preserves_withTenant:
  "preserves I m \<Longrightarrow> (\<And>s b. I (s\<lparr>cn_open := b\<rparr>) = I s) \<Longrightarrow> (\<And>s x. I (s\<lparr>cn_setting := x\<rparr>) = I s) \<Longrightarrow>
     preserves I (pg_withTenant t m)"
  unfolding pg_withTenant_def by (intro preserves_pg_transaction preserves_bindE preserves_set_tenant) auto

lemma pg_ok_withTenant [preserves_intros]: "preserves pg_ok m \<Longrightarrow> preserves pg_ok (pg_withTenant t m)"
  by (rule preserves_withTenant) simp_all

lemma pg_ok_params [preserves_intros]: "preserves I (time_param pl x)" "preserves I (lease_param pl y)"
  by (auto simp: time_param_def lease_param_def preserves_def effect_defs split: option.splits)

lemma pg_key_updates [simp]:
  "pg_org_key (a\<lparr>go_name := n\<rparr>) = pg_org_key a" "pg_org_key (a\<lparr>go_school := n\<rparr>) = pg_org_key a"
  "pg_org_key (a\<lparr>go_heel_life_url := x\<rparr>) = pg_org_key a" "pg_org_key (a\<lparr>go_website_url := x\<rparr>) = pg_org_key a"
  "pg_org_key (a\<lparr>go_instagram_handle := x\<rparr>) = pg_org_key a" "pg_org_key (a\<lparr>go_linkedin_url := x\<rparr>) = pg_org_key a"
  "pg_org_key (a\<lparr>go_updated_at := m\<rparr>) = pg_org_key a"
  "pg_source_key (b\<lparr>gs_external_id := x\<rparr>) = pg_source_key b" "pg_source_key (b\<lparr>gs_url := x\<rparr>) = pg_source_key b"
  "pg_source_key (b\<lparr>gs_title := x\<rparr>) = pg_source_key b" "pg_source_key (b\<lparr>gs_last_seen_at := m\<rparr>) = pg_source_key b"
  "pg_claim_key (c\<lparr>gc_confidence := q\<rparr>) = pg_claim_key c" "pg_claim_key (c\<lparr>gc_evidence := x\<rparr>) = pg_claim_key c"
  "pg_claim_key (c\<lparr>gc_extracted_at := m\<rparr>) = pg_claim_key c"
  "pg_connector_key (d\<lparr>gk_cursor := x\<rparr>) = pg_connector_key d" "pg_connector_key (d\<lparr>gk_metadata := j\<rparr>) = pg_connector_key d"
  "pg_connector_key (d\<lparr>gk_owner_user_id := x\<rparr>) = pg_connector_key d"
  "pg_connector_key (d\<lparr>gk_updated_at := m\<rparr>) = pg_connector_key d"
  by (simp_all add: pg_org_key_def pg_source_key_def pg_claim_key_def pg_connector_key_def)

lemma pg_ok_insert_tenant [preserves_intros]: "preserves pg_ok (pg_insert_tenant now i)"
  unfolding pg_insert_tenant_def
  by (rule preserves_modifyE) (auto simp: pg_checks pg_ok_defs table_simps subset_insertI2)

lemma pg_ok_organization_row [preserves_intros]: "preserves pg_ok (pg_upsert_organization_row row)"
  unfolding pg_upsert_organization_row_def
  by (auto simp: preserves_def effect_defs pg_checks pg_ok_defs table_simps subset_insertI2)

lemma pg_ok_source_row [preserves_intros]: "preserves pg_ok (pg_upsert_source_row row)"
  unfolding pg_upsert_source_row_def
  by (auto simp: preserves_def effect_defs pg_checks pg_ok_defs table_simps subset_insertI2)

lemma pg_ok_version_row [preserves_intros]: "preserves pg_ok (pg_insert_version row)"
  unfolding pg_insert_version_def
  by (auto simp: preserves_def effect_defs pg_checks pg_ok_defs table_simps subset_insertI2)

lemma pg_contributor_key_row: "pg_contributor_key \<lparr>gx_tenant_id = t, gx_source_version_id = v, gx_user_id = u,
    gx_created_at = now\<rparr> = (t, v, u)"
  by (simp add: pg_contributor_key_def)

lemma version_exists_iff:
  "exists_row (\<lambda>r. gv_tenant_id r = t \<and> gv_id r = v) xs \<longleftrightarrow> (t, v) \<in> (\<lambda>r. (gv_tenant_id r, gv_id r)) ` set xs"
  by (auto simp: exists_row_iff)

lemma pg_ok_contributor_row [preserves_intros]: "preserves pg_ok (pg_insert_contributor now t v u)"
  unfolding pg_insert_contributor_def version_exists_iff
  by (auto simp: preserves_def effect_defs pg_checks pg_ok_defs table_simps pg_contributor_key_row)

lemma pg_ok_versions:
  assumes "\<And>r. gv_id (f r) = gv_id r" "\<And>r. gv_source_id (f r) = gv_source_id r"
    "\<And>r. gv_content_hash (f r) = gv_content_hash r" "\<And>r. gv_tenant_id (f r) = gv_tenant_id r"
    "\<And>r. gv_organization_id (f r) = gv_organization_id r"
  shows "preserves pg_ok (pg_update_versions p f)"
  using assms by (auto simp: preserves_def pg_update_versions_def pg_ok_defs unique_on_update_where
      image_update_where pg_version_key_def)

lemma pg_ok_claim_row [preserves_intros]: "preserves pg_ok (pg_upsert_claim_row row)"
proof -
  have "pg_claim_checks (r\<lparr>gc_confidence := gc_confidence row, gc_evidence := e, gc_extracted_at := m\<rparr>)"
    if "pg_claim_checks row" "pg_claim_checks r" for r e m
    using that by (simp add: pg_claim_checks_def)
  then show ?thesis unfolding pg_upsert_claim_row_def
    by (auto simp: preserves_def effect_defs pg_checks pg_ok_defs table_simps split: option.splits)
qed

text \<open>The row of a connector: its owner is checked when it is inserted and when it is updated.\<close>

lemma pg_ok_connector_row: "preserves pg_ok (pg_upsert_connector_row row)"
proof -
  have owner: "pg_owner_ok s (r\<lparr>gk_cursor := c, gk_metadata := m, gk_owner_user_id := gk_owner_user_id row, gk_updated_at := n\<rparr>)"
    if "pg_owner_ok s row" "pg_connector_key r = pg_connector_key row" for s r c m n
    using that by (cases "gk_owner_user_id row") (simp_all add: pg_owner_ok_def pg_connector_key_def)
  show ?thesis unfolding pg_upsert_connector_row_def
    by (auto simp: preserves_def effect_defs pg_checks pg_ok_defs table_simps ball_update_where image_update_where owner)
qed

lemma pg_ok_delete [preserves_intros]: "preserves pg_ok (pg_delete_opportunities t i)"
  unfolding pg_delete_opportunities_def
  by (rule preserves_modifyE) (auto simp: pg_ok_defs unique_on_delete_where set_delete_where)

lemma pg_ok_opportunity_row [preserves_intros]: "preserves pg_ok (pg_insert_opportunity_row row)"
  unfolding pg_insert_opportunity_row_def
  by (auto simp: preserves_def effect_defs pg_checks pg_ok_defs table_simps)

lemma pg_ok_parts [preserves_intros]:
  "preserves pg_ok (pg_record_contributor now t v u)" "preserves pg_ok (pg_stage_result now t i v)"
  "preserves pg_ok (pg_put_claim pl t c)" "preserves pg_ok (pg_insert_opportunity pl t opp)"
  unfolding pg_record_contributor_def pg_stage_result_def pg_put_claim_def pg_insert_opportunity_def Let_def
    rls_check_def
  by (intro preserves_intros pg_ok_versions; simp)+

section \<open>The interfaces of the ingestion service\<close>

interpretation pg: repository "pg_repository pl sha" pg_ok for pl sha
  by unfold_locales
    (simp_all add: pg_repository_def pg_stageSource_def pg_markSourceProcessing_def pg_markSourceSucceeded_def
      pg_markSourceFailed_def pg_getSource_def pg_putClaims_def pg_listClaims_def pg_replaceOpportunities_def
      pg_listOpportunityOverrides_def preserves_intros pg_ok_versions preserves_pg_transaction)

definition pg_evidence :: "pg_db \<Rightarrow> pg_claim table \<times> pg_opportunity table" where
  "pg_evidence s = (tb_claims s, tb_opportunities s)"

lemma pg_evidence_connection [simp]:
  "pg_evidence (s\<lparr>cn_open := b\<rparr>) = pg_evidence s" "pg_evidence (s\<lparr>cn_setting := x\<rparr>) = pg_evidence s"
  by (simp_all add: pg_evidence_def)

lemma pg_evidence_statements:
  "preserves (\<lambda>s. pg_evidence s = ev) (pg_upsert_source_row row2)"
  "preserves (\<lambda>s. pg_evidence s = ev) (pg_insert_version row3)"
  "preserves (\<lambda>s. pg_evidence s = ev) (pg_insert_contributor now t v u)"
  "preserves (\<lambda>s. pg_evidence s = ev) (pg_update_versions p f)"
  unfolding pg_upsert_source_row_def pg_insert_version_def pg_insert_contributor_def pg_update_versions_def
    pg_checks pg_evidence_def
  by (auto simp: preserves_def effect_defs)

lemma pg_evidence_kept:
  "preserves (\<lambda>s. pg_evidence s = ev) (pg_stageSource pl sha now source t)"
  "preserves (\<lambda>s. pg_evidence s = ev) (pg_markSourceProcessing now v t)"
  "preserves (\<lambda>s. pg_evidence s = ev) (pg_markSourceFailed pl now v failure t)"
  unfolding pg_stageSource_def pg_markSourceProcessing_def pg_markSourceFailed_def pg_record_contributor_def
    pg_stage_result_def Let_def
  by (intro preserves_withTenant preserves_intros pg_evidence_statements; simp)+

lemma pg_closed: "\<not> cn_open s \<Longrightarrow> \<not> cn_open (snd (pg_withTenant t m s))"
  by (simp add: pg_withTenant_def pg_store_transaction_def split: prod.splits sum.splits)

lemma pg_methods_closed:
  assumes "\<not> cn_open s"
  shows "\<not> cn_open (snd (pg_stageSource pl sha now source t s))"
    and "\<not> cn_open (snd (pg_markSourceProcessing now v t s))"
  using assms by (simp_all add: pg_stageSource_def pg_markSourceProcessing_def pg_closed)

interpretation pg_evidence: evidence_repository "pg_repository pl sha" "\<lambda>s. \<not> cn_open s" pg_evidence for pl sha
proof unfold_locales
  fix now source t s res s'
  assume "repo_stageSource (pg_repository pl sha) now source t s = (res, s')"
  then have run: "pg_stageSource pl sha (1000 * now) source t s = (res, s')" by (simp add: pg_repository_def)
  show "pg_evidence s' = pg_evidence s \<and> (\<not> cn_open s \<longrightarrow> \<not> cn_open s')"
    using preservesD [OF pg_evidence_kept(1) _ run] pg_methods_closed(1) [of s pl sha "1000 * now" source t] run by simp
next
  fix now v t s res s'
  assume "repo_markSourceProcessing (pg_repository pl sha) now v t s = (res, s')"
  then have run: "pg_markSourceProcessing (1000 * now) v t s = (res, s')" by (simp add: pg_repository_def)
  show "pg_evidence s' = pg_evidence s \<and> (\<not> cn_open s \<longrightarrow> \<not> cn_open s')"
    using preservesD [OF pg_evidence_kept(2) _ run] pg_methods_closed(2) [of s "1000 * now" v t] run by simp
next
  fix now v failure t s res s'
  assume "repo_markSourceFailed (pg_repository pl sha) now v failure t s = (res, s')"
  then have run: "pg_markSourceFailed pl (1000 * now) v failure t s = (res, s')" by (simp add: pg_repository_def)
  show "pg_evidence s' = pg_evidence s" using preservesD [OF pg_evidence_kept(3) _ run] by simp
next
  fix s m e s'
  assume "\<not> cn_open s" "repo_transaction (pg_repository pl sha) m s = (Inl e, s')"
  then show "pg_evidence s' = pg_evidence s"
    by (auto simp: pg_repository_def pg_store_transaction_def split: prod.splits sum.splits)
qed

text \<open>C19. Ingestion on Postgres is atomic and keeps the constraints. Called outside a transaction, on a database
  that satisfies its keys, references and checks, an ingestion leaves a database that satisfies them; when it
  throws, whether while staging, extracting, storing claims or resolving, the claims and opportunities of all
  tenants are what they were.\<close>

theorem pg_ingest_atomic:
  assumes "\<not> cn_open s" and "pg_ok s"
    and "ingest_source (pg_repository pl sha) legacy sha dt extract clk source s = (res, s')"
  shows "pg_ok s' \<and> (case res of Inl e \<Rightarrow> tb_claims s' = tb_claims s \<and> tb_opportunities s' = tb_opportunities s
    | Inr _ \<Rightarrow> True)"
proof -
  have "pg_ok s'" using preservesD [OF pg.ingest_source_keeps assms(2,3)] .
  moreover have "pg_evidence s' = pg_evidence s" if "res = Inl e" for e
    using pg_evidence.ingest_source_atomic [OF assms(1)] assms(3) that by blast
  ultimately show ?thesis by (auto simp: pg_evidence_def split: sum.splits)
qed

definition demo_pg_db :: pg_db where
  "demo_pg_db = \<lparr>tb_tenants = [\<lparr>gt_id = ''t'', gt_name = ''t'', gt_created_at = 0\<rparr>], tb_users = [],
     tb_memberships = [],
     tb_organizations = [\<lparr>go_tenant_id = ''t'', go_id = src_organizationId demo_source, go_name = ''n'', go_school = ''s'',
       go_heel_life_url = None, go_website_url = None, go_instagram_handle = None, go_linkedin_url = None,
       go_created_at = 0, go_updated_at = 0\<rparr>],
     tb_sources = [], tb_versions = [], tb_contributors = [], tb_claims = [], tb_opportunities = [],
     tb_overrides = [], tb_connectors = [], tb_sessions = [], tb_credentials = [], tb_audit = [], tb_jobs = [],
     cn_setting = [], cn_open = False\<rparr>"

lemma demo_pg_ok: "pg_ok demo_pg_db" "\<not> cn_open demo_pg_db"
  by (simp_all add: pg_ok_defs demo_pg_db_def unique_on_def)

lemma demo_time: "time_param demo_platform (nowIso 0) = retE 0"
  using demo_platform_ok by (simp add: time_param_def demo_platform_def nowIso_def iso_range_def)

definition demo_pg_staged :: pg_db where
  "demo_pg_staged = demo_pg_db\<lparr>tb_sources := [pg_source_row id 0 demo_source ''t''],
     tb_versions := [(pg_version_row id 0 demo_source ''t'' None 0)\<lparr>gv_status := queued\<rparr>]\<rparr>"

lemma demo_times:
  "lease_param demo_platform (src_publishedAt demo_source) = retE None"
  "time_param demo_platform (src_fetchedAt demo_source) = retE 0"
  "lease_param demo_platform (fail_nextAttemptAt (ingest_failure (\<lambda>_. 0) 1 e)) = retE (Some 2000000)"
  using demo_time by (simp_all add: demo_source_def lease_param_def ingest_failure_def ingest_delay_def time_param_def
      demo_platform_def iso_range_def)

lemma demo_source_fields:
  "src_organizationId demo_source = ''o''" "src_contributorUserId demo_source = None"
  by (simp_all add: demo_source_def)

lemma demo_pg_stage:
  "\<exists>r. pg_stageSource demo_platform id 0 demo_source ''t'' demo_pg_db = (Inr r, demo_pg_staged) \<and> stg_shouldProcess r \<and>
     stg_versionId r = pg_version_id id demo_source ''t''"
  by (simp add: pg_stageSource_def demo_times pg_withTenant_def pg_store_transaction_def set_tenant_def
      pg_upsert_source_row_def pg_insert_version_def pg_record_contributor_def pg_stage_result_def pg_checks
      pg_update_versions_def pg_find_version_def pg_source_row_def pg_version_row_def effect_defs Let_def
      demo_pg_db_def demo_pg_staged_def rls_def select_first_def update_where_def exists_row_def pg_org_key_def
      demo_source_fields)

lemma demo_pg_processing:
  "\<exists>u. pg_markSourceProcessing 0 (pg_version_id id demo_source ''t'') ''t'' demo_pg_staged = (Inr 1, u)"
  by (simp add: pg_markSourceProcessing_def pg_withTenant_def pg_store_transaction_def set_tenant_def
      pg_update_versions_def pg_version_row_def effect_defs demo_pg_staged_def demo_pg_db_def rls_def select_first_def)

lemma demo_pg_failed:
  "\<exists>u. pg_markSourceFailed demo_platform 0 v (ingest_failure (\<lambda>_. 0) 1 e) t s = (Inr (), u)"
  by (simp add: pg_markSourceFailed_def pg_withTenant_def pg_store_transaction_def set_tenant_def
      pg_update_versions_def effect_defs demo_times(3) [simplified])

theorem pg_ingest_atomic_witness:
  "\<exists>s'. ingest_source (pg_repository demo_platform id) (\<lambda>_. None) id ''t'' (\<lambda>_. Inl (Error ''down'')) (\<lambda>_. 0)
      demo_source demo_pg_db = (Inl (Error ''down''), s') \<and> pg_ok s' \<and> tb_claims s' = []"
proof -
  have "\<exists>s'. ingest_source (pg_repository demo_platform id) (\<lambda>_. None) id ''t'' (\<lambda>_. Inl (Error ''down'')) (\<lambda>_. 0)
      demo_source demo_pg_db = (Inl (Error ''down''), s')"
  proof -
    obtain r where r: "pg_stageSource demo_platform id 0 demo_source ''t'' demo_pg_db = (Inr r, demo_pg_staged)"
      "stg_shouldProcess r" "stg_versionId r = pg_version_id id demo_source ''t''" using demo_pg_stage by blast
    obtain u where u: "pg_markSourceProcessing 0 (pg_version_id id demo_source ''t'') ''t'' demo_pg_staged = (Inr 1, u)"
      using demo_pg_processing by blast
    obtain v where "pg_markSourceFailed demo_platform 0 (pg_version_id id demo_source ''t'')
        (ingest_failure (\<lambda>_. 0) 1 (Error ''down'')) ''t'' u = (Inr (), v)" using demo_pg_failed by blast
    then show ?thesis using r u
      by (simp add: ingest_source_def process_source_def pg_repository_def demo_tenant bindE_def catchE_def throwE_def Let_def)
  qed
  then obtain s' where run: "ingest_source (pg_repository demo_platform id) (\<lambda>_. None) id ''t''
      (\<lambda>_. Inl (Error ''down'')) (\<lambda>_. 0) demo_source demo_pg_db = (Inl (Error ''down''), s')" by blast
  show ?thesis using pg_ingest_atomic [OF demo_pg_ok(2,1) run] run by (auto simp: demo_pg_db_def)
qed

end
