(* ===== verification/Auth.thy ===== *)
theory Auth
  imports StoreIntegrity
begin

text \<open>
  Authorization, identities and sessions: src/src/application/auth/authorization.ts, initial-roles.ts
  and session-service.ts, the port src/src/application/ports/auth-repository.ts and its SQLite
  implementation src/src/infrastructure/auth/sqlite-auth-repository.ts. The random token, the random
  CSRF token and the session id are arguments of \<open>issue\<close>; \<open>sha\<close> is SHA-256.
\<close>

section \<open>Authorization\<close>

definition requireRole :: "AuthPrincipal \<Rightarrow> Role list \<Rightarrow> error + unit" where
  "requireRole caller roles =
     (if list_ex (\<lambda>role. role \<in> set (prin_roles caller)) roles then Inr () else Inl AuthorizationError)"

definition requireOrganizationAccess :: "AuthPrincipal \<Rightarrow> string \<Rightarrow> error + unit" where
  "requireOrganizationAccess caller organizationId =
     (if platform_admin \<in> set (prin_roles caller) then Inr ()
      else if organization_editor \<notin> set (prin_roles caller) \<or>
        organizationId \<notin> set (prin_organizationIds caller) then Inl AuthorizationError
      else Inr ())"

definition initialRolesForIdentity :: "string option \<Rightarrow> string list \<Rightarrow> Role list" where
  "initialRolesForIdentity verifiedEmail initialPlatformAdminEmails =
     (if truthy verifiedEmail \<and> toLowerCase (trim (the verifiedEmail)) \<in> set initialPlatformAdminEmails
      then [platform_admin] else [student])"

section \<open>The repository\<close>

record SessionAuthentication =
  sa_principal :: AuthPrincipal
  sa_csrfHash :: string
  sa_expiresAt :: string

record OidcIdentity =
  oid_issuer :: string
  oid_subject :: string
  oid_email :: "string option"
  oid_displayName :: "string option"

record NewSession =
  ns_id :: string
  ns_tenantId :: string
  ns_userId :: string
  ns_tokenHash :: string
  ns_csrfHash :: string
  ns_expiresAt :: string

record 's auth_repository =
  auth_upsertIdentity :: "(nat \<Rightarrow> int) \<Rightarrow> OidcIdentity \<Rightarrow> string \<Rightarrow> Role list \<Rightarrow> (error, 's, string) op"
  auth_createSession :: "int \<Rightarrow> NewSession \<Rightarrow> (error, 's, unit) op"
  auth_authenticateSession :: "(nat \<Rightarrow> int) \<Rightarrow> string \<Rightarrow> (error, 's, SessionAuthentication option) op"
  auth_revokeSession :: "int \<Rightarrow> string \<Rightarrow> string \<Rightarrow> (error, 's, unit) op"

definition identity_id :: "(string \<Rightarrow> string) \<Rightarrow> OidcIdentity \<Rightarrow> string" where
  "identity_id sha identity = stableId sha ''usr'' (oid_issuer identity @ '':'' @ oid_subject identity)"

definition upsert_user_row :: "user_row \<Rightarrow> unit store_op" where
  "upsert_user_row row s =
     (if exists_row (\<lambda>r. user_key r = user_key row) (users s) then
        (Inr (), s\<lparr>users := update_where (\<lambda>r. user_key r = user_key row)
          (\<lambda>r. r\<lparr>us_email := us_email row, us_display_name := us_display_name row,
             us_updated_at := us_updated_at row\<rparr>) (users s)\<rparr>)
      else if exists_row (\<lambda>r. us_id r = us_id row) (users s) then
        (Inl (SqlError (UniqueViolation ''users.id'')), s)
      else (Inr (), s\<lparr>users := users s @ [row]\<rparr>))"

definition insert_membership :: "membership_row \<Rightarrow> unit store_op" where
  "insert_membership row s =
     (if exists_row (\<lambda>r. member_key r = member_key row) (memberships s) then (Inr (), s)
      else if \<not> tenant_exists (mb_tenant_id row) s \<or> \<not> user_exists (mb_user_id row) s then
        (Inl (SqlError (ForeignKeyViolation ''memberships'')), s)
      else (Inr (), s\<lparr>memberships := memberships s @ [row]\<rparr>))"

definition find_member :: "string \<Rightarrow> string \<Rightarrow> 'm db_scheme \<Rightarrow> membership_row option" where
  "find_member tenantId userId s = select_first (\<lambda>r. member_key r = (tenantId, userId)) (memberships s)"

definition add_role :: "Role \<Rightarrow> Role list \<Rightarrow> Role list" where
  "add_role role roles = (let s = dedup roles in if role \<in> set s then s else s @ [role])"

definition grant_admin :: "int \<Rightarrow> string \<Rightarrow> string \<Rightarrow> unit store_op" where
  "grant_admin now tenantId userId =
     bindE (getE (find_member tenantId userId)) (\<lambda>found.
       case found of None \<Rightarrow> throwE (TypeError ''Cannot read properties of undefined'')
       | Some m \<Rightarrow> modifyE (\<lambda>s. s\<lparr>memberships := update_where
           (\<lambda>r. member_key r = (tenantId, userId))
           (\<lambda>r. r\<lparr>mb_roles := add_role platform_admin (mb_roles m), mb_updated_at := nowIso now\<rparr>)
           (memberships s)\<rparr>))"

definition upsertIdentity ::
    "(string \<Rightarrow> string) \<Rightarrow> (nat \<Rightarrow> int) \<Rightarrow> OidcIdentity \<Rightarrow> string \<Rightarrow> Role list \<Rightarrow> string store_op" where
  "upsertIdentity sha clk identity tenantId defaultRoles =
     (let userId = identity_id sha identity; now = nowIso (clk 0) in
      bindE (transaction
        (bindE (ensureTenant (clk 1) tenantId tenantId) (\<lambda>_.
         bindE (upsert_user_row \<lparr>us_id = userId, us_issuer = oid_issuer identity,
            us_subject = oid_subject identity, us_email = oid_email identity,
            us_display_name = oid_displayName identity, us_created_at = now, us_updated_at = now\<rparr>) (\<lambda>_.
         bindE (insert_membership \<lparr>mb_tenant_id = tenantId, mb_user_id = userId, mb_roles = defaultRoles,
            mb_organization_ids = [], mb_created_at = now, mb_updated_at = now\<rparr>) (\<lambda>_.
           if platform_admin \<in> set defaultRoles then grant_admin (clk 0) tenantId userId
           else retE ()))))) (\<lambda>_. retE userId))"

definition createSession :: "int \<Rightarrow> NewSession \<Rightarrow> unit store_op" where
  "createSession now input s =
     (if exists_row (\<lambda>r. ss_id r = ns_id input) (sessions s) then
        (Inl (SqlError (UniqueViolation ''sessions.id'')), s)
      else if exists_row (\<lambda>r. ss_token_hash r = ns_tokenHash input) (sessions s) then
        (Inl (SqlError (UniqueViolation ''sessions.token_hash'')), s)
      else if \<not> tenant_exists (ns_tenantId input) s \<or> \<not> user_exists (ns_userId input) s then
        (Inl (SqlError (ForeignKeyViolation ''sessions'')), s)
      else (Inr (), s\<lparr>sessions := sessions s @ [\<lparr>ss_id = ns_id input, ss_tenant_id = ns_tenantId input,
        ss_user_id = ns_userId input, ss_token_hash = ns_tokenHash input,
        ss_csrf_hash = ns_csrfHash input, ss_expires_at = ns_expiresAt input, ss_revoked_at = None,
        ss_created_at = nowIso now, ss_last_seen_at = nowIso now\<rparr>]\<rparr>))"

text \<open>The session and the membership that the join finds for a token hash.\<close>

definition find_session :: "string \<Rightarrow> string \<Rightarrow> 'm db_scheme \<Rightarrow> (session_row \<times> membership_row) option" where
  "find_session now tokenHash s =
     (case filter (\<lambda>r. ss_token_hash r = tokenHash \<and> ss_revoked_at r = None \<and> now < ss_expires_at r \<and>
         find_member (ss_tenant_id r) (ss_user_id r) s \<noteq> None) (sessions s) of
        [] \<Rightarrow> None
      | r # _ \<Rightarrow> map_option (Pair r) (find_member (ss_tenant_id r) (ss_user_id r) s))"

definition authentication_of :: "session_row \<times> membership_row \<Rightarrow> SessionAuthentication" where
  "authentication_of sm = (let r = fst sm; m = snd sm in
     \<lparr>sa_principal = \<lparr>prin_userId = ss_user_id r, prin_tenantId = ss_tenant_id r, prin_roles = mb_roles m,
        prin_organizationIds = mb_organization_ids m, prin_sessionId = ss_id r\<rparr>,
      sa_csrfHash = ss_csrf_hash r, sa_expiresAt = ss_expires_at r\<rparr>)"

definition authenticateSession ::
    "(nat \<Rightarrow> int) \<Rightarrow> string \<Rightarrow> SessionAuthentication option store_op" where
  "authenticateSession clk tokenHash =
     bindE (getE (find_session (nowIso (clk 0)) tokenHash)) (\<lambda>found.
       case found of None \<Rightarrow> retE None
       | Some sm \<Rightarrow>
         bindE (modifyE (\<lambda>s. s\<lparr>sessions := update_where (\<lambda>r. ss_id r = ss_id (fst sm))
             (\<lambda>r. r\<lparr>ss_last_seen_at := nowIso (clk 1)\<rparr>) (sessions s)\<rparr>)) (\<lambda>_.
           retE (Some (authentication_of sm))))"

definition revokeSession :: "int \<Rightarrow> string \<Rightarrow> string \<Rightarrow> unit store_op" where
  "revokeSession now sessionId tenantId = modifyE (\<lambda>s. s\<lparr>sessions := update_where
     (\<lambda>r. ss_id r = sessionId \<and> ss_tenant_id r = tenantId)
     (\<lambda>r. r\<lparr>ss_revoked_at := Some (nowIso now)\<rparr>) (sessions s)\<rparr>)"

definition sqlite_auth :: "(string \<Rightarrow> string) \<Rightarrow> store auth_repository" where
  "sqlite_auth sha = \<lparr>auth_upsertIdentity = upsertIdentity sha, auth_createSession = createSession,
     auth_authenticateSession = authenticateSession, auth_revokeSession = revokeSession\<rparr>"

section \<open>The session service\<close>

record IssuedSession =
  iss_token :: string
  iss_csrfToken :: string
  iss_expiresAt :: string
  iss_principal :: AuthPrincipal

definition hashSecret :: "(string \<Rightarrow> string) \<Rightarrow> string \<Rightarrow> string" where
  "hashSecret sha value = sha value"

text \<open>The readings: 0 for the end of the session, 1 for its creation, \<open>2 + n\<close> and \<open>10 + n\<close> inside
  the repository's \<open>upsertIdentity\<close> and \<open>authenticateSession\<close>.\<close>

definition issue ::
    "'s auth_repository \<Rightarrow> (string \<Rightarrow> string) \<Rightarrow> int \<Rightarrow> (nat \<Rightarrow> int) \<Rightarrow> string \<Rightarrow> string \<Rightarrow> string \<Rightarrow>
       OidcIdentity \<Rightarrow> string \<Rightarrow> Role list \<Rightarrow> (error, 's, IssuedSession) op" where
  "issue repo sha ttlSeconds clk token csrfToken uuid identity tenantId defaultRoles =
     bindE (auth_upsertIdentity repo (\<lambda>n. clk (2 + n)) identity tenantId defaultRoles) (\<lambda>userId.
       let expiresAt = toISOString (clk 0 + ttlSeconds * 1000) in
       bindE (auth_createSession repo (clk 1) \<lparr>ns_id = uid uuid ''ses'', ns_tenantId = tenantId,
          ns_userId = userId, ns_tokenHash = hashSecret sha token,
          ns_csrfHash = hashSecret sha csrfToken, ns_expiresAt = expiresAt\<rparr>) (\<lambda>_.
       bindE (auth_authenticateSession repo (\<lambda>n. clk (10 + n)) (hashSecret sha token)) (\<lambda>authenticated.
         case authenticated of None \<Rightarrow> throwE (Error ''Created session could not be loaded'')
         | Some a \<Rightarrow> retE \<lparr>iss_token = token, iss_csrfToken = csrfToken, iss_expiresAt = expiresAt,
             iss_principal = sa_principal a\<rparr>)))"

definition authenticate ::
    "'s auth_repository \<Rightarrow> (string \<Rightarrow> string) \<Rightarrow> (nat \<Rightarrow> int) \<Rightarrow> string option \<Rightarrow>
       (error, 's, SessionAuthentication option) op" where
  "authenticate repo sha clk token =
     (if truthy token then auth_authenticateSession repo clk (hashSecret sha (the token)) else retE None)"

definition verifyCsrf :: "(string \<Rightarrow> string) \<Rightarrow> SessionAuthentication \<Rightarrow> string option \<Rightarrow> bool" where
  "verifyCsrf sha authentication provided \<longleftrightarrow> truthy provided \<and>
     (let actual = hashSecret sha (the provided); expected = sa_csrfHash authentication in
      length actual = length expected \<and> actual = expected)"

definition revoke :: "'s auth_repository \<Rightarrow> int \<Rightarrow> AuthPrincipal \<Rightarrow> (error, 's, unit) op" where
  "revoke repo now caller =
     auth_revokeSession repo now (prin_sessionId caller) (prin_tenantId caller)"

section \<open>The contract of the repository\<close>

text \<open>One call of a client of the repository.\<close>

inductive auth_step :: "'s auth_repository \<Rightarrow> 's \<Rightarrow> 's \<Rightarrow> bool" for repo where
  login: "auth_upsertIdentity repo clk identity t roles s = (r1, s') \<Longrightarrow> auth_step repo s s'"
| create: "auth_createSession repo now input s = (r2, s') \<Longrightarrow> auth_step repo s s'"
| authenticate: "auth_authenticateSession repo clk h s = (r3, s') \<Longrightarrow> auth_step repo s s'"
| revoke: "auth_revokeSession repo now i t s = (r2, s') \<Longrightarrow> auth_step repo s s'"

text \<open>\<open>live now h s\<close> is the session that the token hash \<open>h\<close> stands for at the time \<open>now\<close>,
  \<open>revoked h s\<close> says that it stands for a revoked one. The session service needs no more of a
  repository than these laws.\<close>

locale session_repository =
  fixes repo :: "'s auth_repository" and live :: "int \<Rightarrow> string \<Rightarrow> 's \<Rightarrow> SessionAuthentication option"
    and revoked :: "string \<Rightarrow> 's \<Rightarrow> bool" and ok :: "'s \<Rightarrow> bool"
  assumes authenticate_result: "fst (auth_authenticateSession repo clk h s) = Inr (live (clk 0) h s)"
    and authenticate_live: "live now h' (snd (auth_authenticateSession repo clk h s)) = live now h' s"
    and step_ok: "auth_step repo s s' \<Longrightarrow> ok s \<Longrightarrow> ok s'"
    and step_revoked: "auth_step repo s s' \<Longrightarrow> ok s \<Longrightarrow> revoked h s \<Longrightarrow> revoked h s'"
    and created_live: "ok s \<Longrightarrow> auth_createSession repo created input s = (Inr (), s') \<Longrightarrow>
      live now (ns_tokenHash input) s' = Some a \<Longrightarrow>
      sa_csrfHash a = ns_csrfHash input \<and> sa_expiresAt a = ns_expiresAt input \<and>
      prin_userId (sa_principal a) = ns_userId input \<and> prin_tenantId (sa_principal a) = ns_tenantId input \<and>
      prin_sessionId (sa_principal a) = ns_id input"
    and live_until: "ok s \<Longrightarrow> live now h s = Some a \<Longrightarrow> nowIso later < sa_expiresAt a \<Longrightarrow>
      live later h s = Some a"
    and live_expires: "live now h s = Some a \<Longrightarrow> nowIso now < sa_expiresAt a"
    and revoke_revokes: "live now h s = Some a \<Longrightarrow>
      auth_revokeSession repo r (prin_sessionId (sa_principal a)) (prin_tenantId (sa_principal a)) s
        = (res, s') \<Longrightarrow> revoked h s'"
    and revoked_dead: "ok s \<Longrightarrow> revoked h s \<Longrightarrow> live now h s = None"
begin

lemma run_revoked:
  assumes "(auth_step repo)\<^sup>*\<^sup>* s s'" and "ok s" and "revoked h s"
  shows "ok s' \<and> revoked h s'"
  using assms by (induction rule: rtranclp_induct) (auto intro: step_ok step_revoked)

lemma authenticate_eq:
  "token \<noteq> [] \<Longrightarrow> fst (authenticate repo sha clk (Some token) s) = Inr (live (clk 0) (sha token) s)"
  by (simp add: authenticate_def hashSecret_def authenticate_result)

lemma issued_live:
  assumes "ok s" and "issue repo sha ttl clk token csrf uuid identity t roles s = (Inr issued, s')"
  shows "\<exists>a. live (clk 10) (sha token) s' = Some a \<and> sa_principal a = iss_principal issued \<and> ok s' \<and>
    iss_token issued = token \<and> iss_csrfToken issued = csrf \<and> prin_tenantId (sa_principal a) = t \<and>
    iss_expiresAt issued = toISOString (clk 0 + ttl * 1000) \<and>
    (\<forall>now b. live now (sha token) s' = Some b \<longrightarrow>
       sa_csrfHash b = sha csrf \<and> sa_expiresAt b = iss_expiresAt issued)"
proof -
  obtain userId u input v a
    where up: "auth_upsertIdentity repo (\<lambda>n. clk (2 + n)) identity t roles s = (Inr userId, u)"
      and input: "input = \<lparr>ns_id = uid uuid ''ses'', ns_tenantId = t, ns_userId = userId,
        ns_tokenHash = sha token, ns_csrfHash = sha csrf,
        ns_expiresAt = toISOString (clk 0 + ttl * 1000)\<rparr>"
      and cr: "auth_createSession repo (clk 1) input u = (Inr (), v)"
      and au: "auth_authenticateSession repo (\<lambda>n. clk (10 + n)) (sha token) v = (Inr (Some a), s')"
      and iss: "issued = \<lparr>iss_token = token, iss_csrfToken = csrf,
        iss_expiresAt = toISOString (clk 0 + ttl * 1000), iss_principal = sa_principal a\<rparr>"
    using assms(2) by (auto simp: issue_def Let_def bindE_Inr_iff hashSecret_def effect_simps
        simp del: One_nat_def split: option.splits)
  have oku: "ok u" using step_ok [OF auth_step.login [OF up]] assms(1) .
  have okv: "ok v" using step_ok [OF auth_step.create [OF cr]] oku .
  have ok': "ok s'" using step_ok [OF auth_step.authenticate [OF au]] okv .
  have l: "live (clk 10) (sha token) v = Some a"
    using authenticate_result [of "\<lambda>n. clk (10 + n)" "sha token" v] au by simp
  have same: "live now h s' = live now h v" for now h
    using authenticate_live [of now h "\<lambda>n. clk (10 + n)" "sha token" v] au by simp
  have cl: "live now (sha token) v = Some b \<Longrightarrow> sa_csrfHash b = sha csrf \<and>
      sa_expiresAt b = toISOString (clk 0 + ttl * 1000) \<and> prin_tenantId (sa_principal b) = t" for now b
    using created_live [OF oku cr, of now b] input by simp
  show ?thesis using l same cl [OF l] cl ok' iss by auto
qed

text \<open>A session that was issued authenticates as its principal until its end and not afterwards, and
  its CSRF token verifies.\<close>

lemma issue_authenticate:
  assumes "ok s" and "issue repo sha ttl clk token csrf uuid identity t roles s = (Inr issued, s')"
    and "token \<noteq> []"
  shows "fst (authenticate repo sha later (Some (iss_token issued)) s') =
    Inr (if nowIso (later 0) < iss_expiresAt issued
      then Some \<lparr>sa_principal = iss_principal issued, sa_csrfHash = sha (iss_csrfToken issued),
        sa_expiresAt = iss_expiresAt issued\<rparr> else None)"
proof -
  from issued_live [OF assms(1,2)] obtain a where a: "live (clk 10) (sha token) s' = Some a"
      "sa_principal a = iss_principal issued" "ok s'" "iss_token issued = token"
      "iss_csrfToken issued = csrf"
    and b: "\<And>now b. live now (sha token) s' = Some b \<Longrightarrow>
       sa_csrfHash b = sha csrf \<and> sa_expiresAt b = iss_expiresAt issued" by blast
  have "live (later 0) (sha token) s' = (if nowIso (later 0) < iss_expiresAt issued then Some a else None)"
    using a(1,3) b live_until live_expires by (metis not_None_eq)
  moreover have "a = \<lparr>sa_principal = iss_principal issued, sa_csrfHash = sha csrf,
      sa_expiresAt = iss_expiresAt issued\<rparr>"
    using a(2) b [OF a(1)] by simp
  ultimately show ?thesis using a(4,5) authenticate_eq [OF assms(3)] by simp
qed

lemma revoked_for_good:
  assumes "ok s" and "authenticate repo sha clk (Some token) s = (Inr (Some a), s1)"
    and "revoke repo now (sa_principal a) s1 = (res, s2)" and "(auth_step repo)\<^sup>*\<^sup>* s2 s3"
  shows "fst (authenticate repo sha later (Some token) s3) = Inr None"
proof (cases "token = []")
  case True
  then show ?thesis by (simp add: authenticate_def effect_simps)
next
  case False
  have au: "auth_authenticateSession repo clk (sha token) s = (Inr (Some a), s1)"
    using assms(2) False by (simp add: authenticate_def hashSecret_def)
  have "live (clk 0) (sha token) s1 = Some a"
    using authenticate_result [of clk "sha token" s] authenticate_live [of _ _ clk "sha token" s] au
    by simp
  then have rv: "revoked (sha token) s2" using revoke_revokes assms(3) by (simp add: revoke_def)
  have "ok s1" using step_ok [OF auth_step.authenticate [OF au]] assms(1) .
  then have "ok s2" using step_ok [OF auth_step.revoke [OF assms(3) [unfolded revoke_def]]] by simp
  then show ?thesis using run_revoked [OF assms(4) _ rv] revoked_dead authenticate_eq [OF False] by simp
qed

end

section \<open>The SQLite repository keeps the contract\<close>

lemma user_key_profile [simp]:
  "user_key (r\<lparr>us_email := x, us_display_name := y, us_updated_at := z\<rparr>) = user_key r"
  by (simp add: user_key_def)

lemma db_ok_upsert_user [preserves_intros]: "preserves db_ok (upsert_user_row row)"
  by (simp add: preserves_def upsert_user_row_def db_ok_defs table_simps subset_insertI2)

lemma owner_ok_insert: "owner_ok ms r \<Longrightarrow> owner_ok (insert m ms) r"
  by (simp add: owner_ok_def split: option.splits)

lemma db_ok_insert_membership [preserves_intros]: "preserves db_ok (insert_membership row)"
  by (simp add: preserves_def insert_membership_def db_ok_defs table_simps subset_insertI2 owner_ok_insert)

lemma member_key_roles [simp]:
  "member_key (r\<lparr>mb_roles := x, mb_updated_at := y\<rparr>) = member_key r"
  by (simp add: member_key_def)

lemma db_ok_grant_admin [preserves_intros]: "preserves db_ok (grant_admin now t u)"
  unfolding grant_admin_def
  by (intro preserves_intros preserves_modifyE) (simp add: db_ok_defs table_simps)

lemma db_ok_upsertIdentity: "preserves db_ok (upsertIdentity sha clk identity t roles)"
  unfolding upsertIdentity_def Let_def by (intro preserves_intros)

lemma db_ok_createSession: "preserves db_ok (createSession now input)"
  by (auto simp: preserves_def createSession_def db_ok_defs table_simps subset_insertI2)

lemma db_ok_update_sessions:
  assumes "\<And>r. ss_id (f r) = ss_id r" "\<And>r. ss_token_hash (f r) = ss_token_hash r"
    "\<And>r. ss_tenant_id (f r) = ss_tenant_id r" "\<And>r. ss_user_id (f r) = ss_user_id r"
  shows "db_ok s \<Longrightarrow> db_ok (s\<lparr>sessions := update_where p f (sessions s)\<rparr>)"
  using assms by (simp add: db_ok_defs unique_on_update_where image_update_where)

lemma db_ok_authenticateSession: "preserves db_ok (authenticateSession clk h)"
  unfolding authenticateSession_def
  by (intro preserves_intros preserves_modifyE db_ok_update_sessions) simp_all

lemma db_ok_revokeSession: "preserves db_ok (revokeSession now i t)"
  unfolding revokeSession_def
  by (intro preserves_intros preserves_modifyE db_ok_update_sessions) simp_all

text \<open>The sessions of the store and the two views of them that the contract is about.\<close>

definition live_session :: "int \<Rightarrow> string \<Rightarrow> 'm db_scheme \<Rightarrow> SessionAuthentication option" where
  "live_session now h s = map_option authentication_of (find_session (nowIso now) h s)"

definition revoked_session :: "string \<Rightarrow> 'm db_scheme \<Rightarrow> bool" where
  "revoked_session h s \<longleftrightarrow> list_ex (\<lambda>r. ss_token_hash r = h \<and> ss_revoked_at r \<noteq> None) (sessions s)"

lemma revoked_session_iff:
  "revoked_session h s \<longleftrightarrow> (\<exists>r \<in> set (sessions s). ss_token_hash r = h \<and> ss_revoked_at r \<noteq> None)"
  by (simp add: revoked_session_def list_ex_iff)

lemma find_session_Some:
  assumes "find_session now h s = Some (r, m)"
  shows "r \<in> set (sessions s)" "ss_token_hash r = h" "ss_revoked_at r = None" "now < ss_expires_at r"
    "find_member (ss_tenant_id r) (ss_user_id r) s = Some m"
proof -
  obtain rs where rs: "filter (\<lambda>r. ss_token_hash r = h \<and> ss_revoked_at r = None \<and> now < ss_expires_at r \<and>
      find_member (ss_tenant_id r) (ss_user_id r) s \<noteq> None) (sessions s) = r # rs"
    and m: "find_member (ss_tenant_id r) (ss_user_id r) s = Some m"
    using assms by (auto simp: find_session_def split: list.splits)
  have "r \<in> set (filter (\<lambda>r. ss_token_hash r = h \<and> ss_revoked_at r = None \<and> now < ss_expires_at r \<and>
      find_member (ss_tenant_id r) (ss_user_id r) s \<noteq> None) (sessions s))"
    unfolding rs by simp
  then show "r \<in> set (sessions s)" "ss_token_hash r = h" "ss_revoked_at r = None" "now < ss_expires_at r"
    "find_member (ss_tenant_id r) (ss_user_id r) s = Some m" using m by auto
qed

lemma find_session_unique:
  assumes "unique_on ss_token_hash (sessions s)" and "r \<in> set (sessions s)"
    and "ss_revoked_at r = None" and "now < ss_expires_at r"
    and "find_member (ss_tenant_id r) (ss_user_id r) s = Some m"
  shows "find_session now (ss_token_hash r) s = Some (r, m)"
proof -
  let ?P = "\<lambda>q. ss_token_hash q = ss_token_hash r \<and> ss_revoked_at q = None \<and> now < ss_expires_at q \<and>
      find_member (ss_tenant_id q) (ss_user_id q) s \<noteq> None"
  have "r \<in> set (filter ?P (sessions s))" using assms by simp
  then obtain q qs where q: "filter ?P (sessions s) = q # qs"
    by (metis (no_types, lifting) empty_iff list.set(1) neq_Nil_conv)
  then have "q \<in> set (filter ?P (sessions s))" by simp
  then have "q = r" using unique_onD [OF assms(1), of q r] assms(2) by simp
  then show ?thesis using q assms(5) by (simp add: find_session_def)
qed

text \<open>The statements of the repository change neither a token hash nor a revocation.\<close>

lemma find_member_login:
  "find_member t u (s\<lparr>sessions := ss\<rparr>) = find_member t u s"
  by (simp add: find_member_def)

lemma find_session_seen:
  "find_session now h (s\<lparr>sessions := update_where p (\<lambda>r. r\<lparr>ss_last_seen_at := x\<rparr>) (sessions s)\<rparr>) =
     map_option (\<lambda>(r, m). (if p r then r\<lparr>ss_last_seen_at := x\<rparr> else r, m)) (find_session now h s)"
proof -
  let ?f = "\<lambda>r. if p r then r\<lparr>ss_last_seen_at := x\<rparr> else r"
  let ?P = "\<lambda>r. ss_token_hash r = h \<and> ss_revoked_at r = None \<and> now < ss_expires_at r \<and>
      find_member (ss_tenant_id r) (ss_user_id r) s \<noteq> None"
  have "filter ?P (map ?f (sessions s)) = map ?f (filter ?P (sessions s))"
    by (simp add: filter_map o_def if_distrib cong: if_cong)
  then show ?thesis
    by (simp add: find_session_def find_member_login update_where_def option.map_comp o_def
        split: list.splits)
qed

lemma authentication_of_seen [simp]:
  "authentication_of (if b then r\<lparr>ss_last_seen_at := x\<rparr> else r, m) = authentication_of (r, m)"
  by (simp add: authentication_of_def)

lemma live_session_seen [simp]:
  "live_session now h (s\<lparr>sessions := update_where p (\<lambda>r. r\<lparr>ss_last_seen_at := x\<rparr>) (sessions s)\<rparr>) =
     live_session now h s"
  by (simp add: live_session_def find_session_seen option.map_comp o_def case_prod_beta)

lemma revoked_update:
  assumes "\<And>r. ss_token_hash (f r) = ss_token_hash r"
    and "\<And>r. ss_revoked_at r \<noteq> None \<Longrightarrow> ss_revoked_at (f r) \<noteq> None" and "revoked_session h s"
  shows "revoked_session h (s\<lparr>sessions := update_where p f (sessions s)\<rparr>)"
  using assms by (auto simp: revoked_session_iff set_update_where) blast

lemma revoked_upsertIdentity:
  "preserves (revoked_session h) (upsertIdentity sha clk identity t roles)"
proof -
  have dep: "revoked_session h (s\<lparr>transactionDepth := n\<rparr>) = revoked_session h s" for s :: store and n
    by (simp add: revoked_session_def)
  have "preserves (revoked_session h) (ensureTenant now i name)"
    "preserves (revoked_session h) (upsert_user_row row)"
    "preserves (revoked_session h) (insert_membership mrow)"
    "preserves (revoked_session h) (grant_admin now t u)" for now i name row mrow t u
    by (auto simp: preserves_def ensureTenant_def upsert_user_row_def insert_membership_def
        grant_admin_def revoked_session_def effect_simps bindE_def split: option.splits)
  then show ?thesis unfolding upsertIdentity_def Let_def
    by (intro preserves_intros preserves_transaction) (simp_all add: dep)
qed

lemma sqlite_auth_step:
  assumes "auth_step (sqlite_auth sha) s s'" and "db_ok s"
  shows "db_ok s' \<and> (revoked_session h s \<longrightarrow> revoked_session h s')"
  using assms(1)
proof cases
  case (login clk identity t roles r1)
  then show ?thesis using assms(2) preservesD [OF db_ok_upsertIdentity] preservesD [OF revoked_upsertIdentity]
    unfolding sqlite_auth_def auth_repository.simps by blast
next
  case (create now input r2)
  have rv: "preserves (revoked_session h) (createSession now input)"
    by (simp add: preserves_def createSession_def revoked_session_def)
  with create show ?thesis using assms(2) preservesD [OF db_ok_createSession] preservesD [OF rv]
    unfolding sqlite_auth_def auth_repository.simps by blast
next
  case (authenticate clk g r3)
  have rv: "preserves (revoked_session h) (authenticateSession clk g)"
    unfolding authenticateSession_def
    by (intro preserves_intros preserves_modifyE revoked_update) simp_all
  with authenticate show ?thesis using assms(2) preservesD [OF db_ok_authenticateSession] preservesD [OF rv]
    unfolding sqlite_auth_def auth_repository.simps by blast
next
  case (revoke now i t r2)
  have rv: "preserves (revoked_session h) (revokeSession now i t)"
    unfolding revokeSession_def by (intro preserves_modifyE revoked_update) simp_all
  with revoke show ?thesis using assms(2) preservesD [OF db_ok_revokeSession] preservesD [OF rv]
    unfolding sqlite_auth_def auth_repository.simps by blast
qed

lemma createSession_live:
  assumes "db_ok s" and "createSession created input s = (Inr (), s')"
    and "live_session now (ns_tokenHash input) s' = Some a"
  shows "sa_csrfHash a = ns_csrfHash input \<and> sa_expiresAt a = ns_expiresAt input \<and>
      prin_userId (sa_principal a) = ns_userId input \<and> prin_tenantId (sa_principal a) = ns_tenantId input \<and>
      prin_sessionId (sa_principal a) = ns_id input"
proof -
  obtain r m where r: "find_session (nowIso now) (ns_tokenHash input) s' = Some (r, m)"
    and a: "a = authentication_of (r, m)" using assms(3) by (auto simp: live_session_def)
  from assms(2) have "ns_tokenHash input \<notin> ss_token_hash ` set (sessions s)"
    by (simp add: createSession_def table_simps split: if_splits)
  moreover have "r \<in> set (sessions s')" "ss_token_hash r = ns_tokenHash input"
    using find_session_Some [OF r] by simp_all
  moreover from calculation have "r \<notin> set (sessions s)" by (metis imageI)
  ultimately show ?thesis using assms(2) a
    by (auto simp: createSession_def authentication_of_def Let_def split: if_splits)
qed

lemma live_session_Some:
  assumes "live_session now h s = Some a"
  obtains r m where "r \<in> set (sessions s)" "ss_token_hash r = h" "ss_revoked_at r = None"
    "nowIso now < ss_expires_at r" "find_member (ss_tenant_id r) (ss_user_id r) s = Some m"
    "a = authentication_of (r, m)"
proof -
  obtain r m where r: "find_session (nowIso now) h s = Some (r, m)" and a: "a = authentication_of (r, m)"
    using assms by (auto simp: live_session_def)
  show thesis by (rule that [OF find_session_Some [OF r] a])
qed

interpretation sqlite_sessions: session_repository "sqlite_auth sha" live_session revoked_session db_ok
proof
  fix clk h now h' and s :: store
  show "fst (auth_authenticateSession (sqlite_auth sha) clk h s) = Inr (live_session (clk 0) h s)"
    by (auto simp: sqlite_auth_def authenticateSession_def live_session_def bindE_def effect_simps
        split: option.splits)
  show "live_session now h' (snd (auth_authenticateSession (sqlite_auth sha) clk h s)) =
      live_session now h' s"
    by (auto simp: sqlite_auth_def authenticateSession_def bindE_def effect_simps split: option.splits)
next
  fix s s' :: store and h assume "auth_step (sqlite_auth sha) s s'" "db_ok s"
  from sqlite_auth_step [OF this, of h]
  show "db_ok s'" and "revoked_session h s \<Longrightarrow> revoked_session h s'" by blast+
next
  fix s s' :: store and created input now a
  assume "db_ok s" "auth_createSession (sqlite_auth sha) created input s = (Inr (), s')"
    "live_session now (ns_tokenHash input) s' = Some a"
  then show "sa_csrfHash a = ns_csrfHash input \<and> sa_expiresAt a = ns_expiresAt input \<and>
      prin_userId (sa_principal a) = ns_userId input \<and> prin_tenantId (sa_principal a) = ns_tenantId input \<and>
      prin_sessionId (sa_principal a) = ns_id input"
    using createSession_live by (simp add: sqlite_auth_def)
next
  fix s :: store and now h a later
  assume ok: "db_ok s" and l: "live_session now h s = Some a" and e: "nowIso later < sa_expiresAt a"
  have u: "unique_on ss_token_hash (sessions s)" using ok by (simp add: db_ok_def keys_ok_def)
  from l show "live_session later h s = Some a"
    by (rule live_session_Some)
      (use e find_session_unique [OF u] in \<open>force simp: live_session_def authentication_of_def Let_def\<close>)
next
  fix now h a and s :: store assume "live_session now h s = Some a"
  then show "nowIso now < sa_expiresAt a"
    by (rule live_session_Some) (simp add: authentication_of_def Let_def)
next
  fix now h a r res and s s' :: store
  assume l: "live_session now h s = Some a" and rv: "auth_revokeSession (sqlite_auth sha) r
    (prin_sessionId (sa_principal a)) (prin_tenantId (sa_principal a)) s = (res, s')"
  from l obtain q m where q: "q \<in> set (sessions s)" "ss_token_hash q = h"
    and a: "a = authentication_of (q, m)" by (rule live_session_Some)
  have s': "s' = s\<lparr>sessions := update_where (\<lambda>x. ss_id x = ss_id q \<and> ss_tenant_id x = ss_tenant_id q)
      (\<lambda>x. x\<lparr>ss_revoked_at := Some (nowIso r)\<rparr>) (sessions s)\<rparr>"
    using rv a by (simp add: sqlite_auth_def revokeSession_def effect_simps authentication_of_def)
  show "revoked_session h s'"
    unfolding revoked_session_iff s' using q
    by (intro bexI [of _ "q\<lparr>ss_revoked_at := Some (nowIso r)\<rparr>"]) (simp_all add: set_update_where)
next
  fix s :: store and h now assume ok: "db_ok s" and rv: "revoked_session h s"
  show "live_session now h s = None"
  proof (rule ccontr)
    assume "live_session now h s \<noteq> None"
    then obtain a where "live_session now h s = Some a" by blast
    then show False
      by (rule live_session_Some) (use ok rv unique_onD [of ss_token_hash "sessions s"]
        in \<open>force simp: db_ok_def keys_ok_def revoked_session_iff\<close>)
  qed
qed

section \<open>Properties\<close>

text \<open>C23. A session that was issued authenticates as its principal, with its CSRF token and nothing
  but that token verifying, exactly until the end it was issued with.\<close>

theorem session_lifecycle:
  assumes "db_ok s" and "token \<noteq> []"
    and "issue (sqlite_auth sha) sha ttl clk token csrf uuid identity t roles s = (Inr issued, s')"
  shows "iss_expiresAt issued = toISOString (clk 0 + ttl * 1000) \<and>
    fst (authenticate (sqlite_auth sha) sha later (Some token) s') =
      Inr (if nowIso (later 0) < iss_expiresAt issued
        then Some \<lparr>sa_principal = iss_principal issued, sa_csrfHash = sha csrf,
          sa_expiresAt = iss_expiresAt issued\<rparr> else None) \<and>
    (verifyCsrf sha \<lparr>sa_principal = iss_principal issued, sa_csrfHash = sha csrf,
        sa_expiresAt = iss_expiresAt issued\<rparr> provided
      \<longleftrightarrow> (\<exists>p. provided = Some p \<and> p \<noteq> [] \<and> sha p = sha csrf))"
proof -
  from sqlite_sessions.issued_live [OF assms(1,3)]
  have "iss_token issued = token" "iss_csrfToken issued = csrf"
    "iss_expiresAt issued = toISOString (clk 0 + ttl * 1000)" by blast+
  then show ?thesis
    using sqlite_sessions.issue_authenticate [OF assms(1,3,2), of later]
    by (auto simp: verifyCsrf_def hashSecret_def truthy_iff Let_def)
qed

text \<open>C24. Once the session a token stands for is revoked, no sequence of calls of the repository makes
  that token authenticate again.\<close>

theorem revoked_session_dead:
  assumes "db_ok s" and "authenticate (sqlite_auth sha) sha clk (Some token) s = (Inr (Some a), s1)"
    and "revoke (sqlite_auth sha) now (sa_principal a) s1 = (res, s2)"
    and "(auth_step (sqlite_auth sha))\<^sup>*\<^sup>* s2 s3"
  shows "fst (authenticate (sqlite_auth sha) sha later (Some token) s3) = Inr None"
  using assms by (rule sqlite_sessions.revoked_for_good)

lemma insert_membership_find:
  assumes "insert_membership row s = (Inr (), s')"
  shows "find_member t u s' = (case find_member t u s of Some m \<Rightarrow> Some m
    | None \<Rightarrow> if member_key row = (t, u) then Some row else None)"
proof (cases "exists_row (\<lambda>r. member_key r = member_key row) (memberships s)")
  case True
  then show ?thesis using assms
    by (auto simp: insert_membership_def find_member_def exists_row_iff select_first_None split: option.splits)
next
  case False
  then show ?thesis using assms
    by (auto simp: insert_membership_def find_member_def select_first_append1 split: if_splits option.splits)
qed

lemma grant_admin_find:
  assumes "grant_admin now t u s = (Inr (), s')"
  shows "\<exists>m. find_member t u s = Some m \<and> find_member t' u' s' =
    (if (t', u') = (t, u) then Some (m\<lparr>mb_roles := add_role platform_admin (mb_roles m),
       mb_updated_at := nowIso now\<rparr>) else find_member t' u' s)"
proof -
  obtain m where m: "find_member t u s = Some m" and s': "s' = s\<lparr>memberships := update_where
      (\<lambda>r. member_key r = (t, u)) (\<lambda>r. r\<lparr>mb_roles := add_role platform_admin (mb_roles m),
        mb_updated_at := nowIso now\<rparr>) (memberships s)\<rparr>"
    using assms by (auto simp: grant_admin_def bindE_Inr_iff effect_simps split: option.splits)
  show ?thesis
    using m unfolding s'
    by (auto simp: find_member_def select_first_update_where map_option_case dest: select_first_Some
        split: option.splits)
qed

definition login_roles :: "Role list \<Rightarrow> membership_row option \<Rightarrow> Role list" where
  "login_roles roles found = (let old = (case found of None \<Rightarrow> roles | Some m \<Rightarrow> mb_roles m) in
     if platform_admin \<in> set roles then add_role platform_admin old else old)"

lemma upsertIdentity_member:
  assumes "upsertIdentity sha clk identity t roles s = (Inr u, s')"
  shows "u = identity_id sha identity \<and> (\<exists>m. find_member t u s' = Some m \<and>
      mb_roles m = login_roles roles (find_member t u s) \<and>
      mb_organization_ids m = (case find_member t u s of None \<Rightarrow> [] | Some m0 \<Rightarrow> mb_organization_ids m0)) \<and>
    (\<forall>t' u'. (t', u') \<noteq> (t, u) \<longrightarrow> find_member t' u' s' = find_member t' u' s)"
proof -
  let ?u = "identity_id sha identity"
  let ?row = "\<lparr>mb_tenant_id = t, mb_user_id = ?u, mb_roles = roles, mb_organization_ids = [],
    mb_created_at = nowIso (clk 0), mb_updated_at = nowIso (clk 0)\<rparr>"
  have dep: "find_member a b (q\<lparr>transactionDepth := d\<rparr>) = find_member a b q" for a b d and q :: store
    by (simp add: find_member_def)
  from assms obtain v where u: "u = ?u" and tx: "transaction (bindE (ensureTenant (clk 1) t t) (\<lambda>_.
      bindE (upsert_user_row \<lparr>us_id = ?u, us_issuer = oid_issuer identity,
            us_subject = oid_subject identity, us_email = oid_email identity,
            us_display_name = oid_displayName identity, us_created_at = nowIso (clk 0),
            us_updated_at = nowIso (clk 0)\<rparr>) (\<lambda>_. bindE (insert_membership ?row) (\<lambda>_.
         if platform_admin \<in> set roles then grant_admin (clk 0) t ?u else retE ())))) s = (Inr v, s')"
    unfolding upsertIdentity_def Let_def by (auto simp: bindE_Inr_iff effect_simps simp del: One_nat_def)
  from tx obtain n k w where "s' = w\<lparr>transactionDepth := k\<rparr>" and run: "(bindE (ensureTenant (clk 1) t t) (\<lambda>_.
      bindE (upsert_user_row \<lparr>us_id = ?u, us_issuer = oid_issuer identity,
            us_subject = oid_subject identity, us_email = oid_email identity,
            us_display_name = oid_displayName identity, us_created_at = nowIso (clk 0),
            us_updated_at = nowIso (clk 0)\<rparr>) (\<lambda>_. bindE (insert_membership ?row) (\<lambda>_.
         if platform_admin \<in> set roles then grant_admin (clk 0) t ?u else retE ()))))
        (s\<lparr>transactionDepth := n\<rparr>) = (Inr v, w)"
    by (rule transaction_returns)
  moreover from run obtain s1 s2 s3 where
      e: "ensureTenant (clk 1) t t (s\<lparr>transactionDepth := n\<rparr>) = (Inr (), s1)"
    and uu: "upsert_user_row \<lparr>us_id = ?u, us_issuer = oid_issuer identity,
            us_subject = oid_subject identity, us_email = oid_email identity,
            us_display_name = oid_displayName identity, us_created_at = nowIso (clk 0),
            us_updated_at = nowIso (clk 0)\<rparr> s1 = (Inr (), s2)"
    and im: "insert_membership ?row s2 = (Inr (), s3)"
    and g: "(if platform_admin \<in> set roles then grant_admin (clk 0) t ?u else retE ()) s3 = (Inr (), w)"
    by (auto simp: bindE_Inr_iff simp del: One_nat_def)
  have "memberships s2 = memberships s"
    using e uu by (auto simp: ensureTenant_def upsert_user_row_def effect_simps split: if_splits)
  then have fm: "find_member a b s2 = find_member a b s" for a b by (simp add: find_member_def)
  have f3: "find_member a b s3 = (case find_member a b s of Some m \<Rightarrow> Some m
      | None \<Rightarrow> if (t, ?u) = (a, b) then Some ?row else None)" for a b
    using insert_membership_find [OF im, of a b] unfolding fm by (auto simp: member_key_def split: option.splits)
  show ?thesis
  proof (cases "platform_admin \<in> set roles")
    case True
    then have ga: "grant_admin (clk 0) t ?u s3 = (Inr (), w)" using g by simp
    show ?thesis using grant_admin_find [OF ga, of t ?u] grant_admin_find [OF ga] True u calculation(1) f3
      by (auto simp: dep login_roles_def Let_def split: option.splits)
  next
    case False
    then show ?thesis using g u calculation(1) f3
      by (auto simp: dep login_roles_def Let_def effect_simps split: option.splits)
  qed
qed

text \<open>A login keeps the roles and organizations a member has, starts a new member as a student
  without organizations, adds the administrator role exactly when the identity provider verified an
  address of the configured list, and changes no other membership.\<close>

lemma login_keeps_roles:
  assumes "upsertIdentity sha clk identity t (initialRolesForIdentity email admins) s = (Inr u, s')"
  shows "\<exists>m. find_member t u s' = Some m \<and>
    set (mb_roles m) = (case find_member t u s of None \<Rightarrow> {} | Some m0 \<Rightarrow> set (mb_roles m0)) \<union>
      (if \<exists>e. email = Some e \<and> e \<noteq> [] \<and> toLowerCase (trim e) \<in> set admins then {platform_admin}
       else if find_member t u s = None then {student} else {}) \<and>
    mb_organization_ids m = (case find_member t u s of None \<Rightarrow> [] | Some m0 \<Rightarrow> mb_organization_ids m0) \<and>
    (\<forall>t' u'. (t', u') = (t, u) \<or> find_member t' u' s' = find_member t' u' s)"
proof -
  have add: "set (add_role r rs) = insert r (set rs)" for r rs by (auto simp: add_role_def Let_def)
  let ?listed = "\<exists>e. email = Some e \<and> e \<noteq> [] \<and> toLowerCase (trim e) \<in> set admins"
  have roles: "initialRolesForIdentity email admins = (if ?listed then [platform_admin] else [student])"
    by (cases email) (auto simp: initialRolesForIdentity_def)
  have "set (login_roles (initialRolesForIdentity email admins) found) =
      (case found of None \<Rightarrow> {} | Some m0 \<Rightarrow> set (mb_roles m0)) \<union>
      (if ?listed then {platform_admin} else if found = None then {student} else {})" for found
    unfolding roles by (auto simp: login_roles_def Let_def add split: option.splits)
  then show ?thesis using upsertIdentity_member [OF assms] by metis
qed

section \<open>A concrete login\<close>

definition demo_identity :: OidcIdentity where
  "demo_identity = \<lparr>oid_issuer = ''i'', oid_subject = ''a'', oid_email = None, oid_displayName = None\<rparr>"

definition demo_user :: user_row where
  "demo_user = \<lparr>us_id = ''usr_i:a'', us_issuer = ''i'', us_subject = ''a'', us_email = None,
     us_display_name = None, us_created_at = nowIso 0, us_updated_at = nowIso 0\<rparr>"

definition demo_member :: membership_row where
  "demo_member = \<lparr>mb_tenant_id = ''t'', mb_user_id = ''usr_i:a'', mb_roles = [student],
     mb_organization_ids = [], mb_created_at = nowIso 0, mb_updated_at = nowIso 0\<rparr>"

definition demo_session :: session_row where
  "demo_session = \<lparr>ss_id = ''ses_u'', ss_tenant_id = ''t'', ss_user_id = ''usr_i:a'',
     ss_token_hash = ''tok'', ss_csrf_hash = ''csrf'', ss_expires_at = toISOString 60000,
     ss_revoked_at = None, ss_created_at = nowIso 0, ss_last_seen_at = nowIso 0\<rparr>"

definition demo_account :: store where
  "demo_account = (new_Store 0 ''t'')\<lparr>users := [demo_user], memberships := [demo_member]\<rparr>"

lemmas demo_account_defs = demo_account_def new_Store_def ensureTenant_def modifyE_def db.defs
  store.defs empty_db_def exists_row_def demo_user_def demo_member_def demo_session_def

lemma new_Store_ok: "db_ok (new_Store now t)"
  by (simp add: db_ok_defs new_Store_def ensureTenant_def modifyE_def db.defs store.defs empty_db_def
      exists_row_def unique_on_def)

lemma demo_account_ok: "db_ok (demo_account\<lparr>sessions := [demo_session]\<rparr>)"
  by (simp add: db_ok_defs demo_account_defs unique_on_def user_key_def member_key_def)

lemma demo_upsertIdentity:
  "upsertIdentity id (\<lambda>_. 0) demo_identity ''t'' [student] (new_Store 0 ''t'') = (Inr ''usr_i:a'', demo_account)"
  by (simp add: upsertIdentity_def Let_def demo_identity_def identity_id_def stableId_def demo_account_defs
      bindE_def retE_def transaction_def upsert_user_row_def insert_membership_def)

lemma demo_createSession:
  "createSession 0 \<lparr>ns_id = ''ses_u'', ns_tenantId = ''t'', ns_userId = ''usr_i:a'', ns_tokenHash = ''tok'',
     ns_csrfHash = ''csrf'', ns_expiresAt = toISOString 60000\<rparr> demo_account =
   (Inr (), demo_account\<lparr>sessions := [demo_session]\<rparr>)"
  by (simp add: createSession_def demo_account_defs)

lemma demo_find_session:
  "find_session (toISOString 0) ''tok'' (demo_account\<lparr>sessions := [demo_session]\<rparr>) = Some (demo_session, demo_member)"
  by (simp add: find_session_def find_member_def select_first_def member_key_def demo_account_defs iso_range_def)

lemma demo_authenticate:
  "authenticate (sqlite_auth id) id (\<lambda>_. 0) (Some ''tok'') (demo_account\<lparr>sessions := [demo_session]\<rparr>) =
     (Inr (Some (authentication_of (demo_session, demo_member))), demo_account\<lparr>sessions := [demo_session]\<rparr>)"
  by (simp add: authenticate_def sqlite_auth_def hashSecret_def authenticateSession_def bindE_def effect_simps
      nowIso_def demo_find_session) (simp add: update_where_def demo_session_def nowIso_def)

lemma demo_issue:
  "issue (sqlite_auth id) id 60 (\<lambda>_. 0) ''tok'' ''csrf'' ''u'' demo_identity ''t'' [student] (new_Store 0 ''t'') =
     (Inr \<lparr>iss_token = ''tok'', iss_csrfToken = ''csrf'', iss_expiresAt = toISOString 60000,
        iss_principal = sa_principal (authentication_of (demo_session, demo_member))\<rparr>,
      demo_account\<lparr>sessions := [demo_session]\<rparr>)"
  using demo_authenticate
  by (simp add: issue_def Let_def bindE_def demo_upsertIdentity demo_createSession sqlite_auth_def uid_def hashSecret_def
      authenticate_def retE_def)

theorem session_lifecycle_witness:
  "fst (authenticate (sqlite_auth id) id (\<lambda>_. 59999) (Some ''tok'') (demo_account\<lparr>sessions := [demo_session]\<rparr>)) =
     Inr (Some (authentication_of (demo_session, demo_member))) \<and>
   fst (authenticate (sqlite_auth id) id (\<lambda>_. 60000) (Some ''tok'') (demo_account\<lparr>sessions := [demo_session]\<rparr>)) =
     Inr None"
proof -
  note life = session_lifecycle [OF new_Store_ok _ demo_issue, simplified]
  show ?thesis using life [of "\<lambda>_. 59999"] life [of "\<lambda>_. 60000"]
    by (simp add: nowIso_def iso_range_def authentication_of_def Let_def demo_session_def)
qed

theorem revoked_session_dead_witness:
  "fst (authenticate (sqlite_auth id) id (\<lambda>_. 0) (Some ''tok'')
     (snd (revoke (sqlite_auth id) 0 (sa_principal (authentication_of (demo_session, demo_member)))
       (demo_account\<lparr>sessions := [demo_session]\<rparr>)))) = Inr None"
  by (rule revoked_session_dead [OF demo_account_ok demo_authenticate _ rtranclp.rtrancl_refl])
    (simp add: revoke_def sqlite_auth_def revokeSession_def effect_simps)

lemma login_keeps_roles_witness:
  "\<exists>m. find_member ''t'' ''usr_i:a'' demo_account = Some m \<and> set (mb_roles m) = {student}"
proof -
  have "upsertIdentity id (\<lambda>_. 0) demo_identity ''t'' (initialRolesForIdentity None []) (new_Store 0 ''t'')
      = (Inr ''usr_i:a'', demo_account)"
    using demo_upsertIdentity by (simp add: initialRolesForIdentity_def)
  moreover have "find_member ''t'' ''usr_i:a'' (new_Store 0 ''t'') = None"
    by (simp add: find_member_def select_first_def demo_account_defs)
  ultimately show ?thesis using login_keeps_roles [of id "\<lambda>_. 0" demo_identity "''t''" None "[]"] by fastforce
qed

end
