(* ===== verification/Privacy.thy ===== *)
theory Privacy
  imports Auth
begin

text \<open>
  Export and erasure of an account, src/src/infrastructure/privacy/sqlite-privacy-repository.ts with
  the port src/src/application/ports/privacy-repository.ts. A deleted row takes with it the rows that
  refer to it by a foreign key with \<open>on delete cascade\<close>; the count that a statement returns is that
  of the rows of its own table.
\<close>

section \<open>The export\<close>

record ExportedIdentity =
  xi_id :: string
  xi_issuer :: string
  xi_subject :: string
  xi_email :: "string option"
  xi_displayName :: "string option"
  xi_createdAt :: string

record ExportedMembership =
  xm_tenantId :: string
  xm_roles :: "Role list"
  xm_organizationIds :: "string list"
  xm_createdAt :: string

record ExportedConnector =
  xc_provider :: string
  xc_scopes :: "string list"
  xc_expiresAt :: "string option"
  xc_revokedAt :: "string option"
  xc_createdAt :: string

record ExportedContribution =
  xn_sourceVersionId :: string
  xn_organizationId :: string
  xn_sourceType :: SourceType
  xn_title :: "string option"
  xn_url :: "string option"
  xn_publishedAt :: "string option"
  xn_fetchedAt :: string
  xn_status :: SourceVersionStatus
  xn_shared :: bool

record ExportedActivity =
  xa_action :: string
  xa_resourceType :: string
  xa_resourceId :: "string option"
  xa_createdAt :: string

record AccountDataExport =
  exp_generatedAt :: string
  exp_identity :: ExportedIdentity
  exp_membership :: ExportedMembership
  exp_connectors :: "ExportedConnector list"
  exp_contributions :: "ExportedContribution list"
  exp_activity :: "ExportedActivity list"

definition private_source :: "SourceType \<Rightarrow> bool" where
  "private_source type = (type \<in> set PRIVATE_SOURCE_TYPES)"

definition exported_connectors :: "string \<Rightarrow> string \<Rightarrow> 'm db_scheme \<Rightarrow> ExportedConnector list" where
  "exported_connectors tenantId userId s =
     map (\<lambda>r. \<lparr>xc_provider = cr_provider r, xc_scopes = cr_scopes r,
         xc_expiresAt = text_or_undefined (cr_expires_at r),
         xc_revokedAt = text_or_undefined (cr_revoked_at r), xc_createdAt = cr_created_at r\<rparr>)
       (order_by cr_provider
         (select_where (\<lambda>r. cr_tenant_id r = tenantId \<and> cr_user_id r = userId) (credentials s)))"

text \<open>The rows of the join of the user's contributions with their versions and sources.\<close>

definition contributor_of :: "string \<Rightarrow> string \<Rightarrow> contributor_row \<Rightarrow> bool" where
  "contributor_of tenantId userId c \<longleftrightarrow> ct_tenant_id c = tenantId \<and> ct_user_id c = userId"

definition contribution_join ::
    "contributor_row list \<Rightarrow> 'm db_scheme \<Rightarrow> (contributor_row \<times> version_row \<times> source_row) list" where
  "contribution_join cs s = concat (map (\<lambda>c. concat (map (\<lambda>v.
      map (\<lambda>r. (c, v, r))
        (select_where (\<lambda>r. sr_id r = sv_source_id v \<and> sr_tenant_id r = sv_tenant_id v) (sources s)))
     (select_where (\<lambda>v. sv_id v = ct_source_version_id c \<and> sv_tenant_id v = ct_tenant_id c)
       (source_versions s)))) cs)"

definition shared_contribution :: "contributor_row \<Rightarrow> 'm db_scheme \<Rightarrow> bool" where
  "shared_contribution c s = exists_row (\<lambda>other. ct_tenant_id other = ct_tenant_id c \<and>
     ct_source_version_id other = ct_source_version_id c \<and> ct_user_id other \<noteq> ct_user_id c)
     (source_version_contributors s)"

definition exported_contribution ::
    "'m db_scheme \<Rightarrow> contributor_row \<times> version_row \<times> source_row \<Rightarrow> ExportedContribution" where
  "exported_contribution s = (\<lambda>(c, v, r).
     \<lparr>xn_sourceVersionId = sv_id v, xn_organizationId = sv_organization_id v,
      xn_sourceType = sr_source_type r,
      xn_title = (if private_source (sr_source_type r) then None else text_or_undefined (sr_title r)),
      xn_url = (if private_source (sr_source_type r) then None else text_or_undefined (sr_url r)),
      xn_publishedAt = text_or_undefined (sv_published_at v), xn_fetchedAt = sv_fetched_at v,
      xn_status = sv_status v, xn_shared = shared_contribution c s\<rparr>)"

definition exported_contributions :: "string \<Rightarrow> string \<Rightarrow> 'm db_scheme \<Rightarrow> ExportedContribution list" where
  "exported_contributions tenantId userId s = map (exported_contribution s)
     (order_by_desc (\<lambda>(c, v, r). ct_created_at c)
       (contribution_join (select_where (contributor_of tenantId userId) (source_version_contributors s)) s))"

definition exported_activity :: "string \<Rightarrow> string \<Rightarrow> 'm db_scheme \<Rightarrow> ExportedActivity list" where
  "exported_activity tenantId userId s =
     map (\<lambda>r. \<lparr>xa_action = au_action r, xa_resourceType = au_resource_type r,
         xa_resourceId = text_or_undefined (au_resource_id r), xa_createdAt = au_created_at r\<rparr>)
       (order_by_desc au_created_at
         (select_where (\<lambda>r. au_tenant_id r = tenantId \<and> au_actor_id r = Some userId) (audit_events s)))"

definition exportAccount ::
    "int \<Rightarrow> string \<Rightarrow> string \<Rightarrow> 'm db_scheme \<Rightarrow> AccountDataExport option" where
  "exportAccount now tenantId userId s =
     (case (select_first (\<lambda>u. us_id u = userId) (users s), find_member tenantId userId s) of
        (Some u, Some m) \<Rightarrow> Some
          \<lparr>exp_generatedAt = nowIso now,
           exp_identity = \<lparr>xi_id = us_id u, xi_issuer = us_issuer u, xi_subject = us_subject u,
             xi_email = text_or_undefined (us_email u),
             xi_displayName = text_or_undefined (us_display_name u), xi_createdAt = us_created_at u\<rparr>,
           exp_membership = \<lparr>xm_tenantId = tenantId, xm_roles = mb_roles m,
             xm_organizationIds = mb_organization_ids m, xm_createdAt = mb_created_at m\<rparr>,
           exp_connectors = exported_connectors tenantId userId s,
           exp_contributions = exported_contributions tenantId userId s,
           exp_activity = exported_activity tenantId userId s\<rparr>
      | _ \<Rightarrow> None)"

section \<open>The statements of the erasure\<close>

record AccountErasureResult =
  er_membershipDeleted :: bool
  er_identityDeleted :: bool
  er_credentialsDeleted :: nat
  er_sessionsDeleted :: nat
  er_jobsDeleted :: nat
  er_connectorStatesDeleted :: nat
  er_contributionsRemoved :: nat
  er_privateSourceVersionsDeleted :: nat
  er_claimsDeleted :: nat
  er_affectedOrganizationIds :: "string list"
  er_reconciliationJobIds :: "string list"

definition emptyErasure :: AccountErasureResult where
  "emptyErasure = \<lparr>er_membershipDeleted = False, er_identityDeleted = False, er_credentialsDeleted = 0,
     er_sessionsDeleted = 0, er_jobsDeleted = 0, er_connectorStatesDeleted = 0,
     er_contributionsRemoved = 0, er_privateSourceVersionsDeleted = 0, er_claimsDeleted = 0,
     er_affectedOrganizationIds = [], er_reconciliationJobIds = []\<rparr>"

definition delete_contributions :: "string \<Rightarrow> string \<Rightarrow> nat store_op" where
  "delete_contributions t u s =
     (Inr (count_where (contributor_of t u) (source_version_contributors s)),
      s\<lparr>source_version_contributors := delete_where (contributor_of t u) (source_version_contributors s)\<rparr>)"

definition contributed :: "string \<Rightarrow> string \<Rightarrow> 'm db_scheme \<Rightarrow> (string \<times> string \<times> SourceType) list" where
  "contributed t u s = dedup (map (\<lambda>(c, v, r). (sv_id v, sv_organization_id v, sr_source_type r))
     (contribution_join (select_where (contributor_of t u) (source_version_contributors s)) s))"

definition orphaned ::
    "string \<Rightarrow> (string \<times> string \<times> SourceType) list \<Rightarrow> 'm db_scheme \<Rightarrow> (string \<times> string \<times> SourceType) list" where
  "orphaned t rows s = filter (\<lambda>(i, _, type). private_source type \<and>
     \<not> exists_row (\<lambda>c. ct_tenant_id c = t \<and> ct_source_version_id c = i) (source_version_contributors s)) rows"

definition delete_version_claims :: "string \<Rightarrow> string \<Rightarrow> nat store_op" where
  "delete_version_claims t v s =
     (let p = (\<lambda>r. cl_tenant_id r = t \<and> cl_source_version_id r = v) in
      (Inr (count_where p (claims s)), s\<lparr>claims := delete_where p (claims s)\<rparr>))"

definition delete_versions :: "(version_row \<Rightarrow> bool) \<Rightarrow> nat store_op" where
  "delete_versions p s =
     (let gone = sv_id ` set (select_where p (source_versions s)) in
      (Inr (count_where p (source_versions s)),
       s\<lparr>source_versions := delete_where p (source_versions s),
         claims := delete_where (\<lambda>r. cl_source_version_id r \<in> gone) (claims s),
         source_version_contributors := delete_where (\<lambda>r. ct_source_version_id r \<in> gone)
           (source_version_contributors s)\<rparr>))"

fun delete_orphans :: "string \<Rightarrow> (string \<times> string \<times> SourceType) list \<Rightarrow> (nat \<times> nat) store_op" where
  "delete_orphans t [] = retE (0, 0)"
| "delete_orphans t ((v, _, _) # rows) =
     bindE (delete_version_claims t v) (\<lambda>c.
     bindE (delete_versions (\<lambda>r. sv_tenant_id r = t \<and> sv_id r = v)) (\<lambda>n.
     bindE (delete_orphans t rows) (\<lambda>(cs, ns). retE (c + cs, n + ns))))"

text \<open>A source without versions has no row that refers to it.\<close>

definition delete_empty_sources :: "string \<Rightarrow> unit store_op" where
  "delete_empty_sources t = modifyE (\<lambda>s. s\<lparr>sources := delete_where (\<lambda>r. sr_tenant_id r = t \<and>
     \<not> exists_row (\<lambda>v. sv_source_id v = sr_id r) (source_versions s)) (sources s)\<rparr>)"

definition delete_credentials :: "string \<Rightarrow> string \<Rightarrow> nat store_op" where
  "delete_credentials t u s =
     (let p = (\<lambda>r. cr_tenant_id r = t \<and> cr_user_id r = u) in
      (Inr (count_where p (credentials s)), s\<lparr>credentials := delete_where p (credentials s)\<rparr>))"

definition delete_sessions :: "string \<Rightarrow> string \<Rightarrow> nat store_op" where
  "delete_sessions t u s =
     (let p = (\<lambda>r. ss_tenant_id r = t \<and> ss_user_id r = u) in
      (Inr (count_where p (sessions s)), s\<lparr>sessions := delete_where p (sessions s)\<rparr>))"

definition delete_job :: "string \<Rightarrow> string \<Rightarrow> nat store_op" where
  "delete_job t i s =
     (let p = (\<lambda>r. jb_tenant_id r = t \<and> jb_id r = i) in
      (Inr (count_where p (jobs s)), s\<lparr>jobs := delete_where p (jobs s)\<rparr>))"

definition delete_jobs :: "string \<Rightarrow> string \<Rightarrow> nat store_op" where
  "delete_jobs t u =
     bindE (getE (\<lambda>s. select_where (\<lambda>r. jb_tenant_id r = t) (jobs s))) (\<lambda>rows.
       sumE (\<lambda>row. if json_get (jb_payload row) ''userId'' = Some (JStr u)
               then delete_job t (jb_id row) else retE 0) rows)"

text \<open>SQLite's \<open>like\<close>: \<open>%\<close> stands for any text, \<open>_\<close> for any character, letters match in either
  case.\<close>

fun like :: "string \<Rightarrow> string \<Rightarrow> bool" where
  "like [] s = (s = [])"
| "like (c # p) [] = (c = CHR ''%'' \<and> like p [])"
| "like (c # p) (x # s) =
     (if c = CHR ''%'' then like p (x # s) \<or> like (c # p) s
      else (c = CHR ''_'' \<or> to_lower_char c = to_lower_char x) \<and> like p s)"

lemma like_percent: "like p s \<Longrightarrow> like (CHR ''%'' # p) s"
  by (cases s) auto

lemma like_prefix: "like (u @ ''%'') (u @ x)"
proof (induction u)
  case Nil
  have "like ''%'' x" by (induction x) auto
  then show ?case by simp
next
  case (Cons c u)
  then show ?case using like_percent by (cases "c = CHR ''%''") auto
qed

lemma like_scope: "starts_with s (u @ '':'') \<Longrightarrow> like (u @ '':%'') s"
  using like_prefix [of "u @ '':''"] by (auto simp: starts_with_iff)

definition delete_connector_states :: "string \<Rightarrow> string \<Rightarrow> nat store_op" where
  "delete_connector_states t u s =
     (let p = (\<lambda>r. cs_tenant_id r = t \<and> (cs_scope r = u \<or> like (u @ '':%'') (cs_scope r))) in
      (Inr (count_where p (connector_state s)),
       s\<lparr>connector_state := delete_where p (connector_state s)\<rparr>))"

definition clear_audit_actor :: "string \<Rightarrow> string \<Rightarrow> unit store_op" where
  "clear_audit_actor t u = modifyE (\<lambda>s. s\<lparr>audit_events := update_where
     (\<lambda>r. au_tenant_id r = t \<and> au_actor_id r = Some u) (\<lambda>r. r\<lparr>au_actor_id := None\<rparr>) (audit_events s)\<rparr>)"

text \<open>The column \<open>opportunity_overrides.actor_id\<close> is declared \<open>not null\<close>.\<close>

definition clear_override_actor :: "string \<Rightarrow> string \<Rightarrow> unit store_op" where
  "clear_override_actor t u = guardE
     (\<lambda>s. \<not> exists_row (\<lambda>r. ov_tenant_id r = t \<and> ov_actor_id r = u) (opportunity_overrides s))
     (SqlError (NotNullViolation ''opportunity_overrides.actor_id''))"

definition delete_memberships :: "(membership_row \<Rightarrow> bool) \<Rightarrow> nat store_op" where
  "delete_memberships p s =
     (let gone = member_key ` set (select_where p (memberships s)) in
      (Inr (count_where p (memberships s)),
       s\<lparr>memberships := delete_where p (memberships s),
         connector_state := delete_where (\<lambda>r. case cs_owner_user_id r of None \<Rightarrow> False
           | Some u \<Rightarrow> (cs_tenant_id r, u) \<in> gone) (connector_state s),
         source_version_contributors := delete_where (\<lambda>r. contributor_member r \<in> gone)
           (source_version_contributors s)\<rparr>))"

definition delete_user :: "string \<Rightarrow> nat store_op" where
  "delete_user u =
     bindE (getE (\<lambda>s. count_where (\<lambda>r. us_id r = u) (users s))) (\<lambda>n.
     bindE (delete_memberships (\<lambda>r. mb_user_id r = u)) (\<lambda>_.
     bindE (modifyE (\<lambda>s. s\<lparr>users := delete_where (\<lambda>r. us_id r = u) (users s),
         sessions := delete_where (\<lambda>r. ss_user_id r = u) (sessions s),
         credentials := delete_where (\<lambda>r. cr_user_id r = u) (credentials s)\<rparr>)) (\<lambda>_.
       retE n)))"

definition delete_identity :: "string \<Rightarrow> bool store_op" where
  "delete_identity u =
     bindE (getE (\<lambda>s. exists_row (\<lambda>r. mb_user_id r = u) (memberships s))) (\<lambda>hasMembership.
       if hasMembership then retE False else bindE (delete_user u) (\<lambda>n. retE (n = 1)))"

definition insert_job_row :: "job_row \<Rightarrow> unit store_op" where
  "insert_job_row row s =
     (if exists_row (\<lambda>r. jb_id r = jb_id row) (jobs s) then
        (Inl (SqlError (UniqueViolation ''jobs.id'')), s)
      else if exists_row (\<lambda>r. job_key r = job_key row) (jobs s) then
        (Inl (SqlError (UniqueViolation ''jobs.tenant_id, jobs.type, jobs.idempotency_key'')), s)
      else if \<not> tenant_exists (jb_tenant_id row) s then
        (Inl (SqlError (ForeignKeyViolation ''jobs'')), s)
      else (Inr (), s\<lparr>jobs := jobs s @ [row]\<rparr>))"

definition reconcile_row ::
    "(string \<Rightarrow> string) \<Rightarrow> string \<Rightarrow> string \<Rightarrow> string \<Rightarrow> string \<Rightarrow> string \<Rightarrow> job_row" where
  "reconcile_row sha t u operationId createdAt organizationId =
     (let idempotencyKey = ''privacy:'' @ u @ '':'' @ operationId @ '':'' @ organizationId in
      \<lparr>jb_id = stableId sha ''job'' (t @ '':privacy.reconcile:'' @ idempotencyKey), jb_tenant_id = t,
       jb_type = ''privacy.reconcile'', jb_idempotency_key = idempotencyKey,
       jb_payload = JObj [(''organizationId'', JStr organizationId)], jb_status = job_queued,
       jb_priority = 10, jb_attempt_count = 0, jb_max_attempts = 5, jb_available_at = createdAt,
       jb_leased_until = None, jb_leased_by = None, jb_last_error = None, jb_created_at = createdAt,
       jb_updated_at = createdAt\<rparr>)"

fun insert_reconciliations ::
    "(string \<Rightarrow> string) \<Rightarrow> string \<Rightarrow> string \<Rightarrow> string \<Rightarrow> string \<Rightarrow> string list \<Rightarrow> string list store_op" where
  "insert_reconciliations sha t u op createdAt [] = retE []"
| "insert_reconciliations sha t u op createdAt (organizationId # os) =
     bindE (insert_job_row (reconcile_row sha t u op createdAt organizationId)) (\<lambda>_.
     bindE (insert_reconciliations sha t u op createdAt os) (\<lambda>ids.
       retE (jb_id (reconcile_row sha t u op createdAt organizationId) # ids)))"

definition erasure_json :: "AccountErasureResult \<Rightarrow> json" where
  "erasure_json r = JObj
     [(''membershipDeleted'', JBool (er_membershipDeleted r)),
      (''identityDeleted'', JBool (er_identityDeleted r)),
      (''credentialsDeleted'', JNum (int (er_credentialsDeleted r))),
      (''sessionsDeleted'', JNum (int (er_sessionsDeleted r))),
      (''jobsDeleted'', JNum (int (er_jobsDeleted r))),
      (''connectorStatesDeleted'', JNum (int (er_connectorStatesDeleted r))),
      (''contributionsRemoved'', JNum (int (er_contributionsRemoved r))),
      (''privateSourceVersionsDeleted'', JNum (int (er_privateSourceVersionsDeleted r))),
      (''claimsDeleted'', JNum (int (er_claimsDeleted r))),
      (''affectedOrganizationIds'', JArr (map JStr (er_affectedOrganizationIds r))),
      (''reconciliationJobIds'', JArr (map JStr (er_reconciliationJobIds r)))]"

definition insert_audit_row :: "audit_row \<Rightarrow> unit store_op" where
  "insert_audit_row row s =
     (if exists_row (\<lambda>r. au_id r = au_id row) (audit_events s) then
        (Inl (SqlError (UniqueViolation ''audit_events.id'')), s)
      else (Inr (), s\<lparr>audit_events := audit_events s @ [row]\<rparr>))"

definition erasure_audit ::
    "(string \<Rightarrow> string) \<Rightarrow> string \<Rightarrow> string \<Rightarrow> string \<Rightarrow> string \<Rightarrow> AccountErasureResult \<Rightarrow> audit_row" where
  "erasure_audit sha t u operationId createdAt result =
     \<lparr>au_id = stableId sha ''aud'' (t @ '':privacy.erase:'' @ u @ '':'' @ operationId), au_tenant_id = t,
      au_actor_id = None, au_action = ''privacy.erase'', au_resource_type = ''account'',
      au_resource_id = None, au_request_id = Some operationId, au_metadata = erasure_json result,
      au_created_at = createdAt\<rparr>"

section \<open>The erasure\<close>

text \<open>The evidence: the contributions go, and with the last contribution to it a private version. The
  result is what was removed, with the orphaned versions.\<close>

definition erase_evidence ::
    "string \<Rightarrow> string \<Rightarrow> (nat \<times> (string \<times> string \<times> SourceType) list \<times> nat \<times> nat) store_op" where
  "erase_evidence t u =
     bindE (getE (contributed t u)) (\<lambda>rows.
     bindE (delete_contributions t u) (\<lambda>contributionsRemoved.
     bindE (getE (orphaned t rows)) (\<lambda>orphans.
     bindE (delete_orphans t orphans) (\<lambda>deleted. retE (contributionsRemoved, orphans, deleted)))))"

definition erase_member ::
    "(string \<Rightarrow> string) \<Rightarrow> int \<Rightarrow> string \<Rightarrow> string \<Rightarrow> string \<Rightarrow> AccountErasureResult store_op" where
  "erase_member sha now t u operationId =
     bindE (erase_evidence t u) (\<lambda>(contributionsRemoved, orphans, claimsDeleted, versionsDeleted).
     bindE (delete_empty_sources t) (\<lambda>_.
     bindE (delete_credentials t u) (\<lambda>credentialsDeleted.
     bindE (delete_sessions t u) (\<lambda>sessionsDeleted.
     bindE (delete_jobs t u) (\<lambda>jobsDeleted.
     bindE (delete_connector_states t u) (\<lambda>statesDeleted.
     bindE (clear_audit_actor t u) (\<lambda>_.
     bindE (clear_override_actor t u) (\<lambda>_.
     bindE (delete_memberships (\<lambda>r. member_key r = (t, u))) (\<lambda>members.
     bindE (delete_identity u) (\<lambda>identityDeleted.
       let affected = dedup (map (\<lambda>(_, organizationId, _). organizationId) orphans) in
     bindE (insert_reconciliations sha t u operationId (nowIso now) affected) (\<lambda>jobIds.
       let result = \<lparr>er_membershipDeleted = (members = 1), er_identityDeleted = identityDeleted,
         er_credentialsDeleted = credentialsDeleted, er_sessionsDeleted = sessionsDeleted,
         er_jobsDeleted = jobsDeleted, er_connectorStatesDeleted = statesDeleted,
         er_contributionsRemoved = contributionsRemoved,
         er_privateSourceVersionsDeleted = versionsDeleted, er_claimsDeleted = claimsDeleted,
         er_affectedOrganizationIds = affected, er_reconciliationJobIds = jobIds\<rparr> in
     bindE (insert_audit_row (erasure_audit sha t u operationId (nowIso now) result)) (\<lambda>_.
       retE result))))))))))))"

definition eraseAccount ::
    "(string \<Rightarrow> string) \<Rightarrow> int \<Rightarrow> string \<Rightarrow> string \<Rightarrow> string \<Rightarrow> AccountErasureResult store_op" where
  "eraseAccount sha now tenantId userId operationId = transaction
     (bindE (getE (membership_exists tenantId userId)) (\<lambda>membership.
        if \<not> membership then retE emptyErasure else erase_member sha now tenantId userId operationId))"

section \<open>Integrity\<close>

lemmas erasure_statements = delete_contributions_def delete_version_claims_def delete_versions_def
  delete_empty_sources_def delete_credentials_def delete_sessions_def delete_job_def
  delete_connector_states_def clear_audit_actor_def delete_memberships_def insert_job_row_def
  insert_audit_row_def

lemma db_ok_delete_versions [preserves_intros]: "preserves db_ok (delete_versions p)"
proof -
  have "db_ok (snd (delete_versions p s))" if ok: "db_ok s" for s
  proof -
    let ?gone = "sv_id ` set (select_where p (source_versions s))"
    have keep: "k ` set (delete_where (\<lambda>c. k c \<in> ?gone) t) \<subseteq> sv_id ` set (delete_where p (source_versions s))"
      if "k ` set t \<subseteq> sv_id ` set (source_versions s)" for k :: "'r \<Rightarrow> string" and t
      using that by (auto simp: set_delete_where set_select_where)
    show ?thesis using ok
      by (simp add: delete_versions_def db_ok_defs Let_def keep delete_rules)
  qed
  then show ?thesis by (simp add: preserves_def)
qed

lemma db_ok_delete_contributions [preserves_intros]: "preserves db_ok (delete_contributions t u)"
  by (simp add: preserves_def delete_contributions_def db_ok_defs delete_rules)

lemma db_ok_delete_version_claims [preserves_intros]: "preserves db_ok (delete_version_claims t v)"
  by (simp add: preserves_def delete_version_claims_def Let_def db_ok_defs delete_rules)

lemma db_ok_delete_orphans [preserves_intros]: "preserves db_ok (delete_orphans t rows)"
  by (induction t rows rule: delete_orphans.induct) (auto intro!: preserves_intros)

lemma db_ok_delete_empty_sources [preserves_intros]: "preserves db_ok (delete_empty_sources t)"
  unfolding delete_empty_sources_def
proof (rule preserves_modifyE)
  fix s :: store assume ok: "db_ok s"
  let ?rest = "delete_where (\<lambda>r. sr_tenant_id r = t \<and>
     \<not> exists_row (\<lambda>v. sv_source_id v = sr_id r) (source_versions s)) (sources s)"
  have "sv_source_id ` set (source_versions s) \<subseteq> sr_id ` set ?rest"
  proof (rule image_subsetI)
    fix v assume v: "v \<in> set (source_versions s)"
    then obtain r where "r \<in> set (sources s)" "sv_source_id v = sr_id r"
      using ok by (auto simp: db_ok_def evidence_refs_ok_def image_subset_iff)
    then show "sv_source_id v \<in> sr_id ` set ?rest"
      using v by (auto simp: set_delete_where exists_row_iff)
  qed
  moreover have "source_org ` set ?rest \<subseteq> org_key ` set (organizations s)"
    using ok by (auto simp: db_ok_def evidence_refs_ok_def set_delete_where)
  ultimately show "db_ok (s\<lparr>sources := ?rest\<rparr>)"
    using ok by (simp add: db_ok_defs unique_on_delete_where)
qed

lemma db_ok_delete_credentials [preserves_intros]: "preserves db_ok (delete_credentials t u)"
  by (simp add: preserves_def delete_credentials_def Let_def db_ok_defs delete_rules)

lemma db_ok_delete_sessions [preserves_intros]: "preserves db_ok (delete_sessions t u)"
  by (simp add: preserves_def delete_sessions_def Let_def db_ok_defs delete_rules)

lemma db_ok_delete_jobs [preserves_intros]: "preserves db_ok (delete_jobs t u)"
proof -
  have "preserves db_ok (delete_job t i)" for i
    by (simp add: preserves_def delete_job_def Let_def db_ok_defs delete_rules)
  then show ?thesis unfolding delete_jobs_def by (intro preserves_intros)
qed

lemma db_ok_delete_connector_states [preserves_intros]: "preserves db_ok (delete_connector_states t u)"
  by (simp add: preserves_def delete_connector_states_def Let_def db_ok_defs delete_rules)

lemma db_ok_clear_audit_actor [preserves_intros]: "preserves db_ok (clear_audit_actor t u)"
  by (simp add: preserves_def clear_audit_actor_def effect_simps db_ok_defs table_simps)

lemma db_ok_clear_override_actor [preserves_intros]: "preserves db_ok (clear_override_actor t u)"
  unfolding clear_override_actor_def by (intro preserves_intros)

lemma db_ok_insert_job_row [preserves_intros]: "preserves db_ok (insert_job_row row)"
  by (simp add: preserves_def insert_job_row_def db_ok_defs table_simps)

lemma db_ok_insert_audit_row [preserves_intros]: "preserves db_ok (insert_audit_row row)"
  by (simp add: preserves_def insert_audit_row_def db_ok_defs table_simps)

lemma db_ok_insert_reconciliations [preserves_intros]:
  "preserves db_ok (insert_reconciliations sha t u op createdAt os)"
  by (induction os) (auto intro!: preserves_intros)

text \<open>A membership that stays is still there for what refers to it.\<close>

lemma db_ok_delete_memberships [preserves_intros]: "preserves db_ok (delete_memberships p)"
proof -
  have "db_ok (snd (delete_memberships p s))" if ok: "db_ok s" for s
  proof -
    have keep: "k \<in> member_key ` set (delete_where p (memberships s))"
      if "k \<in> member_key ` set (memberships s)" "k \<notin> member_key ` {r \<in> set (memberships s). p r}" for k
      using that by (auto simp: table_simps)
    have "owner_ok (member_key ` set (delete_where p (memberships s))) r"
      if "r \<in> set (connector_state s)" "\<not> (case cs_owner_user_id r of None \<Rightarrow> False
           | Some u \<Rightarrow> (cs_tenant_id r, u) \<in> member_key ` {r \<in> set (memberships s). p r})" for r
      using that ok keep by (auto simp: db_ok_defs owner_ok_def split: option.splits)
    moreover have "contributor_member r \<in> member_key ` set (delete_where p (memberships s))"
      if "r \<in> set (source_version_contributors s)"
        "contributor_member r \<notin> member_key ` {r \<in> set (memberships s). p r}" for r
    proof (rule keep [OF _ that(2)])
      show "contributor_member r \<in> member_key ` set (memberships s)"
        using ok that(1) by (auto simp: db_ok_def account_refs_ok_def)
    qed
    ultimately show ?thesis using ok
      by (simp add: delete_memberships_def db_ok_defs Let_def table_simps unique_on_delete_where
          image_subset_iff)
  qed
  then show ?thesis by (simp add: preserves_def)
qed

lemma db_ok_delete_user [preserves_intros]: "preserves db_ok (delete_user u)"
proof -
  have "db_ok (snd (delete_user u s))" if ok: "db_ok s" for s
  proof -
    obtain n s1 where s1: "delete_memberships (\<lambda>r. mb_user_id r = u) s = (Inr n, s1)"
      by (simp add: delete_memberships_def Let_def)
    have ok1: "db_ok s1" using preservesD [OF db_ok_delete_memberships ok s1] .
    have none: "\<forall>r \<in> set (memberships s1). mb_user_id r \<noteq> u"
      using s1 by (auto simp: delete_memberships_def Let_def table_simps)
    let ?s2 = "s1\<lparr>users := delete_where (\<lambda>r. us_id r = u) (users s1),
      sessions := delete_where (\<lambda>r. ss_user_id r = u) (sessions s1),
      credentials := delete_where (\<lambda>r. cr_user_id r = u) (credentials s1)\<rparr>"
    have ids: "us_id ` set (delete_where (\<lambda>r. us_id r = u) (users s1)) = us_id ` set (users s1) - {u}"
      by (auto simp: table_simps)
    have "mb_user_id ` set (memberships s1) \<subseteq> us_id ` set (users s1) - {u}"
      using ok1 none by (auto simp: db_ok_def account_refs_ok_def)
    moreover have "ss_user_id ` set (sessions ?s2) \<subseteq> us_id ` set (users s1) - {u}"
      "cr_user_id ` set (credentials ?s2) \<subseteq> us_id ` set (users s1) - {u}"
      "ss_tenant_id ` set (sessions ?s2) \<subseteq> tn_id ` set (tenants s1)"
      "cr_tenant_id ` set (credentials ?s2) \<subseteq> tn_id ` set (tenants s1)"
      using ok1 by (auto simp: db_ok_def account_refs_ok_def table_simps)
    ultimately have "db_ok ?s2"
      using ok1 ids by (simp add: db_ok_defs unique_on_delete_where)
    then show ?thesis using s1 by (simp add: delete_user_def bindE_def effect_simps)
  qed
  then show ?thesis by (simp add: preserves_def)
qed

lemma db_ok_delete_identity [preserves_intros]: "preserves db_ok (delete_identity u)"
  unfolding delete_identity_def by (intro preserves_intros)

lemma db_ok_erase_evidence [preserves_intros]: "preserves db_ok (erase_evidence t u)"
  unfolding erase_evidence_def by (intro preserves_intros)

lemma db_ok_erase_member [preserves_intros]: "preserves db_ok (erase_member sha now t u op)"
  unfolding erase_member_def Let_def by (intro preserves_intros)

section \<open>What the erasure removes\<close>

text \<open>Along the erasure the tables of accounts and of evidence only lose rows.\<close>

definition account_shrinks :: "'m db_scheme \<Rightarrow> 'm db_scheme \<Rightarrow> bool" where
  "account_shrinks s0 s \<longleftrightarrow> set (sessions s) \<subseteq> set (sessions s0) \<and>
     set (credentials s) \<subseteq> set (credentials s0) \<and> set (memberships s) \<subseteq> set (memberships s0) \<and>
     set (source_version_contributors s) \<subseteq> set (source_version_contributors s0) \<and>
     set (connector_state s) \<subseteq> set (connector_state s0) \<and> set (claims s) \<subseteq> set (claims s0) \<and>
     set (source_versions s) \<subseteq> set (source_versions s0)"

lemma shrinks_statements [preserves_intros]:
  "preserves (account_shrinks s0) (delete_contributions t u)"
  "preserves (account_shrinks s0) (delete_version_claims t v)"
  "preserves (account_shrinks s0) (delete_versions p)"
  "preserves (account_shrinks s0) (delete_empty_sources t)"
  "preserves (account_shrinks s0) (delete_credentials t u)"
  "preserves (account_shrinks s0) (delete_sessions t u)"
  "preserves (account_shrinks s0) (delete_job t i)"
  "preserves (account_shrinks s0) (delete_connector_states t u)"
  "preserves (account_shrinks s0) (clear_audit_actor t u)"
  "preserves (account_shrinks s0) (clear_override_actor t u)"
  "preserves (account_shrinks s0) (delete_memberships q)"
  "preserves (account_shrinks s0) (insert_job_row jrow)"
  "preserves (account_shrinks s0) (insert_audit_row arow)"
  by (simp_all add: preserves_def account_shrinks_def erasure_statements clear_override_actor_def
      guardE_def effect_simps Let_def set_delete_subset)

lemma shrinks_delete_user [preserves_intros]: "preserves (account_shrinks s0) (delete_user u)"
  unfolding delete_user_def
  by (intro preserves_intros preserves_modifyE) (auto simp: account_shrinks_def table_simps)

lemma shrinks_loops [preserves_intros]:
  "preserves (account_shrinks s0) (delete_orphans t rows)"
  "preserves (account_shrinks s0) (insert_reconciliations sha t u op createdAt os)"
  by (induction rows rule: delete_orphans.induct, auto intro!: preserves_intros)
    (induction os, auto intro!: preserves_intros)

lemma shrinks_methods [preserves_intros]:
  "preserves (account_shrinks s0) (delete_jobs t u)" "preserves (account_shrinks s0) (delete_identity u)"
  "preserves (account_shrinks s0) (erase_evidence t u)"
  unfolding delete_jobs_def delete_identity_def erase_evidence_def by (intro preserves_intros)+

lemma preserves_shrinking:
  assumes "\<And>s0. preserves (account_shrinks s0) m" and "\<And>s s'. account_shrinks s s' \<Longrightarrow> Q s \<Longrightarrow> Q s'"
  shows "preserves Q m"
  unfolding preserves_def
proof (intro allI impI)
  fix s assume "Q s"
  moreover have "account_shrinks s s" by (simp add: account_shrinks_def)
  ultimately show "Q (snd (m s))" using assms unfolding preserves_def by blast
qed

text \<open>So what one of the statements removed stays away.\<close>

lemma erase_member_removes:
  assumes mono: "\<And>s s'. account_shrinks s s' \<Longrightarrow> Q s \<Longrightarrow> Q s'"
    and "ensures Q (delete_contributions t u) \<or> ensures Q (delete_credentials t u) \<or>
      ensures Q (delete_sessions t u) \<or> ensures Q (delete_connector_states t u) \<or>
      ensures Q (delete_memberships (\<lambda>r. member_key r = (t, u)))"
  shows "ensures Q (erase_member sha now t u op)"
proof -
  have keep: "preserves Q m" if "\<And>s0. preserves (account_shrinks s0) m" for m :: "'a store_op"
    using preserves_shrinking [OF that mono] .
  have "ensures Q (erase_evidence t u)" if h: "ensures Q (delete_contributions t u)"
    unfolding erase_evidence_def
    by (rule ensures_rest, rule ensures_first [OF h], rule keep) (intro preserves_intros)
  then have "ensures Q (erase_evidence t u) \<or> ensures Q (delete_credentials t u) \<or>
      ensures Q (delete_sessions t u) \<or> ensures Q (delete_connector_states t u) \<or>
      ensures Q (delete_memberships (\<lambda>r. member_key r = (t, u)))" using assms(2) by blast
  then show ?thesis
    unfolding erase_member_def Let_def
    apply (elim disjE)
        apply (((rule ensures_first, assumption) | rule ensures_rest | rule ensures_case_prod)+;
        (rule keep; intro preserves_intros))+
    done
qed

text \<open>The jobs, the overrides and the audit events.\<close>

definition user_job :: "string \<Rightarrow> string \<Rightarrow> job_row \<Rightarrow> bool" where
  "user_job t u r \<longleftrightarrow> jb_tenant_id r = t \<and> json_get (jb_payload r) ''userId'' = Some (JStr u)"

lemma delete_jobs_loop:
  assumes "sumE (\<lambda>row. if json_get (jb_payload row) ''userId'' = Some (JStr u)
               then delete_job t (jb_id row) else retE 0) rows s = (Inr n, s')"
  shows "jobs s' = delete_where (\<lambda>r. jb_tenant_id r = t \<and>
    (\<exists>row \<in> set rows. json_get (jb_payload row) ''userId'' = Some (JStr u) \<and> jb_id r = jb_id row)) (jobs s)"
  using assms
proof (induction rows arbitrary: s n)
  case Nil
  then show ?case by (simp add: effect_simps delete_where_idem)
next
  case (Cons row rows)
  then obtain s1 m k where s1: "(if json_get (jb_payload row) ''userId'' = Some (JStr u)
        then delete_job t (jb_id row) else retE 0) s = (Inr m, s1)"
      and rest: "sumE (\<lambda>row. if json_get (jb_payload row) ''userId'' = Some (JStr u)
        then delete_job t (jb_id row) else retE 0) rows s1 = (Inr k, s')"
    by (auto simp: bindE_Inr_iff effect_simps)
  have "jobs s1 = delete_where (\<lambda>r. jb_tenant_id r = t \<and>
      json_get (jb_payload row) ''userId'' = Some (JStr u) \<and> jb_id r = jb_id row) (jobs s)"
    using s1 by (auto simp: delete_job_def Let_def effect_simps delete_where_idem split: if_splits)
  then show ?case using Cons.IH [OF rest] by (auto simp: delete_where_def intro!: filter_cong)
qed

lemma ensures_delete_jobs: "ensures (\<lambda>s. \<forall>r \<in> set (jobs s). \<not> user_job t u r) (delete_jobs t u)"
  unfolding ensures_def
proof (intro allI impI)
  fix s :: store and n s' assume "delete_jobs t u s = (Inr n, s')"
  then have "jobs s' = delete_where (\<lambda>r. jb_tenant_id r = t \<and>
      (\<exists>row \<in> set (select_where (\<lambda>r. jb_tenant_id r = t) (jobs s)).
        json_get (jb_payload row) ''userId'' = Some (JStr u) \<and> jb_id r = jb_id row)) (jobs s)"
    unfolding delete_jobs_def bindE_Inr_iff getE_def by (auto intro: delete_jobs_loop)
  then show "\<forall>r \<in> set (jobs s'). \<not> user_job t u r"
    by (auto simp: user_job_def delete_where_def select_where_def)
qed

text \<open>The statements on accounts leave these three tables alone.\<close>

abbreviation log_tables :: "'m db_scheme \<Rightarrow> job_row table \<times> override_row table \<times> audit_row table" where
  "log_tables s \<equiv> (jobs s, opportunity_overrides s, audit_events s)"

lemma logs_kept [preserves_intros]:
  "preserves (\<lambda>s. log_tables s = k) (delete_connector_states t u)"
  "preserves (\<lambda>s. log_tables s = k) (clear_override_actor t u)"
  "preserves (\<lambda>s. log_tables s = k) (delete_memberships p)"
  by (auto simp: preserves_def erasure_statements clear_override_actor_def guardE_def Let_def)

lemma logs_kept_identity [preserves_intros]: "preserves (\<lambda>s. log_tables s = k) (delete_identity u)"
  unfolding delete_identity_def delete_user_def
  by (intro preserves_intros preserves_modifyE) simp_all

lemma preserves_logs:
  assumes "\<And>k. preserves (\<lambda>s. log_tables s = k) m"
    and "\<And>s s'. log_tables s' = log_tables s \<Longrightarrow> Q s \<Longrightarrow> Q s'"
  shows "preserves Q m"
  using assms unfolding preserves_def by blast

lemma erase_member_clears:
  assumes cong: "\<And>s s'. log_tables s' = log_tables s \<Longrightarrow> Q s \<Longrightarrow> Q s'"
    and audit: "preserves Q (clear_audit_actor t u)"
      "\<And>r. preserves Q (insert_audit_row (erasure_audit sha t u op (nowIso now) r))"
    and job: "\<And>i. preserves Q (insert_job_row (reconcile_row sha t u op (nowIso now) i))"
    and "ensures Q (delete_jobs t u) \<or> ensures Q (clear_audit_actor t u) \<or>
      ensures Q (clear_override_actor t u)"
  shows "ensures Q (erase_member sha now t u op)"
proof -
  have jobs: "preserves Q (insert_reconciliations sha t u op (nowIso now) os)" for os
    by (induction os) (auto intro!: preserves_intros job)
  have kept: "preserves Q (delete_connector_states t u)" "preserves Q (clear_override_actor t u)"
    "preserves Q (delete_memberships p)" "preserves Q (delete_identity u)" for p
    by (rule preserves_logs; (rule logs_kept logs_kept_identity | rule cong; assumption))+
  show ?thesis
    using assms(5) unfolding erase_member_def Let_def
    apply (elim disjE)
      apply (((rule ensures_first, assumption) | rule ensures_rest | rule ensures_case_prod)+;
        (intro preserves_intros jobs kept audit))+
    done
qed

lemma erase_member_jobs: "ensures (\<lambda>s. \<forall>r \<in> set (jobs s). \<not> user_job t u r) (erase_member sha now t u op)"
proof (rule erase_member_clears)
  show "preserves (\<lambda>s. \<forall>r \<in> set (jobs s). \<not> user_job t u r)
      (insert_job_row (reconcile_row sha t u op (nowIso now) i))" for i
    by (simp add: preserves_def insert_job_row_def user_job_def reconcile_row_def Let_def json_get_def)
qed (simp_all add: preserves_def clear_audit_actor_def insert_audit_row_def effect_simps ensures_delete_jobs)

lemma erase_member_overrides:
  "ensures (\<lambda>s. \<forall>r \<in> set (opportunity_overrides s). \<not> (ov_tenant_id r = t \<and> ov_actor_id r = u))
     (erase_member sha now t u op)"
proof (rule erase_member_clears)
  have "ensures (\<lambda>s. \<forall>r \<in> set (opportunity_overrides s). \<not> (ov_tenant_id r = t \<and> ov_actor_id r = u))
      (clear_override_actor t u)"
    by (auto simp: ensures_def clear_override_actor_def effect_simps exists_row_iff)
  then show "ensures (\<lambda>s. \<forall>r \<in> set (opportunity_overrides s). \<not> (ov_tenant_id r = t \<and> ov_actor_id r = u))
      (delete_jobs t u) \<or>
    ensures (\<lambda>s. \<forall>r \<in> set (opportunity_overrides s). \<not> (ov_tenant_id r = t \<and> ov_actor_id r = u))
      (clear_audit_actor t u) \<or>
    ensures (\<lambda>s. \<forall>r \<in> set (opportunity_overrides s). \<not> (ov_tenant_id r = t \<and> ov_actor_id r = u))
      (clear_override_actor t u)" by blast
qed (simp_all add: preserves_def clear_audit_actor_def insert_audit_row_def insert_job_row_def effect_simps)

lemma erase_member_activity:
  "ensures (\<lambda>s. \<forall>r \<in> set (audit_events s). \<not> (au_tenant_id r = t \<and> au_actor_id r = Some u))
     (erase_member sha now t u op)"
proof (rule erase_member_clears)
  show clear: "preserves (\<lambda>s. \<forall>r \<in> set (audit_events s). \<not> (au_tenant_id r = t \<and> au_actor_id r = Some u))
      (clear_audit_actor t u)"
    by (simp add: preserves_def clear_audit_actor_def effect_simps ball_update_where)
  have "ensures (\<lambda>s. \<forall>r \<in> set (audit_events s). \<not> (au_tenant_id r = t \<and> au_actor_id r = Some u))
      (clear_audit_actor t u)"
    by (simp add: ensures_def clear_audit_actor_def effect_simps ball_update_where)
  then show "ensures (\<lambda>s. \<forall>r \<in> set (audit_events s). \<not> (au_tenant_id r = t \<and> au_actor_id r = Some u))
      (delete_jobs t u) \<or>
    ensures (\<lambda>s. \<forall>r \<in> set (audit_events s). \<not> (au_tenant_id r = t \<and> au_actor_id r = Some u))
      (clear_audit_actor t u) \<or>
    ensures (\<lambda>s. \<forall>r \<in> set (audit_events s). \<not> (au_tenant_id r = t \<and> au_actor_id r = Some u))
      (clear_override_actor t u)" by blast
qed (simp_all add: preserves_def insert_audit_row_def insert_job_row_def erasure_audit_def)

text \<open>Tables that no statement of the erasure changes, and the transaction depth.\<close>

abbreviation frame_tables where
  "frame_tables s \<equiv> (tenants s, organizations s, opportunities s, opportunity_overrides s,
     tenant_queue_state s, transactionDepth s)"

lemma frame_statements [preserves_intros]:
  "preserves (\<lambda>s. frame_tables s = k) (delete_contributions t u)"
  "preserves (\<lambda>s. frame_tables s = k) (delete_version_claims t v)"
  "preserves (\<lambda>s. frame_tables s = k) (delete_versions p)"
  "preserves (\<lambda>s. frame_tables s = k) (delete_empty_sources t)"
  "preserves (\<lambda>s. frame_tables s = k) (delete_credentials t u)"
  "preserves (\<lambda>s. frame_tables s = k) (delete_sessions t u)"
  "preserves (\<lambda>s. frame_tables s = k) (delete_job t i)"
  "preserves (\<lambda>s. frame_tables s = k) (delete_connector_states t u)"
  "preserves (\<lambda>s. frame_tables s = k) (clear_audit_actor t u)"
  "preserves (\<lambda>s. frame_tables s = k) (clear_override_actor t u)"
  "preserves (\<lambda>s. frame_tables s = k) (delete_memberships q)"
  "preserves (\<lambda>s. frame_tables s = k) (insert_job_row jrow)"
  "preserves (\<lambda>s. frame_tables s = k) (insert_audit_row arow)"
  by (simp_all add: preserves_def erasure_statements clear_override_actor_def guardE_def effect_simps Let_def)

lemma frame_loops [preserves_intros]:
  "preserves (\<lambda>s. frame_tables s = k) (delete_orphans t rows)"
  "preserves (\<lambda>s. frame_tables s = k) (insert_reconciliations sha t u op createdAt os)"
  by (induction rows rule: delete_orphans.induct, auto intro!: preserves_intros)
    (induction os, auto intro!: preserves_intros)

lemma frame_erase_member: "preserves (\<lambda>s. frame_tables s = k) (erase_member sha now t u op)"
  unfolding erase_member_def erase_evidence_def delete_jobs_def delete_identity_def delete_user_def Let_def
  by (intro preserves_intros preserves_modifyE) simp_all

lemma erase_member_frame:
  "organizations (snd (erase_member sha now t u op s)) = organizations s"
  "opportunities (snd (erase_member sha now t u op s)) = opportunities s"
  "opportunity_overrides (snd (erase_member sha now t u op s)) = opportunity_overrides s"
  "transactionDepth (snd (erase_member sha now t u op s)) = transactionDepth s"
  using preserves_valueD [where f = "\<lambda>s. frame_tables s", OF frame_erase_member surjective_pairing] by simp_all

text \<open>The evidence that goes: private versions to which nobody else of the tenant contributed.\<close>

definition sole_private :: "string \<Rightarrow> string \<Rightarrow> 'm db_scheme \<Rightarrow> version_row \<Rightarrow> bool" where
  "sole_private t u s v \<longleftrightarrow> sv_tenant_id v = t \<and>
     exists_row (\<lambda>c. contributor_of t u c \<and> ct_source_version_id c = sv_id v) (source_version_contributors s) \<and>
     exists_row (\<lambda>r. sr_id r = sv_source_id v \<and> sr_tenant_id r = t \<and> private_source (sr_source_type r)) (sources s) \<and>
     \<not> exists_row (\<lambda>c. ct_tenant_id c = t \<and> ct_source_version_id c = sv_id v \<and> ct_user_id c \<noteq> u)
        (source_version_contributors s)"

lemma delete_orphans_effect:
  assumes "delete_orphans t rows s = (Inr n, s')"
  shows "source_versions s' = delete_where (\<lambda>v. sv_tenant_id v = t \<and> sv_id v \<in> fst ` set rows) (source_versions s) \<and>
    claims s' = delete_where (\<lambda>c. cl_source_version_id c \<in> fst ` set rows \<and> (cl_tenant_id c = t \<or>
      (\<exists>v \<in> set (source_versions s). sv_tenant_id v = t \<and> sv_id v = cl_source_version_id c))) (claims s)"
  using assms
proof (induction t rows arbitrary: s n rule: delete_orphans.induct)
  case (1 t)
  then show ?case by (simp add: effect_simps delete_where_idem)
next
  case (2 t v a b rows)
  let ?s2 = "snd (delete_versions (\<lambda>r. sv_tenant_id r = t \<and> sv_id r = v) (snd (delete_version_claims t v s)))"
  obtain m where rest: "delete_orphans t rows ?s2 = (Inr m, s')"
    using 2(2) by (auto simp: bindE_Inr_iff delete_version_claims_def delete_versions_def Let_def effect_simps
        split: prod.splits)
  have v2: "source_versions ?s2 = delete_where (\<lambda>r. sv_tenant_id r = t \<and> sv_id r = v) (source_versions s)"
    by (simp add: delete_versions_def delete_version_claims_def Let_def)
  have c2: "claims ?s2 = delete_where (\<lambda>c. cl_source_version_id c = v \<and> (cl_tenant_id c = t \<or>
      (\<exists>r \<in> set (source_versions s). sv_tenant_id r = t \<and> sv_id r = v))) (claims s)"
    by (auto simp: delete_versions_def delete_version_claims_def Let_def delete_where_def select_where_def
        intro!: filter_cong)
  show ?case
    using 2(1) [OF rest] unfolding v2 c2
    by (auto simp: delete_where_def intro!: filter_cong)
qed

lemma contribution_join_iff:
  "(c, v, r) \<in> set (contribution_join cs s) \<longleftrightarrow> c \<in> set cs \<and> v \<in> set (source_versions s) \<and>
     sv_id v = ct_source_version_id c \<and> sv_tenant_id v = ct_tenant_id c \<and> r \<in> set (sources s) \<and>
     sr_id r = sv_source_id v \<and> sr_tenant_id r = sv_tenant_id v"
  by (auto simp: contribution_join_def set_select_where image_iff)

lemma orphaned_iff:
  assumes "delete_contributions t u s = (Inr n, s1)"
  shows "i \<in> fst ` set (orphaned t (contributed t u s) s1) \<longleftrightarrow>
    (\<exists>v \<in> set (source_versions s). sv_id v = i \<and> sole_private t u s v)"
proof -
  have s1: "set (source_version_contributors s1) =
      {c \<in> set (source_version_contributors s). \<not> contributor_of t u c}"
    using assms by (auto simp: delete_contributions_def table_simps)
  have row: "(i, org, ty) \<in> set (contributed t u s) \<longleftrightarrow> (\<exists>c v r.
      (c, v, r) \<in> set (contribution_join (select_where (contributor_of t u) (source_version_contributors s)) s) \<and>
      i = sv_id v \<and> org = sv_organization_id v \<and> ty = sr_source_type r)" for org ty
    unfolding contributed_def set_dedup set_map image_iff by (simp add: Bex_def split_paired_Ex)
  have "i \<in> fst ` set (orphaned t (contributed t u s) s1) \<longleftrightarrow>
      (\<exists>org ty. (i, org, ty) \<in> set (contributed t u s) \<and> private_source ty \<and>
      \<not> exists_row (\<lambda>c. ct_tenant_id c = t \<and> ct_source_version_id c = i) (source_version_contributors s1))"
    unfolding orphaned_def by force
  also have "\<dots> \<longleftrightarrow> (\<exists>c v r. contributor_of t u c \<and>
      (c, v, r) \<in> set (contribution_join (source_version_contributors s) s) \<and> i = sv_id v \<and>
      private_source (sr_source_type r) \<and>
      \<not> exists_row (\<lambda>c. ct_tenant_id c = t \<and> ct_source_version_id c = i) (source_version_contributors s1))"
    unfolding row contribution_join_iff set_select_where by blast
  also have "\<dots> \<longleftrightarrow> (\<exists>v \<in> set (source_versions s). sv_id v = i \<and> sole_private t u s v)"
  proof (intro iffI; elim exE bexE conjE)
    fix c v r assume c: "contributor_of t u c" "i = sv_id v" "private_source (sr_source_type r)"
      and j: "(c, v, r) \<in> set (contribution_join (source_version_contributors s) s)"
      and no: "\<not> exists_row (\<lambda>c. ct_tenant_id c = t \<and> ct_source_version_id c = i) (source_version_contributors s1)"
    have "\<not> exists_row (\<lambda>c. ct_tenant_id c = t \<and> ct_source_version_id c = sv_id v \<and> ct_user_id c \<noteq> u)
        (source_version_contributors s)"
      using no c(2) by (auto simp: exists_row_iff s1 contributor_of_def)
    moreover have "sv_tenant_id v = t" using c(1) j by (simp add: contribution_join_iff contributor_of_def)
    ultimately have "sole_private t u s v"
      using c j unfolding sole_private_def contribution_join_iff exists_row_iff by metis
    then show "\<exists>v \<in> set (source_versions s). sv_id v = i \<and> sole_private t u s v"
      using c(2) j by (auto simp: contribution_join_iff)
  next
    fix v assume v: "v \<in> set (source_versions s)" "sv_id v = i" and sole: "sole_private t u s v"
    from sole have tv: "sv_tenant_id v = t" unfolding sole_private_def by blast
    from sole obtain c where c: "c \<in> set (source_version_contributors s)" "contributor_of t u c"
        "ct_source_version_id c = sv_id v"
      unfolding sole_private_def exists_row_iff by blast
    from sole obtain r where r: "r \<in> set (sources s)" "sr_id r = sv_source_id v" "sr_tenant_id r = t"
        "private_source (sr_source_type r)"
      unfolding sole_private_def exists_row_iff by blast
    from sole have no: "\<not> exists_row (\<lambda>c. ct_tenant_id c = t \<and> ct_source_version_id c = sv_id v \<and>
        ct_user_id c \<noteq> u) (source_version_contributors s)"
      unfolding sole_private_def by blast
    have "(c, v, r) \<in> set (contribution_join (source_version_contributors s) s)"
      using v c r tv by (simp add: contribution_join_iff contributor_of_def)
    moreover have "\<not> exists_row (\<lambda>c. ct_tenant_id c = t \<and> ct_source_version_id c = i) (source_version_contributors s1)"
      using no v(2) by (auto simp: exists_row_iff s1 contributor_of_def)
    ultimately show "\<exists>c v r. contributor_of t u c \<and>
      (c, v, r) \<in> set (contribution_join (source_version_contributors s) s) \<and> i = sv_id v \<and>
      private_source (sr_source_type r) \<and>
      \<not> exists_row (\<lambda>c. ct_tenant_id c = t \<and> ct_source_version_id c = i) (source_version_contributors s1)"
      using c(2) v(2) r(4) by blast
  qed
  finally show ?thesis .
qed

lemma erase_evidence_effect:
  assumes "erase_evidence t u s = (Inr x, s')" and "unique_on sv_id (source_versions s)"
  shows "source_versions s' = delete_where (sole_private t u s) (source_versions s) \<and>
    claims s' = delete_where (\<lambda>c. \<exists>v \<in> set (source_versions s). sole_private t u s v \<and>
      sv_id v = cl_source_version_id c) (claims s)"
proof -
  obtain n s1 m where s1: "delete_contributions t u s = (Inr n, s1)"
    and s2: "delete_orphans t (orphaned t (contributed t u s) s1) s1 = (Inr m, s')"
    using assms(1) by (auto simp: erase_evidence_def bindE_Inr_iff effect_simps)
  have same: "source_versions s1 = source_versions s" "claims s1 = claims s"
    using s1 by (auto simp: delete_contributions_def)
  have tenant: "sole_private t u s v \<Longrightarrow> sv_tenant_id v = t" for v by (simp add: sole_private_def)
  have one: "(\<exists>w \<in> set (source_versions s). sv_id w = sv_id v \<and> sole_private t u s w) \<longleftrightarrow> sole_private t u s v"
    if "v \<in> set (source_versions s)" for v
    using unique_onD [OF assms(2)] that by blast
  have vs: "source_versions s' = delete_where (sole_private t u s) (source_versions s)"
    using delete_orphans_effect [OF s2] one tenant
    by (auto simp: orphaned_iff [OF s1] same delete_where_def intro!: filter_cong)
  have "claims s' = delete_where (\<lambda>c. \<exists>v \<in> set (source_versions s). sole_private t u s v \<and>
      sv_id v = cl_source_version_id c) (claims s)"
    using delete_orphans_effect [OF s2] tenant
    by (auto simp: orphaned_iff [OF s1] same delete_where_def intro!: filter_cong)
  with vs show ?thesis ..
qed

text \<open>After the evidence the versions and claims stay as they are.\<close>

abbreviation evidence_tables where
  "evidence_tables s \<equiv> (source_versions s, claims s)"

lemma evidence_erasure_statements [preserves_intros]:
  "preserves (\<lambda>s. evidence_tables s = k) (delete_empty_sources t)"
  "preserves (\<lambda>s. evidence_tables s = k) (delete_credentials t u)"
  "preserves (\<lambda>s. evidence_tables s = k) (delete_sessions t u)"
  "preserves (\<lambda>s. evidence_tables s = k) (delete_job t i)"
  "preserves (\<lambda>s. evidence_tables s = k) (delete_connector_states t u)"
  "preserves (\<lambda>s. evidence_tables s = k) (clear_audit_actor t u)"
  "preserves (\<lambda>s. evidence_tables s = k) (clear_override_actor t u)"
  "preserves (\<lambda>s. evidence_tables s = k) (delete_memberships q)"
  "preserves (\<lambda>s. evidence_tables s = k) (insert_job_row jrow)"
  "preserves (\<lambda>s. evidence_tables s = k) (insert_audit_row arow)"
  by (simp_all add: preserves_def erasure_statements clear_override_actor_def guardE_def effect_simps Let_def)

lemma evidence_reconciliations [preserves_intros]:
  "preserves (\<lambda>s. evidence_tables s = k) (insert_reconciliations sha t u op createdAt os)"
  by (induction os) (auto intro!: preserves_intros)

lemma bindE_tail_keeps:
  assumes "bindE m k s = (Inr r, s')" and "\<And>y c. preserves (\<lambda>s. f s = c) (k y)"
  shows "\<exists>x u. m s = (Inr x, u) \<and> f s' = f u"
proof -
  obtain x u where m: "m s = (Inr x, u)" and k: "k x u = (Inr r, s')"
    using assms(1) by (auto simp: bindE_Inr_iff)
  have "f s' = f u" by (rule preservesD [OF assms(2) refl k])
  with m show ?thesis by blast
qed

lemma evidence_jobs_identity [preserves_intros]:
  "preserves (\<lambda>s. evidence_tables s = k) (delete_jobs t u)"
  "preserves (\<lambda>s. evidence_tables s = k) (delete_identity u)"
  unfolding delete_jobs_def delete_identity_def delete_user_def
  by (intro preserves_intros) (intro preserves_intros preserves_modifyE, simp)

lemma erase_member_evidence:
  assumes "erase_member sha now t u op s = (Inr res, s')"
  shows "\<exists>x s1. erase_evidence t u s = (Inr x, s1) \<and> evidence_tables s' = evidence_tables s1"
  by (rule bindE_tail_keeps [where f = "\<lambda>s. evidence_tables s", OF assms [unfolded erase_member_def Let_def]])
    (intro preserves_intros)

section \<open>What the erasure leaves alone\<close>

lemma filter_delete_where: "(\<And>r. A r \<Longrightarrow> \<not> p r) \<Longrightarrow> filter A (delete_where p t) = filter A t"
  by (auto simp: delete_where_def intro: filter_cong)

lemma filter_update_where:
  "(\<And>r. A r \<Longrightarrow> \<not> p r) \<Longrightarrow> (\<And>r. p r \<Longrightarrow> \<not> A (f r)) \<Longrightarrow> filter A (update_where p f t) = filter A t"
  by (induction t) (auto simp: update_where_def)

text \<open>The connector states of a user: by scope or by owner.\<close>

definition their_state :: "string \<Rightarrow> string \<Rightarrow> connector_state_row \<Rightarrow> bool" where
  "their_state t u r \<longleftrightarrow> cs_tenant_id r = t \<and>
     (cs_scope r = u \<or> like (u @ '':%'') (cs_scope r) \<or> cs_owner_user_id r = Some u)"

text \<open>The rows of others: sources and versions of other tenants, the other memberships and connector
  states, also of this tenant, other identities, and the sessions and credentials of others.\<close>

abbreviation others :: "string \<Rightarrow> string \<Rightarrow> 'm db_scheme \<Rightarrow> source_row table \<times> version_row table \<times>
    membership_row table \<times> connector_state_row table \<times> user_row table \<times> session_row table \<times>
    credential_row table" where
  "others t u s \<equiv> (filter (\<lambda>r. sr_tenant_id r \<noteq> t) (sources s),
     filter (\<lambda>r. sv_tenant_id r \<noteq> t) (source_versions s),
     filter (\<lambda>r. member_key r \<noteq> (t, u)) (memberships s),
     filter (\<lambda>r. \<not> their_state t u r) (connector_state s), filter (\<lambda>r. us_id r \<noteq> u) (users s),
     filter (\<lambda>r. ss_user_id r \<noteq> u) (sessions s), filter (\<lambda>r. cr_user_id r \<noteq> u) (credentials s))"

lemma theirs_by_scope:
  "filter (\<lambda>r. \<not> their_state t u r) (delete_where (\<lambda>r. cs_tenant_id r = t \<and> (cs_scope r = u \<or>
     like (u @ '':%'') (cs_scope r))) cs) = filter (\<lambda>r. \<not> their_state t u r) cs"
  by (rule filter_delete_where) (auto simp: their_state_def)

lemma others_statements [preserves_intros]:
  "preserves (\<lambda>s. others t u s = k) (delete_contributions t u)"
  "preserves (\<lambda>s. others t u s = k) (delete_version_claims t v)"
  "preserves (\<lambda>s. others t u s = k) (delete_versions (\<lambda>r. sv_tenant_id r = t \<and> sv_id r = v))"
  "preserves (\<lambda>s. others t u s = k) (delete_empty_sources t)"
  "preserves (\<lambda>s. others t u s = k) (delete_credentials t u)"
  "preserves (\<lambda>s. others t u s = k) (delete_sessions t u)"
  "preserves (\<lambda>s. others t u s = k) (delete_job t i)"
  "preserves (\<lambda>s. others t u s = k) (delete_connector_states t u)"
  "preserves (\<lambda>s. others t u s = k) (clear_override_actor t u)"
  by (simp_all add: preserves_def erasure_statements clear_override_actor_def guardE_def effect_simps Let_def
      filter_delete_where theirs_by_scope)

lemma others_inserts [preserves_intros]:
  "preserves (\<lambda>s. others t u s = k) (insert_audit_row arow)"
  "preserves (\<lambda>s. others t u s = k) (insert_job_row jrow)"
  by (simp_all add: preserves_def insert_audit_row_def insert_job_row_def)

lemma others_loops [preserves_intros]:
  "preserves (\<lambda>s. others t u s = k) (delete_orphans t rows)"
  "preserves (\<lambda>s. others t u s = k) (insert_reconciliations sha t u op createdAt os)"
  by (induction t rows rule: delete_orphans.induct, auto intro!: preserves_intros)
    (induction os, auto intro!: preserves_intros simp: reconcile_row_def Let_def)

lemma others_clear_audit_actor [preserves_intros]:
  "preserves (\<lambda>s. others t u s = k) (clear_audit_actor t u)"
  by (simp add: preserves_def clear_audit_actor_def effect_simps)

lemma others_delete_membership [preserves_intros]:
  "preserves (\<lambda>s. others t u s = k) (delete_memberships (\<lambda>r. member_key r = (t, u)))"
proof -
  have "filter (\<lambda>r. \<not> their_state t u r) (delete_where (\<lambda>r. case cs_owner_user_id r of None \<Rightarrow> False
       | Some w \<Rightarrow> (cs_tenant_id r, w) \<in> member_key ` set (select_where (\<lambda>r. member_key r = (t, u)) ms)) cs) =
      filter (\<lambda>r. \<not> their_state t u r) cs" for ms :: "membership_row table" and cs :: "connector_state_row table"
    by (rule filter_delete_where) (auto simp: their_state_def set_select_where split: option.splits)
  then show ?thesis
    by (simp add: preserves_def delete_memberships_def Let_def filter_delete_where)
qed

lemma others_delete_identity [preserves_intros]: "preserves (\<lambda>s. others t u s = k) (delete_identity u)"
proof -
  have idem: "delete_memberships (\<lambda>r. mb_user_id r = u) s = (Inr 0, s)"
    if "\<not> exists_row (\<lambda>r. mb_user_id r = u) (memberships s)" for s
  proof -
    have "select_where (\<lambda>r. mb_user_id r = u) (memberships s) = []"
      using that by (auto simp: exists_row_iff select_where_def filter_empty_conv)
    then show ?thesis using that
      by (simp add: delete_memberships_def Let_def count_where_def select_where_def delete_where_idem
          exists_row_iff option.case_eq_if)
  qed
  show ?thesis
    by (auto simp: preserves_def delete_identity_def delete_user_def bindE_def effect_simps idem
        filter_delete_where split: prod.splits)
qed


text \<open>The contributions of the other members: a version that is deleted has none.\<close>

abbreviation fellow_contributions where
  "fellow_contributions t u s \<equiv>
     filter (\<lambda>c. ct_tenant_id c = t \<and> ct_user_id c \<noteq> u) (source_version_contributors s)"

definition abandoned :: "string \<Rightarrow> string \<Rightarrow> 'm db_scheme \<Rightarrow> bool" where
  "abandoned t i s \<longleftrightarrow> \<not> exists_row (\<lambda>c. ct_tenant_id c = t \<and> ct_source_version_id c = i) (source_version_contributors s)"

lemma delete_orphans_contributions:
  assumes "\<forall>i \<in> fst ` set rows. abandoned t i s"
  shows "fellow_contributions t u (snd (delete_orphans t rows s)) = fellow_contributions t u s"
  using assms
proof (induction t rows arbitrary: s rule: delete_orphans.induct)
  case (1 t)
  then show ?case by (simp add: effect_simps)
next
  case (2 t v a b rows)
  let ?s2 = "snd (delete_versions (\<lambda>r. sv_tenant_id r = t \<and> sv_id r = v) (snd (delete_version_claims t v s)))"
  let ?gone = "sv_id ` set (select_where (\<lambda>r. sv_tenant_id r = t \<and> sv_id r = v) (source_versions s))"
  have s2: "source_version_contributors ?s2 =
      delete_where (\<lambda>r. ct_source_version_id r \<in> ?gone) (source_version_contributors s)"
    by (simp add: delete_versions_def delete_version_claims_def Let_def)
  have "\<forall>i \<in> fst ` set rows. abandoned t i ?s2"
    using 2(2) by (auto simp: abandoned_def s2 exists_row_iff table_simps)
  then have "fellow_contributions t u (snd (delete_orphans t rows ?s2)) = fellow_contributions t u ?s2"
    by (rule 2(1))
  also have "\<dots> = fellow_contributions t u s"
    using 2(2) by (auto simp: s2 abandoned_def exists_row_iff delete_where_def set_select_where intro!: filter_cong)
  finally have kept: "fellow_contributions t u (snd (delete_orphans t rows ?s2)) = fellow_contributions t u s" .
  obtain x s3 where run: "delete_orphans t rows ?s2 = (x, s3)" by fastforce
  obtain m n where "delete_version_claims t v s = (Inr m, snd (delete_version_claims t v s))"
    "delete_versions (\<lambda>r. sv_tenant_id r = t \<and> sv_id r = v) (snd (delete_version_claims t v s)) = (Inr n, ?s2)"
    by (simp add: delete_version_claims_def delete_versions_def Let_def)
  then have "snd (delete_orphans t ((v, a, b) # rows) s) = s3"
    using run by (cases x) (auto simp: bindE_def effect_simps split: prod.splits)
  then show ?case using kept run by simp
qed

lemma contributions_erase_evidence [preserves_intros]:
  "preserves (\<lambda>s. fellow_contributions t u s = k) (erase_evidence t u)"
proof -
  have "fellow_contributions t u (snd (erase_evidence t u s)) = fellow_contributions t u s" for s
  proof -
    obtain n s1 where s1: "delete_contributions t u s = (Inr n, s1)" by (simp add: delete_contributions_def)
    have "fellow_contributions t u (snd (delete_orphans t (orphaned t (contributed t u s) s1) s1)) = fellow_contributions t u s1"
      by (rule delete_orphans_contributions) (auto simp: orphaned_def abandoned_def)
    also have "source_version_contributors s1 = delete_where (contributor_of t u) (source_version_contributors s)"
      using s1 by (auto simp: delete_contributions_def)
    also have "filter (\<lambda>c. ct_tenant_id c = t \<and> ct_user_id c \<noteq> u)
        (delete_where (contributor_of t u) (source_version_contributors s)) = fellow_contributions t u s"
      by (rule filter_delete_where) (simp add: contributor_of_def)
    finally show ?thesis
      by (auto simp: erase_evidence_def bindE_def effect_simps s1 split: prod.splits sum.splits)
  qed
  then show ?thesis by (simp add: preserves_def)
qed

lemma contributions_statements [preserves_intros]:
  "preserves (\<lambda>s. fellow_contributions t u s = k) (delete_empty_sources t)"
  "preserves (\<lambda>s. fellow_contributions t u s = k) (delete_credentials t u)"
  "preserves (\<lambda>s. fellow_contributions t u s = k) (delete_sessions t u)"
  "preserves (\<lambda>s. fellow_contributions t u s = k) (delete_job t i)"
  "preserves (\<lambda>s. fellow_contributions t u s = k) (delete_connector_states t u)"
  "preserves (\<lambda>s. fellow_contributions t u s = k) (clear_audit_actor t u)"
  "preserves (\<lambda>s. fellow_contributions t u s = k) (clear_override_actor t u)"
  "preserves (\<lambda>s. fellow_contributions t u s = k) (insert_job_row jrow)"
  "preserves (\<lambda>s. fellow_contributions t u s = k) (insert_audit_row arow)"
  by (simp_all add: preserves_def erasure_statements clear_override_actor_def guardE_def effect_simps Let_def)

lemma contributions_delete_memberships [preserves_intros]:
  assumes "\<And>r. p r \<Longrightarrow> mb_user_id r = u"
  shows "preserves (\<lambda>s. fellow_contributions t u s = k) (delete_memberships p)"
proof -
  have "fellow_contributions t u (snd (delete_memberships p s)) = fellow_contributions t u s" for s
    using assms by (auto simp: delete_memberships_def Let_def delete_where_def set_select_where member_key_def
        contributor_member_def intro!: filter_cong)
  then show ?thesis by (simp add: preserves_def)
qed


text \<open>The jobs and the audit events of others, and the new rows of the erasure: jobs that reconcile an
  organization and the record of the erasure. An event of the user only loses its author.\<close>

definition forget_author :: "string \<Rightarrow> string \<Rightarrow> audit_row \<Rightarrow> audit_row" where
  "forget_author t u r = (if au_tenant_id r = t \<and> au_actor_id r = Some u then r\<lparr>au_actor_id := None\<rparr> else r)"

definition logs_spared :: "string \<Rightarrow> string \<Rightarrow> 'm db_scheme \<Rightarrow> 'n db_scheme \<Rightarrow> bool" where
  "logs_spared t u s0 s \<longleftrightarrow>
     (\<exists>new. filter (\<lambda>r. \<not> user_job t u r) (jobs s) = filter (\<lambda>r. \<not> user_job t u r) (jobs s0) @ new \<and>
       (\<forall>r \<in> set new. jb_tenant_id r = t \<and> jb_type r = ''privacy.reconcile'')) \<and>
     (\<exists>new. map (forget_author t u) (audit_events s) = map (forget_author t u) (audit_events s0) @ new \<and>
       (\<forall>r \<in> set new. au_tenant_id r = t \<and> au_action r = ''privacy.erase''))"

abbreviation logs_ok :: "string \<Rightarrow> string \<Rightarrow> 'm db_scheme \<Rightarrow> 'n db_scheme \<Rightarrow> bool" where
  "logs_ok t u s0 s \<equiv> unique_on jb_id (jobs s) \<and> logs_spared t u s0 s"

lemma logs_ok_cong: "jobs s' = jobs s \<Longrightarrow> audit_events s' = audit_events s \<Longrightarrow> logs_ok t u s0 s' = logs_ok t u s0 s"
  by (simp add: logs_spared_def)

lemma logs_ok_statements [preserves_intros]:
  "preserves (logs_ok t u s0) (delete_contributions t u)"
  "preserves (logs_ok t u s0) (delete_version_claims t v)"
  "preserves (logs_ok t u s0) (delete_versions p)"
  "preserves (logs_ok t u s0) (delete_empty_sources t)"
  "preserves (logs_ok t u s0) (delete_credentials t u)"
  "preserves (logs_ok t u s0) (delete_sessions t u)"
  "preserves (logs_ok t u s0) (delete_connector_states t u)"
  "preserves (logs_ok t u s0) (clear_override_actor t u)"
  "preserves (logs_ok t u s0) (delete_memberships q)"
  by (simp_all add: preserves_def logs_spared_def erasure_statements clear_override_actor_def guardE_def effect_simps Let_def)

lemma logs_ok_clear_audit_actor [preserves_intros]: "preserves (logs_ok t u s0) (clear_audit_actor t u)"
proof -
  have "map (forget_author t u) (update_where (\<lambda>r. au_tenant_id r = t \<and> au_actor_id r = Some u)
      (\<lambda>r. r\<lparr>au_actor_id := None\<rparr>) as) = map (forget_author t u) as" for as
    by (induction as) (auto simp: update_where_def forget_author_def)
  then show ?thesis by (simp add: preserves_def clear_audit_actor_def effect_simps logs_spared_def)
qed

lemma logs_ok_insert_audit_row [preserves_intros]:
  assumes "au_tenant_id row = t" and "au_action row = ''privacy.erase''"
  shows "preserves (logs_ok t u s0) (insert_audit_row row)"
  using assms by (auto simp: preserves_def insert_audit_row_def logs_spared_def forget_author_def)

lemma logs_ok_insert_job_row [preserves_intros]:
  assumes "jb_tenant_id row = t" and "jb_type row = ''privacy.reconcile''"
  shows "preserves (logs_ok t u s0) (insert_job_row row)"
  using assms by (auto simp: preserves_def insert_job_row_def logs_spared_def unique_on_append1 exists_row_key)

lemma logs_ok_loops [preserves_intros]:
  "preserves (logs_ok t u s0) (delete_orphans t rows)"
  "preserves (logs_ok t u s0) (insert_reconciliations sha t u op createdAt os)"
  by (induction t rows rule: delete_orphans.induct, auto intro!: preserves_intros)
    (induction os, auto intro!: preserves_intros simp: reconcile_row_def Let_def)

text \<open>With unique ids the loop over the jobs deletes the jobs of the user and no other.\<close>

lemma delete_jobs_exact:
  assumes "unique_on jb_id (jobs s)" and "delete_jobs t u s = (Inr n, s')"
  shows "jobs s' = delete_where (user_job t u) (jobs s)"
proof -
  have "jobs s' = delete_where (\<lambda>r. jb_tenant_id r = t \<and>
      (\<exists>row \<in> set (select_where (\<lambda>r. jb_tenant_id r = t) (jobs s)).
        json_get (jb_payload row) ''userId'' = Some (JStr u) \<and> jb_id r = jb_id row)) (jobs s)"
    using assms(2) unfolding delete_jobs_def bindE_Inr_iff getE_def by (auto intro: delete_jobs_loop)
  also have "\<dots> = delete_where (user_job t u) (jobs s)"
    unfolding delete_where_def
  proof (rule filter_cong [OF refl])
    fix r assume r: "r \<in> set (jobs s)"
    have "row = r" if "row \<in> set (jobs s)" "jb_id r = jb_id row" for row
      using unique_onD [OF assms(1)] that r by metis
    then show "(\<not> (jb_tenant_id r = t \<and> (\<exists>row \<in> set (select_where (\<lambda>r. jb_tenant_id r = t) (jobs s)).
        json_get (jb_payload row) ''userId'' = Some (JStr u) \<and> jb_id r = jb_id row))) = (\<not> user_job t u r)"
      using r by (auto simp: user_job_def set_select_where)
  qed
  finally show ?thesis .
qed

lemma delete_jobs_total: "\<exists>n s'. delete_jobs t u s = (Inr n, s') \<and> audit_events s' = audit_events s"
proof -
  let ?f = "\<lambda>row. if json_get (jb_payload row) ''userId'' = Some (JStr u) then delete_job t (jb_id row) else retE 0"
  have "\<exists>n s'. sumE ?f rows s = (Inr n, s') \<and> audit_events s' = audit_events s" for rows s
  proof (induction rows arbitrary: s)
    case Nil
    then show ?case by (simp add: effect_simps)
  next
    case (Cons row rows)
    obtain m s1 where "?f row s = (Inr m, s1)" "audit_events s1 = audit_events s"
      by (cases "json_get (jb_payload row) ''userId'' = Some (JStr u)") (simp_all add: delete_job_def Let_def effect_simps)
    moreover obtain n s2 where "sumE ?f rows s1 = (Inr n, s2)" "audit_events s2 = audit_events s1"
      using Cons.IH by blast
    ultimately have "sumE ?f (row # rows) s = (Inr (m + n), s2)" "audit_events s2 = audit_events s"
      by (simp_all only: sumE.simps bindE_def split_conv sum.case retE_def)
    then show ?case by blast
  qed
  then show ?thesis by (simp only: delete_jobs_def bindE_def getE_def split_conv sum.case)
qed

lemma logs_ok_delete_jobs [preserves_intros]: "preserves (logs_ok t u s0) (delete_jobs t u)"
  unfolding preserves_def
proof (intro allI impI)
  fix s :: store assume ok: "logs_ok t u s0 s"
  obtain n s' where run: "delete_jobs t u s = (Inr n, s')" and audit: "audit_events s' = audit_events s"
    using delete_jobs_total by blast
  have jobs: "jobs s' = delete_where (user_job t u) (jobs s)" using delete_jobs_exact [OF _ run] ok by blast
  then have "unique_on jb_id (jobs s')" using ok by (simp add: unique_on_delete_where)
  moreover have "filter (\<lambda>r. \<not> user_job t u r) (jobs s') = filter (\<lambda>r. \<not> user_job t u r) (jobs s)"
    by (simp add: jobs delete_where_def)
  ultimately show "logs_ok t u s0 (snd (delete_jobs t u s))" using ok by (simp add: run logs_spared_def audit)
qed


section \<open>The account erasure as a whole\<close>

text \<open>For a member the erasure is \<open>erase_member\<close> on the same tables.\<close>

lemma eraseAccount_member:
  assumes "membership_exists t u s" and "eraseAccount sha now t u op s = (Inr res, s')"
  obtains n k w where "erase_member sha now t u op (s\<lparr>transactionDepth := n\<rparr>) = (Inr res, w)"
    "s' = w\<lparr>transactionDepth := k\<rparr>"
proof -
  from assms(2) obtain n k w where "s' = w\<lparr>transactionDepth := k\<rparr>"
    and "bindE (getE (membership_exists t u)) (\<lambda>membership.
        if \<not> membership then retE emptyErasure else erase_member sha now t u op)
      (s\<lparr>transactionDepth := n\<rparr>) = (Inr res, w)"
    unfolding eraseAccount_def by (rule transaction_returns)
  then show thesis using assms(1) by (intro that [of n w k]) (simp_all add: bindE_def effect_simps)
qed

lemma erase_member_account:
  assumes "erase_member sha now t u op s = (Inr res, s')"
  shows "\<forall>r \<in> set (sessions s'). \<not> (ss_tenant_id r = t \<and> ss_user_id r = u)"
    and "\<forall>r \<in> set (credentials s'). \<not> (cr_tenant_id r = t \<and> cr_user_id r = u)"
    and "\<forall>r \<in> set (source_version_contributors s'). \<not> contributor_of t u r"
    and "\<forall>r \<in> set (memberships s'). member_key r \<noteq> (t, u)"
    and "\<forall>r \<in> set (connector_state s'). \<not> (cs_tenant_id r = t \<and> (cs_scope r = u \<or> starts_with (cs_scope r) (u @ '':'')))"
proof -
  note run = assms
  show "\<forall>r \<in> set (sessions s'). \<not> (ss_tenant_id r = t \<and> ss_user_id r = u)"
    by (rule ensuresD [OF erase_member_removes run])
      (auto simp: account_shrinks_def ensures_def delete_sessions_def Let_def table_simps)
  show "\<forall>r \<in> set (credentials s'). \<not> (cr_tenant_id r = t \<and> cr_user_id r = u)"
    by (rule ensuresD [OF erase_member_removes run])
      (auto simp: account_shrinks_def ensures_def delete_credentials_def Let_def table_simps)
  show "\<forall>r \<in> set (source_version_contributors s'). \<not> contributor_of t u r"
    by (rule ensuresD [OF erase_member_removes run])
      (auto simp: account_shrinks_def ensures_def delete_contributions_def Let_def table_simps)
  show "\<forall>r \<in> set (memberships s'). member_key r \<noteq> (t, u)"
    by (rule ensuresD [OF erase_member_removes run])
      (auto simp: account_shrinks_def ensures_def delete_memberships_def Let_def table_simps)
  show "\<forall>r \<in> set (connector_state s'). \<not> (cs_tenant_id r = t \<and> (cs_scope r = u \<or> starts_with (cs_scope r) (u @ '':'')))"
    by (rule ensuresD [OF erase_member_removes run])
      (auto simp: account_shrinks_def ensures_def delete_connector_states_def Let_def table_simps like_scope)
qed

lemma erase_member_identity:
  "ensures (\<lambda>s. exists_row (\<lambda>r. mb_user_id r = u) (memberships s) \<or> (\<forall>r \<in> set (users s). us_id r \<noteq> u))
     (erase_member sha now t u op)"
proof -
  let ?Q = "\<lambda>s :: store. exists_row (\<lambda>r. mb_user_id r = u) (memberships s) \<or> (\<forall>r \<in> set (users s). us_id r \<noteq> u)"
  have "ensures ?Q (delete_identity u)"
    by (auto simp: ensures_def delete_identity_def delete_user_def bindE_Inr_iff effect_simps table_simps)
  moreover have job: "preserves ?Q (insert_job_row row)" for row
    by (simp add: insert_job_row_def preserves_def)
  moreover have "preserves ?Q (insert_reconciliations sha t u op createdAt os)" for createdAt os
    by (induction os) (simp_all only: insert_reconciliations.simps, (intro preserves_intros job | assumption)+)
  moreover have "preserves ?Q (insert_audit_row row)" for row
    by (auto simp: insert_audit_row_def preserves_def)
  ultimately show ?thesis
    unfolding erase_member_def Let_def
    by - (((rule ensures_first, assumption) | rule ensures_rest | rule ensures_case_prod)+; intro preserves_intros)
qed

text \<open>C25. A successful erasure of a member, on a consistent store, leaves in the tenant no session, credential,
  contribution, membership, job, override or audit event of that user, and no connector state whose scope is the
  user or the user and a group (\<open>u:group\<close>) or that belongs to the user. There is nothing left to export, and when
  the user is no member of another tenant the identity is gone too.\<close>

theorem erase_removes_account:
  assumes "db_ok s" and "membership_exists t u s" and "eraseAccount sha now t u op s = (Inr res, s')"
  shows "(\<forall>r \<in> set (sessions s'). \<not> (ss_tenant_id r = t \<and> ss_user_id r = u)) \<and>
    (\<forall>r \<in> set (credentials s'). \<not> (cr_tenant_id r = t \<and> cr_user_id r = u)) \<and>
    (\<forall>r \<in> set (source_version_contributors s'). \<not> contributor_of t u r) \<and>
    (\<forall>r \<in> set (memberships s'). member_key r \<noteq> (t, u)) \<and>
    (\<forall>r \<in> set (connector_state s'). cs_tenant_id r = t \<longrightarrow> cs_scope r \<noteq> u \<and>
       \<not> starts_with (cs_scope r) (u @ '':'') \<and> cs_owner_user_id r \<noteq> Some u) \<and>
    (\<forall>r \<in> set (jobs s'). \<not> user_job t u r) \<and>
    (\<forall>r \<in> set (opportunity_overrides s'). \<not> (ov_tenant_id r = t \<and> ov_actor_id r = u)) \<and>
    (\<forall>r \<in> set (audit_events s'). \<not> (au_tenant_id r = t \<and> au_actor_id r = Some u)) \<and>
    exportAccount later t u s' = None \<and>
    ((\<exists>m \<in> set (memberships s'). mb_user_id m = u) \<or> (\<forall>r \<in> set (users s'). us_id r \<noteq> u))"
proof -
  obtain n k w where run: "erase_member sha now t u op (s\<lparr>transactionDepth := n\<rparr>) = (Inr res, w)"
    and s': "s' = w\<lparr>transactionDepth := k\<rparr>"
    by (rule eraseAccount_member [OF assms(2,3)])
  have "find_member t u s' = None"
    using erase_member_account(4) [OF run] by (simp add: s' find_member_def select_first_None)
  then have export: "exportAccount later t u s' = None"
    by (simp add: exportAccount_def split: option.splits)
  have "db_ok (s\<lparr>transactionDepth := n\<rparr>)" using assms(1) by (simp add: db_ok_defs)
  then have "db_ok w" using run by (rule preservesD [OF db_ok_erase_member])
  then have owner: "cs_tenant_id r = t \<longrightarrow> cs_owner_user_id r \<noteq> Some u" if "r \<in> set (connector_state w)" for r
    using that erase_member_account(4) [OF run] by (fastforce simp: db_ok_def account_refs_ok_def owner_ok_def)
  show ?thesis
    using erase_member_account [OF run] ensuresD [OF erase_member_jobs run] owner export
      ensuresD [OF erase_member_overrides run] ensuresD [OF erase_member_activity run]
      ensuresD [OF erase_member_identity run]
    by (simp add: s' exists_row_iff)
qed

text \<open>C26. An erasure deletes exactly the private source versions to which no one else of the tenant
  contributed, and exactly the claims extracted from them; everything else of the evidence stays.\<close>

theorem erase_exact_evidence:
  assumes "db_ok s" and "membership_exists t u s" and "eraseAccount sha now t u op s = (Inr res, s')"
  shows "source_versions s' = delete_where (sole_private t u s) (source_versions s) \<and>
    claims s' = delete_where (\<lambda>c. \<exists>v \<in> set (source_versions s). sole_private t u s v \<and>
      sv_id v = cl_source_version_id c) (claims s)"
proof -
  obtain n k w where run: "erase_member sha now t u op (s\<lparr>transactionDepth := n\<rparr>) = (Inr res, w)"
    and s': "s' = w\<lparr>transactionDepth := k\<rparr>"
    by (rule eraseAccount_member [OF assms(2,3)])
  obtain x s1 where ev: "erase_evidence t u (s\<lparr>transactionDepth := n\<rparr>) = (Inr x, s1)"
    and same: "evidence_tables w = evidence_tables s1" using erase_member_evidence [OF run] by blast
  have "unique_on sv_id (source_versions (s\<lparr>transactionDepth := n\<rparr>))"
    using assms(1) by (simp add: db_ok_def keys_ok_def)
  moreover have "sole_private t u (s\<lparr>transactionDepth := n\<rparr>) = sole_private t u s"
    by (simp add: fun_eq_iff sole_private_def)
  ultimately show ?thesis using erase_evidence_effect [OF ev] same by (simp add: s')
qed






text \<open>C28. The account of a member who has authored an override can never be erased: clearing the author
  violates the \<open>not null\<close> constraint of the column, the erasure throws and the transaction leaves the
  store as it was.\<close>

theorem erase_blocked_by_override:
  assumes "transactionDepth s = 0" and "membership_exists t u s"
    and "exists_row (\<lambda>r. ov_tenant_id r = t \<and> ov_actor_id r = u) (opportunity_overrides s)"
  shows "\<exists>e. eraseAccount sha now t u op s = (Inl e, s)"
proof -
  let ?body = "bindE (getE (membership_exists t u)) (\<lambda>membership.
    if \<not> membership then retE emptyErasure else erase_member sha now t u op)"
  obtain res s' where run: "eraseAccount sha now t u op s = (res, s')" by fastforce
  have "res \<noteq> Inr x" for x
  proof
    assume "res = Inr x"
    with run have ok: "eraseAccount sha now t u op s = (Inr x, s')" by simp
    obtain n k w where em: "erase_member sha now t u op (s\<lparr>transactionDepth := n\<rparr>) = (Inr x, w)"
      by (rule eraseAccount_member [OF assms(2) ok])
    have "opportunity_overrides w = opportunity_overrides s"
      using erase_member_frame(3) [of sha now t u op "s\<lparr>transactionDepth := n\<rparr>"] em by simp
    then show False using ensuresD [OF erase_member_overrides em] assms(3) by (auto simp: exists_row_iff)
  qed
  then obtain e where e: "res = Inl e" by (cases res) auto
  have "keeps_depth ?body"
    by (intro allI preserves_intros preserves_value) (simp_all add: erase_member_frame)
  then have "s' = s" using transaction_rollback assms(1) run e unfolding eraseAccount_def by blast
  then show ?thesis using run e by blast
qed

text \<open>What an export lists of a user's contributions are versions that the user contributed to in
  that tenant, and for private sources it gives neither title nor address.\<close>

lemma export_contributions_own:
  assumes "exportAccount now t u s = Some e" and "x \<in> set (exp_contributions e)"
  shows "(\<exists>c \<in> set (source_version_contributors s). ct_tenant_id c = t \<and> ct_user_id c = u \<and>
      ct_source_version_id c = xn_sourceVersionId x) \<and>
    (xn_sourceType x \<in> {gmail, groupme, screenshot} \<longrightarrow> xn_title x = None \<and> xn_url x = None)"
proof -
  have "x \<in> set (exported_contributions t u s)"
    using assms by (auto simp: exportAccount_def split: option.splits prod.splits)
  then obtain c v r where x: "x = exported_contribution s (c, v, r)"
    and j: "(c, v, r) \<in> set (contribution_join
      (select_where (contributor_of t u) (source_version_contributors s)) s)"
    by (auto simp: exported_contributions_def)
  from j x show ?thesis
    by (auto simp: exported_contribution_def contribution_join_iff set_select_where contributor_of_def
        private_source_def PRIVATE_SOURCE_TYPES_def)
qed

section \<open>A concrete erasure\<close>

definition demo_version :: version_row where
  "demo_version = \<lparr>sv_id = ''v'', sv_source_id = ''s'', sv_tenant_id = ''t'', sv_organization_id = ''o'',
     sv_content_hash = [], sv_raw_text = [], sv_media = [], sv_published_at = None, sv_fetched_at = [],
     sv_metadata = JObj [], sv_status = succeeded, sv_attempt_count = 1, sv_next_attempt_at = None,
     sv_last_error = None, sv_started_at = None, sv_completed_at = None, sv_created_at = []\<rparr>"

definition demo_group_state :: connector_state_row where
  "demo_group_state = \<lparr>cs_tenant_id = ''t'', cs_connector = ''groupme'', cs_scope = ''usr_i:a:g'', cs_cursor = None,
     cs_metadata = JObj [], cs_owner_user_id = Some ''usr_i:a'', cs_updated_at = []\<rparr>"

definition demo_private :: store where
  "demo_private = demo_account\<lparr>sessions := [demo_session],
     organizations := [\<lparr>og_tenant_id = ''t'', og_id = ''o'', og_name = ''O'', og_school = ''S'',
       og_heel_life_url = None, og_website_url = None, og_instagram_handle = None,
       og_linkedin_url = None, og_created_at = [], og_updated_at = []\<rparr>],
     sources := [\<lparr>sr_id = ''s'', sr_tenant_id = ''t'', sr_organization_id = ''o'',
       sr_source_type = gmail, sr_identity_key = ''k'', sr_external_id = None, sr_url = None,
       sr_title = Some ''subject'', sr_created_at = [], sr_last_seen_at = []\<rparr>],
     source_versions := [demo_version],
     source_version_contributors := [\<lparr>ct_tenant_id = ''t'', ct_source_version_id = ''v'',
       ct_user_id = ''usr_i:a'', ct_created_at = []\<rparr>], connector_state := [demo_group_state]\<rparr>"

definition demo_override_row :: override_row where
  "demo_override_row = \<lparr>ov_id = ''w'', ov_tenant_id = ''t'', ov_opportunity_id = ''x'',
     ov_organization_id = ''o'', ov_actor_id = ''usr_i:a'', ov_patch = \<lparr>patch_title = None,
       patch_deadlineAt = None, patch_startsAt = None, patch_url = None, patch_stale = Some True\<rparr>,
     ov_reason = [], ov_created_at = [], ov_revoked_at = None\<rparr>"

lemmas demo_private_defs = demo_private_def demo_version_def demo_group_state_def demo_account_defs

lemma demo_private_ok: "db_ok demo_private"
  by (simp add: db_ok_defs demo_private_defs unique_on_def user_key_def member_key_def org_key_def
      source_org_def contributor_member_def owner_ok_def connector_key_def)

lemma demo_private_member: "membership_exists ''t'' ''usr_i:a'' demo_private"
  by (simp add: demo_private_defs member_key_def)

lemma demo_erasure: "\<exists>res s'. eraseAccount id 0 ''t'' ''usr_i:a'' ''op'' demo_private = (Inr res, s')"
  by (simp add: eraseAccount_def transaction_def erase_member_def erase_evidence_def Let_def bindE_def
      effect_simps demo_private_defs member_key_def contributed_def contribution_join_def
      contributor_of_def orphaned_def private_source_def PRIVATE_SOURCE_TYPES_def erasure_statements
      delete_jobs_def delete_identity_def delete_user_def clear_override_actor_def guardE_def table_defs
      reconcile_row_def stableId_def)

theorem erase_removes_account_witness:
  "\<exists>res s'. eraseAccount id 0 ''t'' ''usr_i:a'' ''op'' demo_private = (Inr res, s') \<and>
     exportAccount 0 ''t'' ''usr_i:a'' s' = None \<and> demo_group_state \<in> set (connector_state demo_private) \<and>
     demo_group_state \<notin> set (connector_state s')"
proof -
  obtain res s' where run: "eraseAccount id 0 ''t'' ''usr_i:a'' ''op'' demo_private = (Inr res, s')"
    using demo_erasure by blast
  have "cs_tenant_id demo_group_state = ''t''" "starts_with (cs_scope demo_group_state) (''usr_i:a'' @ '':'')"
    "demo_group_state \<in> set (connector_state demo_private)"
    by (simp_all add: demo_private_defs starts_with_def)
  with run erase_removes_account [OF demo_private_ok demo_private_member run] show ?thesis by blast
qed

theorem erase_exact_evidence_witness:
  "\<exists>res s'. eraseAccount id 0 ''t'' ''usr_i:a'' ''op'' demo_private = (Inr res, s') \<and>
     source_versions s' = []"
proof -
  have "delete_where (sole_private ''t'' ''usr_i:a'' demo_private) (source_versions demo_private) = []"
    by (simp add: delete_where_def sole_private_def demo_private_defs contributor_of_def private_source_def
        PRIVATE_SOURCE_TYPES_def)
  moreover obtain res s' where "eraseAccount id 0 ''t'' ''usr_i:a'' ''op'' demo_private = (Inr res, s')"
    using demo_erasure by blast
  moreover from this have "source_versions s' =
      delete_where (sole_private ''t'' ''usr_i:a'' demo_private) (source_versions demo_private)"
    using erase_exact_evidence [OF demo_private_ok demo_private_member] by blast
  ultimately show ?thesis by auto
qed


theorem erase_blocked_by_override_witness:
  "\<exists>e. eraseAccount id 0 ''t'' ''usr_i:a'' ''op'' (demo_private\<lparr>opportunity_overrides := [demo_override_row]\<rparr>) =
     (Inl e, demo_private\<lparr>opportunity_overrides := [demo_override_row]\<rparr>)"
  by (rule erase_blocked_by_override)
    (simp_all add: demo_private_defs demo_override_row_def member_key_def)

lemma export_contributions_own_witness:
  "\<exists>e x. exportAccount 0 ''t'' ''usr_i:a'' demo_private = Some e \<and> x \<in> set (exp_contributions e) \<and>
     xn_sourceType x = gmail \<and> xn_title x = None"
proof -
  have ex: "\<exists>e x. exportAccount 0 ''t'' ''usr_i:a'' demo_private = Some e \<and> exp_contributions e = [x] \<and>
      xn_sourceType x = gmail"
    by (simp add: exportAccount_def find_member_def select_first_def member_key_def demo_private_defs
        exported_contributions_def exported_contribution_def contribution_join_def select_where_def
        contributor_of_def order_by_desc_def)
  then obtain e x where e: "exportAccount 0 ''t'' ''usr_i:a'' demo_private = Some e" "exp_contributions e = [x]"
    "xn_sourceType x = gmail" by blast
  then show ?thesis using export_contributions_own [OF e(1), of x] by auto
qed

end
