(* ===== verification/JsonText.thy ===== *)
theory JsonText
  imports Domain
begin

text \<open>
  \<open>JSON.parse\<close> and \<open>parseJsonSafe\<close> of src/src/lib/util.ts, as the inverse of \<open>JSON.stringify\<close>. The
  database keeps structured columns as JSON text; the tables of the model hold the JSON values, which
  the round trip proved here justifies. Numbers are integers and texts are ASCII, keys of objects are
  not array indices. The fuel of the parser is bounded by twice the length of the text: every step that
  does not consume a character is followed by one that does.
\<close>

section \<open>The parser\<close>

definition json_space :: "char \<Rightarrow> bool" where
  "json_space c \<longleftrightarrow> of_char c \<in> {32::nat, 9, 10, 13}"

definition skip_ws :: "string \<Rightarrow> string" where
  "skip_ws s = dropWhile json_space s"

definition simple_escape :: "char \<Rightarrow> char option" where
  "simple_escape e =
     (if e = CHR 0x22 \<or> e = CHR 0x5C \<or> e = CHR ''/'' then Some e
      else if e = CHR ''b'' then Some (CHR 0x08) else if e = CHR ''f'' then Some (CHR 0x0C)
      else if e = CHR ''n'' then Some (CHR 0x0A) else if e = CHR ''r'' then Some (CHR 0x0D)
      else if e = CHR ''t'' then Some (CHR 0x09) else None)"

definition hex4 :: "string \<Rightarrow> char option" where
  "hex4 s = (case map hex_val (take 4 s) of
       [Some a, Some b, Some c, Some d] \<Rightarrow>
         (let n = 4096 * a + 256 * b + 16 * c + d in if n < 256 then Some (char_of n) else None)
     | _ \<Rightarrow> None)"

text \<open>The rest of a text literal, after its opening quote.\<close>

function parse_string :: "string \<Rightarrow> (string \<times> string) option" where
  "parse_string s =
     (case s of [] \<Rightarrow> None
      | c # t \<Rightarrow>
        if c = CHR 0x22 then Some ([], t)
        else if c = CHR 0x5C then
          (case t of [] \<Rightarrow> None
           | e # u \<Rightarrow>
             if e = CHR ''u'' then
               (case hex4 u of None \<Rightarrow> None
                | Some x \<Rightarrow> map_option (apfst (Cons x)) (parse_string (drop 4 u)))
             else (case simple_escape e of None \<Rightarrow> None
                | Some x \<Rightarrow> map_option (apfst (Cons x)) (parse_string u)))
        else if of_char c < (32::nat) then None
        else map_option (apfst (Cons c)) (parse_string t))"
  by pat_completeness auto
termination
  by (relation "measure length") auto

declare parse_string.simps [simp del]

definition parse_number :: "string \<Rightarrow> (json \<times> string) option" where
  "parse_number s =
     (let neg = (starts_with s ''-''); t = (if neg then tl s else s);
          ds = takeWhile is_digit t; r = dropWhile is_digit t in
      if ds = [] \<or> (length ds > 1 \<and> hd ds = CHR ''0'') then None
      else Some (JNum (if neg then - int (nat_of_digits ds) else int (nat_of_digits ds)), r))"

text \<open>A later member with the same key gives the value, the first gives the place.\<close>

definition obj_add :: "string \<Rightarrow> json \<Rightarrow> (string \<times> json) list \<Rightarrow> (string \<times> json) list" where
  "obj_add k v ms = (case map_of ms k of None \<Rightarrow> (k, v) # ms
     | Some w \<Rightarrow> (k, w) # filter (\<lambda>m. fst m \<noteq> k) ms)"

fun parse_value :: "nat \<Rightarrow> string \<Rightarrow> (json \<times> string) option"
  and parse_elements :: "nat \<Rightarrow> string \<Rightarrow> (json list \<times> string) option"
  and parse_members :: "nat \<Rightarrow> string \<Rightarrow> ((string \<times> json) list \<times> string) option" where
  "parse_value 0 s = None"
| "parse_value (Suc n) s =
     (case skip_ws s of [] \<Rightarrow> None
      | c # t \<Rightarrow>
        if c = CHR 0x22 then map_option (apfst JStr) (parse_string t)
        else if c = CHR ''['' then
          (if starts_with (skip_ws t) '']'' then Some (JArr [], tl (skip_ws t))
           else map_option (apfst JArr) (parse_elements n t))
        else if c = CHR ''{'' then
          (if starts_with (skip_ws t) ''}'' then Some (JObj [], tl (skip_ws t))
           else map_option (apfst JObj) (parse_members n t))
        else if starts_with (c # t) ''null'' then Some (JNull, drop 3 t)
        else if starts_with (c # t) ''true'' then Some (JBool True, drop 3 t)
        else if starts_with (c # t) ''false'' then Some (JBool False, drop 4 t)
        else parse_number (c # t))"
| "parse_elements 0 s = None"
| "parse_elements (Suc n) s =
     (case parse_value n s of None \<Rightarrow> None
      | Some (v, r) \<Rightarrow>
        (case skip_ws r of [] \<Rightarrow> None
         | c # q \<Rightarrow>
           if c = CHR '']'' then Some ([v], q)
           else if c = CHR '','' then map_option (apfst (Cons v)) (parse_elements n q) else None))"
| "parse_members 0 s = None"
| "parse_members (Suc n) s =
     (case skip_ws s of [] \<Rightarrow> None
      | d # t \<Rightarrow>
        if d \<noteq> CHR 0x22 then None
        else
        (case parse_string t of None \<Rightarrow> None
         | Some (k, r) \<Rightarrow>
           if \<not> starts_with (skip_ws r) '':'' then None
           else
           (case parse_value n (tl (skip_ws r)) of None \<Rightarrow> None
            | Some (v, p) \<Rightarrow>
              (case skip_ws p of [] \<Rightarrow> None
               | c # q \<Rightarrow>
                 if c = CHR ''}'' then Some ([(k, v)], q)
                 else if c = CHR '','' then map_option (apfst (obj_add k v)) (parse_members n q)
                 else None))))"

definition JSON_parse :: "string \<Rightarrow> json option" where
  "JSON_parse s = (case parse_value (2 * length s + 2) s of None \<Rightarrow> None
     | Some (v, r) \<Rightarrow> if skip_ws r = [] then Some v else None)"

definition parseJsonSafe :: "string \<Rightarrow> json \<Rightarrow> json" where
  "parseJsonSafe value fallback = (case JSON_parse value of None \<Rightarrow> fallback | Some v \<Rightarrow> v)"

section \<open>Text literals\<close>

lemma hex_val_digit [simp]: "n < 16 \<Longrightarrow> hex_val (hex_digit n) = Some n"
  by (auto simp: hex_val_def hex_digit_def Let_def)

lemma char_of_codes:
  "char_of (92::nat) = CHR 0x5C" "char_of (8::nat) = CHR 0x08" "char_of (12::nat) = CHR 0x0C"
  "char_of (10::nat) = CHR 0x0A" "char_of (13::nat) = CHR 0x0D" "char_of (9::nat) = CHR 0x09"
  by code_simp+

lemma of_char_code: "of_char c = (n::nat) \<Longrightarrow> c = char_of n"
  by (metis char_of_char)

lemma parse_string_simps [simp]:
  "parse_string (CHR 0x22 # t) = Some ([], t)"
  "parse_string (CHR 0x5C # CHR ''u'' # u) = (case hex4 u of None \<Rightarrow> None
     | Some x \<Rightarrow> map_option (apfst (Cons x)) (parse_string (drop 4 u)))"
  "e \<noteq> CHR ''u'' \<Longrightarrow> parse_string (CHR 0x5C # e # u) = (case simple_escape e of None \<Rightarrow> None
     | Some x \<Rightarrow> map_option (apfst (Cons x)) (parse_string u))"
  "c \<noteq> CHR 0x22 \<Longrightarrow> c \<noteq> CHR 0x5C \<Longrightarrow> (32::nat) \<le> of_char c \<Longrightarrow>
     parse_string (c # t) = map_option (apfst (Cons c)) (parse_string t)"
  by (subst parse_string.simps, simp)+

lemma take_drop_4 [simp]: "take 4 (a # b # c # d # s) = [a, b, c, d]" "drop 4 (a # b # c # d # s) = s"
  by (simp_all add: numeral_eq_Suc)

lemma hex4_escape:
  assumes "n < 32"
  shows "hex4 (CHR ''0'' # CHR ''0'' # hex_digit (n div 16) # hex_digit (n mod 16) # s) = Some (char_of n)"
proof -
  have "hex_val (CHR ''0'') = Some 0" by code_simp
  moreover have "n div 16 < 16" using assms by simp
  ultimately show ?thesis using assms by (simp add: hex4_def Let_def)
qed

lemma parse_escaped:
  "parse_string (escape_char c @ s) = map_option (apfst (Cons c)) (parse_string s)"
proof -
  let ?n = "of_char c :: nat"
  consider "c = CHR 0x22" | "?n = 92" | "?n = 8" | "?n = 12" | "?n = 10" | "?n = 13" | "?n = 9"
    | "c \<noteq> CHR 0x22" "?n < 32" "?n \<noteq> 8" "?n \<noteq> 12" "?n \<noteq> 10" "?n \<noteq> 13" "?n \<noteq> 9" "?n \<noteq> 92"
    | "c \<noteq> CHR 0x22" "32 \<le> ?n" "?n \<noteq> 92" by fastforce
  then show ?thesis
  proof cases
    case 8
    then show ?thesis using hex4_escape [of ?n s] by (simp add: escape_char_def Let_def char_of_codes)
  next
    case 9
    then have "c \<noteq> CHR 0x5C" by auto
    then show ?thesis using 9 by (simp add: escape_char_def Let_def)
  qed (auto dest!: of_char_code simp: escape_char_def Let_def char_of_codes simple_escape_def)
qed

lemma parse_quoted: "parse_string (concat (map escape_char t) @ CHR 0x22 # rest) = Some (t, rest)"
  by (induction t) (simp_all add: parse_escaped)

section \<open>Numbers\<close>

text \<open>What follows a value in a text.\<close>

definition value_end :: "string \<Rightarrow> bool" where
  "value_end r \<longleftrightarrow> r = [] \<or> hd r \<in> {CHR '','', CHR '']'', CHR ''}''}"

lemma value_end_simps [simp]:
  "value_end []" "value_end (CHR '','' # r)" "value_end (CHR '']'' # r)" "value_end (CHR ''}'' # r)"
  by (simp_all add: value_end_def)

lemma value_end_digit: "value_end r \<Longrightarrow> takeWhile is_digit r = [] \<and> dropWhile is_digit r = r"
  by (cases r) (auto simp: value_end_def is_digit_def)

lemma show_nat_hd: "0 < n \<Longrightarrow> hd (show_nat n) \<noteq> CHR ''0''"
proof (induction n rule: show_nat.induct)
  case (1 n)
  have zero: "CHR ''0'' = digit_char 0" by code_simp
  show ?case
  proof (cases "n < 10")
    case True
    then show ?thesis using 1(2) by (simp add: show_nat.simps [of n] zero)
  next
    case False
    then show ?thesis using 1(1) by (simp add: show_nat.simps [of n])
  qed
qed

lemma show_nat_zero: "show_nat 0 = ''0''"
  by code_simp

lemma digits_split:
  assumes "list_all is_digit ds" and "value_end r"
  shows "takeWhile is_digit (ds @ r) = ds" "dropWhile is_digit (ds @ r) = r"
  using assms value_end_digit [OF assms(2)]
  by (simp_all add: list_all_iff takeWhile_append2 dropWhile_append2)

lemma parse_show_nat:
  assumes "value_end r"
  shows "parse_number (show_nat n @ r) = Some (JNum (int n), r)"
    and "parse_number (CHR ''-'' # show_nat n @ r) = Some (JNum (- int n), r)"
proof -
  have ok: "\<not> (show_nat n = [] \<or> (length (show_nat n) > 1 \<and> hd (show_nat n) = CHR ''0''))"
    using show_nat_hd [of n] by (cases "n = 0") (auto simp: show_nat_zero)
  have "hd (show_nat n) \<noteq> CHR ''-''"
    using show_nat_digits [of n] by (cases "show_nat n") (auto simp: is_digit_def)
  then have neg: "\<not> starts_with (show_nat n @ r) ''-''"
    by (cases "show_nat n") (auto simp: starts_with_iff)
  show "parse_number (show_nat n @ r) = Some (JNum (int n), r)"
    using ok neg by (simp add: parse_number_def Let_def digits_split [OF show_nat_digits assms])
  have "starts_with (CHR ''-'' # show_nat n @ r) ''-''" by (simp add: starts_with_iff)
  then show "parse_number (CHR ''-'' # show_nat n @ r) = Some (JNum (- int n), r)"
    using ok by (simp add: parse_number_def Let_def digits_split [OF show_nat_digits assms])
qed

lemma parse_show_int: "value_end r \<Longrightarrow> parse_number (show_int i @ r) = Some (JNum i, r)"
  by (simp add: show_int_def parse_show_nat)

section \<open>Values\<close>

fun wf_json :: "json \<Rightarrow> bool" where
  "wf_json (JArr xs) = list_all wf_json xs"
| "wf_json (JObj ms) = (distinct (map fst ms) \<and> list_all (\<lambda>(k, v). wf_json v) ms)"
| "wf_json v = True"

fun json_fuel :: "json \<Rightarrow> nat" where
  "json_fuel (JArr xs) = 2 + sum_list (map (\<lambda>v. Suc (json_fuel v)) xs)"
| "json_fuel (JObj ms) = 2 + sum_list (map (\<lambda>(k, v). Suc (json_fuel v)) ms)"
| "json_fuel v = 1"

definition member_text :: "string \<times> json \<Rightarrow> string" where
  "member_text = (\<lambda>(k, v). quote k @ '':'' @ stringify v)"

text \<open>The first character of a value.\<close>

lemma stringify_start: "\<exists>c t. stringify v = c # t \<and> \<not> json_space c \<and> c \<noteq> CHR '']'' \<and> c \<noteq> CHR ''}''"
proof -
  have digit: "\<exists>c t. show_nat n = c # t \<and> is_digit c" for n
    using show_nat_digits [of n] by (cases "show_nat n") auto
  have "is_digit c \<Longrightarrow> \<not> json_space c \<and> c \<noteq> CHR '']'' \<and> c \<noteq> CHR ''}''" for c
    by (auto simp: is_digit_def json_space_def)
  then have "\<exists>c t. show_nat n = c # t \<and> \<not> json_space c \<and> c \<noteq> CHR '']'' \<and> c \<noteq> CHR ''}''" for n
    using digit by metis
  then show ?thesis
    by (cases v) (auto simp: show_int_def quote_def json_space_def)
qed

lemma skip_ws_Cons: "\<not> json_space c \<Longrightarrow> skip_ws (c # t) = c # t"
  by (simp add: skip_ws_def)

lemma skip_ws_marks [simp]:
  "skip_ws (CHR '','' # r) = CHR '','' # r" "skip_ws (CHR '']'' # r) = CHR '']'' # r"
  "skip_ws (CHR ''}'' # r) = CHR ''}'' # r" "skip_ws (CHR '':'' # r) = CHR '':'' # r"
  "skip_ws (CHR 0x22 # r) = CHR 0x22 # r" "skip_ws (CHR ''['' # r) = CHR ''['' # r"
  "skip_ws (CHR ''{'' # r) = CHR ''{'' # r" "skip_ws [] = []"
  by (simp_all add: skip_ws_def json_space_def)

lemma skip_ws_value [simp]: "skip_ws (stringify v @ r) = stringify v @ r"
  using stringify_start [of v] by (auto simp: skip_ws_def)

definition parses :: "json \<Rightarrow> bool" where
  "parses v \<longleftrightarrow> (\<forall>n r. json_fuel v \<le> n \<longrightarrow> value_end r \<longrightarrow> parse_value n (stringify v @ r) = Some (v, r))"

lemma parse_elements_join:
  assumes "\<forall>v \<in> set xs. parses v" and "xs \<noteq> []" and "sum_list (map (\<lambda>v. Suc (json_fuel v)) xs) \<le> n"
  shows "parse_elements n (join_with '','' (map stringify xs) @ CHR '']'' # r) = Some (xs, r)"
  using assms
proof (induction xs arbitrary: n)
  case (Cons x xs)
  then obtain m where n: "n = Suc m" by (cases n) auto
  have x: "value_end q \<Longrightarrow> parse_value m (stringify x @ q) = Some (x, q)" for q
    using Cons.prems n by (simp add: parses_def)
  show ?case
  proof (cases xs)
    case Nil
    then show ?thesis using x [of "CHR '']'' # r"] by (simp add: n)
  next
    case (Cons y ys)
    have "parse_elements m (join_with '','' (map stringify xs) @ CHR '']'' # r) = Some (xs, r)"
      using Cons.IH Cons.prems n Cons by simp
    then show ?thesis using x [of "CHR '','' # join_with '','' (map stringify xs) @ CHR '']'' # r"] Cons
      by (simp add: n)
  qed
qed simp

lemma obj_add_new: "k \<notin> fst ` set ms \<Longrightarrow> obj_add k v ms = (k, v) # ms"
  using map_of_eq_None_iff [of ms k] by (simp add: obj_add_def)

lemma parse_members_join:
  assumes "\<forall>m \<in> set ms. parses (snd m)" and "ms \<noteq> []" and "distinct (map fst ms)"
    and "sum_list (map (\<lambda>(k, v). Suc (json_fuel v)) ms) \<le> n"
  shows "parse_members n (join_with '','' (map member_text ms) @ CHR ''}'' # r) = Some (ms, r)"
  using assms
proof (induction ms arbitrary: n)
  case (Cons m ms)
  obtain k v where m: "m = (k, v)" by fastforce
  from Cons.prems obtain l where n: "n = Suc l" by (cases n) (auto simp: m)
  have v: "value_end q \<Longrightarrow> parse_value l (stringify v @ q) = Some (v, q)" for q
    using Cons.prems n by (simp add: parses_def m)
  have head: "member_text m @ q = CHR 0x22 # concat (map escape_char k) @ CHR 0x22 # CHR '':'' # stringify v @ q" for q
    by (simp add: member_text_def m quote_def)
  show ?case
  proof (cases ms)
    case Nil
    then show ?thesis using v [of "CHR ''}'' # r"] head
      by (simp add: n parse_quoted m starts_with_iff)
  next
    case (Cons y ys)
    have "parse_members l (join_with '','' (map member_text ms) @ CHR ''}'' # r) = Some (ms, r)"
      using Cons.IH Cons.prems n Cons by (simp add: m)
    moreover have "obj_add k v ms = (k, v) # ms" using Cons.prems by (simp add: m obj_add_new)
    ultimately show ?thesis
      using v [of "CHR '','' # join_with '','' (map member_text ms) @ CHR ''}'' # r"] head Cons
      by (simp add: n parse_quoted m starts_with_iff)
  qed
qed simp

lemma join_start:
  assumes "xs \<noteq> []" and "hd xs = c # t"
  shows "\<exists>u. join_with sep xs @ r = c # u"
  using assms by (cases xs; cases "tl xs") auto

lemma show_int_start: "\<exists>c t. show_int i = c # t \<and> (c = CHR ''-'' \<or> is_digit c)"
  using show_nat_digits [of "nat i"] by (cases "i < 0"; cases "show_nat (nat i)") (auto simp: show_int_def)

text \<open>A value parses back, before anything that may follow a value.\<close>

lemma parse_stringify: "wf_json v \<Longrightarrow> parses v"
proof (induction v rule: stringify.induct)
  case 1
  show ?case unfolding parses_def
    by (intro allI impI, rename_tac n r, case_tac n) (auto simp: skip_ws_def json_space_def starts_with_iff)
next
  case (2 b)
  show ?case unfolding parses_def
    by (intro allI impI, rename_tac n r, case_tac n) (auto simp: skip_ws_def json_space_def starts_with_iff)
next
  case (3 i)
  show ?case unfolding parses_def
  proof (intro allI impI)
    fix n r assume "json_fuel (JNum i) \<le> n" and r: "value_end r"
    then obtain m where n: "n = Suc m" by (cases n) auto
    obtain c t where ct: "show_int i = c # t" and c: "c = CHR ''-'' \<or> is_digit c"
      using show_int_start by blast
    have "skip_ws (c # t @ r) = c # t @ r" "c \<noteq> CHR 0x22" "c \<noteq> CHR ''[''" "c \<noteq> CHR ''{''"
      "c \<noteq> CHR ''n''" "c \<noteq> CHR ''t''" "c \<noteq> CHR ''f''"
      using skip_ws_value [of "JNum i" r] ct c by (auto simp: is_digit_def)
    then show "parse_value n (stringify (JNum i) @ r) = Some (JNum i, r)"
      using parse_show_int [OF r, of i] by (simp add: n ct starts_with_iff)
  qed
next
  case (4 s)
  show ?case unfolding parses_def
    by (intro allI impI, rename_tac n r, case_tac n) (auto simp: quote_def parse_quoted)
next
  case (5 xs)
  have el: "\<forall>v \<in> set xs. parses v" using 5 by (simp add: list_all_iff)
  show ?case unfolding parses_def
  proof (intro allI impI)
    fix n r assume f: "json_fuel (JArr xs) \<le> n" and r: "value_end r"
    then obtain m where n: "n = Suc m" by (cases n) auto
    show "parse_value n (stringify (JArr xs) @ r) = Some (JArr xs, r)"
    proof (cases "xs = []")
      case False
      obtain c t where ct: "stringify (hd xs) = c # t" "\<not> json_space c" "c \<noteq> CHR '']''"
        using stringify_start by metis
      obtain u where u: "join_with '','' (map stringify xs) @ CHR '']'' # r = c # u"
        using join_start [of "map stringify xs" c t "'',''"] ct(1) False by (auto simp: hd_map)
      have "\<not> starts_with (skip_ws (join_with '','' (map stringify xs) @ CHR '']'' # r)) '']''"
        using ct by (simp add: u skip_ws_Cons starts_with_iff)
      then show ?thesis using parse_elements_join [OF el False, of m r] f by (simp add: n)
    qed (simp add: n starts_with_iff)
  qed
next
  case (6 ms)
  have el: "\<forall>m \<in> set ms. parses (snd m)" using 6 by (auto simp: list_all_iff)
  have shape: "stringify (JObj ms) = CHR ''{'' # join_with '','' (map member_text ms) @ ''}''"
    by (simp add: member_text_def)
  show ?case unfolding parses_def
  proof (intro allI impI)
    fix n r assume f: "json_fuel (JObj ms) \<le> n" and r: "value_end r"
    then obtain m where n: "n = Suc m" by (cases n) auto
    show "parse_value n (stringify (JObj ms) @ r) = Some (JObj ms, r)"
    proof (cases "ms = []")
      case False
      have "\<exists>t. member_text (hd ms) = CHR 0x22 # t" by (simp add: member_text_def quote_def split: prod.splits)
      then obtain u where u: "join_with '','' (map member_text ms) @ CHR ''}'' # r = CHR 0x22 # u"
        using join_start [of "map member_text ms" "CHR 0x22" _ "'',''"] False by (auto simp: hd_map)
      have "\<not> starts_with (skip_ws (join_with '','' (map member_text ms) @ CHR ''}'' # r)) ''}''"
        by (simp add: u starts_with_iff)
      then show ?thesis using parse_members_join [OF el False, of m r] f 6(2)
        by (simp add: n shape del: stringify.simps)
    qed (simp add: n starts_with_iff)
  qed
qed

section \<open>The fuel\<close>

lemma join_length:
  "xs \<noteq> [] \<Longrightarrow> Suc (length (join_with '','' xs)) = sum_list (map (\<lambda>x. Suc (length x)) xs)"
  by (induction "'',''" xs rule: join_with.induct) auto

lemma sum_fuel:
  assumes "\<And>x. x \<in> set xs \<Longrightarrow> f x \<le> 2 * g x"
  shows "sum_list (map (\<lambda>x. Suc (f x)) xs) \<le> 2 * sum_list (map (\<lambda>x. Suc (g x)) xs)"
  using assms by (induction xs) force+

lemma quote_length: "2 \<le> length (quote s)"
  by (simp add: quote_def)

lemma json_fuel_length: "json_fuel v \<le> 2 * length (stringify v)"
proof (induction v rule: stringify.induct)
  case (3 i)
  then show ?case using show_int_start [of i] by auto
next
  case (4 s)
  then show ?case using quote_length [of s] by simp
next
  case (5 xs)
  have "sum_list (map (\<lambda>v. Suc (json_fuel v)) xs) \<le> 2 * sum_list (map (\<lambda>v. Suc (length (stringify v))) xs)"
    using 5 by (rule sum_fuel)
  then show ?case using join_length [of "map stringify xs"] by (cases "xs = []") (simp_all add: o_def)
next
  case (6 ms)
  have "Suc (json_fuel v) \<le> 2 * Suc (length (member_text (k, v)))" if "(k, v) \<in> set ms" for k v
    using 6 [OF that refl] by (simp add: member_text_def)
  then have "sum_list (map (\<lambda>m. Suc (json_fuel (snd m))) ms) \<le> 2 * sum_list (map (\<lambda>m. Suc (length (member_text m))) ms)"
    by (intro sum_fuel) (force simp: member_text_def dest: 6)
  moreover have "(\<lambda>(k, v). Suc (json_fuel v)) = (\<lambda>m :: string \<times> json. Suc (json_fuel (snd m)))" by auto
  ultimately show ?case using join_length [of "map member_text ms"]
    by (cases "ms = []") (simp_all add: o_def member_text_def case_prod_beta)
qed simp_all

lemma JSON_parse_stringify:
  assumes "wf_json v"
  shows "JSON_parse (stringify v) = Some v"
proof -
  have "parse_value (2 * length (stringify v) + 2) (stringify v @ []) = Some (v, [])"
    using parse_stringify [OF assms] trans_le_add1 [OF json_fuel_length [of v], of 2] value_end_simps(1)
    unfolding parses_def by blast
  then show ?thesis by (simp add: JSON_parse_def)
qed

lemma distinct_obj_add: "distinct (map fst ms) \<Longrightarrow> distinct (map fst (obj_add k v ms))"
proof -
  assume d: "distinct (map fst ms)"
  have "distinct (map fst (filter (\<lambda>m. fst m \<noteq> k) ms))" using d by (simp add: distinct_map_filter)
  then show ?thesis using d map_of_eq_None_iff [of ms k] by (auto simp: obj_add_def split: option.splits)
qed

lemma set_obj_add: "m \<in> set (obj_add k v ms) \<Longrightarrow> m = (k, v) \<or> m \<in> set ms"
  by (auto simp: obj_add_def split: option.splits dest: map_of_SomeD)

text \<open>Every value the parser gives has distinct keys.\<close>

lemma parse_wf:
  "parse_value n s = Some (v, r) \<Longrightarrow> wf_json v"
  "parse_elements n s = Some (vs, r) \<Longrightarrow> list_all wf_json vs"
  "parse_members n s = Some (ms, r) \<Longrightarrow> distinct (map fst ms) \<and> list_all (\<lambda>(k, v). wf_json v) ms"
proof (induction n s and n s and n s arbitrary: v r and vs r and ms r
    rule: parse_value_parse_elements_parse_members.induct)
  case (2 n s)
  then show ?case
    by (auto simp: parse_number_def Let_def split: list.splits if_splits)
next
  case (4 n s)
  obtain w q c z where w: "parse_value n s = Some (w, q)" "skip_ws q = c # z"
    using 4(3) by (auto split: option.splits list.splits prod.splits)
  show ?case using 4(1) [OF w(1)] 4(2) [OF w(1) refl w(2)] 4(3) w by (auto split: if_splits)
next
  case (6 n s)
  obtain t k q w p c z where t: "skip_ws s = CHR 0x22 # t" "parse_string t = Some (k, q)"
      "starts_with (skip_ws q) '':''" "parse_value n (tl (skip_ws q)) = Some (w, p)" "skip_ws p = c # z"
    using 6(3) by (auto split: option.splits list.splits prod.splits if_splits)
  have w: "wf_json w" using 6(1) t by simp
  show ?case
  proof (cases "c = CHR ''}''")
    case True
    then show ?thesis using 6(3) t w by auto
  next
    case False
    then obtain ns where ns: "c = CHR '',''" "parse_members n z = Some (ns, r)" "ms = obj_add k w ns"
      using 6(3) t by (auto split: if_splits)
    have "distinct (map fst ns) \<and> list_all (\<lambda>(k, v). wf_json v) ns" using 6(2) t ns False by simp
    then show ?thesis using w ns(3) distinct_obj_add set_obj_add by (fastforce simp: list_all_iff)
  qed
qed simp_all

lemma JSON_parse_wf: "JSON_parse s = Some v \<Longrightarrow> wf_json v"
  unfolding JSON_parse_def by (auto split: option.splits prod.splits if_splits simp del: parse_value.simps intro: parse_wf(1))

text \<open>C29. JSON values written by \<open>JSON.stringify\<close> are read back unchanged by \<open>parseJsonSafe\<close>, whatever
  its fallback, so that a JSON column holds the value that was stored.\<close>

theorem json_column_roundtrip:
  assumes "wf_json v"
  shows "parseJsonSafe (stringify v) fallback = v"
  using JSON_parse_stringify [OF assms] by (simp add: parseJsonSafe_def)

theorem json_column_roundtrip_witness:
  "parseJsonSafe (stringify (JObj [(''userId'', JStr ''u''), (''n'', JArr [JNum (- 3), JNull])])) JNull =
     JObj [(''userId'', JStr ''u''), (''n'', JArr [JNum (- 3), JNull])]"
  by (rule json_column_roundtrip) simp

end
