(* ===== verification/Credentials.thy ===== *)
theory Credentials
  imports Privacy JsonText
begin

text \<open>
  Provider credentials: the ports src/src/application/ports/credential-repository.ts and
  credential-vault.ts, src/src/infrastructure/credentials/sqlite-credential-repository.ts and
  encrypted-credential-vault.ts, the audit log src/src/infrastructure/observability/sqlite-audit-log.ts,
  the token handling of src/src/infrastructure/auth/provider-oauth-service.ts and
  src/src/application/connectors/refreshing-credential-service.ts. AES-256-GCM is the parameter
  \<open>gcm\<close>, the random nonce an argument of \<open>put\<close>, the answer of the token endpoint an argument of the
  OAuth operations. A plain text is the list of its characters, a payload the list of its bytes.
\<close>

section \<open>The repository of encrypted credentials\<close>

record StoredCredential =
  sc_id :: string
  sc_tenantId :: string
  sc_userId :: string
  sc_provider :: string
  sc_encryptedPayload :: "nat list"
  sc_keyVersion :: string
  sc_scopes :: "string list"
  sc_expiresAt :: "string option"
  sc_revokedAt :: "string option"

record 's credential_repository =
  cred_save :: "int \<Rightarrow> StoredCredential \<Rightarrow> (error, 's, unit) op"
  cred_find :: "string \<Rightarrow> string \<Rightarrow> string \<Rightarrow> 's \<Rightarrow> StoredCredential option"
  cred_revoke :: "(nat \<Rightarrow> int) \<Rightarrow> string \<Rightarrow> string \<Rightarrow> string \<Rightarrow> (error, 's, unit) op"

definition credential_row_of :: "int \<Rightarrow> StoredCredential \<Rightarrow> credential_row" where
  "credential_row_of now value = \<lparr>cr_id = sc_id value, cr_tenant_id = sc_tenantId value,
     cr_user_id = sc_userId value, cr_provider = sc_provider value,
     cr_encrypted_payload = sc_encryptedPayload value, cr_key_version = sc_keyVersion value,
     cr_scopes = sc_scopes value, cr_expires_at = sc_expiresAt value, cr_revoked_at = None,
     cr_created_at = nowIso now, cr_updated_at = nowIso now\<rparr>"

definition credential_save :: "int \<Rightarrow> StoredCredential \<Rightarrow> unit store_op" where
  "credential_save now value s =
     (let row = credential_row_of now value in
      if exists_row (\<lambda>r. credential_key r = credential_key row) (credentials s) then
        (Inr (), s\<lparr>credentials := update_where (\<lambda>r. credential_key r = credential_key row)
          (\<lambda>r. r\<lparr>cr_encrypted_payload := cr_encrypted_payload row, cr_key_version := cr_key_version row,
             cr_scopes := cr_scopes row, cr_expires_at := cr_expires_at row, cr_revoked_at := None,
             cr_updated_at := cr_updated_at row\<rparr>) (credentials s)\<rparr>)
      else if exists_row (\<lambda>r. cr_id r = cr_id row) (credentials s) then
        (Inl (SqlError (UniqueViolation ''credentials.id'')), s)
      else if \<not> tenant_exists (cr_tenant_id row) s \<or> \<not> user_exists (cr_user_id row) s then
        (Inl (SqlError (ForeignKeyViolation ''credentials'')), s)
      else (Inr (), s\<lparr>credentials := credentials s @ [row]\<rparr>))"

definition stored_credential_of :: "credential_row \<Rightarrow> StoredCredential" where
  "stored_credential_of row = \<lparr>sc_id = cr_id row, sc_tenantId = cr_tenant_id row,
     sc_userId = cr_user_id row, sc_provider = cr_provider row,
     sc_encryptedPayload = cr_encrypted_payload row, sc_keyVersion = cr_key_version row,
     sc_scopes = cr_scopes row, sc_expiresAt = text_or_undefined (cr_expires_at row),
     sc_revokedAt = text_or_undefined (cr_revoked_at row)\<rparr>"

definition credential_find :: "string \<Rightarrow> string \<Rightarrow> string \<Rightarrow> 'm db_scheme \<Rightarrow> StoredCredential option" where
  "credential_find tenantId userId provider s = map_option stored_credential_of
     (select_first (\<lambda>r. credential_key r = (tenantId, userId, provider)) (credentials s))"

definition credential_revoke :: "(nat \<Rightarrow> int) \<Rightarrow> string \<Rightarrow> string \<Rightarrow> string \<Rightarrow> unit store_op" where
  "credential_revoke clk tenantId userId provider = modifyE (\<lambda>s. s\<lparr>credentials := update_where
     (\<lambda>r. credential_key r = (tenantId, userId, provider))
     (\<lambda>r. r\<lparr>cr_revoked_at := Some (nowIso (clk 0)), cr_updated_at := nowIso (clk 1)\<rparr>) (credentials s)\<rparr>)"

definition sqlite_credentials :: "store credential_repository" where
  "sqlite_credentials = \<lparr>cred_save = credential_save, cred_find = credential_find,
     cred_revoke = credential_revoke\<rparr>"

section \<open>The encrypted vault\<close>

record ProviderCredential =
  pc_accessToken :: string
  pc_refreshToken :: "string option"
  pc_expiresAt :: "string option"
  pc_scopes :: "string list"
  pc_metadata :: "json option"

definition credential_json :: "ProviderCredential \<Rightarrow> json" where
  "credential_json c = JObj ([(''accessToken'', JStr (pc_accessToken c))] @
     (case pc_refreshToken c of None \<Rightarrow> [] | Some x \<Rightarrow> [(''refreshToken'', JStr x)]) @
     (case pc_expiresAt c of None \<Rightarrow> [] | Some x \<Rightarrow> [(''expiresAt'', JStr x)]) @
     [(''scopes'', JArr (map JStr (pc_scopes c)))] @
     (case pc_metadata c of None \<Rightarrow> [] | Some x \<Rightarrow> [(''metadata'', x)]))"

text \<open>The fields of a parsed object at their declared types.\<close>

definition json_texts :: "json option \<Rightarrow> string list" where
  "json_texts v = (case v of Some (JArr xs) \<Rightarrow> map js_String xs | _ \<Rightarrow> [])"

definition credential_of_json :: "json \<Rightarrow> ProviderCredential" where
  "credential_of_json v = \<lparr>pc_accessToken = nullish (json_text v ''accessToken'') [],
     pc_refreshToken = json_text v ''refreshToken'', pc_expiresAt = json_text v ''expiresAt'',
     pc_scopes = json_texts (json_get v ''scopes''), pc_metadata = json_get v ''metadata''\<rparr>"

text \<open>AES-256-GCM: \<open>gcm_seal key nonce aad text\<close> is the cipher text with its tag, \<open>gcm_open\<close> is
  \<open>None\<close> where the tag does not fit.\<close>

record gcm =
  gcm_seal :: "nat list \<Rightarrow> nat list \<Rightarrow> string \<Rightarrow> string \<Rightarrow> nat list \<times> nat list"
  gcm_open :: "nat list \<Rightarrow> nat list \<Rightarrow> string \<Rightarrow> nat list \<Rightarrow> nat list \<Rightarrow> string option"

record vault =
  vlt_key :: "nat list"
  vlt_keyVersion :: string

definition new_vault :: "(string \<Rightarrow> nat list) \<Rightarrow> string \<Rightarrow> string \<Rightarrow> error + vault" where
  "new_vault base64 keyBase64 keyVersion =
     (let key = base64 keyBase64 in
      if length key \<noteq> 32 then Inl (Error ''CREDENTIAL_MASTER_KEY must decode to exactly 32 bytes'')
      else Inr \<lparr>vlt_key = key, vlt_keyVersion = keyVersion\<rparr>)"

definition vault_aad :: "string \<Rightarrow> string \<Rightarrow> string \<Rightarrow> string" where
  "vault_aad tenantId userId provider = tenantId @ '':'' @ userId @ '':'' @ provider"

definition vault_put ::
    "'s credential_repository \<Rightarrow> (string \<Rightarrow> string) \<Rightarrow> gcm \<Rightarrow> vault \<Rightarrow> nat list \<Rightarrow> int \<Rightarrow> string \<Rightarrow> string \<Rightarrow>
       string \<Rightarrow> ProviderCredential \<Rightarrow> (error, 's, unit) op" where
  "vault_put repo sha g v nonce now tenantId userId provider credential =
     (let aad = vault_aad tenantId userId provider;
          (ciphertext, tag) = gcm_seal g (vlt_key v) nonce aad (stringify (credential_json credential)) in
      cred_save repo now \<lparr>sc_id = stableId sha ''cred'' aad, sc_tenantId = tenantId, sc_userId = userId,
        sc_provider = provider, sc_encryptedPayload = nonce @ tag @ ciphertext,
        sc_keyVersion = vlt_keyVersion v, sc_scopes = pc_scopes credential,
        sc_expiresAt = pc_expiresAt credential, sc_revokedAt = None\<rparr>)"

definition vault_get ::
    "'s credential_repository \<Rightarrow> gcm \<Rightarrow> vault \<Rightarrow> string \<Rightarrow> string \<Rightarrow> string \<Rightarrow>
       (error, 's, ProviderCredential option) op" where
  "vault_get repo g v tenantId userId provider =
     bindE (getE (cred_find repo tenantId userId provider)) (\<lambda>found.
       case found of None \<Rightarrow> retE None
       | Some stored \<Rightarrow>
         if sc_revokedAt stored \<noteq> None then retE None
         else if sc_keyVersion stored \<noteq> vlt_keyVersion v then
           throwE (Error ''Credential requires key rotation'')
         else
           (let payload = sc_encryptedPayload stored; nonce = take 12 payload;
                tag = take 16 (drop 12 payload); ciphertext = drop 28 payload in
            case gcm_open g (vlt_key v) nonce (vault_aad tenantId userId provider) tag ciphertext of
              None \<Rightarrow> throwE (Error ''Unsupported state or unable to authenticate data'')
            | Some plaintext \<Rightarrow>
              (case JSON_parse plaintext of None \<Rightarrow> throwE (Error ''Unexpected token in JSON'')
               | Some value \<Rightarrow> retE (Some (credential_of_json value)))))"

definition vault_revoke ::
    "'s credential_repository \<Rightarrow> (nat \<Rightarrow> int) \<Rightarrow> string \<Rightarrow> string \<Rightarrow> string \<Rightarrow> (error, 's, unit) op" where
  "vault_revoke repo clk tenantId userId provider = cred_revoke repo clk tenantId userId provider"

section \<open>The contract of the repository\<close>

text \<open>What the vault needs of \<open>AES-256-GCM\<close>, as documented: a sealed text opens under the same key,
  nonce and associated data, and a tag has 16 bytes.\<close>

definition gcm_correct :: "gcm \<Rightarrow> bool" where
  "gcm_correct g \<longleftrightarrow> (\<forall>key nonce aad plain ciphertext tag.
     gcm_seal g key nonce aad plain = (ciphertext, tag) \<longrightarrow>
       length tag = 16 \<and> gcm_open g key nonce aad tag ciphertext = Some plain)"

definition wf_credential :: "ProviderCredential \<Rightarrow> bool" where
  "wf_credential c \<longleftrightarrow> (case pc_metadata c of None \<Rightarrow> True | Some x \<Rightarrow> wf_json x)"

lemma credential_of_json_inverse: "credential_of_json (credential_json c) = c"
  by (cases c) (auto simp: credential_of_json_def credential_json_def json_text_def json_get_def
      json_texts_def o_def split: option.splits)

lemma wf_credential_json: "wf_credential c \<Longrightarrow> wf_json (credential_json c)"
  by (auto simp: wf_credential_def credential_json_def list_all_iff split: option.splits)

locale credential_store =
  fixes repo :: "'s credential_repository"
  assumes save_find: "cred_save repo now value s = (Inr (), s') \<Longrightarrow>
      \<exists>w. cred_find repo (sc_tenantId value) (sc_userId value) (sc_provider value) s' = Some w \<and>
        sc_encryptedPayload w = sc_encryptedPayload value \<and> sc_keyVersion w = sc_keyVersion value \<and>
        sc_revokedAt w = None"
    and save_other: "cred_save repo now value s = (r, s') \<Longrightarrow>
      (t, u, p) \<noteq> (sc_tenantId value, sc_userId value, sc_provider value) \<Longrightarrow>
      cred_find repo t u p s' = cred_find repo t u p s"
    and revoke_find: "cred_revoke repo clk t u p s = (r, s') \<Longrightarrow> cred_find repo t u p s' = Some w \<Longrightarrow>
      sc_revokedAt w \<noteq> None"
    and revoke_other: "cred_revoke repo clk t u p s = (r, s') \<Longrightarrow> (t', u', p') \<noteq> (t, u, p) \<Longrightarrow>
      cred_find repo t' u' p' s' = cred_find repo t' u' p' s"
begin

lemma get_depends:
  assumes "cred_find repo t u p s' = cred_find repo t u p s"
  shows "fst (vault_get repo g v t u p s') = fst (vault_get repo g v t u p s)"
  using assms by (simp add: vault_get_def bindE_def effect_simps Let_def split: option.splits)

lemma put_get:
  assumes g: "gcm_correct g" and n: "length nonce = 12" and c: "wf_credential c"
    and put: "vault_put repo sha g v nonce now t u p c s = (Inr (), s')"
  shows "vault_get repo g v t u p s' = (Inr (Some c), s')"
proof -
  obtain ct tag where seal: "gcm_seal g (vlt_key v) nonce (vault_aad t u p) (stringify (credential_json c)) = (ct, tag)"
    by fastforce
  then have tag: "length tag = 16"
    and opens: "gcm_open g (vlt_key v) nonce (vault_aad t u p) tag ct = Some (stringify (credential_json c))"
    using g unfolding gcm_correct_def by blast+
  obtain w where "cred_find repo t u p s' = Some w" "sc_encryptedPayload w = nonce @ tag @ ct"
    "sc_keyVersion w = vlt_keyVersion v" "sc_revokedAt w = None"
    using save_find put seal by (fastforce simp: vault_put_def)
  then show ?thesis
    using opens n tag JSON_parse_stringify [OF wf_credential_json [OF c]]
    by (simp add: vault_get_def bindE_def effect_simps credential_of_json_inverse)
qed

lemma put_other:
  assumes "vault_put repo sha g v nonce now t u p c s = (r, s')" and "(t', u', p') \<noteq> (t, u, p)"
  shows "fst (vault_get repo g v t' u' p' s') = fst (vault_get repo g v t' u' p' s)"
  by (rule get_depends) (use assms save_other in \<open>auto simp: vault_put_def Let_def split: prod.splits\<close>)

lemma revoke_get:
  assumes "vault_revoke repo clk t u p s = (r, s')"
  shows "vault_get repo g v t u p s' = (Inr None, s')"
  using revoke_find [OF assms [unfolded vault_revoke_def]]
  by (auto simp: vault_get_def bindE_def effect_simps split: option.splits)

end

section \<open>The SQLite repository keeps the contract\<close>

lemma credential_key_update [simp]:
  "credential_key (r\<lparr>cr_encrypted_payload := a\<rparr>) = credential_key r"
  "credential_key (r\<lparr>cr_key_version := b\<rparr>) = credential_key r"
  "credential_key (r\<lparr>cr_scopes := c\<rparr>) = credential_key r"
  "credential_key (r\<lparr>cr_expires_at := d\<rparr>) = credential_key r"
  "credential_key (r\<lparr>cr_revoked_at := e\<rparr>) = credential_key r"
  "credential_key (r\<lparr>cr_updated_at := f\<rparr>) = credential_key r"
  by (simp_all add: credential_key_def)

lemma nowIso_ne: "nowIso t \<noteq> []"
  by (simp add: nowIso_def toISOString_def)

lemma credential_save_cases:
  assumes "credential_save now stored s = (r, s')"
  shows "(r = Inr () \<and> s' = s\<lparr>credentials := credentials s @ [credential_row_of now stored]\<rparr> \<and>
      select_first (\<lambda>q. credential_key q = credential_key (credential_row_of now stored)) (credentials s) = None) \<or>
    (r = Inr () \<and> (\<exists>q. select_first (\<lambda>q. credential_key q = credential_key (credential_row_of now stored)) (credentials s) = Some q) \<and>
      s' = s\<lparr>credentials := update_where (\<lambda>q. credential_key q = credential_key (credential_row_of now stored))
        (\<lambda>q. q\<lparr>cr_encrypted_payload := sc_encryptedPayload stored, cr_key_version := sc_keyVersion stored,
           cr_scopes := sc_scopes stored, cr_expires_at := sc_expiresAt stored, cr_revoked_at := None,
           cr_updated_at := nowIso now\<rparr>) (credentials s)\<rparr>) \<or>
    (\<exists>e. r = Inl e \<and> s' = s)"
proof (cases "exists_row (\<lambda>q. credential_key q = credential_key (credential_row_of now stored)) (credentials s)")
  case True
  then have "select_first (\<lambda>q. credential_key q = credential_key (credential_row_of now stored)) (credentials s) \<noteq> None"
    by (auto simp: select_first_None exists_row_iff)
  then show ?thesis using assms True
    by (auto simp: credential_save_def Let_def credential_row_of_def)
next
  case False
  then have "select_first (\<lambda>q. credential_key q = credential_key (credential_row_of now stored)) (credentials s) = None"
    by (auto simp: select_first_None exists_row_iff)
  then show ?thesis using assms False by (auto simp: credential_save_def Let_def split: if_splits)
qed

lemma credential_row_key:
  "credential_key (credential_row_of now stored) = (sc_tenantId stored, sc_userId stored, sc_provider stored)"
  by (simp add: credential_key_def credential_row_of_def)

lemma credential_row_fields [simp]:
  "cr_encrypted_payload (credential_row_of now stored) = sc_encryptedPayload stored"
  "cr_key_version (credential_row_of now stored) = sc_keyVersion stored"
  "cr_revoked_at (credential_row_of now stored) = None"
  by (simp_all add: credential_row_of_def)

lemma select_key_update:
  assumes "\<And>r. credential_key (f r) = credential_key r"
  shows "select_first (\<lambda>q. credential_key q = k) (update_where (\<lambda>q. credential_key q = j) f t) =
    map_option (\<lambda>r. if k = j then f r else r) (select_first (\<lambda>q. credential_key q = k) t)"
proof -
  have "select_first (\<lambda>q. credential_key q = k) (update_where (\<lambda>q. credential_key q = j) f t) =
      map_option (\<lambda>r. if credential_key r = j then f r else r) (select_first (\<lambda>q. credential_key q = k) t)"
    by (rule select_first_update_where) (simp add: assms)
  also have "\<dots> = map_option (\<lambda>r. if k = j then f r else r) (select_first (\<lambda>q. credential_key q = k) t)"
    by (rule option.map_cong) (auto dest: select_first_Some)
  finally show ?thesis .
qed

lemma credential_save_row:
  assumes "credential_save now stored s = (Inr (), s')"
  shows "\<exists>q. select_first (\<lambda>q. credential_key q = (sc_tenantId stored, sc_userId stored, sc_provider stored))
      (credentials s') = Some q \<and> cr_encrypted_payload q = sc_encryptedPayload stored \<and>
    cr_key_version q = sc_keyVersion stored \<and> cr_revoked_at q = None"
  using credential_save_cases [OF assms]
  by (elim disjE exE conjE) (auto simp: credential_row_key select_first_append1 select_key_update)

lemma stored_fields [simp]:
  "sc_encryptedPayload (stored_credential_of q) = cr_encrypted_payload q"
  "sc_keyVersion (stored_credential_of q) = cr_key_version q"
  "sc_revokedAt (stored_credential_of q) = text_or_undefined (cr_revoked_at q)"
  "text_or_undefined None = None" "text_or_undefined (Some (nowIso t)) = Some (nowIso t)"
  by (simp_all add: stored_credential_of_def text_or_undefined_def nowIso_ne)

interpretation sqlite_creds: credential_store sqlite_credentials
proof
  fix now stored and s s' :: store
  assume "cred_save sqlite_credentials now stored s = (Inr (), s')"
  then show "\<exists>w. cred_find sqlite_credentials (sc_tenantId stored) (sc_userId stored) (sc_provider stored) s' = Some w \<and>
        sc_encryptedPayload w = sc_encryptedPayload stored \<and> sc_keyVersion w = sc_keyVersion stored \<and>
        sc_revokedAt w = None"
    using credential_save_row [of now stored s s']
    by (auto simp: sqlite_credentials_def credential_find_def)
next
  fix now stored r t u p and s s' :: store
  assume "cred_save sqlite_credentials now stored s = (r, s')"
    "(t, u, p) \<noteq> (sc_tenantId stored, sc_userId stored, sc_provider stored)"
  then show "cred_find sqlite_credentials t u p s' = cred_find sqlite_credentials t u p s"
    using credential_save_cases [of now stored s r s']
    by (auto simp: sqlite_credentials_def credential_find_def credential_row_key select_first_append1
        select_key_update option.map_ident split: option.splits)
next
  fix clk t u p r w and s s' :: store
  assume "cred_revoke sqlite_credentials clk t u p s = (r, s')" "cred_find sqlite_credentials t u p s' = Some w"
  then show "sc_revokedAt w \<noteq> None"
    by (auto simp: sqlite_credentials_def credential_find_def credential_revoke_def effect_simps
        select_key_update)
next
  fix clk t u p r t' u' p' and s s' :: store
  assume "cred_revoke sqlite_credentials clk t u p s = (r, s')" "(t', u', p') \<noteq> (t, u, p)"
  then show "cred_find sqlite_credentials t' u' p' s' = cred_find sqlite_credentials t' u' p' s"
    by (auto simp: sqlite_credentials_def credential_find_def credential_revoke_def effect_simps
        select_key_update option.map_ident)
qed

section \<open>The audit log\<close>

record AuditEvent =
  ev_tenantId :: string
  ev_actorId :: "string option"
  ev_action :: string
  ev_resourceType :: string
  ev_resourceId :: "string option"
  ev_requestId :: "string option"
  ev_metadata :: "json option"

definition audit_write :: "string \<Rightarrow> int \<Rightarrow> AuditEvent \<Rightarrow> unit store_op" where
  "audit_write uuid now event = insert_audit_row
     \<lparr>au_id = uid uuid ''aud'', au_tenant_id = ev_tenantId event, au_actor_id = ev_actorId event,
      au_action = ev_action event, au_resource_type = ev_resourceType event,
      au_resource_id = ev_resourceId event, au_request_id = ev_requestId event,
      au_metadata = nullish (ev_metadata event) (JObj []), au_created_at = nowIso now\<rparr>"

section \<open>Tokens of a provider\<close>

datatype OAuthProvider = p_gmail | p_groupme | p_instagram | p_linkedin

fun provider_text :: "OAuthProvider \<Rightarrow> string" where
  "provider_text p_gmail = ''gmail''"
| "provider_text p_groupme = ''groupme''"
| "provider_text p_instagram = ''instagram''"
| "provider_text p_linkedin = ''linkedin''"

record ProviderOAuthState =
  os_provider :: OAuthProvider
  os_state :: string
  os_verifier :: string
  os_userId :: string
  os_tenantId :: string
  os_returnTo :: string

record ProviderSettings =
  ps_clientId :: "string option"
  ps_clientSecret :: "string option"
  ps_redirectUri :: "string option"

record ProviderDefinition =
  pd_authorizationEndpoint :: string
  pd_tokenEndpoint :: string
  pd_scopes :: "string list"
  pd_clientId :: string
  pd_clientSecret :: "string option"
  pd_redirectUri :: string
  pd_extra :: "(string \<times> string) list"

fun provider_endpoints :: "OAuthProvider \<Rightarrow> string \<times> string \<times> string list \<times> (string \<times> string) list" where
  "provider_endpoints p_gmail = (''https://accounts.google.com/o/oauth2/v2/auth'',
     ''https://oauth2.googleapis.com/token'',
     [''openid'', ''email'', ''https://www.googleapis.com/auth/gmail.readonly''],
     [(''access_type'', ''offline''), (''prompt'', ''consent'')])"
| "provider_endpoints p_groupme = (''https://oauth.groupme.com/oauth/authorize'',
     ''https://api.groupme.com/oauth/access_token'', [], [])"
| "provider_endpoints p_instagram = (''https://www.facebook.com/v24.0/dialog/oauth'',
     ''https://graph.facebook.com/v24.0/oauth/access_token'',
     [''instagram_basic'', ''pages_read_engagement''], [])"
| "provider_endpoints p_linkedin = (''https://www.linkedin.com/oauth/v2/authorization'',
     ''https://www.linkedin.com/oauth/v2/accessToken'', [''r_organization_social''], [])"

type_synonym provider_configuration = "OAuthProvider \<Rightarrow> ProviderSettings option"

definition configured :: "provider_configuration \<Rightarrow> OAuthProvider \<Rightarrow> bool" where
  "configured configuration provider = (case configuration provider of None \<Rightarrow> False
     | Some v \<Rightarrow> truthy (ps_clientId v) \<and> truthy (ps_redirectUri v))"

definition provider_definition ::
    "provider_configuration \<Rightarrow> OAuthProvider \<Rightarrow> error + ProviderDefinition" where
  "provider_definition configuration provider =
     (case configuration provider of
        Some v \<Rightarrow> if \<not> truthy (ps_clientId v) \<or> \<not> truthy (ps_redirectUri v)
          then Inl (Error (provider_text provider @ '' OAuth is not configured''))
          else (let (auth, token, scopes, extra) = provider_endpoints provider in
            Inr \<lparr>pd_authorizationEndpoint = auth, pd_tokenEndpoint = token, pd_scopes = scopes,
              pd_clientId = the (ps_clientId v), pd_clientSecret = ps_clientSecret v,
              pd_redirectUri = the (ps_redirectUri v), pd_extra = extra\<rparr>)
      | None \<Rightarrow> Inl (Error (provider_text provider @ '' OAuth is not configured'')))"

text \<open>The decoded answer of a token endpoint, and what is posted to it.\<close>

record TokenResponse =
  tk_access_token :: "string option"
  tk_refresh_token :: "string option"
  tk_expires_in :: "int option"
  tk_scope :: "string option"

type_synonym token_endpoint = "string \<Rightarrow> (string \<times> string) list \<Rightarrow> error + TokenResponse"

text \<open>\<open>scope.split(/[ ,]+/).filter(Boolean)\<close>\<close>

definition split_scopes :: "string \<Rightarrow> string list" where
  "split_scopes scope = filter (\<lambda>w. w \<noteq> []) (concat (map (split_on (CHR '','')) (split_on (CHR '' '') scope)))"

definition expiry_of :: "int \<Rightarrow> int option \<Rightarrow> string option \<Rightarrow> string option" where
  "expiry_of now expires_in fallback = (case expires_in of None \<Rightarrow> fallback
     | Some n \<Rightarrow> if n = 0 then fallback else Some (toISOString (now + n * 1000)))"

definition client_secret_field :: "ProviderDefinition \<Rightarrow> (string \<times> string) list" where
  "client_secret_field d = (if truthy (pd_clientSecret d)
     then [(''client_secret'', the (pd_clientSecret d))] else [])"

definition oauth_callback ::
    "provider_configuration \<Rightarrow> token_endpoint \<Rightarrow> int \<Rightarrow> OAuthProvider \<Rightarrow> string \<Rightarrow> ProviderOAuthState \<Rightarrow>
       error + ProviderCredential" where
  "oauth_callback configuration requestToken now provider code state =
     (if provider \<noteq> os_provider state then Inl (Error ''OAuth provider mismatch'')
      else case provider_definition configuration provider of Inl e \<Rightarrow> Inl e
      | Inr d \<Rightarrow>
        (case requestToken (pd_tokenEndpoint d)
            ([(''grant_type'', ''authorization_code''), (''code'', code), (''client_id'', pd_clientId d),
              (''redirect_uri'', pd_redirectUri d), (''code_verifier'', os_verifier state)]
             @ client_secret_field d) of Inl e \<Rightarrow> Inl e
         | Inr token \<Rightarrow>
           if \<not> truthy (tk_access_token token) then Inl (Error ''Provider did not return an access token'')
           else Inr \<lparr>pc_accessToken = the (tk_access_token token), pc_refreshToken = tk_refresh_token token,
             pc_expiresAt = expiry_of now (tk_expires_in token) None,
             pc_scopes = (if truthy (tk_scope token) then split_scopes (the (tk_scope token)) else pd_scopes d),
             pc_metadata = None\<rparr>))"

definition oauth_refresh ::
    "provider_configuration \<Rightarrow> token_endpoint \<Rightarrow> int \<Rightarrow> OAuthProvider \<Rightarrow> ProviderCredential \<Rightarrow>
       error + ProviderCredential" where
  "oauth_refresh configuration requestToken now provider credential =
     (if \<not> truthy (pc_refreshToken credential) then
        Inl (Error (provider_text provider @ '' credential expired and cannot be refreshed''))
      else case provider_definition configuration provider of Inl e \<Rightarrow> Inl e
      | Inr d \<Rightarrow>
        (case requestToken (pd_tokenEndpoint d)
            ([(''grant_type'', ''refresh_token''), (''refresh_token'', the (pc_refreshToken credential)),
              (''client_id'', pd_clientId d)] @ client_secret_field d) of Inl e \<Rightarrow> Inl e
         | Inr token \<Rightarrow>
           if \<not> truthy (tk_access_token token) then
             Inl (Error ''Provider refresh did not return an access token'')
           else Inr \<lparr>pc_accessToken = the (tk_access_token token),
             pc_refreshToken = coalesce (tk_refresh_token token) (pc_refreshToken credential),
             pc_expiresAt = expiry_of now (tk_expires_in token) (pc_expiresAt credential),
             pc_scopes = (if truthy (tk_scope token) then split_scopes (the (tk_scope token))
               else pc_scopes credential),
             pc_metadata = pc_metadata credential\<rparr>))"

section \<open>Credentials that are refreshed when they are due\<close>

definition needsRefresh ::
    "(string \<Rightarrow> int option) \<Rightarrow> int \<Rightarrow> int \<Rightarrow> ProviderCredential \<Rightarrow> error + bool" where
  "needsRefresh legacy skew now credential =
     (if \<not> truthy (pc_expiresAt credential) then Inr False
      else case Date_parse legacy (the (pc_expiresAt credential)) of
        None \<Rightarrow> Inl (Error ''Connector credential expiry is invalid'')
      | Some expiresAt \<Rightarrow> Inr (expiresAt \<le> now + skew))"

definition lift_result :: "error + 'a \<Rightarrow> (error, 's, 'a) op" where
  "lift_result r = (case r of Inl e \<Rightarrow> throwE e | Inr x \<Rightarrow> retE x)"

text \<open>The readings: 0 for the check, 1 in the refresh, 2 when it is stored, 3 in the audit log.\<close>

definition getValid ::
    "(string \<Rightarrow> string) \<Rightarrow> gcm \<Rightarrow> vault \<Rightarrow> provider_configuration \<Rightarrow> token_endpoint \<Rightarrow>
       (string \<Rightarrow> int option) \<Rightarrow> int \<Rightarrow> (nat \<Rightarrow> int) \<Rightarrow> nat list \<Rightarrow> string \<Rightarrow> string \<Rightarrow> string \<Rightarrow>
       OAuthProvider \<Rightarrow> string option \<Rightarrow> ProviderCredential option store_op" where
  "getValid sha g v configuration requestToken legacy skew clk nonce uuid tenantId userId provider requestId =
     bindE (vault_get sqlite_credentials g v tenantId userId (provider_text provider)) (\<lambda>found.
       case found of None \<Rightarrow> retE None
       | Some credential \<Rightarrow>
         bindE (lift_result (needsRefresh legacy skew (clk 0) credential)) (\<lambda>due.
           if \<not> due then retE (Some credential)
           else
             bindE (lift_result (oauth_refresh configuration requestToken (clk 1) provider credential)) (\<lambda>refreshed.
             bindE (vault_put sqlite_credentials sha g v nonce (clk 2) tenantId userId
                 (provider_text provider) refreshed) (\<lambda>_.
             bindE (audit_write uuid (clk 3) \<lparr>ev_tenantId = tenantId, ev_actorId = Some userId,
                 ev_action = ''connector.credential.refresh'', ev_resourceType = ''connector'',
                 ev_resourceId = Some (provider_text provider), ev_requestId = requestId,
                 ev_metadata = None\<rparr>) (\<lambda>_. retE (Some refreshed))))))"

section \<open>Properties\<close>

lemma vault_get_wf:
  assumes "vault_get repo g v t u p s = (Inr (Some c), s')"
  shows "wf_credential c"
proof -
  obtain plain j where "JSON_parse plain = Some j" and c: "c = credential_of_json j"
    using assms by (auto simp: vault_get_def bindE_Inr_iff effect_simps Let_def
        split: option.splits if_splits)
  then have "wf_json j" by (simp add: JSON_parse_wf)
  then show ?thesis
    by (cases j) (auto simp: c wf_credential_def credential_of_json_def json_get_def list_all_iff
        split: option.splits dest!: map_of_SomeD)
qed

lemma oauth_refresh_metadata:
  "oauth_refresh configuration requestToken now provider c0 = Inr c \<Longrightarrow> pc_metadata c = pc_metadata c0"
  by (auto simp: oauth_refresh_def split: if_splits sum.splits)

lemma vault_get_state: "vault_get repo g v t u p s = (r, s') \<Longrightarrow> s' = s"
  by (auto simp: vault_get_def bindE_def effect_simps Let_def split: option.splits if_splits)

lemma audit_keeps_credentials:
  "audit_write uuid now event s = (r, s') \<Longrightarrow> credentials s' = credentials s"
  by (auto simp: audit_write_def insert_audit_row_def split: if_splits)

text \<open>C30. A credential put into the vault is read back unchanged, the credentials of other users and
  providers are not affected by it, and once revoked it is not given out any more.\<close>

theorem vault_roundtrip:
  assumes "gcm_correct g" and "length nonce = 12" and "wf_credential c"
    and "vault_put sqlite_credentials sha g v nonce now t u p c s = (Inr (), s')"
  shows "vault_get sqlite_credentials g v t u p s' = (Inr (Some c), s') \<and>
    ((t', u', p') \<noteq> (t, u, p) \<longrightarrow>
      fst (vault_get sqlite_credentials g v t' u' p' s') = fst (vault_get sqlite_credentials g v t' u' p' s)) \<and>
    fst (vault_get sqlite_credentials g v t u p (snd (vault_revoke sqlite_credentials clk t u p s'))) = Inr None"
proof (intro conjI impI)
  show "vault_get sqlite_credentials g v t u p s' = (Inr (Some c), s')"
    by (rule sqlite_creds.put_get [OF assms])
  show "fst (vault_get sqlite_credentials g v t' u' p' s') = fst (vault_get sqlite_credentials g v t' u' p' s)"
    if "(t', u', p') \<noteq> (t, u, p)" by (rule sqlite_creds.put_other [OF assms(4) that])
  show "fst (vault_get sqlite_credentials g v t u p (snd (vault_revoke sqlite_credentials clk t u p s'))) = Inr None"
    using sqlite_creds.revoke_get [OF surjective_pairing, where g = g and v = v] by simp
qed

text \<open>\<open>getValid\<close> gives out the stored credential when it is not due within the skew, and otherwise
  the refreshed one, which is then the stored one; a missing or revoked credential gives nothing.\<close>

lemma getValid_stored:
  assumes "gcm_correct g" and "length nonce = 12"
    and run: "getValid sha g v cfg requestToken legacy skew clk nonce uuid t u provider rid s = (Inr r, s')"
  shows "(r = None \<and> vault_get sqlite_credentials g v t u (provider_text provider) s = (Inr None, s) \<and> s' = s) \<or>
    (\<exists>c c0. r = Some c \<and> vault_get sqlite_credentials g v t u (provider_text provider) s = (Inr (Some c0), s) \<and>
      fst (vault_get sqlite_credentials g v t u (provider_text provider) s') = Inr (Some c) \<and>
      ((needsRefresh legacy skew (clk 0) c0 = Inr False \<and> c = c0 \<and> s' = s) \<or>
       (needsRefresh legacy skew (clk 0) c0 = Inr True \<and>
        oauth_refresh cfg requestToken (clk 1) provider c0 = Inr c)))"
proof -
  let ?get = "vault_get sqlite_credentials g v t u (provider_text provider)"
  obtain found where found: "?get s = (Inr found, s)"
  proof -
    obtain x w where "?get s = (Inr x, w)"
      using run unfolding getValid_def bindE_Inr_iff [of "?get"] by blast
    then show thesis using that vault_get_state by metis
  qed
  show ?thesis
  proof (cases found)
    case None
    then show ?thesis using run found by (simp add: getValid_def bindE_def effect_simps)
  next
    case (Some c0)
    then have run': "bindE (lift_result (needsRefresh legacy skew (clk 0) c0)) (\<lambda>due.
        if \<not> due then retE (Some c0)
        else bindE (lift_result (oauth_refresh cfg requestToken (clk 1) provider c0)) (\<lambda>refreshed.
             bindE (vault_put sqlite_credentials sha g v nonce (clk 2) t u (provider_text provider) refreshed) (\<lambda>_.
             bindE (audit_write uuid (clk 3) \<lparr>ev_tenantId = t, ev_actorId = Some u,
                 ev_action = ''connector.credential.refresh'', ev_resourceType = ''connector'',
                 ev_resourceId = Some (provider_text provider), ev_requestId = rid,
                 ev_metadata = None\<rparr>) (\<lambda>_. retE (Some refreshed))))) s = (Inr r, s')"
      using run found by (simp add: getValid_def bindE_def)
    obtain due where due: "needsRefresh legacy skew (clk 0) c0 = Inr due"
      using run' by (cases "needsRefresh legacy skew (clk 0) c0") (auto simp: lift_result_def effect_simps)
    show ?thesis
    proof (cases due)
      case False
      then show ?thesis using run' due found Some by (auto simp: lift_result_def effect_simps)
    next
      case True
      then obtain c s1 where c: "oauth_refresh cfg requestToken (clk 1) provider c0 = Inr c"
        and put: "vault_put sqlite_credentials sha g v nonce (clk 2) t u (provider_text provider) c s = (Inr (), s1)"
        and aud: "\<exists>e. audit_write uuid (clk 3) e s1 = (Inr (), s')" and r: "r = Some c"
        using run' due
        by (cases "oauth_refresh cfg requestToken (clk 1) provider c0")
          (auto simp: lift_result_def bindE_Inr_iff effect_simps)
      have "wf_credential c"
        using vault_get_wf [OF found [unfolded Some]] oauth_refresh_metadata [OF c] by (simp add: wf_credential_def)
      then have "?get s1 = (Inr (Some c), s1)"
        by (rule sqlite_creds.put_get [OF assms(1,2) _ put])
      moreover have "cred_find sqlite_credentials t u (provider_text provider) s' =
          cred_find sqlite_credentials t u (provider_text provider) s1"
        using aud audit_keeps_credentials by (auto simp: sqlite_credentials_def credential_find_def)
      ultimately have "fst (?get s') = Inr (Some c)"
        using sqlite_creds.get_depends by (metis fst_conv)
      then show ?thesis using found Some due True c r by auto
    qed
  qed
qed

section \<open>A concrete credential\<close>

definition demo_gcm :: gcm where
  "demo_gcm = \<lparr>gcm_seal = (\<lambda>key nonce aad plain. (map of_char plain, replicate 16 0)),
     gcm_open = (\<lambda>key nonce aad tag ct. Some (map char_of ct))\<rparr>"

definition demo_vault :: vault where
  "demo_vault = \<lparr>vlt_key = replicate 32 1, vlt_keyVersion = ''v1''\<rparr>"

definition demo_credential :: ProviderCredential where
  "demo_credential = \<lparr>pc_accessToken = ''a'', pc_refreshToken = Some ''r'', pc_expiresAt = Some (toISOString 0),
     pc_scopes = [''email''], pc_metadata = None\<rparr>"

definition demo_configuration :: provider_configuration where
  "demo_configuration provider =
     Some \<lparr>ps_clientId = Some ''c'', ps_clientSecret = None, ps_redirectUri = Some ''https://x/''\<rparr>"

definition demo_token :: token_endpoint where
  "demo_token endpoint body = Inr \<lparr>tk_access_token = Some ''b'', tk_refresh_token = None,
     tk_expires_in = Some 3600, tk_scope = None\<rparr>"

abbreviation demo_refreshed :: ProviderCredential where
  "demo_refreshed \<equiv> demo_credential\<lparr>pc_accessToken := ''b'', pc_expiresAt := Some (toISOString 3600000)\<rparr>"

abbreviation demo_put :: "nat \<Rightarrow> ProviderCredential \<Rightarrow> unit store_op" where
  "demo_put n \<equiv> vault_put sqlite_credentials id demo_gcm demo_vault (replicate 12 n) 0 ''t'' ''usr_i:a'' ''gmail''"

lemma demo_gcm_correct: "gcm_correct demo_gcm"
  by (simp add: gcm_correct_def demo_gcm_def o_def)

lemma demo_put_ok: "\<exists>s'. demo_put 0 demo_credential demo_account = (Inr (), s') \<and> audit_events s' = []"
  by (simp add: vault_put_def Let_def case_prod_beta sqlite_credentials_def credential_save_def
      credential_row_of_def demo_account_defs)

lemma demo_put_again:
  assumes "demo_put 0 demo_credential demo_account = (Inr (), s1)"
  shows "\<exists>s'. demo_put 1 demo_refreshed s1 = (Inr (), s') \<and> audit_events s' = audit_events s1"
proof -
  have key: "exists_row (\<lambda>r. credential_key r = (''t'', ''usr_i:a'', ''gmail'')) (credentials s1)"
    using assms by (simp add: vault_put_def Let_def case_prod_beta sqlite_credentials_def credential_save_def
      credential_row_of_def credential_key_def demo_account_defs split: if_splits) auto
  then show ?thesis
    by (simp add: vault_put_def Let_def case_prod_beta sqlite_credentials_def credential_save_def
        credential_row_key)
qed

theorem vault_roundtrip_witness:
  "\<exists>s'. demo_put 0 demo_credential demo_account = (Inr (), s') \<and>
     vault_get sqlite_credentials demo_gcm demo_vault ''t'' ''usr_i:a'' ''gmail'' s' = (Inr (Some demo_credential), s')"
proof -
  obtain s' where put: "demo_put 0 demo_credential demo_account = (Inr (), s')" using demo_put_ok by blast
  have "wf_credential demo_credential" by (simp add: wf_credential_def demo_credential_def)
  then show ?thesis using vault_roundtrip [OF demo_gcm_correct _ _ put] put by auto
qed

lemma getValid_stored_witness:
  "\<exists>s1 s2. demo_put 0 demo_credential demo_account = (Inr (), s1) \<and>
     getValid id demo_gcm demo_vault demo_configuration demo_token (\<lambda>_. None) 60000 (\<lambda>_. 0) (replicate 12 1) ''x''
       ''t'' ''usr_i:a'' p_gmail None s1 = (Inr (Some demo_refreshed), s2) \<and>
     fst (vault_get sqlite_credentials demo_gcm demo_vault ''t'' ''usr_i:a'' ''gmail'' s2) = Inr (Some demo_refreshed)"
proof -
  obtain s1 where put: "demo_put 0 demo_credential demo_account = (Inr (), s1)" and au: "audit_events s1 = []"
    using demo_put_ok by blast
  obtain s3 where put2: "demo_put 1 demo_refreshed s1 = (Inr (), s3)" and au3: "audit_events s3 = []"
    using demo_put_again [OF put] au by auto
  have wf: "wf_credential demo_credential" by (simp add: wf_credential_def demo_credential_def)
  have got: "vault_get sqlite_credentials demo_gcm demo_vault ''t'' ''usr_i:a'' ''gmail'' s1 =
      (Inr (Some demo_credential), s1)"
    using sqlite_creds.put_get [OF demo_gcm_correct _ wf put] by simp
  have due: "needsRefresh (\<lambda>_. None) 60000 0 demo_credential = Inr True"
    by (simp add: needsRefresh_def demo_credential_def nowIso_ne [unfolded nowIso_def] iso_range_def)
  have refreshed: "oauth_refresh demo_configuration demo_token 0 p_gmail demo_credential = Inr demo_refreshed"
    by (simp add: oauth_refresh_def demo_credential_def provider_definition_def demo_configuration_def
        demo_token_def expiry_of_def)
  obtain s2 where run: "getValid id demo_gcm demo_vault demo_configuration demo_token (\<lambda>_. None) 60000 (\<lambda>_. 0)
      (replicate 12 1) ''x'' ''t'' ''usr_i:a'' p_gmail None s1 = (Inr (Some demo_refreshed), s2)"
    using put2 au3
    by (simp add: getValid_def bindE_def got due refreshed lift_result_def effect_simps audit_write_def
        insert_audit_row_def exists_row_def)
  show ?thesis using getValid_stored [OF demo_gcm_correct _ run] put run by auto
qed

end
