(* ===== verification/RateLimit.thy ===== *)
theory RateLimit
  imports Prelude
begin

text \<open>
  The fixed-window rate limiter src/src/infrastructure/rate-limit/in-memory-rate-limiter.ts with the
  port src/src/application/ports/rate-limiter.ts. The \<open>Map\<close> of buckets is an association list in the
  order of insertion: setting a present key keeps its place.
\<close>

section \<open>The limiter\<close>

record Bucket =
  bk_count :: int
  bk_resetAt :: int

type_synonym buckets = "(string \<times> Bucket) list"

record RateLimitResult =
  rl_allowed :: bool
  rl_remaining :: int
  rl_resetAt :: int

definition set_bucket :: "string \<Rightarrow> Bucket \<Rightarrow> buckets \<Rightarrow> buckets" where
  "set_bucket key b bs =
     (if map_of bs key = None then bs @ [(key, b)]
      else map (\<lambda>(k, c). (k, if k = key then b else c)) bs)"

definition current_bucket :: "int \<Rightarrow> int \<Rightarrow> string \<Rightarrow> buckets \<Rightarrow> Bucket" where
  "current_bucket now windowMs key bs =
     (case map_of bs key of
        Some b \<Rightarrow> if bk_resetAt b \<le> now then \<lparr>bk_count = 0, bk_resetAt = now + windowMs\<rparr> else b
      | None \<Rightarrow> \<lparr>bk_count = 0, bk_resetAt = now + windowMs\<rparr>)"

text \<open>The loop over the entries: \<open>kept\<close> are the entries that were visited and not deleted, the flag
  says whether the loop returned early.\<close>

fun prune_loop :: "nat \<Rightarrow> int \<Rightarrow> buckets \<Rightarrow> buckets \<Rightarrow> buckets \<times> bool" where
  "prune_loop maxBuckets now kept [] = (kept, False)"
| "prune_loop maxBuckets now kept ((k, b) # rest) =
     (let kept' = (if bk_resetAt b \<le> now then kept else kept @ [(k, b)]) in
      if length kept' + length rest \<le> maxBuckets then (kept' @ rest, True)
      else prune_loop maxBuckets now kept' rest)"

definition prune :: "nat \<Rightarrow> int \<Rightarrow> buckets \<Rightarrow> buckets" where
  "prune maxBuckets now bs =
     (case prune_loop maxBuckets now [] bs of
        (bs', True) \<Rightarrow> bs'
      | (bs', False) \<Rightarrow> (case bs' of [] \<Rightarrow> [] | (k, b) # rest \<Rightarrow> if k = [] then bs' else rest))"

definition consume :: "nat \<Rightarrow> int \<Rightarrow> string \<Rightarrow> int \<Rightarrow> int \<Rightarrow> buckets \<Rightarrow> RateLimitResult \<times> buckets" where
  "consume maxBuckets now key limit windowMs bs =
     (let b = current_bucket now windowMs key bs; b' = b\<lparr>bk_count := bk_count b + 1\<rparr>;
          bs' = set_bucket key b' bs;
          bs'' = (if length bs' > maxBuckets then prune maxBuckets now bs' else bs') in
      (\<lparr>rl_allowed = (bk_count b' \<le> limit), rl_remaining = max 0 (limit - bk_count b'),
        rl_resetAt = bk_resetAt b'\<rparr>, bs''))"

section \<open>Sequences of requests\<close>

text \<open>Requests with their times and keys, the limit of each key.\<close>

fun consume_all :: "nat \<Rightarrow> (string \<Rightarrow> int) \<Rightarrow> int \<Rightarrow> (int \<times> string) list \<Rightarrow> buckets \<Rightarrow>
    (string \<times> RateLimitResult) list" where
  "consume_all maxBuckets limit windowMs [] bs = []"
| "consume_all maxBuckets limit windowMs ((now, key) # calls) bs =
     (let (r, bs') = consume maxBuckets now key (limit key) windowMs bs in
      (key, r) # consume_all maxBuckets limit windowMs calls bs')"

definition admitted :: "string \<Rightarrow> int \<Rightarrow> (string \<times> RateLimitResult) list \<Rightarrow> nat" where
  "admitted key reset results =
     length (filter (\<lambda>(k, r). k = key \<and> rl_allowed r \<and> rl_resetAt r = reset) results)"

lemma map_of_set_bucket: "map_of (set_bucket key b bs) = (map_of bs)(key \<mapsto> b)"
proof (cases "map_of bs key = None")
  case True
  then show ?thesis by (auto simp: set_bucket_def map_add_def fun_eq_iff split: option.splits)
next
  case False
  have "map_of (map (\<lambda>(k, c). (k, if k = key then b else c)) bs) x =
      (if x = key then map_option (\<lambda>_. b) (map_of bs x) else map_of bs x)" for x
    by (induction bs) auto
  then show ?thesis using False by (auto simp: set_bucket_def fun_eq_iff)
qed

lemma keys_set_bucket: "fst ` set (set_bucket key b bs) = insert key (fst ` set bs)"
proof -
  have "fst ` set bs' = dom (map_of bs')" for bs' :: buckets by (simp add: dom_map_of_conv_image_fst)
  then show ?thesis by (simp add: map_of_set_bucket)
qed

lemma distinct_set_bucket: "distinct (map fst bs) \<Longrightarrow> distinct (map fst (set_bucket key b bs))"
  by (auto simp: set_bucket_def map_of_eq_None_iff o_def case_prod_beta)

text \<open>As long as the keys fit into the table nothing is evicted.\<close>

lemma consume_fits:
  assumes "distinct (map fst bs)" and "card (insert key (fst ` set bs)) \<le> maxBuckets"
  shows "snd (consume maxBuckets now key limit w bs) =
    set_bucket key ((current_bucket now w key bs)\<lparr>bk_count := bk_count (current_bucket now w key bs) + 1\<rparr>) bs"
proof -
  let ?bs = "set_bucket key ((current_bucket now w key bs)\<lparr>bk_count := bk_count (current_bucket now w key bs) + 1\<rparr>) bs"
  have "length ?bs = card (fst ` set ?bs)"
    using distinct_set_bucket [OF assms(1)] by (metis distinct_card length_map list.set_map)
  then show ?thesis using assms(2) by (simp add: consume_def Let_def keys_set_bucket)
qed

text \<open>What the rest of a sequence can still admit for a key and the end of a window, given the bucket.\<close>

definition allowance :: "int \<Rightarrow> int \<Rightarrow> Bucket option \<Rightarrow> nat" where
  "allowance limit reset found =
     (case found of None \<Rightarrow> nat limit
      | Some b \<Rightarrow> if reset < bk_resetAt b then 0
          else if reset = bk_resetAt b then nat (limit - bk_count b) else nat limit)"

lemma admitted_allowance:
  assumes "distinct (map fst bs)" and "card (fst ` set bs \<union> snd ` set calls) \<le> maxBuckets" and "0 < w"
    and "\<forall>b \<in> snd ` set bs. 0 \<le> bk_count b"
  shows "admitted key reset (consume_all maxBuckets limit w calls bs) \<le>
    allowance (limit key) reset (map_of bs key)"
  using assms
proof (induction calls arbitrary: bs)
  case Nil
  then show ?case by (simp add: admitted_def)
next
  case (Cons call calls)
  obtain now k where call: "call = (now, k)" by fastforce
  let ?b = "current_bucket now w k bs"
  let ?b' = "?b\<lparr>bk_count := bk_count ?b + 1\<rparr>"
  let ?bs = "set_bucket k ?b' bs"
  have keys: "fst ` set ?bs \<union> snd ` set calls = fst ` set bs \<union> snd ` set (call # calls)"
    by (auto simp: keys_set_bucket call)
  have "card (insert k (fst ` set bs)) \<le> maxBuckets"
    using Cons.prems(2) by (rule order_trans [rotated]) (auto intro!: card_mono simp: call)
  then have next_bs: "snd (consume maxBuckets now k (limit k) w bs) = ?bs"
    using consume_fits Cons.prems(1) by blast
  have nonneg: "0 \<le> bk_count ?b"
    using Cons.prems(4) by (force simp: current_bucket_def dest!: map_of_SomeD split: option.splits)
  then have nn: "\<forall>b \<in> snd ` set ?bs. 0 \<le> bk_count b"
    using Cons.prems(4) by (fastforce simp: set_bucket_def split: if_splits)
  have IH: "admitted key reset (consume_all maxBuckets limit w calls ?bs) \<le>
      allowance (limit key) reset (map_of ?bs key)"
    using Cons.IH [of ?bs] Cons.prems distinct_set_bucket keys nn by metis
  have res: "fst (consume maxBuckets now k (limit k) w bs) = \<lparr>rl_allowed = (bk_count ?b' \<le> limit k),
      rl_remaining = max 0 (limit k - bk_count ?b'), rl_resetAt = bk_resetAt ?b'\<rparr>"
    by (simp add: consume_def Let_def)
  have split: "admitted key reset (consume_all maxBuckets limit w (call # calls) bs) =
      (if k = key \<and> bk_count ?b' \<le> limit k \<and> bk_resetAt ?b = reset then 1 else 0) +
      admitted key reset (consume_all maxBuckets limit w calls ?bs)"
    by (auto simp: call admitted_def case_prod_beta Let_def next_bs res)
  show ?case
  proof (cases "k = key")
    case False
    then show ?thesis using split IH by (simp add: map_of_set_bucket)
  next
    case True
    have "allowance (limit key) reset (Some ?b') +
        (if bk_count ?b' \<le> limit key \<and> bk_resetAt ?b = reset then 1 else 0) \<le>
        allowance (limit key) reset (map_of bs key)"
      using nonneg Cons.prems(3) True
      by (auto simp: allowance_def current_bucket_def split: option.splits if_splits)
    then show ?thesis using split IH True by (simp add: map_of_set_bucket)
  qed
qed

text \<open>C31. While the keys in use fit into the table, at most the limit of a key is admitted in each of its
  windows, for any sequence of requests and any readings of the clock.\<close>

theorem rate_limit_bound:
  assumes "card (snd ` set calls) \<le> maxBuckets" and "0 < windowMs"
  shows "admitted key reset (consume_all maxBuckets limit windowMs calls []) \<le> nat (limit key)"
  using admitted_allowance [of "[]" calls maxBuckets windowMs key reset limit] assms
  by (simp add: allowance_def)

theorem rate_limit_bound_witness:
  "admitted ''a'' 60000 (consume_all 10 (\<lambda>_. 2) 60000
     [(0, ''a''), (1, ''b''), (2, ''a''), (59999, ''a''), (60000, ''a'')] []) \<le> 2"
  by (rule order_trans [OF rate_limit_bound]) (simp_all add: card_insert_if)

end
