(* ===== verification/PgAccounts.thy ===== *)
theory PgAccounts
  imports PgIntegrity Credentials RateLimit
begin

text \<open>
  Identities, sessions, credentials, the audit log and the rate limiter on Postgres:
  src/src/infrastructure/auth/postgres-auth-repository.ts, credentials/postgres-credential-repository.ts,
  observability/postgres-audit-log.ts and rate-limit/postgres-rate-limiter.ts, with \<open>app.authenticate_session\<close> of
  src/migrations/001 and \<open>app.consume_rate_limit\<close> of 002. Each call is a transaction of its own on a connection
  of its own; \<open>now\<close> is its start. The credential repository satisfies the contract of the vault, so a
  credential can be read back on Postgres too.
\<close>

definition pg_begin :: "'a pg_op \<Rightarrow> 'a pg_op" where
  "pg_begin operation s = (case operation (s\<lparr>cn_setting := []\<rparr>) of
     (Inl e, _) \<Rightarrow> (Inl e, s) | (Inr x, t) \<Rightarrow> (Inr x, t\<lparr>cn_setting := cn_setting s\<rparr>))"

definition pg_own :: "string \<Rightarrow> 'a pg_op \<Rightarrow> 'a pg_op" where
  "pg_own t operation = pg_begin (bindE (set_tenant t) (\<lambda>_. operation))"

section \<open>Identities and sessions\<close>

definition pg_upsert_user :: "pg_user \<Rightarrow> unit pg_op" where
  "pg_upsert_user row =
     bindE (getE (\<lambda>s. exists_row (\<lambda>r. pg_user_key r = pg_user_key row) (tb_users s))) (\<lambda>found.
       if found then modifyE (\<lambda>s. s\<lparr>tb_users := update_where (\<lambda>r. pg_user_key r = pg_user_key row)
         (\<lambda>r. r\<lparr>gu_email := gu_email row, gu_display_name := gu_display_name row,
            gu_updated_at := gu_updated_at row\<rparr>) (tb_users s)\<rparr>)
       else bindE (unique_check ''users_pkey'' (pg_user_exists (gu_id row))) (\<lambda>_.
         modifyE (\<lambda>s. s\<lparr>tb_users := tb_users s @ [row]\<rparr>)))"

text \<open>An insertion counts the membership of the user (\<open>memberships_adjust_user_count\<close>).\<close>

definition count_memberships :: "string \<Rightarrow> int \<Rightarrow> unit pg_op" where
  "count_memberships u n = modifyE (\<lambda>s. s\<lparr>tb_users := update_where (\<lambda>r. gu_id r = u)
     (\<lambda>r. r\<lparr>gu_membership_count := gu_membership_count r + n\<rparr>) (tb_users s)\<rparr>)"

definition pg_insert_member :: "pg_member \<Rightarrow> unit pg_op" where
  "pg_insert_member row =
     bindE (rls_check ''memberships'' (gm_tenant_id row)) (\<lambda>_.
     bindE (getE (pg_membership_exists (gm_tenant_id row) (gm_user_id row))) (\<lambda>found.
       if found then retE ()
       else bindE (reference_check ''memberships'' (\<lambda>s. pg_tenant_exists (gm_tenant_id row) s \<and>
           pg_user_exists (gm_user_id row) s)) (\<lambda>_.
         bindE (modifyE (\<lambda>s. s\<lparr>tb_memberships := tb_memberships s @ [row]\<rparr>)) (\<lambda>_.
           count_memberships (gm_user_id row) 1))))"

text \<open>\<open>array(select distinct role from unnest(roles || $3))\<close> has no order of its own: \<open>distinct\<close> is an argument.\<close>

definition pg_grant_roles :: "(Role list \<Rightarrow> Role list) \<Rightarrow> int \<Rightarrow> string \<Rightarrow> string \<Rightarrow> Role list \<Rightarrow> unit pg_op" where
  "pg_grant_roles distinct_roles now tenantId userId roles = modifyE (\<lambda>s. s\<lparr>tb_memberships := update_where
     (\<lambda>r. rls (gm_tenant_id r) s \<and> pg_member_key r = (tenantId, userId))
     (\<lambda>r. r\<lparr>gm_roles := distinct_roles (gm_roles r @ roles), gm_updated_at := now\<rparr>) (tb_memberships s)\<rparr>)"

definition pg_upsertIdentity ::
    "(Role list \<Rightarrow> Role list) \<Rightarrow> (string \<Rightarrow> string) \<Rightarrow> int \<Rightarrow> OidcIdentity \<Rightarrow> string \<Rightarrow> Role list \<Rightarrow> string pg_op" where
  "pg_upsertIdentity distinct_roles sha now identity tenantId defaultRoles =
     (let userId = stableId sha ''usr'' (oid_issuer identity @ '':'' @ oid_subject identity) in
      pg_begin
        (bindE (pg_upsert_user \<lparr>gu_id = userId, gu_issuer = oid_issuer identity, gu_subject = oid_subject identity,
            gu_email = oid_email identity, gu_display_name = oid_displayName identity, gu_created_at = now,
            gu_updated_at = now, gu_membership_count = 0\<rparr>) (\<lambda>_.
         bindE (pg_insert_tenant now tenantId) (\<lambda>_.
         bindE (set_tenant tenantId) (\<lambda>_.
         bindE (pg_insert_member \<lparr>gm_tenant_id = tenantId, gm_user_id = userId, gm_roles = defaultRoles,
            gm_organization_ids = [], gm_created_at = now, gm_updated_at = now\<rparr>) (\<lambda>_.
         bindE (if platform_admin \<in> set defaultRoles
            then pg_grant_roles distinct_roles now tenantId userId defaultRoles else retE ()) (\<lambda>_.
           retE userId)))))))"

definition pg_createSession :: "pg_platform \<Rightarrow> int \<Rightarrow> NewSession \<Rightarrow> unit pg_op" where
  "pg_createSession pl now input = pg_own (ns_tenantId input)
     (bindE (time_param pl (ns_expiresAt input)) (\<lambda>expires.
      bindE (rls_check ''sessions'' (ns_tenantId input)) (\<lambda>_.
      bindE (unique_check ''sessions_pkey'' (\<lambda>s. exists_row (\<lambda>r. gz_id r = ns_id input) (tb_sessions s))) (\<lambda>_.
      bindE (unique_check ''sessions_token_hash_key''
          (\<lambda>s. exists_row (\<lambda>r. gz_token_hash r = ns_tokenHash input) (tb_sessions s))) (\<lambda>_.
      bindE (reference_check ''sessions'' (\<lambda>s. pg_tenant_exists (ns_tenantId input) s \<and>
          pg_user_exists (ns_userId input) s)) (\<lambda>_.
        modifyE (\<lambda>s. s\<lparr>tb_sessions := tb_sessions s @ [\<lparr>gz_id = ns_id input, gz_tenant_id = ns_tenantId input,
          gz_user_id = ns_userId input, gz_token_hash = ns_tokenHash input, gz_csrf_hash = ns_csrfHash input,
          gz_expires_at = expires, gz_revoked_at = None, gz_created_at = now, gz_last_seen_at = now\<rparr>]\<rparr>)))))))"

text \<open>The function runs as its owner, who sees every row.\<close>

definition authenticate_session :: "int \<Rightarrow> string \<Rightarrow> pg_db \<Rightarrow> pg_session option" where
  "authenticate_session now tokenHash s = select_first
     (\<lambda>r. gz_token_hash r = tokenHash \<and> gz_revoked_at r = None \<and> now < gz_expires_at r) (tb_sessions s)"

definition pg_find_member :: "string \<Rightarrow> string \<Rightarrow> pg_db \<Rightarrow> pg_member option" where
  "pg_find_member t u s = select_first (\<lambda>r. rls (gm_tenant_id r) s \<and> pg_member_key r = (t, u)) (tb_memberships s)"

definition pg_authenticateSession :: "pg_platform \<Rightarrow> int \<Rightarrow> string \<Rightarrow> SessionAuthentication option pg_op" where
  "pg_authenticateSession pl now tokenHash = pg_begin
     (bindE (getE (authenticate_session now tokenHash)) (\<lambda>found. case found of None \<Rightarrow> retE None
      | Some base \<Rightarrow>
        bindE (set_tenant (gz_tenant_id base)) (\<lambda>_.
        bindE (getE (pg_find_member (gz_tenant_id base) (gz_user_id base))) (\<lambda>member. case member of None \<Rightarrow> retE None
        | Some m \<Rightarrow>
          bindE (modifyE (\<lambda>s. s\<lparr>tb_sessions := update_where
              (\<lambda>r. rls (gz_tenant_id r) s \<and> gz_id r = gz_id base) (\<lambda>r. r\<lparr>gz_last_seen_at := now\<rparr>) (tb_sessions s)\<rparr>)) (\<lambda>_.
            retE (Some \<lparr>sa_principal = \<lparr>prin_userId = gz_user_id base, prin_tenantId = gz_tenant_id base,
                prin_roles = gm_roles m, prin_organizationIds = gm_organization_ids m, prin_sessionId = gz_id base\<rparr>,
              sa_csrfHash = gz_csrf_hash base, sa_expiresAt = date_text pl (gz_expires_at base)\<rparr>))))))"

definition pg_revokeSession :: "int \<Rightarrow> string \<Rightarrow> string \<Rightarrow> unit pg_op" where
  "pg_revokeSession now sessionId tenantId = pg_own tenantId (modifyE (\<lambda>s. s\<lparr>tb_sessions := update_where
     (\<lambda>r. rls (gz_tenant_id r) s \<and> gz_id r = sessionId \<and> gz_tenant_id r = tenantId)
     (\<lambda>r. r\<lparr>gz_revoked_at := Some now\<rparr>) (tb_sessions s)\<rparr>))"

section \<open>Credentials\<close>

definition credential_of :: "int \<Rightarrow> StoredCredential \<Rightarrow> int option \<Rightarrow> pg_credential" where
  "credential_of now stored expires = \<lparr>gd_id = sc_id stored, gd_tenant_id = sc_tenantId stored,
     gd_user_id = sc_userId stored, gd_provider = sc_provider stored,
     gd_encrypted_payload = sc_encryptedPayload stored, gd_key_version = sc_keyVersion stored,
     gd_scopes = sc_scopes stored, gd_expires_at = expires, gd_revoked_at = None, gd_created_at = now,
     gd_updated_at = now\<rparr>"

definition save_rows :: "int \<Rightarrow> StoredCredential \<Rightarrow> int option \<Rightarrow> unit pg_op" where
  "save_rows now stored expires =
     bindE (getE (\<lambda>s. exists_row (\<lambda>r. pg_credential_key r =
         (sc_tenantId stored, sc_userId stored, sc_provider stored)) (tb_credentials s))) (\<lambda>found.
       if found then modifyE (\<lambda>s. s\<lparr>tb_credentials := update_where
           (\<lambda>r. pg_credential_key r = (sc_tenantId stored, sc_userId stored, sc_provider stored))
           (\<lambda>r. r\<lparr>gd_encrypted_payload := sc_encryptedPayload stored, gd_key_version := sc_keyVersion stored,
              gd_scopes := sc_scopes stored, gd_expires_at := expires, gd_revoked_at := None,
              gd_updated_at := now\<rparr>) (tb_credentials s)\<rparr>)
       else bindE (unique_check ''credentials_pkey''
           (\<lambda>s. exists_row (\<lambda>r. gd_id r = sc_id stored) (tb_credentials s))) (\<lambda>_.
         bindE (reference_check ''credentials'' (\<lambda>s. pg_tenant_exists (sc_tenantId stored) s \<and>
             pg_user_exists (sc_userId stored) s)) (\<lambda>_.
           modifyE (\<lambda>s. s\<lparr>tb_credentials := tb_credentials s @ [credential_of now stored expires]\<rparr>))))"

definition save_body :: "pg_platform \<Rightarrow> int \<Rightarrow> StoredCredential \<Rightarrow> unit pg_op" where
  "save_body pl now stored =
     bindE (lease_param pl (sc_expiresAt stored)) (\<lambda>expires.
     bindE (rls_check ''credentials'' (sc_tenantId stored)) (\<lambda>_. save_rows now stored expires))"

definition pg_save_credential :: "pg_platform \<Rightarrow> int \<Rightarrow> StoredCredential \<Rightarrow> unit pg_op" where
  "pg_save_credential pl now stored = pg_own (sc_tenantId stored) (save_body pl now stored)"

definition pg_stored_credential :: "pg_platform \<Rightarrow> pg_credential \<Rightarrow> StoredCredential" where
  "pg_stored_credential pl row = \<lparr>sc_id = gd_id row, sc_tenantId = gd_tenant_id row, sc_userId = gd_user_id row,
     sc_provider = gd_provider row, sc_encryptedPayload = gd_encrypted_payload row,
     sc_keyVersion = gd_key_version row, sc_scopes = gd_scopes row, sc_expiresAt = date_member pl (gd_expires_at row),
     sc_revokedAt = date_member pl (gd_revoked_at row)\<rparr>"

definition pg_find_credential :: "pg_platform \<Rightarrow> string \<Rightarrow> string \<Rightarrow> string \<Rightarrow> pg_db \<Rightarrow> StoredCredential option" where
  "pg_find_credential pl t u p s = (if t = [] then None else map_option (pg_stored_credential pl)
     (select_first (\<lambda>r. pg_credential_key r = (t, u, p)) (tb_credentials s)))"

definition pg_revoke_credential :: "int \<Rightarrow> string \<Rightarrow> string \<Rightarrow> string \<Rightarrow> unit pg_op" where
  "pg_revoke_credential now t u p = pg_own t (modifyE (\<lambda>s. s\<lparr>tb_credentials := update_where
     (\<lambda>r. rls (gd_tenant_id r) s \<and> pg_credential_key r = (t, u, p))
     (\<lambda>r. r\<lparr>gd_revoked_at := Some now, gd_updated_at := now\<rparr>) (tb_credentials s)\<rparr>))"

definition pg_credentials :: "pg_platform \<Rightarrow> pg_db credential_repository" where
  "pg_credentials pl = \<lparr>cred_save = (\<lambda>now. pg_save_credential pl (1000 * now)), cred_find = pg_find_credential pl,
     cred_revoke = (\<lambda>clk. pg_revoke_credential (1000 * clk 0))\<rparr>"

section \<open>The audit log\<close>

definition pg_insert_audit :: "pg_audit \<Rightarrow> unit pg_op" where
  "pg_insert_audit row =
     bindE (rls_check ''audit_events'' (ga_tenant_id row)) (\<lambda>_.
     bindE (unique_check ''audit_events_pkey'' (\<lambda>s. exists_row (\<lambda>r. ga_id r = ga_id row) (tb_audit s))) (\<lambda>_.
     bindE (reference_check ''audit_events'' (\<lambda>s. pg_tenant_exists (ga_tenant_id row) s \<and>
         (case ga_actor_id row of None \<Rightarrow> True | Some u \<Rightarrow> pg_user_exists u s))) (\<lambda>_.
       modifyE (\<lambda>s. s\<lparr>tb_audit := tb_audit s @ [row]\<rparr>))))"

definition pg_audit_write :: "string \<Rightarrow> int \<Rightarrow> AuditEvent \<Rightarrow> unit pg_op" where
  "pg_audit_write uuid now event = pg_own (ev_tenantId event)
     (pg_insert_audit \<lparr>ga_id = uid uuid ''aud'', ga_tenant_id = ev_tenantId event,
        ga_actor_id = ev_actorId event, ga_action = ev_action event, ga_resource_type = ev_resourceType event,
        ga_resource_id = ev_resourceId event, ga_request_id = ev_requestId event,
        ga_metadata = nullish (ev_metadata event) (JObj []), ga_created_at = now\<rparr>)"

section \<open>The rate limiter\<close>

record pg_bucket =
  rb_key_hash :: string
  rb_window_start :: int
  rb_request_count :: int
  rb_expires_at :: int

definition pg_bucket_key :: "pg_bucket \<Rightarrow> string \<times> int" where
  "pg_bucket_key r = (rb_key_hash r, rb_window_start r)"

text \<open>The windows of a limiter are aligned to the epoch; \<open>clock\<close> is in microseconds, a window in milliseconds.\<close>

definition pg_window :: "int \<Rightarrow> int \<Rightarrow> int" where
  "pg_window clock windowMs = clock div (1000 * windowMs) * (1000 * windowMs)"

definition consume_rate_limit ::
    "int \<Rightarrow> string \<Rightarrow> int \<Rightarrow> int \<Rightarrow> (error, pg_bucket table, bool \<times> int \<times> int) op" where
  "consume_rate_limit clock key_hash limit windowMs t =
     (if limit < 1 \<or> windowMs < 1000 then (Inl (Error ''invalid rate limit configuration''), t)
      else let window = pg_window clock windowMs; reset = window + 1000 * windowMs;
          u = (if exists_row (\<lambda>r. pg_bucket_key r = (key_hash, window)) t
            then update_where (\<lambda>r. pg_bucket_key r = (key_hash, window))
              (\<lambda>r. r\<lparr>rb_request_count := rb_request_count r + 1\<rparr>) t
            else t @ [\<lparr>rb_key_hash = key_hash, rb_window_start = window, rb_request_count = 1,
              rb_expires_at = reset + 60000000\<rparr>]);
          count = (case select_first (\<lambda>r. pg_bucket_key r = (key_hash, window)) u of
            None \<Rightarrow> 0 | Some r \<Rightarrow> rb_request_count r)
        in (Inr (count \<le> limit, max 0 (limit - count), reset div 1000), u))"

definition pg_consume ::
    "(string \<Rightarrow> string) \<Rightarrow> int \<Rightarrow> string \<Rightarrow> int \<Rightarrow> int \<Rightarrow> (error, pg_bucket table, RateLimitResult) op" where
  "pg_consume sha clock key limit windowMs =
     bindE (consume_rate_limit clock (sha key) limit windowMs) (\<lambda>(allowed, remaining, resetAt).
       retE \<lparr>rl_allowed = allowed, rl_remaining = remaining, rl_resetAt = resetAt\<rparr>)"

section \<open>Lemmas\<close>

lemma pg_own_Inr: "pg_own t m s = (Inr x, s') \<longleftrightarrow>
    (\<exists>u. m (s\<lparr>cn_setting := t\<rparr>) = (Inr x, u) \<and> s' = u\<lparr>cn_setting := cn_setting s\<rparr>)"
  by (auto simp: pg_own_def pg_begin_def set_tenant_def bindE_def modifyE_def split: prod.splits sum.splits)

lemma pg_own_Inl: "pg_own t m s = (Inl e, s') \<Longrightarrow> s' = s"
  by (auto simp: pg_own_def pg_begin_def split: prod.splits sum.splits)

text \<open>A token authenticates only as an unrevoked session that has not ended and whose user is a member; the
  roles are those the member has now.\<close>

lemma pg_authenticate_sound:
  assumes "pg_authenticateSession pl now h s = (Inr (Some a), s')"
  shows "\<exists>r \<in> set (tb_sessions s). \<exists>m \<in> set (tb_memberships s). gz_token_hash r = h \<and> gz_revoked_at r = None \<and>
    now < gz_expires_at r \<and> pg_member_key m = (gz_tenant_id r, gz_user_id r) \<and>
    prin_userId (sa_principal a) = gz_user_id r \<and> prin_tenantId (sa_principal a) = gz_tenant_id r \<and>
    prin_roles (sa_principal a) = gm_roles m \<and> sa_csrfHash a = gz_csrf_hash r"
proof -
  obtain r where r: "authenticate_session now h (s\<lparr>cn_setting := []\<rparr>) = Some r"
    using assms by (auto simp: pg_authenticateSession_def pg_begin_def bindE_def effect_defs split: option.splits)
  obtain m where m: "pg_find_member (gz_tenant_id r) (gz_user_id r) (s\<lparr>cn_setting := gz_tenant_id r\<rparr>) = Some m"
    "prin_userId (sa_principal a) = gz_user_id r \<and> prin_tenantId (sa_principal a) = gz_tenant_id r \<and>
      prin_roles (sa_principal a) = gm_roles m \<and> sa_csrfHash a = gz_csrf_hash r"
    using assms r by (auto simp: pg_authenticateSession_def pg_begin_def bindE_def effect_defs set_tenant_def
        split: option.splits)
  have "r \<in> set (tb_sessions s) \<and> gz_token_hash r = h \<and> gz_revoked_at r = None \<and> now < gz_expires_at r"
    using select_first_Some [OF r [unfolded authenticate_session_def]] by simp
  moreover have "m \<in> set (tb_memberships s) \<and> pg_member_key m = (gz_tenant_id r, gz_user_id r)"
    using select_first_Some [OF m(1) [unfolded pg_find_member_def]] by simp
  ultimately show ?thesis using m(2) by blast
qed

lemma pg_revoked_dead:
  assumes "unique_on gz_token_hash (tb_sessions s)" and "r \<in> set (tb_sessions s)" and "gz_tenant_id r \<noteq> []"
    and run: "pg_revokeSession now (gz_id r) (gz_tenant_id r) s = (Inr (), s')"
  shows "fst (pg_authenticateSession pl later (gz_token_hash r) s') = Inr None"
proof -
  have sessions: "tb_sessions s' = update_where (\<lambda>q. gz_id q = gz_id r \<and> gz_tenant_id q = gz_tenant_id r)
      (\<lambda>q. q\<lparr>gz_revoked_at := Some now\<rparr>) (tb_sessions s)"
    using run assms(3) by (auto simp: pg_revokeSession_def pg_own_Inr modifyE_def rls_def update_where_def)
  have "authenticate_session later (gz_token_hash r) u = None" if "tb_sessions u = tb_sessions s'" for u
    using that assms(1,2) unique_onD [OF assms(1)]
    by (fastforce simp: authenticate_session_def select_first_None sessions set_update_where)
  then show ?thesis by (simp add: pg_authenticateSession_def pg_begin_def bindE_def effect_defs)
qed

lemma pg_credential_key_update:
  "pg_credential_key (r\<lparr>gd_encrypted_payload := a, gd_key_version := b, gd_scopes := c, gd_expires_at := d,
     gd_revoked_at := e, gd_updated_at := f\<rparr>) = pg_credential_key r"
  "pg_credential_key (r\<lparr>gd_revoked_at := e, gd_updated_at := f\<rparr>) = pg_credential_key r"
  by (simp_all add: pg_credential_key_def)

lemma pg_select_key_update:
  assumes "\<And>r. pg_credential_key (f r) = pg_credential_key r"
  shows "select_first (\<lambda>q. pg_credential_key q = k) (update_where (\<lambda>q. pg_credential_key q = j) f t) =
    map_option (\<lambda>r. if k = j then f r else r) (select_first (\<lambda>q. pg_credential_key q = k) t)"
  using assms unfolding select_first_def update_where_def by (induction t) auto

lemma lease_param_Inr: "lease_param pl x s = (Inr e, u) \<Longrightarrow> u = s"
  by (auto simp: lease_param_def time_param_def effect_defs split: option.splits)

lemma pg_save_cases:
  assumes "pg_save_credential pl now stored s = (r, s')"
  shows "(\<exists>e. r = Inl e \<and> s' = s) \<or> sc_tenantId stored \<noteq> [] \<and> r = Inr () \<and>
    (\<exists>row. pg_credential_key row = (sc_tenantId stored, sc_userId stored, sc_provider stored) \<and>
       gd_encrypted_payload row = sc_encryptedPayload stored \<and> gd_key_version row = sc_keyVersion stored \<and>
       gd_revoked_at row = None \<and>
       select_first (\<lambda>q. pg_credential_key q = pg_credential_key row) (tb_credentials s') = Some row \<and>
       (\<forall>k. k \<noteq> pg_credential_key row \<longrightarrow>
         select_first (\<lambda>q. pg_credential_key q = k) (tb_credentials s') =
         select_first (\<lambda>q. pg_credential_key q = k) (tb_credentials s)))"
proof (cases r)
  case (Inl e)
  then show ?thesis using assms pg_own_Inl by (auto simp: pg_save_credential_def)
next
  case (Inr v)
  let ?k = "(sc_tenantId stored, sc_userId stored, sc_provider stored)"
  let ?s = "s\<lparr>cn_setting := sc_tenantId stored\<rparr>"
  obtain u where u: "s' = u\<lparr>cn_setting := cn_setting s\<rparr>" and body: "save_body pl now stored ?s = (Inr (), u)"
    using assms Inr by (auto simp: pg_save_credential_def pg_own_Inr)
  obtain expires where rest: "bindE (rls_check ''credentials'' (sc_tenantId stored))
      (\<lambda>_. save_rows now stored expires) ?s = (Inr (), u)"
    using body by (auto simp: save_body_def bindE_Inr_iff dest: lease_param_Inr)
  then have tenant: "sc_tenantId stored \<noteq> []" and rows: "save_rows now stored expires ?s = (Inr (), u)"
    by (auto simp: bindE_Inr_iff rls_check_def guardE_iff rls_def)
  have tables: "exists_row (\<lambda>r. pg_credential_key r = ?k) (tb_credentials s) \<and>
        tb_credentials u = update_where (\<lambda>r. pg_credential_key r = ?k)
            (\<lambda>r. r\<lparr>gd_encrypted_payload := sc_encryptedPayload stored, gd_key_version := sc_keyVersion stored,
               gd_scopes := sc_scopes stored, gd_expires_at := expires, gd_revoked_at := None,
               gd_updated_at := now\<rparr>) (tb_credentials s) \<or>
      \<not> exists_row (\<lambda>r. pg_credential_key r = ?k) (tb_credentials s) \<and>
        tb_credentials u = tb_credentials s @ [credential_of now stored expires]"
    using rows by (auto simp: save_rows_def bindE_def getE_def modifyE_def guardE_def unique_check_def
        reference_check_def split: if_splits)
  from tables show ?thesis
  proof (elim disjE conjE)
    let ?f = "\<lambda>r. r\<lparr>gd_encrypted_payload := sc_encryptedPayload stored, gd_key_version := sc_keyVersion stored,
               gd_scopes := sc_scopes stored, gd_expires_at := expires, gd_revoked_at := None, gd_updated_at := now\<rparr>"
    assume "exists_row (\<lambda>r. pg_credential_key r = ?k) (tb_credentials s)"
      and upd: "tb_credentials u = update_where (\<lambda>r. pg_credential_key r = ?k) ?f (tb_credentials s)"
    then obtain row where row: "select_first (\<lambda>q. pg_credential_key q = ?k) (tb_credentials s) = Some row"
      by (metis exists_row_iff select_first_None not_None_eq)
    have "pg_credential_key (?f row) = ?k"
      using select_first_Some [OF row] by (simp add: pg_credential_key_def)
    moreover have "select_first (\<lambda>q. pg_credential_key q = k) (tb_credentials u) =
        map_option (\<lambda>r. if k = ?k then ?f r else r) (select_first (\<lambda>q. pg_credential_key q = k) (tb_credentials s))" for k
      unfolding upd by (rule pg_select_key_update) (rule pg_credential_key_update)
    ultimately show ?thesis using u tenant Inr row
      by (intro disjI2 conjI exI [of _ "?f row"]) (simp_all add: option.map_ident)
  next
    let ?row = "credential_of now stored expires"
    assume new: "\<not> exists_row (\<lambda>r. pg_credential_key r = ?k) (tb_credentials s)"
      and app: "tb_credentials u = tb_credentials s @ [?row]"
    have none: "select_first (\<lambda>q. pg_credential_key q = ?k) (tb_credentials s) = None"
      using new by (auto simp: select_first_None exists_row_iff)
    have key: "pg_credential_key ?row = ?k" by (simp add: pg_credential_key_def credential_of_def)
    have "gd_encrypted_payload ?row = sc_encryptedPayload stored" "gd_key_version ?row = sc_keyVersion stored"
      "gd_revoked_at ?row = None" by (simp_all add: credential_of_def)
    then show ?thesis using u tenant Inr none
      by (intro disjI2 conjI exI [of _ ?row]) (auto simp: app key select_first_append1 split: option.splits)
  qed
qed

lemma pg_revoke_rows:
  assumes "pg_revoke_credential now t u p s = (r, s')"
  shows "select_first (\<lambda>q. pg_credential_key q = k) (tb_credentials s') =
    map_option (\<lambda>r. if t \<noteq> [] \<and> k = (t, u, p) then r\<lparr>gd_revoked_at := Some now, gd_updated_at := now\<rparr> else r)
      (select_first (\<lambda>q. pg_credential_key q = k) (tb_credentials s))"
proof -
  let ?f = "\<lambda>r. r\<lparr>gd_revoked_at := Some now, gd_updated_at := now\<rparr>"
  have "update_where (\<lambda>r. t \<noteq> [] \<and> gd_tenant_id r = t \<and> pg_credential_key r = (t, u, p)) ?f xs =
      (if t = [] then xs else update_where (\<lambda>r. pg_credential_key r = (t, u, p)) ?f xs)" for xs
    by (auto simp: update_where_def pg_credential_key_def intro: map_idI)
  then have "tb_credentials s' = (if t = [] then tb_credentials s
      else update_where (\<lambda>r. pg_credential_key r = (t, u, p)) ?f (tb_credentials s))"
    using assms by (auto simp: pg_revoke_credential_def pg_own_def pg_begin_def set_tenant_def bindE_def modifyE_def rls_def)
  then show ?thesis using pg_select_key_update [of ?f k "(t, u, p)" "tb_credentials s"] pg_credential_key_update(2)
    by (simp add: option.map_ident)
qed

interpretation pg_creds: credential_store "pg_credentials pl" for pl
proof
  fix now stored and s s' :: pg_db
  assume "cred_save (pg_credentials pl) now stored s = (Inr (), s')"
  then show "\<exists>w. cred_find (pg_credentials pl) (sc_tenantId stored) (sc_userId stored) (sc_provider stored) s' = Some w \<and>
        sc_encryptedPayload w = sc_encryptedPayload stored \<and> sc_keyVersion w = sc_keyVersion stored \<and>
        sc_revokedAt w = None"
    using pg_save_cases [of pl "1000 * now" stored s "Inr ()" s']
    by (auto simp: pg_credentials_def pg_find_credential_def pg_stored_credential_def date_member_def)
next
  fix now stored r t u p and s s' :: pg_db
  assume "cred_save (pg_credentials pl) now stored s = (r, s')"
    "(t, u, p) \<noteq> (sc_tenantId stored, sc_userId stored, sc_provider stored)"
  then show "cred_find (pg_credentials pl) t u p s' = cred_find (pg_credentials pl) t u p s"
    using pg_save_cases [of pl "1000 * now" stored s r s']
    by (auto simp: pg_credentials_def pg_find_credential_def)
next
  fix clk t u p r w and s s' :: pg_db
  assume "cred_revoke (pg_credentials pl) clk t u p s = (r, s')" "cred_find (pg_credentials pl) t u p s' = Some w"
  then show "sc_revokedAt w \<noteq> None"
    by (auto simp: pg_credentials_def pg_find_credential_def pg_stored_credential_def date_member_def
        pg_revoke_rows split: if_splits)
next
  fix clk t u p r t' u' p' and s s' :: pg_db
  assume "cred_revoke (pg_credentials pl) clk t u p s = (r, s')" "(t', u', p') \<noteq> (t, u, p)"
  then show "cred_find (pg_credentials pl) t' u' p' s' = cred_find (pg_credentials pl) t' u' p' s"
    by (auto simp: pg_credentials_def pg_find_credential_def pg_revoke_rows option.map_ident)
qed

text \<open>A credential put into the vault on Postgres is what the vault gives back, until it is revoked.\<close>

lemma pg_vault_roundtrip:
  assumes "gcm_correct g" and "length nonce = 12" and "wf_credential c"
    and "vault_put (pg_credentials pl) sha g v nonce now t u p c s = (Inr (), s')"
  shows "vault_get (pg_credentials pl) g v t u p s' = (Inr (Some c), s') \<and>
    (\<forall>clk r s2. vault_revoke (pg_credentials pl) clk t u p s' = (r, s2) \<longrightarrow>
       vault_get (pg_credentials pl) g v t u p s2 = (Inr None, s2))"
  using pg_creds.put_get [OF assms] pg_creds.revoke_get by blast

text \<open>The limiter: in each window of a key at most as many calls as the limit are allowed, whatever other keys
  and windows are used in between.\<close>

fun pg_admitted ::
    "(string \<Rightarrow> string) \<Rightarrow> int \<Rightarrow> int \<Rightarrow> string \<Rightarrow> int \<Rightarrow> (int \<times> string) list \<Rightarrow> pg_bucket table \<Rightarrow> nat" where
  "pg_admitted sha limit windowMs key window [] t = 0"
| "pg_admitted sha limit windowMs key window ((clock, k) # calls) t =
     (case pg_consume sha clock k limit windowMs t of (r, u) \<Rightarrow>
       (if sha k = sha key \<and> pg_window clock windowMs = window \<and>
           (case r of Inr x \<Rightarrow> rl_allowed x | Inl _ \<Rightarrow> False) then 1 else 0) +
       pg_admitted sha limit windowMs key window calls u)"

definition pg_count :: "string \<Rightarrow> int \<Rightarrow> pg_bucket table \<Rightarrow> int" where
  "pg_count h window t = (case select_first (\<lambda>r. pg_bucket_key r = (h, window)) t of None \<Rightarrow> 0
     | Some r \<Rightarrow> rb_request_count r)"

lemma pg_count_update:
  "pg_count h w (update_where (\<lambda>r. pg_bucket_key r = k) (\<lambda>r. r\<lparr>rb_request_count := rb_request_count r + 1\<rparr>) t) =
     pg_count h w t + (if (h, w) = k \<and> exists_row (\<lambda>r. pg_bucket_key r = k) t then 1 else 0)"
  unfolding pg_count_def select_first_def update_where_def exists_row_def
  by (induction t) (auto simp: pg_bucket_key_def)

lemma pg_count_append:
  assumes "\<not> exists_row (\<lambda>r. pg_bucket_key r = pg_bucket_key b) t"
  shows "pg_count h w (t @ [b]) = pg_count h w t + (if (h, w) = pg_bucket_key b then rb_request_count b else 0)"
  using assms unfolding pg_count_def select_first_def exists_row_def
  by (induction t) (auto simp: pg_bucket_key_def)

lemma pg_consume_step:
  assumes "1 \<le> limit" and "1000 \<le> windowMs" and "pg_consume sha clock k limit windowMs t = (r, u)"
  shows "pg_count h w u = pg_count h w t + (if h = sha k \<and> w = pg_window clock windowMs then 1 else 0)"
    and "\<exists>x. r = Inr x \<and> (rl_allowed x \<longleftrightarrow> pg_count (sha k) (pg_window clock windowMs) u \<le> limit)"
proof -
  let ?key = "(sha k, pg_window clock windowMs)"
  let ?b = "\<lparr>rb_key_hash = sha k, rb_window_start = pg_window clock windowMs, rb_request_count = 1,
    rb_expires_at = pg_window clock windowMs + 1000 * windowMs + 60000000\<rparr>"
  have u: "u = (if exists_row (\<lambda>r. pg_bucket_key r = ?key) t
      then update_where (\<lambda>r. pg_bucket_key r = ?key) (\<lambda>r. r\<lparr>rb_request_count := rb_request_count r + 1\<rparr>) t
      else t @ [?b])"
    and res: "\<exists>x. r = Inr x \<and> (rl_allowed x \<longleftrightarrow> pg_count (sha k) (pg_window clock windowMs) u \<le> limit)"
    using assms by (auto simp: pg_consume_def consume_rate_limit_def Let_def bindE_def retE_def pg_count_def)
  have b: "pg_bucket_key ?b = ?key" by (simp add: pg_bucket_key_def)
  show "pg_count h w u = pg_count h w t + (if h = sha k \<and> w = pg_window clock windowMs then 1 else 0)"
    using pg_count_update [of h w ?key t] pg_count_append [of ?b t h w] unfolding u b by (auto simp: b)
  show "\<exists>x. r = Inr x \<and> (rl_allowed x \<longleftrightarrow> pg_count (sha k) (pg_window clock windowMs) u \<le> limit)" by (rule res)
qed

lemma pg_admitted_allowance:
  assumes "1 \<le> limit" and "1000 \<le> windowMs"
  shows "int (pg_admitted sha limit windowMs key window calls t) \<le> max 0 (limit - pg_count (sha key) window t)"
proof (induction calls arbitrary: t)
  case (Cons a calls)
  obtain clock k where a: "a = (clock, k)" by (cases a)
  obtain r u where run: "pg_consume sha clock k limit windowMs t = (r, u)" by fastforce
  show ?case
  proof (cases "sha key = sha k \<and> window = pg_window clock windowMs")
    case True
    then show ?thesis using pg_consume_step [OF assms run] Cons.IH [of u] by (auto simp: a run)
  next
    case False
    then show ?thesis using pg_consume_step(1) [OF assms run, of "sha key" window] Cons.IH [of u]
      by (auto simp: a run)
  qed
qed simp

lemma pg_rate_limit_bound:
  assumes "1 \<le> limit" and "1000 \<le> windowMs"
  shows "int (pg_admitted sha limit windowMs key window calls []) \<le> limit"
  using pg_admitted_allowance [OF assms, of sha key window calls "[]"] assms(1)
  by (simp add: pg_count_def select_first_def)

end
