(* ===== verification/PgPrivacy.thy ===== *)
theory PgPrivacy
  imports PgAccounts Privacy
begin

text \<open>
  Export and erasure of an account on Postgres, src/src/infrastructure/privacy/postgres-privacy-repository.ts.
  The statements of the methods are under row-level security; what a deletion takes with it (the foreign keys
  with \<open>on delete cascade\<close> and \<open>on delete set null\<close>, and the trigger on memberships) is not. \<open>json_as_text\<close> is
  the text that the server gives to a jsonb value other than a text. After a successful erasure nothing of the
  user is left in the tenant (\<open>pg_erase_removes_account\<close>).
\<close>

section \<open>The export\<close>

definition pg_exported_connectors ::
    "(string \<Rightarrow> string) \<Rightarrow> pg_platform \<Rightarrow> string \<Rightarrow> string \<Rightarrow> pg_db \<Rightarrow> ExportedConnector list" where
  "pg_exported_connectors collate pl t u s =
     map (\<lambda>r. \<lparr>xc_provider = gd_provider r, xc_scopes = gd_scopes r, xc_expiresAt = date_member pl (gd_expires_at r),
         xc_revokedAt = date_member pl (gd_revoked_at r), xc_createdAt = date_text pl (gd_created_at r)\<rparr>)
       (order_by (\<lambda>r. collate (gd_provider r))
         (select_where (\<lambda>r. rls (gd_tenant_id r) s \<and> gd_tenant_id r = t \<and> gd_user_id r = u) (tb_credentials s)))"

definition pg_contributor_of :: "string \<Rightarrow> string \<Rightarrow> pg_db \<Rightarrow> pg_contributor \<Rightarrow> bool" where
  "pg_contributor_of t u s c \<longleftrightarrow> rls (gx_tenant_id c) s \<and> gx_tenant_id c = t \<and> gx_user_id c = u"

definition pg_contribution_join :: "string \<Rightarrow> string \<Rightarrow> pg_db \<Rightarrow> (pg_contributor \<times> pg_version \<times> pg_source) list" where
  "pg_contribution_join t u s = concat (map (\<lambda>c. concat (map (\<lambda>v. map (\<lambda>r. (c, v, r))
      (select_where (\<lambda>r. rls (gs_tenant_id r) s \<and> gs_id r = gv_source_id v \<and> gs_tenant_id r = gv_tenant_id v)
        (tb_sources s)))
     (select_where (\<lambda>v. rls (gv_tenant_id v) s \<and> gv_id v = gx_source_version_id c \<and>
        gv_tenant_id v = gx_tenant_id c) (tb_versions s))))
     (select_where (pg_contributor_of t u s) (tb_contributors s)))"

definition pg_shared :: "pg_contributor \<Rightarrow> pg_db \<Rightarrow> bool" where
  "pg_shared c s = exists_row (\<lambda>other. rls (gx_tenant_id other) s \<and> gx_tenant_id other = gx_tenant_id c \<and>
     gx_source_version_id other = gx_source_version_id c \<and> gx_user_id other \<noteq> gx_user_id c) (tb_contributors s)"

definition pg_exported_contribution ::
    "pg_platform \<Rightarrow> pg_db \<Rightarrow> pg_contributor \<times> pg_version \<times> pg_source \<Rightarrow> ExportedContribution" where
  "pg_exported_contribution pl s = (\<lambda>(c, v, r).
     \<lparr>xn_sourceVersionId = gv_id v, xn_organizationId = gv_organization_id v, xn_sourceType = gs_source_type r,
      xn_title = (if private_source (gs_source_type r) then None else gs_title r),
      xn_url = (if private_source (gs_source_type r) then None else gs_url r),
      xn_publishedAt = date_member pl (gv_published_at v), xn_fetchedAt = date_text pl (gv_fetched_at v),
      xn_status = gv_status v, xn_shared = pg_shared c s\<rparr>)"

definition pg_exported_contributions :: "pg_platform \<Rightarrow> string \<Rightarrow> string \<Rightarrow> pg_db \<Rightarrow> ExportedContribution list" where
  "pg_exported_contributions pl t u s = map (pg_exported_contribution pl s)
     (order_by_desc (\<lambda>(c, v, r). gx_created_at c) (pg_contribution_join t u s))"

definition pg_exported_activity :: "pg_platform \<Rightarrow> string \<Rightarrow> string \<Rightarrow> pg_db \<Rightarrow> ExportedActivity list" where
  "pg_exported_activity pl t u s =
     map (\<lambda>r. \<lparr>xa_action = ga_action r, xa_resourceType = ga_resource_type r, xa_resourceId = ga_resource_id r,
         xa_createdAt = date_text pl (ga_created_at r)\<rparr>)
       (order_by_desc ga_created_at
         (select_where (\<lambda>r. rls (ga_tenant_id r) s \<and> ga_tenant_id r = t \<and> ga_actor_id r = Some u) (tb_audit s)))"

definition pg_account :: "(string \<Rightarrow> string) \<Rightarrow> pg_platform \<Rightarrow> int \<Rightarrow> string \<Rightarrow> string \<Rightarrow> pg_db \<Rightarrow> AccountDataExport option" where
  "pg_account collate pl clock t u s =
     (case (select_first (\<lambda>r. gu_id r = u) (tb_users s), pg_find_member t u s) of
        (Some usr, Some m) \<Rightarrow> Some
          \<lparr>exp_generatedAt = nowIso clock,
           exp_identity = \<lparr>xi_id = gu_id usr, xi_issuer = gu_issuer usr, xi_subject = gu_subject usr,
             xi_email = gu_email usr, xi_displayName = gu_display_name usr,
             xi_createdAt = date_text pl (gu_created_at usr)\<rparr>,
           exp_membership = \<lparr>xm_tenantId = t, xm_roles = gm_roles m, xm_organizationIds = gm_organization_ids m,
             xm_createdAt = date_text pl (gm_created_at m)\<rparr>,
           exp_connectors = pg_exported_connectors collate pl t u s,
           exp_contributions = pg_exported_contributions pl t u s,
           exp_activity = pg_exported_activity pl t u s\<rparr>
      | _ \<Rightarrow> None)"

definition pg_exportAccount ::
    "(string \<Rightarrow> string) \<Rightarrow> pg_platform \<Rightarrow> int \<Rightarrow> string \<Rightarrow> string \<Rightarrow> AccountDataExport option pg_op" where
  "pg_exportAccount collate pl clock tenantId userId = pg_own tenantId (getE (pg_account collate pl clock tenantId userId))"

section \<open>The statements of the erasure\<close>

text \<open>The contributed private versions with their organizations.\<close>

definition pg_contributed_private :: "string \<Rightarrow> string \<Rightarrow> pg_db \<Rightarrow> (string \<times> string) list" where
  "pg_contributed_private t u s = map (\<lambda>(c, v, r). (gv_id v, gv_organization_id v))
     (filter (\<lambda>(c, v, r). private_source (gs_source_type r)) (pg_contribution_join t u s))"

definition pg_delete_contributions :: "string \<Rightarrow> string \<Rightarrow> nat pg_op" where
  "pg_delete_contributions t u s = (Inr (count_where (pg_contributor_of t u s) (tb_contributors s)),
     s\<lparr>tb_contributors := delete_where (pg_contributor_of t u s) (tb_contributors s)\<rparr>)"

definition pg_orphaned :: "string \<Rightarrow> string list \<Rightarrow> pg_db \<Rightarrow> (string \<times> string) list" where
  "pg_orphaned t candidateIds s = (if candidateIds = [] then [] else
     map (\<lambda>v. (gv_id v, gv_organization_id v)) (select_where (\<lambda>v. rls (gv_tenant_id v) s \<and> gv_tenant_id v = t \<and>
       gv_id v \<in> set candidateIds \<and> \<not> exists_row (\<lambda>c. rls (gx_tenant_id c) s \<and> gx_tenant_id c = gv_tenant_id v \<and>
         gx_source_version_id c = gv_id v) (tb_contributors s)) (tb_versions s)))"

definition pg_delete_claims :: "string \<Rightarrow> string list \<Rightarrow> nat pg_op" where
  "pg_delete_claims t ids s =
     (let p = (\<lambda>r. rls (gc_tenant_id r) s \<and> gc_tenant_id r = t \<and> gc_source_version_id r \<in> set ids) in
      (Inr (count_where p (tb_claims s)), s\<lparr>tb_claims := delete_where p (tb_claims s)\<rparr>))"

text \<open>Versions take their claims and contributors with them, sources their versions.\<close>

definition drop_versions :: "(pg_version \<Rightarrow> bool) \<Rightarrow> pg_db \<Rightarrow> pg_db" where
  "drop_versions p s = (let gone = set (select_where p (tb_versions s)) in
     s\<lparr>tb_versions := delete_where p (tb_versions s),
       tb_claims := delete_where (\<lambda>r. gc_source_version_id r \<in> gv_id ` gone) (tb_claims s),
       tb_contributors := delete_where (\<lambda>r. (gx_tenant_id r, gx_source_version_id r) \<in>
         (\<lambda>v. (gv_tenant_id v, gv_id v)) ` gone) (tb_contributors s)\<rparr>)"

definition pg_delete_versions :: "string \<Rightarrow> string list \<Rightarrow> nat pg_op" where
  "pg_delete_versions t ids s =
     (let p = (\<lambda>v. rls (gv_tenant_id v) s \<and> gv_tenant_id v = t \<and> gv_id v \<in> set ids) in
      (Inr (count_where p (tb_versions s)), drop_versions p s))"

definition pg_delete_empty_sources :: "string \<Rightarrow> unit pg_op" where
  "pg_delete_empty_sources t = modifyE (\<lambda>s.
     let p = (\<lambda>r. rls (gs_tenant_id r) s \<and> gs_tenant_id r = t \<and>
         \<not> exists_row (\<lambda>v. rls (gv_tenant_id v) s \<and> gv_source_id v = gs_id r) (tb_versions s)) in
     drop_versions (\<lambda>v. gv_source_id v \<in> gs_id ` set (select_where p (tb_sources s)))
       (s\<lparr>tb_sources := delete_where p (tb_sources s)\<rparr>))"

definition pg_delete_credentials :: "string \<Rightarrow> string \<Rightarrow> nat pg_op" where
  "pg_delete_credentials t u s =
     (let p = (\<lambda>r. rls (gd_tenant_id r) s \<and> gd_tenant_id r = t \<and> gd_user_id r = u) in
      (Inr (count_where p (tb_credentials s)), s\<lparr>tb_credentials := delete_where p (tb_credentials s)\<rparr>))"

definition pg_delete_sessions :: "string \<Rightarrow> string \<Rightarrow> nat pg_op" where
  "pg_delete_sessions t u s =
     (let p = (\<lambda>r. rls (gz_tenant_id r) s \<and> gz_tenant_id r = t \<and> gz_user_id r = u) in
      (Inr (count_where p (tb_sessions s)), s\<lparr>tb_sessions := delete_where p (tb_sessions s)\<rparr>))"

text \<open>\<open>payload->>'userId'\<close>\<close>

definition jsonb_text :: "(json \<Rightarrow> string) \<Rightarrow> json \<Rightarrow> string \<Rightarrow> string option" where
  "jsonb_text json_as_text v k = (case json_get v k of None \<Rightarrow> None | Some JNull \<Rightarrow> None | Some (JStr x) \<Rightarrow> Some x
     | Some w \<Rightarrow> Some (json_as_text w))"

definition pg_user_job :: "(json \<Rightarrow> string) \<Rightarrow> string \<Rightarrow> string \<Rightarrow> pg_job \<Rightarrow> bool" where
  "pg_user_job json_as_text t u r \<longleftrightarrow> pj_tenant_id r = t \<and> jsonb_text json_as_text (pj_payload r) ''userId'' = Some u"

definition pg_delete_jobs :: "(json \<Rightarrow> string) \<Rightarrow> string \<Rightarrow> string \<Rightarrow> nat pg_op" where
  "pg_delete_jobs json_as_text t u s =
     (let p = (\<lambda>r. rls (pj_tenant_id r) s \<and> pg_user_job json_as_text t u r) in
      (Inr (count_where p (tb_jobs s)), s\<lparr>tb_jobs := delete_where p (tb_jobs s)\<rparr>))"

text \<open>\<open>like\<close> of Postgres: \<open>%\<close> stands for any text, \<open>_\<close> for any character, and a backslash makes the next
  character stand for itself.\<close>

fun pg_like :: "string \<Rightarrow> string \<Rightarrow> bool" where
  "pg_like [] x = (x = [])"
| "pg_like (c # p) x =
     (if c = CHR ''%'' then pg_like p x \<or> (case x of [] \<Rightarrow> False | _ # y \<Rightarrow> pg_like (c # p) y)
      else if c = CHR 0x5C then
        (case p of [] \<Rightarrow> False | d # q \<Rightarrow> (case x of [] \<Rightarrow> False | a # y \<Rightarrow> a = d \<and> pg_like q y))
      else (case x of [] \<Rightarrow> False | a # y \<Rightarrow> (c = CHR ''_'' \<or> a = c) \<and> pg_like p y))"

lemma pg_like_prefix: "CHR 0x5C \<notin> set u \<Longrightarrow> pg_like (u @ ''%'') (u @ x)"
proof (induction u)
  case Nil
  have "pg_like ''%'' x" by (induction x) auto
  then show ?case by simp
next
  case (Cons c u)
  have "pg_like (CHR ''%'' # u @ ''%'') (u @ x)" using Cons by (simp add: pg_like.simps(2) [of _ _ "u @ x"] del: pg_like.simps)
  then show ?case using Cons by (cases "c = CHR ''%''") auto
qed

lemma pg_like_scope: "CHR 0x5C \<notin> set u \<Longrightarrow> starts_with x (u @ '':'') \<Longrightarrow> pg_like (u @ '':%'') x"
  using pg_like_prefix [of "u @ '':''"] by (auto simp: starts_with_iff)

definition pg_delete_connectors :: "string \<Rightarrow> string \<Rightarrow> nat pg_op" where
  "pg_delete_connectors t u s =
     (let p = (\<lambda>r. rls (gk_tenant_id r) s \<and> gk_tenant_id r = t \<and>
         (gk_scope r = u \<or> pg_like (u @ '':%'') (gk_scope r))) in
      (Inr (count_where p (tb_connectors s)), s\<lparr>tb_connectors := delete_where p (tb_connectors s)\<rparr>))"

definition pg_clear_audit_actor :: "string \<Rightarrow> string \<Rightarrow> unit pg_op" where
  "pg_clear_audit_actor t u = modifyE (\<lambda>s. s\<lparr>tb_audit := update_where
     (\<lambda>r. rls (ga_tenant_id r) s \<and> ga_tenant_id r = t \<and> ga_actor_id r = Some u)
     (\<lambda>r. r\<lparr>ga_actor_id := None\<rparr>) (tb_audit s)\<rparr>)"

definition pg_clear_override_actor :: "string \<Rightarrow> string \<Rightarrow> unit pg_op" where
  "pg_clear_override_actor t u = modifyE (\<lambda>s. s\<lparr>tb_overrides := update_where
     (\<lambda>r. rls (gr_tenant_id r) s \<and> gr_tenant_id r = t \<and> gr_actor_id r = Some u)
     (\<lambda>r. r\<lparr>gr_actor_id := None\<rparr>) (tb_overrides s)\<rparr>)"

text \<open>Memberships take the connector states and contributions of the member with them, and the trigger
  discounts them.\<close>

definition drop_members :: "(pg_member \<Rightarrow> bool) \<Rightarrow> pg_db \<Rightarrow> pg_db" where
  "drop_members p s = (let gone = pg_member_key ` set (select_where p (tb_memberships s)) in
     s\<lparr>tb_memberships := delete_where p (tb_memberships s),
       tb_connectors := delete_where (\<lambda>r. case gk_owner_user_id r of None \<Rightarrow> False
         | Some u \<Rightarrow> (gk_tenant_id r, u) \<in> gone) (tb_connectors s),
       tb_contributors := delete_where (\<lambda>r. (gx_tenant_id r, gx_user_id r) \<in> gone) (tb_contributors s),
       tb_users := map (\<lambda>r. r\<lparr>gu_membership_count := gu_membership_count r -
         int (count_where (\<lambda>m. p m \<and> gm_user_id m = gu_id r) (tb_memberships s))\<rparr>) (tb_users s)\<rparr>)"

definition pg_delete_membership :: "string \<Rightarrow> string \<Rightarrow> nat pg_op" where
  "pg_delete_membership t u s =
     (let p = (\<lambda>r. rls (gm_tenant_id r) s \<and> pg_member_key r = (t, u)); w = drop_members p s in
      if exists_row (\<lambda>r. gu_membership_count r < 0) (tb_users w) then (Inl (SqlError (CheckViolation ''users'')), s)
      else (Inr (count_where p (tb_memberships s)), w))"

text \<open>An identity takes its memberships, sessions and credentials with it, in every tenant.\<close>

definition pg_delete_user :: "string \<Rightarrow> nat pg_op" where
  "pg_delete_user u s =
     (let p = (\<lambda>r. gu_id r = u \<and> gu_membership_count r = 0); n = count_where p (tb_users s) in
      (Inr n, if n = 0 then s else
        (drop_members (\<lambda>m. gm_user_id m = u) (s\<lparr>tb_users := delete_where p (tb_users s)\<rparr>))
          \<lparr>tb_sessions := delete_where (\<lambda>r. gz_user_id r = u) (tb_sessions s),
           tb_credentials := delete_where (\<lambda>r. gd_user_id r = u) (tb_credentials s),
           tb_audit := update_where (\<lambda>r. ga_actor_id r = Some u) (\<lambda>r. r\<lparr>ga_actor_id := None\<rparr>) (tb_audit s),
           tb_overrides := update_where (\<lambda>r. gr_actor_id r = Some u) (\<lambda>r. r\<lparr>gr_actor_id := None\<rparr>) (tb_overrides s)\<rparr>))"

definition pg_reconcile_row :: "(string \<Rightarrow> string) \<Rightarrow> int \<Rightarrow> string \<Rightarrow> string \<Rightarrow> string \<Rightarrow> string \<Rightarrow> pg_job" where
  "pg_reconcile_row sha now t u operationId organizationId =
     (let idempotencyKey = ''privacy:'' @ u @ '':'' @ operationId @ '':'' @ organizationId in
      \<lparr>pj_id = stableId sha ''job'' (t @ '':privacy.reconcile:'' @ idempotencyKey), pj_tenant_id = t,
       pj_type = ''privacy.reconcile'', pj_idempotency_key = idempotencyKey,
       pj_payload = JObj [(''organizationId'', JStr organizationId)], pj_status = job_queued, pj_priority = 10,
       pj_attempt_count = 0, pj_max_attempts = 5, pj_available_at = now, pj_leased_until = None,
       pj_leased_by = None, pj_last_error = None, pj_created_at = now, pj_updated_at = now\<rparr>)"

definition pg_insert_job :: "pg_job \<Rightarrow> unit pg_op" where
  "pg_insert_job row =
     bindE (rls_check ''jobs'' (pj_tenant_id row)) (\<lambda>_.
     bindE (unique_check ''jobs_pkey'' (\<lambda>s. exists_row (\<lambda>r. pj_id r = pj_id row) (tb_jobs s))) (\<lambda>_.
     bindE (unique_check ''jobs_tenant_id_type_idempotency_key_key''
         (\<lambda>s. exists_row (\<lambda>r. pg_job_key r = pg_job_key row) (tb_jobs s))) (\<lambda>_.
     bindE (reference_check ''jobs'' (pg_tenant_exists (pj_tenant_id row))) (\<lambda>_.
       modifyE (\<lambda>s. s\<lparr>tb_jobs := tb_jobs s @ [row]\<rparr>)))))"

fun pg_insert_reconciliations ::
    "(string \<Rightarrow> string) \<Rightarrow> int \<Rightarrow> string \<Rightarrow> string \<Rightarrow> string \<Rightarrow> string list \<Rightarrow> string list pg_op" where
  "pg_insert_reconciliations sha now t u operationId [] = retE []"
| "pg_insert_reconciliations sha now t u operationId (organizationId # os) =
     bindE (pg_insert_job (pg_reconcile_row sha now t u operationId organizationId)) (\<lambda>_.
     bindE (pg_insert_reconciliations sha now t u operationId os) (\<lambda>ids.
       retE (pj_id (pg_reconcile_row sha now t u operationId organizationId) # ids)))"

section \<open>The erasure\<close>

definition pg_erase_evidence :: "string \<Rightarrow> string \<Rightarrow> (nat \<times> (string \<times> string) list \<times> nat \<times> nat) pg_op" where
  "pg_erase_evidence t u =
     bindE (getE (pg_contributed_private t u)) (\<lambda>rows.
     bindE (pg_delete_contributions t u) (\<lambda>removed.
     bindE (getE (pg_orphaned t (map fst rows))) (\<lambda>orphans.
     bindE (if orphans = [] then retE 0 else pg_delete_claims t (map fst orphans)) (\<lambda>claimsDeleted.
     bindE (if orphans = [] then retE 0 else pg_delete_versions t (map fst orphans)) (\<lambda>versionsDeleted.
       retE (removed, orphans, claimsDeleted, versionsDeleted))))))"

definition pg_erasure_audit ::
    "(string \<Rightarrow> string) \<Rightarrow> int \<Rightarrow> string \<Rightarrow> string \<Rightarrow> string \<Rightarrow> AccountErasureResult \<Rightarrow> pg_audit" where
  "pg_erasure_audit sha now t u operationId result =
     \<lparr>ga_id = stableId sha ''aud'' (t @ '':privacy.erase:'' @ u @ '':'' @ operationId), ga_tenant_id = t,
      ga_actor_id = None, ga_action = ''privacy.erase'', ga_resource_type = ''account'', ga_resource_id = None,
      ga_request_id = Some operationId, ga_metadata = erasure_json result, ga_created_at = now\<rparr>"

definition pg_erase_member ::
    "(json \<Rightarrow> string) \<Rightarrow> (string \<Rightarrow> string) \<Rightarrow> int \<Rightarrow> string \<Rightarrow> string \<Rightarrow> string \<Rightarrow> AccountErasureResult pg_op" where
  "pg_erase_member json_as_text sha now t u operationId =
     bindE (pg_erase_evidence t u) (\<lambda>(contributionsRemoved, orphans, claimsDeleted, versionsDeleted).
     bindE (pg_delete_empty_sources t) (\<lambda>_.
     bindE (pg_delete_credentials t u) (\<lambda>credentialsDeleted.
     bindE (pg_delete_sessions t u) (\<lambda>sessionsDeleted.
     bindE (pg_delete_jobs json_as_text t u) (\<lambda>jobsDeleted.
     bindE (pg_delete_connectors t u) (\<lambda>statesDeleted.
     bindE (pg_clear_audit_actor t u) (\<lambda>_.
     bindE (pg_clear_override_actor t u) (\<lambda>_.
     bindE (pg_delete_membership t u) (\<lambda>members.
     bindE (pg_delete_user u) (\<lambda>identities.
       let affected = dedup (map snd orphans) in
     bindE (pg_insert_reconciliations sha now t u operationId affected) (\<lambda>jobIds.
       let result = \<lparr>er_membershipDeleted = (members = 1), er_identityDeleted = (identities = 1),
         er_credentialsDeleted = credentialsDeleted, er_sessionsDeleted = sessionsDeleted,
         er_jobsDeleted = jobsDeleted, er_connectorStatesDeleted = statesDeleted,
         er_contributionsRemoved = contributionsRemoved, er_privateSourceVersionsDeleted = versionsDeleted,
         er_claimsDeleted = claimsDeleted, er_affectedOrganizationIds = affected,
         er_reconciliationJobIds = jobIds\<rparr> in
     bindE (pg_insert_audit (pg_erasure_audit sha now t u operationId result)) (\<lambda>_.
       retE result))))))))))))"

definition pg_eraseAccount ::
    "(json \<Rightarrow> string) \<Rightarrow> (string \<Rightarrow> string) \<Rightarrow> int \<Rightarrow> string \<Rightarrow> string \<Rightarrow> string \<Rightarrow> AccountErasureResult pg_op" where
  "pg_eraseAccount json_as_text sha now tenantId userId operationId = pg_own tenantId
     (bindE (getE (pg_find_member tenantId userId)) (\<lambda>membership.
        if membership = None then retE emptyErasure else pg_erase_member json_as_text sha now tenantId userId operationId))"

section \<open>What the erasure removes\<close>

text \<open>Along the erasure the tables of accounts only lose rows, and the others get only rows without the user.\<close>

definition erases :: "(json \<Rightarrow> string) \<Rightarrow> string \<Rightarrow> string \<Rightarrow> pg_db \<Rightarrow> pg_db \<Rightarrow> bool" where
  "erases j t u s0 s \<longleftrightarrow> cn_setting s = cn_setting s0 \<and> set (tb_sessions s) \<subseteq> set (tb_sessions s0) \<and>
     set (tb_credentials s) \<subseteq> set (tb_credentials s0) \<and> set (tb_memberships s) \<subseteq> set (tb_memberships s0) \<and>
     set (tb_contributors s) \<subseteq> set (tb_contributors s0) \<and> set (tb_connectors s) \<subseteq> set (tb_connectors s0) \<and>
     (\<forall>r \<in> set (tb_jobs s). r \<in> set (tb_jobs s0) \<or> \<not> pg_user_job j t u r) \<and>
     (\<forall>r \<in> set (tb_overrides s). r \<in> set (tb_overrides s0) \<or> gr_actor_id r = None) \<and>
     (\<forall>r \<in> set (tb_audit s). r \<in> set (tb_audit s0) \<or> ga_actor_id r = None)"

lemma erases_refl: "erases j t u s s"
  by (simp add: erases_def)

lemma preserves_erasing:
  assumes "\<And>s0. preserves (erases j t u s0) m" and "\<And>s s'. erases j t u s s' \<Longrightarrow> Q s \<Longrightarrow> Q s'"
  shows "preserves Q m"
  using assms erases_refl unfolding preserves_def by blast

lemmas pg_erasure_statements = pg_delete_contributions_def pg_delete_claims_def pg_delete_versions_def
  pg_delete_empty_sources_def pg_delete_credentials_def pg_delete_sessions_def pg_delete_jobs_def
  pg_delete_connectors_def pg_clear_audit_actor_def pg_clear_override_actor_def pg_delete_membership_def
  pg_delete_user_def drop_versions_def drop_members_def

lemma erases_deletions [preserves_intros]:
  "preserves (erases j t u s0) (pg_delete_contributions v w)"
  "preserves (erases j t u s0) (pg_delete_claims v ids)"
  "preserves (erases j t u s0) (pg_delete_versions v ids)"
  "preserves (erases j t u s0) (pg_delete_empty_sources v)"
  "preserves (erases j t u s0) (pg_delete_credentials v w)"
  "preserves (erases j t u s0) (pg_delete_sessions v w)"
  "preserves (erases j t u s0) (pg_delete_jobs j' v w)"
  "preserves (erases j t u s0) (pg_delete_connectors v w)"
  "preserves (erases j t u s0) (pg_delete_membership v w)"
  by (auto simp: preserves_def erases_def pg_erasure_statements modifyE_def Let_def set_delete_where)

lemma erases_clearings [preserves_intros]:
  "preserves (erases j t u s0) (pg_clear_audit_actor v w)"
  "preserves (erases j t u s0) (pg_clear_override_actor v w)"
  "preserves (erases j t u s0) (pg_delete_user w)"
  by (auto simp: preserves_def erases_def pg_erasure_statements modifyE_def Let_def set_delete_where set_update_where)

lemma erases_insertions [preserves_intros]:
  "preserves (erases j t u s0) (pg_insert_job (pg_reconcile_row sha now v w op organizationId))"
  "preserves (erases j t u s0) (pg_insert_audit (pg_erasure_audit sha now v w op result))"
  by (auto simp: preserves_def erases_def pg_insert_job_def pg_insert_audit_def pg_checks effect_defs
      pg_user_job_def jsonb_text_def json_get_def pg_reconcile_row_def Let_def pg_erasure_audit_def)

lemma erases_reconciliations [preserves_intros]:
  "preserves (erases j t u s0) (pg_insert_reconciliations sha now v w op os)"
  by (induction os) (auto intro!: preserves_intros)

lemma erases_evidence [preserves_intros]: "preserves (erases j t u s0) (pg_erase_evidence v w)"
  unfolding pg_erase_evidence_def by (intro preserves_intros)

text \<open>So what one of the statements removed stays away.\<close>

lemma pg_erase_member_removes:
  assumes mono: "\<And>s s'. erases j t u s s' \<Longrightarrow> Q s \<Longrightarrow> Q s'"
    and "ensures Q (pg_delete_contributions t u) \<or> ensures Q (pg_delete_credentials t u) \<or>
      ensures Q (pg_delete_sessions t u) \<or> ensures Q (pg_delete_jobs j t u) \<or> ensures Q (pg_delete_connectors t u) \<or>
      ensures Q (pg_clear_audit_actor t u) \<or> ensures Q (pg_clear_override_actor t u) \<or>
      ensures Q (pg_delete_membership t u)"
  shows "ensures Q (pg_erase_member j sha now t u op)"
proof -
  have keep: "preserves Q m" if "\<And>s0. preserves (erases j t u s0) m" for m :: "'a pg_op"
    using preserves_erasing [OF that mono] .
  have "ensures Q (pg_erase_evidence t u)" if h: "ensures Q (pg_delete_contributions t u)"
    unfolding pg_erase_evidence_def
    by (rule ensures_rest, rule ensures_first [OF h], rule keep) (intro preserves_intros)
  then have "ensures Q (pg_erase_evidence t u) \<or> ensures Q (pg_delete_credentials t u) \<or>
      ensures Q (pg_delete_sessions t u) \<or> ensures Q (pg_delete_jobs j t u) \<or> ensures Q (pg_delete_connectors t u) \<or>
      ensures Q (pg_clear_audit_actor t u) \<or> ensures Q (pg_clear_override_actor t u) \<or>
      ensures Q (pg_delete_membership t u)" using assms(2) by blast
  then show ?thesis
    unfolding pg_erase_member_def Let_def
    apply (elim disjE)
           apply (((rule ensures_first, assumption) | rule ensures_rest | rule ensures_case_prod)+;
        (rule keep; intro preserves_intros))+
    done
qed

lemma pg_erase_member_account:
  assumes run: "pg_erase_member j sha now t u op s = (Inr res, s')" and visible: "cn_setting s = t" "t \<noteq> []"
  shows "\<forall>r \<in> set (tb_sessions s'). \<not> (gz_tenant_id r = t \<and> gz_user_id r = u)"
    and "\<forall>r \<in> set (tb_credentials s'). \<not> (gd_tenant_id r = t \<and> gd_user_id r = u)"
    and "\<forall>r \<in> set (tb_contributors s'). \<not> (gx_tenant_id r = t \<and> gx_user_id r = u)"
    and "\<forall>r \<in> set (tb_memberships s'). pg_member_key r \<noteq> (t, u)"
    and "\<forall>r \<in> set (tb_connectors s'). \<not> (gk_tenant_id r = t \<and> (gk_scope r = u \<or>
      CHR 0x5C \<notin> set u \<and> starts_with (gk_scope r) (u @ '':'')))"
    and "\<forall>r \<in> set (tb_jobs s'). \<not> pg_user_job j t u r"
    and "\<forall>r \<in> set (tb_overrides s'). \<not> (gr_tenant_id r = t \<and> gr_actor_id r = Some u)"
    and "\<forall>r \<in> set (tb_audit s'). \<not> (ga_tenant_id r = t \<and> ga_actor_id r = Some u)"
proof -
  have "preserves (erases j t u s) (pg_erase_member j sha now t u op)"
    unfolding pg_erase_member_def Let_def by (intro preserves_intros)
  then have "erases j t u s (snd (pg_erase_member j sha now t u op s))"
    using erases_refl unfolding preserves_def by blast
  then have rls: "rls t s'" using visible run by (simp add: erases_def rls_def)
  have gone: "P s'" if "\<And>s s'. erases j t u s s' \<Longrightarrow> P s \<Longrightarrow> P s'"
    and "ensures (\<lambda>s. rls t s \<longrightarrow> P s) (pg_delete_contributions t u) \<or>
      ensures (\<lambda>s. rls t s \<longrightarrow> P s) (pg_delete_credentials t u) \<or>
      ensures (\<lambda>s. rls t s \<longrightarrow> P s) (pg_delete_sessions t u) \<or>
      ensures (\<lambda>s. rls t s \<longrightarrow> P s) (pg_delete_jobs j t u) \<or>
      ensures (\<lambda>s. rls t s \<longrightarrow> P s) (pg_delete_connectors t u) \<or>
      ensures (\<lambda>s. rls t s \<longrightarrow> P s) (pg_clear_audit_actor t u) \<or>
      ensures (\<lambda>s. rls t s \<longrightarrow> P s) (pg_clear_override_actor t u) \<or>
      ensures (\<lambda>s. rls t s \<longrightarrow> P s) (pg_delete_membership t u)" for P
  proof -
    have "rls t s2 \<longrightarrow> P s2" if "erases j t u s1 s2" "rls t s1 \<longrightarrow> P s1" for s1 s2
      using that \<open>\<And>s s'. erases j t u s s' \<Longrightarrow> P s \<Longrightarrow> P s'\<close> by (auto simp: erases_def rls_def)
    then have "ensures (\<lambda>s. rls t s \<longrightarrow> P s) (pg_erase_member j sha now t u op)"
      by (rule pg_erase_member_removes) (use that(2) in blast)+
    then show ?thesis using run rls unfolding ensures_def by blast
  qed
  show "\<forall>r \<in> set (tb_sessions s'). \<not> (gz_tenant_id r = t \<and> gz_user_id r = u)"
    by (rule gone)
      (auto simp: erases_def ensures_def pg_delete_sessions_def Let_def set_delete_where rls_def)
  show "\<forall>r \<in> set (tb_credentials s'). \<not> (gd_tenant_id r = t \<and> gd_user_id r = u)"
    by (rule gone)
      (auto simp: erases_def ensures_def pg_delete_credentials_def Let_def set_delete_where rls_def)
  show "\<forall>r \<in> set (tb_contributors s'). \<not> (gx_tenant_id r = t \<and> gx_user_id r = u)"
    by (rule gone)
      (auto simp: erases_def ensures_def pg_delete_contributions_def pg_contributor_of_def set_delete_where rls_def)
  show "\<forall>r \<in> set (tb_memberships s'). pg_member_key r \<noteq> (t, u)"
    by (rule gone)
      (auto simp: erases_def ensures_def pg_delete_membership_def drop_members_def Let_def set_delete_where
        pg_member_key_def rls_def split: if_splits)
  have like: "pg_like (u @ '':%'') x" if "CHR 0x5C \<notin> set u" "starts_with x (u @ '':'')" for x
    using pg_like_scope that .
  let ?P = "\<lambda>s :: pg_db. \<forall>r \<in> set (tb_connectors s). \<not> (gk_tenant_id r = t \<and> (gk_scope r = u \<or>
      CHR 0x5C \<notin> set u \<and> starts_with (gk_scope r) (u @ '':'')))"
  have states: "ensures (\<lambda>s. rls t s \<longrightarrow> ?P s) (pg_delete_connectors t u)"
    using like by (auto simp del: pg_like.simps simp: ensures_def pg_delete_connectors_def Let_def set_delete_where rls_def)
  show "?P s'"
  proof (rule gone [of ?P])
    show "?P b" if "erases j t u a b" "?P a" for a b
      using that unfolding erases_def by blast
  qed (use states in blast)
  show "\<forall>r \<in> set (tb_jobs s'). \<not> pg_user_job j t u r"
    by (rule gone)
      (auto simp: erases_def ensures_def pg_delete_jobs_def Let_def set_delete_where rls_def pg_user_job_def)
  show "\<forall>r \<in> set (tb_overrides s'). \<not> (gr_tenant_id r = t \<and> gr_actor_id r = Some u)"
    by (rule gone)
      (auto simp: erases_def ensures_def pg_clear_override_actor_def modifyE_def set_update_where rls_def)
  show "\<forall>r \<in> set (tb_audit s'). \<not> (ga_tenant_id r = t \<and> ga_actor_id r = Some u)"
    by (rule gone)
      (auto simp: erases_def ensures_def pg_clear_audit_actor_def modifyE_def set_update_where rls_def)
qed

text \<open>The overrides stay, without their author.\<close>

definition without_actor :: "pg_override \<Rightarrow> pg_override" where
  "without_actor r = r\<lparr>gr_actor_id := None\<rparr>"

lemma without_actor_update: "map without_actor (update_where p (\<lambda>r. r\<lparr>gr_actor_id := None\<rparr>) xs) = map without_actor xs"
  by (simp add: update_where_def without_actor_def)

lemma overrides_kept [preserves_intros]:
  "preserves (\<lambda>s. map without_actor (tb_overrides s) = k) (pg_delete_contributions v w)"
  "preserves (\<lambda>s. map without_actor (tb_overrides s) = k) (pg_delete_claims v ids)"
  "preserves (\<lambda>s. map without_actor (tb_overrides s) = k) (pg_delete_versions v ids)"
  "preserves (\<lambda>s. map without_actor (tb_overrides s) = k) (pg_delete_empty_sources v)"
  "preserves (\<lambda>s. map without_actor (tb_overrides s) = k) (pg_delete_credentials v w)"
  "preserves (\<lambda>s. map without_actor (tb_overrides s) = k) (pg_delete_sessions v w)"
  "preserves (\<lambda>s. map without_actor (tb_overrides s) = k) (pg_delete_jobs j v w)"
  "preserves (\<lambda>s. map without_actor (tb_overrides s) = k) (pg_delete_connectors v w)"
  "preserves (\<lambda>s. map without_actor (tb_overrides s) = k) (pg_delete_membership v w)"
  "preserves (\<lambda>s. map without_actor (tb_overrides s) = k) (pg_clear_audit_actor v w)"
  "preserves (\<lambda>s. map without_actor (tb_overrides s) = k) (pg_clear_override_actor v w)"
  "preserves (\<lambda>s. map without_actor (tb_overrides s) = k) (pg_delete_user w)"
  "preserves (\<lambda>s. map without_actor (tb_overrides s) = k) (pg_insert_job job)"
  "preserves (\<lambda>s. map without_actor (tb_overrides s) = k) (pg_insert_audit event)"
  by (auto simp: preserves_def pg_erasure_statements modifyE_def Let_def without_actor_update pg_insert_job_def
      pg_insert_audit_def pg_checks effect_defs)

lemma overrides_kept_reconciliations [preserves_intros]:
  "preserves (\<lambda>s. map without_actor (tb_overrides s) = k) (pg_insert_reconciliations sha now v w op os)"
  by (induction os) (auto intro!: preserves_intros)

lemma overrides_kept_member: "preserves (\<lambda>s. map without_actor (tb_overrides s) = k) (pg_erase_member j sha now t u op)"
  unfolding pg_erase_member_def pg_erase_evidence_def Let_def by (intro preserves_intros)

lemma pg_erase_member_run:
  assumes "pg_membership_exists t u s" and "t \<noteq> []" and "pg_eraseAccount j sha now t u op s = (Inr res, s')"
  obtains w where "pg_erase_member j sha now t u op (s\<lparr>cn_setting := t\<rparr>) = (Inr res, w)"
    and "s' = w\<lparr>cn_setting := cn_setting s\<rparr>"
proof -
  have "pg_find_member t u (s\<lparr>cn_setting := t\<rparr>) \<noteq> None"
    using assms(1,2) by (auto simp: pg_find_member_def select_first_None pg_membership_exists_def exists_row_iff rls_def
        pg_member_key_def)
  then show thesis using assms(3) that by (auto simp: pg_eraseAccount_def pg_own_Inr bindE_def getE_def)
qed

text \<open>The owners of connector states are members of the tenant, and stay so.\<close>

definition owners_ok :: "pg_db \<Rightarrow> bool" where
  "owners_ok s \<longleftrightarrow> (\<forall>r \<in> set (tb_connectors s). pg_owner_ok s r)"

lemma owners_ok_shrinks:
  "owners_ok s \<Longrightarrow> tb_memberships s' = tb_memberships s \<Longrightarrow> set (tb_connectors s') \<subseteq> set (tb_connectors s) \<Longrightarrow> owners_ok s'"
  by (auto simp: owners_ok_def pg_owner_ok_def pg_membership_exists_def split: option.splits)

lemma owners_ok_drop_members: "owners_ok s \<Longrightarrow> owners_ok (drop_members p s)"
proof -
  assume ok: "owners_ok s"
  have "pg_owner_ok (drop_members p s) r" if r: "r \<in> set (tb_connectors (drop_members p s))" for r
  proof (cases "gk_owner_user_id r")
    case (Some w)
    have r': "r \<in> set (tb_connectors s)" "(gk_tenant_id r, w) \<notin> pg_member_key ` set (select_where p (tb_memberships s))"
      using r Some by (auto simp: drop_members_def Let_def set_delete_where)
    have "pg_owner_ok s r" using ok r'(1) unfolding owners_ok_def by blast
    then have "pg_membership_exists (gk_tenant_id r) w s" using Some by (simp add: pg_owner_ok_def)
    then obtain m where "m \<in> set (tb_memberships s)" "pg_member_key m = (gk_tenant_id r, w)"
      by (auto simp: pg_membership_exists_def exists_row_iff)
    moreover from this r'(2) have "\<not> p m" by (auto simp: set_select_where image_iff)
    ultimately have "pg_membership_exists (gk_tenant_id r) w (drop_members p s)"
      unfolding pg_membership_exists_def exists_row_iff by (auto simp: drop_members_def Let_def set_delete_where)
    then show ?thesis using Some by (simp add: pg_owner_ok_def)
  qed (simp add: pg_owner_ok_def)
  then show ?thesis by (simp add: owners_ok_def)
qed

lemma owners_ok_statements [preserves_intros]:
  "preserves owners_ok (pg_delete_contributions v w)" "preserves owners_ok (pg_delete_claims v ids)"
  "preserves owners_ok (pg_delete_versions v ids)" "preserves owners_ok (pg_delete_empty_sources v)"
  "preserves owners_ok (pg_delete_credentials v w)" "preserves owners_ok (pg_delete_sessions v w)"
  "preserves owners_ok (pg_delete_jobs j v w)" "preserves owners_ok (pg_delete_connectors v w)"
  "preserves owners_ok (pg_clear_audit_actor v w)" "preserves owners_ok (pg_clear_override_actor v w)"
  "preserves owners_ok (pg_insert_job job)" "preserves owners_ok (pg_insert_audit event)"
  by (auto simp: preserves_def pg_delete_contributions_def pg_delete_claims_def pg_delete_versions_def drop_versions_def
      pg_delete_empty_sources_def pg_delete_credentials_def pg_delete_sessions_def pg_delete_jobs_def
      pg_delete_connectors_def pg_clear_audit_actor_def pg_clear_override_actor_def pg_insert_job_def
      pg_insert_audit_def pg_checks effect_defs Let_def set_delete_where elim!: owners_ok_shrinks)

lemma owners_ok_members [preserves_intros]:
  "preserves owners_ok (pg_delete_membership v w)" "preserves owners_ok (pg_delete_user w)"
proof -
  show "preserves owners_ok (pg_delete_membership v w)"
    by (simp add: preserves_def pg_delete_membership_def Let_def owners_ok_drop_members)
  have "owners_ok (drop_members p (s\<lparr>tb_users := us\<rparr>)\<lparr>tb_sessions := a, tb_credentials := b, tb_audit := c, tb_overrides := d\<rparr>)"
    if "owners_ok s" for p s us a b c d
  proof -
    have "owners_ok (s\<lparr>tb_users := us\<rparr>)" by (rule owners_ok_shrinks [OF that]) simp_all
    from owners_ok_drop_members [OF this, of p] show ?thesis by (rule owners_ok_shrinks) simp_all
  qed
  then show "preserves owners_ok (pg_delete_user w)"
    by (simp add: preserves_def pg_delete_user_def Let_def)
qed

lemma owners_ok_erase_member: "preserves owners_ok (pg_erase_member j sha now t u op)"
proof -
  have "preserves owners_ok (pg_insert_reconciliations sha now t u op os)" for os
    by (induction os) (auto intro!: preserves_intros)
  then show ?thesis unfolding pg_erase_member_def pg_erase_evidence_def Let_def by (intro preserves_intros)
qed

text \<open>C20. A successful erasure of a member on Postgres leaves in the tenant no session, credential, contribution,
  membership or job of that user, and no audit event or override that names the user; nothing is left to export.
  It leaves no connector state whose scope is the user or, for a user id without a backslash, the user and a
  group (\<open>u:group\<close>), nor, when the owners of connector states were members, one that the user owns. The overrides that the user wrote stay as they are, without their author, so unlike on
  SQLite they do not stand in the way.\<close>

theorem pg_erase_removes_account:
  assumes "pg_membership_exists t u s" and "t \<noteq> []" and "pg_eraseAccount j sha now t u op s = (Inr res, s')"
  shows "(\<forall>r \<in> set (tb_sessions s'). \<not> (gz_tenant_id r = t \<and> gz_user_id r = u)) \<and>
    (\<forall>r \<in> set (tb_credentials s'). \<not> (gd_tenant_id r = t \<and> gd_user_id r = u)) \<and>
    (\<forall>r \<in> set (tb_contributors s'). \<not> (gx_tenant_id r = t \<and> gx_user_id r = u)) \<and>
    (\<forall>r \<in> set (tb_memberships s'). pg_member_key r \<noteq> (t, u)) \<and>
    (\<forall>r \<in> set (tb_connectors s'). gk_tenant_id r = t \<longrightarrow> gk_scope r \<noteq> u \<and>
       (CHR 0x5C \<notin> set u \<longrightarrow> \<not> starts_with (gk_scope r) (u @ '':'')) \<and>
       (owners_ok s \<longrightarrow> gk_owner_user_id r \<noteq> Some u)) \<and>
    (\<forall>r \<in> set (tb_jobs s'). \<not> pg_user_job j t u r) \<and>
    (\<forall>r \<in> set (tb_overrides s'). \<not> (gr_tenant_id r = t \<and> gr_actor_id r = Some u)) \<and>
    (\<forall>r \<in> set (tb_audit s'). \<not> (ga_tenant_id r = t \<and> ga_actor_id r = Some u)) \<and>
    map without_actor (tb_overrides s') = map without_actor (tb_overrides s) \<and>
    fst (pg_exportAccount collate pl later t u s') = Inr None"
proof -
  obtain w where run: "pg_erase_member j sha now t u op (s\<lparr>cn_setting := t\<rparr>) = (Inr res, w)"
    and s': "s' = w\<lparr>cn_setting := cn_setting s\<rparr>" by (rule pg_erase_member_run [OF assms])
  have visible: "cn_setting (s\<lparr>cn_setting := t\<rparr>) = t" by simp
  note gone = pg_erase_member_account [OF run visible assms(2)]
  have "pg_find_member t u (s'\<lparr>cn_setting := t\<rparr>) = None"
    using gone(4) by (simp add: s' pg_find_member_def select_first_None)
  then have "fst (pg_exportAccount collate pl later t u s') = Inr None"
    by (simp add: pg_exportAccount_def pg_own_def pg_begin_def set_tenant_def effect_defs pg_account_def split: option.splits)
  moreover have "map without_actor (tb_overrides w) = map without_actor (tb_overrides (s\<lparr>cn_setting := t\<rparr>))"
    using overrides_kept_member run unfolding preserves_def by (metis snd_conv)
  moreover have "gk_owner_user_id r \<noteq> Some u"
    if "owners_ok s" "r \<in> set (tb_connectors w)" "gk_tenant_id r = t" for r
  proof -
    have "owners_ok (s\<lparr>cn_setting := t\<rparr>)" by (rule owners_ok_shrinks [OF that(1)]) simp_all
    then have "owners_ok w" using owners_ok_erase_member run unfolding preserves_def by (metis snd_conv)
    then show ?thesis using that gone(4)
      by (auto simp: owners_ok_def pg_owner_ok_def pg_membership_exists_def exists_row_iff)
  qed
  ultimately show ?thesis using gone by (simp add: s') blast
qed

definition demo_pg_account :: pg_db where
  "demo_pg_account = demo_pg_db\<lparr>
     tb_users := [\<lparr>gu_id = ''u'', gu_issuer = ''i'', gu_subject = ''a'', gu_email = None, gu_display_name = None,
       gu_created_at = 0, gu_updated_at = 0, gu_membership_count = 1\<rparr>],
     tb_memberships := [\<lparr>gm_tenant_id = ''t'', gm_user_id = ''u'', gm_roles = [student], gm_organization_ids = [],
       gm_created_at = 0, gm_updated_at = 0\<rparr>],
     tb_overrides := [\<lparr>gr_id = ''v'', gr_tenant_id = ''t'', gr_opportunity_id = ''p'', gr_organization_id = ''o'',
       gr_actor_id = Some ''u'', gr_patch = \<lparr>patch_title = None, patch_deadlineAt = None, patch_startsAt = None,
         patch_url = None, patch_stale = Some True\<rparr>,
       gr_reason = ''r'', gr_created_at = 0, gr_revoked_at = None\<rparr>],
     tb_connectors := [\<lparr>gk_tenant_id = ''t'', gk_connector = ''groupme'', gk_scope = ''u:g'', gk_cursor = None,
       gk_metadata = JObj [], gk_owner_user_id = Some ''u'', gk_updated_at = 0\<rparr>]\<rparr>"

lemmas demo_pg_account_defs = demo_pg_account_def demo_pg_db_def

lemma demo_pg_member: "pg_membership_exists ''t'' ''u'' demo_pg_account" "''t'' \<noteq> []"
  by (simp_all add: demo_pg_account_defs pg_membership_exists_def exists_row_def pg_member_key_def)

definition demo_pg_disconnected :: pg_db where
  "demo_pg_disconnected = demo_pg_account\<lparr>cn_setting := ''t'', tb_connectors := []\<rparr>"

definition demo_pg_anonymous :: pg_db where
  "demo_pg_anonymous = demo_pg_disconnected\<lparr>tb_overrides := map without_actor (tb_overrides demo_pg_account)\<rparr>"

definition demo_pg_left :: pg_db where
  "demo_pg_left = demo_pg_anonymous\<lparr>tb_memberships := [],
     tb_users := map (\<lambda>r. r\<lparr>gu_membership_count := 0\<rparr>) (tb_users demo_pg_account)\<rparr>"

lemmas demo_pg_erasure_defs = demo_pg_account_def demo_pg_db_def demo_pg_disconnected_def demo_pg_anonymous_def demo_pg_left_def
  without_actor_def pg_erasure_statements table_defs rls_def effect_defs pg_member_key_def

lemma demo_pg_deletions:
  "pg_erase_evidence ''t'' ''u'' (demo_pg_account\<lparr>cn_setting := ''t''\<rparr>) = (Inr (0, [], 0, 0), demo_pg_account\<lparr>cn_setting := ''t''\<rparr>)"
  "pg_delete_empty_sources ''t'' (demo_pg_account\<lparr>cn_setting := ''t''\<rparr>) = (Inr (), demo_pg_account\<lparr>cn_setting := ''t''\<rparr>)"
  "pg_delete_credentials ''t'' ''u'' (demo_pg_account\<lparr>cn_setting := ''t''\<rparr>) = (Inr 0, demo_pg_account\<lparr>cn_setting := ''t''\<rparr>)"
  "pg_delete_sessions ''t'' ''u'' (demo_pg_account\<lparr>cn_setting := ''t''\<rparr>) = (Inr 0, demo_pg_account\<lparr>cn_setting := ''t''\<rparr>)"
  "pg_delete_jobs j ''t'' ''u'' (demo_pg_account\<lparr>cn_setting := ''t''\<rparr>) = (Inr 0, demo_pg_account\<lparr>cn_setting := ''t''\<rparr>)"
  "pg_delete_connectors ''t'' ''u'' (demo_pg_account\<lparr>cn_setting := ''t''\<rparr>) = (Inr 1, demo_pg_disconnected)"
  "pg_clear_audit_actor ''t'' ''u'' demo_pg_disconnected = (Inr (), demo_pg_disconnected)"
  "pg_clear_override_actor ''t'' ''u'' demo_pg_disconnected = (Inr (), demo_pg_anonymous)"
  by (simp_all add: demo_pg_erasure_defs pg_erase_evidence_def pg_contributed_private_def pg_contribution_join_def
      pg_orphaned_def)

lemma demo_pg_departure:
  "pg_delete_membership ''t'' ''u'' demo_pg_anonymous = (Inr 1, demo_pg_left)"
  "pg_delete_user ''u'' demo_pg_left = (Inr 1, demo_pg_left\<lparr>tb_users := []\<rparr>)"
  "ga_tenant_id row = ''t'' \<Longrightarrow> ga_actor_id row = None \<Longrightarrow>
     pg_insert_audit row (demo_pg_left\<lparr>tb_users := []\<rparr>) = (Inr (), demo_pg_left\<lparr>tb_users := [], tb_audit := [row]\<rparr>)"
  by (simp_all add: demo_pg_erasure_defs pg_insert_audit_def pg_checks exists_row_def)

lemma demo_pg_erasure: "\<exists>res s'. pg_eraseAccount stringify id 0 ''t'' ''u'' ''op'' demo_pg_account = (Inr res, s') \<and>
    er_identityDeleted res"
proof -
  have "pg_find_member ''t'' ''u'' (demo_pg_account\<lparr>cn_setting := ''t''\<rparr>) \<noteq> None"
    by (simp add: demo_pg_erasure_defs pg_find_member_def)
  then show ?thesis
    by (auto simp: pg_eraseAccount_def pg_own_Inr pg_erase_member_def Let_def bindE_def getE_def retE_def
        demo_pg_deletions demo_pg_departure pg_erasure_audit_def)
qed

theorem pg_erase_removes_account_witness:
  "\<exists>res s'. pg_eraseAccount stringify id 0 ''t'' ''u'' ''op'' demo_pg_account = (Inr res, s') \<and>
     er_identityDeleted res \<and> map gr_id (tb_overrides s') = [''v''] \<and>
     map gk_scope (tb_connectors demo_pg_account) = [''u:g''] \<and>
     (\<forall>r \<in> set (tb_connectors s'). gk_tenant_id r = ''t'' \<longrightarrow> \<not> starts_with (gk_scope r) ''u:'')"
proof -
  obtain res s' where run: "pg_eraseAccount stringify id 0 ''t'' ''u'' ''op'' demo_pg_account = (Inr res, s')"
    and deleted: "er_identityDeleted res" using demo_pg_erasure by blast
  have "map without_actor (tb_overrides s') = map without_actor (tb_overrides demo_pg_account)"
    using pg_erase_removes_account [OF demo_pg_member run] by blast
  then have "map gr_id (map without_actor (tb_overrides s')) = [''v'']"
    by (simp add: demo_pg_account_defs without_actor_def)
  then have "map gr_id (tb_overrides s') = [''v'']" by (simp add: without_actor_def comp_def)
  moreover have "map gk_scope (tb_connectors demo_pg_account) = [''u:g'']" by (simp add: demo_pg_account_defs)
  moreover have "\<forall>r \<in> set (tb_connectors s'). gk_tenant_id r = ''t'' \<longrightarrow> \<not> starts_with (gk_scope r) ''u:''"
    using pg_erase_removes_account [OF demo_pg_member run] by simp
  ultimately show ?thesis using run deleted by (intro exI conjI)
qed

section \<open>What the erasure leaves alone\<close>

text \<open>The references of the tables do not name the tenant everywhere. In a coherent database they stay within the
  tenant, and the identities carry the number of their memberships.\<close>

definition pg_coherent :: "pg_db \<Rightarrow> bool" where
  "pg_coherent s \<longleftrightarrow>
     (\<forall>v \<in> set (tb_versions s). \<forall>r \<in> set (tb_sources s). gs_id r = gv_source_id v \<longrightarrow> gs_tenant_id r = gv_tenant_id v) \<and>
     (\<forall>c \<in> set (tb_claims s). \<forall>v \<in> set (tb_versions s). gv_id v = gc_source_version_id c \<longrightarrow>
       gv_tenant_id v = gc_tenant_id c) \<and>
     (\<forall>r \<in> set (tb_users s). gu_membership_count r =
       int (count_where (\<lambda>m. gm_user_id m = gu_id r) (tb_memberships s)))"

definition hide_override :: "string \<Rightarrow> pg_override \<Rightarrow> pg_override" where
  "hide_override u r = (if gr_actor_id r = Some u then without_actor r else r)"

definition hide_event :: "string \<Rightarrow> pg_audit \<Rightarrow> pg_audit" where
  "hide_event u r = (if ga_actor_id r = Some u then r\<lparr>ga_actor_id := None\<rparr> else r)"

text \<open>The rows of other tenants and the accounts of other users.\<close>

definition pg_elsewhere :: "string \<Rightarrow> string \<Rightarrow> pg_db \<Rightarrow> pg_db" where
  "pg_elsewhere t u s = s\<lparr>tb_users := filter (\<lambda>r. gu_id r \<noteq> u) (tb_users s),
     tb_memberships := filter (\<lambda>r. gm_tenant_id r \<noteq> t) (tb_memberships s),
     tb_sources := filter (\<lambda>r. gs_tenant_id r \<noteq> t) (tb_sources s),
     tb_versions := filter (\<lambda>r. gv_tenant_id r \<noteq> t) (tb_versions s),
     tb_contributors := filter (\<lambda>r. gx_tenant_id r \<noteq> t) (tb_contributors s),
     tb_claims := filter (\<lambda>r. gc_tenant_id r \<noteq> t) (tb_claims s),
     tb_overrides := map (hide_override u) (tb_overrides s),
     tb_connectors := filter (\<lambda>r. gk_tenant_id r \<noteq> t) (tb_connectors s),
     tb_sessions := filter (\<lambda>r. gz_user_id r \<noteq> u) (tb_sessions s),
     tb_credentials := filter (\<lambda>r. gd_user_id r \<noteq> u) (tb_credentials s),
     tb_audit := map (hide_event u) (filter (\<lambda>r. ga_tenant_id r \<noteq> t) (tb_audit s)),
     tb_jobs := filter (\<lambda>r. pj_tenant_id r \<noteq> t) (tb_jobs s), cn_setting := []\<rparr>"

definition keeps_elsewhere :: "string \<Rightarrow> string \<Rightarrow> 'a pg_op \<Rightarrow> bool" where
  "keeps_elsewhere t u m \<longleftrightarrow> (\<forall>s. pg_coherent s \<longrightarrow> pg_coherent (snd (m s)) \<and>
     pg_elsewhere t u (snd (m s)) = pg_elsewhere t u s)"

lemma keeps_elsewhere_iff: "keeps_elsewhere t u m \<longleftrightarrow> (\<forall>k. preserves (\<lambda>s. pg_coherent s \<and> pg_elsewhere t u s = k) m)"
  by (auto simp: keeps_elsewhere_def preserves_def)

lemma elsewhere_intros:
  "keeps_elsewhere t u (retE x)" "keeps_elsewhere t u (getE f)"
  "keeps_elsewhere t u m \<Longrightarrow> keeps_elsewhere t u n \<Longrightarrow> keeps_elsewhere t u (if b then m else n)"
  "(\<And>x y. keeps_elsewhere t u (g x y)) \<Longrightarrow> keeps_elsewhere t u (case p of (x, y) \<Rightarrow> g x y)"
  "keeps_elsewhere t u m \<Longrightarrow> (\<And>x. keeps_elsewhere t u (k x)) \<Longrightarrow> keeps_elsewhere t u (bindE m k)"
  by (simp_all add: keeps_elsewhere_iff preserves_intros split: prod.splits)

lemma filter_delete_in: "(\<And>r. r \<in> set xs \<Longrightarrow> P r \<Longrightarrow> \<not> Q r) \<Longrightarrow> filter Q (delete_where P xs) = filter Q xs"
  unfolding delete_where_def by (induction xs) auto

lemma count_delete_where:
  "int (count_where q (delete_where p xs)) = int (count_where q xs) - int (count_where (\<lambda>x. p x \<and> q x) xs)"
  unfolding count_where_def delete_where_def by (induction xs) auto

lemma map_update_hide: "(\<And>r. P r \<Longrightarrow> h (f r) = h r) \<Longrightarrow> map h (update_where P f xs) = map h xs"
  unfolding update_where_def by auto

lemma filter_map_same: "(\<And>r. Q r \<Longrightarrow> f r = r) \<Longrightarrow> (\<And>r. Q (f r) = Q r) \<Longrightarrow> filter Q (map f xs) = filter Q xs"
  by (induction xs) auto

lemma filter_map_hide: "(\<And>r. P r \<Longrightarrow> h (f r) = h r) \<Longrightarrow> (\<And>r. P r \<Longrightarrow> Q (f r) = Q r) \<Longrightarrow>
    map h (filter Q (update_where P f xs)) = map h (filter Q xs)"
  unfolding update_where_def by (induction xs) auto

text \<open>The fields of the view that a statement may change, one at a time.\<close>

lemma elsewhere_drop_versions:
  assumes "pg_coherent s" and "\<And>v. v \<in> set (tb_versions s) \<Longrightarrow> p v \<Longrightarrow> gv_tenant_id v = t"
  shows "pg_coherent (drop_versions p s) \<and> pg_elsewhere t u (drop_versions p s) = pg_elsewhere t u s"
proof -
  have "filter (\<lambda>r. gv_tenant_id r \<noteq> t) (delete_where p (tb_versions s)) = filter (\<lambda>r. gv_tenant_id r \<noteq> t) (tb_versions s)"
    using assms(2) by (auto intro: filter_delete_in)
  moreover have "filter (\<lambda>r. gc_tenant_id r \<noteq> t) (delete_where (\<lambda>r. gc_source_version_id r \<in>
      gv_id ` set (select_where p (tb_versions s))) (tb_claims s)) = filter (\<lambda>r. gc_tenant_id r \<noteq> t) (tb_claims s)"
    using assms by (intro filter_delete_in) (fastforce simp: pg_coherent_def set_select_where)
  moreover have "filter (\<lambda>r. gx_tenant_id r \<noteq> t) (delete_where (\<lambda>r. (gx_tenant_id r, gx_source_version_id r) \<in>
      (\<lambda>v. (gv_tenant_id v, gv_id v)) ` set (select_where p (tb_versions s))) (tb_contributors s)) =
      filter (\<lambda>r. gx_tenant_id r \<noteq> t) (tb_contributors s)"
    using assms(2) by (intro filter_delete_in) (auto simp: set_select_where)
  moreover have "pg_coherent (drop_versions p s)"
    using assms(1) by (simp add: pg_coherent_def drop_versions_def Let_def set_delete_where)
  ultimately show ?thesis by (simp add: pg_elsewhere_def drop_versions_def Let_def)
qed

lemma elsewhere_tables:
  "filter (\<lambda>r. gu_id r \<noteq> u) a = filter (\<lambda>r. gu_id r \<noteq> u) (tb_users s) \<Longrightarrow>
     pg_elsewhere t u (s\<lparr>tb_users := a\<rparr>) = pg_elsewhere t u s"
  "filter (\<lambda>r. gm_tenant_id r \<noteq> t) b = filter (\<lambda>r. gm_tenant_id r \<noteq> t) (tb_memberships s) \<Longrightarrow>
     pg_elsewhere t u (s\<lparr>tb_memberships := b\<rparr>) = pg_elsewhere t u s"
  "filter (\<lambda>r. gs_tenant_id r \<noteq> t) c = filter (\<lambda>r. gs_tenant_id r \<noteq> t) (tb_sources s) \<Longrightarrow>
     pg_elsewhere t u (s\<lparr>tb_sources := c\<rparr>) = pg_elsewhere t u s"
  "filter (\<lambda>r. gx_tenant_id r \<noteq> t) d = filter (\<lambda>r. gx_tenant_id r \<noteq> t) (tb_contributors s) \<Longrightarrow>
     pg_elsewhere t u (s\<lparr>tb_contributors := d\<rparr>) = pg_elsewhere t u s"
  "filter (\<lambda>r. gc_tenant_id r \<noteq> t) e = filter (\<lambda>r. gc_tenant_id r \<noteq> t) (tb_claims s) \<Longrightarrow>
     pg_elsewhere t u (s\<lparr>tb_claims := e\<rparr>) = pg_elsewhere t u s"
  "map (hide_override u) f = map (hide_override u) (tb_overrides s) \<Longrightarrow>
     pg_elsewhere t u (s\<lparr>tb_overrides := f\<rparr>) = pg_elsewhere t u s"
  "filter (\<lambda>r. gk_tenant_id r \<noteq> t) g = filter (\<lambda>r. gk_tenant_id r \<noteq> t) (tb_connectors s) \<Longrightarrow>
     pg_elsewhere t u (s\<lparr>tb_connectors := g\<rparr>) = pg_elsewhere t u s"
  "filter (\<lambda>r. gz_user_id r \<noteq> u) h = filter (\<lambda>r. gz_user_id r \<noteq> u) (tb_sessions s) \<Longrightarrow>
     pg_elsewhere t u (s\<lparr>tb_sessions := h\<rparr>) = pg_elsewhere t u s"
  "filter (\<lambda>r. gd_user_id r \<noteq> u) i = filter (\<lambda>r. gd_user_id r \<noteq> u) (tb_credentials s) \<Longrightarrow>
     pg_elsewhere t u (s\<lparr>tb_credentials := i\<rparr>) = pg_elsewhere t u s"
  "filter (\<lambda>r. pj_tenant_id r \<noteq> t) j = filter (\<lambda>r. pj_tenant_id r \<noteq> t) (tb_jobs s) \<Longrightarrow>
     pg_elsewhere t u (s\<lparr>tb_jobs := j\<rparr>) = pg_elsewhere t u s"
  "map (hide_event u) (filter (\<lambda>r. ga_tenant_id r \<noteq> t) e') =
     map (hide_event u) (filter (\<lambda>r. ga_tenant_id r \<noteq> t) (tb_audit s)) \<Longrightarrow>
     pg_elsewhere t u (s\<lparr>tb_audit := e'\<rparr>) = pg_elsewhere t u s"
  by (simp_all add: pg_elsewhere_def)

lemma coherent_tables [simp]:
  "pg_coherent (s\<lparr>tb_contributors := a\<rparr>) = pg_coherent s" "pg_coherent (s\<lparr>tb_overrides := b\<rparr>) = pg_coherent s"
  "pg_coherent (s\<lparr>tb_connectors := c\<rparr>) = pg_coherent s" "pg_coherent (s\<lparr>tb_sessions := d\<rparr>) = pg_coherent s"
  "pg_coherent (s\<lparr>tb_credentials := e\<rparr>) = pg_coherent s" "pg_coherent (s\<lparr>tb_audit := f\<rparr>) = pg_coherent s"
  "pg_coherent (s\<lparr>tb_jobs := g\<rparr>) = pg_coherent s" "pg_coherent (s\<lparr>cn_setting := h\<rparr>) = pg_coherent s"
  by (simp_all add: pg_coherent_def)

lemma elsewhere_deletions:
  "keeps_elsewhere t u (pg_delete_contributions t u)"
  "keeps_elsewhere t u (pg_delete_credentials t u)"
  "keeps_elsewhere t u (pg_delete_sessions t u)"
  "keeps_elsewhere t u (pg_delete_jobs j t u)"
  "keeps_elsewhere t u (pg_delete_connectors t u)"
  "keeps_elsewhere t u (pg_delete_claims t ids)"
  by (auto simp: keeps_elsewhere_def pg_delete_contributions_def pg_delete_claims_def pg_delete_credentials_def
      pg_delete_sessions_def pg_delete_jobs_def pg_delete_connectors_def Let_def pg_contributor_of_def
      pg_user_job_def intro!: elsewhere_tables filter_delete) (simp add: pg_coherent_def set_delete_where)

lemma elsewhere_versions: "keeps_elsewhere t u (pg_delete_versions t ids)"
  unfolding keeps_elsewhere_def pg_delete_versions_def Let_def snd_conv
  by (intro allI impI elsewhere_drop_versions) simp_all

lemma elsewhere_sources: "keeps_elsewhere t u (pg_delete_empty_sources t)"
  unfolding keeps_elsewhere_def
proof (intro allI impI)
  fix s assume ok: "pg_coherent s"
  let ?p = "\<lambda>r. rls (gs_tenant_id r) s \<and> gs_tenant_id r = t \<and>
    \<not> exists_row (\<lambda>v. rls (gv_tenant_id v) s \<and> gv_source_id v = gs_id r) (tb_versions s)"
  let ?s = "s\<lparr>tb_sources := delete_where ?p (tb_sources s)\<rparr>"
  let ?q = "\<lambda>v. gv_source_id v \<in> gs_id ` set (select_where ?p (tb_sources s))"
  have same: "pg_elsewhere t u ?s = pg_elsewhere t u s" by (intro elsewhere_tables filter_delete) simp
  have "pg_coherent ?s" using ok by (simp add: pg_coherent_def set_delete_where)
  moreover have "gv_tenant_id v = t" if "v \<in> set (tb_versions ?s)" "?q v" for v
    using that ok by (fastforce simp: pg_coherent_def set_select_where)
  ultimately have "pg_coherent (drop_versions ?q ?s) \<and> pg_elsewhere t u (drop_versions ?q ?s) = pg_elsewhere t u ?s"
    by (rule elsewhere_drop_versions)
  then show "pg_coherent (snd (pg_delete_empty_sources t s)) \<and>
      pg_elsewhere t u (snd (pg_delete_empty_sources t s)) = pg_elsewhere t u s"
    using same by (simp add: pg_delete_empty_sources_def modifyE_def Let_def)
qed

lemma elsewhere_clearings:
  "keeps_elsewhere t u (pg_clear_audit_actor t u)"
  "keeps_elsewhere t u (pg_clear_override_actor t u)"
  by (auto simp: keeps_elsewhere_def pg_clear_audit_actor_def pg_clear_override_actor_def modifyE_def hide_event_def
      hide_override_def without_actor_def intro!: elsewhere_tables filter_map_hide map_update_hide)

lemma elsewhere_job: "pj_tenant_id row = t \<Longrightarrow> keeps_elsewhere t u (pg_insert_job row)"
  by (auto simp: keeps_elsewhere_def pg_insert_job_def pg_checks effect_defs intro!: elsewhere_tables)

lemma elsewhere_event: "ga_tenant_id row = t \<Longrightarrow> keeps_elsewhere t u (pg_insert_audit row)"
  by (auto simp: keeps_elsewhere_def pg_insert_audit_def pg_checks effect_defs intro!: elsewhere_tables)

text \<open>The member and the identity.\<close>

lemma users_discount:
  assumes "\<And>m. m \<in> set xs \<Longrightarrow> p m \<Longrightarrow> gm_user_id m = u"
  shows "filter (\<lambda>r. gu_id r \<noteq> u) (map (\<lambda>r. r\<lparr>gu_membership_count := gu_membership_count r -
    int (count_where (\<lambda>m. p m \<and> gm_user_id m = gu_id r) xs)\<rparr>) us) = filter (\<lambda>r. gu_id r \<noteq> u) us"
proof -
  have "count_where (\<lambda>m. p m \<and> gm_user_id m = i) xs = 0" if "i \<noteq> u" for i
    using assms that by (auto simp: count_where_def filter_empty_conv)
  then have "r\<lparr>gu_membership_count := gu_membership_count r -
      int (count_where (\<lambda>m. p m \<and> gm_user_id m = gu_id r) xs)\<rparr> = r" if "gu_id r \<noteq> u" for r
    using that by (cases r) simp
  then show ?thesis by (intro filter_map_same) simp_all
qed

lemma coherent_drop_members:
  assumes "pg_coherent s"
  shows "pg_coherent (drop_members p s)"
  using assms by (auto simp: pg_coherent_def drop_members_def Let_def count_delete_where)

lemma elsewhere_drop_members:
  assumes "\<And>m. m \<in> set (tb_memberships s) \<Longrightarrow> p m \<Longrightarrow> pg_member_key m = (t, u)"
  shows "pg_elsewhere t u (drop_members p s) = pg_elsewhere t u s"
proof -
  have "filter (\<lambda>r. gm_tenant_id r \<noteq> t) (delete_where p (tb_memberships s)) = filter (\<lambda>r. gm_tenant_id r \<noteq> t) (tb_memberships s)"
    using assms by (intro filter_delete_in) (auto simp: pg_member_key_def)
  moreover have "filter (\<lambda>r. gk_tenant_id r \<noteq> t) (delete_where (\<lambda>r. case gk_owner_user_id r of None \<Rightarrow> False
      | Some u \<Rightarrow> (gk_tenant_id r, u) \<in> pg_member_key ` set (select_where p (tb_memberships s))) (tb_connectors s)) =
      filter (\<lambda>r. gk_tenant_id r \<noteq> t) (tb_connectors s)"
    using assms by (intro filter_delete_in) (fastforce simp: set_select_where split: option.splits)
  moreover have "filter (\<lambda>r. gx_tenant_id r \<noteq> t) (delete_where (\<lambda>r. (gx_tenant_id r, gx_user_id r) \<in>
      pg_member_key ` set (select_where p (tb_memberships s))) (tb_contributors s)) =
      filter (\<lambda>r. gx_tenant_id r \<noteq> t) (tb_contributors s)"
    using assms by (intro filter_delete_in) (fastforce simp: set_select_where)
  moreover have "filter (\<lambda>r. gu_id r \<noteq> u) (tb_users (drop_members p s)) = filter (\<lambda>r. gu_id r \<noteq> u) (tb_users s)"
    using users_discount [of "tb_memberships s" p u "tb_users s"] assms
    by (auto simp: drop_members_def Let_def pg_member_key_def)
  ultimately show ?thesis by (simp add: pg_elsewhere_def drop_members_def Let_def)
qed

lemma elsewhere_membership: "keeps_elsewhere t u (pg_delete_membership t u)"
proof -
  let ?p = "\<lambda>s r. rls (gm_tenant_id r) s \<and> pg_member_key r = (t, u)"
  have "pg_elsewhere t u (drop_members (?p s) s) = pg_elsewhere t u s" for s by (rule elsewhere_drop_members) simp
  then show ?thesis unfolding keeps_elsewhere_def pg_delete_membership_def Let_def
    by (auto simp: coherent_drop_members)
qed

text \<open>An identity without memberships is nobody's member.\<close>

lemma drop_no_members:
  assumes "\<And>m. m \<in> set (tb_memberships s) \<Longrightarrow> \<not> p m"
  shows "drop_members p s = s"
proof -
  have "select_where p (tb_memberships s) = []" "delete_where p (tb_memberships s) = tb_memberships s"
    "\<And>q. count_where (\<lambda>m. p m \<and> q m) (tb_memberships s) = 0"
    using assms by (auto simp: select_where_def delete_where_def count_where_def filter_empty_conv filter_id_conv)
  moreover have "delete_where (\<lambda>r. case gk_owner_user_id r of None \<Rightarrow> False | Some u \<Rightarrow> False) xs = xs" for xs
    by (simp add: delete_where_def split: option.splits)
  ultimately show ?thesis by (simp add: drop_members_def Let_def delete_where_def option.case_eq_if)
qed

lemma elsewhere_user: "keeps_elsewhere t u (pg_delete_user u)"
  unfolding keeps_elsewhere_def
proof (intro allI impI)
  fix s :: pg_db assume ok: "pg_coherent s"
  let ?p = "\<lambda>r. gu_id r = u \<and> gu_membership_count r = 0"
  let ?s = "s\<lparr>tb_users := delete_where ?p (tb_users s)\<rparr>"
  show "pg_coherent (snd (pg_delete_user u s)) \<and> pg_elsewhere t u (snd (pg_delete_user u s)) = pg_elsewhere t u s"
  proof (cases "count_where ?p (tb_users s) = 0")
    case True
    then show ?thesis using ok by (simp add: pg_delete_user_def Let_def)
  next
    case False
    then obtain r where "r \<in> set (tb_users s)" "?p r" by (auto simp: count_where_def filter_empty_conv)
    then have "count_where (\<lambda>m. gm_user_id m = u) (tb_memberships s) = 0" using ok by (auto simp: pg_coherent_def)
    then have "drop_members (\<lambda>m. gm_user_id m = u) ?s = ?s"
      by (intro drop_no_members) (auto simp: count_where_def filter_empty_conv)
    moreover have "pg_coherent ?s" using ok by (simp add: pg_coherent_def set_delete_where)
    moreover have "pg_elsewhere t u ?s = pg_elsewhere t u s" by (intro elsewhere_tables filter_delete) simp
    moreover have hidden: "pg_elsewhere t u (v\<lparr>tb_sessions := delete_where (\<lambda>r. gz_user_id r = u) (tb_sessions v),
        tb_credentials := delete_where (\<lambda>r. gd_user_id r = u) (tb_credentials v),
        tb_audit := update_where (\<lambda>r. ga_actor_id r = Some u) (\<lambda>r. r\<lparr>ga_actor_id := None\<rparr>) (tb_audit v),
        tb_overrides := update_where (\<lambda>r. gr_actor_id r = Some u) (\<lambda>r. r\<lparr>gr_actor_id := None\<rparr>) (tb_overrides v)\<rparr>) =
        pg_elsewhere t u v" for v
      by (simp add: pg_elsewhere_def filter_delete filter_map_hide map_update_hide hide_event_def hide_override_def
          without_actor_def)
    ultimately show ?thesis using False hidden [of ?s] by (simp add: pg_delete_user_def Let_def)
  qed
qed

lemma keeps_elsewhere_reconciliations: "keeps_elsewhere t u (pg_insert_reconciliations sha now t u op os)"
proof (induction os)
  case (Cons i os)
  have "keeps_elsewhere t u (pg_insert_job (pg_reconcile_row sha now t u op i))"
    by (rule elsewhere_job) (simp add: pg_reconcile_row_def Let_def)
  then show ?case using Cons by (simp add: elsewhere_intros)
qed (simp add: elsewhere_intros)

lemmas elsewhere_statements = elsewhere_deletions elsewhere_versions elsewhere_sources elsewhere_clearings
  elsewhere_membership elsewhere_user keeps_elsewhere_reconciliations

lemma elsewhere_setting: "pg_elsewhere t u (s\<lparr>cn_setting := x\<rparr>) = pg_elsewhere t u s"
  by (simp add: pg_elsewhere_def)

lemma elsewhere_member: "keeps_elsewhere t u (pg_erase_member j sha now t u op)"
proof -
  have "keeps_elsewhere t u (pg_insert_audit (pg_erasure_audit sha now t u op res))" for res
    by (rule elsewhere_event) (simp add: pg_erasure_audit_def)
  then show ?thesis unfolding pg_erase_member_def pg_erase_evidence_def Let_def
    by (intro elsewhere_intros elsewhere_statements)
qed

text \<open>Whether it succeeds or throws, an erasure in a coherent database leaves it coherent and leaves the rows of the
  other tenants and the accounts of the other users.\<close>

lemma pg_erase_isolated:
  assumes "pg_coherent s" and "pg_eraseAccount j sha now t u op s = (r, s')"
  shows "pg_coherent s' \<and> pg_elsewhere t u s' = pg_elsewhere t u s"
proof (cases r)
  case (Inl e)
  then have "s' = s" using assms(2) unfolding pg_eraseAccount_def by (intro pg_own_Inl) simp
  then show ?thesis using assms(1) by simp
next
  case (Inr x)
  let ?m = "bindE (getE (pg_find_member t u)) (\<lambda>membership.
    if membership = None then retE emptyErasure else pg_erase_member j sha now t u op)"
  have "keeps_elsewhere t u ?m"
    by (intro elsewhere_intros elsewhere_member)
  moreover obtain w where run: "?m (s\<lparr>cn_setting := t\<rparr>) = (Inr x, w)" "s' = w\<lparr>cn_setting := cn_setting s\<rparr>"
    using assms(2) Inr by (auto simp: pg_eraseAccount_def pg_own_Inr)
  moreover have "pg_coherent (s\<lparr>cn_setting := t\<rparr>)" using assms(1) by simp
  ultimately have "pg_coherent w \<and> pg_elsewhere t u w = pg_elsewhere t u (s\<lparr>cn_setting := t\<rparr>)"
    unfolding keeps_elsewhere_def by (metis snd_conv)
  then show ?thesis using \<open>s' = w\<lparr>cn_setting := cn_setting s\<rparr>\<close> by (simp add: elsewhere_setting)
qed

end
