(* ===== verification/Regex.thy ===== *)
theory Regex
  imports Prelude
begin

text \<open>
  The regular expressions of the language, as far as src/src/extractor.ts and src/src/connectors/web.ts
  use them: character classes, sequence, alternative, the greedy and the lazy quantifiers, groups and the
  word boundary. A pattern is matched by backtracking. \<open>matches r p\<close> lists the positions after
  every match of \<open>r\<close> from the position \<open>p\<close>, the preferred one first, so that the head is the
  one the engine returns. A quantifier gives up on a pass that consumes nothing.

  \<open>consumes\<close> says declaratively which texts a pattern matches between which contexts. The matcher
  finds exactly these (\<open>matches_iff\<close>), and a test of a pattern is the presence of such a text
  (\<open>regex_test_iff\<close>).
\<close>

section \<open>Patterns and positions\<close>

datatype regex =
    Empty
  | Chars "char \<Rightarrow> bool"
  | WordBoundary
  | Seq regex regex
  | Alt regex regex
  | Star regex
  | LazyStar regex
  | UpTo nat regex
  | Group nat regex

text \<open>A position: the text behind it, last character first, the text ahead of it, and the groups
  captured so far, the latest first.\<close>

record position =
  behind :: string
  ahead :: string
  groups :: "(nat \<times> string) list"

definition word_char :: "char \<Rightarrow> bool" where
  "word_char c \<longleftrightarrow> is_alnum c \<or> c = CHR ''_''"

definition at_word :: "string \<Rightarrow> bool" where
  "at_word s = (case s of [] \<Rightarrow> False | c # _ \<Rightarrow> word_char c)"

definition between :: "position \<Rightarrow> position \<Rightarrow> string" where
  "between p q = take (length (ahead p) - length (ahead q)) (ahead p)"

definition moved :: "position \<Rightarrow> position \<Rightarrow> bool" where
  "moved p q \<longleftrightarrow> length (ahead q) < length (ahead p)"

definition capture :: "nat \<Rightarrow> position \<Rightarrow> position \<Rightarrow> position" where
  "capture k p q = q\<lparr>groups := (k, between p q) # groups q\<rparr>"

function matches :: "regex \<Rightarrow> position \<Rightarrow> position list" where
  "matches Empty p = [p]"
| "matches (Chars P) p = (case ahead p of [] \<Rightarrow> []
     | c # s \<Rightarrow> if P c then [p\<lparr>behind := c # behind p, ahead := s\<rparr>] else [])"
| "matches WordBoundary p = (if at_word (behind p) \<noteq> at_word (ahead p) then [p] else [])"
| "matches (Seq r t) p = concat (map (matches t) (matches r p))"
| "matches (Alt r t) p = matches r p @ matches t p"
| "matches (Star r) p =
     concat (map (\<lambda>q. if moved p q then matches (Star r) q else []) (matches r p)) @ [p]"
| "matches (LazyStar r) p =
     p # concat (map (\<lambda>q. if moved p q then matches (LazyStar r) q else []) (matches r p))"
| "matches (UpTo n r) p =
     (if n = 0 then []
      else concat (map (\<lambda>q. if moved p q then matches (UpTo (n - 1) r) q else []) (matches r p))) @ [p]"
| "matches (Group k r) p = map (capture k p) (matches r p)"
  by pat_completeness auto

fun depth :: "regex \<Rightarrow> nat" where
  "depth (Seq r t) = Suc (depth r + depth t)"
| "depth (Alt r t) = Suc (depth r + depth t)"
| "depth (Star r) = Suc (depth r)"
| "depth (LazyStar r) = Suc (depth r)"
| "depth (UpTo n r) = Suc (depth r)"
| "depth (Group k r) = Suc (depth r)"
| "depth _ = 0"

termination matches
  by (relation "measures [depth \<circ> fst, length \<circ> ahead \<circ> snd]") (auto simp: moved_def)

declare matches.simps(6-8) [simp del]

text \<open>Each way to write a pattern that the sources use. Letters of a literal match in either case.\<close>

fun seqs :: "regex list \<Rightarrow> regex" where
  "seqs [] = Empty"
| "seqs [r] = r"
| "seqs (r # t # rs) = Seq r (seqs (t # rs))"

fun alts :: "regex list \<Rightarrow> regex" where
  "alts [] = Chars (\<lambda>_. False)"
| "alts [r] = r"
| "alts (r # t # rs) = Alt r (alts (t # rs))"

definition same_letter :: "char \<Rightarrow> char \<Rightarrow> bool" where
  "same_letter c d \<longleftrightarrow> to_lower_char d = to_lower_char c"

definition one_of :: "string \<Rightarrow> char \<Rightarrow> bool" where
  "one_of s c \<longleftrightarrow> c \<in> set s"

definition none_of :: "string \<Rightarrow> char \<Rightarrow> bool" where
  "none_of s c \<longleftrightarrow> c \<notin> set s"

definition letter :: "char \<Rightarrow> regex" where
  "letter c = Chars (same_letter c)"

definition lit :: "string \<Rightarrow> regex" where
  "lit s = foldr (\<lambda>c r. Seq (letter c) r) s Empty"

definition exactly :: "char \<Rightarrow> regex" where
  "exactly c = Chars ((=) c)"

definition case_lit :: "string \<Rightarrow> regex" where
  "case_lit s = foldr (\<lambda>c r. Seq (exactly c) r) s Empty"

definition opt :: "regex \<Rightarrow> regex" where
  "opt r = UpTo 1 r"

definition plus_re :: "regex \<Rightarrow> regex" where
  "plus_re r = Seq r (Star r)"

definition digit_re :: regex where
  "digit_re = Chars is_digit"

definition space_re :: regex where
  "space_re = Chars is_space"

section \<open>Searching\<close>

text \<open>A match: the text passed over to find it, the matched text, its groups, and the text after it.\<close>

record hit =
  hit_skipped :: string
  hit_text :: string
  hit_groups :: "(nat \<times> string) list"
  hit_rest :: string

definition hit_at :: "position \<Rightarrow> position \<Rightarrow> hit" where
  "hit_at p q = \<lparr>hit_skipped = [], hit_text = between p q, hit_groups = groups q, hit_rest = ahead q\<rparr>"

definition skip_char :: "char \<Rightarrow> hit \<Rightarrow> hit" where
  "skip_char c h = h\<lparr>hit_skipped := c # hit_skipped h\<rparr>"

fun search :: "regex \<Rightarrow> string \<Rightarrow> string \<Rightarrow> hit option" where
  "search r b s =
     (let p = \<lparr>behind = b, ahead = s, groups = []\<rparr> in
      case matches r p of q # _ \<Rightarrow> Some (hit_at p q)
      | [] \<Rightarrow> (case s of [] \<Rightarrow> None | c # t \<Rightarrow> map_option (skip_char c) (search r (c # b) t)))"

declare search.simps [simp del]

definition regex_match :: "regex \<Rightarrow> string \<Rightarrow> hit option" where
  "regex_match r s = search r [] s"

definition regex_test :: "regex \<Rightarrow> string \<Rightarrow> bool" where
  "regex_test r s \<longleftrightarrow> regex_match r s \<noteq> None"

definition match_group :: "nat \<Rightarrow> hit \<Rightarrow> string option" where
  "match_group k h = map_of (hit_groups h) k"

definition behind_hit :: "string \<Rightarrow> hit \<Rightarrow> string" where
  "behind_hit b h = rev (hit_skipped h @ hit_text h) @ b"

section \<open>What a pattern matches\<close>

inductive consumes :: "regex \<Rightarrow> string \<Rightarrow> string \<Rightarrow> string \<Rightarrow> bool" where
  consumes_Empty: "consumes Empty b [] a"
| consumes_Chars: "P c \<Longrightarrow> consumes (Chars P) b [c] a"
| consumes_WordBoundary: "at_word b \<noteq> at_word a \<Longrightarrow> consumes WordBoundary b [] a"
| consumes_Seq: "consumes r b u (v @ a) \<Longrightarrow> consumes t (rev u @ b) v a \<Longrightarrow> consumes (Seq r t) b (u @ v) a"
| consumes_Alt1: "consumes r b u a \<Longrightarrow> consumes (Alt r t) b u a"
| consumes_Alt2: "consumes t b u a \<Longrightarrow> consumes (Alt r t) b u a"
| consumes_Star0: "consumes (Star r) b [] a"
| consumes_Star: "consumes r b u (v @ a) \<Longrightarrow> u \<noteq> [] \<Longrightarrow> consumes (Star r) (rev u @ b) v a \<Longrightarrow>
    consumes (Star r) b (u @ v) a"
| consumes_LazyStar0: "consumes (LazyStar r) b [] a"
| consumes_LazyStar: "consumes r b u (v @ a) \<Longrightarrow> u \<noteq> [] \<Longrightarrow> consumes (LazyStar r) (rev u @ b) v a \<Longrightarrow>
    consumes (LazyStar r) b (u @ v) a"
| consumes_UpTo0: "consumes (UpTo n r) b [] a"
| consumes_UpTo: "consumes r b u (v @ a) \<Longrightarrow> u \<noteq> [] \<Longrightarrow> consumes (UpTo n r) (rev u @ b) v a \<Longrightarrow>
    consumes (UpTo (Suc n) r) b (u @ v) a"
| consumes_Group: "consumes r b u a \<Longrightarrow> consumes (Group k r) b u a"

inductive_simps consumes_simps:
  "consumes Empty b u a" "consumes (Chars P) b u a" "consumes WordBoundary b u a"
  "consumes (Seq r t) b u a" "consumes (Alt r t) b u a" "consumes (Group k r) b u a"

inductive_cases consumes_StarE: "consumes (Star r) b u a"

inductive_cases consumes_UpToE: "consumes (UpTo n r) b u a"

text \<open>A step from \<open>p\<close> to \<open>q\<close> over a text that the pattern matches there.\<close>

definition advances :: "regex \<Rightarrow> position \<Rightarrow> position \<Rightarrow> bool" where
  "advances r p q \<longleftrightarrow> (\<exists>u. ahead p = u @ ahead q \<and> behind q = rev u @ behind p \<and>
     consumes r (behind p) u (ahead q))"

lemma advances_between:
  "advances r p q \<longleftrightarrow> ahead p = between p q @ ahead q \<and> behind q = rev (between p q) @ behind p \<and>
     consumes r (behind p) (between p q) (ahead q)"
  by (auto simp: advances_def between_def)

lemma advances_trans:
  assumes "advances r p q" and "advances t q w"
    and "\<And>u v. consumes r (behind p) u (v @ ahead w) \<Longrightarrow> consumes t (rev u @ behind p) v (ahead w) \<Longrightarrow>
      ahead p = u @ v @ ahead w \<Longrightarrow> ahead q = v @ ahead w \<Longrightarrow> consumes x (behind p) (u @ v) (ahead w)"
  shows "advances x p w"
proof -
  obtain u where u: "ahead p = u @ ahead q" "behind q = rev u @ behind p" "consumes r (behind p) u (ahead q)"
    using assms(1) by (auto simp: advances_def)
  obtain v where v: "ahead q = v @ ahead w" "behind w = rev v @ behind q" "consumes t (behind q) v (ahead w)"
    using assms(2) by (auto simp: advances_def)
  have "consumes x (behind p) (u @ v) (ahead w)" using assms(3) u v by simp
  then show ?thesis using u v unfolding advances_def by (intro exI [of _ "u @ v"]) simp
qed

lemma advances_refl: "consumes r (behind p) [] (ahead p) \<Longrightarrow> advances r p p"
  by (simp add: advances_def)

text \<open>A pass of a quantifier, and then the passes after it.\<close>

lemma advances_pass:
  assumes "advances r p w" and "moved p w" and "advances t w q"
    and "\<And>u v. consumes r (behind p) u (v @ ahead q) \<Longrightarrow> u \<noteq> [] \<Longrightarrow>
      consumes t (rev u @ behind p) v (ahead q) \<Longrightarrow> consumes x (behind p) (u @ v) (ahead q)"
  shows "advances x p q"
  by (rule advances_trans [OF assms(1,3)]) (use assms(2) in \<open>auto intro: assms(4) simp: moved_def\<close>)

lemma set_matches_Star:
  "set (matches (Star r) p) = insert p (\<Union>q \<in> {q \<in> set (matches r p). moved p q}. set (matches (Star r) q))"
  by (subst matches.simps) auto

lemma set_matches_LazyStar:
  "set (matches (LazyStar r) p) =
     insert p (\<Union>q \<in> {q \<in> set (matches r p). moved p q}. set (matches (LazyStar r) q))"
  by (subst matches.simps) auto

lemma set_matches_UpTo:
  "set (matches (UpTo n r) p) = insert p (if n = 0 then {}
     else \<Union>q \<in> {q \<in> set (matches r p). moved p q}. set (matches (UpTo (n - 1) r) q))"
  by (subst matches.simps) auto

lemma no_pass [simp]:
  "p \<in> set (matches (Star r) p)" "p \<in> set (matches (LazyStar r) p)" "p \<in> set (matches (UpTo n r) p)"
  by (subst matches.simps, simp)+

lemma matches_advances: "q \<in> set (matches r p) \<Longrightarrow> advances r p q"
proof (induction r p arbitrary: q rule: matches.induct)
  case (2 P p)
  then show ?case
    by (auto simp: advances_def consumes_simps split: list.splits if_splits)
next
  case (4 r t p)
  then obtain w where "w \<in> set (matches r p)" "q \<in> set (matches t w)" by auto
  then show ?case using 4 by (blast intro: advances_trans consumes_Seq)
next
  case (5 r t p)
  then show ?case by (auto simp: advances_def consumes_simps)
next
  case (6 r p)
  from "6.prems" have "q = p \<or> (\<exists>w. w \<in> set (matches r p) \<and> moved p w \<and> q \<in> set (matches (Star r) w))"
    by (subst (asm) set_matches_Star) blast
  with "6.IH" show ?case by (metis advances_refl consumes_Star0 advances_pass consumes_Star)
next
  case (7 r p)
  from "7.prems" have "q = p \<or> (\<exists>w. w \<in> set (matches r p) \<and> moved p w \<and> q \<in> set (matches (LazyStar r) w))"
    by (subst (asm) set_matches_LazyStar) blast
  with "7.IH" show ?case by (metis advances_refl consumes_LazyStar0 advances_pass consumes_LazyStar)
next
  case (8 n r p)
  from "8.prems" have "q = p \<or> n \<noteq> 0 \<and>
      (\<exists>w. w \<in> set (matches r p) \<and> moved p w \<and> q \<in> set (matches (UpTo (n - 1) r) w))"
    by (subst (asm) set_matches_UpTo) (auto split: if_splits)
  with "8.IH" show ?case
    by (metis advances_refl consumes_UpTo0 advances_pass consumes_UpTo Suc_pred' neq0_conv)
next
  case (9 k r p)
  then show ?case by (auto simp: advances_def capture_def consumes_simps)
qed (auto intro: advances_refl consumes.intros split: if_splits)

text \<open>The converse: every such text is among the matches, whatever has been captured before.\<close>

definition reaches :: "regex \<Rightarrow> string \<Rightarrow> string \<Rightarrow> string \<Rightarrow> bool" where
  "reaches r b u a \<longleftrightarrow> (\<forall>g. \<exists>g'. \<lparr>behind = rev u @ b, ahead = a, groups = g'\<rparr>
     \<in> set (matches r \<lparr>behind = b, ahead = u @ a, groups = g\<rparr>))"

lemma reaches_pass:
  assumes "reaches r b u (v @ a)" and "u \<noteq> []" and "reaches t (rev u @ b) v a"
    and "\<And>p. (\<Union>q \<in> {q \<in> set (matches r p). moved p q}. set (matches t q)) \<subseteq> set (matches x p)"
  shows "reaches x b (u @ v) a"
  unfolding reaches_def
proof
  fix g
  let ?p = "\<lparr>behind = b, ahead = (u @ v) @ a, groups = g\<rparr>"
  obtain g1 where 1: "\<lparr>behind = rev u @ b, ahead = v @ a, groups = g1\<rparr> \<in> set (matches r ?p)"
    using assms(1) by (auto simp: reaches_def)
  obtain g2 where 2: "\<lparr>behind = rev v @ rev u @ b, ahead = a, groups = g2\<rparr>
      \<in> set (matches t \<lparr>behind = rev u @ b, ahead = v @ a, groups = g1\<rparr>)"
    using assms(3) by (auto simp: reaches_def)
  have "moved ?p \<lparr>behind = rev u @ b, ahead = v @ a, groups = g1\<rparr>" using assms(2) by (simp add: moved_def)
  then have "\<lparr>behind = rev (u @ v) @ b, ahead = a, groups = g2\<rparr> \<in> set (matches x ?p)"
    using 1 2 assms(4) [of ?p] by force
  then show "\<exists>g'. \<lparr>behind = rev (u @ v) @ b, ahead = a, groups = g'\<rparr> \<in> set (matches x ?p)" by blast
qed

lemma reaches_Seq:
  assumes "reaches r b u (v @ a)" and "reaches t (rev u @ b) v a"
  shows "reaches (Seq r t) b (u @ v) a"
  unfolding reaches_def
proof
  fix g
  obtain g1 where 1: "\<lparr>behind = rev u @ b, ahead = v @ a, groups = g1\<rparr>
      \<in> set (matches r \<lparr>behind = b, ahead = u @ v @ a, groups = g\<rparr>)"
    using assms(1) by (auto simp: reaches_def)
  obtain g2 where "\<lparr>behind = rev v @ rev u @ b, ahead = a, groups = g2\<rparr>
      \<in> set (matches t \<lparr>behind = rev u @ b, ahead = v @ a, groups = g1\<rparr>)"
    using assms(2) by (auto simp: reaches_def)
  then show "\<exists>g'. \<lparr>behind = rev (u @ v) @ b, ahead = a, groups = g'\<rparr>
      \<in> set (matches (Seq r t) \<lparr>behind = b, ahead = (u @ v) @ a, groups = g\<rparr>)"
    using 1 by force
qed

lemma consumes_reaches: "consumes r b u a \<Longrightarrow> reaches r b u a"
proof (induction r b u a rule: consumes.induct)
  case (consumes_Seq r b u v a t)
  then show ?case by (blast intro: reaches_Seq)
next
  case (consumes_Star r b u v a)
  show ?case
    by (rule reaches_pass [OF consumes_Star.IH(1) consumes_Star.hyps(2) consumes_Star.IH(2)])
      (subst (2) set_matches_Star, blast)
next
  case (consumes_LazyStar r b u v a)
  show ?case
    by (rule reaches_pass [OF consumes_LazyStar.IH(1) consumes_LazyStar.hyps(2) consumes_LazyStar.IH(2)])
      (subst (2) set_matches_LazyStar, blast)
next
  case (consumes_UpTo r b u v a n)
  show ?case
    by (rule reaches_pass [OF consumes_UpTo.IH(1) consumes_UpTo.hyps(2) consumes_UpTo.IH(2)])
      (subst (2) set_matches_UpTo, auto)
next
  case (consumes_Alt1 r b u a t)
  then show ?case by (simp add: reaches_def) blast
next
  case (consumes_Alt2 t b u a r)
  then show ?case by (simp add: reaches_def) blast
next
  case (consumes_Group r b u a k)
  then show ?case by (force simp: reaches_def capture_def)
qed (auto simp: reaches_def intro: no_pass)

theorem matches_iff:
  "(\<exists>g'. \<lparr>behind = rev u @ b, ahead = a, groups = g'\<rparr> \<in> set (matches r \<lparr>behind = b, ahead = u @ a, groups = g\<rparr>))
     \<longleftrightarrow> consumes r b u a"
proof
  assume "consumes r b u a"
  then show "\<exists>g'. \<lparr>behind = rev u @ b, ahead = a, groups = g'\<rparr>
      \<in> set (matches r \<lparr>behind = b, ahead = u @ a, groups = g\<rparr>)"
    using consumes_reaches by (auto simp: reaches_def)
qed (auto dest!: matches_advances simp: advances_def)

lemma matches_Nil_iff:
  "matches r \<lparr>behind = b, ahead = s, groups = g\<rparr> = [] \<longleftrightarrow> (\<forall>u a. s = u @ a \<longrightarrow> \<not> consumes r b u a)"
proof
  assume none: "matches r \<lparr>behind = b, ahead = s, groups = g\<rparr> = []"
  have "\<not> consumes r b u a" if "s = u @ a" for u a
  proof
    assume "consumes r b u a"
    then have "reaches r b u a" by (rule consumes_reaches)
    then show False using none that by (auto simp: reaches_def dest!: spec [of _ g])
  qed
  then show "\<forall>u a. s = u @ a \<longrightarrow> \<not> consumes r b u a" by blast
next
  assume no: "\<forall>u a. s = u @ a \<longrightarrow> \<not> consumes r b u a"
  have "q \<notin> set (matches r \<lparr>behind = b, ahead = s, groups = g\<rparr>)" for q
    using no matches_advances [of q r "\<lparr>behind = b, ahead = s, groups = g\<rparr>"] by (auto simp: advances_def)
  then show "matches r \<lparr>behind = b, ahead = s, groups = g\<rparr> = []" by (meson list.set_sel(1))
qed

lemma search_Some:
  assumes "search r b s = Some h"
  shows "s = hit_skipped h @ hit_text h @ hit_rest h \<and>
    consumes r (rev (hit_skipped h) @ b) (hit_text h) (hit_rest h)"
  using assms
proof (induction r b s arbitrary: h rule: search.induct)
  case (1 r b s)
  let ?p = "\<lparr>behind = b, ahead = s, groups = []\<rparr>"
  show ?case
  proof (cases "matches r ?p")
    case (Cons q qs)
    then have "advances r ?p q" by (intro matches_advances) simp
    moreover have "h = hit_at ?p q" using "1.prems" Cons by (simp add: search.simps [of r b s])
    ultimately show ?thesis by (auto simp: hit_at_def advances_between)
  next
    case Nil
    then obtain c t h' where s: "s = c # t" and h': "search r (c # b) t = Some h'" "h = skip_char c h'"
      using "1.prems" by (auto simp: search.simps [of r b s] split: list.splits)
    then show ?thesis using "1.IH" [OF refl Nil s h'(1)] by (simp add: skip_char_def)
  qed
qed

lemma split_skip:
  assumes "\<And>u a. c # t = u @ a \<Longrightarrow> \<not> P [] u a"
  shows "(\<forall>x u a. c # t = x @ u @ a \<longrightarrow> \<not> P x u a) \<longleftrightarrow> (\<forall>x u a. t = x @ u @ a \<longrightarrow> \<not> P (c # x) u a)"
  using assms by (auto simp: Cons_eq_append_conv)

lemma search_None:
  "search r b s = None \<longleftrightarrow> (\<forall>x u a. s = x @ u @ a \<longrightarrow> \<not> consumes r (rev x @ b) u a)"
proof (induction r b s rule: search.induct)
  case (1 r b s)
  let ?p = "\<lparr>behind = b, ahead = s, groups = []\<rparr>"
  show ?case
  proof (cases "matches r ?p")
    case (Cons q qs)
    then show ?thesis using matches_Nil_iff [of r b s "[]"]
      by (auto simp: search.simps [of r b s]) (metis append_Nil rev.simps(1))
  next
    case Nil
    then have here: "\<not> consumes r b u a" if "s = u @ a" for u a using matches_Nil_iff that by blast
    show ?thesis
    proof (cases s)
      case Nil': Nil
      then show ?thesis using Nil here by (auto simp: search.simps [of r b "[]"])
    next
      case (Cons c t)
      have "search r b s = None \<longleftrightarrow> search r (c # b) t = None"
        using Nil Cons by (simp add: search.simps [of r b "c # t"])
      also have "\<dots> \<longleftrightarrow> (\<forall>x u a. t = x @ u @ a \<longrightarrow> \<not> consumes r (rev x @ c # b) u a)"
        by (rule "1.IH" [OF refl Nil Cons])
      also have "\<dots> \<longleftrightarrow> (\<forall>x u a. s = x @ u @ a \<longrightarrow> \<not> consumes r (rev x @ b) u a)"
        using here split_skip [of c t "\<lambda>x. consumes r (rev x @ b)"] by (simp add: Cons)
      finally show ?thesis .
    qed
  qed
qed

theorem regex_test_iff:
  "regex_test r s \<longleftrightarrow> (\<exists>x u a. s = x @ u @ a \<and> consumes r (rev x) u a)"
  unfolding regex_test_def regex_match_def search_None by auto

section \<open>All matches\<close>

text \<open>\<open>matchAll\<close> and \<open>replace\<close> with a global pattern: the search goes on after the match,
  and one character further when the match is empty.\<close>

function hits :: "regex \<Rightarrow> string \<Rightarrow> string \<Rightarrow> hit list" where
  "hits r b s = (case search r b s of None \<Rightarrow> []
     | Some h \<Rightarrow> h # (if hit_text h \<noteq> [] then hits r (behind_hit b h) (hit_rest h)
        else case hit_rest h of [] \<Rightarrow> [] | c # t \<Rightarrow> hits r (c # behind_hit b h) t))"
  by pat_completeness auto
termination
  by (relation "measure (\<lambda>(r, b, s). length s)") (auto dest!: search_Some)

function replace_from :: "regex \<Rightarrow> string \<Rightarrow> string \<Rightarrow> string \<Rightarrow> string" where
  "replace_from r w b s = (case search r b s of None \<Rightarrow> s
     | Some h \<Rightarrow> hit_skipped h @ w @
        (if hit_text h \<noteq> [] then replace_from r w (behind_hit b h) (hit_rest h)
         else case hit_rest h of [] \<Rightarrow> [] | c # t \<Rightarrow> c # replace_from r w (c # behind_hit b h) t))"
  by pat_completeness auto
termination
  by (relation "measure (\<lambda>(r, w, b, s). length s)") (auto dest!: search_Some)

declare hits.simps [simp del] replace_from.simps [simp del]

definition matchAll :: "regex \<Rightarrow> string \<Rightarrow> hit list" where
  "matchAll r s = hits r [] s"

definition replace_all :: "regex \<Rightarrow> string \<Rightarrow> string \<Rightarrow> string" where
  "replace_all r w s = replace_from r w [] s"

lemma hits_search: "h \<in> set (hits r b s) \<Longrightarrow> \<exists>b' x t. s = x @ t \<and> search r b' t = Some h"
proof (induction r b s rule: hits.induct)
  case (1 r b s)
  then show ?case
  proof (cases "search r b s")
    case None
    then show ?thesis using "1.prems" by (simp add: hits.simps [of r b s])
  next
    case (Some k)
    then have "h = k \<or> h \<in> set (hits r (behind_hit b k) (hit_rest k)) \<and> hit_text k \<noteq> [] \<or>
        (\<exists>c t. hit_rest k = c # t \<and> hit_text k = [] \<and> h \<in> set (hits r (c # behind_hit b k) t))"
      using "1.prems" by (auto simp: hits.simps [of r b s] split: if_splits list.splits)
    moreover have "s = (hit_skipped k @ hit_text k) @ hit_rest k" using search_Some [OF Some] by simp
    moreover have "s = (hit_skipped k @ hit_text k @ [c]) @ t" if "hit_rest k = c # t" for c t
      using that \<open>s = (hit_skipped k @ hit_text k) @ hit_rest k\<close> by simp
    ultimately show ?thesis using "1.IH" [OF Some] Some by (metis append.assoc append_Nil)
  qed
qed

text \<open>\<open>occurs_in s t\<close>: the text \<open>t\<close> contains \<open>s\<close> in one piece.\<close>

definition occurs_in :: "string \<Rightarrow> string \<Rightarrow> bool" where
  "occurs_in s t \<longleftrightarrow> (\<exists>x y. t = x @ s @ y)"

lemma occurs_in_refl [simp]: "occurs_in s s"
  unfolding occurs_in_def by (metis append_Nil append_Nil2)

lemma occurs_in_trans: "occurs_in s t \<Longrightarrow> occurs_in t u \<Longrightarrow> occurs_in s u"
  unfolding occurs_in_def by (metis append.assoc)

lemma includes_str_iff: "includes_str s p \<longleftrightarrow> occurs_in p s"
proof (induction s p rule: includes_str.induct)
  case (2 c s p)
  have "occurs_in p (c # s) \<longleftrightarrow> starts_with (c # s) p \<or> occurs_in p s"
    unfolding occurs_in_def starts_with_iff by (auto simp: Cons_eq_append_conv)
  then show ?case using 2 by simp
qed (auto simp: occurs_in_def)

lemma match_occurs: "regex_match r s = Some h \<Longrightarrow> occurs_in (hit_text h) s"
  unfolding regex_match_def occurs_in_def by (metis search_Some)

lemma matchAll_occurs: "h \<in> set (matchAll r s) \<Longrightarrow> occurs_in (hit_text h) s"
proof -
  assume "h \<in> set (matchAll r s)"
  then obtain b x t where "s = x @ t" "search r b t = Some h" unfolding matchAll_def by (blast dest: hits_search)
  then have "s = (x @ hit_skipped h) @ hit_text h @ hit_rest h" using search_Some by simp
  then show ?thesis unfolding occurs_in_def by blast
qed

section \<open>Groups\<close>

text \<open>The patterns that are captured under each number, and the groups that every match sets.\<close>

fun group_bodies :: "regex \<Rightarrow> (nat \<times> regex) list" where
  "group_bodies (Seq r t) = group_bodies r @ group_bodies t"
| "group_bodies (Alt r t) = group_bodies r @ group_bodies t"
| "group_bodies (Star r) = group_bodies r"
| "group_bodies (LazyStar r) = group_bodies r"
| "group_bodies (UpTo n r) = group_bodies r"
| "group_bodies (Group k r) = (k, r) # group_bodies r"
| "group_bodies _ = []"

fun always_set :: "nat \<Rightarrow> regex \<Rightarrow> bool" where
  "always_set k (Seq r t) \<longleftrightarrow> always_set k r \<or> always_set k t"
| "always_set k (Alt r t) \<longleftrightarrow> always_set k r \<and> always_set k t"
| "always_set k (Group j r) \<longleftrightarrow> j = k \<or> always_set k r"
| "always_set k _ \<longleftrightarrow> False"

definition captured :: "regex \<Rightarrow> nat \<Rightarrow> string \<Rightarrow> bool" where
  "captured r k w \<longleftrightarrow> (\<exists>body b a. (k, body) \<in> set (group_bodies r) \<and> consumes body b w a)"

lemma captured_simps:
  "captured (Seq r t) k w \<longleftrightarrow> captured r k w \<or> captured t k w"
  "captured (Alt r t) k w \<longleftrightarrow> captured r k w \<or> captured t k w"
  "captured (Star r) k w \<longleftrightarrow> captured r k w" "captured (LazyStar r) k w \<longleftrightarrow> captured r k w"
  "captured (UpTo n r) k w \<longleftrightarrow> captured r k w"
  "captured (Group j r) k w \<longleftrightarrow> captured r k w \<or> j = k \<and> (\<exists>b a. consumes r b w a)"
  by (auto simp: captured_def)

lemma matches_groups:
  "q \<in> set (matches r p) \<Longrightarrow> set (groups p) \<subseteq> set (groups q) \<and>
     (\<forall>k w. (k, w) \<in> set (groups q) \<longrightarrow> (k, w) \<in> set (groups p) \<or> captured r k w)"
proof (induction r p arbitrary: q rule: matches.induct)
  case (4 r t p)
  then obtain v where v: "v \<in> set (matches r p)" "q \<in> set (matches t v)" by auto
  show ?case using "4.IH"(1) [OF v(1)] "4.IH"(2) [OF v] unfolding captured_simps by blast
next
  case (5 r t p)
  then have "q \<in> set (matches r p) \<or> q \<in> set (matches t p)" by simp
  then show ?case using "5.IH" unfolding captured_simps by blast
next
  case (6 r p)
  from "6.prems" have "q = p \<or> (\<exists>v. v \<in> set (matches r p) \<and> moved p v \<and> q \<in> set (matches (Star r) v))"
    by (subst (asm) set_matches_Star) blast
  then show ?case using "6.IH" unfolding captured_simps by blast
next
  case (7 r p)
  from "7.prems" have "q = p \<or> (\<exists>v. v \<in> set (matches r p) \<and> moved p v \<and> q \<in> set (matches (LazyStar r) v))"
    by (subst (asm) set_matches_LazyStar) blast
  then show ?case using "7.IH" unfolding captured_simps by blast
next
  case (8 n r p)
  from "8.prems" have "q = p \<or> n \<noteq> 0 \<and>
      (\<exists>v. v \<in> set (matches r p) \<and> moved p v \<and> q \<in> set (matches (UpTo (n - 1) r) v))"
    by (subst (asm) set_matches_UpTo) (auto split: if_splits)
  then show ?case using "8.IH" unfolding captured_simps by blast
next
  case (9 k r p)
  then obtain v where v: "v \<in> set (matches r p)" "q = capture k p v" by auto
  have "captured (Group k r) k (between p v)"
    using matches_advances [OF v(1)] by (auto simp: captured_simps advances_between)
  then show ?case using "9.IH" [OF v(1)] by (auto simp: v(2) capture_def captured_simps)
qed (auto split: list.splits if_splits)

lemma matches_sets_group: "q \<in> set (matches r p) \<Longrightarrow> always_set k r \<Longrightarrow> \<exists>w. (k, w) \<in> set (groups q)"
proof (induction k r arbitrary: p q rule: always_set.induct)
  case (1 k r t)
  then obtain v where v: "v \<in> set (matches r p)" "q \<in> set (matches t v)" by auto
  from "1.prems"(2) show ?case using "1.IH" v matches_groups [OF v(2)] unfolding always_set.simps by blast
next
  case (2 k r t)
  then show ?case by auto
next
  case (3 k j r)
  then obtain v where v: "v \<in> set (matches r p)" "q = capture j p v" by auto
  show ?case
  proof (cases "j = k")
    case False
    then obtain w where "(k, w) \<in> set (groups v)" using 3 v(1) unfolding always_set.simps by blast
    then show ?thesis by (auto simp: v(2) capture_def)
  qed (auto simp: v(2) capture_def)
qed auto

lemma search_groups:
  assumes "search r b s = Some h"
  shows "(\<forall>k w. match_group k h = Some w \<longrightarrow> captured r k w) \<and> (\<forall>k. always_set k r \<longrightarrow> match_group k h \<noteq> None)"
  using assms
proof (induction r b s arbitrary: h rule: search.induct)
  case (1 r b s)
  let ?p = "\<lparr>behind = b, ahead = s, groups = []\<rparr>"
  show ?case
  proof (cases "matches r ?p")
    case (Cons q qs)
    then have q: "q \<in> set (matches r ?p)" by simp
    have h: "hit_groups h = groups q" using "1.prems" Cons by (auto simp: search.simps [of r b s] hit_at_def)
    have "captured r k w" if "match_group k h = Some w" for k w
      using that matches_groups [OF q] by (auto simp: match_group_def h dest!: map_of_SomeD)
    moreover have "match_group k h \<noteq> None" if k: "always_set k r" for k
    proof -
      obtain w where "(k, w) \<in> set (groups q)" using matches_sets_group [OF q k] by blast
      then have "k \<in> fst ` set (groups q)" by force
      then show ?thesis by (simp add: match_group_def h map_of_eq_None_iff)
    qed
    ultimately show ?thesis by blast
  next
    case Nil
    then obtain c t h' where s: "s = c # t" and h': "search r (c # b) t = Some h'" "h = skip_char c h'"
      using "1.prems" by (auto simp: search.simps [of r b s] split: list.splits)
    then show ?thesis using "1.IH" [OF refl Nil s h'(1)] by (simp add: skip_char_def match_group_def)
  qed
qed

section \<open>The languages of the derived forms\<close>

lemma consumes_Chars_Seq:
  "consumes (Seq (Chars P) r) b u a \<longleftrightarrow> (\<exists>d v. u = d # v \<and> P d \<and> consumes r (d # b) v a)"
proof
  assume "\<exists>d v. u = d # v \<and> P d \<and> consumes r (d # b) v a"
  then obtain d v where "u = [d] @ v" "P d" "consumes r (rev [d] @ b) v a" by auto
  then show "consumes (Seq (Chars P) r) b u a" by (metis consumes_Seq consumes_Chars)
qed (auto simp: consumes_simps)

lemma consumes_lit: "consumes (lit w) b u a \<longleftrightarrow> toLowerCase u = toLowerCase w"
proof (induction w arbitrary: b u)
  case Nil
  then show ?case by (auto simp: lit_def consumes_simps toLowerCase_def)
next
  case (Cons c w)
  have "consumes (lit (c # w)) b u a \<longleftrightarrow>
      (\<exists>d v. u = d # v \<and> to_lower_char d = to_lower_char c \<and> consumes (lit w) (d # b) v a)"
    by (simp add: lit_def letter_def same_letter_def consumes_Chars_Seq)
  also have "\<dots> \<longleftrightarrow> toLowerCase u = toLowerCase (c # w)" by (cases u) (auto simp: Cons.IH toLowerCase_def)
  finally show ?case .
qed

lemma consumes_opt: "consumes (opt r) b u a \<longleftrightarrow> u = [] \<or> consumes r b u a"
proof
  assume "consumes (opt r) b u a"
  then show "u = [] \<or> consumes r b u a"
    unfolding opt_def by (auto elim!: consumes_UpToE)
next
  assume "u = [] \<or> consumes r b u a"
  moreover have "consumes (opt r) b u a" if "consumes r b u a" "u \<noteq> []"
    using consumes_UpTo [of r b u "[]" a 0] that by (simp add: opt_def consumes_UpTo0)
  ultimately show "consumes (opt r) b u a"
    unfolding opt_def by (cases "u = []") (auto intro: consumes_UpTo0)
qed

lemma consumes_alts: "consumes (alts rs) b u a \<longleftrightarrow> (\<exists>r \<in> set rs. consumes r b u a)"
  by (induction rs rule: alts.induct) (auto simp: consumes_simps)

lemma consumes_seqs_Cons:
  "consumes (seqs (r # rs)) b u a \<longleftrightarrow>
     (\<exists>v w. u = v @ w \<and> consumes r b v (w @ a) \<and> consumes (seqs rs) (rev v @ b) w a)"
  by (cases rs) (auto simp: consumes_simps)

lemma consumes_seqs_Nil: "consumes (seqs []) b u a \<longleftrightarrow> u = []"
  by (auto simp: consumes_simps)

lemma consumes_UpTo_chars:
  "consumes (UpTo n (Chars P)) b u a \<longleftrightarrow> length u \<le> n \<and> list_all P u"
proof (induction n arbitrary: b u)
  case 0
  then show ?case by (auto elim: consumes_UpToE intro: consumes_UpTo0)
next
  case (Suc n)
  show ?case
  proof (cases u)
    case Nil
    then show ?thesis by (simp add: consumes_UpTo0)
  next
    case (Cons c v)
    have "consumes (UpTo (Suc n) (Chars P)) b u a \<longleftrightarrow> P c \<and> consumes (UpTo n (Chars P)) (c # b) v a"
    proof
      assume "consumes (UpTo (Suc n) (Chars P)) b u a"
      then show "P c \<and> consumes (UpTo n (Chars P)) (c # b) v a"
        by (rule consumes_UpToE) (auto simp: Cons consumes_simps)
    next
      assume "P c \<and> consumes (UpTo n (Chars P)) (c # b) v a"
      then show "consumes (UpTo (Suc n) (Chars P)) b u a"
        using consumes_UpTo [of "Chars P" b "[c]" v a n] by (simp add: Cons consumes_simps)
    qed
    then show ?thesis by (auto simp: Cons Suc.IH)
  qed
qed

text \<open>A pattern of literals spells finitely many phrases, up to case, and a test of it is a search for
  one of them.\<close>

definition spells :: "regex \<Rightarrow> string list \<Rightarrow> bool" where
  "spells r ws \<longleftrightarrow> (\<forall>b u a. consumes r b u a \<longleftrightarrow> toLowerCase u \<in> set ws)"

lemma spells_lit: "spells (lit w) [toLowerCase w]"
  by (simp add: spells_def consumes_lit)

lemma spells_opt: "spells r ws \<Longrightarrow> spells (opt r) ([] # ws)"
  by (simp add: spells_def consumes_opt toLowerCase_def)

lemma spells_Alt: "spells r ws \<Longrightarrow> spells t vs \<Longrightarrow> spells (Alt r t) (ws @ vs)"
  by (simp add: spells_def consumes_simps)

lemma toLowerCase_eq_append:
  "toLowerCase u = w @ v \<longleftrightarrow> (\<exists>x y. u = x @ y \<and> toLowerCase x = w \<and> toLowerCase y = v)"
  by (auto simp: toLowerCase_def map_eq_append_conv)

lemma spells_Seq:
  assumes "spells r ws" and "spells t vs"
  shows "spells (Seq r t) (concat (map (\<lambda>w. map ((@) w) vs) ws))"
  unfolding spells_def
proof (intro allI)
  fix b u a
  have "consumes (Seq r t) b u a \<longleftrightarrow> (\<exists>x y. u = x @ y \<and> toLowerCase x \<in> set ws \<and> toLowerCase y \<in> set vs)"
    using assms by (simp add: spells_def consumes_simps)
  also have "\<dots> \<longleftrightarrow> (\<exists>w \<in> set ws. \<exists>v \<in> set vs. toLowerCase u = w @ v)"
    unfolding toLowerCase_eq_append by blast
  finally show "consumes (Seq r t) b u a \<longleftrightarrow> toLowerCase u \<in> set (concat (map (\<lambda>w. map ((@) w) vs) ws))"
    by auto
qed

lemmas spells_intros = spells_lit spells_opt spells_Alt spells_Seq

lemma regex_test_spells:
  assumes "spells r ws"
  shows "regex_test r s \<longleftrightarrow> list_ex (includes_str (toLowerCase s)) ws"
proof -
  have "regex_test r s \<longleftrightarrow> (\<exists>w \<in> set ws. \<exists>x u y. s = x @ u @ y \<and> toLowerCase u = w)"
    using assms by (auto simp: regex_test_iff spells_def)
  also have "\<dots> \<longleftrightarrow> (\<exists>w \<in> set ws. occurs_in w (toLowerCase s))"
    unfolding occurs_in_def toLowerCase_eq_append by blast
  finally show ?thesis by (simp add: list_ex_iff includes_str_iff)
qed

lemma regex_test_Alt: "regex_test (Alt r t) s \<longleftrightarrow> regex_test r s \<or> regex_test t s"
  unfolding regex_test_iff consumes_simps by blast

lemmas regex_forms = consumes_lit consumes_opt consumes_alts consumes_seqs_Cons consumes_seqs_Nil

end
