(* ===== verification/Config.thy ===== *)
theory Config
  imports Credentials Urls
begin

text \<open>
  The configuration, src/src/config/env.ts: the schema of the environment variables, the checks of a
  production start and the resulting \<open>AppConfig\<close>. The schema library's URL check and
  error message, the URL parser and its \<open>searchParams\<close> are parameters.
\<close>

section \<open>The schema\<close>

datatype env_value = VText string | VInt int | VBool bool

datatype env_type = EnumOf "string list" | TextMin nat | UrlText | IntIn int int | BoolText

datatype presence = Optional | Default env_value

definition zero_key :: string where
  "zero_key = replicate 43 (CHR ''A'') @ ''=''"

definition env_schema :: "(string \<times> env_type \<times> presence) list" where
  "env_schema =
     [(''NODE_ENV'', EnumOf [''development'', ''test'', ''production''], Default (VText ''development'')),
      (''HOST'', TextMin 0, Default (VText ''127.0.0.1'')),
      (''PORT'', IntIn 1 65535, Default (VInt 4318)),
      (''DATABASE_DRIVER'', EnumOf [''sqlite'', ''postgres''], Default (VText ''sqlite'')),
      (''DATABASE_URL'', UrlText, Optional),
      (''DATABASE_PATH'', TextMin 0, Default (VText ''./data/recruiting-os.sqlite'')),
      (''DATABASE_POOL_SIZE'', IntIn 1 50, Default (VInt 10)),
      (''AUTH_MODE'', EnumOf [''oidc'', ''development''], Default (VText ''development'')),
      (''SESSION_SECRET'', TextMin 32, Default (VText ''development-only-session-secret-change-me'')),
      (''SESSION_TTL_SECONDS'', IntIn 300 2592000, Default (VInt 43200)),
      (''CREDENTIAL_MASTER_KEY'', TextMin 0, Default (VText zero_key)),
      (''CREDENTIAL_KEY_VERSION'', TextMin 0, Default (VText ''v1'')),
      (''OIDC_ISSUER'', UrlText, Optional),
      (''OIDC_CLIENT_ID'', TextMin 0, Optional),
      (''OIDC_CLIENT_SECRET'', TextMin 0, Optional),
      (''OIDC_REDIRECT_URI'', UrlText, Optional),
      (''OIDC_ALLOWED_EMAIL_DOMAIN'', TextMin 0, Default (VText ''unc.edu'')),
      (''INITIAL_PLATFORM_ADMIN_EMAILS'', TextMin 0, Default (VText [])),
      (''DEFAULT_TENANT_ID'', TextMin 1, Default (VText ''unc'')),
      (''ALLOWED_ORIGINS'', TextMin 0, Default (VText [])),
      (''OPENAI_API_KEY'', TextMin 0, Optional),
      (''OPENAI_MODEL'', TextMin 0, Default (VText ''gpt-5-mini'')),
      (''MAX_REQUEST_BYTES'', IntIn 1024 20000000, Default (VInt 1000000)),
      (''MAX_SCREENSHOT_BYTES'', IntIn 1024 20000000, Default (VInt 5000000)),
      (''MAX_FETCH_BYTES'', IntIn 1024 20000000, Default (VInt 2000000)),
      (''MAX_PROVIDER_RESPONSE_BYTES'', IntIn 1024 20000000, Default (VInt 6000000)),
      (''RATE_LIMIT_PER_MINUTE'', IntIn 1 10000, Default (VInt 120)),
      (''AUTH_IP_RATE_LIMIT_PER_MINUTE'', IntIn 10 100000, Default (VInt 2000)),
      (''AUTHENTICATED_IP_RATE_LIMIT_PER_MINUTE'', IntIn 100 1000000, Default (VInt 30000)),
      (''CONNECTOR_SYNC_INTERVAL_SECONDS'', IntIn 300 86400, Default (VInt 900)),
      (''TRUST_PROXY'', BoolText, Default (VBool False)),
      (''LOG_LEVEL'', EnumOf [''fatal'', ''error'', ''warn'', ''info'', ''debug'', ''trace'', ''silent''], Default (VText ''info'')),
      (''METRICS_BEARER_TOKEN'', TextMin 32, Optional),
      (''GOOGLE_CLIENT_ID'', TextMin 0, Optional),
      (''GOOGLE_CLIENT_SECRET'', TextMin 0, Optional),
      (''GOOGLE_REDIRECT_URI'', UrlText, Optional),
      (''GROUPME_CLIENT_ID'', TextMin 0, Optional),
      (''GROUPME_CLIENT_SECRET'', TextMin 0, Optional),
      (''GROUPME_REDIRECT_URI'', UrlText, Optional),
      (''META_CLIENT_ID'', TextMin 0, Optional),
      (''META_CLIENT_SECRET'', TextMin 0, Optional),
      (''META_REDIRECT_URI'', UrlText, Optional),
      (''LINKEDIN_CLIENT_ID'', TextMin 0, Optional),
      (''LINKEDIN_CLIENT_SECRET'', TextMin 0, Optional),
      (''LINKEDIN_REDIRECT_URI'', UrlText, Optional),
      (''GMAIL_USER_ID'', TextMin 0, Default (VText ''me'')),
      (''META_API_VERSION'', TextMin 0, Default (VText ''v24.0'')),
      (''META_IG_USER_ID'', TextMin 0, Optional),
      (''LINKEDIN_VERSION'', TextMin 0, Default (VText ''202608''))]"

record url_library =
  zod_failure :: "string \<Rightarrow> string list \<Rightarrow> string \<times> (string list \<times> string) list"
  zod_url :: "string \<Rightarrow> bool"
  parse_url :: "string \<Rightarrow> URL option"
  search_param :: "URL \<Rightarrow> string \<Rightarrow> string option"

definition zod_error :: "'m url_library_scheme \<Rightarrow> string \<Rightarrow> string list \<Rightarrow> error" where
  "zod_error lib schema names = (case zod_failure lib schema names of (message, issues) \<Rightarrow> ZodError message issues)"

definition parse_env_value :: "(string \<Rightarrow> bool) \<Rightarrow> env_type \<Rightarrow> string \<Rightarrow> env_value option" where
  "parse_env_value is_url type v =
     (case type of
        EnumOf xs \<Rightarrow> if v \<in> set xs then Some (VText v) else None
      | TextMin n \<Rightarrow> if n \<le> length v then Some (VText v) else None
      | UrlText \<Rightarrow> if is_url v then Some (VText v) else None
      | IntIn lo hi \<Rightarrow> (case jsNumber v of
            Finite r \<Rightarrow> if r = of_int \<lfloor>r\<rfloor> \<and> lo \<le> \<lfloor>r\<rfloor> \<and> \<lfloor>r\<rfloor> \<le> hi then Some (VInt \<lfloor>r\<rfloor>) else None
          | _ \<Rightarrow> None)
      | BoolText \<Rightarrow> Some (VBool (v = ''true'')))"

definition parse_env_field ::
    "(string \<Rightarrow> bool) \<Rightarrow> (string \<Rightarrow> string option) \<Rightarrow> string \<times> env_type \<times> presence \<Rightarrow>
       (string \<times> env_value option) option" where
  "parse_env_field is_url environment = (\<lambda>(name, type, presence).
     case environment name of
       None \<Rightarrow> Some (name, case presence of Optional \<Rightarrow> None | Default d \<Rightarrow> Some d)
     | Some v \<Rightarrow> map_option (\<lambda>x. (name, Some x)) (parse_env_value is_url type v))"

fun collect :: "'a option list \<Rightarrow> 'a list option" where
  "collect [] = Some []"
| "collect (None # xs) = None"
| "collect (Some x # xs) = map_option (Cons x) (collect xs)"

type_synonym env = "(string \<times> env_value option) list"

definition parse_env :: "url_library \<Rightarrow> (string \<Rightarrow> string option) \<Rightarrow> error + env" where
  "parse_env lib environment =
     (case collect (map (parse_env_field (zod_url lib) environment) env_schema) of
        None \<Rightarrow> Inl (zod_error lib ''schema'' (map fst
          (filter (\<lambda>field. parse_env_field (zod_url lib) environment field = None) env_schema)))
      | Some values \<Rightarrow> Inr values)"

definition env_text :: "env \<Rightarrow> string \<Rightarrow> string option" where
  "env_text values name = (case map_of values name of Some (Some (VText s)) \<Rightarrow> Some s | _ \<Rightarrow> None)"

definition env_int :: "env \<Rightarrow> string \<Rightarrow> int" where
  "env_int values name = (case map_of values name of Some (Some (VInt n)) \<Rightarrow> n | _ \<Rightarrow> 0)"

definition env_bool :: "env \<Rightarrow> string \<Rightarrow> bool" where
  "env_bool values name = (case map_of values name of Some (Some (VBool b)) \<Rightarrow> b | _ \<Rightarrow> False)"

abbreviation env_str :: "env \<Rightarrow> string \<Rightarrow> string" where
  "env_str values name \<equiv> nullish (env_text values name) []"

section \<open>The checks of a production start\<close>

text \<open>Checks one after the other.\<close>

definition andThen :: "error + unit \<Rightarrow> error + 'a \<Rightarrow> error + 'a" where
  "andThen c d = (case c of Inl e \<Rightarrow> Inl e | Inr _ \<Rightarrow> d)"

definition check :: "bool \<Rightarrow> string \<Rightarrow> error + unit" where
  "check ok message = (if ok then Inr () else Inl (Error message))"

definition check_database :: "url_library \<Rightarrow> env \<Rightarrow> error + unit" where
  "check_database lib values =
     (if env_text values ''DATABASE_DRIVER'' \<noteq> Some ''postgres'' \<or> \<not> truthy (env_text values ''DATABASE_URL'') then
        Inl (Error ''Production requires DATABASE_DRIVER=postgres and DATABASE_URL'')
      else case parse_url lib (env_str values ''DATABASE_URL'') of
        None \<Rightarrow> Inl (TypeError ''Invalid URL'')
      | Some url \<Rightarrow>
        andThen (check (url_protocol url \<in> set [''postgres:'', ''postgresql:''])
            ''Production DATABASE_URL must use the Postgres protocol'')
          (check (nullish (search_param lib url ''sslmode'') [] \<in> set [''require'', ''verify-ca'', ''verify-full''] \<or>
              search_param lib url ''ssl'' = Some ''true'')
            ''Production DATABASE_URL must require TLS''))"

definition check_https :: "url_library \<Rightarrow> string \<Rightarrow> string \<Rightarrow> error + unit" where
  "check_https lib name target =
     (case parse_url lib target of None \<Rightarrow> Inl (TypeError ''Invalid URL'')
      | Some url \<Rightarrow> check (url_protocol url = ''https:'' \<and> url_username url = [] \<and> url_password url = [])
          (''Production '' @ name @ '' must be a credential-free HTTPS URL''))"

fun check_optional_https :: "url_library \<Rightarrow> env \<Rightarrow> string list \<Rightarrow> error + unit" where
  "check_optional_https lib values [] = Inr ()"
| "check_optional_https lib values (name # names) =
     (if \<not> truthy (env_text values name) then check_optional_https lib values names
      else andThen (check_https lib name (env_str values name)) (check_optional_https lib values names))"

definition comma_list :: "string \<Rightarrow> string list" where
  "comma_list s = filter (\<lambda>x. x \<noteq> []) (map trim (split_on (CHR '','') s))"

definition admin_emails :: "env \<Rightarrow> string list" where
  "admin_emails values = filter (\<lambda>x. x \<noteq> [])
     (map (\<lambda>email. toLowerCase (trim email)) (split_on (CHR '','') (env_str values ''INITIAL_PLATFORM_ADMIN_EMAILS'')))"

text \<open>\<open>origins.some((origin) => new URL(origin).protocol !== 'https:')\<close>\<close>

fun some_insecure :: "url_library \<Rightarrow> string list \<Rightarrow> error + bool" where
  "some_insecure lib [] = Inr False"
| "some_insecure lib (origin # origins) =
     (case parse_url lib origin of None \<Rightarrow> Inl (TypeError ''Invalid URL'')
      | Some url \<Rightarrow> if url_protocol url \<noteq> ''https:'' then Inr True else some_insecure lib origins)"

definition check_origins :: "url_library \<Rightarrow> env \<Rightarrow> error + unit" where
  "check_origins lib values =
     (let origins = comma_list (env_str values ''ALLOWED_ORIGINS'');
          failed = Inl (Error ''Production requires explicit HTTPS ALLOWED_ORIGINS'') in
      if origins = [] then failed
      else case some_insecure lib origins of Inl e \<Rightarrow> Inl e | Inr b \<Rightarrow> if b then failed else Inr ())"

definition check_production :: "url_library \<Rightarrow> env \<Rightarrow> error + unit" where
  "check_production lib values =
     andThen (check_database lib values) (
     andThen (check (env_text values ''AUTH_MODE'' = Some ''oidc'') ''Production requires AUTH_MODE=oidc'') (
     andThen (check (truthy (env_text values ''OIDC_ISSUER'') \<and> truthy (env_text values ''OIDC_CLIENT_ID'') \<and>
         truthy (env_text values ''OIDC_REDIRECT_URI'')) ''Production OIDC configuration is incomplete'') (
     andThen (check_https lib ''OIDC_ISSUER'' (env_str values ''OIDC_ISSUER'')) (
     andThen (check_https lib ''OIDC_REDIRECT_URI'' (env_str values ''OIDC_REDIRECT_URI'')) (
     andThen (check_optional_https lib values [''GOOGLE_REDIRECT_URI'', ''GROUPME_REDIRECT_URI'',
         ''META_REDIRECT_URI'', ''LINKEDIN_REDIRECT_URI'']) (
     andThen (check (list_all (\<lambda>email. ends_with email
           (''@'' @ toLowerCase (env_str values ''OIDC_ALLOWED_EMAIL_DOMAIN''))) (admin_emails values))
         ''Initial platform administrators must use the allowed OIDC email domain'') (
     andThen (check (\<not> includes_str (env_str values ''SESSION_SECRET'') ''development-only'')
         ''Production SESSION_SECRET must be changed'') (
     andThen (check (env_str values ''CREDENTIAL_MASTER_KEY'' \<noteq> zero_key)
         ''Production CREDENTIAL_MASTER_KEY must be changed'') (
     andThen (check (truthy (env_text values ''METRICS_BEARER_TOKEN''))
         ''Production METRICS_BEARER_TOKEN is required'') (
     check_origins lib values))))))))))"

section \<open>The configuration\<close>

record AppConfig =
  cfg_environment :: string
  cfg_host :: string
  cfg_port :: int
  cfg_database_driver :: string
  cfg_database_url :: "string option"
  cfg_database_path :: string
  cfg_database_poolSize :: int
  cfg_auth_mode :: string
  cfg_auth_sessionSecret :: string
  cfg_auth_sessionTtlSeconds :: int
  cfg_auth_credentialMasterKey :: string
  cfg_auth_credentialKeyVersion :: string
  cfg_auth_issuer :: "string option"
  cfg_auth_clientId :: "string option"
  cfg_auth_clientSecret :: "string option"
  cfg_auth_redirectUri :: "string option"
  cfg_auth_allowedEmailDomain :: string
  cfg_auth_initialPlatformAdminEmails :: "string list"
  cfg_defaultTenantId :: string
  cfg_allowedOrigins :: "string list"
  cfg_openai_apiKey :: string
  cfg_openai_model :: string
  cfg_limits_requestBytes :: int
  cfg_limits_screenshotBytes :: int
  cfg_limits_fetchBytes :: int
  cfg_limits_providerResponseBytes :: int
  cfg_limits_requestsPerMinute :: int
  cfg_limits_authIpRequestsPerMinute :: int
  cfg_limits_authenticatedIpRequestsPerMinute :: int
  cfg_limits_connectorSyncIntervalSeconds :: int
  cfg_trustProxy :: bool
  cfg_logLevel :: string
  cfg_metricsBearerToken :: "string option"
  cfg_providers :: "OAuthProvider \<Rightarrow> ProviderSettings option"
  cfg_gmailUserId :: string
  cfg_metaApiVersion :: string
  cfg_metaIgUserId :: "string option"
  cfg_linkedinVersion :: string

fun provider_prefix :: "OAuthProvider \<Rightarrow> string" where
  "provider_prefix p_gmail = ''GOOGLE''"
| "provider_prefix p_groupme = ''GROUPME''"
| "provider_prefix p_instagram = ''META''"
| "provider_prefix p_linkedin = ''LINKEDIN''"

definition config_of :: "env \<Rightarrow> AppConfig" where
  "config_of values =
     \<lparr>cfg_environment = env_str values ''NODE_ENV'', cfg_host = env_str values ''HOST'',
      cfg_port = env_int values ''PORT'', cfg_database_driver = env_str values ''DATABASE_DRIVER'',
      cfg_database_url = env_text values ''DATABASE_URL'', cfg_database_path = env_str values ''DATABASE_PATH'',
      cfg_database_poolSize = env_int values ''DATABASE_POOL_SIZE'',
      cfg_auth_mode = env_str values ''AUTH_MODE'', cfg_auth_sessionSecret = env_str values ''SESSION_SECRET'',
      cfg_auth_sessionTtlSeconds = env_int values ''SESSION_TTL_SECONDS'',
      cfg_auth_credentialMasterKey = env_str values ''CREDENTIAL_MASTER_KEY'',
      cfg_auth_credentialKeyVersion = env_str values ''CREDENTIAL_KEY_VERSION'',
      cfg_auth_issuer = env_text values ''OIDC_ISSUER'', cfg_auth_clientId = env_text values ''OIDC_CLIENT_ID'',
      cfg_auth_clientSecret = env_text values ''OIDC_CLIENT_SECRET'',
      cfg_auth_redirectUri = env_text values ''OIDC_REDIRECT_URI'',
      cfg_auth_allowedEmailDomain = env_str values ''OIDC_ALLOWED_EMAIL_DOMAIN'',
      cfg_auth_initialPlatformAdminEmails = admin_emails values,
      cfg_defaultTenantId = env_str values ''DEFAULT_TENANT_ID'',
      cfg_allowedOrigins = comma_list (env_str values ''ALLOWED_ORIGINS''),
      cfg_openai_apiKey = env_str values ''OPENAI_API_KEY'', cfg_openai_model = env_str values ''OPENAI_MODEL'',
      cfg_limits_requestBytes = env_int values ''MAX_REQUEST_BYTES'',
      cfg_limits_screenshotBytes = env_int values ''MAX_SCREENSHOT_BYTES'',
      cfg_limits_fetchBytes = env_int values ''MAX_FETCH_BYTES'',
      cfg_limits_providerResponseBytes = env_int values ''MAX_PROVIDER_RESPONSE_BYTES'',
      cfg_limits_requestsPerMinute = env_int values ''RATE_LIMIT_PER_MINUTE'',
      cfg_limits_authIpRequestsPerMinute = env_int values ''AUTH_IP_RATE_LIMIT_PER_MINUTE'',
      cfg_limits_authenticatedIpRequestsPerMinute = env_int values ''AUTHENTICATED_IP_RATE_LIMIT_PER_MINUTE'',
      cfg_limits_connectorSyncIntervalSeconds = env_int values ''CONNECTOR_SYNC_INTERVAL_SECONDS'',
      cfg_trustProxy = env_bool values ''TRUST_PROXY'', cfg_logLevel = env_str values ''LOG_LEVEL'',
      cfg_metricsBearerToken = env_text values ''METRICS_BEARER_TOKEN'',
      cfg_providers = (\<lambda>p. Some \<lparr>ps_clientId = env_text values (provider_prefix p @ ''_CLIENT_ID''),
        ps_clientSecret = env_text values (provider_prefix p @ ''_CLIENT_SECRET''),
        ps_redirectUri = env_text values (provider_prefix p @ ''_REDIRECT_URI'')\<rparr>),
      cfg_gmailUserId = env_str values ''GMAIL_USER_ID'', cfg_metaApiVersion = env_str values ''META_API_VERSION'',
      cfg_metaIgUserId = env_text values ''META_IG_USER_ID'',
      cfg_linkedinVersion = env_str values ''LINKEDIN_VERSION''\<rparr>"

definition loadConfig :: "url_library \<Rightarrow> (string \<Rightarrow> string option) \<Rightarrow> error + AppConfig" where
  "loadConfig lib environment =
     (case parse_env lib environment of Inl e \<Rightarrow> Inl e
      | Inr values \<Rightarrow>
        andThen (if env_text values ''NODE_ENV'' = Some ''production'' then check_production lib values else Inr ())
          (Inr (config_of values)))"

section \<open>The schema's promises\<close>

lemma collect_map_of:
  assumes "collect (map f xs) = Some ys" and "\<And>x y. f x = Some y \<Longrightarrow> fst y = fst x"
    and "distinct (map fst xs)" and "x \<in> set xs"
  shows "\<exists>y. f x = Some y \<and> map_of ys (fst x) = Some (snd y)"
  using assms(1,3,4)
proof (induction xs arbitrary: ys)
  case (Cons a xs)
  obtain b where b: "f a = Some b" using Cons.prems(1) by (cases "f a") auto
  obtain zs where zs: "collect (map f xs) = Some zs" "ys = b # zs" using Cons.prems(1) b by auto
  have ba: "fst b = fst a" using assms(2) b .
  show ?case
  proof (cases "x = a")
    case True
    then show ?thesis using b zs ba by (cases b) auto
  next
    case False
    then have "x \<in> set xs" using Cons.prems(3) by simp
    moreover from this have "fst x \<noteq> fst a" using Cons.prems(2) by (metis distinct.simps(2) imageI list.set_map list.simps(9))
    ultimately show ?thesis using Cons.IH [OF zs(1)] Cons.prems(2) zs(2) ba by (cases b) auto
  qed
qed simp

lemma env_schema_distinct: "distinct (map fst env_schema)"
  by (simp add: env_schema_def)

lemma env_lookup:
  assumes "parse_env lib environment = Inr values" and "(name, type, presence) \<in> set env_schema"
  shows "map_of values name =
    Some (case environment name of None \<Rightarrow> (case presence of Optional \<Rightarrow> None | Default d \<Rightarrow> Some d)
      | Some v \<Rightarrow> parse_env_value (zod_url lib) type v) \<and>
    (\<forall>v. environment name = Some v \<longrightarrow> parse_env_value (zod_url lib) type v \<noteq> None)"
proof -
  have "collect (map (parse_env_field (zod_url lib) environment) env_schema) = Some values"
    using assms(1) by (simp add: parse_env_def split: option.splits)
  moreover have "fst y = fst x" if "parse_env_field (zod_url lib) environment x = Some y" for x y
    using that by (auto simp: parse_env_field_def split: prod.splits option.splits)
  ultimately obtain y where y: "parse_env_field (zod_url lib) environment (name, type, presence) = Some y"
    "map_of values name = Some (snd y)"
    using collect_map_of [OF _ _ env_schema_distinct assms(2)] by (metis fst_conv)
  then show ?thesis by (auto simp: parse_env_field_def split: option.splits)
qed

lemma env_int_range:
  assumes "parse_env lib environment = Inr values" and "(name, IntIn lo hi, Default (VInt d)) \<in> set env_schema"
    and "lo \<le> d" and "d \<le> hi"
  shows "lo \<le> env_int values name" "env_int values name \<le> hi"
  using env_lookup [OF assms(1,2)] assms(3,4)
  by (auto simp: env_int_def parse_env_value_def split: option.splits jsnum.splits if_splits)

lemma env_text_min:
  assumes "parse_env lib environment = Inr values" and "(name, TextMin n, presence) \<in> set env_schema"
    and "\<And>d. presence = Default (VText d) \<Longrightarrow> n \<le> length d" and "env_text values name = Some t"
  shows "n \<le> length t"
  using env_lookup [OF assms(1,2)] assms(3,4)
  by (auto simp: env_text_def parse_env_value_def split: option.splits presence.splits if_splits env_value.splits)

lemma andThen_Inr [simp]: "andThen c d = Inr x \<longleftrightarrow> c = Inr () \<and> d = Inr x"
  by (cases c) (auto simp: andThen_def)

lemma check_Inr [simp]: "check ok message = Inr u \<longleftrightarrow> ok"
  by (simp add: check_def)

lemma loadConfig_values:
  assumes "loadConfig lib environment = Inr cfg"
  obtains vs where "parse_env lib environment = Inr vs" "cfg = config_of vs"
    "env_text vs ''NODE_ENV'' = Some ''production'' \<longrightarrow> check_production lib vs = Inr ()"
  using assms by (auto simp: loadConfig_def split: sum.splits if_splits)

lemma some_insecure_False:
  "some_insecure lib origins = Inr False \<Longrightarrow>
     \<forall>x \<in> set origins. \<exists>url. parse_url lib x = Some url \<and> url_protocol url = ''https:''"
  by (induction origins) (auto split: option.splits if_splits)

lemma check_origins_Inr:
  "check_origins lib values = Inr () \<Longrightarrow> comma_list (env_str values ''ALLOWED_ORIGINS'') \<noteq> [] \<and>
     some_insecure lib (comma_list (env_str values ''ALLOWED_ORIGINS'')) = Inr False"
  by (auto simp: check_origins_def Let_def split: if_splits sum.splits)

lemma check_database_Inr:
  "check_database lib values = Inr () \<Longrightarrow> env_text values ''DATABASE_DRIVER'' = Some ''postgres'' \<and>
     (\<exists>u url. env_text values ''DATABASE_URL'' = Some u \<and> parse_url lib u = Some url \<and>
       (search_param lib url ''ssl'' = Some ''true'' \<or>
        search_param lib url ''sslmode'' \<in> {Some ''require'', Some ''verify-ca'', Some ''verify-full''}))"
  by (auto simp: check_database_def truthy_iff nullish_def split: if_splits option.splits)

text \<open>Every accepted configuration has its numbers in the declared ranges and a session secret of at
  least 32 characters.\<close>

lemma config_bounds:
  assumes "loadConfig lib environment = Inr cfg"
  shows "1 \<le> cfg_port cfg \<and> cfg_port cfg \<le> 65535 \<and> 1 \<le> cfg_database_poolSize cfg \<and>
    cfg_database_poolSize cfg \<le> 50 \<and> 300 \<le> cfg_auth_sessionTtlSeconds cfg \<and>
    cfg_auth_sessionTtlSeconds cfg \<le> 2592000 \<and> 1 \<le> cfg_limits_requestsPerMinute cfg \<and>
    1024 \<le> cfg_limits_requestBytes cfg \<and> cfg_limits_requestBytes cfg \<le> 20000000 \<and>
    300 \<le> cfg_limits_connectorSyncIntervalSeconds cfg \<and> 32 \<le> length (cfg_auth_sessionSecret cfg)"
proof -
  obtain vs where vs: "parse_env lib environment = Inr vs" and cfg: "cfg = config_of vs"
    using assms by (rule loadConfig_values)
  note range = env_int_range [OF vs]
  have i: "1 \<le> env_int vs ''PORT''" "env_int vs ''PORT'' \<le> 65535"
    "1 \<le> env_int vs ''DATABASE_POOL_SIZE''" "env_int vs ''DATABASE_POOL_SIZE'' \<le> 50"
    "300 \<le> env_int vs ''SESSION_TTL_SECONDS''" "env_int vs ''SESSION_TTL_SECONDS'' \<le> 2592000"
    "1 \<le> env_int vs ''RATE_LIMIT_PER_MINUTE''" "1024 \<le> env_int vs ''MAX_REQUEST_BYTES''"
    "env_int vs ''MAX_REQUEST_BYTES'' \<le> 20000000" "300 \<le> env_int vs ''CONNECTOR_SYNC_INTERVAL_SECONDS''"
    by (rule range, simp add: env_schema_def, simp, simp)+
  have field: "(''SESSION_SECRET'', TextMin 32, Default (VText ''development-only-session-secret-change-me''))
      \<in> set env_schema" by (simp add: env_schema_def)
  obtain t where t: "env_text vs ''SESSION_SECRET'' = Some t"
    using env_lookup [OF vs field]
    by (auto simp: env_text_def parse_env_value_def split: option.splits if_splits)
  have "32 \<le> length t" by (rule env_text_min [OF vs field _ t]) auto
  then show ?thesis using i t by (simp add: cfg config_of_def)
qed

text \<open>C32. A production start fails closed: a production configuration is only accepted with Postgres over
  TLS, OIDC at HTTPS addresses, a changed session secret and master key, a metrics token, administrators
  of the allowed domain only, and at least one origin, all of them HTTPS.\<close>

theorem production_fails_closed:
  assumes "loadConfig lib environment = Inr cfg" and "cfg_environment cfg = ''production''"
  shows "cfg_database_driver cfg = ''postgres'' \<and>
    (\<exists>u url. cfg_database_url cfg = Some u \<and> parse_url lib u = Some url \<and>
      (search_param lib url ''ssl'' = Some ''true'' \<or>
       search_param lib url ''sslmode'' \<in> {Some ''require'', Some ''verify-ca'', Some ''verify-full''})) \<and>
    cfg_auth_mode cfg = ''oidc'' \<and>
    (\<exists>u url. cfg_auth_issuer cfg = Some u \<and> parse_url lib u = Some url \<and> url_protocol url = ''https:'' \<and>
      url_username url = [] \<and> url_password url = []) \<and>
    \<not> includes_str (cfg_auth_sessionSecret cfg) ''development-only'' \<and>
    cfg_auth_credentialMasterKey cfg \<noteq> zero_key \<and> truthy (cfg_metricsBearerToken cfg) \<and>
    (\<forall>email \<in> set (cfg_auth_initialPlatformAdminEmails cfg).
      ends_with email (''@'' @ toLowerCase (cfg_auth_allowedEmailDomain cfg))) \<and>
    cfg_allowedOrigins cfg \<noteq> [] \<and>
    (\<forall>x \<in> set (cfg_allowedOrigins cfg). \<exists>url. parse_url lib x = Some url \<and> url_protocol url = ''https:'')"
proof -
  obtain vs where "parse_env lib environment = Inr vs" and cfg: "cfg = config_of vs"
    and ok: "env_text vs ''NODE_ENV'' = Some ''production'' \<longrightarrow> check_production lib vs = Inr ()"
    using assms(1) by (rule loadConfig_values)
  have "env_text vs ''NODE_ENV'' = Some ''production''"
    using assms(2) by (cases "env_text vs ''NODE_ENV''") (simp_all add: cfg config_of_def)
  then have c: "check_production lib vs = Inr ()" using ok by simp
  have db: "check_database lib vs = Inr ()" and origins: "check_origins lib vs = Inr ()"
    and issuer: "check_https lib ''OIDC_ISSUER'' (env_str vs ''OIDC_ISSUER'') = Inr ()"
    and rest: "env_text vs ''AUTH_MODE'' = Some ''oidc''" "truthy (env_text vs ''OIDC_ISSUER'')"
      "list_all (\<lambda>email. ends_with email (''@'' @ toLowerCase (env_str vs ''OIDC_ALLOWED_EMAIL_DOMAIN'')))
        (admin_emails vs)"
      "\<not> includes_str (env_str vs ''SESSION_SECRET'') ''development-only''"
      "env_str vs ''CREDENTIAL_MASTER_KEY'' \<noteq> zero_key" "truthy (env_text vs ''METRICS_BEARER_TOKEN'')"
    using c unfolding check_production_def andThen_Inr check_Inr by blast+
  obtain u url where u: "env_text vs ''OIDC_ISSUER'' = Some u" "parse_url lib u = Some url"
    "url_protocol url = ''https:''" "url_username url = []" "url_password url = []"
    using issuer rest(2) by (auto simp: check_https_def truthy_iff split: option.splits)
  show ?thesis
    using check_database_Inr [OF db] check_origins_Inr [OF origins] some_insecure_False rest u
    by (auto simp: cfg config_of_def list_all_iff)
qed


section \<open>Witnesses\<close>

definition example_urls :: url_library where
  "example_urls = \<lparr>zod_failure = (\<lambda>schema names. (schema, map (\<lambda>name. ([name], ''Invalid'')) names)), zod_url = (\<lambda>s. s \<noteq> []),
     parse_url = (\<lambda>s. Some \<lparr>url_protocol = takeWhile (\<lambda>c. c \<noteq> CHR '':'') s @ '':'', url_username = [],
       url_password = [], url_hostname = ''unc.edu'', url_port = [], url_pathname = ''/'', url_search = [],
       url_hash = [], url_origin = s, url_href = s\<rparr>),
     search_param = (\<lambda>_ name. if name = ''sslmode'' then Some ''require'' else None)\<rparr>"

definition production_environment :: "string \<Rightarrow> string option" where
  "production_environment = map_of
     [(''NODE_ENV'', ''production''), (''DATABASE_DRIVER'', ''postgres''), (''DATABASE_URL'', ''postgres://db''),
      (''AUTH_MODE'', ''oidc''), (''OIDC_ISSUER'', ''https://sso''), (''OIDC_CLIENT_ID'', ''c''),
      (''OIDC_REDIRECT_URI'', ''https://app''), (''SESSION_SECRET'', replicate 32 (CHR ''s'')),
      (''CREDENTIAL_MASTER_KEY'', ''k''), (''METRICS_BEARER_TOKEN'', replicate 32 (CHR ''m'')),
      (''ALLOWED_ORIGINS'', ''https://app''), (''INITIAL_PLATFORM_ADMIN_EMAILS'', ''a@unc.edu'')]"

lemma collect_all: "list_all (\<lambda>x. f x \<noteq> None) xs \<Longrightarrow> \<exists>ys. collect (map f xs) = Some ys"
  by (induction xs) auto

lemma parse_env_all:
  "list_all (\<lambda>field. parse_env_field (zod_url lib) environment field \<noteq> None) env_schema \<Longrightarrow>
     \<exists>vs. parse_env lib environment = Inr vs"
  using collect_all [of "parse_env_field (zod_url lib) environment" env_schema]
  by (metis (no_types, lifting) option.simps(5) parse_env_def)

lemma env_text_given:
  assumes "parse_env lib environment = Inr vs" and "(name, type, presence) \<in> set env_schema"
    and "environment name = Some v" and "\<And>lo hi. type \<noteq> IntIn lo hi" and "type \<noteq> BoolText"
  shows "env_text vs name = Some v"
  using env_lookup [OF assms(1,2)] assms(3-5)
  by (cases type) (auto simp: env_text_def parse_env_value_def split: if_splits)

lemma env_text_default:
  assumes "parse_env lib environment = Inr vs" and "(name, type, presence) \<in> set env_schema"
    and "environment name = None"
  shows "env_text vs name = (case presence of Default (VText d) \<Rightarrow> Some d | _ \<Rightarrow> None)"
  using env_lookup [OF assms(1,2)] assms(3) by (auto simp: env_text_def split: presence.splits env_value.splits)

lemma example_bounds:
  "\<exists>cfg. loadConfig example_urls (\<lambda>_. None) = Inr cfg \<and> 1 \<le> cfg_port cfg \<and> 32 \<le> length (cfg_auth_sessionSecret cfg)"
proof -
  have "list_all (\<lambda>field. parse_env_field (zod_url example_urls) (\<lambda>_. None) field \<noteq> None) env_schema"
    by (simp add: list_all_iff parse_env_field_def case_prod_beta del: not_None_eq)
  then obtain vs where vs: "parse_env example_urls (\<lambda>_. None) = Inr vs"
    using parse_env_all by blast
  have "env_text vs ''NODE_ENV'' = Some ''development''"
    by (subst env_text_default [OF vs], simp add: env_schema_def, simp_all)
  then have "loadConfig example_urls (\<lambda>_. None) = Inr (config_of vs)"
    using vs by (simp add: loadConfig_def andThen_def)
  from this config_bounds [OF this] show ?thesis by blast
qed

lemma production_environment_values:
  "list_all (\<lambda>field. parse_env_field (zod_url example_urls) production_environment field \<noteq> None) env_schema"
  by (simp add: env_schema_def parse_env_field_def production_environment_def parse_env_value_def example_urls_def)

lemma production_environment_accepted:
  assumes "parse_env example_urls production_environment = Inr vs"
  shows "env_text vs ''NODE_ENV'' = Some ''production''" "check_production example_urls vs = Inr ()"
proof -
  note given = env_text_given [OF assms]
  note absent = env_text_default [OF assms]
  have t: "env_text vs ''NODE_ENV'' = Some ''production''" "env_text vs ''DATABASE_DRIVER'' = Some ''postgres''"
    "env_text vs ''DATABASE_URL'' = Some ''postgres://db''" "env_text vs ''AUTH_MODE'' = Some ''oidc''"
    "env_text vs ''OIDC_ISSUER'' = Some ''https://sso''" "env_text vs ''OIDC_CLIENT_ID'' = Some ''c''"
    "env_text vs ''OIDC_REDIRECT_URI'' = Some ''https://app''"
    "env_text vs ''SESSION_SECRET'' = Some (replicate 32 (CHR ''s''))"
    "env_text vs ''CREDENTIAL_MASTER_KEY'' = Some ''k''"
    "env_text vs ''METRICS_BEARER_TOKEN'' = Some (replicate 32 (CHR ''m''))"
    "env_text vs ''ALLOWED_ORIGINS'' = Some ''https://app''"
    "env_text vs ''INITIAL_PLATFORM_ADMIN_EMAILS'' = Some ''a@unc.edu''"
    by (rule given, simp add: env_schema_def, simp_all add: production_environment_def)+
  have a: "env_text vs ''GOOGLE_REDIRECT_URI'' = None" "env_text vs ''GROUPME_REDIRECT_URI'' = None"
    "env_text vs ''META_REDIRECT_URI'' = None" "env_text vs ''LINKEDIN_REDIRECT_URI'' = None"
    "env_text vs ''OIDC_ALLOWED_EMAIL_DOMAIN'' = Some ''unc.edu''"
    by (subst absent, simp add: env_schema_def, simp_all add: production_environment_def)+
  show "env_text vs ''NODE_ENV'' = Some ''production''" by (rule t(1))
  have "check_database example_urls vs = Inr ()" by (simp add: check_database_def t example_urls_def)
  moreover have "comma_list ''https://app'' = [''https://app'']" by code_simp
  then have "check_origins example_urls vs = Inr ()" by (simp add: check_origins_def t example_urls_def)
  moreover have "admin_emails vs = [''a@unc.edu'']" unfolding admin_emails_def t nullish_def option.case by code_simp
  moreover have "ends_with ''a@unc.edu'' (''@'' @ toLowerCase ''unc.edu'')" by code_simp
  moreover have "\<not> includes_str (replicate 32 (CHR ''s'')) ''development-only''" by code_simp
  ultimately show "check_production example_urls vs = Inr ()"
    by (simp add: check_production_def t a check_https_def example_urls_def zero_key_def)
qed

theorem production_fails_closed_witness:
  "\<exists>cfg. loadConfig example_urls production_environment = Inr cfg \<and> cfg_environment cfg = ''production'' \<and>
     cfg_auth_mode cfg = ''oidc'' \<and> cfg_allowedOrigins cfg \<noteq> []"
proof -
  obtain vs where vs: "parse_env example_urls production_environment = Inr vs"
    using parse_env_all [OF production_environment_values] by blast
  have cfg: "loadConfig example_urls production_environment = Inr (config_of vs)"
    using vs production_environment_accepted [OF vs] by (simp add: loadConfig_def)
  moreover have production: "cfg_environment (config_of vs) = ''production''"
    using production_environment_accepted(1) [OF vs] by (simp add: config_of_def)
  ultimately show ?thesis using production_fails_closed [OF cfg production] by blast
qed

end
