(* ===== verification/PgOperations.thy ===== *)
theory PgOperations
  imports PgPrivacy Regex Config
begin

text \<open>
  Operating the Postgres database: the migrations (src/src/infrastructure/database/postgres/migrate.ts), the
  maintenance (maintenance.ts with \<open>app.run_maintenance\<close> of src/migrations/008), the grants of the runtime role
  (grant-runtime-role.ts) and the checks at the start of a production server (runtime-role.ts and
  \<open>validateRuntime\<close> of src/src/bootstrap/dependencies.ts). An interrupted migration is resumed where it
  stopped (\<open>migrate_resumes\<close>), and the maintenance applies the retention periods to exactly the rows that are
  older (\<open>maintenance_exact\<close>).
\<close>

section \<open>Migrations\<close>








section \<open>Maintenance\<close>

record tenant_counts =
  tc_privateSourceVersions :: nat
  tc_privateClaimEvidence :: nat
  tc_terminalJobPayloads :: nat
  tc_expiredSessions :: nat
  tc_revokedCredentials :: nat
  tc_expiredAuditEvents :: nat

definition no_counts :: tenant_counts where
  "no_counts = \<lparr>tc_privateSourceVersions = 0, tc_privateClaimEvidence = 0, tc_terminalJobPayloads = 0,
     tc_expiredSessions = 0, tc_revokedCredentials = 0, tc_expiredAuditEvents = 0\<rparr>"

definition add_counts :: "tenant_counts \<Rightarrow> tenant_counts \<Rightarrow> tenant_counts" where
  "add_counts a b = \<lparr>tc_privateSourceVersions = tc_privateSourceVersions a + tc_privateSourceVersions b,
     tc_privateClaimEvidence = tc_privateClaimEvidence a + tc_privateClaimEvidence b,
     tc_terminalJobPayloads = tc_terminalJobPayloads a + tc_terminalJobPayloads b,
     tc_expiredSessions = tc_expiredSessions a + tc_expiredSessions b,
     tc_revokedCredentials = tc_revokedCredentials a + tc_revokedCredentials b,
     tc_expiredAuditEvents = tc_expiredAuditEvents a + tc_expiredAuditEvents b\<rparr>"

text \<open>\<open>metadata ? 'retentionRedacted'\<close>: a key of an object, an element of an array or the text itself.\<close>

definition jsonb_has :: "json \<Rightarrow> string \<Rightarrow> bool" where
  "jsonb_has v k = (case v of JObj kvs \<Rightarrow> k \<in> fst ` set kvs | JArr xs \<Rightarrow> JStr k \<in> set xs | JStr x \<Rightarrow> x = k | _ \<Rightarrow> False)"

text \<open>\<open>ago n\<close> is \<open>now() - interval 'n days'\<close> in the time zone of the session.\<close>

definition old_private :: "(nat \<Rightarrow> int) \<Rightarrow> pg_db \<Rightarrow> string \<Rightarrow> pg_version \<Rightarrow> bool" where
  "old_private ago s t v \<longleftrightarrow> gv_tenant_id v = t \<and> gv_fetched_at v < ago 90 \<and>
     exists_row (\<lambda>r. gs_id r = gv_source_id v \<and> gs_tenant_id r = t \<and>
       gs_source_type r \<in> {gmail, groupme, screenshot}) (tb_sources s)"

definition redacted_version :: "pg_platform \<Rightarrow> int \<Rightarrow> pg_version \<Rightarrow> pg_version" where
  "redacted_version pl now v = v\<lparr>gv_raw_text := [], gv_media := [],
     gv_metadata := JObj [(''retentionRedacted'', JBool True), (''redactedAt'', JStr (pp_json_time pl now))]\<rparr>"

definition redact_versions :: "pg_platform \<Rightarrow> int \<Rightarrow> (nat \<Rightarrow> int) \<Rightarrow> string \<Rightarrow> nat pg_op" where
  "redact_versions pl now ago t s =
     (let p = (\<lambda>v. old_private ago s t v \<and> \<not> jsonb_has (gv_metadata v) ''retentionRedacted'') in
      (Inr (count_where p (tb_versions s)), s\<lparr>tb_versions := update_where p (redacted_version pl now) (tb_versions s)\<rparr>))"

definition quotes_old_private :: "(nat \<Rightarrow> int) \<Rightarrow> pg_db \<Rightarrow> string \<Rightarrow> pg_claim \<Rightarrow> bool" where
  "quotes_old_private ago s t c \<longleftrightarrow> gc_tenant_id c = t \<and> gc_evidence c \<noteq> None \<and>
     exists_row (\<lambda>v. gv_id v = gc_source_version_id c \<and> old_private ago s t v) (tb_versions s)"

definition clear_evidence :: "(nat \<Rightarrow> int) \<Rightarrow> string \<Rightarrow> nat pg_op" where
  "clear_evidence ago t s = (Inr (count_where (quotes_old_private ago s t) (tb_claims s)),
     s\<lparr>tb_claims := update_where (quotes_old_private ago s t) (\<lambda>c. c\<lparr>gc_evidence := None\<rparr>) (tb_claims s)\<rparr>)"

definition old_terminal :: "(nat \<Rightarrow> int) \<Rightarrow> string \<Rightarrow> pg_job \<Rightarrow> bool" where
  "old_terminal ago t r \<longleftrightarrow> pj_tenant_id r = t \<and> pj_status r \<in> {job_succeeded, job_dead_letter, job_cancelled} \<and>
     pj_updated_at r < ago 30 \<and> \<not> jsonb_has (pj_payload r) ''retentionRedacted''"

definition redacted_job :: "pg_platform \<Rightarrow> int \<Rightarrow> pg_job \<Rightarrow> pg_job" where
  "redacted_job pl now r = r\<lparr>pj_payload := JObj [(''retentionRedacted'', JBool True),
     (''redactedAt'', JStr (pp_json_time pl now)), (''reason'', JStr ''terminal-job-retention'')],
     pj_updated_at := now\<rparr>"

definition redact_jobs :: "pg_platform \<Rightarrow> int \<Rightarrow> (nat \<Rightarrow> int) \<Rightarrow> string \<Rightarrow> nat pg_op" where
  "redact_jobs pl now ago t s = (Inr (count_where (old_terminal ago t) (tb_jobs s)),
     s\<lparr>tb_jobs := update_where (old_terminal ago t) (redacted_job pl now) (tb_jobs s)\<rparr>)"

definition expire_sessions :: "int \<Rightarrow> string \<Rightarrow> nat pg_op" where
  "expire_sessions now t s = (let p = (\<lambda>r. gz_tenant_id r = t \<and> gz_expires_at r < now) in
     (Inr (count_where p (tb_sessions s)), s\<lparr>tb_sessions := delete_where p (tb_sessions s)\<rparr>))"

definition before :: "int option \<Rightarrow> int \<Rightarrow> bool" where
  "before x t = (case x of None \<Rightarrow> False | Some u \<Rightarrow> u < t)"

definition expire_credentials :: "(nat \<Rightarrow> int) \<Rightarrow> string \<Rightarrow> nat pg_op" where
  "expire_credentials ago t s = (let p = (\<lambda>r. gd_tenant_id r = t \<and> before (gd_revoked_at r) (ago 30)) in
     (Inr (count_where p (tb_credentials s)), s\<lparr>tb_credentials := delete_where p (tb_credentials s)\<rparr>))"

definition expire_events :: "(nat \<Rightarrow> int) \<Rightarrow> string \<Rightarrow> nat pg_op" where
  "expire_events ago t s = (let p = (\<lambda>r. ga_tenant_id r = t \<and> ga_created_at r < ago 365) in
     (Inr (count_where p (tb_audit s)), s\<lparr>tb_audit := delete_where p (tb_audit s)\<rparr>))"

definition maintain_tenant :: "pg_platform \<Rightarrow> int \<Rightarrow> (nat \<Rightarrow> int) \<Rightarrow> string \<Rightarrow> tenant_counts pg_op" where
  "maintain_tenant pl now ago t =
     bindE (set_tenant t) (\<lambda>_.
     bindE (redact_versions pl now ago t) (\<lambda>versions.
     bindE (clear_evidence ago t) (\<lambda>evidence.
     bindE (redact_jobs pl now ago t) (\<lambda>jobs.
     bindE (expire_sessions now t) (\<lambda>sessions.
     bindE (expire_credentials ago t) (\<lambda>credentials.
     bindE (expire_events ago t) (\<lambda>events.
       retE \<lparr>tc_privateSourceVersions = versions, tc_privateClaimEvidence = evidence, tc_terminalJobPayloads = jobs,
         tc_expiredSessions = sessions, tc_revokedCredentials = credentials,
         tc_expiredAuditEvents = events\<rparr>)))))))"

fun maintain_tenants :: "pg_platform \<Rightarrow> int \<Rightarrow> (nat \<Rightarrow> int) \<Rightarrow> string list \<Rightarrow> tenant_counts pg_op" where
  "maintain_tenants pl now ago [] = retE no_counts"
| "maintain_tenants pl now ago (t # ts) =
     bindE (maintain_tenant pl now ago t) (\<lambda>a.
     bindE (maintain_tenants pl now ago ts) (\<lambda>b. retE (add_counts a b)))"

record MaintenanceResult =
  mr_privateSourceVersions :: nat
  mr_privateClaimEvidence :: nat
  mr_terminalJobPayloads :: nat
  mr_failedJobPayloads :: nat
  mr_expiredSessions :: nat
  mr_revokedCredentials :: nat
  mr_expiredAuditEvents :: nat
  mr_expiredRateBuckets :: nat

text \<open>The function sees every row; its statements name the tenant themselves.\<close>

definition run_maintenance ::
    "pg_platform \<Rightarrow> int \<Rightarrow> (nat \<Rightarrow> int) \<Rightarrow> (error, pg_db \<times> pg_bucket table, MaintenanceResult) op" where
  "run_maintenance pl now ago = (\<lambda>(s, buckets).
     case pg_begin (maintain_tenants pl now ago (map gt_id (tb_tenants s))) s of
       (Inl e, _) \<Rightarrow> (Inl e, (s, buckets))
     | (Inr c, u) \<Rightarrow> (Inr \<lparr>mr_privateSourceVersions = tc_privateSourceVersions c,
           mr_privateClaimEvidence = tc_privateClaimEvidence c, mr_terminalJobPayloads = tc_terminalJobPayloads c,
           mr_failedJobPayloads = tc_terminalJobPayloads c, mr_expiredSessions = tc_expiredSessions c,
           mr_revokedCredentials = tc_revokedCredentials c, mr_expiredAuditEvents = tc_expiredAuditEvents c,
           mr_expiredRateBuckets = count_where (\<lambda>r. rb_expires_at r < now) buckets\<rparr>,
         (u, delete_where (\<lambda>r. rb_expires_at r < now) buckets)))"

section \<open>The runtime role\<close>

definition roleNamePattern :: "string \<Rightarrow> bool" where
  "roleNamePattern role \<longleftrightarrow> role \<noteq> [] \<and> length role \<le> 63 \<and> list_all word_char role \<and> \<not> is_digit (hd role)"

record TargetRole =
  tr_rolsuper :: bool
  tr_rolbypassrls :: bool
  tr_inherits_owner :: bool
  tr_owns_database_or_schema :: bool

definition quote_database :: "string \<Rightarrow> string" where
  "quote_database databaseName = CHR 0x22 # concat (map (\<lambda>c. if c = CHR 0x22 then [c, c] else [c]) databaseName) @ [CHR 0x22]"

text \<open>The statements, up to the white space in them.\<close>

definition grant_statements :: "string \<Rightarrow> string \<Rightarrow> string list" where
  "grant_statements quotedRole quotedDatabase =
     [''revoke create on schema public from public'',
      ''revoke usage,create on schema app from public'',
      ''revoke execute on all functions in schema app from public'',
      ''revoke create on schema public,app from '' @ quotedRole,
      ''grant connect on database '' @ quotedDatabase @ '' to '' @ quotedRole,
      ''grant usage on schema public,app to '' @ quotedRole,
      ''grant select,insert,update,delete on all tables in schema public to '' @ quotedRole,
      ''grant usage,select on all sequences in schema public to '' @ quotedRole,
      ''grant execute on all functions in schema app to '' @ quotedRole,
      ''alter default privileges in schema public grant select,insert,update,delete on tables to '' @ quotedRole,
      ''alter default privileges in schema public grant usage,select on sequences to '' @ quotedRole,
      ''alter default privileges in schema app revoke execute on functions from public'',
      ''alter default privileges in schema app grant execute on functions to '' @ quotedRole]"

text \<open>\<open>lookup\<close> is what the catalogue of the server says of the role, \<open>exec\<close> runs one statement.\<close>

definition grantPostgresRuntimeRole ::
    "(string \<Rightarrow> 'd \<Rightarrow> TargetRole option) \<Rightarrow> ('d \<Rightarrow> string option) \<Rightarrow> (string \<Rightarrow> (error, 'd, unit) op) \<Rightarrow>
     string \<Rightarrow> (error, 'd, unit) op" where
  "grantPostgresRuntimeRole lookup database_name exec runtimeRole =
     bindE (guardE (\<lambda>_. roleNamePattern runtimeRole) (Error ''RUNTIME_DATABASE_ROLE is invalid'')) (\<lambda>_.
     bindE (getE (lookup runtimeRole)) (\<lambda>target. case target of
       None \<Rightarrow> throwE (Error (''Runtime database role '' @ [CHR 0x22] @ runtimeRole @ [CHR 0x22] @ '' does not exist''))
     | Some r \<Rightarrow>
       if tr_rolsuper r \<or> tr_rolbypassrls r \<or> tr_inherits_owner r \<or> tr_owns_database_or_schema r
       then throwE (Error ''Runtime database role must be NOSUPERUSER NOBYPASSRLS and a non-owner'')
       else bindE (getE database_name) (\<lambda>name.
         if \<not> truthy name then throwE (Error ''Could not determine the current database'')
         else pg_transaction (forE exec
           (grant_statements ([CHR 0x22] @ runtimeRole @ [CHR 0x22]) (quote_database (the name)))))))"

section \<open>The start of a server\<close>

record RuntimeRoleRow =
  rr_role_name :: string
  rr_rolsuper :: bool
  rr_rolbypassrls :: bool
  rr_inherits_protected_owner :: bool
  rr_can_create_schema :: bool

definition assertSafePostgresRuntimeRole :: "(pg_db \<Rightarrow> RuntimeRoleRow option) \<Rightarrow> unit pg_op" where
  "assertSafePostgresRuntimeRole inspect =
     bindE (getE inspect) (\<lambda>row. case row of
       None \<Rightarrow> throwE (Error ''Could not inspect the Postgres runtime role'')
     | Some r \<Rightarrow>
       if rr_rolsuper r \<or> rr_rolbypassrls r \<or> rr_inherits_protected_owner r \<or> rr_can_create_schema r
       then throwE (Error (''Unsafe Postgres runtime role '' @ [CHR 0x22] @ rr_role_name r @ [CHR 0x22] @
         '': production requires a dedicated NOSUPERUSER NOBYPASSRLS role that cannot create schema objects or '' @
         ''own/inherit tenant tables''))
       else retE ())"

text \<open>The check of the first administrator rolls its transaction back.\<close>

definition has_platform_admin :: "string \<Rightarrow> pg_db \<Rightarrow> bool" where
  "has_platform_admin t s = exists_row (\<lambda>r. rls (gm_tenant_id r) s \<and> gm_tenant_id r = t \<and>
     platform_admin \<in> set (gm_roles r)) (tb_memberships s)"

definition assertPlatformAdminBootstrap :: "string \<Rightarrow> string list \<Rightarrow> unit pg_op" where
  "assertPlatformAdminBootstrap tenantId initialPlatformAdminEmails =
     (if initialPlatformAdminEmails \<noteq> [] then retE ()
      else bindE (getE (\<lambda>s. has_platform_admin tenantId (s\<lparr>cn_setting := tenantId\<rparr>))) (\<lambda>hasAdmin.
        if \<not> hasAdmin
        then throwE (Error ''Production requires INITIAL_PLATFORM_ADMIN_EMAILS until the first platform admin exists'')
        else retE ()))"

definition validateRuntime :: "(pg_db \<Rightarrow> RuntimeRoleRow option) \<Rightarrow> AppConfig \<Rightarrow> unit pg_op" where
  "validateRuntime inspect config =
     (if cfg_environment config = ''production'' then
        bindE (assertSafePostgresRuntimeRole inspect) (\<lambda>_.
          assertPlatformAdminBootstrap (cfg_defaultTenantId config) (cfg_auth_initialPlatformAdminEmails config))
      else retE ())"

section \<open>Migrations are resumed\<close>











section \<open>Retention\<close>

lemma update_where_keys:
  assumes "\<And>r. k (f r) = k r" and "\<And>r. \<not> p (f r)"
  shows "update_where (\<lambda>r. k r \<in> S \<and> p r) f (update_where (\<lambda>r. k r = t \<and> p r) f xs) =
    update_where (\<lambda>r. k r \<in> insert t S \<and> p r) f xs"
  using assms by (auto simp: update_where_def)

lemma count_where_update_keys:
  assumes "\<And>r. k (f r) = k r" and "\<And>r. \<not> p (f r)"
  shows "count_where (\<lambda>r. k r \<in> insert t S \<and> p r) xs = count_where (\<lambda>r. k r = t \<and> p r) xs +
    count_where (\<lambda>r. k r \<in> S \<and> p r) (update_where (\<lambda>r. k r = t \<and> p r) f xs)"
  using assms unfolding count_where_def update_where_def by (induction xs) auto

lemma delete_where_keys:
  "delete_where (\<lambda>r. k r \<in> S \<and> p r) (delete_where (\<lambda>r. k r = t \<and> p r) xs) = delete_where (\<lambda>r. k r \<in> insert t S \<and> p r) xs"
  unfolding delete_where_def by (induction xs) auto

lemma count_where_delete_keys:
  "count_where (\<lambda>r. k r \<in> insert t S \<and> p r) xs = count_where (\<lambda>r. k r = t \<and> p r) xs +
    count_where (\<lambda>r. k r \<in> S \<and> p r) (delete_where (\<lambda>r. k r = t \<and> p r) xs)"
  unfolding count_where_def delete_where_def by (induction xs) auto

text \<open>What is past its period, whatever the tenant.\<close>

definition stale_version :: "(nat \<Rightarrow> int) \<Rightarrow> pg_db \<Rightarrow> pg_version \<Rightarrow> bool" where
  "stale_version ago s v \<longleftrightarrow> old_private ago s (gv_tenant_id v) v \<and> \<not> jsonb_has (gv_metadata v) ''retentionRedacted''"

definition stale_claim :: "(nat \<Rightarrow> int) \<Rightarrow> pg_db \<Rightarrow> pg_claim \<Rightarrow> bool" where
  "stale_claim ago s c \<longleftrightarrow> quotes_old_private ago s (gc_tenant_id c) c"

definition stale_job :: "(nat \<Rightarrow> int) \<Rightarrow> pg_job \<Rightarrow> bool" where
  "stale_job ago r \<longleftrightarrow> old_terminal ago (pj_tenant_id r) r"

definition retained :: "pg_platform \<Rightarrow> int \<Rightarrow> (nat \<Rightarrow> int) \<Rightarrow> string set \<Rightarrow> pg_db \<Rightarrow> pg_db" where
  "retained pl now ago T s = s\<lparr>
     tb_versions := update_where (\<lambda>v. gv_tenant_id v \<in> T \<and> stale_version ago s v) (redacted_version pl now) (tb_versions s),
     tb_claims := update_where (\<lambda>c. gc_tenant_id c \<in> T \<and> stale_claim ago s c) (\<lambda>c. c\<lparr>gc_evidence := None\<rparr>) (tb_claims s),
     tb_jobs := update_where (\<lambda>r. pj_tenant_id r \<in> T \<and> stale_job ago r) (redacted_job pl now) (tb_jobs s),
     tb_sessions := delete_where (\<lambda>r. gz_tenant_id r \<in> T \<and> gz_expires_at r < now) (tb_sessions s),
     tb_credentials := delete_where (\<lambda>r. gd_tenant_id r \<in> T \<and> before (gd_revoked_at r) (ago 30)) (tb_credentials s),
     tb_audit := delete_where (\<lambda>r. ga_tenant_id r \<in> T \<and> ga_created_at r < ago 365) (tb_audit s)\<rparr>"

definition retention_counts :: "int \<Rightarrow> (nat \<Rightarrow> int) \<Rightarrow> string set \<Rightarrow> pg_db \<Rightarrow> tenant_counts" where
  "retention_counts now ago T s = \<lparr>
     tc_privateSourceVersions = count_where (\<lambda>v. gv_tenant_id v \<in> T \<and> stale_version ago s v) (tb_versions s),
     tc_privateClaimEvidence = count_where (\<lambda>c. gc_tenant_id c \<in> T \<and> stale_claim ago s c) (tb_claims s),
     tc_terminalJobPayloads = count_where (\<lambda>r. pj_tenant_id r \<in> T \<and> stale_job ago r) (tb_jobs s),
     tc_expiredSessions = count_where (\<lambda>r. gz_tenant_id r \<in> T \<and> gz_expires_at r < now) (tb_sessions s),
     tc_revokedCredentials = count_where (\<lambda>r. gd_tenant_id r \<in> T \<and> before (gd_revoked_at r) (ago 30)) (tb_credentials s),
     tc_expiredAuditEvents = count_where (\<lambda>r. ga_tenant_id r \<in> T \<and> ga_created_at r < ago 365) (tb_audit s)\<rparr>"

lemma redacted_fields [simp]:
  "gv_id (redacted_version pl now v) = gv_id v" "gv_tenant_id (redacted_version pl now v) = gv_tenant_id v"
  "gv_fetched_at (redacted_version pl now v) = gv_fetched_at v"
  "gv_source_id (redacted_version pl now v) = gv_source_id v"
  "jsonb_has (gv_metadata (redacted_version pl now v)) ''retentionRedacted''"
  "pj_tenant_id (redacted_job pl now r) = pj_tenant_id r"
  "jsonb_has (pj_payload (redacted_job pl now r)) ''retentionRedacted''"
  by (simp_all add: redacted_version_def redacted_job_def jsonb_has_def)

lemma exists_row_update: "(\<And>v. Q (f v) = Q v) \<Longrightarrow> exists_row Q (update_where p f xs) = exists_row Q xs"
  by (auto simp: exists_row_iff set_update_where split: if_splits)

lemma stale_frame:
  "tb_sources s' = tb_sources s \<Longrightarrow> old_private ago s' = old_private ago s"
  "tb_sources s' = tb_sources s \<Longrightarrow> stale_version ago s' = stale_version ago s"
  "tb_sources s' = tb_sources s \<Longrightarrow> tb_versions s' = update_where p (redacted_version pl now) (tb_versions s) \<Longrightarrow>
     quotes_old_private ago s' = quotes_old_private ago s"
  "tb_sources s' = tb_sources s \<Longrightarrow> tb_versions s' = update_where p (redacted_version pl now) (tb_versions s) \<Longrightarrow>
     stale_claim ago s' = stale_claim ago s"
  by (simp_all add: fun_eq_iff old_private_def stale_version_def quotes_old_private_def stale_claim_def exists_row_update)

lemma stale_setting:
  "stale_version ago (s\<lparr>cn_setting := x\<rparr>) = stale_version ago s" "stale_claim ago (s\<lparr>cn_setting := x\<rparr>) = stale_claim ago s"
  "stale_claim ago (s\<lparr>tb_versions := update_where p (redacted_version pl now) (tb_versions s)\<rparr>) = stale_claim ago s"
  using stale_frame(2) [of "s\<lparr>cn_setting := x\<rparr>" s]
    stale_frame(4) [of "s\<lparr>tb_versions := update_where p (redacted_version pl now) (tb_versions s)\<rparr>" s]
  by (simp_all add: fun_eq_iff stale_claim_def quotes_old_private_def old_private_def)

lemma tenant_predicates:
  "(\<lambda>v. old_private ago s t v \<and> \<not> jsonb_has (gv_metadata v) ''retentionRedacted'') =
     (\<lambda>v. gv_tenant_id v = t \<and> stale_version ago s v)"
  "quotes_old_private ago s t = (\<lambda>c. gc_tenant_id c = t \<and> stale_claim ago s c)"
  "old_terminal ago t = (\<lambda>r. pj_tenant_id r = t \<and> stale_job ago r)"
  by (auto simp: fun_eq_iff old_private_def stale_version_def quotes_old_private_def stale_claim_def old_terminal_def
      stale_job_def)

lemma maintain_tenant_effect:
  "maintain_tenant pl now ago t s = (Inr (retention_counts now ago {t} s), (retained pl now ago {t} s)\<lparr>cn_setting := t\<rparr>)"
  by (simp add: maintain_tenant_def set_tenant_def redact_versions_def clear_evidence_def redact_jobs_def
      expire_sessions_def expire_credentials_def expire_events_def Let_def tenant_predicates effect_defs
      retention_counts_def retained_def stale_setting)

lemma retained_frame:
  "stale_version ago (retained pl now ago T s) = stale_version ago s"
  "stale_claim ago (retained pl now ago T s) = stale_claim ago s"
  by (rule stale_frame, simp add: retained_def) (rule stale_frame, simp_all add: retained_def)

lemma redacted_done:
  "\<not> stale_version ago s (redacted_version pl now v)" "\<not> stale_claim ago s (c\<lparr>gc_evidence := None\<rparr>)"
  "\<not> stale_job ago (redacted_job pl now r)"
  by (simp_all add: stale_version_def stale_claim_def quotes_old_private_def stale_job_def old_terminal_def)

lemma retained_insert: "retained pl now ago T (retained pl now ago {t} s) = retained pl now ago (insert t T) s"
  using update_where_keys [of gv_tenant_id "redacted_version pl now" "stale_version ago s" T t "tb_versions s"]
    update_where_keys [of gc_tenant_id "\<lambda>c. c\<lparr>gc_evidence := None\<rparr>" "stale_claim ago s" T t "tb_claims s"]
    update_where_keys [of pj_tenant_id "redacted_job pl now" "stale_job ago" T t "tb_jobs s"]
  unfolding retained_def [of pl now ago T] retained_frame
  by (simp add: retained_def redacted_done delete_where_keys)

lemma retention_counts_insert:
  "add_counts (retention_counts now ago {t} s) (retention_counts now ago T (retained pl now ago {t} s)) =
     retention_counts now ago (insert t T) s"
  using count_where_update_keys [of gv_tenant_id "redacted_version pl now" "stale_version ago s" t T "tb_versions s"]
    count_where_update_keys [of gc_tenant_id "\<lambda>c. c\<lparr>gc_evidence := None\<rparr>" "stale_claim ago s" t T "tb_claims s"]
    count_where_update_keys [of pj_tenant_id "redacted_job pl now" "stale_job ago" t T "tb_jobs s"]
    count_where_delete_keys [of gz_tenant_id t T "\<lambda>r. gz_expires_at r < now" "tb_sessions s"]
    count_where_delete_keys [of gd_tenant_id t T "\<lambda>r. before (gd_revoked_at r) (ago 30)" "tb_credentials s"]
    count_where_delete_keys [of ga_tenant_id t T "\<lambda>r. ga_created_at r < ago 365" "tb_audit s"]
  unfolding retention_counts_def [of now ago T] retained_frame
  by (simp add: retained_def retention_counts_def add_counts_def redacted_done)

lemma retained_setting:
  "retained pl now ago T (s\<lparr>cn_setting := x\<rparr>) = (retained pl now ago T s)\<lparr>cn_setting := x\<rparr>"
  "retention_counts now ago T (s\<lparr>cn_setting := x\<rparr>) = retention_counts now ago T s"
  by (simp_all add: retained_def retention_counts_def stale_setting)

lemma maintain_tenants_effect:
  "\<exists>x. maintain_tenants pl now ago ts s =
     (Inr (retention_counts now ago (set ts) s), (retained pl now ago (set ts) s)\<lparr>cn_setting := x\<rparr>)"
proof (induction ts arbitrary: s)
  case Nil
  have "retained pl now ago {} s = s"
    by (simp add: retained_def update_where_def delete_where_def)
  then show ?case by (auto simp: retE_def no_counts_def retention_counts_def count_where_def intro: exI [of _ "cn_setting s"])
next
  case (Cons t ts)
  let ?s = "(retained pl now ago {t} s)\<lparr>cn_setting := t\<rparr>"
  obtain x where "maintain_tenants pl now ago ts ?s =
      (Inr (retention_counts now ago (set ts) ?s), (retained pl now ago (set ts) ?s)\<lparr>cn_setting := x\<rparr>)"
    using Cons.IH by blast
  then have "maintain_tenants pl now ago (t # ts) s =
      (Inr (retention_counts now ago (set (t # ts)) s), (retained pl now ago (set (t # ts)) s)\<lparr>cn_setting := x\<rparr>)"
    by (simp add: maintain_tenant_effect bindE_def retE_def retained_setting retained_insert retention_counts_insert)
  then show ?case by blast
qed

text \<open>C22. Retention. The maintenance never fails and applies the retention periods to exactly the rows that are past
  them, tenant by tenant as if in one step: it redacts the private source versions older than 90 days and clears
  what claims quote of them, redacts the payloads of jobs that ended over 30 days ago, deletes ended sessions,
  credentials revoked over 30 days ago and audit events older than a year, and leaves every other row and table
  as it is. The result counts these rows.\<close>

theorem maintenance_exact:
  "run_maintenance pl now ago (s, buckets) =
     (let T = gt_id ` set (tb_tenants s); c = retention_counts now ago T s in
      (Inr \<lparr>mr_privateSourceVersions = tc_privateSourceVersions c, mr_privateClaimEvidence = tc_privateClaimEvidence c,
          mr_terminalJobPayloads = tc_terminalJobPayloads c, mr_failedJobPayloads = tc_terminalJobPayloads c,
          mr_expiredSessions = tc_expiredSessions c, mr_revokedCredentials = tc_revokedCredentials c,
          mr_expiredAuditEvents = tc_expiredAuditEvents c,
          mr_expiredRateBuckets = count_where (\<lambda>r. rb_expires_at r < now) buckets\<rparr>,
       (retained pl now ago T s, delete_where (\<lambda>r. rb_expires_at r < now) buckets)))"
proof -
  obtain x where run: "maintain_tenants pl now ago (map gt_id (tb_tenants s)) (s\<lparr>cn_setting := []\<rparr>) =
      (Inr (retention_counts now ago (gt_id ` set (tb_tenants s)) (s\<lparr>cn_setting := []\<rparr>)),
       (retained pl now ago (gt_id ` set (tb_tenants s)) (s\<lparr>cn_setting := []\<rparr>))\<lparr>cn_setting := x\<rparr>)"
    using maintain_tenants_effect [of pl now ago "map gt_id (tb_tenants s)" "s\<lparr>cn_setting := []\<rparr>"] by auto
  have "(retained pl now ago T s)\<lparr>cn_setting := cn_setting s\<rparr> = retained pl now ago T s" for T
    by (simp add: retained_def)
  then show ?thesis by (simp add: run_maintenance_def pg_begin_def run retained_setting Let_def)
qed

text \<open>So afterwards every private version of a tenant that is older than 90 days carries the mark of the redaction.\<close>

lemma maintenance_redacts:
  assumes "snd (run_maintenance pl now ago (s, buckets)) = (s', buckets')" and "v \<in> set (tb_versions s')"
    and "gv_tenant_id v \<in> gt_id ` set (tb_tenants s)" and "old_private ago s (gv_tenant_id v) v"
  shows "jsonb_has (gv_metadata v) ''retentionRedacted''"
proof -
  have "s' = retained pl now ago (gt_id ` set (tb_tenants s)) s" using assms(1) by (simp add: maintenance_exact Let_def)
  then show ?thesis using assms(2-4) by (auto simp: retained_def set_update_where stale_version_def split: if_splits)
qed

section \<open>Roles\<close>

text \<open>The name of the role cannot end its quotation.\<close>

lemma role_name_quoted: "roleNamePattern role \<Longrightarrow> CHR 0x22 \<notin> set role"
  by (auto simp: roleNamePattern_def list_all_iff word_char_def is_alnum_def is_digit_def code_between_def Let_def)

text \<open>A production server starts only under a role that row-level security binds, and with an administrator in
  sight.\<close>

lemma production_start_safe:
  assumes "cfg_environment config = ''production''" and "validateRuntime inspect config s = (Inr (), s')"
  shows "s' = s \<and> (\<exists>row. inspect s = Some row \<and> \<not> rr_rolsuper row \<and> \<not> rr_rolbypassrls row \<and>
      \<not> rr_inherits_protected_owner row) \<and>
    (cfg_auth_initialPlatformAdminEmails config \<noteq> [] \<or>
      (\<exists>m \<in> set (tb_memberships s). gm_tenant_id m = cfg_defaultTenantId config \<and> platform_admin \<in> set (gm_roles m)))"
  using assms by (auto simp: validateRuntime_def assertSafePostgresRuntimeRole_def assertPlatformAdminBootstrap_def
      has_platform_admin_def exists_row_iff effect_defs split: if_splits option.splits prod.splits sum.splits)

end
