(* ===== verification/Outbound.thy ===== *)
theory Outbound
  imports Credentials Urls
begin

text \<open>
  The outbound HTTP clients of src/src/infrastructure/outbound-http: the bounded reading of a response
  body, the client for the providers' APIs with its retries and its circuit breaker, the client for
  public addresses with its checked redirects, and the token request of
  src/src/infrastructure/auth/provider-oauth-service.ts. The transport, the URL parser and the name
  service are parameters that may answer differently at every call. A response body is the list of the
  results of reading it: it is finite, because the timer of each request aborts it.
\<close>

section \<open>Bounded responses\<close>

datatype read_result = ReadChunk "nat list" | ReadFailed error

record http_response =
  rs_status :: int
  rs_headers :: "string \<Rightarrow> string option"
  rs_body :: "read_result list option"
  rs_url :: string

record bounded_response =
  br_status :: int
  br_headers :: "string \<Rightarrow> string option"
  br_bytes :: "nat list"
  br_url :: string

fun read_loop :: "int \<Rightarrow> nat list \<Rightarrow> read_result list \<Rightarrow> error + nat list" where
  "read_loop maxBytes acc [] = Inr acc"
| "read_loop maxBytes acc (ReadFailed e # reads) = Inl e"
| "read_loop maxBytes acc (ReadChunk chunk # reads) =
     (if int (length acc + length chunk) > maxBytes then Inl ResponseSizeLimitError
      else read_loop maxBytes (acc @ chunk) reads)"

definition readLimited :: "read_result list option \<Rightarrow> int \<Rightarrow> error + nat list" where
  "readLimited stream maxBytes = (case stream of None \<Rightarrow> Inr [] | Some reads \<Rightarrow> read_loop maxBytes [] reads)"

definition declared_too_long :: "string option \<Rightarrow> int \<Rightarrow> bool" where
  "declared_too_long content_length maxBytes =
     (case jsNumber (nullish content_length ''0'') of Finite r \<Rightarrow> r > of_int maxBytes | _ \<Rightarrow> False)"

text \<open>\<open>new Response(body, init)\<close> refuses a status that is not one of a response, and a body with a
  status that has none.\<close>

definition new_response_error :: "int \<Rightarrow> nat list \<Rightarrow> error option" where
  "new_response_error status body =
     (if status < 200 \<or> 599 < status then Some (RangeError ''init[\"status\"] must be in the range of 200 to 599, inclusive.'')
      else if body \<noteq> [] \<and> status \<in> {204, 205, 304}
        then Some (TypeError (''Response constructor: Invalid response status code '' @ show_int status))
      else None)"

definition boundedResponse :: "http_response \<Rightarrow> int \<Rightarrow> string option \<Rightarrow> error + bounded_response" where
  "boundedResponse response maxBytes url =
     (if declared_too_long (rs_headers response ''content-length'') maxBytes then Inl ResponseSizeLimitError
      else case readLimited (rs_body response) maxBytes of Inl e \<Rightarrow> Inl e
      | Inr body \<Rightarrow>
        (case new_response_error (rs_status response) body of Some e \<Rightarrow> Inl e
         | None \<Rightarrow> Inr \<lparr>br_status = rs_status response, br_headers = rs_headers response, br_bytes = body,
             br_url = nullish url (rs_url response)\<rparr>))"

section \<open>The client for the providers\<close>

record provider_options =
  po_allowedHosts :: "string list"
  po_maxAttempts :: nat
  po_maxResponseBytes :: int

record provider_client =
  hc_failures :: nat
  hc_circuitOpenUntil :: int

definition new_provider_client :: provider_client where
  "new_provider_client = \<lparr>hc_failures = 0, hc_circuitOpenUntil = 0\<rparr>"

definition retryDelayMs :: "(string \<Rightarrow> int option) \<Rightarrow> string option \<Rightarrow> nat \<Rightarrow> int \<Rightarrow> rat" where
  "retryDelayMs legacy value attempt now =
     (let backoff = min 5000 (250 * 2 ^ (attempt - 1)) in
      if \<not> truthy value then backoff
      else case jsNumber (the value) of
          Finite seconds \<Rightarrow> if seconds \<ge> 0 then min 5000 (seconds * 1000)
            else (case Date_parse legacy (the value) of Some date \<Rightarrow> min 5000 (max 0 (of_int (date - now))) | None \<Rightarrow> backoff)
        | _ \<Rightarrow> (case Date_parse legacy (the value) of Some date \<Rightarrow> min 5000 (max 0 (of_int (date - now))) | None \<Rightarrow> backoff))"

text \<open>What the loop does to the outside: the calls of the transport with the URL, and the pauses.\<close>

datatype outbound_event = Call URL | Pause rat

text \<open>The loop over the attempts: \<open>left\<close> attempts, the number of this one and the last error. The transport
  and the clock answer by the number of the attempt.\<close>

fun fetch_loop ::
    "provider_options \<Rightarrow> (string \<Rightarrow> int option) \<Rightarrow> (nat \<Rightarrow> URL \<Rightarrow> error + http_response) \<Rightarrow> (nat \<Rightarrow> int) \<Rightarrow>
       URL \<Rightarrow> nat \<Rightarrow> nat \<Rightarrow> error option \<Rightarrow> (error option + bounded_response) \<times> outbound_event list" where
  "fetch_loop opts legacy transport now url 0 attempt lastError = (Inl lastError, [])"
| "fetch_loop opts legacy transport now url (Suc left) attempt lastError =
     (let again = (\<lambda>pause e. if 0 < left then
            (case fetch_loop opts legacy transport now url left (Suc attempt) (Some e) of
               (r, events) \<Rightarrow> (r, Call url # Pause pause # events))
          else (Inl (Some e), [Call url]));
          short = min 1000 (100 * 2 ^ (attempt - 1)) in
      case transport attempt url of
        Inl e \<Rightarrow> if e = ResponseSizeLimitError then (Inl (Some e), [Call url]) else again short e
      | Inr response \<Rightarrow>
        if rs_status response = 429 \<or> rs_status response \<ge> 500 then
          again (retryDelayMs legacy (rs_headers response ''retry-after'') attempt (now attempt))
            (Error (''Provider unavailable: '' @ show_int (rs_status response)))
        else case boundedResponse response (po_maxResponseBytes opts) (Some (url_href url)) of
            Inr bounded \<Rightarrow> (Inr bounded, [Call url])
          | Inl e \<Rightarrow> if e = ResponseSizeLimitError then (Inl (Some e), [Call url]) else again short e)"

definition record_failure :: "int \<Rightarrow> provider_client \<Rightarrow> provider_client" where
  "record_failure now client =
     (let n = hc_failures client + 1 in
      if n \<ge> 5 then client\<lparr>hc_circuitOpenUntil := now + 30000, hc_failures := 0\<rparr>
      else client\<lparr>hc_failures := n\<rparr>)"

definition provider_fetch ::
    "provider_options \<Rightarrow> (string \<Rightarrow> URL option) \<Rightarrow> (string \<Rightarrow> int option) \<Rightarrow>
       (nat \<Rightarrow> URL \<Rightarrow> error + http_response) \<Rightarrow> (nat \<Rightarrow> int) \<Rightarrow> string \<Rightarrow> provider_client \<Rightarrow>
       (error + bounded_response) \<times> provider_client \<times> outbound_event list" where
  "provider_fetch opts parse legacy transport clk input client =
     (case parse input of None \<Rightarrow> (Inl (TypeError ''Invalid URL''), client, [])
      | Some url \<Rightarrow>
        if url_protocol url \<noteq> ''https:'' \<or> toLowerCase (url_hostname url) \<notin> set (po_allowedHosts opts) then
          (Inl (Error ''Provider URL is not allowlisted''), client, [])
        else if clk 0 < hc_circuitOpenUntil client then (Inl (Error ''Provider circuit is open''), client, [])
        else case fetch_loop opts legacy transport clk url (po_maxAttempts opts) 1 None of
            (Inr response, events) \<Rightarrow> (Inr response, client\<lparr>hc_failures := 0\<rparr>, events)
          | (Inl lastError, events) \<Rightarrow> (Inl (nullish lastError (Error ''Provider request failed'')),
              record_failure (clk (po_maxAttempts opts + 1)) client, events))"

section \<open>The client for public addresses\<close>

definition redirect_statuses :: "int list" where
  "redirect_statuses = [301, 302, 303, 307, 308]"

text \<open>The \<open>lookup\<close> of the agent: the k-th connection goes to a validated address.\<close>

definition agent_lookup :: "address_record list \<Rightarrow> nat \<Rightarrow> error + address_record" where
  "agent_lookup addresses k = (if addresses = [] then Inl (Error ''No validated public address'')
     else Inr (addresses ! (k mod length addresses)))"

record hop =
  hop_url :: URL
  hop_agent :: "nat \<Rightarrow> error + address_record"

text \<open>One round per redirect: \<open>left\<close> redirects may still be followed. The name service and the transport
  answer by the number of the round.\<close>

fun safe_loop ::
    "(string \<Rightarrow> URL option) \<Rightarrow> (string \<Rightarrow> string \<Rightarrow> URL option) \<Rightarrow> (nat \<Rightarrow> string \<Rightarrow> error + address_record list) \<Rightarrow>
       (nat \<Rightarrow> hop \<Rightarrow> error + http_response) \<Rightarrow> int \<Rightarrow> nat \<Rightarrow> nat \<Rightarrow> URL \<Rightarrow>
       (error + bounded_response) \<times> hop list" where
  "safe_loop parse parse_at lookup transport maxBytes left n current =
     (case resolvePublicHttpTarget parse (lookup n) (url_href current) of Inl e \<Rightarrow> (Inl e, [])
      | Inr target \<Rightarrow>
        (let hop = \<lparr>hop_url = current, hop_agent = agent_lookup (target_addresses target)\<rparr> in
         case transport n hop of Inl e \<Rightarrow> (Inl e, [hop])
         | Inr response \<Rightarrow>
           if rs_status response \<in> set redirect_statuses then
             (if \<not> truthy (rs_headers response ''location'') then
                (Inl (Error ''Redirect response is missing a location''), [hop])
              else case left of 0 \<Rightarrow> (Inl (Error ''Too many redirects''), [hop])
                | Suc left' \<Rightarrow>
                  (case parse_at (the (rs_headers response ''location'')) (url_href current) of
                     None \<Rightarrow> (Inl (TypeError ''Invalid URL''), [hop])
                   | Some next \<Rightarrow>
                     (case safe_loop parse parse_at lookup transport maxBytes left' (Suc n) next of
                        (r, hops) \<Rightarrow> (r, hop # hops))))
           else (boundedResponse response maxBytes (Some (url_href current)), [hop])))"

declare safe_loop.simps [simp del]

definition toUpperCase :: "string \<Rightarrow> string" where
  "toUpperCase s = map (\<lambda>c. if CHR ''a'' \<le> c \<and> c \<le> CHR ''z'' then char_of (of_char c - 32 :: nat) else c) s"

definition safe_fetch ::
    "(string \<Rightarrow> URL option) \<Rightarrow> (string \<Rightarrow> string \<Rightarrow> URL option) \<Rightarrow> (nat \<Rightarrow> string \<Rightarrow> error + address_record list) \<Rightarrow>
       (string \<Rightarrow> nat \<Rightarrow> hop \<Rightarrow> error + http_response) \<Rightarrow> int \<Rightarrow> nat \<Rightarrow> string option \<Rightarrow> string \<Rightarrow>
       (error + bounded_response) \<times> hop list" where
  "safe_fetch parse parse_at lookup transport maxBytes maxRedirects init_method input =
     (let verb = toUpperCase (nullish init_method ''GET'') in
      if verb \<noteq> ''GET'' \<and> verb \<noteq> ''HEAD'' then
        (Inl (Error ''Safe public fetch only supports GET and HEAD''), [])
      else case parse input of None \<Rightarrow> (Inl (TypeError ''Invalid URL''), [])
      | Some current \<Rightarrow> safe_loop parse parse_at lookup (transport verb) maxBytes maxRedirects 0 current)"

section \<open>The token request\<close>

definition json_int :: "json \<Rightarrow> string \<Rightarrow> int option" where
  "json_int v k = (case json_get v k of Some (JNum n) \<Rightarrow> Some n | _ \<Rightarrow> None)"

text \<open>\<open>utf8\<close> decodes the bytes of a response.\<close>

definition requestToken ::
    "(nat list \<Rightarrow> string) \<Rightarrow> (string \<Rightarrow> (string \<times> string) list \<Rightarrow> error + http_response) \<Rightarrow> token_endpoint" where
  "requestToken utf8 post tokenEndpoint body =
     (case post tokenEndpoint body of Inl e \<Rightarrow> Inl e
      | Inr response \<Rightarrow>
        if \<not> (200 \<le> rs_status response \<and> rs_status response \<le> 299) then
          Inl (Error (''Provider token exchange failed: '' @ show_int (rs_status response)))
        else case boundedResponse response 65536 None of Inl e \<Rightarrow> Inl e
        | Inr bounded \<Rightarrow>
          (case JSON_parse (utf8 (br_bytes bounded)) of None \<Rightarrow> Inl (Error ''Unexpected token in JSON'')
           | Some v \<Rightarrow> Inr \<lparr>tk_access_token = json_text v ''access_token'',
               tk_refresh_token = json_text v ''refresh_token'', tk_expires_in = json_int v ''expires_in'',
               tk_scope = json_text v ''scope''\<rparr>))"

section \<open>What is read\<close>

fun read_bytes :: "read_result list \<Rightarrow> nat list" where
  "read_bytes [] = []"
| "read_bytes (ReadChunk chunk # reads) = chunk @ read_bytes reads"
| "read_bytes (ReadFailed e # reads) = []"

lemma read_loop_Inr:
  "read_loop maxBytes acc reads = Inr out \<Longrightarrow>
     out = acc @ read_bytes reads \<and> int (length out) \<le> max (int (length acc)) maxBytes"
  by (induction maxBytes acc reads rule: read_loop.induct) (auto split: if_splits)

lemma boundedResponse_Inr:
  assumes "boundedResponse response maxBytes url = Inr b"
  shows "int (length (br_bytes b)) \<le> max 0 maxBytes" "br_status b = rs_status response" "200 \<le> br_status b" "br_status b \<le> 599"
    "br_bytes b = (case rs_body response of None \<Rightarrow> [] | Some reads \<Rightarrow> read_bytes reads)"
  using assms read_loop_Inr [of maxBytes "[]"]
  by (fastforce simp: boundedResponse_def readLimited_def new_response_error_def
      split: if_splits sum.splits option.splits)+

section \<open>Requests to providers\<close>

fun calls :: "outbound_event list \<Rightarrow> URL list" where
  "calls [] = []"
| "calls (Call url # events) = url # calls events"
| "calls (Pause p # events) = calls events"

fun pauses :: "outbound_event list \<Rightarrow> rat list" where
  "pauses [] = []"
| "pauses (Call url # events) = pauses events"
| "pauses (Pause p # events) = p # pauses events"

text \<open>The calls and the pauses alternate, beginning and ending with a call.\<close>

fun paced :: "outbound_event list \<Rightarrow> bool" where
  "paced [Call url] \<longleftrightarrow> True"
| "paced (Call url # Pause p # events) \<longleftrightarrow> paced events"
| "paced _ \<longleftrightarrow> False"

lemma retryDelayMs_range: "0 \<le> retryDelayMs legacy v attempt now" "retryDelayMs legacy v attempt now \<le> 5000"
  by (auto simp: retryDelayMs_def Let_def split: jsnum.splits option.splits)

lemma fetch_loop_bounds:
  assumes "fetch_loop opts legacy transport now url left attempt lastError = (r, events)"
  shows "set (calls events) \<subseteq> {url} \<and> length (calls events) \<le> left \<and> length (pauses events) \<le> left - 1 \<and>
    list_all (\<lambda>p. 0 \<le> p \<and> p \<le> 5000) (pauses events)"
  using assms
proof (induction left arbitrary: attempt lastError r events)
  case (Suc left)
  have step: "set (calls ev) \<subseteq> {url} \<and> length (calls ev) \<le> left \<and> length (pauses ev) \<le> left - 1 \<and>
      list_all (\<lambda>p. 0 \<le> p \<and> p \<le> 5000) (pauses ev)"
    if "fetch_loop opts legacy transport now url left (Suc attempt) (Some e) = (x, ev)" for e x ev
    using Suc.IH that .
  show ?case
    using Suc.prems retryDelayMs_range [of legacy _ attempt "now attempt"]
    by (auto simp: Let_def dest!: step split: sum.splits if_splits prod.splits)
qed simp

lemma fetch_loop_paced:
  assumes "fetch_loop opts legacy transport now url left attempt lastError = (r, events)" and "0 < left"
  shows "paced events"
  using assms
proof (induction left arbitrary: attempt lastError r events)
  case (Suc left)
  have step: "paced ev"
    if "fetch_loop opts legacy transport now url left (Suc attempt) (Some e) = (x, ev)" "0 < left" for e x ev
    using Suc.IH that .
  show ?case
    using Suc.prems by (auto simp: Let_def dest: step split: sum.splits if_splits prod.splits)
qed simp

lemma fetch_loop_result:
  assumes "fetch_loop opts legacy transport now url left attempt lastError = (Inr b, events)"
  shows "int (length (br_bytes b)) \<le> max 0 (po_maxResponseBytes opts) \<and> br_status b \<noteq> 429 \<and> br_status b < 500"
  using assms
proof (induction left arbitrary: attempt lastError events)
  case (Suc left)
  have again: "int (length (br_bytes b)) \<le> max 0 (po_maxResponseBytes opts) \<and> br_status b \<noteq> 429 \<and> br_status b < 500"
    if "fetch_loop opts legacy transport now url left (Suc attempt) (Some e) = (Inr b, ev)" for e ev
    using Suc.IH that .
  show ?case
    using Suc.prems boundedResponse_Inr
    by (auto simp: Let_def dest!: again split: sum.splits if_splits prod.splits)
qed simp

text \<open>C34. A request to a provider ends: whatever the transport answers, it makes at most the configured number
  of calls, all of them to the one allowlisted HTTPS address that was asked for and none while the circuit is
  open. Between every two calls there is one pause, and every one of the pauses takes at most five seconds. What is returned is
  neither an overload nor a server error and not longer than the limit.\<close>

theorem provider_fetch_bounded:
  assumes "provider_fetch opts parse legacy transport clk input client = (r, client', events)"
  shows "length (calls events) \<le> po_maxAttempts opts \<and> (events = [] \<or> paced events) \<and>
    (\<forall>p \<in> set (pauses events). 0 \<le> p \<and> p \<le> 5000) \<and>
    (\<forall>url \<in> set (calls events). parse input = Some url \<and> url_protocol url = ''https:'' \<and>
       toLowerCase (url_hostname url) \<in> set (po_allowedHosts opts) \<and> hc_circuitOpenUntil client \<le> clk 0) \<and>
    (\<forall>b. r = Inr b \<longrightarrow> int (length (br_bytes b)) \<le> max 0 (po_maxResponseBytes opts) \<and>
       br_status b \<noteq> 429 \<and> br_status b < 500)"
proof (cases "events = [] \<and> (\<exists>e. r = Inl e)")
  case False
  then obtain url x where url: "parse input = Some url" "url_protocol url = ''https:''"
      "toLowerCase (url_hostname url) \<in> set (po_allowedHosts opts)" "hc_circuitOpenUntil client \<le> clk 0"
    and loop: "fetch_loop opts legacy transport clk url (po_maxAttempts opts) 1 None = (x, events)"
    and x: "\<And>b. r = Inr b \<Longrightarrow> x = Inr b"
    using assms by (auto simp: provider_fetch_def split: option.splits if_splits prod.splits sum.splits)
  have paced: "events = [] \<or> paced events"
    using loop fetch_loop_paced [OF loop] by (cases "po_maxAttempts opts") auto
  show ?thesis using fetch_loop_bounds [OF loop] paced url x loop fetch_loop_result
    by (auto simp: subset_iff list_all_iff)
qed auto

section \<open>Requests to public addresses\<close>

text \<open>What a connection is allowed to be: its URL is admissible, and the addresses that its agent hands out, in
  turn, are those that \<open>lookup\<close> has for the host of the URL (the host itself when it is an address), all of them
  public.\<close>

definition admissible :: "URL \<Rightarrow> bool" where
  "admissible url \<longleftrightarrow> url_protocol url \<in> {''http:'', ''https:''} \<and> url_username url = [] \<and> url_password url = [] \<and>
     port_allowed url \<and> \<not> local_host (toLowerCase (url_hostname url))"

definition resolved_host :: "(string \<Rightarrow> error + address_record list) \<Rightarrow> string \<Rightarrow> address_record list \<Rightarrow> bool" where
  "resolved_host lookup host addresses \<longleftrightarrow> addresses \<noteq> [] \<and>
     (if isIP host \<noteq> 0 then map addr_address addresses = [host] else lookup host = Inr addresses)"

definition hop_ok :: "(string \<Rightarrow> URL option) \<Rightarrow> (string \<Rightarrow> error + address_record list) \<Rightarrow> hop \<Rightarrow> bool" where
  "hop_ok parse lookup h \<longleftrightarrow> (\<exists>url addresses. parse (url_href (hop_url h)) = Some url \<and> admissible url \<and>
     resolved_host lookup (toLowerCase (url_hostname url)) addresses \<and>
     (\<forall>r \<in> set addresses. isPublicIp (addr_address r)) \<and>
     (\<forall>k. hop_agent h k = Inr (addresses ! (k mod length addresses))))"

lemma hop_ok_resolved:
  assumes "resolvePublicHttpTarget parse lookup (url_href current) = Inr target"
  shows "hop_ok parse lookup \<lparr>hop_url = current, hop_agent = agent_lookup (target_addresses target)\<rparr>"
  using resolvePublicHttpTarget_sound [OF assms] resolvePublicHttpTarget_addresses [OF assms]
  by (auto simp: hop_ok_def admissible_def resolved_host_def agent_lookup_def)

lemma nth_hops_Cons:
  "hop_ok parse (lookup n) h \<Longrightarrow> (\<And>i. i < length hs \<Longrightarrow> hop_ok parse (lookup (Suc n + i)) (hs ! i)) \<Longrightarrow>
     i < Suc (length hs) \<Longrightarrow> hop_ok parse (lookup (n + i)) ((h # hs) ! i)"
  by (cases i) auto

lemma safe_loop_hops:
  "safe_loop parse parse_at lookup transport maxBytes left n current = (r, hops) \<Longrightarrow>
     length hops \<le> Suc left \<and> (\<forall>i < length hops. hop_ok parse (lookup (n + i)) (hops ! i)) \<and>
     (hops = [] \<or> hop_url (hd hops) = current) \<and>
     (\<forall>b. r = Inr b \<longrightarrow> int (length (br_bytes b)) \<le> max 0 maxBytes \<and> br_status b \<notin> set redirect_statuses)"
proof (induction left arbitrary: n current r hops)
  case 0
  then show ?case
    using hop_ok_resolved boundedResponse_Inr
    by (auto simp: safe_loop.simps [of _ _ _ _ _ 0] Let_def split: sum.splits if_splits)
next
  case (Suc left)
  show ?case
    using Suc.prems hop_ok_resolved boundedResponse_Inr
    by (auto simp: safe_loop.simps [of _ _ _ _ _ "Suc left"] Let_def intro!: nth_hops_Cons dest!: Suc.IH
        split: sum.splits if_splits option.splits prod.splits)
qed

text \<open>C35. Server-side request forgery is excluded, also across redirects and with a name service that changes
  its answers: the first connection of a public fetch is to the URL that was asked for; every connection is
  for an http or https URL without credentials on a standard port; and the k-th address that the agent of a
  connection hands out is, in turn, one of the addresses that the name service returned for the host of this URL
  in this round (the host itself when it is an address), which are all public. At most the configured number
  of redirects is followed, and what is returned is not a redirect and not longer than the limit.\<close>

theorem safe_fetch_public:
  assumes "safe_fetch parse parse_at lookup transport maxBytes maxRedirects verb input = (r, hops)"
  shows "length hops \<le> maxRedirects + 1 \<and> (\<forall>i < length hops. hop_ok parse (lookup i) (hops ! i)) \<and>
    (hops = [] \<or> parse input = Some (hop_url (hd hops))) \<and>
    (\<forall>b. r = Inr b \<longrightarrow> int (length (br_bytes b)) \<le> max 0 maxBytes \<and> br_status b \<notin> set redirect_statuses)"
proof (cases "hops = [] \<and> (\<exists>e. r = Inl e)")
  case False
  then obtain current t where "parse input = Some current"
    "safe_loop parse parse_at lookup t maxBytes maxRedirects 0 current = (r, hops)"
    using assms by (auto simp: safe_fetch_def Let_def split: if_splits option.splits)
  with safe_loop_hops [OF this(2)] show ?thesis by auto
qed auto

section \<open>Witnesses\<close>

abbreviation demo_answer :: "int \<Rightarrow> http_response" where
  "demo_answer status \<equiv> \<lparr>rs_status = status, rs_headers = (\<lambda>_. None), rs_body = Some [ReadChunk [1, 2]],
     rs_url = ''https://example.org/''\<rparr>"

theorem provider_fetch_bounded_witness:
  "\<exists>r client'. provider_fetch \<lparr>po_allowedHosts = [''example.org''], po_maxAttempts = Suc 1, po_maxResponseBytes = 9\<rparr>
     (\<lambda>_. Some demo_url) (\<lambda>_. None) (\<lambda>n _. Inr (demo_answer (if n = 1 then 503 else 200))) (\<lambda>_. 0) ''u''
     new_provider_client = (r, client', [Call demo_url, Pause 250, Call demo_url]) \<and>
   length (calls [Call demo_url, Pause 250, Call demo_url]) \<le> Suc 1 \<and>
   (\<forall>p \<in> set (pauses [Call demo_url, Pause 250, Call demo_url]). p \<le> 5000)"
proof -
  let ?events = "[Call demo_url, Pause 250, Call demo_url]"
  have host: "toLowerCase (url_hostname demo_url) = ''example.org''"
    by (simp add: demo_url_def to_lower_char_def)
  have https: "url_protocol demo_url = ''https:''" by (simp add: demo_url_def)
  have zero: "jsNumber ''0'' = Finite 0" by code_simp
  have "\<exists>r client'. provider_fetch \<lparr>po_allowedHosts = [''example.org''], po_maxAttempts = Suc 1, po_maxResponseBytes = 9\<rparr>
     (\<lambda>_. Some demo_url) (\<lambda>_. None) (\<lambda>n _. Inr (demo_answer (if n = 1 then 503 else 200))) (\<lambda>_. 0) ''u''
     new_provider_client = (r, client', ?events)"
    by (simp add: provider_fetch_def host https new_provider_client_def retryDelayMs_def boundedResponse_def
        declared_too_long_def zero readLimited_def new_response_error_def)
  then obtain r client' where run: "provider_fetch \<lparr>po_allowedHosts = [''example.org''], po_maxAttempts = Suc 1, po_maxResponseBytes = 9\<rparr>
     (\<lambda>_. Some demo_url) (\<lambda>_. None) (\<lambda>n _. Inr (demo_answer (if n = 1 then 503 else 200))) (\<lambda>_. 0) ''u''
     new_provider_client = (r, client', ?events)" by blast
  from provider_fetch_bounded [OF run]
  have "length (calls ?events) \<le> Suc 1" "\<forall>p \<in> set (pauses ?events). p \<le> 5000" by simp_all
  with run show ?thesis by blast
qed

theorem safe_fetch_public_witness:
  "\<exists>r. safe_fetch (\<lambda>_. Some demo_url) (\<lambda>_ _. None) (\<lambda>_ _. Inr [\<lparr>addr_address = quad 93 184 216 34, addr_family = 4\<rparr>])
     (\<lambda>_ _ _. Inr (demo_answer 200)) 9 5 None ''u'' =
       (Inr r, [\<lparr>hop_url = demo_url, hop_agent = agent_lookup [\<lparr>addr_address = quad 93 184 216 34, addr_family = 4\<rparr>]\<rparr>]) \<and>
     length (br_bytes r) \<le> 9 \<and>
     hop_ok (\<lambda>_. Some demo_url) (\<lambda>_. Inr [\<lparr>addr_address = quad 93 184 216 34, addr_family = 4\<rparr>])
       \<lparr>hop_url = demo_url, hop_agent = agent_lookup [\<lparr>addr_address = quad 93 184 216 34, addr_family = 4\<rparr>]\<rparr>"
proof -
  have target: "resolvePublicHttpTarget (\<lambda>_. Some demo_url)
      (\<lambda>_. Inr [\<lparr>addr_address = quad 93 184 216 34, addr_family = 4\<rparr>]) (url_href demo_url) =
      Inr \<lparr>target_url = demo_url, target_addresses = [\<lparr>addr_address = quad 93 184 216 34, addr_family = 4\<rparr>]\<rparr>"
    by (rule demo_target)
  have zero: "jsNumber ''0'' = Finite 0" by code_simp
  have verb: "toUpperCase ''GET'' = ''GET''" by code_simp
  have "\<exists>r. safe_fetch (\<lambda>_. Some demo_url) (\<lambda>_ _. None) (\<lambda>_ _. Inr [\<lparr>addr_address = quad 93 184 216 34, addr_family = 4\<rparr>])
     (\<lambda>_ _ _. Inr (demo_answer 200)) 9 5 None ''u'' =
       (Inr r, [\<lparr>hop_url = demo_url, hop_agent = agent_lookup [\<lparr>addr_address = quad 93 184 216 34, addr_family = 4\<rparr>]\<rparr>])"
    by (simp add: safe_fetch_def verb safe_loop.simps [of _ _ _ _ _ _ 0] target Let_def redirect_statuses_def
        boundedResponse_def declared_too_long_def zero readLimited_def new_response_error_def)
  then obtain r where run: "safe_fetch (\<lambda>_. Some demo_url) (\<lambda>_ _. None)
      (\<lambda>_ _. Inr [\<lparr>addr_address = quad 93 184 216 34, addr_family = 4\<rparr>]) (\<lambda>_ _ _. Inr (demo_answer 200)) 9 5 None ''u'' =
       (Inr r, [\<lparr>hop_url = demo_url, hop_agent = agent_lookup [\<lparr>addr_address = quad 93 184 216 34, addr_family = 4\<rparr>]\<rparr>])"
    by blast
  from safe_fetch_public [OF run] have "length (br_bytes r) \<le> 9"
    "hop_ok (\<lambda>_. Some demo_url) (\<lambda>_. Inr [\<lparr>addr_address = quad 93 184 216 34, addr_family = 4\<rparr>])
       \<lparr>hop_url = demo_url, hop_agent = agent_lookup [\<lparr>addr_address = quad 93 184 216 34, addr_family = 4\<rparr>]\<rparr>"
    by simp_all
  with run show ?thesis by blast
qed

end
