(* ===== verification/Gateway.thy ===== *)
theory Gateway
  imports Auth RateLimit Config
begin

text \<open>
  The gate in front of every route: the \<open>onRequest\<close> hook, the origin check and the error handler of
  src/src/http/app.ts, with the request helpers of src/src/http/request-context.ts. The server keeps the
  state of the session repository and the buckets of the rate limiter; a request adds its
  \<open>authentication\<close> and the rate-limit headers of its reply. Signed cookies, routing and the header
  defaults are the framework's.
\<close>

section \<open>Requests\<close>

datatype header = HeaderText string | HeaderList "string list"

record request =
  req_id :: string
  req_method :: string
  req_url :: string
  req_ip :: string
  req_headers :: "string \<Rightarrow> header option"
  req_cookies :: "string \<Rightarrow> string option"
  req_params :: json
  req_query :: json
  req_body :: json

record 's gateway =
  gw_store :: 's
  gw_buckets :: buckets
  gw_authentication :: "SessionAuthentication option"
  gw_rate :: "(int \<times> int) option"

definition sessionCookieName :: "AppConfig \<Rightarrow> string" where
  "sessionCookieName cfg =
     (if cfg_environment cfg = ''production'' then ''__Host-recruiting_session'' else ''recruiting_session'')"

definition headerString :: "header option \<Rightarrow> string option" where
  "headerString h = (case h of None \<Rightarrow> None | Some (HeaderText s) \<Rightarrow> Some s
     | Some (HeaderList xs) \<Rightarrow> (case xs of [] \<Rightarrow> None | x # _ \<Rightarrow> Some x))"

definition authentication :: "SessionAuthentication option \<Rightarrow> error + SessionAuthentication" where
  "authentication a = (case a of None \<Rightarrow> Inl AuthenticationError | Some x \<Rightarrow> Inr x)"

definition idempotencyKey ::
    "(string \<Rightarrow> string) \<Rightarrow> int \<Rightarrow> request \<Rightarrow> SessionAuthentication option \<Rightarrow> json \<Rightarrow> error + string" where
  "idempotencyKey sha now request auth body =
     (case headerString (req_headers request ''x-idempotency-key'') of
        Some key \<Rightarrow> Inr key
      | None \<Rightarrow> (case authentication auth of Inl e \<Rightarrow> Inl e
          | Inr a \<Rightarrow> Inr (stableId sha ''idem''
              (prin_userId (sa_principal a) @ '':'' @ stringify body @ '':'' @ show_int (now div 300000)))))"

section \<open>The request hook\<close>

definition publicPaths :: "string list" where
  "publicPaths = [''/'', ''/assets/app.css'', ''/assets/app.js'', ''/favicon.ico'', ''/health/live'', ''/health/ready'']"

definition authenticationPaths :: "string list" where
  "authenticationPaths = [''/auth/login'', ''/auth/callback'', ''/auth/development'']"

definition unsafeMethods :: "string list" where
  "unsafeMethods = [''POST'', ''PUT'', ''PATCH'', ''DELETE'']"

definition probePaths :: "string list" where
  "probePaths = [''/health/live'', ''/health/ready'']"

definition request_path :: "request \<Rightarrow> string" where
  "request_path request = takeWhile (\<lambda>c. c \<noteq> CHR ''?'') (req_url request)"

definition connector_callback_path :: "string \<Rightarrow> bool" where
  "connector_callback_path path \<longleftrightarrow>
     starts_with path ''/api/connectors/'' \<and> ends_with (drop 16 path) ''/callback'' \<and>
     (let provider = take (length path - 25) (drop 16 path) in
      provider \<noteq> [] \<and> CHR ''/'' \<notin> set provider)"

definition is_authentication :: "request \<Rightarrow> bool" where
  "is_authentication request \<longleftrightarrow> request_path request \<in> set authenticationPaths \<or>
     req_method request = ''GET'' \<and> connector_callback_path (request_path request)"

definition is_public :: "request \<Rightarrow> bool" where
  "is_public request \<longleftrightarrow> request_path request \<in> set publicPaths \<or> req_method request = ''OPTIONS''"

definition secureTokenMatches :: "(string \<Rightarrow> string) \<Rightarrow> string option \<Rightarrow> string option \<Rightarrow> bool" where
  "secureTokenMatches sha candidate expected \<longleftrightarrow>
     truthy candidate \<and> truthy expected \<and> sha (the candidate) = sha (the expected)"

definition bearer_token :: "request \<Rightarrow> string option" where
  "bearer_token request =
     (case headerString (req_headers request ''authorization'') of
        Some authorization \<Rightarrow> if starts_with authorization ''Bearer '' then Some (drop 7 authorization) else None
      | None \<Rightarrow> None)"

definition on_store :: "(error, 's, 'a) op \<Rightarrow> (error, 's gateway, 'a) op" where
  "on_store m g = (case m (gw_store g) of (r, s') \<Rightarrow> (r, g\<lparr>gw_store := s'\<rparr>))"

definition consume_rate :: "nat \<Rightarrow> int \<Rightarrow> string \<Rightarrow> int \<Rightarrow> (error, 's gateway, RateLimitResult) op" where
  "consume_rate maxBuckets now key limit g =
     (case consume maxBuckets now key limit 60000 (gw_buckets g) of
        (rate, bs) \<Rightarrow> (Inr rate, g\<lparr>gw_buckets := bs\<rparr>))"

definition setRateLimitHeaders :: "RateLimitResult \<Rightarrow> (error, 's gateway, unit) op" where
  "setRateLimitHeaders rate =
     modifyE (\<lambda>g. g\<lparr>gw_rate := Some (rl_remaining rate, - ((- rl_resetAt rate) div 1000))\<rparr>)"

definition limit_rate :: "nat \<Rightarrow> int \<Rightarrow> string \<Rightarrow> int \<Rightarrow> (error, 's gateway, unit) op" where
  "limit_rate maxBuckets now key limit =
     bindE (consume_rate maxBuckets now key limit) (\<lambda>rate.
     bindE (setRateLimitHeaders rate) (\<lambda>_.
       if rl_allowed rate then retE () else throwE RateLimitError))"

definition csrf_error :: error where
  "csrf_error = AppError ''CSRF validation failed'' 403 ''CSRF_FAILED'' True"

definition anonymous_rate :: "nat \<Rightarrow> AppConfig \<Rightarrow> int \<Rightarrow> request \<Rightarrow> (error, 's gateway, unit) op" where
  "anonymous_rate maxBuckets cfg now request =
     limit_rate maxBuckets now (''anonymous-ip:'' @ req_ip request) (cfg_limits_requestsPerMinute cfg)"

definition admit_authenticated ::
    "(string \<Rightarrow> string) \<Rightarrow> nat \<Rightarrow> AppConfig \<Rightarrow> int \<Rightarrow> request \<Rightarrow> SessionAuthentication \<Rightarrow>
       (error, 's gateway, unit) op" where
  "admit_authenticated sha maxBuckets cfg now request auth =
     bindE (modifyE (\<lambda>g. g\<lparr>gw_authentication := Some auth\<rparr>)) (\<lambda>_.
     bindE (limit_rate maxBuckets now
       (''user:'' @ prin_tenantId (sa_principal auth) @ '':'' @ prin_userId (sa_principal auth))
       (cfg_limits_requestsPerMinute cfg)) (\<lambda>_.
     if req_method request \<in> set unsafeMethods \<and>
        \<not> verifyCsrf sha auth (headerString (req_headers request ''x-csrf-token''))
     then throwE csrf_error else retE ()))"

text \<open>Readings of the clock: 0 for the first bucket, 1 and 2 inside \<open>authenticate\<close>, 3 for the bucket of
  the user or of the anonymous address.\<close>

definition check_session ::
    "'s auth_repository \<Rightarrow> (string \<Rightarrow> string) \<Rightarrow> nat \<Rightarrow> AppConfig \<Rightarrow> (nat \<Rightarrow> int) \<Rightarrow> request \<Rightarrow>
       (error, 's gateway, unit) op" where
  "check_session repo sha maxBuckets cfg clk request =
     (let presentedSession = req_cookies request (sessionCookieName cfg) in
      if \<not> truthy presentedSession then
        bindE (anonymous_rate maxBuckets cfg (clk 0) request) (\<lambda>_. throwE AuthenticationError)
      else
        bindE (consume_rate maxBuckets (clk 0) (''authenticated-ip:'' @ req_ip request)
          (cfg_limits_authenticatedIpRequestsPerMinute cfg)) (\<lambda>rate.
        if \<not> rl_allowed rate then bindE (setRateLimitHeaders rate) (\<lambda>_. throwE RateLimitError)
        else bindE (on_store (authenticate repo sha (\<lambda>n. clk (1 + n)) presentedSession)) (\<lambda>found.
          case found of
            None \<Rightarrow> bindE (anonymous_rate maxBuckets cfg (clk 3) request) (\<lambda>_. throwE AuthenticationError)
          | Some auth \<Rightarrow> admit_authenticated sha maxBuckets cfg (clk 3) request auth)))"

definition onRequest ::
    "'s auth_repository \<Rightarrow> (string \<Rightarrow> string) \<Rightarrow> nat \<Rightarrow> AppConfig \<Rightarrow> (nat \<Rightarrow> int) \<Rightarrow> request \<Rightarrow>
       (error, 's gateway, unit) op" where
  "onRequest repo sha maxBuckets cfg clk request =
     (let path = request_path request in
      if req_method request = ''GET'' \<and> path \<in> set probePaths then retE ()
      else if req_method request = ''GET'' \<and> path = ''/metrics'' then
        (if secureTokenMatches sha (bearer_token request) (cfg_metricsBearerToken cfg) then retE ()
         else throwE AuthenticationError)
      else if is_authentication request then
        limit_rate maxBuckets (clk 0) (''authentication-ip:'' @ req_ip request)
          (cfg_limits_authIpRequestsPerMinute cfg)
      else if is_public request then anonymous_rate maxBuckets cfg (clk 0) request
      else check_session repo sha maxBuckets cfg clk request)"

section \<open>Origins and errors\<close>

definition allowed_origins :: "AppConfig \<Rightarrow> string list" where
  "allowed_origins cfg = cfg_allowedOrigins cfg @
     (if cfg_environment cfg \<noteq> ''production'' then
        [''http://127.0.0.1:'' @ show_int (cfg_port cfg), ''http://localhost:'' @ show_int (cfg_port cfg)]
      else [])"

definition check_origin :: "AppConfig \<Rightarrow> string option \<Rightarrow> error + bool" where
  "check_origin cfg origin =
     (if \<not> truthy origin \<or> the origin \<in> set (allowed_origins cfg) then Inr True
      else Inl (AppError ''Origin is not allowed'' 403 ''ORIGIN_NOT_ALLOWED'' True))"

definition error_body :: "string \<Rightarrow> (string \<times> json) list \<Rightarrow> json" where
  "error_body requestId entries = JObj [(''error'', JObj entries), (''requestId'', JStr requestId)]"

definition errorHandler :: "string \<Rightarrow> error \<Rightarrow> nat \<times> json" where
  "errorHandler requestId e =
     (case e of
        ZodError _ issues \<Rightarrow> (422, error_body requestId [(''code'', JStr ''VALIDATION_FAILED''),
          (''message'', JStr ''Request validation failed''),
          (''details'', JArr (map (\<lambda>(path, message). JObj [(''path'', JStr (join_with ''.'' path)),
             (''message'', JStr message)]) issues))])
      | AppError message statusCode code expose \<Rightarrow> (statusCode, error_body requestId [(''code'', JStr code),
          (''message'', JStr (if expose then message else ''Request failed''))])
      | _ \<Rightarrow> (500, error_body requestId [(''code'', JStr ''INTERNAL_ERROR''), (''message'', JStr ''Request failed'')]))"

section \<open>What the hook lets through\<close>

text \<open>The requests that need no session: the probes, the authentication paths and the public ones.\<close>

definition open_request :: "request \<Rightarrow> bool" where
  "open_request request \<longleftrightarrow>
     req_method request = ''GET'' \<and> request_path request \<in> set probePaths \<or>
     is_authentication request \<or> is_public request"

abbreviation csrf_header :: "request \<Rightarrow> string option" where
  "csrf_header request \<equiv> headerString (req_headers request ''x-csrf-token'')"

definition metrics_request :: "request \<Rightarrow> bool" where
  "metrics_request request \<longleftrightarrow> req_method request = ''GET'' \<and> request_path request = ''/metrics''"

text \<open>An operation that only counts and sets reply headers, with the errors it may throw.\<close>

definition only_rates :: "'a set \<Rightarrow> (error, 's gateway, 'a) op \<Rightarrow> error set \<Rightarrow> bool" where
  "only_rates A m E \<longleftrightarrow> (\<forall>g. gw_store (snd (m g)) = gw_store g \<and>
     gw_authentication (snd (m g)) = gw_authentication g \<and> fst (m g) \<in> Inl ` E \<union> Inr ` A)"

lemma only_ratesD:
  assumes "only_rates A m E" and "m g = (r, g')"
  shows "gw_store g' = gw_store g" "gw_authentication g' = gw_authentication g" "r \<in> Inl ` E \<union> Inr ` A"
  using assms by (metis only_rates_def fst_conv snd_conv)+

lemma only_rates_consume: "only_rates UNIV (consume_rate maxBuckets now key limit) {}"
  by (simp add: only_rates_def consume_rate_def split: prod.splits)

lemma consume_rate_total: "\<exists>rate g'. consume_rate maxBuckets now key limit g = (Inr rate, g')"
  by (simp add: consume_rate_def split: prod.splits)

lemma only_rates_limit: "only_rates UNIV (limit_rate maxBuckets now key limit) {RateLimitError}"
  by (simp add: only_rates_def limit_rate_def consume_rate_def setRateLimitHeaders_def bindE_def effect_simps
      split: prod.splits)

lemma only_rates_refuse:
  "only_rates {} (bindE (anonymous_rate maxBuckets cfg now request) (\<lambda>_. throwE AuthenticationError))
     {AuthenticationError, RateLimitError}"
  by (simp add: only_rates_def anonymous_rate_def limit_rate_def consume_rate_def setRateLimitHeaders_def
      bindE_def effect_simps split: prod.splits)

lemma only_rates_exhausted:
  "only_rates {} (bindE (setRateLimitHeaders rate) (\<lambda>_. throwE RateLimitError)) {RateLimitError}"
  by (simp add: only_rates_def setRateLimitHeaders_def bindE_def effect_simps)

lemma admit_authenticated_run:
  assumes "admit_authenticated sha maxBuckets cfg now request auth g = (r, g')"
  shows "gw_authentication g' = Some auth" "gw_store g' = gw_store g"
    "r = Inr () \<Longrightarrow> req_method request \<in> set unsafeMethods \<Longrightarrow> verifyCsrf sha auth (csrf_header request)"
  using assms
  by (auto simp: admit_authenticated_def limit_rate_def consume_rate_def setRateLimitHeaders_def bindE_def
      effect_simps split: prod.splits if_splits)

lemma onRequest_protected:
  assumes "\<not> open_request request" and "\<not> metrics_request request"
  shows "onRequest repo sha maxBuckets cfg clk request = check_session repo sha maxBuckets cfg clk request"
  using assms by (auto simp: onRequest_def open_request_def metrics_request_def Let_def)

context session_repository
begin

lemma authenticate_run:
  assumes "truthy token" and "on_store (authenticate repo sha clk token) g = (r, g')"
  shows "r = Inr (live (clk 0) (sha (the token)) (gw_store g))"
    "live now h (gw_store g') = live now h (gw_store g)" "gw_authentication g' = gw_authentication g"
  using assms authenticate_result [of clk "sha (the token)" "gw_store g"]
    authenticate_live [of _ _ clk "sha (the token)" "gw_store g"]
  by (auto simp: on_store_def authenticate_def hashSecret_def split: prod.splits)

text \<open>With a live session the request is the member's, without one it is refused.\<close>

lemma check_session_cases:
  assumes "check_session repo sha maxBuckets cfg clk request g = (r, g')"
  defines "cookie \<equiv> req_cookies request (sessionCookieName cfg)"
  shows "(\<exists>token auth. cookie = Some token \<and> live (clk 1) (sha token) (gw_store g) = Some auth \<and>
      gw_authentication g' = Some auth \<and> (r = Inr () \<longrightarrow> req_method request \<in> set unsafeMethods \<longrightarrow>
        verifyCsrf sha auth (csrf_header request))) \<or>
    r \<in> {Inl AuthenticationError, Inl RateLimitError} \<and> gw_authentication g' = gw_authentication g"
proof (cases "truthy cookie")
  case False
  then have "bindE (anonymous_rate maxBuckets cfg (clk 0) request) (\<lambda>_. throwE AuthenticationError) g = (r, g')"
    using assms(1) by (simp add: check_session_def cookie_def)
  from only_ratesD [OF only_rates_refuse this] show ?thesis by auto
next
  case True
  obtain rate g1 where g1: "consume_rate maxBuckets (clk 0) (''authenticated-ip:'' @ req_ip request)
      (cfg_limits_authenticatedIpRequestsPerMinute cfg) g = (Inr rate, g1)"
    using consume_rate_total by blast
  note kept1 = only_ratesD [OF only_rates_consume g1]
  show ?thesis
  proof (cases "rl_allowed rate")
    case False
    then have "bindE (setRateLimitHeaders rate) (\<lambda>_. throwE RateLimitError) g1 = (r, g')"
      using assms(1) True g1 by (simp add: check_session_def cookie_def bindE_def)
    from only_ratesD [OF only_rates_exhausted this] kept1 show ?thesis by auto
  next
    case allowed: True
    obtain x g2 where g2: "on_store (authenticate repo sha (\<lambda>n. clk (1 + n)) cookie) g1 = (x, g2)" by fastforce
    have x: "x = Inr (live (clk 1) (sha (the cookie)) (gw_store g))"
      using authenticate_run(1) [OF True g2] kept1 by simp
    have kept2: "gw_authentication g2 = gw_authentication g"
      using authenticate_run(3) [OF True g2] kept1 by simp
    have rest: "(case live (clk 1) (sha (the cookie)) (gw_store g) of
        None \<Rightarrow> bindE (anonymous_rate maxBuckets cfg (clk 3) request) (\<lambda>_. throwE AuthenticationError)
      | Some auth \<Rightarrow> admit_authenticated sha maxBuckets cfg (clk 3) request auth) g2 = (r, g')"
      using assms(1) True g1 g2 allowed x by (simp add: check_session_def cookie_def bindE_def)
    show ?thesis
    proof (cases "live (clk 1) (sha (the cookie)) (gw_store g)")
      case None
      with rest have "bindE (anonymous_rate maxBuckets cfg (clk 3) request) (\<lambda>_. throwE AuthenticationError) g2
          = (r, g')" by simp
      from only_ratesD [OF only_rates_refuse this] kept2 show ?thesis by auto
    next
      case (Some auth)
      with rest have "admit_authenticated sha maxBuckets cfg (clk 3) request auth g2 = (r, g')" by simp
      from admit_authenticated_run [OF this] Some True show ?thesis by (auto simp: truthy_iff)
    qed
  qed
qed

end

text \<open>C33. The gate denies by default: a request passes the hook only as a probe, to an authentication or
  public path, as a metrics scrape with the configured bearer token, or with a session cookie that is live
  at the time of the request; then the request acts as that session's principal, and a method that may
  change state has also presented the session's CSRF token.\<close>

theorem gateway_denies_by_default:
  assumes "onRequest (sqlite_auth sha) sha maxBuckets cfg clk request g = (Inr (), g')"
  shows "open_request request \<or>
    metrics_request request \<and> secureTokenMatches sha (bearer_token request) (cfg_metricsBearerToken cfg) \<or>
    (\<exists>token auth. req_cookies request (sessionCookieName cfg) = Some token \<and>
      live_session (clk 1) (sha token) (gw_store g) = Some auth \<and> gw_authentication g' = Some auth \<and>
      (req_method request \<notin> set unsafeMethods \<or> verifyCsrf sha auth (csrf_header request)))"
proof (cases "open_request request \<or> metrics_request request")
  case True
  then show ?thesis
    using assms by (auto simp: onRequest_def metrics_request_def open_request_def Let_def effect_simps split: if_splits)
next
  case False
  then have "check_session (sqlite_auth sha) sha maxBuckets cfg clk request g = (Inr (), g')"
    using assms onRequest_protected [of request "sqlite_auth sha"] by simp
  from sqlite_sessions.check_session_cases [OF this] show ?thesis by blast
qed

text \<open>Without a live session a protected request is answered with 401 or, over the limit, 429, and never
  gets a principal, whatever the method, headers and body.\<close>

lemma unauthenticated_refused:
  assumes "\<not> open_request request" and "\<not> metrics_request request"
    and "\<And>token. req_cookies request (sessionCookieName cfg) = Some token \<Longrightarrow>
      live_session (clk 1) (sha token) (gw_store g) = None"
    and "onRequest (sqlite_auth sha) sha maxBuckets cfg clk request g = (r, g')"
  shows "\<exists>e. r = Inl e \<and> fst (errorHandler (req_id request) e) \<in> {401, 429} \<and>
    gw_authentication g' = gw_authentication g"
proof -
  have "check_session (sqlite_auth sha) sha maxBuckets cfg clk request g = (r, g')"
    using assms(4) onRequest_protected [OF assms(1,2), of "sqlite_auth sha"] by simp
  from sqlite_sessions.check_session_cases [OF this] assms(3)
  have "r \<in> {Inl AuthenticationError, Inl RateLimitError} \<and> gw_authentication g' = gw_authentication g" by auto
  then show ?thesis by (auto simp: errorHandler_def AuthenticationError_def RateLimitError_def)
qed

section \<open>Witnesses\<close>

definition demo_config :: AppConfig where
  "demo_config = config_of [(''RATE_LIMIT_PER_MINUTE'', Some (VInt 5)),
     (''AUTHENTICATED_IP_RATE_LIMIT_PER_MINUTE'', Some (VInt 9))]"

definition demo_request :: "string \<Rightarrow> request" where
  "demo_request cookie = \<lparr>req_id = ''r'', req_method = ''POST'', req_url = ''/api/organizations?x'', req_ip = ''ip'',
     req_headers = map_of [(''x-csrf-token'', HeaderText ''csrf'')],
     req_cookies = map_of [(''recruiting_session'', cookie)], req_params = JNull, req_query = JNull,
     req_body = JNull\<rparr>"

definition demo_server :: "store gateway" where
  "demo_server = \<lparr>gw_store = demo_account\<lparr>sessions := [demo_session]\<rparr>, gw_buckets = [],
     gw_authentication = None, gw_rate = None\<rparr>"

lemma demo_config_simps:
  "sessionCookieName demo_config = ''recruiting_session''" "cfg_limits_requestsPerMinute demo_config = 5"
  "cfg_limits_authenticatedIpRequestsPerMinute demo_config = 9"
  by (simp_all add: sessionCookieName_def demo_config_def config_of_def env_text_def env_int_def)

lemma demo_request_protected: "\<not> open_request (demo_request c)" "\<not> metrics_request (demo_request c)"
  by (simp_all add: open_request_def metrics_request_def demo_request_def request_path_def probePaths_def
      is_authentication_def authenticationPaths_def is_public_def publicPaths_def)

lemma demo_admitted:
  "\<exists>g'. onRequest (sqlite_auth id) id 10 demo_config (\<lambda>_. 0) (demo_request ''tok'') demo_server = (Inr (), g')"
proof -
  let ?buckets = "[(''authenticated-ip:ip'', \<lparr>bk_count = 1, bk_resetAt = 60000\<rparr>)]"
  have rate: "consume_rate 10 0 (''authenticated-ip:'' @ ''ip'') 9 demo_server =
      (Inr \<lparr>rl_allowed = True, rl_remaining = 8, rl_resetAt = 60000\<rparr>, demo_server\<lparr>gw_buckets := ?buckets\<rparr>)"
    by (simp add: consume_rate_def consume_def current_bucket_def set_bucket_def demo_server_def)
  have session: "on_store (authenticate (sqlite_auth id) id (\<lambda>n. 0) (Some ''tok'')) (demo_server\<lparr>gw_buckets := ?buckets\<rparr>) =
      (Inr (Some (authentication_of (demo_session, demo_member))), demo_server\<lparr>gw_buckets := ?buckets\<rparr>)"
    using demo_authenticate by (simp add: on_store_def demo_server_def)
  have cookie: "req_cookies (demo_request ''tok'') ''recruiting_session'' = Some ''tok''"
    "req_ip (demo_request ''tok'') = ''ip''" by (simp_all add: demo_request_def)
  have csrf: "verifyCsrf id (authentication_of (demo_session, demo_member)) (csrf_header (demo_request ''tok''))"
    by (simp add: verifyCsrf_def authentication_of_def demo_session_def hashSecret_def headerString_def demo_request_def)
  have "\<exists>g'. admit_authenticated id 10 demo_config 0 (demo_request ''tok'')
      (authentication_of (demo_session, demo_member)) (demo_server\<lparr>gw_buckets := ?buckets\<rparr>) = (Inr (), g')"
    using csrf by (simp add: admit_authenticated_def bindE_def effect_simps limit_rate_def consume_rate_def
        setRateLimitHeaders_def consume_def current_bucket_def set_bucket_def demo_config_simps Let_def)
  then show ?thesis
    unfolding onRequest_protected [OF demo_request_protected] check_session_def Let_def demo_config_simps cookie
    using rate session by (simp add: bindE_def)
qed

theorem gateway_denies_by_default_witness:
  "\<exists>g' auth. onRequest (sqlite_auth id) id 10 demo_config (\<lambda>_. 0) (demo_request ''tok'') demo_server = (Inr (), g') \<and>
     gw_authentication g' = Some auth \<and> verifyCsrf id auth (csrf_header (demo_request ''tok''))"
proof -
  obtain g' where g': "onRequest (sqlite_auth id) id 10 demo_config (\<lambda>_. 0) (demo_request ''tok'') demo_server = (Inr (), g')"
    using demo_admitted by blast
  have "req_method (demo_request ''tok'') \<in> set unsafeMethods" by (simp add: demo_request_def unsafeMethods_def)
  with gateway_denies_by_default [OF g'] demo_request_protected g' show ?thesis by blast
qed

lemma unauthenticated_refused_witness:
  "\<exists>e. fst (onRequest (sqlite_auth id) id 10 demo_config (\<lambda>_. 0) (demo_request ''other'') demo_server) = Inl e \<and>
     fst (errorHandler ''r'' e) \<in> {401, 429}"
proof -
  obtain r g' where run: "onRequest (sqlite_auth id) id 10 demo_config (\<lambda>_. 0) (demo_request ''other'') demo_server = (r, g')"
    by fastforce
  have "live_session 0 (id token) (gw_store demo_server) = None"
    if "req_cookies (demo_request ''other'') (sessionCookieName demo_config) = Some token" for token
    using that by (auto simp: demo_request_def demo_config_simps live_session_def find_session_def demo_server_def
        demo_session_def)
  from unauthenticated_refused [OF demo_request_protected this run] run
  show ?thesis by (auto simp: demo_request_def)
qed

end
