(* ===== verification/Requests.thy ===== *)
theory Requests
  imports Gateway
begin

text \<open>
  The request schemas of src/src/http/schemas/requests.ts and of the routes, and the public shapes of
  src/src/http/public-dto.ts. The checks of the schema library for URLs, dates and addresses are
  parameters; a schema yields the error of the library for the fields that do not fit. An object that
  was accepted has the keys of its schema only, in the order of the schema.
\<close>

record schema_library = url_library +
  zod_datetime :: "string \<Rightarrow> bool"
  zod_email :: "string \<Rightarrow> bool"

definition zod_check :: "schema_library \<Rightarrow> string \<Rightarrow> (string \<times> bool) list \<Rightarrow> error + unit" where
  "zod_check lib schema checks =
     (if list_all snd checks then Inr ()
      else Inl (zod_error lib schema (map fst (filter (\<lambda>c. \<not> snd c) checks))))"

definition text_sat :: "(string \<Rightarrow> bool) \<Rightarrow> json option \<Rightarrow> bool" where
  "text_sat p v = (case v of Some (JStr s) \<Rightarrow> p s | _ \<Rightarrow> False)"

definition text_in :: "nat \<Rightarrow> nat \<Rightarrow> json option \<Rightarrow> bool" where
  "text_in lo hi = text_sat (\<lambda>s. lo \<le> length s \<and> length s \<le> hi)"

definition optional :: "(json option \<Rightarrow> bool) \<Rightarrow> json option \<Rightarrow> bool" where
  "optional p v \<longleftrightarrow> v = None \<or> p v"

definition nullable :: "(json option \<Rightarrow> bool) \<Rightarrow> json option \<Rightarrow> bool" where
  "nullable p v \<longleftrightarrow> v = Some JNull \<or> p v"

definition is_bool :: "json option \<Rightarrow> bool" where
  "is_bool v = (case v of Some (JBool _) \<Rightarrow> True | _ \<Rightarrow> False)"

text \<open>\<open>.strict()\<close>: an object without other keys.\<close>

definition only_keys :: "string list \<Rightarrow> json \<Rightarrow> bool" where
  "only_keys ks v = (case v of JObj kvs \<Rightarrow> list_all (\<lambda>(k, _). k \<in> set ks) kvs | _ \<Rightarrow> False)"

definition pick :: "string list \<Rightarrow> json \<Rightarrow> (string \<times> json) list" where
  "pick ks v = concat (map (\<lambda>k. case json_get v k of None \<Rightarrow> [] | Some x \<Rightarrow> [(k, x)]) ks)"

definition httpUrl :: "schema_library \<Rightarrow> json option \<Rightarrow> bool" where
  "httpUrl lib = text_sat (\<lambda>s. zod_url lib s \<and> length s \<le> 2048 \<and> truthy (safeHttpUrl (parse_url lib) (Some s)))"

definition slug_char :: "char \<Rightarrow> bool" where
  "slug_char c \<longleftrightarrow> CHR ''a'' \<le> c \<and> c \<le> CHR ''z'' \<or> is_digit c"

definition organization_slug :: "string \<Rightarrow> bool" where
  "organization_slug s = (case s of [] \<Rightarrow> False
     | c # cs \<Rightarrow> slug_char c \<and> list_all (\<lambda>d. slug_char d \<or> d = CHR ''-'') cs)"

section \<open>Bodies\<close>

definition organization_fields :: "string list" where
  "organization_fields = [''id'', ''name'', ''school'', ''heelLifeUrl'', ''websiteUrl'', ''instagramHandle'', ''linkedinUrl'']"

definition organizationSchema :: "schema_library \<Rightarrow> json \<Rightarrow> error + Organization" where
  "organizationSchema lib body =
     (case zod_check lib ''organizationSchema''
        [(''id'', text_sat (\<lambda>s. 2 \<le> length s \<and> length s \<le> 80 \<and> organization_slug s) (json_get body ''id'')),
         (''name'', text_in 2 160 (json_get body ''name'')),
         (''school'', text_in 2 160 (json_get body ''school'')),
         (''heelLifeUrl'', optional (httpUrl lib) (json_get body ''heelLifeUrl'')),
         (''websiteUrl'', optional (httpUrl lib) (json_get body ''websiteUrl'')),
         (''instagramHandle'', optional (text_in 2 80) (json_get body ''instagramHandle'')),
         (''linkedinUrl'', optional (httpUrl lib) (json_get body ''linkedinUrl'')),
         ([], only_keys organization_fields body)] of
        Inl e \<Rightarrow> Inl e
      | Inr _ \<Rightarrow> Inr \<lparr>org_id = the (json_text body ''id''), org_tenantId = None, org_name = the (json_text body ''name''),
          org_school = the (json_text body ''school''), org_heelLifeUrl = json_text body ''heelLifeUrl'',
          org_websiteUrl = json_text body ''websiteUrl'', org_instagramHandle = json_text body ''instagramHandle'',
          org_linkedinUrl = json_text body ''linkedinUrl''\<rparr>)"

definition ingestUrlSchema :: "schema_library \<Rightarrow> json \<Rightarrow> error + (string \<times> json) list" where
  "ingestUrlSchema lib body =
     (case zod_check lib ''ingestUrlSchema''
        [(''organizationId'', text_in 2 80 (json_get body ''organizationId'')),
         (''url'', httpUrl lib (json_get body ''url'')), ([], only_keys [''organizationId'', ''url''] body)] of
        Inl e \<Rightarrow> Inl e | Inr _ \<Rightarrow> Inr (pick [''organizationId'', ''url''] body))"

definition screenshot_fields :: "string list" where
  "screenshot_fields = [''organizationId'', ''base64'', ''mimeType'', ''note'', ''url'', ''publishedAt'', ''consentToProcess'']"

definition screenshotSchema :: "schema_library \<Rightarrow> json \<Rightarrow> error + (string \<times> json) list" where
  "screenshotSchema lib body =
     (case zod_check lib ''screenshotSchema''
        [(''organizationId'', text_in 2 80 (json_get body ''organizationId'')),
         (''base64'', text_sat (\<lambda>s. 4 \<le> length s) (json_get body ''base64'')),
         (''mimeType'', text_sat (\<lambda>s. s \<in> set [''image/png'', ''image/jpeg'', ''image/webp'']) (json_get body ''mimeType'')),
         (''note'', optional (text_in 0 2000) (json_get body ''note'')),
         (''url'', optional (httpUrl lib) (json_get body ''url'')),
         (''publishedAt'', optional (text_sat (zod_datetime lib)) (json_get body ''publishedAt'')),
         (''consentToProcess'', json_get body ''consentToProcess'' = Some (JBool True)),
         ([], only_keys screenshot_fields body)] of
        Inl e \<Rightarrow> Inl e | Inr _ \<Rightarrow> Inr (pick screenshot_fields body))"

definition developmentLoginSchema :: "schema_library \<Rightarrow> json \<Rightarrow> error + string \<times> string option" where
  "developmentLoginSchema lib body =
     (case zod_check lib ''developmentLoginSchema''
        [(''email'', text_sat (zod_email lib) (json_get body ''email'')),
         (''displayName'', optional (text_in 1 120) (json_get body ''displayName'')),
         ([], only_keys [''email'', ''displayName''] body)] of
        Inl e \<Rightarrow> Inl e | Inr _ \<Rightarrow> Inr (the (json_text body ''email''), json_text body ''displayName''))"

definition png_signature :: "nat list" where "png_signature = [137, 80, 78, 71, 13, 10, 26, 10]"

definition signature_matches :: "string \<Rightarrow> nat list \<Rightarrow> bool" where
  "signature_matches mimeType b \<longleftrightarrow>
     mimeType = ''image/png'' \<and> 8 \<le> length b \<and> take 8 b = png_signature \<or>
     mimeType = ''image/jpeg'' \<and> 3 \<le> length b \<and> take 3 b = [255, 216, 255] \<or>
     mimeType = ''image/webp'' \<and> 12 \<le> length b \<and> take 4 b = map of_char ''RIFF'' \<and>
       take 4 (drop 8 b) = map of_char ''WEBP''"

text \<open>\<open>base64\<close> decodes the text.\<close>

definition validateScreenshotBytes :: "(string \<Rightarrow> nat list) \<Rightarrow> string \<Rightarrow> string \<Rightarrow> int \<Rightarrow> error + nat list" where
  "validateScreenshotBytes base64 encoded mimeType maxBytes =
     (let bytes = base64 encoded in
      if bytes = [] \<or> int (length bytes) > maxBytes then Inl (Error ''Screenshot size is invalid'')
      else if \<not> signature_matches mimeType bytes then
        Inl (Error ''Screenshot bytes do not match the declared type'')
      else Inr bytes)"

definition overrideSchema :: "schema_library \<Rightarrow> json \<Rightarrow> error + json \<times> string" where
  "overrideSchema lib body =
     (let patch = nullish (json_get body ''patch'') JNull in
      case zod_check lib ''override''
        [(''title'', optional (text_in 1 160) (json_get patch ''title'')),
         (''deadlineAt'', optional (nullable (text_sat (zod_datetime lib))) (json_get patch ''deadlineAt'')),
         (''startsAt'', optional (nullable (text_sat (zod_datetime lib))) (json_get patch ''startsAt'')),
         (''url'', optional (nullable (httpUrl lib)) (json_get patch ''url'')),
         (''stale'', optional is_bool (json_get patch ''stale'')),
         (''patch'', only_keys [''title'', ''deadlineAt'', ''startsAt'', ''url'', ''stale''] patch),
         (''reason'', text_in 8 500 (json_get body ''reason'')),
         ([], only_keys [''patch'', ''reason''] body)] of
        Inl e \<Rightarrow> Inl e | Inr _ \<Rightarrow> Inr (patch, the (json_text body ''reason'')))"

text \<open>\<open>value ?? undefined\<close> for every key: a null in the request is a key that is not set.\<close>

definition patch_of :: "json \<Rightarrow> OverridePatch" where
  "patch_of patch = \<lparr>patch_title = json_text patch ''title'', patch_deadlineAt = json_text patch ''deadlineAt'',
     patch_startsAt = json_text patch ''startsAt'', patch_url = json_text patch ''url'',
     patch_stale = (case json_get patch ''stale'' of Some (JBool b) \<Rightarrow> Some b | _ \<Rightarrow> None)\<rparr>"

definition idParam :: "schema_library \<Rightarrow> string \<Rightarrow> json \<Rightarrow> error + string" where
  "idParam lib name params =
     (case zod_check lib ''params'' [(name, text_in 1 80 (json_get params name))] of
        Inl e \<Rightarrow> Inl e | Inr _ \<Rightarrow> Inr (the (json_text params name)))"

fun provider_of_text :: "string \<Rightarrow> OAuthProvider option" where
  "provider_of_text s = (if s = ''gmail'' then Some p_gmail else if s = ''groupme'' then Some p_groupme
     else if s = ''instagram'' then Some p_instagram else if s = ''linkedin'' then Some p_linkedin else None)"

definition providerSchema :: "schema_library \<Rightarrow> json \<Rightarrow> error + OAuthProvider" where
  "providerSchema lib params =
     (case Option.bind (json_text params ''provider'') provider_of_text of
        None \<Rightarrow> Inl (zod_error lib ''providerSchema'' [''provider'']) | Some p \<Rightarrow> Inr p)"

definition syncSchema :: "schema_library \<Rightarrow> json \<Rightarrow> error + (string \<times> json) list" where
  "syncSchema lib body =
     (case zod_check lib ''connector.sync''
        [(''organizationId'', text_in 2 80 (json_get body ''organizationId'')),
         (''scope'', optional (text_in 1 200) (json_get body ''scope'')),
         (''recurring'', optional is_bool (json_get body ''recurring'')),
         ([], only_keys [''organizationId'', ''scope'', ''recurring''] body)] of
        Inl e \<Rightarrow> Inl e
      | Inr _ \<Rightarrow> Inr (pick [''organizationId'', ''scope''] body @
          [(''recurring'', nullish (json_get body ''recurring'') (JBool True))]))"

section \<open>Public shapes\<close>

record OrganizationDto =
  odto_id :: string
  odto_name :: string
  odto_school :: string
  odto_websiteUrl :: "string option"
  odto_heelLifeUrl :: "string option"
  odto_instagramHandle :: "string option"
  odto_linkedinUrl :: "string option"

definition organizationDto :: "schema_library \<Rightarrow> Organization \<Rightarrow> OrganizationDto" where
  "organizationDto lib organization =
     \<lparr>odto_id = org_id organization, odto_name = org_name organization, odto_school = org_school organization,
      odto_websiteUrl = safeHttpUrl (parse_url lib) (org_websiteUrl organization),
      odto_heelLifeUrl = safeHttpUrl (parse_url lib) (org_heelLifeUrl organization),
      odto_instagramHandle = org_instagramHandle organization,
      odto_linkedinUrl = safeHttpUrl (parse_url lib) (org_linkedinUrl organization)\<rparr>"

record OpportunityDto =
  pdto_id :: string
  pdto_organizationId :: string
  pdto_kind :: OpportunityKind
  pdto_title :: string
  pdto_deadlineAt :: "string option"
  pdto_deadlinePrecision :: "string option"
  pdto_startsAt :: "string option"
  pdto_startsAtPrecision :: "string option"
  pdto_url :: "string option"
  pdto_role :: "string option"
  pdto_confidence :: "rat option"
  pdto_stale :: bool
  pdto_explanation :: string
  pdto_resolvedAt :: string

definition opportunityDto :: "schema_library \<Rightarrow> Opportunity \<Rightarrow> OpportunityDto" where
  "opportunityDto lib opportunity =
     \<lparr>pdto_id = opp_id opportunity, pdto_organizationId = opp_organizationId opportunity,
      pdto_kind = opp_kind opportunity, pdto_title = opp_title opportunity,
      pdto_deadlineAt = opp_deadlineAt opportunity, pdto_deadlinePrecision = opp_deadlinePrecision opportunity,
      pdto_startsAt = opp_startsAt opportunity, pdto_startsAtPrecision = opp_startsAtPrecision opportunity,
      pdto_url = safeHttpUrl (parse_url lib) (opp_url opportunity), pdto_role = opp_role opportunity,
      pdto_confidence = opp_confidence opportunity, pdto_stale = opp_stale opportunity,
      pdto_explanation = opp_explanation opportunity, pdto_resolvedAt = opp_resolvedAt opportunity\<rparr>"

lemma zod_check_Inr: "zod_check lib schema checks = Inr u \<longleftrightarrow> list_all snd checks"
  by (simp add: zod_check_def)

end
