(* ===== verification/Oidc.thy ===== *)
theory Oidc
  imports Outbound Requests
begin

text \<open>
  The OpenID Connect client src/src/infrastructure/auth/oidc-service.ts. The discovery document is kept
  after the first request for it, as the code keeps the promise of it. The transport and the verification
  of the signed token (issuer, audience and signature) are parameters, as are the random texts of a login.
\<close>

section \<open>The client\<close>

record Discovery =
  dc_authorization_endpoint :: string
  dc_token_endpoint :: string
  dc_jwks_uri :: string
  dc_issuer :: string

record OidcState =
  oi_state :: string
  oi_nonce :: string
  oi_verifier :: string
  oi_returnTo :: string

record OidcOptions =
  oo_issuer :: string
  oo_clientId :: string
  oo_clientSecret :: "string option"
  oo_redirectUri :: string
  oo_allowedEmailDomain :: string

definition check_endpoint :: "(string \<Rightarrow> URL option) \<Rightarrow> json \<Rightarrow> string \<Rightarrow> error + unit" where
  "check_endpoint parse candidate key =
     (case json_text candidate key of
        None \<Rightarrow> Inl (Error (''OIDC discovery is missing '' @ key))
      | Some endpoint \<Rightarrow>
        (case parse endpoint of None \<Rightarrow> Inl (TypeError ''Invalid URL'')
         | Some url \<Rightarrow> check (url_protocol url = ''https:'' \<and> url_username url = [] \<and> url_password url = [])
             (''OIDC discovery '' @ key @ '' must be a credential-free HTTPS URL'')))"

definition validatedDiscovery :: "(string \<Rightarrow> URL option) \<Rightarrow> json \<Rightarrow> string \<Rightarrow> error + Discovery" where
  "validatedDiscovery parse value configuredIssuer =
     andThen (check (case value of JObj _ \<Rightarrow> True | JArr _ \<Rightarrow> True | _ \<Rightarrow> False) ''OIDC discovery response is invalid'') (
     andThen (check (json_get value ''issuer'' = Some (JStr configuredIssuer)) ''OIDC issuer mismatch'') (
     andThen (check_endpoint parse value ''authorization_endpoint'') (
     andThen (check_endpoint parse value ''token_endpoint'') (
     andThen (check_endpoint parse value ''jwks_uri'') (
       Inr \<lparr>dc_authorization_endpoint = the (json_text value ''authorization_endpoint''),
         dc_token_endpoint = the (json_text value ''token_endpoint''),
         dc_jwks_uri = the (json_text value ''jwks_uri''), dc_issuer = configuredIssuer\<rparr>)))))"

definition verifiedIdentityClaims :: "json \<Rightarrow> string \<Rightarrow> string \<Rightarrow> error + OidcIdentity" where
  "verifiedIdentityClaims payload issuer allowedEmailDomain =
     (case json_text payload ''sub'' of
        None \<Rightarrow> Inl (Error ''OIDC subject is missing'')
      | Some sub \<Rightarrow>
        if trim sub = [] then Inl (Error ''OIDC subject is missing'')
        else if json_get payload ''email_verified'' \<noteq> Some (JBool True) then Inl (Error ''Verified email is required'')
        else let email = trim (nullish (json_text payload ''email'') []) in
          if \<not> ends_with (toLowerCase email) (''@'' @ toLowerCase allowedEmailDomain) then
            Inl (Error ''Email domain is not allowed'')
          else Inr \<lparr>oid_issuer = issuer, oid_subject = sub, oid_email = Some email,
            oid_displayName = json_text payload ''name''\<rparr>)"

text \<open>The outside of the client.\<close>

record oidc_outside =
  oout_parse :: "string \<Rightarrow> URL option"
  oout_utf8 :: "nat list \<Rightarrow> string"
  oout_challenge :: "string \<Rightarrow> string"
  oout_verify :: "string \<Rightarrow> string \<Rightarrow> string \<Rightarrow> string \<Rightarrow> error + json"

definition status_ok :: "http_response \<Rightarrow> bool" where
  "status_ok response \<longleftrightarrow> 200 \<le> rs_status response \<and> rs_status response \<le> 299"

definition bounded_json :: "oidc_outside \<Rightarrow> http_response \<Rightarrow> error + json" where
  "bounded_json out response =
     (case boundedResponse response 65536 None of Inl e \<Rightarrow> Inl e
      | Inr bounded \<Rightarrow> (case JSON_parse (oout_utf8 out (br_bytes bounded)) of
            None \<Rightarrow> Inl (Error ''Unexpected token in JSON'') | Some v \<Rightarrow> Inr v))"

definition issuer_base :: "OidcOptions \<Rightarrow> string" where
  "issuer_base opts = (if ends_with (oo_issuer opts) ''/'' then butlast (oo_issuer opts) else oo_issuer opts)"

definition fetch_discovery ::
    "oidc_outside \<Rightarrow> OidcOptions \<Rightarrow> (string \<Rightarrow> error + http_response) \<Rightarrow> error + Discovery" where
  "fetch_discovery out opts http =
     (let issuer = issuer_base opts in
      case http (issuer @ ''/.well-known/openid-configuration'') of Inl e \<Rightarrow> Inl e
      | Inr response \<Rightarrow>
        if \<not> status_ok response then Inl (Error (''OIDC discovery failed: '' @ show_int (rs_status response)))
        else case bounded_json out response of Inl e \<Rightarrow> Inl e
          | Inr v \<Rightarrow> validatedDiscovery (oout_parse out) v issuer)"

text \<open>\<open>this.discovery ??= ...\<close>: the state is the outcome of the first request, if there was one.\<close>

type_synonym discovery_cache = "(error + Discovery) option"

definition getDiscovery ::
    "oidc_outside \<Rightarrow> OidcOptions \<Rightarrow> (string \<Rightarrow> error + http_response) \<Rightarrow> (error, discovery_cache, Discovery) op" where
  "getDiscovery out opts http cache =
     (let outcome = (case cache of Some kept \<Rightarrow> kept | None \<Rightarrow> fetch_discovery out opts http) in
      (outcome, Some outcome))"

text \<open>The address of the login page is the endpoint with its query parameters.\<close>

definition oidc_authorization ::
    "oidc_outside \<Rightarrow> OidcOptions \<Rightarrow> (string \<Rightarrow> error + http_response) \<Rightarrow> (string \<Rightarrow> string \<Rightarrow> URL option) \<Rightarrow>
       string \<Rightarrow> string \<Rightarrow> string \<Rightarrow> string \<Rightarrow>
       (error, discovery_cache, (string \<times> (string \<times> string) list) \<times> OidcState) op" where
  "oidc_authorization out opts http parse_at state nonce verifier returnTo =
     bindE (getDiscovery out opts http) (\<lambda>discovery.
       let st = \<lparr>oi_state = state, oi_nonce = nonce, oi_verifier = verifier,
             oi_returnTo = safeRelativeReturnTo parse_at returnTo ''/''\<rparr> in
       retE ((dc_authorization_endpoint discovery,
         [(''client_id'', oo_clientId opts), (''redirect_uri'', oo_redirectUri opts), (''response_type'', ''code''),
          (''scope'', ''openid email profile''), (''state'', state), (''nonce'', nonce),
          (''code_challenge'', oout_challenge out verifier), (''code_challenge_method'', ''S256'')]), st))"

definition token_fields :: "OidcOptions \<Rightarrow> string \<Rightarrow> OidcState \<Rightarrow> (string \<times> string) list" where
  "token_fields opts code state =
     [(''grant_type'', ''authorization_code''), (''code'', code), (''redirect_uri'', oo_redirectUri opts),
      (''client_id'', oo_clientId opts), (''code_verifier'', oi_verifier state)] @
     (if truthy (oo_clientSecret opts) then [(''client_secret'', the (oo_clientSecret opts))] else [])"

definition identity_of_token ::
    "oidc_outside \<Rightarrow> OidcOptions \<Rightarrow> Discovery \<Rightarrow> OidcState \<Rightarrow> string option \<Rightarrow> error + OidcIdentity" where
  "identity_of_token out opts discovery state id_token =
     (if \<not> truthy id_token then Inl (Error ''OIDC response did not include an ID token'')
      else case oout_verify out (the id_token) (dc_jwks_uri discovery) (dc_issuer discovery) (oo_clientId opts) of
        Inl e \<Rightarrow> Inl e
      | Inr payload \<Rightarrow>
        if json_get payload ''nonce'' \<noteq> Some (JStr (oi_nonce state)) then Inl (Error ''OIDC nonce mismatch'')
        else verifiedIdentityClaims payload (dc_issuer discovery) (oo_allowedEmailDomain opts))"

definition oidc_callback ::
    "oidc_outside \<Rightarrow> OidcOptions \<Rightarrow> (string \<Rightarrow> error + http_response) \<Rightarrow>
       (string \<Rightarrow> (string \<times> string) list \<Rightarrow> error + http_response) \<Rightarrow> string \<Rightarrow> OidcState \<Rightarrow>
       (error, discovery_cache, OidcIdentity) op" where
  "oidc_callback out opts http post code state =
     bindE (getDiscovery out opts http) (\<lambda>discovery.
       lift_result (case post (dc_token_endpoint discovery) (token_fields opts code state) of
         Inl e \<Rightarrow> Inl e
       | Inr response \<Rightarrow>
         if \<not> status_ok response then Inl (Error (''OIDC token exchange failed: '' @ show_int (rs_status response)))
         else case bounded_json out response of Inl e \<Rightarrow> Inl e
         | Inr tokens \<Rightarrow> identity_of_token out opts discovery state (json_text tokens ''id_token'')))"

section \<open>Properties\<close>

lemma lift_result_iff [effect_simps]:
  "lift_result r s = (Inr x, s') \<longleftrightarrow> r = Inr x \<and> s' = s"
  "lift_result r s = (Inl e, s') \<longleftrightarrow> r = Inl e \<and> s' = s"
  by (auto simp: lift_result_def retE_def throwE_def split: sum.splits)

lemma check_endpoint_Inr:
  "check_endpoint parse v key = Inr u \<Longrightarrow> \<exists>s url. json_text v key = Some s \<and> parse s = Some url \<and>
     url_protocol url = ''https:'' \<and> url_username url = [] \<and> url_password url = []"
  by (auto simp: check_endpoint_def check_def split: option.splits if_splits)

definition endpoint_ok :: "(string \<Rightarrow> URL option) \<Rightarrow> string \<Rightarrow> bool" where
  "endpoint_ok parse s \<longleftrightarrow> (\<exists>url. parse s = Some url \<and> url_protocol url = ''https:'' \<and> url_username url = [] \<and>
     url_password url = [])"

lemma validatedDiscovery_Inr:
  assumes "validatedDiscovery parse v issuer = Inr d"
  shows "dc_issuer d = issuer" "endpoint_ok parse (dc_authorization_endpoint d)"
    "endpoint_ok parse (dc_token_endpoint d)" "endpoint_ok parse (dc_jwks_uri d)"
  using assms by (auto simp: validatedDiscovery_def endpoint_ok_def dest!: check_endpoint_Inr)

lemma fetch_discovery_Inr:
  "fetch_discovery out opts http = Inr d \<Longrightarrow> dc_issuer d = issuer_base opts \<and>
     endpoint_ok (oout_parse out) (dc_token_endpoint d) \<and> endpoint_ok (oout_parse out) (dc_jwks_uri d)"
  by (auto simp: fetch_discovery_def Let_def dest: validatedDiscovery_Inr split: sum.splits if_splits)

text \<open>The caches that requests of this client leave.\<close>

inductive oidc_cache :: "oidc_outside \<Rightarrow> OidcOptions \<Rightarrow> discovery_cache \<Rightarrow> bool" for out opts where
  cache_start: "oidc_cache out opts None"
| cache_request: "oidc_cache out opts c \<Longrightarrow> oidc_cache out opts (snd (getDiscovery out opts http c))"

lemma oidc_cache_ok:
  "oidc_cache out opts c \<Longrightarrow> c = Some (Inr d) \<Longrightarrow> dc_issuer d = issuer_base opts \<and>
     endpoint_ok (oout_parse out) (dc_token_endpoint d) \<and> endpoint_ok (oout_parse out) (dc_jwks_uri d)"
  by (induction arbitrary: d rule: oidc_cache.induct)
    (auto simp: getDiscovery_def Let_def dest: fetch_discovery_Inr split: option.splits)

lemma getDiscovery_ok:
  assumes "oidc_cache out opts c" and "getDiscovery out opts http c = (Inr d, c')"
  shows "dc_issuer d = issuer_base opts \<and>
     endpoint_ok (oout_parse out) (dc_token_endpoint d) \<and> endpoint_ok (oout_parse out) (dc_jwks_uri d)"
proof -
  have "oidc_cache out opts c'" using cache_request [OF assms(1), of http] assms(2) by simp
  moreover have "c' = Some (Inr d)" using assms(2) by (auto simp: getDiscovery_def Let_def)
  ultimately show ?thesis by (rule oidc_cache_ok)
qed

text \<open>The identity that a payload proves: its subject and name, and its own address, without the surrounding
  white space, which the payload says is verified and which is of the domain.\<close>

definition identity_proved :: "json \<Rightarrow> string \<Rightarrow> string \<Rightarrow> OidcIdentity \<Rightarrow> bool" where
  "identity_proved payload issuer domain identity \<longleftrightarrow> oid_issuer identity = issuer \<and>
     json_text payload ''sub'' = Some (oid_subject identity) \<and> trim (oid_subject identity) \<noteq> [] \<and>
     json_get payload ''email_verified'' = Some (JBool True) \<and>
     (\<exists>address. json_get payload ''email'' = Some (JStr address) \<and> oid_email identity = Some (trim address) \<and>
        ends_with (toLowerCase (trim address)) (''@'' @ toLowerCase domain)) \<and>
     oid_displayName identity = json_text payload ''name''"

lemma json_text_get: "json_text v k = Some x \<longleftrightarrow> json_get v k = Some (JStr x)"
  by (auto simp: json_text_def split: option.splits json.splits)

lemma verifiedIdentityClaims_Inr:
  assumes "verifiedIdentityClaims payload issuer domain = Inr identity"
  shows "identity_proved payload issuer domain identity"
proof (cases "json_text payload ''email''")
  case None
  have "\<not> ends_with (toLowerCase (trim [])) (''@'' @ toLowerCase domain)"
    by (simp add: trim_def ends_with_def)
  then show ?thesis using assms None
    by (auto simp: verifiedIdentityClaims_def Let_def split: option.splits if_splits)
next
  case (Some address)
  note get = Some [unfolded json_text_get]
  show ?thesis using assms get
    by (auto simp: verifiedIdentityClaims_def identity_proved_def Let_def Some split: option.splits if_splits)
qed

lemma identity_of_token_Inr:
  assumes "identity_of_token out opts d state t = Inr identity"
  shows "\<exists>payload. oout_verify out (the t) (dc_jwks_uri d) (dc_issuer d) (oo_clientId opts) = Inr payload \<and>
    json_get payload ''nonce'' = Some (JStr (oi_nonce state)) \<and>
    verifiedIdentityClaims payload (dc_issuer d) (oo_allowedEmailDomain opts) = Inr identity"
  using assms
  by (cases "oout_verify out (the t) (dc_jwks_uri d) (dc_issuer d) (oo_clientId opts)")
    (auto simp: identity_of_token_def split: if_splits)

text \<open>A failed discovery is for good: the outcome of the first request is kept, so that every later login
  fails with its error, also when the issuer answers again.\<close>

lemma discovery_failure_kept:
  assumes "getDiscovery out opts http c = (Inl e, c')"
  shows "getDiscovery out opts later c' = (Inl e, c')"
  using assms by (auto simp: getDiscovery_def Let_def)

text \<open>C36. An identity comes only from a login that the identity provider confirms. The token is the ID token of the
  answer to the exchange of this login's code at the HTTPS token endpoint; the verifier accepts it for this
  client and the configured issuer, with keys from an HTTPS address; and its payload carries the nonce of this
  login. The identity is the one of the payload: its subject, and its address, which the payload says is
  verified and which is of the allowed domain.\<close>

theorem oidc_identity_verified:
  assumes "oidc_cache out opts c" and "oidc_callback out opts http post code state c = (Inr identity, c')"
  shows "\<exists>endpoint response tokens token jwks payload.
    endpoint_ok (oout_parse out) endpoint \<and> endpoint_ok (oout_parse out) jwks \<and>
    post endpoint (token_fields opts code state) = Inr response \<and> status_ok response \<and>
    bounded_json out response = Inr tokens \<and> json_text tokens ''id_token'' = Some token \<and>
    oout_verify out token jwks (issuer_base opts) (oo_clientId opts) = Inr payload \<and>
    json_get payload ''nonce'' = Some (JStr (oi_nonce state)) \<and>
    identity_proved payload (issuer_base opts) (oo_allowedEmailDomain opts) identity"
proof -
  obtain d where d: "getDiscovery out opts http c = (Inr d, c')"
    and r: "(case post (dc_token_endpoint d) (token_fields opts code state) of
         Inl e \<Rightarrow> Inl e
       | Inr response \<Rightarrow>
         if \<not> status_ok response then Inl (Error (''OIDC token exchange failed: '' @ show_int (rs_status response)))
         else case bounded_json out response of Inl e \<Rightarrow> Inl e
         | Inr tokens \<Rightarrow> identity_of_token out opts d state (json_text tokens ''id_token'')) = Inr identity"
    using assms(2) unfolding oidc_callback_def bindE_Inr_iff lift_result_iff by blast
  from r obtain response tokens where p: "post (dc_token_endpoint d) (token_fields opts code state) = Inr response"
    "status_ok response" "bounded_json out response = Inr tokens"
    "identity_of_token out opts d state (json_text tokens ''id_token'') = Inr identity"
    by (auto split: sum.splits if_splits)
  then obtain token where token: "json_text tokens ''id_token'' = Some token"
    by (cases "json_text tokens ''id_token''") (auto simp: identity_of_token_def)
  obtain payload where "oout_verify out token (dc_jwks_uri d) (dc_issuer d) (oo_clientId opts) = Inr payload"
    "json_get payload ''nonce'' = Some (JStr (oi_nonce state))"
    "verifiedIdentityClaims payload (dc_issuer d) (oo_allowedEmailDomain opts) = Inr identity"
    using identity_of_token_Inr [OF p(4)] token by auto
  then show ?thesis using getDiscovery_ok [OF assms(1) d] p token verifiedIdentityClaims_Inr [of payload] by metis
qed

section \<open>Witness\<close>

definition demo_options :: OidcOptions where
  "demo_options = \<lparr>oo_issuer = ''https://sso/'', oo_clientId = ''c'', oo_clientSecret = None,
     oo_redirectUri = ''https://app/cb'', oo_allowedEmailDomain = ''unc.edu''\<rparr>"

definition demo_discovery :: Discovery where
  "demo_discovery = \<lparr>dc_authorization_endpoint = ''https://sso/a'', dc_token_endpoint = ''https://sso/t'',
     dc_jwks_uri = ''https://sso/k'', dc_issuer = ''https://sso''\<rparr>"

definition demo_claims :: json where
  "demo_claims = JObj [(''sub'', JStr ''s''), (''nonce'', JStr ''n''), (''email'', JStr ''a@unc.edu''),
     (''email_verified'', JBool True)]"

text \<open>A decoder that yields the discovery document, respectively the token, for the bytes of the answers.\<close>

definition demo_outside :: oidc_outside where
  "demo_outside = \<lparr>oout_parse = (\<lambda>s. Some demo_url),
     oout_utf8 = (\<lambda>bytes. if bytes = [7] then stringify (JObj [(''issuer'', JStr ''https://sso''),
         (''authorization_endpoint'', JStr ''https://sso/a''), (''token_endpoint'', JStr ''https://sso/t''),
         (''jwks_uri'', JStr ''https://sso/k'')])
       else stringify (JObj [(''id_token'', JStr ''jwt'')])),
     oout_challenge = id,
     oout_verify = (\<lambda>token jwks issuer audience. if token = ''jwt'' then Inr demo_claims else Inl (Error ''bad''))\<rparr>"

abbreviation demo_bytes :: "nat \<Rightarrow> http_response" where
  "demo_bytes b \<equiv> \<lparr>rs_status = 200, rs_headers = (\<lambda>_. None), rs_body = Some [ReadChunk [b]], rs_url = []\<rparr>"

lemma demo_bounded:
  "bounded_json demo_outside (demo_bytes b) = Inr (if b = 7 then JObj [(''issuer'', JStr ''https://sso''),
         (''authorization_endpoint'', JStr ''https://sso/a''), (''token_endpoint'', JStr ''https://sso/t''),
         (''jwks_uri'', JStr ''https://sso/k'')] else JObj [(''id_token'', JStr ''jwt'')])"
proof -
  have zero: "jsNumber ''0'' = Finite 0" by code_simp
  show ?thesis
    by (simp add: bounded_json_def boundedResponse_def declared_too_long_def zero readLimited_def new_response_error_def demo_outside_def
        JSON_parse_stringify del: stringify.simps)
qed

lemma demo_login:
  "fst (oidc_callback demo_outside demo_options (\<lambda>_. Inr (demo_bytes 7)) (\<lambda>_ _. Inr (demo_bytes 8)) ''code''
     \<lparr>oi_state = ''st'', oi_nonce = ''n'', oi_verifier = ''v'', oi_returnTo = ''/''\<rparr> None) =
   Inr \<lparr>oid_issuer = ''https://sso'', oid_subject = ''s'', oid_email = Some ''a@unc.edu'', oid_displayName = None\<rparr>"
proof -
  have base: "issuer_base demo_options = ''https://sso''"
    by (simp add: issuer_base_def demo_options_def ends_with_def)
  have "check_endpoint (oout_parse demo_outside) v key = Inr ()" if "json_text v key \<noteq> None" for v key
    using that by (auto simp: check_endpoint_def check_def demo_outside_def demo_url_def)
  then have "fetch_discovery demo_outside demo_options (\<lambda>_. Inr (demo_bytes 7)) = Inr demo_discovery"
    by (simp add: fetch_discovery_def base status_ok_def demo_bounded validatedDiscovery_def check_def
        demo_discovery_def json_text_def json_get_def andThen_def)
  then have disc: "getDiscovery demo_outside demo_options (\<lambda>_. Inr (demo_bytes 7)) None =
      (Inr demo_discovery, Some (Inr demo_discovery))" by (simp add: getDiscovery_def Let_def)
  have "trim ''s'' = ''s''" "trim ''a@unc.edu'' = ''a@unc.edu''" by code_simp+
  moreover have "ends_with (toLowerCase ''a@unc.edu'') (''@'' @ toLowerCase ''unc.edu'')" by code_simp
  ultimately have "verifiedIdentityClaims demo_claims ''https://sso'' ''unc.edu'' =
      Inr \<lparr>oid_issuer = ''https://sso'', oid_subject = ''s'', oid_email = Some ''a@unc.edu'', oid_displayName = None\<rparr>"
    by (simp add: verifiedIdentityClaims_def demo_claims_def json_text_def json_get_def)
  then have "identity_of_token demo_outside demo_options demo_discovery
      \<lparr>oi_state = ''st'', oi_nonce = ''n'', oi_verifier = ''v'', oi_returnTo = ''/''\<rparr> (Some ''jwt'') =
      Inr \<lparr>oid_issuer = ''https://sso'', oid_subject = ''s'', oid_email = Some ''a@unc.edu'', oid_displayName = None\<rparr>"
    by (simp add: identity_of_token_def demo_outside_def demo_discovery_def demo_options_def demo_claims_def json_get_def)
  then show ?thesis
    by (simp add: oidc_callback_def bindE_def disc status_ok_def demo_bounded lift_result_def effect_simps
        json_text_def json_get_def)
qed

theorem oidc_identity_verified_witness:
  "\<exists>c'. oidc_callback demo_outside demo_options (\<lambda>_. Inr (demo_bytes 7)) (\<lambda>_ _. Inr (demo_bytes 8)) ''code''
     \<lparr>oi_state = ''st'', oi_nonce = ''n'', oi_verifier = ''v'', oi_returnTo = ''/''\<rparr> None =
     (Inr \<lparr>oid_issuer = ''https://sso'', oid_subject = ''s'', oid_email = Some ''a@unc.edu'', oid_displayName = None\<rparr>, c') \<and>
   (\<exists>payload. identity_proved payload (issuer_base demo_options) ''unc.edu''
     \<lparr>oid_issuer = ''https://sso'', oid_subject = ''s'', oid_email = Some ''a@unc.edu'', oid_displayName = None\<rparr>)"
proof -
  obtain c' where run: "oidc_callback demo_outside demo_options (\<lambda>_. Inr (demo_bytes 7))
      (\<lambda>_ _. Inr (demo_bytes 8)) ''code''
      \<lparr>oi_state = ''st'', oi_nonce = ''n'', oi_verifier = ''v'', oi_returnTo = ''/''\<rparr> None =
      (Inr \<lparr>oid_issuer = ''https://sso'', oid_subject = ''s'', oid_email = Some ''a@unc.edu'', oid_displayName = None\<rparr>, c')"
    using demo_login by (metis fst_conv surj_pair)
  have "oo_allowedEmailDomain demo_options = ''unc.edu''" by (simp add: demo_options_def)
  with oidc_identity_verified [OF cache_start run] run show ?thesis by fastforce
qed

end
