(* ===== verification/Metrics.thy ===== *)
theory Metrics
  imports JobQueue
begin

text \<open>
  The metrics of src/src/infrastructure/observability/metrics.ts and the text that the metrics routes of
  src/src/http/routes/recruiting.ts answer with. A JavaScript Map keeps the order in which its keys were
  first set, so it is an association list here. Durations are exact rationals.
\<close>

definition sanitizeLabel :: "string \<Rightarrow> string" where
  "sanitizeLabel s = map (\<lambda>c. if is_alnum c \<or> c = CHR ''_'' \<or> c = CHR '':'' then c else CHR ''_'') s"

definition durationBucketsMs :: "nat list" where
  "durationBucketsMs = [5, 10, 25, 50, 100, 250, 500, 750, 1000, 1500, 2000, 5000]"

record MetricsRegistry =
  mr_requests :: "(string \<times> nat) list"
  mr_durationMs :: "(string \<times> rat) list"
  mr_durationBuckets :: "(string \<times> nat list) list"

definition new_metrics :: MetricsRegistry where
  "new_metrics = \<lparr>mr_requests = [], mr_durationMs = [], mr_durationBuckets = []\<rparr>"

fun map_set :: "'k \<Rightarrow> 'v \<Rightarrow> ('k \<times> 'v) list \<Rightarrow> ('k \<times> 'v) list" where
  "map_set k v [] = [(k, v)]"
| "map_set k v ((k', v') # kvs) = (if k' = k then (k, v) # kvs else (k', v') # map_set k v kvs)"

definition metrics_key :: "string \<Rightarrow> string \<Rightarrow> nat \<Rightarrow> string" where
  "metrics_key verb route statusCode =
     sanitizeLabel verb @ ''|'' @ sanitizeLabel (if route = [] then ''unmatched'' else route) @ ''|'' @ show_nat statusCode"

definition observe :: "string \<Rightarrow> string \<Rightarrow> nat \<Rightarrow> rat \<Rightarrow> MetricsRegistry \<Rightarrow> MetricsRegistry" where
  "observe verb route statusCode elapsedMs m =
     (let key = metrics_key verb route statusCode;
          buckets = nullish (map_of (mr_durationBuckets m) key) (map (\<lambda>_. 0) durationBucketsMs) in
      \<lparr>mr_requests = map_set key (nullish (map_of (mr_requests m) key) 0 + 1) (mr_requests m),
       mr_durationMs = map_set key (nullish (map_of (mr_durationMs m) key) 0 + elapsedMs) (mr_durationMs m),
       mr_durationBuckets = map_set key (map2 (\<lambda>bound count. if elapsedMs \<le> of_nat bound then count + 1 else count)
         durationBucketsMs buckets) (mr_durationBuckets m)\<rparr>)"

text \<open>\<open>x.toFixed(3)\<close> of a number that is not negative.\<close>

definition toFixed3 :: "rat \<Rightarrow> string" where
  "toFixed3 x = (let n = nat \<lfloor>x * 1000 + 1 / 2\<rfloor> in
     show_nat (n div 1000) @ ''.'' @ padStart 3 (CHR ''0'') (show_nat (n mod 1000)))"

text \<open>\<open>method\<close>, \<open>route\<close> and \<open>status\<close> of a key.\<close>

definition metrics_labels :: "string \<Rightarrow> string" where
  "metrics_labels key = (let parts = split_on (CHR ''|'') key in
     ''method=\"'' @ parts ! 0 @ ''\",route=\"'' @ parts ! 1 @ ''\",status=\"'' @ parts ! 2 @ ''\"'')"

definition request_line :: "string \<times> nat \<Rightarrow> string" where
  "request_line entry = ''recruiting_os_http_requests_total{'' @ metrics_labels (fst entry) @ ''} '' @ show_nat (snd entry)"

definition duration_lines :: "MetricsRegistry \<Rightarrow> string \<times> rat \<Rightarrow> string list" where
  "duration_lines m entry =
     (let labels = metrics_labels (fst entry);
          buckets = nullish (map_of (mr_durationBuckets m) (fst entry)) (map (\<lambda>_. 0) durationBucketsMs);
          total = show_nat (nullish (map_of (mr_requests m) (fst entry)) 0) in
      map2 (\<lambda>bound count. ''recruiting_os_http_request_duration_ms_bucket{'' @ labels @ '',le=\"'' @ show_nat bound @
          ''\"} '' @ show_nat count) durationBucketsMs buckets @
      [''recruiting_os_http_request_duration_ms_bucket{'' @ labels @ '',le=\"+Inf\"} '' @ total,
       ''recruiting_os_http_request_duration_ms_sum{'' @ labels @ ''} '' @ toFixed3 (snd entry),
       ''recruiting_os_http_request_duration_ms_count{'' @ labels @ ''} '' @ total])"

definition render :: "MetricsRegistry \<Rightarrow> string" where
  "render m = join_with [CHR 0x0A]
     ([''# HELP recruiting_os_http_requests_total Completed HTTP requests.'',
       ''# TYPE recruiting_os_http_requests_total counter''] @
      map request_line (mr_requests m) @
      [''# HELP recruiting_os_http_request_duration_ms Request duration in milliseconds.'',
       ''# TYPE recruiting_os_http_request_duration_ms histogram''] @
      concat (map (duration_lines m) (mr_durationMs m))) @ [CHR 0x0A]"

text \<open>The text of a number with at most three decimals, as the ages in the statistics are.\<close>

definition show_thousandths :: "rat option \<Rightarrow> string" where
  "show_thousandths v = (case v of None \<Rightarrow> ''NaN'' | Some x \<Rightarrow>
     (let n = nat \<lfloor>x * 1000\<rfloor>;
          decimals = rev (dropWhile (\<lambda>c. c = CHR ''0'') (rev (padStart 3 (CHR ''0'') (show_nat (n mod 1000))))) in
      show_nat (n div 1000) @ (if decimals = [] then [] else ''.'' @ decimals)))"

definition queueMetrics :: "QueueStats \<Rightarrow> string" where
  "queueMetrics q = concat (map (\<lambda>line. line @ [CHR 0x0A])
     [''# HELP recruiting_os_jobs Jobs by state for the configured tenant.'', ''# TYPE recruiting_os_jobs gauge'',
      ''recruiting_os_jobs{status=\"queued\"} '' @ show_nat (stat_queued q),
      ''recruiting_os_jobs{status=\"running\"} '' @ show_nat (stat_running q),
      ''recruiting_os_jobs{status=\"retryable_failed\"} '' @ show_nat (stat_retryableFailed q),
      ''recruiting_os_jobs{status=\"dead_letter\"} '' @ show_nat (stat_deadLetter q),
      ''recruiting_os_jobs{status=\"cancelled\"} '' @ show_nat (stat_cancelled q),
      ''# HELP recruiting_os_oldest_ready_job_age_seconds Oldest ready job age.'',
      ''# TYPE recruiting_os_oldest_ready_job_age_seconds gauge'',
      ''recruiting_os_oldest_ready_job_age_seconds '' @ show_thousandths (stat_oldestReadyAgeSeconds q)])"

definition renderMetrics ::
    "MetricsRegistry option \<Rightarrow> (string \<Rightarrow> int option) \<Rightarrow> (nat \<Rightarrow> int) \<Rightarrow> string \<Rightarrow> string store_op" where
  "renderMetrics metrics legacy clk tenantId =
     bindE (stats legacy clk tenantId) (\<lambda>q.
       retE ((case metrics of None \<Rightarrow> [] | Some m \<Rightarrow> render m) @ queueMetrics q))"

section \<open>What the registry counts\<close>

record observation =
  ob_verb :: string
  ob_route :: string
  ob_status :: nat
  ob_elapsed :: rat

abbreviation ob_key :: "observation \<Rightarrow> string" where
  "ob_key x \<equiv> metrics_key (ob_verb x) (ob_route x) (ob_status x)"

definition record_all :: "observation list \<Rightarrow> MetricsRegistry" where
  "record_all xs = foldl (\<lambda>m x. observe (ob_verb x) (ob_route x) (ob_status x) (ob_elapsed x) m) new_metrics xs"

lemma map_of_map_set [simp]: "map_of (map_set k v kvs) k' = (if k' = k then Some v else map_of kvs k')"
  by (induction kvs) auto

lemma record_all_snoc:
  "record_all (xs @ [x]) = observe (ob_verb x) (ob_route x) (ob_status x) (ob_elapsed x) (record_all xs)"
  by (simp add: record_all_def)

text \<open>The registry holds what its exposition claims: per key the number of requests, their total time and,
  cumulatively, the number of those that took at most each bound.\<close>

lemma metrics_exact:
  "nullish (map_of (mr_requests (record_all xs)) key) 0 = length (filter (\<lambda>x. ob_key x = key) xs) \<and>
   nullish (map_of (mr_durationMs (record_all xs)) key) 0 = sum_list (map ob_elapsed (filter (\<lambda>x. ob_key x = key) xs)) \<and>
   nullish (map_of (mr_durationBuckets (record_all xs)) key) (map (\<lambda>_. 0) durationBucketsMs) =
     map (\<lambda>bound. length (filter (\<lambda>x. ob_key x = key \<and> ob_elapsed x \<le> of_nat bound) xs)) durationBucketsMs"
proof (induction xs rule: rev_induct)
  case Nil
  then show ?case by (simp add: record_all_def new_metrics_def nullish_def)
next
  case (snoc x xs)
  have upd: "map2 f bs (map g bs) = map (\<lambda>b. f b (g b)) bs" for f :: "nat \<Rightarrow> nat \<Rightarrow> nat" and g bs
    by (induction bs) auto
  show ?case
    using snoc.IH by (auto simp: record_all_snoc observe_def Let_def nullish_def upd add.commute)
qed

end
