(* ===== verification/Routes.thy ===== *)
theory Routes
  imports Oidc Privacy Resolver Metrics
begin

text \<open>
  The handlers of src/src/http/routes over the SQLite stores: the recruiting, connector, privacy and
  session routes. A handler gets the request, the authentication that the gate left on it, and the
  readings of the clock and random values of this call; it returns its status, the cookies it sets or
  clears and its body.
\<close>

record deps =
  dep_config :: AppConfig
  dep_library :: schema_library
  dep_sha :: "string \<Rightarrow> string"
  dep_base64 :: "string \<Rightarrow> nat list"
  dep_legacy :: "string \<Rightarrow> int option"
  dep_audit :: bool
  dep_privacy :: bool
  dep_metrics :: "MetricsRegistry option"
  dep_gcm :: gcm
  dep_vault :: "vault option"
  dep_oauth :: "(provider_configuration \<times> token_endpoint) option"
  dep_parse_at :: "string \<Rightarrow> string \<Rightarrow> URL option"
  dep_challenge :: "string \<Rightarrow> string"
  dep_unsign :: "string \<Rightarrow> string option"
  dep_oidc :: "(oidc_outside \<times> OidcOptions \<times> (string \<Rightarrow> error + http_response) \<times>
    (string \<Rightarrow> (string \<times> string) list \<Rightarrow> error + http_response)) option"

record call =
  call_clk :: "nat \<Rightarrow> int"
  call_uuid :: string
  call_nonce :: "nat list"
  call_token :: string
  call_csrf :: string
  call_session :: string
  call_state :: string
  call_verifier :: string

text \<open>The cookies of a reply: \<open>setSignedCookie\<close>, \<open>setSessionCookies\<close> and \<open>clearCookie\<close>.\<close>

record cookie_options =
  co_path :: string
  co_httpOnly :: bool
  co_secure :: bool
  co_sameSite :: string
  co_signed :: bool
  co_maxAge :: int

datatype cookie = SetCookie string string cookie_options | ClearCookie string string

definition setSignedCookie :: "string \<Rightarrow> string \<Rightarrow> bool \<Rightarrow> int \<Rightarrow> string \<Rightarrow> cookie list" where
  "setSignedCookie name content secure maxAge path =
     [SetCookie name content \<lparr>co_path = path, co_httpOnly = True, co_secure = secure, co_sameSite = ''lax'',
        co_signed = True, co_maxAge = maxAge\<rparr>]"

definition setSessionCookies :: "string \<Rightarrow> string \<Rightarrow> string \<Rightarrow> bool \<Rightarrow> int \<Rightarrow> cookie list" where
  "setSessionCookies cookieName token csrf secure maxAge =
     [SetCookie cookieName token \<lparr>co_path = ''/'', co_httpOnly = True, co_secure = secure, co_sameSite = ''lax'',
        co_signed = False, co_maxAge = maxAge\<rparr>,
      SetCookie ''recruiting_csrf'' csrf \<lparr>co_path = ''/'', co_httpOnly = False, co_secure = secure,
        co_sameSite = ''strict'', co_signed = False, co_maxAge = maxAge\<rparr>]"

record 'a reply =
  rep_status :: nat
  rep_cookies :: "cookie list"
  rep_body :: 'a

abbreviation ok :: "'a \<Rightarrow> 'a reply" where
  "ok x \<equiv> \<lparr>rep_status = 200, rep_cookies = [], rep_body = x\<rparr>"

abbreviation production :: "deps \<Rightarrow> bool" where
  "production d \<equiv> cfg_environment (dep_config d) = ''production''"

abbreviation CSRF_COOKIE :: string where "CSRF_COOKIE \<equiv> ''recruiting_csrf''"

abbreviation OIDC_COOKIE :: string where "OIDC_COOKIE \<equiv> ''recruiting_oidc_state''"

abbreviation PROVIDER_COOKIE :: string where "PROVIDER_COOKIE \<equiv> ''recruiting_provider_state''"

definition as_principal ::
    "SessionAuthentication option \<Rightarrow> (AuthPrincipal \<Rightarrow> 'a store_op) \<Rightarrow> 'a store_op" where
  "as_principal auth k = bindE (lift_result (authentication auth)) (\<lambda>a. k (sa_principal a))"

text \<open>\<open>await auditLog?.write(...)\<close>, at the last reading of the clock.\<close>

definition audit ::
    "deps \<Rightarrow> call \<Rightarrow> request \<Rightarrow> AuthPrincipal \<Rightarrow> string \<Rightarrow> string \<Rightarrow> string option \<Rightarrow> json option \<Rightarrow> unit store_op" where
  "audit d c request caller action resourceType resourceId metadata =
     (if dep_audit d then audit_write (call_uuid c) (call_clk c 99)
        \<lparr>ev_tenantId = prin_tenantId caller, ev_actorId = Some (prin_userId caller), ev_action = action,
         ev_resourceType = resourceType, ev_resourceId = resourceId, ev_requestId = Some (req_id request),
         ev_metadata = metadata\<rparr>
      else retE ())"

section \<open>Recruiting routes\<close>

definition get_me :: "SessionAuthentication option \<Rightarrow> AuthPrincipal reply store_op" where
  "get_me auth = as_principal auth (\<lambda>caller. retE (ok caller))"

definition get_admin_metrics ::
    "deps \<Rightarrow> call \<Rightarrow> SessionAuthentication option \<Rightarrow> string reply store_op" where
  "get_admin_metrics d c auth = as_principal auth (\<lambda>caller.
     bindE (lift_result (requireRole caller [platform_admin])) (\<lambda>_.
     bindE (renderMetrics (dep_metrics d) (dep_legacy d) (call_clk c) (prin_tenantId caller)) (\<lambda>rendered.
       retE (ok rendered))))"

text \<open>The scrape route stands behind the bearer token of the gate and has no principal.\<close>

definition get_metrics :: "deps \<Rightarrow> call \<Rightarrow> string reply store_op" where
  "get_metrics d c = bindE (renderMetrics (dep_metrics d) (dep_legacy d) (call_clk c)
     (cfg_defaultTenantId (dep_config d))) (\<lambda>rendered. retE (ok rendered))"

definition get_dashboard ::
    "deps \<Rightarrow> SessionAuthentication option \<Rightarrow> (OrganizationDto \<times> OpportunityDto list) list reply store_op" where
  "get_dashboard d auth = as_principal auth (\<lambda>caller.
     bindE (listOrganizations (prin_tenantId caller)) (\<lambda>orgs.
     bindE (mapE (\<lambda>organization.
         bindE (listOpportunities (Some (org_id organization)) (prin_tenantId caller)) (\<lambda>ops.
           retE (organizationDto (dep_library d) organization, map (opportunityDto (dep_library d)) ops))) orgs)
       (\<lambda>xs. retE (ok xs))))"

definition get_organization ::
    "deps \<Rightarrow> request \<Rightarrow> SessionAuthentication option \<Rightarrow> (OrganizationDto \<times> OpportunityDto list) reply store_op" where
  "get_organization d request auth = as_principal auth (\<lambda>caller.
     bindE (lift_result (idParam (dep_library d) ''id'' (req_params request))) (\<lambda>i.
     bindE (getOrganization i (prin_tenantId caller)) (\<lambda>found.
       case found of None \<Rightarrow> throwE (AppError ''Organization not found'' 404 ''NOT_FOUND'' True)
       | Some organization \<Rightarrow>
         bindE (listOpportunities (Some i) (prin_tenantId caller)) (\<lambda>ops.
           retE (ok (organizationDto (dep_library d) organization, map (opportunityDto (dep_library d)) ops))))))"

definition get_evidence ::
    "deps \<Rightarrow> call \<Rightarrow> request \<Rightarrow> SessionAuthentication option \<Rightarrow> Claim list reply store_op" where
  "get_evidence d c request auth = as_principal auth (\<lambda>caller.
     bindE (lift_result (idParam (dep_library d) ''id'' (req_params request))) (\<lambda>i.
     bindE (lift_result (requireOrganizationAccess caller i)) (\<lambda>_.
     bindE (listClaims i (prin_tenantId caller)) (\<lambda>cs.
     bindE (audit d c request caller ''evidence.read'' ''organization'' (Some i) None) (\<lambda>_.
       retE (ok cs))))))"

definition overrideParams :: "schema_library \<Rightarrow> json \<Rightarrow> error + string \<times> string" where
  "overrideParams lib params =
     (case zod_check lib ''params'' [(''id'', text_in 1 80 (json_get params ''id'')),
        (''opportunityId'', text_in 1 80 (json_get params ''opportunityId''))] of
        Inl e \<Rightarrow> Inl e | Inr _ \<Rightarrow> Inr (the (json_text params ''id''), the (json_text params ''opportunityId'')))"

definition override_of ::
    "deps \<Rightarrow> call \<Rightarrow> AuthPrincipal \<Rightarrow> string \<Rightarrow> string \<Rightarrow> json \<times> string \<Rightarrow> OpportunityOverride" where
  "override_of d c caller i opportunityId body =
     \<lparr>ovr_id = stableId (dep_sha d) ''override'' (prin_tenantId caller @ '':'' @ opportunityId @ '':'' @
        show_int (call_clk c 0) @ '':'' @ prin_userId caller),
      ovr_tenantId = prin_tenantId caller, ovr_opportunityId = opportunityId, ovr_organizationId = i,
      ovr_actorId = Some (prin_userId caller), ovr_patch = patch_of (fst body), ovr_reason = snd body,
      ovr_createdAt = toISOString (call_clk c 1)\<rparr>"

text \<open>The clock: 0 and 1 for the override, 2 for the resolution, \<open>3 + n\<close> inside it.\<close>

definition post_override ::
    "deps \<Rightarrow> call \<Rightarrow> request \<Rightarrow> SessionAuthentication option \<Rightarrow> Opportunity option reply store_op" where
  "post_override d c request auth = as_principal auth (\<lambda>caller.
     bindE (lift_result (overrideParams (dep_library d) (req_params request))) (\<lambda>(i, opportunityId).
     bindE (lift_result (requireOrganizationAccess caller i)) (\<lambda>_.
     bindE (lift_result (overrideSchema (dep_library d) (req_body request))) (\<lambda>body.
     bindE (listOpportunities (Some i) (prin_tenantId caller)) (\<lambda>before.
       if find (\<lambda>item. opp_id item = opportunityId) before = None then
         throwE (AppError ''Opportunity not found'' 404 ''NOT_FOUND'' True)
       else
         bindE (transaction (bindE (putOpportunityOverride (override_of d c caller i opportunityId body)
               (prin_tenantId caller)) (\<lambda>_.
             resolveOrganization (sqlite_repository (dep_sha d)) (dep_legacy d) (dep_sha d)
               (\<lambda>n. call_clk c (4 + n)) (call_clk c 3) i (call_clk c 2) (prin_tenantId caller)))) (\<lambda>_.
         bindE (audit d c request caller ''opportunity.override'' ''opportunity'' (Some opportunityId)
             (Some (JObj [(''organizationId'', JStr i), (''reason'', JStr (snd body))]))) (\<lambda>_.
         bindE (listOpportunities (Some i) (prin_tenantId caller)) (\<lambda>after.
           retE \<lparr>rep_status = 201, rep_cookies = [],
             rep_body = find (\<lambda>item. opp_id item = opportunityId) after\<rparr>))))))))"

definition post_organization ::
    "deps \<Rightarrow> call \<Rightarrow> request \<Rightarrow> SessionAuthentication option \<Rightarrow> OrganizationDto reply store_op" where
  "post_organization d c request auth = as_principal auth (\<lambda>caller.
     bindE (lift_result (requireRole caller [platform_admin])) (\<lambda>_.
     bindE (lift_result (organizationSchema (dep_library d) (req_body request))) (\<lambda>body.
     bindE (upsertOrganization (call_clk c) body (prin_tenantId caller)) (\<lambda>_.
     bindE (audit d c request caller ''organization.upsert'' ''organization'' (Some (org_id body)) None) (\<lambda>_.
       retE \<lparr>rep_status = 201, rep_cookies = [], rep_body = organizationDto (dep_library d) body\<rparr>)))))"

definition enqueue_for ::
    "deps \<Rightarrow> call \<Rightarrow> AuthPrincipal \<Rightarrow> string \<Rightarrow> string \<Rightarrow> json \<Rightarrow> Job store_op" where
  "enqueue_for d c caller type key payload = enqueue (dep_sha d) (\<lambda>n. call_clk c (1 + n))
     \<lparr>enq_tenantId = prin_tenantId caller, enq_type = type, enq_idempotencyKey = key, enq_payload = payload,
      enq_priority = None, enq_maxAttempts = None, enq_availableAt = None\<rparr>"

abbreviation accepted :: "Job \<Rightarrow> (string \<times> JobStatus) reply" where
  "accepted job \<equiv> \<lparr>rep_status = 202, rep_cookies = [], rep_body = (job_id job, job_status job)\<rparr>"

definition organization_of :: "(string \<times> json) list \<Rightarrow> string" where
  "organization_of body = nullish (json_text (JObj body) ''organizationId'') []"

definition post_ingest_url ::
    "deps \<Rightarrow> call \<Rightarrow> request \<Rightarrow> SessionAuthentication option \<Rightarrow> (string \<times> JobStatus) reply store_op" where
  "post_ingest_url d c request auth = as_principal auth (\<lambda>caller.
     bindE (lift_result (ingestUrlSchema (dep_library d) (req_body request))) (\<lambda>body.
     bindE (lift_result (requireOrganizationAccess caller (organization_of body))) (\<lambda>_.
     bindE (lift_result (idempotencyKey (dep_sha d) (call_clk c 0) request auth (JObj body))) (\<lambda>key.
     bindE (enqueue_for d c caller ''ingest.url'' key (JObj (body @ [(''userId'', JStr (prin_userId caller))]))) (\<lambda>job.
     bindE (audit d c request caller ''ingestion.url.queued'' ''job'' (Some (job_id job))
         (Some (JObj [(''organizationId'', JStr (organization_of body))]))) (\<lambda>_.
       retE (accepted job)))))))"

text \<open>The key of a screenshot is computed from the hash of the image.\<close>

definition hashed_image :: "(string \<Rightarrow> string) \<Rightarrow> (string \<times> json) list \<Rightarrow> json" where
  "hashed_image sha body = JObj (map (\<lambda>(k, v). (k, if k = ''base64'' then
     (case v of JStr s \<Rightarrow> JStr (sha s) | _ \<Rightarrow> v) else v)) body)"

definition post_ingest_screenshot ::
    "deps \<Rightarrow> call \<Rightarrow> request \<Rightarrow> SessionAuthentication option \<Rightarrow> (string \<times> JobStatus) reply store_op" where
  "post_ingest_screenshot d c request auth = as_principal auth (\<lambda>caller.
     bindE (lift_result (screenshotSchema (dep_library d) (req_body request))) (\<lambda>body.
     bindE (lift_result (requireOrganizationAccess caller (organization_of body))) (\<lambda>_.
     bindE (lift_result (case validateScreenshotBytes (dep_base64 d) (nullish (json_text (JObj body) ''base64'') [])
           (nullish (json_text (JObj body) ''mimeType'') []) (cfg_limits_screenshotBytes (dep_config d)) of
         Inl e \<Rightarrow> Inl (ValidationError (error_message e)) | Inr _ \<Rightarrow> Inr ())) (\<lambda>_.
     bindE (lift_result (idempotencyKey (dep_sha d) (call_clk c 0) request auth (hashed_image (dep_sha d) body))) (\<lambda>key.
     bindE (enqueue_for d c caller ''ingest.screenshot'' key (JObj (body @ [(''userId'', JStr (prin_userId caller))]))) (\<lambda>job.
     bindE (audit d c request caller ''ingestion.screenshot.queued'' ''job'' (Some (job_id job))
         (Some (JObj [(''organizationId'', JStr (organization_of body)), (''consentToProcess'', JBool True),
           (''policyVersion'', JStr DATA_POLICY_VERSION)]))) (\<lambda>_.
       retE (accepted job))))))))"

definition screenshotRequestBodyLimit :: "int \<Rightarrow> int" where
  "screenshotRequestBodyLimit maxScreenshotBytes = (- ((- maxScreenshotBytes) div 3)) * 4 + 16384"

section \<open>Connector routes\<close>

definition requireCredentialVault :: "deps \<Rightarrow> error + vault" where
  "requireCredentialVault d = (case dep_vault d of
     None \<Rightarrow> Inl (AppError ''Credential vault is unavailable'' 503 ''CONNECTOR_UNAVAILABLE'' True) | Some v \<Rightarrow> Inr v)"

text \<open>\<open>ProviderOAuthService.authorization\<close>: the endpoint with its query parameters, and the state kept in a
  signed cookie.\<close>

definition oauth_authorization ::
    "deps \<Rightarrow> call \<Rightarrow> provider_configuration \<Rightarrow> OAuthProvider \<Rightarrow> string \<Rightarrow> string \<Rightarrow>
       error + (string \<times> (string \<times> string) list) \<times> ProviderOAuthState" where
  "oauth_authorization d c configuration provider userId tenantId =
     (case provider_definition configuration provider of Inl e \<Rightarrow> Inl e
      | Inr def \<Rightarrow>
        Inr ((pd_authorizationEndpoint def,
          [(''client_id'', pd_clientId def), (''redirect_uri'', pd_redirectUri def), (''response_type'', ''code'')] @
          (if pd_scopes def \<noteq> [] then [(''scope'', join_with '' '' (pd_scopes def))] else []) @
          [(''state'', call_state c), (''code_challenge'', dep_challenge d (call_verifier c)),
           (''code_challenge_method'', ''S256'')] @ pd_extra def),
         \<lparr>os_provider = provider, os_state = call_state c, os_verifier = call_verifier c, os_userId = userId,
          os_tenantId = tenantId,
          os_returnTo = safeRelativeReturnTo (dep_parse_at d) ''/?connectors=1'' ''/?connectors=1''\<rparr>))"

definition state_json :: "ProviderOAuthState \<Rightarrow> json" where
  "state_json st = JObj [(''provider'', JStr (provider_text (os_provider st))), (''state'', JStr (os_state st)),
     (''verifier'', JStr (os_verifier st)), (''userId'', JStr (os_userId st)), (''tenantId'', JStr (os_tenantId st)),
     (''returnTo'', JStr (os_returnTo st))]"

definition providerStateSchema :: "json \<Rightarrow> ProviderOAuthState option" where
  "providerStateSchema v =
     (case Option.bind (json_text v ''provider'') provider_of_text of None \<Rightarrow> None
      | Some provider \<Rightarrow>
        if text_sat (\<lambda>s. s \<noteq> []) (json_get v ''state'') \<and> text_sat (\<lambda>s. s \<noteq> []) (json_get v ''verifier'') \<and>
           text_sat (\<lambda>s. s \<noteq> []) (json_get v ''userId'') \<and> text_sat (\<lambda>s. s \<noteq> []) (json_get v ''tenantId'') \<and>
           text_sat (\<lambda>s. starts_with s ''/'') (json_get v ''returnTo'') then
          Some \<lparr>os_provider = provider, os_state = the (json_text v ''state''),
            os_verifier = the (json_text v ''verifier''), os_userId = the (json_text v ''userId''),
            os_tenantId = the (json_text v ''tenantId''), os_returnTo = the (json_text v ''returnTo'')\<rparr>
        else None)"

definition post_connect ::
    "deps \<Rightarrow> call \<Rightarrow> request \<Rightarrow> SessionAuthentication option \<Rightarrow> (string \<times> (string \<times> string) list) reply store_op" where
  "post_connect d c request auth =
     (case dep_oauth d of None \<Rightarrow> throwE (AppError ''Connector OAuth is unavailable'' 503 ''CONNECTOR_UNAVAILABLE'' True)
      | Some (configuration, _) \<Rightarrow> as_principal auth (\<lambda>caller.
        bindE (lift_result (providerSchema (dep_library d) (req_params request))) (\<lambda>provider.
        bindE (lift_result (zod_check (dep_library d) ''connect''
            [(''consentToProcess'', json_get (req_body request) ''consentToProcess'' = Some (JBool True)),
             ([], only_keys [''consentToProcess''] (req_body request))])) (\<lambda>_.
        if \<not> configured configuration provider then
          throwE (AppError ''Connector is not configured'' 503 ''CONNECTOR_NOT_CONFIGURED'' True)
        else
          bindE (lift_result (oauth_authorization d c configuration provider (prin_userId caller)
            (prin_tenantId caller))) (\<lambda>(url, st).
          bindE (audit d c request caller ''connector.connect.start'' ''connector'' (Some (provider_text provider))
            (Some (JObj [(''consentToProcess'', JBool True), (''policyVersion'', JStr DATA_POLICY_VERSION)]))) (\<lambda>_.
          retE \<lparr>rep_status = 200, rep_cookies = setSignedCookie PROVIDER_COOKIE (stringify (state_json st))
              (production d) 600 ''/api/connectors'',
            rep_body = url\<rparr>))))))"

definition connector_state_of :: "deps \<Rightarrow> request \<Rightarrow> error + ProviderOAuthState" where
  "connector_state_of d request =
     (case req_cookies request PROVIDER_COOKIE of
        None \<Rightarrow> Inl (AppError ''OAuth state is missing'' 400 ''OAUTH_STATE_MISSING'' True)
      | Some cookie \<Rightarrow>
        if cookie = [] then Inl (AppError ''OAuth state is missing'' 400 ''OAUTH_STATE_MISSING'' True)
        else (case dep_unsign d cookie of
            None \<Rightarrow> Inl (AppError ''OAuth state is invalid'' 400 ''OAUTH_STATE_INVALID'' True)
          | Some plain \<Rightarrow>
            (case Option.bind (JSON_parse plain) providerStateSchema of
               None \<Rightarrow> Inl (AppError ''OAuth state is invalid'' 400 ''OAUTH_STATE_INVALID'' True)
             | Some st \<Rightarrow> Inr st)))"

definition querySchema :: "schema_library \<Rightarrow> json \<Rightarrow> error + string \<times> string" where
  "querySchema lib query =
     (case zod_check lib ''query'' [(''code'', text_sat (\<lambda>s. s \<noteq> []) (json_get query ''code'')),
        (''state'', text_sat (\<lambda>s. s \<noteq> []) (json_get query ''state''))] of
        Inl e \<Rightarrow> Inl e | Inr _ \<Rightarrow> Inr (the (json_text query ''code''), the (json_text query ''state'')))"

text \<open>The callback of a provider stands outside the gate and authenticates itself. The clock: 0 and 1 in
  the authentication, 2 in the token, 3 in the vault.\<close>

definition get_connector_callback :: "deps \<Rightarrow> call \<Rightarrow> request \<Rightarrow> string reply store_op" where
  "get_connector_callback d c request =
     (case (dep_oauth d, dep_vault d) of
        (Some (configuration, endpoint), Some v) \<Rightarrow>
        bindE (authenticate (sqlite_auth (dep_sha d)) (dep_sha d) (call_clk c)
            (req_cookies request (sessionCookieName (dep_config d)))) (\<lambda>session.
        bindE (lift_result (authentication session)) (\<lambda>a.
        bindE (lift_result (providerSchema (dep_library d) (req_params request))) (\<lambda>provider.
        bindE (lift_result (querySchema (dep_library d) (req_query request))) (\<lambda>(code, state).
        bindE (lift_result (connector_state_of d request)) (\<lambda>st.
        if os_state st \<noteq> state \<or> os_provider st \<noteq> provider \<or> os_userId st \<noteq> prin_userId (sa_principal a) \<or>
           os_tenantId st \<noteq> prin_tenantId (sa_principal a) then
          throwE (AppError ''OAuth state mismatch'' 400 ''OAUTH_STATE_INVALID'' True)
        else
          bindE (lift_result (oauth_callback configuration endpoint (call_clk c 2) provider code st)) (\<lambda>credential.
          bindE (vault_put sqlite_credentials (dep_sha d) (dep_gcm d) v (call_nonce c) (call_clk c 3)
            (os_tenantId st) (os_userId st) (provider_text provider) credential) (\<lambda>_.
          bindE (audit d c request (sa_principal a) ''connector.connect.complete'' ''connector''
            (Some (provider_text provider)) None) (\<lambda>_.
          retE \<lparr>rep_status = 302, rep_cookies = [ClearCookie PROVIDER_COOKIE ''/api/connectors''],
            rep_body = safeRelativeReturnTo (dep_parse_at d) (os_returnTo st) ''/?connectors=1''\<rparr>))))))))
      | _ \<Rightarrow> throwE (AppError ''Connector OAuth is unavailable'' 503 ''CONNECTOR_UNAVAILABLE'' True))"

definition get_connector_status ::
    "deps \<Rightarrow> request \<Rightarrow> SessionAuthentication option \<Rightarrow>
       (OAuthProvider \<times> bool \<times> string option \<times> string list) reply store_op" where
  "get_connector_status d request auth =
     bindE (lift_result (requireCredentialVault d)) (\<lambda>v. as_principal auth (\<lambda>caller.
     bindE (lift_result (providerSchema (dep_library d) (req_params request))) (\<lambda>provider.
     bindE (vault_get sqlite_credentials (dep_gcm d) v (prin_tenantId caller) (prin_userId caller)
         (provider_text provider)) (\<lambda>found.
       retE (ok (provider, found \<noteq> None, Option.bind found pc_expiresAt,
         case found of None \<Rightarrow> [] | Some x \<Rightarrow> pc_scopes x))))))"

text \<open>The clock: 0 and 1 in the vault, \<open>2 + n\<close> in the queue.\<close>

definition delete_connector ::
    "deps \<Rightarrow> call \<Rightarrow> request \<Rightarrow> SessionAuthentication option \<Rightarrow> nat reply store_op" where
  "delete_connector d c request auth =
     bindE (lift_result (requireCredentialVault d)) (\<lambda>v. as_principal auth (\<lambda>caller.
     bindE (lift_result (providerSchema (dep_library d) (req_params request))) (\<lambda>provider.
     bindE (vault_revoke sqlite_credentials (call_clk c) (prin_tenantId caller) (prin_userId caller)
         (provider_text provider)) (\<lambda>_.
     bindE (cancelPending (\<lambda>n. call_clk c (2 + n)) \<lparr>can_tenantId = prin_tenantId caller, can_type = ''connector.sync'',
         can_payload = [(''provider'', provider_text provider), (''userId'', prin_userId caller)]\<rparr>) (\<lambda>cancelledJobs.
     bindE (audit d c request caller ''connector.revoke'' ''connector'' (Some (provider_text provider))
         (Some (JObj [(''cancelledJobs'', JNum (int cancelledJobs))]))) (\<lambda>_.
       retE (ok cancelledJobs)))))))"

definition post_sync ::
    "deps \<Rightarrow> call \<Rightarrow> request \<Rightarrow> SessionAuthentication option \<Rightarrow> (string \<times> JobStatus) reply store_op" where
  "post_sync d c request auth =
     bindE (lift_result (requireCredentialVault d)) (\<lambda>v. as_principal auth (\<lambda>caller.
     bindE (lift_result (providerSchema (dep_library d) (req_params request))) (\<lambda>provider.
     bindE (lift_result (syncSchema (dep_library d) (req_body request))) (\<lambda>body.
     bindE (lift_result (requireOrganizationAccess caller (organization_of body))) (\<lambda>_.
     if provider = p_groupme \<and> \<not> truthy (json_text (JObj body) ''scope'') then
       throwE (ValidationError ''GroupMe sync requires a group ID scope'')
     else
       bindE (vault_get sqlite_credentials (dep_gcm d) v (prin_tenantId caller) (prin_userId caller)
           (provider_text provider)) (\<lambda>found.
         if found = None then throwE (AppError ''Connector is not connected'' 409 ''CONNECTOR_NOT_CONNECTED'' True)
         else
           (let named = (''provider'', JStr (provider_text provider)) in
            bindE (lift_result (idempotencyKey (dep_sha d) (call_clk c 0) request auth (JObj (named # body)))) (\<lambda>key.
            bindE (enqueue_for d c caller ''connector.sync'' key
                (JObj (named # (''userId'', JStr (prin_userId caller)) # body))) (\<lambda>job.
            bindE (audit d c request caller ''connector.sync.queued'' ''job'' (Some (job_id job))
                (Some (JObj [named, (''organizationId'', JStr (organization_of body))]))) (\<lambda>_.
              retE (accepted job)))))))))))"

section \<open>Privacy and session routes\<close>

definition get_export ::
    "deps \<Rightarrow> call \<Rightarrow> request \<Rightarrow> SessionAuthentication option \<Rightarrow> AccountDataExport reply store_op" where
  "get_export d c request auth =
     (if \<not> dep_privacy d then throwE (AppError ''Account export is unavailable'' 503 ''PRIVACY_UNAVAILABLE'' True)
      else as_principal auth (\<lambda>caller.
        bindE (getE (exportAccount (call_clk c 0) (prin_tenantId caller) (prin_userId caller))) (\<lambda>found.
          case found of None \<Rightarrow> throwE (AppError ''Account not found'' 404 ''NOT_FOUND'' True)
          | Some data \<Rightarrow>
            bindE (audit d c request caller ''privacy.export'' ''account'' None None) (\<lambda>_. retE (ok data)))))"

definition delete_me ::
    "deps \<Rightarrow> call \<Rightarrow> request \<Rightarrow> SessionAuthentication option \<Rightarrow> AccountErasureResult reply store_op" where
  "delete_me d c request auth =
     (if \<not> dep_privacy d then throwE (AppError ''Account deletion is unavailable'' 503 ''PRIVACY_UNAVAILABLE'' True)
      else bindE (lift_result (zod_check (dep_library d) ''erase''
          [(''confirmation'', json_get (req_body request) ''confirmation'' = Some (JStr ''DELETE_MY_ACCOUNT'')),
           ([], only_keys [''confirmation''] (req_body request))])) (\<lambda>_. as_principal auth (\<lambda>caller.
        bindE (eraseAccount (dep_sha d) (call_clk c 0) (prin_tenantId caller) (prin_userId caller) (req_id request)) (\<lambda>result.
          if \<not> er_membershipDeleted result then throwE (AppError ''Account not found'' 404 ''NOT_FOUND'' True)
          else retE \<lparr>rep_status = 202, rep_cookies = [ClearCookie (sessionCookieName (dep_config d)) ''/'', ClearCookie CSRF_COOKIE ''/''],
            rep_body = result\<rparr>))))"

definition post_development ::
    "deps \<Rightarrow> call \<Rightarrow> request \<Rightarrow> (AuthPrincipal \<times> string) reply store_op" where
  "post_development d c request =
     (if cfg_auth_mode (dep_config d) \<noteq> ''development'' \<or> cfg_environment (dep_config d) = ''production'' then
        throwE (AppError ''Not found'' 404 ''NOT_FOUND'' True)
      else bindE (lift_result (developmentLoginSchema (dep_library d) (req_body request))) (\<lambda>(email, displayName).
        if \<not> ends_with (toLowerCase email) (''@'' @ toLowerCase (cfg_auth_allowedEmailDomain (dep_config d))) then
          throwE (ValidationError ''Email domain is not allowed'')
        else
          bindE (issue (sqlite_auth (dep_sha d)) (dep_sha d) (cfg_auth_sessionTtlSeconds (dep_config d)) (call_clk c)
            (call_token c) (call_csrf c) (call_session c)
            \<lparr>oid_issuer = ''development'', oid_subject = toLowerCase email, oid_email = Some (toLowerCase email),
             oid_displayName = displayName\<rparr> (cfg_defaultTenantId (dep_config d)) [platform_admin]) (\<lambda>issued.
          retE \<lparr>rep_status = 200, rep_cookies = setSessionCookies (sessionCookieName (dep_config d)) (iss_token issued)
              (iss_csrfToken issued) False (cfg_auth_sessionTtlSeconds (dep_config d)),
            rep_body = (iss_principal issued, iss_csrfToken issued)\<rparr>)))"

definition post_logout :: "deps \<Rightarrow> call \<Rightarrow> request \<Rightarrow> SessionAuthentication option \<Rightarrow> unit reply store_op" where
  "post_logout d c request auth = as_principal auth (\<lambda>caller.
     bindE (revoke (sqlite_auth (dep_sha d)) (call_clk c 0) caller) (\<lambda>_.
     bindE (audit d c request caller ''session.revoke'' ''session'' (Some (prin_sessionId caller)) None) (\<lambda>_.
       retE \<lparr>rep_status = 200, rep_cookies = [ClearCookie (sessionCookieName (dep_config d)) ''/'', ClearCookie CSRF_COOKIE ''/''],
         rep_body = ()\<rparr>)))"

section \<open>Login\<close>

text \<open>The login routes work on the store and on the discovery cache of the OIDC client.\<close>

record login_state =
  lg_store :: store
  lg_cache :: discovery_cache

definition on_cache :: "(error, discovery_cache, 'a) op \<Rightarrow> (error, login_state, 'a) op" where
  "on_cache m s = (case m (lg_cache s) of (r, x) \<Rightarrow> (r, s\<lparr>lg_cache := x\<rparr>))"

definition on_login_store :: "'a store_op \<Rightarrow> (error, login_state, 'a) op" where
  "on_login_store m s = (case m (lg_store s) of (r, x) \<Rightarrow> (r, s\<lparr>lg_store := x\<rparr>))"

definition oidc_missing :: error where
  "oidc_missing = AppError ''OIDC is not configured'' 404 ''OIDC_NOT_CONFIGURED'' True"

definition oidc_state_json :: "OidcState \<Rightarrow> json" where
  "oidc_state_json st = JObj [(''state'', JStr (oi_state st)), (''nonce'', JStr (oi_nonce st)),
     (''verifier'', JStr (oi_verifier st)), (''returnTo'', JStr (oi_returnTo st))]"

definition get_login ::
    "deps \<Rightarrow> call \<Rightarrow> string \<Rightarrow> request \<Rightarrow> (error, login_state, (string \<times> (string \<times> string) list) reply) op" where
  "get_login d c nonce request =
     (case dep_oidc d of None \<Rightarrow> throwE oidc_missing
      | Some (out, opts, http, post) \<Rightarrow>
        bindE (on_cache (oidc_authorization out opts http (dep_parse_at d) (call_state c) nonce (call_verifier c)
            (nullish (json_text (req_query request) ''returnTo'') ''/''))) (\<lambda>(url, st).
          retE \<lparr>rep_status = 302, rep_cookies = setSignedCookie OIDC_COOKIE (stringify (oidc_state_json st)) (production d) 600
            ''/auth'',
            rep_body = url\<rparr>))"

definition oidcStateSchema :: "json \<Rightarrow> OidcState option" where
  "oidcStateSchema v =
     (if text_sat (\<lambda>s. s \<noteq> []) (json_get v ''state'') \<and> text_sat (\<lambda>s. s \<noteq> []) (json_get v ''nonce'') \<and>
        text_sat (\<lambda>s. s \<noteq> []) (json_get v ''verifier'') \<and> text_sat (\<lambda>s. starts_with s ''/'') (json_get v ''returnTo'')
      then Some \<lparr>oi_state = the (json_text v ''state''), oi_nonce = the (json_text v ''nonce''),
        oi_verifier = the (json_text v ''verifier''), oi_returnTo = the (json_text v ''returnTo'')\<rparr>
      else None)"

definition login_state_of :: "deps \<Rightarrow> request \<Rightarrow> error + OidcState" where
  "login_state_of d request =
     (if \<not> truthy (req_cookies request OIDC_COOKIE) then
        Inl (AppError ''OIDC state is missing'' 400 ''OIDC_STATE_MISSING'' True)
      else case dep_unsign d (the (req_cookies request OIDC_COOKIE)) of
          None \<Rightarrow> Inl (AppError ''OIDC state is invalid'' 400 ''OIDC_STATE_INVALID'' True)
        | Some plain \<Rightarrow>
          (case Option.bind (JSON_parse plain) oidcStateSchema of
             None \<Rightarrow> Inl (AppError ''OIDC state is invalid'' 400 ''OIDC_STATE_INVALID'' True)
           | Some st \<Rightarrow> Inr st))"

definition get_auth_callback ::
    "deps \<Rightarrow> call \<Rightarrow> request \<Rightarrow> (error, login_state, string reply) op" where
  "get_auth_callback d c request =
     (case dep_oidc d of None \<Rightarrow> throwE oidc_missing
      | Some (out, opts, http, post) \<Rightarrow>
        bindE (lift_result (querySchema (dep_library d) (req_query request))) (\<lambda>(code, state).
        bindE (lift_result (login_state_of d request)) (\<lambda>st.
        if oi_state st \<noteq> state then throwE (AppError ''OIDC state mismatch'' 400 ''OIDC_STATE_INVALID'' True)
        else
          bindE (on_cache (oidc_callback out opts http post code st)) (\<lambda>identity.
          bindE (on_login_store (issue (sqlite_auth (dep_sha d)) (dep_sha d)
            (cfg_auth_sessionTtlSeconds (dep_config d)) (call_clk c) (call_token c) (call_csrf c) (call_session c)
            identity (cfg_defaultTenantId (dep_config d))
            (initialRolesForIdentity (oid_email identity) (cfg_auth_initialPlatformAdminEmails (dep_config d))))) (\<lambda>issued.
          retE \<lparr>rep_status = 302, rep_cookies = setSessionCookies (sessionCookieName (dep_config d)) (iss_token issued)
              (iss_csrfToken issued) (production d) (cfg_auth_sessionTtlSeconds (dep_config d)) @
              [ClearCookie OIDC_COOKIE ''/auth''],
            rep_body = safeRelativeReturnTo (dep_parse_at d) (oi_returnTo st) ''/''\<rparr>)))))"

end
