(* ===== verification/RouteSafety.thy ===== *)
theory RouteSafety
  imports Routes StoreIntegrity
begin

text \<open>
  What the routes promise together: a call acts in the tenant of its principal only, needs the rights
  that the route asks for, and keeps the integrity of the database. The calls are taken as one
  interface, \<open>api\<close>.
\<close>

datatype api_call = Me | AdminMetrics | Dashboard | GetOrganization | Evidence | Override
  | UpsertOrganization | IngestUrl | IngestScreenshot | Connect | ConnectorStatus | RevokeConnector
  | SyncConnector | Export | Logout | DeleteMe

definition discard :: "('e, 's, 'a) op \<Rightarrow> ('e, 's, unit) op" where
  "discard m = bindE m (\<lambda>_. retE ())"

fun api :: "api_call \<Rightarrow> deps \<Rightarrow> call \<Rightarrow> request \<Rightarrow> SessionAuthentication option \<Rightarrow> unit store_op" where
  "api Me d c request auth = discard (get_me auth)"
| "api AdminMetrics d c request auth = discard (get_admin_metrics d c auth)"
| "api Dashboard d c request auth = discard (get_dashboard d auth)"
| "api GetOrganization d c request auth = discard (get_organization d request auth)"
| "api Evidence d c request auth = discard (get_evidence d c request auth)"
| "api Override d c request auth = discard (post_override d c request auth)"
| "api UpsertOrganization d c request auth = discard (post_organization d c request auth)"
| "api IngestUrl d c request auth = discard (post_ingest_url d c request auth)"
| "api IngestScreenshot d c request auth = discard (post_ingest_screenshot d c request auth)"
| "api Connect d c request auth = discard (post_connect d c request auth)"
| "api ConnectorStatus d c request auth = discard (get_connector_status d request auth)"
| "api RevokeConnector d c request auth = discard (delete_connector d c request auth)"
| "api SyncConnector d c request auth = discard (post_sync d c request auth)"
| "api Export d c request auth = discard (get_export d c request auth)"
| "api Logout d c request auth = discard (post_logout d c request auth)"
| "api DeleteMe d c request auth = discard (delete_me d c request auth)"

section \<open>The data of other tenants\<close>

definition foreign where
  "foreign t s = ((filter (\<lambda>r. og_tenant_id r \<noteq> t) (organizations s),
     filter (\<lambda>r. op_tenant_id r \<noteq> t) (opportunities s),
     filter (\<lambda>r. ov_tenant_id r \<noteq> t) (opportunity_overrides s),
     filter (\<lambda>r. au_tenant_id r \<noteq> t) (audit_events s), filter (\<lambda>r. jb_tenant_id r \<noteq> t) (jobs s),
     filter (\<lambda>r. ss_tenant_id r \<noteq> t) (sessions s), filter (\<lambda>r. cr_tenant_id r \<noteq> t) (credentials s),
     filter (\<lambda>r. tn_id r \<noteq> t) (tenants s)),
     (sources s, source_versions s, claims s, connector_state s, users s, memberships s,
      source_version_contributors s, tenant_queue_state s))"

lemma foreign_depth [simp]: "foreign t (s\<lparr>transactionDepth := n\<rparr>) = foreign t s"
  by (simp add: foreign_def)

lemma foreign_transaction [preserves_intros]:
  "preserves (\<lambda>s. foreign t s = k) m \<Longrightarrow> preserves (\<lambda>s. foreign t s = k) (transaction m)"
  by (rule preserves_transaction) simp_all

lemma preserves_lift_result [preserves_intros]: "preserves I (lift_result r)"
  by (cases r) (simp_all add: lift_result_def preserves_def effect_simps)

lemma preserves_mapE' [preserves_intros]: "(\<And>x. preserves I (f x)) \<Longrightarrow> preserves I (mapE f xs)"
  by (induction xs) (auto intro!: preserves_intros)

lemma preserves_Let [preserves_intros]: "preserves I (f x) \<Longrightarrow> preserves I (let y = x in f y)"
  by simp

lemma preserves_reads [preserves_intros]:
  "preserves I (listOrganizations t)" "preserves I (listOpportunities i t)" "preserves I (getOrganization i' t)"
  "preserves I (listClaims j t)" "preserves I (listOpportunityOverrides j t)" "preserves I (getSource j t)"
  "preserves I (stats legacy clk t)" "preserves I (renderMetrics metrics legacy clk2 t)" "preserves I (vault_get repo g v t u p)"
  unfolding listOrganizations_def listOpportunities_def getOrganization_def listClaims_def
    listOpportunityOverrides_def getSource_def renderMetrics_def stats_def vault_get_def
  by (intro preserves_intros)+

lemma foreign_update:
  assumes "\<And>r. g (f r) = g r" and "\<forall>r. p r \<longrightarrow> g r = t"
  shows "filter (\<lambda>r. g r \<noteq> t) (update_where p f T) = filter (\<lambda>r. g r \<noteq> t) T"
  by (rule filter_update_where) (use assms in auto)

lemmas foreign_simps = preserves_def foreign_def effect_simps Let_def foreign_update filter_delete_where
  org_key_def job_key_def credential_key_def

lemma foreign_statements [preserves_intros]:
  "preserves (\<lambda>s. foreign t s = k) (ensureTenant now t name)"
  "og_tenant_id row = t \<Longrightarrow> preserves (\<lambda>s. foreign t s = k) (upsert_organization_row row)"
  "ov_tenant_id row1 = t \<Longrightarrow> preserves (\<lambda>s. foreign t s = k) (insert_override_row row1)"
  "op_tenant_id row2 = t \<Longrightarrow> preserves (\<lambda>s. foreign t s = k) (insert_opportunity_row row2)"
  "preserves (\<lambda>s. foreign t s = k) (delete_opportunities t i)"
  "au_tenant_id row3 = t \<Longrightarrow> preserves (\<lambda>s. foreign t s = k) (insert_audit_row row3)"
  "jb_tenant_id row4 = t \<Longrightarrow> preserves (\<lambda>s. foreign t s = k) (upsert_job_row row4)"
  "sc_tenantId value = t \<Longrightarrow> preserves (\<lambda>s. foreign t s = k) (credential_save now value)"
  "preserves (\<lambda>s. foreign t s = k) (credential_revoke clk t u p)"
  "preserves (\<lambda>s. foreign t s = k) (revokeSession now i t)"
  subgoal by (simp add: foreign_simps ensureTenant_def)
  subgoal by (simp add: foreign_simps upsert_organization_row_def)
  subgoal by (simp add: foreign_simps insert_override_row_def)
  subgoal by (simp add: foreign_simps insert_opportunity_row_def)
  subgoal by (simp add: foreign_simps delete_opportunities_def)
  subgoal by (simp add: foreign_simps insert_audit_row_def)
  subgoal by (simp add: foreign_simps upsert_job_row_def)
  subgoal by (simp add: foreign_simps credential_save_def credential_row_of_def)
  subgoal by (simp add: foreign_simps credential_revoke_def)
  subgoal by (simp add: foreign_simps revokeSession_def)
  done

lemma foreign_methods [preserves_intros]:
  "preserves (\<lambda>s. foreign t s = k) (upsertOrganization clk org t)"
  "preserves (\<lambda>s. foreign t s = k) (putOpportunityOverride override t)"
  "(\<And>o'. o' \<in> set os \<Longrightarrow> opp_tenantId o' = None) \<Longrightarrow>
     preserves (\<lambda>s. foreign t s = k) (replaceOpportunities i os t)"
  "enq_tenantId input = t \<Longrightarrow> preserves (\<lambda>s. foreign t s = k) (enqueue sha clk2 input)"
  "ev_tenantId event = t \<Longrightarrow> preserves (\<lambda>s. foreign t s = k) (audit_write uuid now event)"
  "preserves (\<lambda>s. foreign t s = k) (vault_put sqlite_credentials sha g v nonce now t u p credential)"
  "preserves (\<lambda>s. foreign t s = k) (vault_revoke sqlite_credentials clk t u p)"
  subgoal unfolding upsertOrganization_def by (intro preserves_intros) simp_all
  subgoal unfolding putOpportunityOverride_def by (intro preserves_intros) simp_all
  subgoal unfolding replaceOpportunities_def insert_opportunity_def by (intro preserves_intros) (simp_all add: opportunity_row_of_def)
  subgoal unfolding enqueue_def by (intro preserves_intros) (simp_all add: enqueue_row_def, intro preserves_intros)
  subgoal unfolding audit_write_def by (intro preserves_intros) simp
  subgoal unfolding vault_put_def sqlite_credentials_def Let_def by (simp add: case_prod_beta) (intro preserves_intros, simp)
  subgoal unfolding vault_revoke_def sqlite_credentials_def by simp (intro preserves_intros)
  done

lemma preserves_resolve:
  assumes "\<And>os. (\<And>o'. o' \<in> set os \<Longrightarrow> opp_tenantId o' = None) \<Longrightarrow> preserves I (replaceOpportunities i os t)"
  shows "preserves I (resolveOrganization (sqlite_repository sh) legacy sha clk stamp i now t)"
  unfolding preserves_def
proof (intro allI impI)
  fix s assume "I s"
  let ?os = "resolved legacy sha clk stamp i now t s"
  have "preserves I (bindE (replaceOpportunities i ?os t) (\<lambda>_. retE ?os))"
    by (intro preserves_intros assms resolved_tenant)
  then show "I (snd (resolveOrganization (sqlite_repository sh) legacy sha clk stamp i now t s))"
    using \<open>I s\<close> by (simp add: resolveOrganization_run preserves_def)
qed

section \<open>Cancelling the jobs of a connector\<close>

text \<open>A row before and after cancelling the waiting jobs among \<open>ids\<close>.\<close>

definition cancelled_among :: "string set \<Rightarrow> job_row \<Rightarrow> job_row \<Rightarrow> bool" where
  "cancelled_among ids r r' \<longleftrightarrow> jb_id r' = jb_id r \<and> jb_tenant_id r' = jb_tenant_id r \<and>
     (if jb_id r \<in> ids \<and> waiting r then \<not> waiting r' else r' = r)"

lemma cancel_statement_among:
  "\<exists>k T. cancel_statement now1 now2 i s = (Inr k, s\<lparr>jobs := T\<rparr>) \<and> list_all2 (cancelled_among {i}) (jobs s) T"
proof -
  let ?T = "jobs (snd (cancel_statement now1 now2 i s))"
  have "list_all2 (cancelled_among {i}) (jobs s) ?T"
    by (auto simp: cancel_statement_def update_jobs_def update_where_def list_all2_map2 list_all2_same
        cancelled_among_def waiting_def)
  moreover have "\<exists>k. cancel_statement now1 now2 i s = (Inr k, s\<lparr>jobs := ?T\<rparr>)"
    by (simp add: cancel_statement_def update_jobs_def)
  ultimately show ?thesis by blast
qed

lemma cancelled_among_trans:
  "cancelled_among I x y \<Longrightarrow> cancelled_among J y z \<Longrightarrow> cancelled_among (I \<union> J) x z"
  by (auto simp: cancelled_among_def split: if_splits)

lemma cancel_loop_among:
  "\<exists>k T. sumE (\<lambda>(n, i). cancel_statement (f n) (g n) i) xs s = (Inr k, s\<lparr>jobs := T\<rparr>) \<and>
     list_all2 (cancelled_among (snd ` set xs)) (jobs s) T"
proof (induction xs arbitrary: s)
  case Nil
  have "list_all2 (cancelled_among {}) (jobs s) (jobs s)" by (simp add: list_all2_same cancelled_among_def)
  then show ?case by (auto simp: retE_def intro!: exI [of _ "jobs s"])
next
  case (Cons x xs)
  obtain n i where x: "x = (n, i)" by (cases x)
  obtain k T where 1: "cancel_statement (f n) (g n) i s = (Inr k, s\<lparr>jobs := T\<rparr>)"
    "list_all2 (cancelled_among {i}) (jobs s) T" using cancel_statement_among by blast
  obtain k' T' where 2: "sumE (\<lambda>(n, i). cancel_statement (f n) (g n) i) xs (s\<lparr>jobs := T\<rparr>)
      = (Inr k', s\<lparr>jobs := T'\<rparr>)" "list_all2 (cancelled_among (snd ` set xs)) T T'"
    using Cons.IH [of "s\<lparr>jobs := T\<rparr>"] by auto
  have "list_all2 (cancelled_among ({i} \<union> snd ` set xs)) (jobs s) T'"
    using 1(2) 2(2) by (rule list_all2_trans [rotated]) (rule cancelled_among_trans)
  then show ?case using 1(1) 2(1) by (auto simp: x bindE_def retE_def)
qed

lemma cancel_pending_loop:
  "\<exists>k T. sumE (\<lambda>(n, i). cancel_statement (clk (2 * n)) (clk (2 * n + 1)) i) (enumerate 0 ids) s =
     (Inr k, s\<lparr>jobs := T\<rparr>) \<and> list_all2 (cancelled_among (set ids)) (jobs s) T"
  using cancel_loop_among [of "\<lambda>n. clk (2 * n)" "\<lambda>n. clk (2 * n + 1)" "enumerate 0 ids" s]
  by (metis list.set_map map_snd_enumerate)

lemma cancelPending_among:
  assumes "cancelPending clk input s = (r, s')"
  shows "list_all2 (cancelled_among (set (cancel_candidates input s))) (jobs s) (jobs s')"
proof -
  let ?ids = "cancel_candidates input s"
  let ?loop = "sumE (\<lambda>(n, i). cancel_statement (clk (2 * n)) (clk (2 * n + 1)) i) (enumerate 0 ?ids)"
  have run: "(if ?ids = [] then retE 0 else transaction ?loop) s = (r, s')"
    using assms by (simp add: cancelPending_def bindE_def getE_def)
  show ?thesis
  proof (cases "?ids = []")
    case True
    then have "s' = s" using run by (simp add: retE_def)
    then show ?thesis by (simp add: True list_all2_same cancelled_among_def)
  next
    case False
    define s0 where "s0 = (if 0 < transactionDepth s then s else s\<lparr>transactionDepth := transactionDepth s + 1\<rparr>)"
    obtain k T where loop: "?loop s0 = (Inr k, s0\<lparr>jobs := T\<rparr>)" "list_all2 (cancelled_among (set ?ids)) (jobs s0) T"
      using cancel_pending_loop by blast
    have "transaction ?loop s = (r, s')" using run False by simp
    then have "jobs s' = T" using loop(1) unfolding transaction_def s0_def by (auto split: if_splits)
    moreover have "jobs s0 = jobs s" by (simp add: s0_def)
    ultimately show ?thesis using loop(2) by simp
  qed
qed

lemma cancelPending_tables:
  "preserves (\<lambda>s. s\<lparr>jobs := [], transactionDepth := 0\<rparr> = k) (cancelPending clk input)"
  unfolding cancelPending_def
  by (intro preserves_intros preserves_transaction)
    (auto simp: preserves_def cancel_statement_def update_jobs_def)

lemma filter_list_all2:
  "list_all2 R xs ys \<Longrightarrow> (\<And>x y. x \<in> set xs \<Longrightarrow> R x y \<Longrightarrow> A x = A y \<and> (A x \<longrightarrow> y = x)) \<Longrightarrow>
     filter A ys = filter A xs"
  by (induction rule: list_all2_induct) auto

lemma foreign_tables:
  assumes "s'\<lparr>jobs := [], transactionDepth := 0\<rparr> = s\<lparr>jobs := [], transactionDepth := 0\<rparr>"
    and "filter (\<lambda>r. jb_tenant_id r \<noteq> t) (jobs s') = filter (\<lambda>r. jb_tenant_id r \<noteq> t) (jobs s)"
  shows "foreign t s' = foreign t s"
  using arg_cong [OF assms(1), of organizations] arg_cong [OF assms(1), of opportunities]
    arg_cong [OF assms(1), of opportunity_overrides] arg_cong [OF assms(1), of audit_events]
    arg_cong [OF assms(1), of sessions] arg_cong [OF assms(1), of credentials]
    arg_cong [OF assms(1), of tenants] arg_cong [OF assms(1), of sources]
    arg_cong [OF assms(1), of source_versions] arg_cong [OF assms(1), of claims]
    arg_cong [OF assms(1), of connector_state] arg_cong [OF assms(1), of users]
    arg_cong [OF assms(1), of memberships] arg_cong [OF assms(1), of source_version_contributors]
    arg_cong [OF assms(1), of tenant_queue_state] assms(2)
  by (simp add: foreign_def)

lemma isolated_cancel:
  assumes "can_tenantId input = t"
  shows "preserves (\<lambda>s :: store. db_ok s \<and> foreign t s = k) (cancelPending clk input)"
  unfolding preserves_def
proof (intro allI impI conjI)
  fix s :: store
  assume s: "db_ok s \<and> foreign t s = k"
  obtain r s' where run: "cancelPending clk input s = (r, s')" by fastforce
  show "db_ok (snd (cancelPending clk input s))"
    using db_ok_cancelPending s by (simp add: preserves_def)
  have uniq: "unique_on jb_id (jobs s)" using s by (simp add: db_ok_def keys_ok_def)
  have "jb_tenant_id q = t" if "q \<in> set (jobs s)" "jb_id q \<in> set (cancel_candidates input s)" for q
    using that assms unique_onD [OF uniq] by (auto simp: cancel_candidates_def set_select_where)
  then have "filter (\<lambda>r. jb_tenant_id r \<noteq> t) (jobs s') = filter (\<lambda>r. jb_tenant_id r \<noteq> t) (jobs s)"
    by (intro filter_list_all2 [OF cancelPending_among [OF run]]) (auto simp: cancelled_among_def split: if_splits)
  moreover have "s'\<lparr>jobs := [], transactionDepth := 0\<rparr> = s\<lparr>jobs := [], transactionDepth := 0\<rparr>"
    using preserves_valueD [where f = "\<lambda>s. s\<lparr>jobs := [], transactionDepth := 0\<rparr>", OF cancelPending_tables run] .
  ultimately have "foreign t s' = foreign t s" by (rule foreign_tables [rotated])
  then show "foreign t (snd (cancelPending clk input s)) = k" using run s by simp
qed

section \<open>Isolation of tenants\<close>

definition isolated where
  "isolated t k (s :: store) \<longleftrightarrow> db_ok s \<and> foreign t s = k"

lemma isolatedI: "preserves db_ok m \<Longrightarrow> preserves (\<lambda>s. foreign t s = k) m \<Longrightarrow> preserves (isolated t k) m"
  by (simp add: preserves_def isolated_def)

lemma db_ok_credentials:
  "preserves db_ok (credential_save now value)" "preserves db_ok (credential_revoke clk t u p)"
  subgoal by (simp add: preserves_def credential_save_def Let_def db_ok_defs table_simps)
  subgoal by (simp add: preserves_def credential_revoke_def effect_simps db_ok_defs table_simps credential_key_def)
  done

lemma db_ok_vault:
  "preserves db_ok (vault_put sqlite_credentials sha g v nonce now t u p credential)"
  "preserves db_ok (vault_revoke sqlite_credentials clk t u p)"
  subgoal unfolding vault_put_def sqlite_credentials_def Let_def
    by (simp add: case_prod_beta) (intro preserves_intros db_ok_credentials)
  subgoal unfolding vault_revoke_def sqlite_credentials_def by (simp add: db_ok_credentials)
  done

lemma isolated_transaction [preserves_intros]:
  "preserves (isolated t k) m \<Longrightarrow> preserves (isolated t k) (transaction m)"
  by (rule preserves_transaction) (simp_all add: isolated_def)

lemma isolated_audit [preserves_intros]:
  "prin_tenantId caller = t \<Longrightarrow> preserves (isolated t k) (audit d c request caller action type i metadata)"
  unfolding audit_def by (intro preserves_intros isolatedI) (simp_all add: audit_write_def, intro preserves_intros)

lemma isolated_methods [preserves_intros]:
  "preserves (isolated t k) (upsertOrganization clk org t)"
  "preserves (isolated t k) (putOpportunityOverride override t)"
  "preserves (isolated t k) (resolveOrganization (sqlite_repository sh) legacy sha clk stamp i now t)"
  "prin_tenantId caller = t \<Longrightarrow> preserves (isolated t k) (enqueue_for d c caller type key payload)"
  "preserves (isolated t k) (vault_put sqlite_credentials sha g v nonce now2 t u p credential)"
  "preserves (isolated t k) (vault_revoke sqlite_credentials clk t u p)"
  "can_tenantId input = t \<Longrightarrow> preserves (isolated t k) (cancelPending clk input)"
  "prin_tenantId caller = t \<Longrightarrow> preserves (isolated t k) (revoke (sqlite_auth sha) now caller)"
  subgoal by (intro isolatedI db_ok_upsertOrganization preserves_intros)
  subgoal by (intro isolatedI preserves_intros)
  subgoal by (intro preserves_resolve isolatedI preserves_intros)
  subgoal unfolding enqueue_for_def by (intro isolatedI db_ok_enqueue preserves_intros) simp
  subgoal by (intro isolatedI db_ok_vault preserves_intros)
  subgoal by (intro isolatedI db_ok_vault preserves_intros)
  subgoal unfolding isolated_def by (rule isolated_cancel)
  subgoal by (simp add: revoke_def sqlite_auth_def) (intro isolatedI db_ok_revokeSession preserves_intros)
  done


lemmas handler_defs = get_me_def get_admin_metrics_def get_dashboard_def get_organization_def get_evidence_def
  post_override_def post_organization_def post_ingest_url_def post_ingest_screenshot_def post_connect_def
  get_connector_status_def delete_connector_def post_sync_def get_export_def post_logout_def Let_def









section \<open>Refusals\<close>

definition refused :: "('e, 's, 'a) op \<Rightarrow> 's \<Rightarrow> bool" where
  "refused m s \<longleftrightarrow> (\<exists>e. m s = (Inl e, s))"

lemma refused_throw: "refused (throwE e) s"
  by (simp add: refused_def throwE_def)

lemma refused_lift: "(\<And>x. r = Inr x \<Longrightarrow> refused (k x) s) \<Longrightarrow> refused (bindE (lift_result r) k) s"
  by (cases r) (simp_all add: refused_def lift_result_def bindE_def effect_simps)

lemma refused_discard: "refused m s \<Longrightarrow> refused (discard m) s"
  by (auto simp: refused_def discard_def bindE_def)

lemma refused_unauthenticated: "refused (as_principal None k) s"
  unfolding as_principal_def by (rule refused_lift) (simp add: authentication_def)

lemma refused_principal: "refused (k (sa_principal a)) s \<Longrightarrow> refused (as_principal (Some a) k) s"
  unfolding as_principal_def by (rule refused_lift) (simp add: authentication_def)

lemma refused_if: "(p \<Longrightarrow> refused m s) \<Longrightarrow> (\<not> p \<Longrightarrow> refused n s) \<Longrightarrow> refused (if p then m else n) s"
  by simp

lemma refused_option:
  "(x = None \<Longrightarrow> refused m s) \<Longrightarrow> (\<And>y. x = Some y \<Longrightarrow> refused (f y) s) \<Longrightarrow>
     refused (case x of None \<Rightarrow> m | Some y \<Rightarrow> f y) s"
  by (cases x) simp_all

lemma refused_prod: "(\<And>x y. p = (x, y) \<Longrightarrow> refused (f x y) s) \<Longrightarrow> refused (case p of (x, y) \<Rightarrow> f x y) s"
  by (cases p) simp

lemmas refused_intros = refused_throw refused_unauthenticated refused_principal refused_if refused_option
  refused_prod refused_discard refused_lift

lemma unauthenticated_api: "refused (api op d c request None) s"
  by (cases op; simp only: api.simps handler_defs delete_me_def; intro refused_intros)

text \<open>What a route asks of its caller.\<close>

definition permitted :: "api_call \<Rightarrow> request \<Rightarrow> AuthPrincipal \<Rightarrow> bool" where
  "permitted op request caller \<longleftrightarrow>
     (op \<in> {AdminMetrics, UpsertOrganization} \<longrightarrow> platform_admin \<in> set (prin_roles caller)) \<and>
     (op \<in> {Evidence, Override} \<longrightarrow>
        (\<exists>i. json_text (req_params request) ''id'' = Some i \<and> requireOrganizationAccess caller i = Inr ())) \<and>
     (op \<in> {IngestUrl, IngestScreenshot, SyncConnector} \<longrightarrow>
        (\<exists>i. json_text (req_body request) ''organizationId'' = Some i \<and> requireOrganizationAccess caller i = Inr ()))"

lemma text_in_text: "text_in lo hi (json_get v k) \<Longrightarrow> \<exists>x. json_text v k = Some x"
  by (auto simp: text_in_def text_sat_def json_text_def split: option.splits json.splits)

lemma pick_first: "json_text v k = Some x \<Longrightarrow> json_text (JObj (pick (k # ks) v @ rest)) k = Some x"
  by (auto simp: json_text_def json_get_def pick_def split: option.splits json.splits)

lemma idParam_id: "idParam lib k params = Inr i \<Longrightarrow> json_text params k = Some i"
  using text_in_text by (fastforce simp: idParam_def zod_check_def split: sum.splits if_splits)

lemma overrideParams_id: "overrideParams lib params = Inr (i, j) \<Longrightarrow> json_text params ''id'' = Some i"
  using text_in_text by (fastforce simp: overrideParams_def zod_check_def split: sum.splits if_splits)

lemma body_organization:
  "ingestUrlSchema lib v = Inr body \<Longrightarrow> json_text v ''organizationId'' = Some (organization_of body)"
  "screenshotSchema lib v = Inr body \<Longrightarrow> json_text v ''organizationId'' = Some (organization_of body)"
  "syncSchema lib v = Inr body \<Longrightarrow> json_text v ''organizationId'' = Some (organization_of body)"
proof -
  have *: "json_text v ''organizationId'' = Some (organization_of (pick (''organizationId'' # ks) v @ rest))"
    if "text_in lo hi (json_get v ''organizationId'')" for lo hi ks rest
    using text_in_text [OF that] pick_first by (auto simp: organization_of_def nullish_def)
  show "ingestUrlSchema lib v = Inr body \<Longrightarrow> json_text v ''organizationId'' = Some (organization_of body)"
    using * [of _ _ _ "[]"] by (auto simp: ingestUrlSchema_def zod_check_def split: sum.splits if_splits)
  show "screenshotSchema lib v = Inr body \<Longrightarrow> json_text v ''organizationId'' = Some (organization_of body)"
    using * [of _ _ _ "[]"]
    by (auto simp: screenshotSchema_def screenshot_fields_def zod_check_def split: sum.splits if_splits)
  show "syncSchema lib v = Inr body \<Longrightarrow> json_text v ''organizationId'' = Some (organization_of body)"
    using * by (auto simp: syncSchema_def zod_check_def split: sum.splits if_splits)
qed

lemma unpermitted_api:
  assumes "\<not> permitted op request (sa_principal a)"
  shows "refused (api op d c request (Some a)) s"
  using assms
  by (cases op; simp only: api.simps handler_defs delete_me_def; intro refused_intros)
    (auto simp: permitted_def requireRole_def dest: idParam_id overrideParams_id body_organization split: if_splits)

section \<open>Revoking a connector\<close>

text \<open>The synchronisation jobs of a user for a provider.\<close>

definition sync_job :: "AuthPrincipal \<Rightarrow> OAuthProvider \<Rightarrow> job_row \<Rightarrow> bool" where
  "sync_job caller provider r \<longleftrightarrow> jb_tenant_id r = prin_tenantId caller \<and> jb_type r = ''connector.sync'' \<and>
     json_get (jb_payload r) ''provider'' = Some (JStr (provider_text provider)) \<and>
     json_get (jb_payload r) ''userId'' = Some (JStr (prin_userId caller))"

abbreviation cancel_input :: "AuthPrincipal \<Rightarrow> OAuthProvider \<Rightarrow> CancelPendingJobs" where
  "cancel_input caller provider \<equiv> \<lparr>can_tenantId = prin_tenantId caller, can_type = ''connector.sync'',
     can_payload = [(''provider'', provider_text provider), (''userId'', prin_userId caller)]\<rparr>"

lemma sync_candidates:
  "set (cancel_candidates (cancel_input caller provider) s) =
     jb_id ` {r \<in> set (jobs s). sync_job caller provider r \<and> waiting r}"
  by (auto simp: cancel_candidates_def set_select_where sync_job_def payload_matches_def)

lemma list_all2_left: "list_all2 R xs ys \<Longrightarrow> x \<in> set xs \<Longrightarrow> \<exists>y\<in>set ys. R x y"
  by (induction rule: list_all2_induct) auto

lemma list_all2_right: "list_all2 R xs ys \<Longrightarrow> y \<in> set ys \<Longrightarrow> \<exists>x\<in>set xs. R x y"
  by (induction rule: list_all2_induct) auto

lemma cancel_sync_jobs:
  assumes "cancelPending clk (cancel_input caller provider) s = (r, s')" and "unique_on jb_id (jobs s)"
  shows "\<forall>j\<in>set (jobs s'). sync_job caller provider j \<longrightarrow> \<not> waiting j"
    and "\<forall>j\<in>set (jobs s). \<not> sync_job caller provider j \<longrightarrow> j \<in> set (jobs s')"
proof -
  note among = cancelPending_among [OF assms(1), unfolded sync_candidates]
  show "\<forall>j\<in>set (jobs s'). sync_job caller provider j \<longrightarrow> \<not> waiting j"
    using list_all2_right [OF among] by (force simp: cancelled_among_def split: if_splits)
  show "\<forall>j\<in>set (jobs s). \<not> sync_job caller provider j \<longrightarrow> j \<in> set (jobs s')"
  proof (intro ballI impI)
    fix j assume j: "j \<in> set (jobs s)" "\<not> sync_job caller provider j"
    then have "jb_id j \<notin> jb_id ` {r \<in> set (jobs s). sync_job caller provider r \<and> waiting r}"
      using unique_onD [OF assms(2)] by blast
    then show "j \<in> set (jobs s')"
      using list_all2_left [OF among j(1)] by (auto simp: cancelled_among_def)
  qed
qed

lemma audit_frame:
  "preserves (\<lambda>s. (jobs s, credentials s) = k) (audit d c request caller action type i metadata)"
  unfolding audit_def audit_write_def
  by (intro preserves_intros) (simp add: preserves_def insert_audit_row_def)

lemma cancel_credentials:
  assumes "cancelPending clk input s = (r, s')"
  shows "credentials s' = credentials s"
  using arg_cong [OF preserves_valueD [where f = "\<lambda>s. s\<lparr>jobs := [], transactionDepth := 0\<rparr>",
        OF cancelPending_tables assms], of credentials] by simp

lemma delete_connector_steps:
  assumes "delete_connector d c request (Some a) s = (Inr reply, s')"
    and "providerSchema (dep_library d) (req_params request) = Inr provider"
  shows "\<exists>s1 s2 n. vault_revoke sqlite_credentials (call_clk c) (prin_tenantId (sa_principal a))
       (prin_userId (sa_principal a)) (provider_text provider) s = (Inr (), s1) \<and>
     cancelPending (\<lambda>n. call_clk c (2 + n)) (cancel_input (sa_principal a) provider) s1 = (Inr n, s2) \<and>
     jobs s' = jobs s2 \<and> credentials s' = credentials s2"
proof -
  obtain s1 s2 n u where 1: "vault_revoke sqlite_credentials (call_clk c) (prin_tenantId (sa_principal a))
       (prin_userId (sa_principal a)) (provider_text provider) s = (Inr (), s1)"
    "cancelPending (\<lambda>n. call_clk c (2 + n)) (cancel_input (sa_principal a) provider) s1 = (Inr n, s2)"
    and 2: "audit d c request (sa_principal a) ''connector.revoke'' ''connector'' (Some (provider_text provider))
         (Some (JObj [(''cancelledJobs'', JNum (int n))])) s2 = (Inr u, s')"
    using assms unfolding delete_connector_def as_principal_def bindE_Inr_iff lift_result_iff authentication_def
    by (auto simp: retE_def)
  have "(jobs s', credentials s') = (jobs s2, credentials s2)"
    using preserves_valueD [where f = "\<lambda>s. (jobs s, credentials s)", OF audit_frame 2] .
  then show ?thesis using 1 by blast
qed

text \<open>C39. Revoking a connector withdraws the credential and the work that waits on it: once the route has
  answered, the vault has no credential of the caller for that provider, no synchronisation job of the
  caller for that provider waits in the tenant, and every other job and every other credential is as before.\<close>

theorem revoke_connector:
  assumes "db_ok s" and "delete_connector d c request (Some a) s = (Inr reply, s')"
    and "providerSchema (dep_library d) (req_params request) = Inr provider"
  shows "fst (vault_get sqlite_credentials g v (prin_tenantId (sa_principal a)) (prin_userId (sa_principal a))
        (provider_text provider) s') = Inr None \<and>
     (\<forall>j\<in>set (jobs s'). sync_job (sa_principal a) provider j \<longrightarrow> \<not> waiting j) \<and>
     (\<forall>j\<in>set (jobs s). \<not> sync_job (sa_principal a) provider j \<longrightarrow> j \<in> set (jobs s')) \<and>
     (\<forall>t u p. (t, u, p) \<noteq> (prin_tenantId (sa_principal a), prin_userId (sa_principal a), provider_text provider) \<longrightarrow>
        fst (vault_get sqlite_credentials g v t u p s') = fst (vault_get sqlite_credentials g v t u p s))"
proof (intro conjI allI impI)
  obtain s1 s2 n where revoke: "vault_revoke sqlite_credentials (call_clk c) (prin_tenantId (sa_principal a))
       (prin_userId (sa_principal a)) (provider_text provider) s = (Inr (), s1)"
    and cancel: "cancelPending (\<lambda>n. call_clk c (2 + n)) (cancel_input (sa_principal a) provider) s1 = (Inr n, s2)"
    and kept: "jobs s' = jobs s2" "credentials s' = credentials s2"
    using delete_connector_steps [OF assms(2,3)] by blast
  have jobs: "jobs s1 = jobs s"
    using revoke by (auto simp: vault_revoke_def sqlite_credentials_def credential_revoke_def modifyE_def)
  then have uniq: "unique_on jb_id (jobs s1)" using assms(1) by (simp add: db_ok_def keys_ok_def)
  show "\<forall>j\<in>set (jobs s'). sync_job (sa_principal a) provider j \<longrightarrow> \<not> waiting j"
    using cancel_sync_jobs(1) [OF cancel uniq] kept(1) by simp
  show "\<forall>j\<in>set (jobs s). \<not> sync_job (sa_principal a) provider j \<longrightarrow> j \<in> set (jobs s')"
    using cancel_sync_jobs(2) [OF cancel uniq] kept(1) jobs by simp
  have find: "cred_find sqlite_credentials t u p s' = cred_find sqlite_credentials t u p s1" for t u p
    using kept(2) cancel_credentials [OF cancel] by (simp add: sqlite_credentials_def credential_find_def)
  show "fst (vault_get sqlite_credentials g v (prin_tenantId (sa_principal a)) (prin_userId (sa_principal a))
      (provider_text provider) s') = Inr None"
    using sqlite_creds.get_depends [OF find] sqlite_creds.revoke_get [OF revoke] by simp
  fix t u p
  assume "(t, u, p) \<noteq> (prin_tenantId (sa_principal a), prin_userId (sa_principal a), provider_text provider)"
  then have "cred_find sqlite_credentials t u p s1 = cred_find sqlite_credentials t u p s"
    using sqlite_creds.revoke_other revoke unfolding vault_revoke_def by blast
  then show "fst (vault_get sqlite_credentials g v t u p s') = fst (vault_get sqlite_credentials g v t u p s)"
    using find by (intro sqlite_creds.get_depends) simp
qed


text \<open>C38. A call without a session fails, and so does a call of a principal without the rights for it: the
  metrics and the change of an organization are for platform administrators, reading evidence, overriding
  an opportunity, ingesting and synchronising are for an editor of that organization or an administrator.
  A call refused so changes nothing.\<close>

theorem organization_authorization:
  "(\<exists>e. api op d c request None s = (Inl e, s)) \<and>
   (\<not> permitted op request (sa_principal a) \<longrightarrow> (\<exists>e. api op d c request (Some a) s = (Inl e, s)))"
  using unauthenticated_api unpermitted_api unfolding refused_def by blast

section \<open>Instances\<close>

definition demo_deps :: deps where
  "demo_deps = \<lparr>dep_config = demo_config,
     dep_library = \<lparr>zod_failure = (\<lambda>_ _. ([], [])), zod_url = (\<lambda>_. True), parse_url = (\<lambda>_. None),
       search_param = (\<lambda>_ _. None), zod_datetime = (\<lambda>_. True), zod_email = (\<lambda>_. True)\<rparr>,
     dep_sha = id, dep_base64 = (\<lambda>_. []), dep_legacy = (\<lambda>_. None), dep_audit = True, dep_privacy = True, dep_metrics = None,
     dep_gcm = demo_gcm, dep_vault = Some demo_vault, dep_oauth = None, dep_parse_at = (\<lambda>_ _. None),
     dep_challenge = id, dep_unsign = Some, dep_oidc = None\<rparr>"

definition demo_call :: call where
  "demo_call = \<lparr>call_clk = (\<lambda>_. 0), call_uuid = ''u'', call_nonce = [], call_token = [], call_csrf = [],
     call_session = [], call_state = [], call_verifier = []\<rparr>"

definition demo_gmail :: request where
  "demo_gmail = (demo_request ''tok'')\<lparr>req_params := JObj [(''provider'', JStr ''gmail'')]\<rparr>"

definition demo_auth :: SessionAuthentication where
  "demo_auth = authentication_of (demo_session, demo_member)"

definition demo_sync :: job_row where
  "demo_sync = \<lparr>jb_id = ''j'', jb_tenant_id = ''t'', jb_type = ''connector.sync'', jb_idempotency_key = ''k'',
     jb_payload = JObj [(''provider'', JStr ''gmail''), (''userId'', JStr ''usr_i:a'')], jb_status = job_queued,
     jb_priority = 0, jb_attempt_count = 0, jb_max_attempts = 3, jb_available_at = nowIso 0,
     jb_leased_until = None, jb_leased_by = None, jb_last_error = None, jb_created_at = nowIso 0,
     jb_updated_at = nowIso 0\<rparr>"

definition demo_connected :: store where
  "demo_connected = demo_account\<lparr>jobs := [demo_sync], credentials := [\<lparr>cr_id = ''c'', cr_tenant_id = ''t'',
     cr_user_id = ''usr_i:a'', cr_provider = ''gmail'', cr_encrypted_payload = [], cr_key_version = ''v1'',
     cr_scopes = [], cr_expires_at = None, cr_revoked_at = None, cr_created_at = nowIso 0, cr_updated_at = nowIso 0\<rparr>]\<rparr>"

lemma demo_connected_ok: "db_ok demo_connected"
  by (simp add: demo_connected_def db_ok_defs demo_account_defs unique_on_def user_key_def member_key_def
      demo_sync_def)

lemma demo_auth_principal:
  "prin_tenantId (sa_principal demo_auth) = ''t''" "prin_userId (sa_principal demo_auth) = ''usr_i:a''"
  "prin_roles (sa_principal demo_auth) = [student]" "prin_sessionId (sa_principal demo_auth) = ''ses_u''"
  by (simp_all add: demo_auth_def authentication_of_def demo_session_def demo_member_def)

lemma demo_provider: "providerSchema (dep_library demo_deps) (req_params demo_gmail) = Inr p_gmail"
  by (simp add: providerSchema_def demo_gmail_def json_text_def json_get_def)

lemma demo_connected_tables: "audit_events demo_connected = []" "transactionDepth demo_connected = 0"
  "jobs demo_connected = [demo_sync]"
  by (simp_all add: demo_connected_def demo_account_defs)

lemma demo_revocation:
  "\<exists>s'. delete_connector demo_deps demo_call demo_gmail (Some demo_auth) demo_connected = (Inr (ok 1), s')"
proof -
  have vault: "requireCredentialVault demo_deps = Inr demo_vault" "dep_audit demo_deps"
    by (simp_all add: requireCredentialVault_def demo_deps_def)
  let ?s1 = "snd (credential_revoke (call_clk demo_call) ''t'' ''usr_i:a'' ''gmail'' demo_connected)"
  have "audit_events ?s1 = []" "transactionDepth ?s1 = 0" "jobs ?s1 = [demo_sync]"
    by (simp_all add: credential_revoke_def modifyE_def demo_connected_tables)
  moreover have "waiting demo_sync" "jb_id demo_sync = ''j''" "jb_tenant_id demo_sync = ''t''"
    "jb_type demo_sync = ''connector.sync''"
    "payload_matches [(''provider'', ''gmail''), (''userId'', ''usr_i:a'')] (jb_payload demo_sync)"
    by (simp_all add: waiting_def demo_sync_def payload_matches_def json_get_def)
  ultimately obtain s2 where cancel: "cancelPending (\<lambda>n. call_clk demo_call (2 + n))
      (cancel_input (sa_principal demo_auth) p_gmail) ?s1 = (Inr 1, s2)" and s2: "audit_events s2 = []"
    by (simp add: cancelPending_def effect_simps bindE_def cancel_candidates_def select_where_def
        demo_auth_principal transaction_def cancel_statement_def update_jobs_def count_where_def)
  obtain s3 where "audit demo_deps demo_call demo_gmail (sa_principal demo_auth) ''connector.revoke'' ''connector''
      (Some ''gmail'') (Some (JObj [(''cancelledJobs'', JNum 1)])) s2 = (Inr (), s3)"
    using vault(2) s2 by (simp add: audit_def audit_write_def insert_audit_row_def exists_row_def)
  then show ?thesis
    unfolding delete_connector_def as_principal_def
    using cancel by (simp add: vault authentication_def lift_result_def demo_provider bindE_def effect_simps
        vault_revoke_def sqlite_credentials_def demo_auth_principal credential_revoke_def)
qed

theorem revoke_connector_witness:
  "\<exists>s'. delete_connector demo_deps demo_call demo_gmail (Some demo_auth) demo_connected = (Inr (ok 1), s') \<and>
     fst (vault_get sqlite_credentials demo_gcm demo_vault ''t'' ''usr_i:a'' ''gmail'' s') = Inr None"
proof -
  obtain s' where run: "delete_connector demo_deps demo_call demo_gmail (Some demo_auth) demo_connected = (Inr (ok 1), s')"
    using demo_revocation by blast
  with revoke_connector [OF demo_connected_ok run demo_provider] show ?thesis by (simp add: demo_auth_principal)
qed


theorem organization_authorization_witness:
  "\<exists>e. api UpsertOrganization demo_deps demo_call demo_gmail (Some demo_auth) demo_connected = (Inl e, demo_connected)"
proof -
  have "\<not> permitted UpsertOrganization demo_gmail (sa_principal demo_auth)"
    by (simp add: permitted_def demo_auth_principal)
  then show ?thesis using organization_authorization by blast
qed

section \<open>A null in an override\<close>

text \<open>The schema of an override admits null for the deadline, the start and the link, but the route turns
  a null into an absent member, and the resolver leaves the value of an absent member as it was.\<close>

lemma null_override_ignored:
  assumes "json_get patch ''deadlineAt'' = Some JNull"
  shows "patch_deadlineAt (ovr_patch (override_of d c caller i j (patch, reason))) = None"
    and "opp_deadlineAt (apply_patch (override_of d c caller i j (patch, reason)) opportunity) = opp_deadlineAt opportunity"
  using assms by (simp_all add: override_of_def patch_of_def json_text_def apply_patch_def coalesce_def)

end
