(* ===== verification/Connectors.thy ===== *)
theory Connectors
  imports Resolver Credentials Urls
begin

text \<open>
  The connectors of src/src/connectors that turn the answers of a provider into sources: GroupMe,
  Instagram, LinkedIn, Gmail, screenshots and the directory entry of Heel Life. A request is an argument,
  from the address and the query to the answer, or the error that the client throws. The answers are
  untyped in the code: a member of an answer is a JSON value or undefined, and a member that is kept as
  text is kept by its \<open>String\<close> form. Text is a sequence of UTF-8 bytes.
\<close>

record http_answer =
  ha_status :: int
  ha_text :: string
  ha_json :: "error + json"

type_synonym http_client = "string \<Rightarrow> (string \<times> string) list \<Rightarrow> error + http_answer"

section \<open>Untyped values\<close>

text \<open>\<open>v.k\<close>, \<open>v?.k\<close>, \<open>`${v}`\<close>, \<open>v ?? d\<close> kept as text, \<open>Boolean(v)\<close> and \<open>Number(v)\<close>.\<close>

definition dot :: "json option \<Rightarrow> string \<Rightarrow> (error, 's, json option) op" where
  "dot v k = (case v of
     None \<Rightarrow> throwE (TypeError (''Cannot read properties of undefined (reading '' @ [CHR 0x27] @ k @ [CHR 0x27] @ '')''))
   | Some JNull \<Rightarrow> throwE (TypeError (''Cannot read properties of null (reading '' @ [CHR 0x27] @ k @ [CHR 0x27] @ '')''))
   | Some x \<Rightarrow> retE (json_get x k))"

definition opt_dot :: "json option \<Rightarrow> string \<Rightarrow> json option" where
  "opt_dot v k = (case v of None \<Rightarrow> None | Some x \<Rightarrow> json_get x k)"

definition text_of :: "json option \<Rightarrow> string" where
  "text_of v = (case v of None \<Rightarrow> ''undefined'' | Some x \<Rightarrow> js_String x)"

definition is_nullish :: "json option \<Rightarrow> bool" where
  "is_nullish v \<longleftrightarrow> v = None \<or> v = Some JNull"

definition text_member :: "json option \<Rightarrow> string option" where
  "text_member v = (if is_nullish v then None else Some (text_of v))"

definition js_truthy :: "json option \<Rightarrow> bool" where
  "js_truthy v \<longleftrightarrow> v \<notin> {None, Some JNull, Some (JBool False), Some (JNum 0), Some (JStr [])}"

definition js_Number :: "json option \<Rightarrow> jsnum" where
  "js_Number v = (case v of None \<Rightarrow> NaN | Some JNull \<Rightarrow> Finite 0 | Some (JBool b) \<Rightarrow> Finite (if b then 1 else 0)
     | Some (JNum n) \<Rightarrow> Finite (of_int n) | Some (JStr s) \<Rightarrow> jsNumber s | Some (JArr xs) \<Rightarrow> jsNumber (js_String (JArr xs))
     | Some (JObj _) \<Rightarrow> NaN)"

text \<open>The sign of \<open>a - b\<close>.\<close>

fun number_order :: "jsnum \<Rightarrow> jsnum \<Rightarrow> rat option" where
  "number_order (Finite a) (Finite b) = Some (a - b)"
| "number_order (Infinite neg) (Finite b) = Some (if neg then - 1 else 1)"
| "number_order (Finite a) (Infinite neg) = Some (if neg then 1 else - 1)"
| "number_order (Infinite neg) (Infinite neg') = (if neg = neg' then None else Some (if neg then - 1 else 1))"
| "number_order _ _ = None"

text \<open>The receiver of an array method, and what \<open>for ... of\<close> runs over, each after \<open>?? []\<close>.\<close>

definition array_or_empty :: "json option \<Rightarrow> (error, 's, json list) op" where
  "array_or_empty v = (case v of None \<Rightarrow> retE [] | Some JNull \<Rightarrow> retE [] | Some (JArr xs) \<Rightarrow> retE xs
     | Some _ \<Rightarrow> throwE (TypeError ''is not a function''))"

definition iterate_or_empty :: "json option \<Rightarrow> (error, 's, json list) op" where
  "iterate_or_empty v = (case v of None \<Rightarrow> retE [] | Some JNull \<Rightarrow> retE [] | Some (JArr xs) \<Rightarrow> retE xs
     | Some (JStr s) \<Rightarrow> retE (map (\<lambda>c. JStr [c]) s) | Some _ \<Rightarrow> throwE (TypeError ''is not iterable''))"

text \<open>\<open>new Date(v).toISOString()\<close>: the time is cut to whole milliseconds.\<close>

definition iso_of_number :: "jsnum \<Rightarrow> (error, 's, string) op" where
  "iso_of_number v = (case v of
     Finite x \<Rightarrow>
       (let t = (if 0 \<le> x then \<lfloor>x\<rfloor> else \<lceil>x\<rceil>) in
        if \<bar>t\<bar> \<le> 8640000000000000 then retE (toISOString t) else throwE (Error ''Invalid time value''))
   | _ \<Rightarrow> throwE (Error ''Invalid time value''))"

definition scaled :: "jsnum \<Rightarrow> rat \<Rightarrow> jsnum" where
  "scaled v k = (case v of Finite x \<Rightarrow> Finite (x * k) | w \<Rightarrow> w)"

definition uri_unreserved :: "char \<Rightarrow> bool" where
  "uri_unreserved c \<longleftrightarrow> is_alnum c \<or> c \<in> set (''-_.!~*()'' @ [CHR 0x27])"

definition upper_hex :: "nat \<Rightarrow> char" where
  "upper_hex n = (if n < 10 then digit_char n else char_of (n + 55))"

definition encodeURIComponent :: "string \<Rightarrow> string" where
  "encodeURIComponent s = concat (map (\<lambda>c. if uri_unreserved c then [c]
     else let n = of_char c in [CHR ''%'', upper_hex (n div 16), upper_hex (n mod 16)]) s)"

definition get_json :: "string \<Rightarrow> bool \<Rightarrow> http_client \<Rightarrow> string \<Rightarrow> (string \<times> string) list \<Rightarrow> (error, 's, json) op" where
  "get_json name withText http url query =
     bindE (lift_result (http url query)) (\<lambda>r.
       if ha_status r < 200 \<or> 299 < ha_status r then
         throwE (Error (name @ '' '' @ show_int (ha_status r) @ (if withText then '': '' @ ha_text r else [])))
       else lift_result (ha_json r))"

definition image_url :: "json \<Rightarrow> MediaRef" where
  "image_url url = \<lparr>media_type = media_image, media_url = Some (js_String url), media_base64 = None,
     media_mimeType = None, media_alt = None\<rparr>"

definition members :: "(string \<times> json option) list \<Rightarrow> json" where
  "members kvs = JObj (concat (map (\<lambda>(k, v). case v of None \<Rightarrow> [] | Some x \<Rightarrow> [(k, x)]) kvs))"

section \<open>GroupMe\<close>

definition groupme_get :: "http_client \<Rightarrow> string \<Rightarrow> string \<Rightarrow> (string \<times> string) list \<Rightarrow> (error, 's, json option) op" where
  "groupme_get http token path query =
     bindE (get_json ''GroupMe'' False http (''https://api.groupme.com/v3'' @ path) (query @ [(''token'', token)]))
       (\<lambda>answer. dot (Some answer) ''response'')"

definition groupMeOAuthUrl :: "string \<Rightarrow> string option \<Rightarrow> string \<times> (string \<times> string) list" where
  "groupMeOAuthUrl clientId redirectUri = (''https://oauth.groupme.com/oauth/authorize'',
     [(''client_id'', clientId)] @ (if truthy redirectUri then [(''redirect_uri'', the redirectUri)] else []))"

definition groupme_groups :: "http_client \<Rightarrow> string \<Rightarrow> (error, 's, json option) op" where
  "groupme_groups http token = groupme_get http token ''/groups'' [(''per_page'', ''100'')]"

definition groupme_messages :: "http_client \<Rightarrow> string \<Rightarrow> string \<Rightarrow> string option \<Rightarrow> (error, 's, json list) op" where
  "groupme_messages http token groupId afterId =
     bindE (groupme_get http token (''/groups/'' @ encodeURIComponent groupId @ ''/messages'')
         ([(''limit'', ''100'')] @ (if truthy afterId then [(''after_id'', the afterId)] else []))) (\<lambda>r.
     bindE (dot r ''messages'') array_or_empty)"

definition groupme_media :: "json \<Rightarrow> (error, 's, MediaRef list) op" where
  "groupme_media m =
     bindE (dot (Some m) ''attachments'') (\<lambda>attachments.
     bindE (array_or_empty attachments) (\<lambda>xs.
     bindE (mapE (\<lambda>a. bindE (dot (Some a) ''type'') (\<lambda>kind.
         retE (if kind = Some (JStr ''image'') \<and> js_truthy (json_get a ''url'') then [image_url (the (json_get a ''url''))]
           else []))) xs) (\<lambda>yss. retE (concat yss))))"

definition groupme_source ::
    "(string \<Rightarrow> string) \<Rightarrow> int \<Rightarrow> string \<Rightarrow> string \<Rightarrow> json \<Rightarrow> (error, 's, SourceItem) op" where
  "groupme_source sha now orgId groupId m =
     bindE (groupme_media m) (\<lambda>media.
     bindE (iso_of_number (scaled (js_Number (json_get m ''created_at'')) 1000)) (\<lambda>publishedAt.
       retE \<lparr>src_id = stableId sha ''src'' (''groupme:'' @ groupId @ '':'' @ template_member m ''id''),
         src_tenantId = None, src_contributorUserId = None, src_organizationId = orgId, src_sourceType = groupme,
         src_externalId = Some (groupId @ '':'' @ template_member m ''id''),
         src_url = Some (''https://groupme.com/chats/'' @ groupId),
         src_title = Some (if js_truthy (json_get m ''name'')
           then ''GroupMe '' @ [CHR 0xE2, CHR 0x80, CHR 0x94] @ '' '' @ template_member m ''name''
           else ''GroupMe message''),
         src_rawText = nullish (text_member (json_get m ''text'')) [], src_media = media,
         src_publishedAt = Some publishedAt, src_fetchedAt = nowIso now,
         src_metadata = Some (members [(''groupId'', Some (JStr groupId)), (''messageId'', json_get m ''id''),
           (''senderId'', json_get m ''user_id'')])\<rparr>))"

definition by_created :: "json comparator" where
  "by_created a b = number_order (js_Number (json_get a ''created_at'')) (js_Number (json_get b ''created_at''))"

text \<open>Reading a member of each message in the comparison throws on null, when there are two or more.\<close>

definition check_messages :: "json list \<Rightarrow> (error, 's, unit) op" where
  "check_messages msgs = (if 2 \<le> length msgs then forE (\<lambda>m. bindE (dot (Some m) ''created_at'') (\<lambda>_. retE ())) msgs
     else retE ())"

definition groupme_scope :: "string \<Rightarrow> string option \<Rightarrow> string" where
  "groupme_scope groupId contributorUserId =
     (if truthy contributorUserId then the contributorUserId @ '':'' @ groupId else groupId)"

definition syncGroup ::
    "(string \<Rightarrow> string) \<Rightarrow> (nat \<Rightarrow> int) \<Rightarrow> http_client \<Rightarrow> string \<Rightarrow> string \<Rightarrow> string \<Rightarrow> string \<Rightarrow> string option \<Rightarrow>
       SourceItem list store_op" where
  "syncGroup sha clk http token orgId groupId tenantId contributorUserId =
     (let stateScope = groupme_scope groupId contributorUserId in
      bindE (getConnectorState ''groupme'' stateScope tenantId) (\<lambda>(cursor, _).
      bindE (groupme_messages http token groupId cursor) (\<lambda>msgs.
      bindE (check_messages msgs) (\<lambda>_.
      let ordered = js_sort by_created msgs in
      bindE (mapE (\<lambda>(n, m). groupme_source sha (clk (1 + n)) orgId groupId m) (enumerate 0 ordered)) (\<lambda>out.
      bindE (if ordered = [] then retE ()
             else setConnectorState (clk 0) ''groupme'' stateScope (Some (template_member (last ordered) ''id''))
               (JObj []) tenantId contributorUserId) (\<lambda>_. retE out))))))"

section \<open>Instagram\<close>

definition instagram_image :: "json \<Rightarrow> (error, 's, MediaRef list) op" where
  "instagram_image x =
     bindE (dot (Some x) ''media_type'') (\<lambda>kind.
       let url = (if kind = Some (JStr ''VIDEO'') \<and> js_truthy (json_get x ''thumbnail_url'') then json_get x ''thumbnail_url''
                  else json_get x ''media_url'') in
       retE (if js_truthy url then [image_url (the url)] else []))"

definition instagram_source ::
    "(string \<Rightarrow> string) \<Rightarrow> int \<Rightarrow> string \<Rightarrow> json \<Rightarrow> (error, 's, SourceItem) op" where
  "instagram_source sha now h m =
     bindE (instagram_image m) (\<lambda>own.
     bindE (iterate_or_empty (opt_dot (json_get m ''children'') ''data'')) (\<lambda>children.
     bindE (mapE instagram_image children) (\<lambda>others.
       retE \<lparr>src_id = stableId sha ''src'' (''instagram:'' @ template_member m ''id''), src_tenantId = None,
         src_contributorUserId = None, src_organizationId = [], src_sourceType = instagram,
         src_externalId = text_member (json_get m ''id''), src_url = text_member (json_get m ''permalink''),
         src_title = Some (''Instagram @'' @ h), src_rawText = nullish (text_member (json_get m ''caption'')) [],
         src_media = own @ concat others, src_publishedAt = text_member (json_get m ''timestamp''),
         src_fetchedAt = nowIso now,
         src_metadata = Some (members [(''handle'', Some (JStr h)), (''mediaType'', json_get m ''media_type'')])\<rparr>)))"

definition discovery_fields :: "string \<Rightarrow> nat \<Rightarrow> string" where
  "discovery_fields h limit = ''business_discovery.username('' @ h @
     ''){id,username,name,biography,website,profile_picture_url,media.limit('' @ show_nat limit @
     ''){id,caption,media_type,media_url,thumbnail_url,permalink,timestamp,children{media_type,media_url,thumbnail_url}}}''"

definition businessDiscovery ::
    "(string \<Rightarrow> string) \<Rightarrow> (nat \<Rightarrow> int) \<Rightarrow> http_client \<Rightarrow> string \<Rightarrow> string \<Rightarrow> string \<Rightarrow> string \<Rightarrow> nat \<Rightarrow>
       (error, 's, json \<times> SourceItem list) op" where
  "businessDiscovery sha clk http token apiVersion igUserId handle limit =
     (let h = normalizeHandle handle in
      bindE (get_json ''Instagram'' True http (''https://graph.facebook.com/'' @ apiVersion @ ''/'' @ igUserId)
          [(''fields'', discovery_fields h limit), (''access_token'', token)]) (\<lambda>data.
      bindE (dot (Some data) ''business_discovery'') (\<lambda>p.
        if \<not> js_truthy p then throwE (Error (''No business_discovery result for @'' @ h))
        else
          bindE (array_or_empty (opt_dot (json_get (the p) ''media'') ''data'')) (\<lambda>xs.
          bindE (mapE (\<lambda>(n, m). instagram_source sha (clk n) h m) (enumerate 0 xs)) (\<lambda>sources.
            retE (the p, sources))))))"

definition sourcesForOrganization ::
    "(string \<Rightarrow> string) \<Rightarrow> (nat \<Rightarrow> int) \<Rightarrow> http_client \<Rightarrow> string \<Rightarrow> string \<Rightarrow> string \<Rightarrow> string \<Rightarrow> string \<Rightarrow> nat \<Rightarrow>
       (error, 's, json \<times> SourceItem list) op" where
  "sourcesForOrganization sha clk http token apiVersion igUserId orgId handle limit =
     bindE (businessDiscovery sha clk http token apiVersion igUserId handle limit) (\<lambda>(profile, sources).
       retE (profile, map (\<lambda>s. s\<lparr>src_organizationId := orgId\<rparr>) sources))"

section \<open>LinkedIn\<close>

definition linkedinVanityName :: "(string \<Rightarrow> URL option) \<Rightarrow> string \<Rightarrow> string option" where
  "linkedinVanityName parse url = (case parse url of None \<Rightarrow> None
     | Some u \<Rightarrow>
       (let name = takeWhile (\<lambda>c. c \<noteq> CHR ''/'') (drop 9 (url_pathname u)) in
        if starts_with (url_pathname u) ''/company/'' \<and> name \<noteq> [] then Some name else None))"

definition resolveOrganizationUrn :: "(string \<Rightarrow> URL option) \<Rightarrow> http_client \<Rightarrow> string \<Rightarrow> (error, 's, string) op" where
  "resolveOrganizationUrn parse http companyUrl =
     (case linkedinVanityName parse companyUrl of
        None \<Rightarrow> throwE (Error ''Invalid LinkedIn company URL'')
      | Some vanity \<Rightarrow>
        bindE (get_json ''LinkedIn'' True http ''https://api.linkedin.com/rest/organizations''
            [(''q'', ''vanityName''), (''vanityName'', vanity)]) (\<lambda>x.
        bindE (dot (Some x) ''elements'') (\<lambda>elements.
          let first = (case elements of Some (JArr (e # _)) \<Rightarrow> Some e | Some (JStr (c # _)) \<Rightarrow> Some (JStr [c]) | _ \<Rightarrow> None);
              i = opt_dot first ''id'' in
          if \<not> js_truthy i then throwE (Error (''No organization found for vanity '' @ vanity))
          else retE (''urn:li:organization:'' @ text_of i))))"

definition linkedin_image_urns :: "json \<Rightarrow> (error, 's, json list) op" where
  "linkedin_image_urns p =
     (let content = (if is_nullish (json_get p ''content'') then Some (JObj []) else json_get p ''content'');
          single = opt_dot (opt_dot content ''media'') ''id'' in
      bindE (iterate_or_empty (opt_dot (opt_dot content ''multiImage'') ''images'')) (\<lambda>images.
      bindE (mapE (\<lambda>im. bindE (dot (Some im) ''id'') (\<lambda>i. retE (if js_truthy i then [the i] else []))) images) (\<lambda>several.
        retE ((if js_truthy single then [the single] else []) @ concat several))))"

text \<open>An image that cannot be loaded is left out.\<close>

definition linkedin_image :: "http_client \<Rightarrow> json \<Rightarrow> (error, 's, MediaRef list) op" where
  "linkedin_image http urn = catchE
     (bindE (get_json ''LinkedIn'' True http (''https://api.linkedin.com/rest/images/'' @ encodeURIComponent (js_String urn)) [])
       (\<lambda>img. bindE (dot (Some img) ''downloadUrl'') (\<lambda>url.
         retE (if js_truthy url then [image_url (the url)] else []))))
     (\<lambda>_. retE [])"

definition linkedin_source ::
    "(string \<Rightarrow> string) \<Rightarrow> int \<Rightarrow> http_client \<Rightarrow> string \<Rightarrow> json \<Rightarrow> (error, 's, SourceItem) op" where
  "linkedin_source sha now http orgId p =
     bindE (dot (Some p) ''content'') (\<lambda>_.
     bindE (linkedin_image_urns p) (\<lambda>urns.
     bindE (mapE (linkedin_image http) urns) (\<lambda>media.
     bindE (if js_truthy (json_get p ''publishedAt'') then
              bindE (iso_of_number (js_Number (json_get p ''publishedAt''))) (\<lambda>t. retE (Some t))
            else retE None) (\<lambda>publishedAt.
       retE \<lparr>src_id = stableId sha ''src'' (''linkedin:'' @ template_member p ''id''), src_tenantId = None,
         src_contributorUserId = None, src_organizationId = orgId, src_sourceType = linkedin,
         src_externalId = text_member (json_get p ''id''), src_url = text_member (json_get p ''permalink''),
         src_title = Some ''LinkedIn organization post'',
         src_rawText = nullish (text_member (json_get p ''commentary'')) [], src_media = concat media,
         src_publishedAt = publishedAt, src_fetchedAt = nowIso now,
         src_metadata = Some (members [(''author'', json_get p ''author''),
           (''lifecycleState'', json_get p ''lifecycleState'')])\<rparr>))))"

definition linkedin_posts ::
    "(string \<Rightarrow> string) \<Rightarrow> (nat \<Rightarrow> int) \<Rightarrow> http_client \<Rightarrow> string \<Rightarrow> string \<Rightarrow> nat \<Rightarrow> (error, 's, SourceItem list) op" where
  "linkedin_posts sha clk http orgId organizationUrn limit =
     bindE (get_json ''LinkedIn'' True http ''https://api.linkedin.com/rest/posts'' [(''q'', ''author''),
         (''author'', organizationUrn), (''count'', show_nat limit), (''sortBy'', ''LAST_MODIFIED'')]) (\<lambda>x.
     bindE (dot (Some x) ''elements'') (\<lambda>elements.
     bindE (iterate_or_empty elements) (\<lambda>ps.
       mapE (\<lambda>(n, p). linkedin_source sha (clk n) http orgId p) (enumerate 0 ps))))"

section \<open>Gmail\<close>

text \<open>The decoders of the runtime: Base64 to bytes, bytes to text and bytes to Base64.\<close>

record codec =
  cd_base64 :: "string \<Rightarrow> nat list"
  cd_utf8 :: "nat list \<Rightarrow> string"
  cd_to_base64 :: "nat list \<Rightarrow> string"

definition b64url :: "codec \<Rightarrow> json option \<Rightarrow> (error, 's, nat list) op" where
  "b64url cd v = (case v of
     Some (JStr s) \<Rightarrow> retE (cd_base64 cd (map (\<lambda>c. if c = CHR ''-'' then CHR ''+'' else if c = CHR ''_'' then CHR ''/'' else c) s))
   | _ \<Rightarrow> throwE (TypeError ''s.replace is not a function''))"

fun header_in :: "string \<Rightarrow> json list \<Rightarrow> (error, 's, json option) op" where
  "header_in n [] = retE None"
| "header_in n (h # hs) = bindE (dot (Some h) ''name'') (\<lambda>name.
     if toLowerCase (text_of name) = toLowerCase n then retE (json_get h ''value'') else header_in n hs)"

definition gmail_header :: "json option \<Rightarrow> string \<Rightarrow> (error, 's, json option) op" where
  "gmail_header hs n = bindE (array_or_empty hs) (header_in n)"

fun collect :: "('e + 'a list) list \<Rightarrow> 'e + 'a list" where
  "collect [] = Inr []"
| "collect (Inl e # rs) = Inl e"
| "collect (Inr xs # rs) = (case collect rs of Inl e \<Rightarrow> Inl e | Inr ys \<Rightarrow> Inr (xs @ ys))"

lemma json_member_smaller:
  assumes "json_get v k = Some (JArr xs)" and "x \<in> set xs"
  shows "size x < size v"
proof -
  obtain kvs where v: "v = JObj kvs" and m: "(k, JArr xs) \<in> set kvs"
    using assms(1) by (auto simp: json_get_def split: json.splits dest: map_of_SomeD)
  have "size x < size (JArr xs)" using assms(2) by (simp add: less_Suc_eq_le size_list_estimation')
  also have "size (JArr xs) < size (JObj kvs)"
    using m by (simp add: less_Suc_eq_le) (rule size_list_estimation' [OF m], simp)
  finally show ?thesis by (simp add: v)
qed

function walkParts :: "json \<Rightarrow> error + json list" where
  "walkParts payload = (case json_get payload ''parts'' of
     None \<Rightarrow> Inr [payload]
   | Some JNull \<Rightarrow> Inr [payload]
   | Some (JArr xs) \<Rightarrow> (case collect (map walkParts xs) of Inl e \<Rightarrow> Inl e | Inr ys \<Rightarrow> Inr (payload # ys))
   | Some _ \<Rightarrow> Inl (TypeError ''is not a function''))"
  by pat_completeness auto

termination
  by (relation "measure size") (auto intro: json_member_smaller)

declare walkParts.simps [simp del]

text \<open>\<open>text.replace(/<[^>]+>/g, ' ')\<close>\<close>

function replace_tags :: "string \<Rightarrow> string" where
  "replace_tags [] = []"
| "replace_tags (c # cs) =
     (let inside = takeWhile (\<lambda>x. x \<noteq> CHR ''>'') cs; after = dropWhile (\<lambda>x. x \<noteq> CHR ''>'') cs in
      if c = CHR ''<'' \<and> inside \<noteq> [] \<and> after \<noteq> [] then CHR '' '' # replace_tags (tl after)
      else c # replace_tags cs)"
  by pat_completeness auto

termination
  by (relation "measure length") (auto simp: less_Suc_eq_le le_diff_conv intro: le_trans [OF length_dropWhile_le])

definition gmail_req :: "http_client \<Rightarrow> string \<Rightarrow> string \<Rightarrow> (string \<times> string) list \<Rightarrow> (error, 's, json) op" where
  "gmail_req http userId path query =
     get_json ''Gmail'' True http (''https://gmail.googleapis.com/gmail/v1/users/'' @ encodeURIComponent userId @ path) query"

text \<open>\<open>watch\<close> posts its body; \<open>post\<close> is the client for that.\<close>

definition gmail_watch ::
    "(string \<Rightarrow> string \<Rightarrow> error + http_answer) \<Rightarrow> string \<Rightarrow> string \<Rightarrow> string list \<Rightarrow> (error, 's, json) op" where
  "gmail_watch post userId topicName labelIds = gmail_req (\<lambda>url _. post url (stringify (JObj
     [(''topicName'', JStr topicName), (''labelIds'', JArr (map JStr labelIds)),
      (''labelFilterBehavior'', JStr ''include'')]))) userId ''/watch'' []"

definition decodePush :: "codec \<Rightarrow> string \<Rightarrow> (error, 's, json) op" where
  "decodePush cd data = bindE (b64url cd (Some (JStr data))) (\<lambda>bytes.
     case JSON_parse (cd_utf8 cd bytes) of None \<Rightarrow> throwE (Error ''JSON text is not valid'') | Some v \<Rightarrow> retE v)"

definition gmail_message :: "http_client \<Rightarrow> string \<Rightarrow> json option \<Rightarrow> (error, 's, json) op" where
  "gmail_message http userId i = gmail_req http userId (''/messages/'' @ text_of i) [(''format'', ''full'')]"

definition gmail_attachment :: "codec \<Rightarrow> http_client \<Rightarrow> string \<Rightarrow> json option \<Rightarrow> json option \<Rightarrow> (error, 's, nat list) op" where
  "gmail_attachment cd http userId messageId attachmentId =
     bindE (gmail_req http userId (''/messages/'' @ text_of messageId @ ''/attachments/'' @ text_of attachmentId) [])
       (\<lambda>x. bindE (dot (Some x) ''data'') (b64url cd))"

definition gmail_history :: "http_client \<Rightarrow> string \<Rightarrow> string \<Rightarrow> (error, 's, json) op" where
  "gmail_history http userId startHistoryId = gmail_req http userId ''/history''
     [(''startHistoryId'', startHistoryId), (''historyTypes'', ''messageAdded''), (''labelId'', ''INBOX'')]"

text \<open>The decoded texts of the parts of a type, each after \<open>f\<close>.\<close>

definition part_texts :: "codec \<Rightarrow> string \<Rightarrow> (string \<Rightarrow> string) \<Rightarrow> json list \<Rightarrow> (error, 's, string list) op" where
  "part_texts cd mime f parts =
     bindE (mapE (\<lambda>p. bindE (dot (Some p) ''mimeType'') (\<lambda>kind.
         let data = opt_dot (json_get p ''body'') ''data'' in
         retE (if kind = Some (JStr mime) \<and> js_truthy data then [data] else []))) parts) (\<lambda>datas.
     mapE (\<lambda>data. bindE (b64url cd data) (\<lambda>bytes. retE (f (cd_utf8 cd bytes)))) (concat datas))"

definition part_image :: "codec \<Rightarrow> http_client \<Rightarrow> string \<Rightarrow> json option \<Rightarrow> json \<Rightarrow> (error, 's, MediaRef list) op" where
  "part_image cd http userId messageId p =
     (let attachmentId = opt_dot (json_get p ''body'') ''attachmentId'' in
      if starts_with (nullish (text_member (json_get p ''mimeType'')) []) ''image/'' \<and> js_truthy attachmentId then
        bindE (gmail_attachment cd http userId messageId attachmentId) (\<lambda>bytes.
          retE [\<lparr>media_type = media_image, media_url = None, media_base64 = Some (cd_to_base64 cd bytes),
            media_mimeType = text_member (json_get p ''mimeType''), media_alt = text_member (json_get p ''filename'')\<rparr>])
      else retE [])"

text \<open>\<open>Number(msg.internalDate || 0)\<close>, and the time of publication when it is not 0 or \<open>NaN\<close>.\<close>

definition internal_time :: "json \<Rightarrow> (error, 's, string option) op" where
  "internal_time msg =
     (let internal = (if js_truthy (json_get msg ''internalDate'') then js_Number (json_get msg ''internalDate'') else Finite 0) in
      if internal = Finite 0 \<or> internal = NaN then retE None
      else bindE (iso_of_number internal) (\<lambda>t. retE (Some t)))"

definition first_text :: "string list \<Rightarrow> string list \<Rightarrow> json option \<Rightarrow> string" where
  "first_text texts htmls snippet = (case texts @ htmls of t # _ \<Rightarrow> t | [] \<Rightarrow> nullish (text_member snippet) [])"

definition toSource ::
    "codec \<Rightarrow> (string \<Rightarrow> string) \<Rightarrow> int \<Rightarrow> http_client \<Rightarrow> string \<Rightarrow> string \<Rightarrow> json \<Rightarrow> (error, 's, SourceItem) op" where
  "toSource cd sha now http userId orgId msg =
     bindE (dot (Some msg) ''payload'') (\<lambda>payload.
     bindE (dot payload ''mimeType'') (\<lambda>_.
     bindE (lift_result (walkParts (the payload))) (\<lambda>parts.
     bindE (part_texts cd ''text/plain'' (\<lambda>s. s) parts) (\<lambda>texts.
     bindE (part_texts cd ''text/html'' replace_tags parts) (\<lambda>htmls.
     bindE (mapE (part_image cd http userId (json_get msg ''id'')) parts) (\<lambda>media.
     let hs = opt_dot payload ''headers'' in
     bindE (gmail_header hs ''Subject'') (\<lambda>subject.
     bindE (internal_time msg) (\<lambda>publishedAt.
     bindE (gmail_header hs ''From'') (\<lambda>sender.
     bindE (gmail_header hs ''To'') (\<lambda>recipient.
       retE \<lparr>src_id = stableId sha ''src'' (''gmail:'' @ template_member msg ''id''), src_tenantId = None,
         src_contributorUserId = None, src_organizationId = orgId, src_sourceType = gmail,
         src_externalId = text_member (json_get msg ''id''),
         src_url = Some (''https://mail.google.com/mail/#all/'' @ template_member msg ''id''),
         src_title = text_member subject, src_rawText = first_text texts htmls (json_get msg ''snippet''),
         src_media = concat media, src_publishedAt = publishedAt, src_fetchedAt = nowIso now,
         src_metadata = Some (members [(''from'', sender), (''to'', recipient),
           (''threadId'', json_get msg ''threadId'')])\<rparr>))))))))))"

definition error_string :: "error \<Rightarrow> string" where
  "error_string e = (case e of TypeError m \<Rightarrow> ''TypeError: '' @ m
     | RangeError m \<Rightarrow> ''RangeError: '' @ m | _ \<Rightarrow> ''Error: '' @ error_message e)"

definition history_ids :: "json \<Rightarrow> (error, 's, json option list) op" where
  "history_ids h =
     bindE (dot (Some h) ''history'') (\<lambda>records.
     bindE (array_or_empty records) (\<lambda>xs.
     bindE (mapE (\<lambda>x. bindE (dot (Some x) ''messagesAdded'') (\<lambda>added.
         bindE (array_or_empty added) (\<lambda>ms.
           mapE (\<lambda>m. bindE (dot (Some m) ''message'') (\<lambda>message. dot message ''id'')) ms))) xs) (\<lambda>idss.
       retE (dedup (concat idss)))))"

text \<open>The messages since the cursor, and the messages that a query finds. \<open>resolveOrg\<close> of the call in the
  repository gives every message to one organization.\<close>

definition gmail_sync ::
    "codec \<Rightarrow> (string \<Rightarrow> string) \<Rightarrow> (nat \<Rightarrow> int) \<Rightarrow> http_client \<Rightarrow> string \<Rightarrow> string \<Rightarrow> string option \<Rightarrow>
       (json \<Rightarrow> string option) \<Rightarrow> string \<Rightarrow> SourceItem list store_op" where
  "gmail_sync cd sha clk http userId stateScope ownerUserId resolveOrg tenantId =
     bindE (getConnectorState ''gmail'' stateScope tenantId) (\<lambda>(cursor, _).
     if \<not> truthy cursor then
       throwE (Error ''No Gmail history cursor. Call watch() and persist its historyId first.'')
     else
       bindE (catchE (gmail_history http userId (the cursor)) (\<lambda>e.
           if includes_str (error_string e) ''404'' then
             throwE (Error ''Gmail history cursor expired; perform a bounded recent-message resync, then reset cursor.'')
           else throwE e)) (\<lambda>h.
       bindE (history_ids h) (\<lambda>ids.
       bindE (mapE (\<lambda>(n, i). bindE (gmail_message http userId i) (\<lambda>msg.
           if truthy (resolveOrg msg) then
             bindE (toSource cd sha (clk (1 + n)) http userId (the (resolveOrg msg)) msg) (\<lambda>source. retE [source])
           else retE [])) (enumerate 0 ids)) (\<lambda>out.
       bindE (setConnectorState (clk 0) ''gmail'' stateScope
           (Some (nullish (text_member (json_get h ''historyId'')) (the cursor))) (JObj []) tenantId ownerUserId) (\<lambda>_.
         retE (concat out))))))"

definition gmail_initialize ::
    "codec \<Rightarrow> (string \<Rightarrow> string) \<Rightarrow> (nat \<Rightarrow> int) \<Rightarrow> http_client \<Rightarrow> string \<Rightarrow> string \<Rightarrow> string option \<Rightarrow> string \<Rightarrow> string \<Rightarrow>
       string \<Rightarrow> SourceItem list store_op" where
  "gmail_initialize cd sha clk http userId stateScope ownerUserId orgId query tenantId =
     bindE (gmail_req http userId ''/messages'' [(''maxResults'', ''50''), (''q'', query)]) (\<lambda>listing.
     bindE (dot (Some listing) ''messages'') (\<lambda>found.
     bindE (iterate_or_empty found) (\<lambda>items.
     bindE (mapE (\<lambda>(n, item). bindE (dot (Some item) ''id'') (\<lambda>i. bindE (gmail_message http userId i) (\<lambda>msg.
         toSource cd sha (clk (1 + n)) http userId orgId msg))) (enumerate 0 items)) (\<lambda>out.
     bindE (gmail_req http userId ''/profile'' []) (\<lambda>profile.
     bindE (dot (Some profile) ''historyId'') (\<lambda>historyId.
     bindE (setConnectorState (clk 0) ''gmail'' stateScope (Some (text_of historyId)) (JObj []) tenantId ownerUserId) (\<lambda>_.
       retE out)))))))"

definition gmail_synchronize ::
    "codec \<Rightarrow> (string \<Rightarrow> string) \<Rightarrow> (nat \<Rightarrow> int) \<Rightarrow> http_client \<Rightarrow> string \<Rightarrow> string \<Rightarrow> string option \<Rightarrow> string \<Rightarrow> string \<Rightarrow>
       string \<Rightarrow> SourceItem list store_op" where
  "gmail_synchronize cd sha clk http userId stateScope ownerUserId orgId query tenantId =
     bindE (getConnectorState ''gmail'' stateScope tenantId) (\<lambda>(cursor, _).
     if \<not> truthy cursor then gmail_initialize cd sha clk http userId stateScope ownerUserId orgId query tenantId
     else catchE (gmail_sync cd sha clk http userId stateScope ownerUserId (\<lambda>_. Some orgId) tenantId) (\<lambda>e.
       if \<not> includes_str (error_string e) ''history cursor expired'' then throwE e
       else gmail_initialize cd sha clk http userId stateScope ownerUserId orgId query tenantId))"

section \<open>Screenshots and the directory\<close>

definition screenshotSource ::
    "(string \<Rightarrow> string) \<Rightarrow> int \<Rightarrow> string \<Rightarrow> json \<Rightarrow> SourceItem" where
  "screenshotSource sha now orgId input =
     (let base64 = nullish (json_text input ''base64'') [] in
      \<lparr>src_id = stableId sha ''src'' (''screenshot:'' @ orgId @ '':'' @ take 64 base64 @ '':'' @ nullish (json_text input ''note'') []),
       src_tenantId = None, src_contributorUserId = None, src_organizationId = orgId, src_sourceType = screenshot,
       src_externalId = None, src_url = json_text input ''url'', src_title = Some ''Manual screenshot'',
       src_rawText = nullish (json_text input ''note'') [],
       src_media = [\<lparr>media_type = media_image, media_url = None, media_base64 = Some base64,
         media_mimeType = Some (nullish (json_text input ''mimeType'') ''image/png''), media_alt = None\<rparr>],
       src_publishedAt = json_text input ''publishedAt'', src_fetchedAt = nowIso now, src_metadata = None\<rparr>)"

definition organizationFromHeelLife ::
    "(string \<Rightarrow> string) \<Rightarrow> string \<Rightarrow> string \<Rightarrow> string option \<Rightarrow> string option \<Rightarrow> string option \<Rightarrow> string option \<Rightarrow> Organization" where
  "organizationFromHeelLife sha name heelLifeUrl school websiteUrl instagramHandle linkedinUrl =
     \<lparr>org_id = stableId sha ''org'' heelLifeUrl, org_tenantId = None, org_name = name,
      org_school = nullish school ''University of North Carolina at Chapel Hill'',
      org_heelLifeUrl = Some heelLifeUrl, org_websiteUrl = websiteUrl, org_instagramHandle = instagramHandle,
      org_linkedinUrl = linkedinUrl\<rparr>"

end
