(* ===== verification/Worker.thy ===== *)
theory Worker
  imports Ingest Connectors Requests JobQueue
begin

text \<open>
  The worker of src/src/bootstrap/worker.ts: what it does with a leased job, the heartbeat that renews the
  lease meanwhile (src/src/application/queue/job-lease-heartbeat.ts), the scheduler of recurring
  synchronisations (src/src/application/connectors/connector-sync-scheduler.ts) and the settlement of the
  job. The clients of the providers, the extractor, the web connector and the readings of the clock are
  arguments.
\<close>

section \<open>The heartbeat\<close>

record JobLeaseHeartbeat =
  hb_current :: Job
  hb_lost :: bool

definition new_heartbeat :: "Job \<Rightarrow> JobLeaseHeartbeat" where
  "new_heartbeat job = \<lparr>hb_current = job, hb_lost = False\<rparr>"

definition lease_end :: "(string \<Rightarrow> int option) \<Rightarrow> Job \<Rightarrow> int option" where
  "lease_end legacy job = Option.bind (job_leasedUntil job) (Date_parse legacy)"

definition hb_renew ::
    "(string \<Rightarrow> int option) \<Rightarrow> (nat \<Rightarrow> int) \<Rightarrow> int \<Rightarrow> JobLeaseHeartbeat \<Rightarrow> JobLeaseHeartbeat store_op" where
  "hb_renew legacy clk leaseSeconds hb = catchE
     (bindE (renewLease clk (hb_current hb) leaseSeconds) (\<lambda>renewed.
        case renewed of Some job \<Rightarrow> retE (hb\<lparr>hb_current := job\<rparr>) | None \<Rightarrow> retE (hb\<lparr>hb_lost := True\<rparr>)))
     (\<lambda>_. retE (if \<not> truthy (job_leasedUntil (hb_current hb)) \<or> nan_le (lease_end legacy (hb_current hb)) (Some (clk 3))
        then hb\<lparr>hb_lost := True\<rparr> else hb))"

text \<open>A tick of the timer. The renewal of one tick ends before that of the next begins.\<close>

definition hb_tick ::
    "(string \<Rightarrow> int option) \<Rightarrow> (nat \<Rightarrow> int) \<Rightarrow> int \<Rightarrow> JobLeaseHeartbeat \<Rightarrow> JobLeaseHeartbeat store_op" where
  "hb_tick legacy clk leaseSeconds hb = (if hb_lost hb then retE hb else hb_renew legacy clk leaseSeconds hb)"

text \<open>At the end the lease is renewed once more when less than five seconds, or a third of it, are left.\<close>

definition hb_stop ::
    "(string \<Rightarrow> int option) \<Rightarrow> (nat \<Rightarrow> int) \<Rightarrow> int \<Rightarrow> JobLeaseHeartbeat \<Rightarrow> Job option store_op" where
  "hb_stop legacy clk leaseSeconds hb =
     (if hb_lost hb \<or> \<not> truthy (job_leasedUntil (hb_current hb)) then retE None
      else bindE (case lease_end legacy (hb_current hb) of
            None \<Rightarrow> retE hb
          | Some until \<Rightarrow>
            if until - clk 0 \<le> 5000 \<and> 3 * (until - clk 0) \<le> leaseSeconds * 1000
            then hb_renew legacy (\<lambda>n. clk (1 + n)) leaseSeconds hb else retE hb) (\<lambda>hb'.
        retE (if hb_lost hb' then None else Some (hb_current hb'))))"

section \<open>Recurring synchronisations\<close>

record ConnectorSyncPayload =
  syn_provider :: OAuthProvider
  syn_userId :: string
  syn_organizationId :: string
  syn_scope :: "string option"
  syn_recurring :: "bool option"

definition nonempty_text :: "json option \<Rightarrow> bool" where
  "nonempty_text = text_sat (\<lambda>s. s \<noteq> [])"

definition connectorSyncPayloadSchema :: "schema_library \<Rightarrow> json \<Rightarrow> error + ConnectorSyncPayload" where
  "connectorSyncPayloadSchema lib payload =
     (case zod_check lib ''connectorSyncPayloadSchema''
        [(''provider'', Option.bind (json_text payload ''provider'') provider_of_text \<noteq> None),
         (''userId'', nonempty_text (json_get payload ''userId'')),
         (''organizationId'', nonempty_text (json_get payload ''organizationId'')),
         (''scope'', optional (text_sat (\<lambda>_. True)) (json_get payload ''scope'')),
         (''recurring'', optional is_bool (json_get payload ''recurring''))] of
        Inl e \<Rightarrow> Inl e
      | Inr _ \<Rightarrow> Inr \<lparr>syn_provider = the (Option.bind (json_text payload ''provider'') provider_of_text),
          syn_userId = the (json_text payload ''userId''), syn_organizationId = the (json_text payload ''organizationId''),
          syn_scope = json_text payload ''scope'',
          syn_recurring = (case json_get payload ''recurring'' of Some (JBool b) \<Rightarrow> Some b | _ \<Rightarrow> None)\<rparr>)"

text \<open>\<open>{ ...payload, recurring: true }\<close>\<close>

definition recurring_json :: "ConnectorSyncPayload \<Rightarrow> json" where
  "recurring_json p = JObj ([(''provider'', JStr (provider_text (syn_provider p))), (''userId'', JStr (syn_userId p)),
     (''organizationId'', JStr (syn_organizationId p))] @
     (case syn_scope p of None \<Rightarrow> [] | Some scope \<Rightarrow> [(''scope'', JStr scope)]) @ [(''recurring'', JBool True)])"

definition schedule_input :: "int \<Rightarrow> int \<Rightarrow> Job \<Rightarrow> ConnectorSyncPayload \<Rightarrow> EnqueueJob" where
  "schedule_input intervalSeconds now job p =
     (let intervalMs = intervalSeconds * 1000; availableAtMs = now + intervalMs in
      \<lparr>enq_tenantId = job_tenantId job, enq_type = ''connector.sync'',
       enq_idempotencyKey = ''scheduled:'' @ provider_text (syn_provider p) @ '':'' @ syn_userId p @ '':'' @
         syn_organizationId p @ '':'' @ nullish (syn_scope p) [] @ '':'' @ show_int (availableAtMs div intervalMs),
       enq_payload = recurring_json p, enq_priority = None, enq_maxAttempts = None,
       enq_availableAt = Some (toISOString availableAtMs)\<rparr>)"

definition scheduleAfter ::
    "(string \<Rightarrow> string) \<Rightarrow> gcm \<Rightarrow> vault \<Rightarrow> int \<Rightarrow> (nat \<Rightarrow> int) \<Rightarrow> Job \<Rightarrow> ConnectorSyncPayload \<Rightarrow> Job option store_op" where
  "scheduleAfter sha g v intervalSeconds clk job p =
     (if syn_recurring p = Some False then retE None
      else bindE (vault_get sqlite_credentials g v (job_tenantId job) (syn_userId p) (provider_text (syn_provider p)))
        (\<lambda>stillConnected. case stillConnected of None \<Rightarrow> retE None
         | Some _ \<Rightarrow> bindE (enqueue sha (\<lambda>n. clk (1 + n)) (schedule_input intervalSeconds (clk 0) job p))
             (\<lambda>next. retE (Some next))))"

section \<open>Processing a job\<close>

record worker_deps =
  wk_config :: AppConfig
  wk_library :: schema_library
  wk_sha :: "string \<Rightarrow> string"
  wk_legacy :: "string \<Rightarrow> int option"
  wk_parse :: "string \<Rightarrow> URL option"
  wk_gcm :: gcm
  wk_vault :: vault
  wk_providers :: provider_configuration
  wk_token :: token_endpoint
  wk_extract :: "SourceItem \<Rightarrow> error + ExtractionResult"
  wk_web :: web_fetch
  wk_http :: "OAuthProvider \<Rightarrow> string \<Rightarrow> http_client"
  wk_codec :: codec

record work_call =
  wc_clk :: "nat \<Rightarrow> int"
  wc_ingest :: "nat \<Rightarrow> nat \<Rightarrow> nat \<Rightarrow> nat \<Rightarrow> int"
  wc_nonce :: "nat list"
  wc_uuid :: string

definition work_ingest :: "worker_deps \<Rightarrow> work_call \<Rightarrow> nat \<Rightarrow> Job \<Rightarrow> string option \<Rightarrow> SourceItem \<Rightarrow> unit store_op" where
  "work_ingest d c n job userId source =
     bindE (ingest (sqlite_repository (wk_sha d)) (wk_legacy d) (wk_sha d) (cfg_defaultTenantId (wk_config d))
         (wk_extract d) (classifyUrl (wk_parse d)) (Some (wk_web d)) (wc_ingest c n)
         (source\<lparr>src_tenantId := Some (job_tenantId job), src_contributorUserId := userId\<rparr>) True 2) (\<lambda>_. retE ())"

definition connector_sources ::
    "worker_deps \<Rightarrow> work_call \<Rightarrow> Job \<Rightarrow> ConnectorSyncPayload \<Rightarrow> ProviderCredential \<Rightarrow> Organization \<Rightarrow> SourceItem list store_op" where
  "connector_sources d c job p credential organization =
     (let http = wk_http d (syn_provider p) (pc_accessToken credential); clk = (\<lambda>n. wc_clk c (4 + n)) in
      case syn_provider p of
        p_gmail \<Rightarrow>
          gmail_synchronize (wk_codec d) (wk_sha d) clk http (cfg_gmailUserId (wk_config d)) (syn_userId p)
            (Some (syn_userId p)) (syn_organizationId p)
            (''(\"'' @ org_name organization @ ''\" OR recruiting OR application)'') (job_tenantId job)
      | p_groupme \<Rightarrow>
          if \<not> truthy (syn_scope p) then throwE (Error ''GroupMe sync requires a group ID scope'')
          else syncGroup (wk_sha d) clk http (pc_accessToken credential) (syn_organizationId p) (the (syn_scope p))
            (job_tenantId job) (Some (syn_userId p))
      | p_instagram \<Rightarrow>
          if \<not> truthy (org_instagramHandle organization) \<or> \<not> truthy (cfg_metaIgUserId (wk_config d)) then
            throwE (Error ''Instagram organization handle or META_IG_USER_ID is missing'')
          else bindE (sourcesForOrganization (wk_sha d) clk http (pc_accessToken credential)
              (cfg_metaApiVersion (wk_config d)) (the (cfg_metaIgUserId (wk_config d))) (syn_organizationId p)
              (the (org_instagramHandle organization)) 25) (\<lambda>(_, sources). retE sources)
      | p_linkedin \<Rightarrow>
          if \<not> truthy (org_linkedinUrl organization) then throwE (Error ''LinkedIn organization URL is missing'')
          else bindE (resolveOrganizationUrn (wk_parse d) http (the (org_linkedinUrl organization))) (\<lambda>urn.
            linkedin_posts (wk_sha d) clk http (syn_organizationId p) urn 50))"

text \<open>Readings of the clock: 0 to 3 for the credential, or 0 and 1 for a resolution; from 4 in a connector.\<close>

definition process_sync :: "worker_deps \<Rightarrow> work_call \<Rightarrow> Job \<Rightarrow> ConnectorSyncPayload store_op" where
  "process_sync d c job =
     bindE (lift_result (connectorSyncPayloadSchema (wk_library d) (job_payload job))) (\<lambda>p.
     bindE (getValid (wk_sha d) (wk_gcm d) (wk_vault d) (wk_providers d) (wk_token d) (wk_legacy d) 60000 (wc_clk c)
         (wc_nonce c) (wc_uuid c) (job_tenantId job) (syn_userId p) (syn_provider p) (Some (job_id job))) (\<lambda>found.
       case found of None \<Rightarrow> throwE (Error (provider_text (syn_provider p) @ '' is not connected''))
       | Some credential \<Rightarrow>
         bindE (getOrganization (syn_organizationId p) (job_tenantId job)) (\<lambda>known.
           case known of None \<Rightarrow> throwE (Error ''Organization not found'')
           | Some organization \<Rightarrow>
             bindE (connector_sources d c job p credential organization) (\<lambda>sources.
             bindE (forE (\<lambda>(n, source). work_ingest d c n job (Some (syn_userId p)) source) (enumerate 0 sources)) (\<lambda>_.
               retE p)))))"

definition process_job :: "worker_deps \<Rightarrow> work_call \<Rightarrow> Job \<Rightarrow> ConnectorSyncPayload option store_op" where
  "process_job d c job =
     (let org = nullish (json_text (job_payload job) ''organizationId'') []; user = json_text (job_payload job) ''userId'' in
      if job_type job = ''ingest.url'' then
        bindE (lift_result (wk_web d org (nullish (json_text (job_payload job) ''url'') []))) (\<lambda>(source, _).
        bindE (work_ingest d c 0 job user source) (\<lambda>_. retE None))
      else if job_type job = ''ingest.screenshot'' then
        bindE (work_ingest d c 0 job user (screenshotSource (wk_sha d) (wc_clk c 0) org (job_payload job))) (\<lambda>_. retE None)
      else if job_type job = ''privacy.reconcile'' then
        bindE (lift_result (zod_check (wk_library d) ''privacy.reconcile''
            [(''organizationId'', nonempty_text (json_get (job_payload job) ''organizationId''))])) (\<lambda>_.
        bindE (resolveOrganization (sqlite_repository (wk_sha d)) (wk_legacy d) (wk_sha d) (\<lambda>n. wc_clk c (2 + n))
            (wc_clk c 1) org (wc_clk c 0) (job_tenantId job)) (\<lambda>_. retE None))
      else if job_type job = ''connector.sync'' then bindE (process_sync d c job) (\<lambda>p. retE (Some p))
      else throwE (Error (''Unsupported job type: '' @ job_type job)))"

section \<open>Settling a job\<close>

datatype settlement = LeaseLost | JobFailed error | JobCompleted | SettlementFailed error

text \<open>Readings of the clock: 0 to 4 in the heartbeat, from 5 in the scheduler, from 10 in the queue.\<close>

definition reschedule ::
    "worker_deps \<Rightarrow> (nat \<Rightarrow> int) \<Rightarrow> Job \<Rightarrow> error + ConnectorSyncPayload option \<Rightarrow> error option store_op" where
  "reschedule d clk ownedJob processed =
     (case processed of
        Inl e \<Rightarrow> retE (Some e)
      | Inr None \<Rightarrow> retE None
      | Inr (Some payload) \<Rightarrow>
        catchE (bindE (scheduleAfter (wk_sha d) (wk_gcm d) (wk_vault d)
            (cfg_limits_connectorSyncIntervalSeconds (wk_config d)) (\<lambda>n. clk (5 + n)) ownedJob payload) (\<lambda>_. retE None))
          (\<lambda>e. retE (Some e)))"

definition settle_owned :: "(nat \<Rightarrow> int) \<Rightarrow> Job \<Rightarrow> error option \<Rightarrow> settlement store_op" where
  "settle_owned clk ownedJob processingError = catchE
     (case processingError of
        Some e \<Rightarrow> bindE (fail (\<lambda>n. clk (10 + n)) ownedJob e) (\<lambda>_. retE (JobFailed e))
      | None \<Rightarrow> bindE (complete (\<lambda>n. clk (10 + n)) ownedJob) (\<lambda>_. retE JobCompleted))
     (\<lambda>e. retE (SettlementFailed e))"

definition settle_job ::
    "worker_deps \<Rightarrow> (nat \<Rightarrow> int) \<Rightarrow> JobLeaseHeartbeat \<Rightarrow> error + ConnectorSyncPayload option \<Rightarrow> settlement store_op" where
  "settle_job d clk hb processed =
     bindE (hb_stop (wk_legacy d) clk 60 hb) (\<lambda>owned.
       case owned of None \<Rightarrow> retE LeaseLost
       | Some ownedJob \<Rightarrow> bindE (reschedule d clk ownedJob processed) (settle_owned clk ownedJob))"

definition attempt :: "(error, 's, 'a) op \<Rightarrow> (error, 's, error + 'a) op" where
  "attempt m = catchE (bindE m (\<lambda>x. retE (Inr x))) (\<lambda>e. retE (Inl e))"

text \<open>One round of the loop of the worker, alone on the store: \<open>None\<close> when no job is due. \<open>ticks\<close> are the
  readings of the clock at the ticks of the timer.\<close>

definition worker_round ::
    "worker_deps \<Rightarrow> work_call \<Rightarrow> (nat \<Rightarrow> int) \<Rightarrow> (nat \<Rightarrow> int) list \<Rightarrow> (nat \<Rightarrow> int) \<Rightarrow> string \<Rightarrow> settlement option store_op" where
  "worker_round d c leaseClk ticks settleClk workerId =
     bindE (leaseNext leaseClk workerId 60) (\<lambda>leased.
       case leased of None \<Rightarrow> retE None
       | Some job \<Rightarrow>
         bindE (attempt (process_job d c job)) (\<lambda>processed.
         bindE (foldl (\<lambda>m clk. bindE m (hb_tick (wk_legacy d) clk 60)) (retE (new_heartbeat job)) ticks) (\<lambda>hb.
         bindE (settle_job d settleClk hb processed) (\<lambda>outcome. retE (Some outcome)))))"

section \<open>Operations that do not throw\<close>

definition total :: "('e, 's, 'a) op \<Rightarrow> bool" where
  "total m \<longleftrightarrow> (\<forall>s. \<exists>x s'. m s = (Inr x, s'))"

named_theorems total_intros

lemma total_retE [total_intros]: "total (retE x)"
  by (simp add: total_def retE_def)

lemma total_bindE [total_intros]:
  assumes "total m" and "\<And>x. total (k x)"
  shows "total (bindE m k)"
  unfolding total_def
proof
  fix s
  obtain x s1 where m: "m s = (Inr x, s1)" using assms(1) unfolding total_def by blast
  obtain y s2 where "k x s1 = (Inr y, s2)" using assms(2) unfolding total_def by blast
  with m show "\<exists>x s'. bindE m k s = (Inr x, s')" by (simp add: bindE_def)
qed

lemma total_catchE [total_intros]:
  assumes "\<And>e. total (h e)"
  shows "total (catchE m h)"
  unfolding total_def
proof
  fix s
  obtain r s1 where m: "m s = (r, s1)" by fastforce
  show "\<exists>x s'. catchE m h s = (Inr x, s')"
  proof (cases r)
    case (Inl e)
    obtain y s2 where "h e s1 = (Inr y, s2)" using assms unfolding total_def by blast
    with m Inl show ?thesis by (simp add: catchE_def)
  qed (use m in \<open>simp add: catchE_def\<close>)
qed

lemma total_option [total_intros]:
  "total m \<Longrightarrow> (\<And>y. total (f y)) \<Longrightarrow> total (case x of None \<Rightarrow> m | Some y \<Rightarrow> f y)"
  by (cases x) simp_all

lemma total_sum [total_intros]:
  "(\<And>y. total (f y)) \<Longrightarrow> (\<And>y. total (g y)) \<Longrightarrow> total (case x of Inl y \<Rightarrow> f y | Inr y \<Rightarrow> g y)"
  by (cases x) simp_all

lemma total_if [total_intros]: "total m \<Longrightarrow> total n \<Longrightarrow> total (if p then m else n)"
  by simp

lemma total_settle: "total (settle_job d clk hb processed)"
  unfolding settle_job_def hb_stop_def hb_renew_def reschedule_def settle_owned_def by (intro total_intros)

section \<open>Rows of other jobs\<close>

definition own_rows :: "string \<Rightarrow> job_row table \<Rightarrow> job_row table \<Rightarrow> bool" where
  "own_rows i T T' \<longleftrightarrow> list_all2 (\<lambda>r r'. jb_id r' = jb_id r \<and> (jb_id r \<noteq> i \<longrightarrow> r' = r)) T T'"

lemma own_rows_refl: "own_rows i T T"
  by (simp add: own_rows_def list_all2_same)

lemma own_rows_update:
  assumes "own_rows i T T'" and "\<And>r. p r \<Longrightarrow> jb_id r = i" and "\<And>r. jb_id (f r) = jb_id r"
  shows "own_rows i T (update_where p f T')"
  using assms(1) unfolding own_rows_def update_where_def
  by (induction rule: list_all2_induct) (use assms(2,3) in auto)

lemma own_rows_update_jobs:
  "(\<And>r. p r \<Longrightarrow> jb_id r = i) \<Longrightarrow> (\<And>r. jb_id (f r) = jb_id r) \<Longrightarrow>
     preserves (\<lambda>s. own_rows i T (jobs s)) (update_jobs p f)"
  by (simp add: preserves_def update_jobs_def own_rows_update)

lemma own_rows_queue [preserves_intros]:
  "job_id job = i \<Longrightarrow> preserves (\<lambda>s. own_rows i T (jobs s)) (renewLease clk job n)"
  "job_id job = i \<Longrightarrow> preserves (\<lambda>s. own_rows i T (jobs s)) (complete clk job)"
  "job_id job = i \<Longrightarrow> preserves (\<lambda>s. own_rows i T (jobs s)) (fail clk job e)"
  unfolding renewLease_def complete_def fail_def Let_def
  by (intro preserves_intros own_rows_update_jobs; simp add: holds_lease_def)+

section \<open>The lease in the hands of the worker\<close>

definition leased_to :: "Job \<Rightarrow> 'm db_scheme \<Rightarrow> bool" where
  "leased_to job s \<longleftrightarrow> (\<exists>r\<in>set (jobs s). jb_id r = job_id job \<and> jb_status r = job_running \<and>
     jb_leased_by r = job_leasedBy job \<and> jb_leased_until r = job_leasedUntil job)"

lemma count_leased: "count_where (holds_lease job now) (jobs s) \<noteq> 0 \<Longrightarrow> leased_to job s"
  by (auto simp: count_where_def leased_to_def holds_lease_def filter_empty_conv)

lemma update_none: "count_where p T = 0 \<Longrightarrow> update_where p f T = T"
  by (induction T) (auto simp: count_where_def update_where_def split: if_splits)

lemma update_some: "count_where p T \<noteq> 0 \<Longrightarrow> \<exists>r\<in>set T. p r \<and> f r \<in> set (update_where p f T)"
  by (auto simp: count_where_def update_where_def filter_empty_conv)

lemma renewLease_cases:
  assumes "renewLease clk job n s = (r, s')"
  shows "r = Inr None \<and> s' = s \<or>
     leased_to job s \<and> (\<exists>u. r = Inr (Some (job\<lparr>job_leasedUntil := u\<rparr>)))"
  using assms count_leased [of job "clk 2" s] update_none [of "holds_lease job (clk 2)" "jobs s"]
  by (auto simp: renewLease_def bindE_def update_jobs_def retE_def split: if_splits)

lemma hb_stop_cases:
  assumes "hb_stop legacy clk n hb s = (Inr owned, s')"
  shows "owned = None \<and> s' = s \<or> owned = Some (hb_current hb) \<and> s' = s \<or>
     leased_to (hb_current hb) s \<and> (\<exists>u. owned = Some ((hb_current hb)\<lparr>job_leasedUntil := u\<rparr>)) \<and>
     renewLease (\<lambda>m. clk (1 + m)) (hb_current hb) n s = (Inr owned, s')"
proof -
  obtain r t where run: "renewLease (\<lambda>m. clk (1 + m)) (hb_current hb) n s = (r, t)" by fastforce
  from renewLease_cases [OF run] assms run show ?thesis
    by (auto simp: hb_stop_def hb_renew_def bindE_def catchE_def retE_def split: if_splits option.splits)
qed

lemma complete_cases:
  assumes "complete clk job s = (r, s')"
  shows "(\<exists>e. r = Inl e) \<or> leased_to job s \<and> (\<exists>q\<in>set (jobs s'). jb_id q = job_id job \<and> jb_status q = job_succeeded)"
proof (cases r)
  case (Inr u)
  then have "count_where (holds_lease job (clk 2)) (jobs s) \<noteq> 0"
    using assms by (auto simp: complete_def bindE_def update_jobs_def throwE_def retE_def split: if_splits)
  then show ?thesis
    using assms Inr count_leased update_some
    by (fastforce simp: complete_def bindE_def update_jobs_def throwE_def retE_def holds_lease_def split: if_splits)
qed simp

lemma fail_cases:
  assumes "fail clk job e s = (r, s')"
  shows "(\<exists>e. r = Inl e) \<or> leased_to job s \<and>
     (\<exists>q\<in>set (jobs s'). jb_id q = job_id job \<and> jb_status q \<in> {job_retryable_failed, job_dead_letter})"
proof (cases r)
  case (Inr u)
  define f where "f = (\<lambda>r. r\<lparr>jb_status := (if job_attemptCount job \<ge> job_maxAttempts job then job_dead_letter else job_retryable_failed),
     jb_available_at := toISOString (clk 0 + retry_delay (job_attemptCount job) * 1000),
     jb_leased_by := None, jb_leased_until := None, jb_last_error := Some (take 500 (error_message e)),
     jb_payload := (if job_attemptCount job \<ge> job_maxAttempts job then redact_screenshot (clk 1) r else jb_payload r),
     jb_updated_at := nowIso (clk 2)\<rparr>)"
  have "fail clk job e s = (if lease_missing job then throwE (Error ''Job lease is missing'')
      else bindE (update_jobs (holds_lease job (clk 3)) f) (\<lambda>changed.
        if changed = 0 then throwE (Error ''Job lease is no longer valid'') else retE ())) s"
    by (simp only: fail_def f_def Let_def)
  then have n: "count_where (holds_lease job (clk 3)) (jobs s) \<noteq> 0"
    and jobs: "jobs s' = update_where (holds_lease job (clk 3)) f (jobs s)"
    using assms Inr by (auto simp: bindE_def update_jobs_def throwE_def retE_def split: if_splits)
  obtain q where q: "holds_lease job (clk 3) q" "f q \<in> set (jobs s')"
    using update_some [OF n] jobs by metis
  have "jb_id (f q) = job_id job" "jb_status (f q) \<in> {job_retryable_failed, job_dead_letter}"
    using q(1) by (simp_all add: f_def holds_lease_def)
  then show ?thesis using q(2) count_leased [OF n] by blast
qed simp

lemma settle_owned_cases:
  assumes "settle_owned clk job err s = (Inr outcome, s')"
  shows "(\<exists>e. outcome = SettlementFailed e) \<or>
     leased_to job s \<and> outcome = JobCompleted \<and> err = None \<and>
       (\<exists>q\<in>set (jobs s'). jb_id q = job_id job \<and> jb_status q = job_succeeded) \<or>
     leased_to job s \<and> (\<exists>e. err = Some e \<and> outcome = JobFailed e) \<and>
       (\<exists>q\<in>set (jobs s'). jb_id q = job_id job \<and> jb_status q \<in> {job_retryable_failed, job_dead_letter})"
proof (cases err)
  case None
  obtain r t where run: "complete (\<lambda>n. clk (10 + n)) job s = (r, t)" by fastforce
  with complete_cases [OF run] assms None show ?thesis
    by (cases r) (auto simp: settle_owned_def catchE_def bindE_def retE_def)
next
  case (Some e)
  obtain r t where run: "fail (\<lambda>n. clk (10 + n)) job e s = (r, t)" by fastforce
  with fail_cases [OF run] assms Some show ?thesis
    by (cases r) (auto simp: settle_owned_def catchE_def bindE_def retE_def)
qed

lemma unleased_upsert [preserves_intros]:
  "jb_status row = job_queued \<Longrightarrow> preserves (\<lambda>s. \<not> leased_to job s) (upsert_job_row row)"
  by (auto simp: preserves_def upsert_job_row_def leased_to_def update_where_def split: if_splits)

lemma unleased_ensureTenant [preserves_intros]: "preserves (\<lambda>s. \<not> leased_to job s) (ensureTenant now t n)"
  by (simp add: preserves_def ensureTenant_def modifyE_def leased_to_def)

lemma unleased_enqueue [preserves_intros]: "preserves (\<lambda>s. \<not> leased_to job s) (enqueue sha clk input)"
  unfolding enqueue_def
  by (intro preserves_intros preserves_transaction) (simp_all add: enqueue_row_def leased_to_def)

lemma unleased_vault_get [preserves_intros]: "preserves I (vault_get repo g v t u p)"
  unfolding preserves_def by (metis vault_get_state prod.collapse)

lemma unleased_reschedule: "preserves (\<lambda>s. \<not> leased_to job s) (reschedule d clk j processed)"
  unfolding reschedule_def scheduleAfter_def
  by (cases processed) (auto split: option.splits intro!: preserves_intros)

text \<open>A synchronisation is scheduled again only for a provider that is still connected.\<close>

definition still_connected :: "worker_deps \<Rightarrow> Job \<Rightarrow> error + ConnectorSyncPayload option \<Rightarrow> store \<Rightarrow> bool" where
  "still_connected d job processed s \<longleftrightarrow> (\<exists>p. processed = Inr (Some p) \<and> syn_recurring p \<noteq> Some False \<and>
     fst (vault_get sqlite_credentials (wk_gcm d) (wk_vault d) (job_tenantId job) (syn_userId p)
       (provider_text (syn_provider p)) s) \<noteq> Inr None)"

lemma reschedule_disconnected:
  assumes "\<not> still_connected d job processed s" and "reschedule d clk job processed s = (r, s')"
  shows "s' = s"
proof (cases "\<exists>p. processed = Inr (Some p) \<and> syn_recurring p \<noteq> Some False")
  case True
  then obtain p where p: "processed = Inr (Some p)" "syn_recurring p \<noteq> Some False" by blast
  obtain found t where get: "vault_get sqlite_credentials (wk_gcm d) (wk_vault d) (job_tenantId job) (syn_userId p)
       (provider_text (syn_provider p)) s = (found, t)" by fastforce
  then have "found = Inr None" "t = s"
    using assms(1) p vault_get_state by (fastforce simp: still_connected_def)+
  with get assms(2) p show ?thesis
    by (simp add: reschedule_def scheduleAfter_def bindE_def catchE_def retE_def)
next
  case False
  with assms(2) show ?thesis
    by (cases processed) (auto simp: reschedule_def scheduleAfter_def bindE_def catchE_def retE_def split: option.splits)
qed

lemma renew_credentials: "renewLease clk job n s = (r, s') \<Longrightarrow> credentials s' = credentials s"
  by (auto simp: renewLease_def bindE_def update_jobs_def retE_def split: if_splits)

lemma still_connected_stop:
  assumes "credentials s' = credentials s" and "job_tenantId job' = job_tenantId job"
  shows "still_connected d job' processed s' = still_connected d job processed s"
proof -
  have "cred_find sqlite_credentials t u p s' = cred_find sqlite_credentials t u p s" for t u p
    using assms(1) by (simp add: sqlite_credentials_def credential_find_def)
  from sqlite_creds.get_depends [OF this] assms(2) show ?thesis by (simp add: still_connected_def)
qed

lemma own_settle_owned: "job_id job = i \<Longrightarrow> preserves (\<lambda>s. own_rows i T (jobs s)) (settle_owned clk job err)"
  unfolding settle_owned_def by (intro preserves_intros)

lemma settle_job_steps:
  assumes "settle_job d clk hb processed s = (Inr outcome, s')"
  obtains (none) "outcome = LeaseLost" "s' = s"
  | (owned) j s1 err s2 where "hb_stop (wk_legacy d) clk 60 hb s = (Inr (Some j), s1)"
      "reschedule d clk j processed s1 = (Inr err, s2)" "settle_owned clk j err s2 = (Inr outcome, s')"
proof -
  obtain found s1 where stop: "hb_stop (wk_legacy d) clk 60 hb s = (Inr found, s1)"
    using assms by (auto simp: settle_job_def bindE_Inr_iff)
  show thesis
  proof (cases found)
    case None
    then show ?thesis using none stop hb_stop_cases [OF stop] assms by (auto simp: settle_job_def bindE_def retE_def)
  next
    case (Some j)
    then show ?thesis using owned stop assms by (auto simp: settle_job_def bindE_Inr_iff)
  qed
qed

lemma own_renew: "renewLease clk job n s = (r, s') \<Longrightarrow> own_rows (job_id job) (jobs s) (jobs s')"
  by (rule preservesD [OF own_rows_queue(1) [OF refl] own_rows_refl])

text \<open>C40. The settlement of a job by a worker never throws. A worker that finds its lease lost leaves the
  store as it is; one that reports the job completed processed it without an error, and the job has
  succeeded; one that reports it failed has left it to be tried again or as a dead letter; and a worker
  whose copy of the lease the queue no longer has reports neither. When the connector has been revoked in
  the meantime, or nothing recurs, the settlement adds no job and changes no other job than its own.\<close>

theorem worker_settlement:
  assumes "settle_job d clk hb processed s = (r, s')"
  shows "\<exists>outcome. r = Inr outcome \<and>
     (outcome = LeaseLost \<longrightarrow> s' = s) \<and>
     (outcome = JobCompleted \<longrightarrow> (\<exists>x. processed = Inr x) \<and>
        (\<exists>q\<in>set (jobs s'). jb_id q = job_id (hb_current hb) \<and> jb_status q = job_succeeded)) \<and>
     (\<forall>e. outcome = JobFailed e \<longrightarrow> (\<exists>q\<in>set (jobs s'). jb_id q = job_id (hb_current hb) \<and>
        jb_status q \<in> {job_retryable_failed, job_dead_letter})) \<and>
     (\<not> leased_to (hb_current hb) s \<longrightarrow> outcome = LeaseLost \<or> (\<exists>e. outcome = SettlementFailed e)) \<and>
     (\<not> still_connected d (hb_current hb) processed s \<longrightarrow> own_rows (job_id (hb_current hb)) (jobs s) (jobs s'))"
proof -
  obtain outcome where r: "r = Inr outcome" using total_settle assms unfolding total_def by (metis Pair_inject)
  from assms [unfolded r] show ?thesis
  proof (cases rule: settle_job_steps)
    case none
    then show ?thesis by (simp add: r own_rows_refl)
  next
    case (owned j s1 err s2)
    note stop = hb_stop_cases [OF owned(1)]
    have j: "job_id j = job_id (hb_current hb)" "job_tenantId j = job_tenantId (hb_current hb)" using stop by auto
    have own1: "own_rows (job_id j) (jobs s) (jobs s1)"
      using stop own_renew own_rows_refl unfolding j by metis
    have creds: "credentials s1 = credentials s" using stop renew_credentials by blast
    have success: "\<exists>x. processed = Inr x" if "err = None"
      using owned(2) that by (cases processed) (auto simp: reschedule_def retE_def)
    have unleased: "\<not> leased_to j s2" if "\<not> leased_to (hb_current hb) s"
      using stop that preservesD [OF unleased_reschedule _ owned(2)] by auto
    have "own_rows (job_id j) (jobs s) (jobs s')" if "\<not> still_connected d (hb_current hb) processed s"
    proof -
      have "s2 = s1" using reschedule_disconnected [OF _ owned(2)] that still_connected_stop [OF creds j(2)] by blast
      then show ?thesis using preservesD [OF own_settle_owned [OF refl] _ owned(3)] own1 by blast
    qed
    then show ?thesis using settle_owned_cases [OF owned(3)] success unleased by (auto simp: r j)
  qed
qed

section \<open>The cursor of a connector\<close>

text \<open>A connector moves its cursor when it has fetched the messages, before they are ingested. When the
  ingestion of one of them throws, the cursor stays behind the last message, so the attempts that follow
  do not fetch the messages that were not ingested.\<close>

lemma connector_state_kept [preserves_intros]:
  "preserves (\<lambda>s. connector_state s = k) (upsert_source_row row)"
  "preserves (\<lambda>s. connector_state s = k) (insert_or_ignore_version row')"
  "preserves (\<lambda>s. connector_state s = k) (insert_or_ignore_contributor row'')"
  "preserves (\<lambda>s. connector_state s = k) (update_versions p f)"
  "preserves (\<lambda>s. connector_state s = k) (upsert_claim_row claim)"
  "preserves (\<lambda>s. connector_state s = k) (delete_opportunities t i)"
  "preserves (\<lambda>s. connector_state s = k) (insert_opportunity_row o')"
  by (simp_all add: preserves_def upsert_source_row_def insert_or_ignore_version_def
      insert_or_ignore_contributor_def update_versions_def upsert_claim_row_def delete_opportunities_def
      insert_opportunity_row_def effect_simps Let_def)

lemma connector_state_transaction [preserves_intros]:
  "preserves (\<lambda>s. connector_state s = k) m \<Longrightarrow> preserves (\<lambda>s. connector_state s = k) (transaction m)"
  by (rule preserves_transaction) simp_all

lemma connector_state_methods:
  "preserves (\<lambda>s. connector_state s = k) (stageSource sha now source t)"
  "preserves (\<lambda>s. connector_state s = k) (markSourceProcessing now v t)"
  "preserves (\<lambda>s. connector_state s = k) (markSourceSucceeded now v t)"
  "preserves (\<lambda>s. connector_state s = k) (markSourceFailed now v failure t)"
  "preserves (\<lambda>s. connector_state s = k) (putClaims cs t)"
  "preserves (\<lambda>s. connector_state s = k) (replaceOpportunities org os t)"
  unfolding stageSource_def record_contributor_def markSourceProcessing_def markSourceSucceeded_def
    markSourceFailed_def putClaims_def replaceOpportunities_def insert_opportunity_def Let_def
  by (intro preserves_intros)+

interpretation sqlite_cursors: repository "sqlite_repository sha" "\<lambda>s. connector_state s = k" for sha k
  by unfold_locales
    (simp_all add: sqlite_repository_def connector_state_methods connector_state_transaction getSource_def
      listClaims_def listOpportunityOverrides_def preserves_getE)

lemma set_get_connector:
  assumes "setConnectorState now connector scope cursor metadata t u s = (Inr (), s')"
  shows "getConnectorState connector scope t s' = (Inr (text_or_undefined cursor, metadata), s')"
proof -
  define row where "row = \<lparr>cs_tenant_id = t, cs_connector = connector, cs_scope = scope, cs_cursor = cursor,
    cs_metadata = metadata, cs_owner_user_id = u, cs_updated_at = nowIso now\<rparr>"
  have key: "connector_key row = (t, connector, scope)" "cs_cursor row = cursor" "cs_metadata row = metadata"
    by (simp_all add: row_def connector_key_def)
  have kept: "connector_key (r\<lparr>cs_cursor := a, cs_metadata := b, cs_owner_user_id := x, cs_updated_at := y\<rparr>) =
      connector_key r" for r a b x y by (simp add: connector_key_def)
  have run: "upsert_connector_row row s = (Inr (), s')" using assms by (simp add: setConnectorState_def row_def)
  have "(t, connector, scope) \<in> connector_key ` set (connector_state s')"
    using run by (auto simp: upsert_connector_row_def key table_simps kept split: if_splits)
  then have one: "\<exists>q\<in>set (connector_state s'). connector_key q = (t, connector, scope)" by (metis imageE)
  have all: "\<forall>q\<in>set (connector_state s'). connector_key q = (t, connector, scope) \<longrightarrow>
      cs_cursor q = cursor \<and> cs_metadata q = metadata"
    using run kept by (auto simp: upsert_connector_row_def key update_where_def exists_row_def list_ex_iff split: if_splits)
  obtain q where "select_first (\<lambda>r. connector_key r = (t, connector, scope)) (connector_state s') = Some q"
    using one select_first_None by (metis (mono_tags, lifting) option.exhaust)
  then show ?thesis using all select_first_Some [of _ "connector_state s'" q] by (auto simp: getConnectorState_def getE_def)
qed

lemma mapE_last:
  assumes "mapE f xs s = (Inr ys, s')" and "xs \<noteq> []"
  shows "ys \<noteq> [] \<and> (\<exists>u v. f (last xs) u = (Inr (last ys), v))"
  using assms
proof (induction xs arbitrary: s ys)
  case (Cons x xs)
  then obtain y zs u where 1: "f x s = (Inr y, u)" "mapE f xs u = (Inr zs, s')" "ys = y # zs"
    by (auto simp: bindE_Inr_iff retE_def)
  show ?case
  proof (cases "xs = []")
    case True
    then show ?thesis using 1 by (auto simp: retE_def)
  next
    case False
    then show ?thesis using Cons.IH [OF 1(2)] 1(3) by auto
  qed
qed simp

lemma groupme_source_id:
  "groupme_source sha now org g m s = (Inr source, s') \<Longrightarrow>
     src_externalId source = Some (g @ '':'' @ template_member m ''id'')"
  by (auto simp: groupme_source_def bindE_Inr_iff retE_def)

lemma syncGroup_cursor:
  assumes "syncGroup sha clk http token org g t u s = (Inr (x # xs), s')"
  shows "\<exists>i. src_externalId (last (x # xs)) = Some (g @ '':'' @ i) \<and>
     getConnectorState ''groupme'' (groupme_scope g u) t s' = (Inr (text_or_undefined (Some i), JObj []), s')"
proof -
  obtain ordered s1 s2 where out: "mapE (\<lambda>(n, m). groupme_source sha (clk (1 + n)) org g m) (enumerate 0 ordered) s1 =
      (Inr (x # xs), s2)" and set: "(if ordered = [] then retE () else setConnectorState (clk 0) ''groupme''
      (groupme_scope g u) (Some (template_member (last ordered) ''id'')) (JObj []) t u) s2 = (Inr (), s')"
    using assms by (auto simp: syncGroup_def Let_def bindE_Inr_iff retE_def split: prod.splits)
  have ne: "ordered \<noteq> []" using out by (auto simp: retE_def)
  then have ene: "enumerate 0 ordered \<noteq> []" by (cases ordered) simp_all
  have last: "last (enumerate 0 ordered) = (length ordered - 1, last ordered)"
    using ne by (cases ordered rule: rev_cases) (simp_all add: enumerate_append_eq)
  obtain w v :: store where "(\<lambda>(n, m). groupme_source sha (clk (1 + n)) org g m) (last (enumerate 0 ordered)) w =
      (Inr (last (x # xs)), v)" using mapE_last [OF out ene] by blast
  then have "groupme_source sha (clk (1 + (length ordered - 1))) org g (last ordered) w = (Inr (last (x # xs)), v)"
    unfolding last by (simp only: case_prod_conv)
  note external = groupme_source_id [OF this]
  have "setConnectorState (clk 0) ''groupme'' (groupme_scope g u) (Some (template_member (last ordered) ''id''))
      (JObj []) t u s2 = (Inr (), s')" using set ne by simp
  from set_get_connector [OF this] external show ?thesis by blast
qed

lemma failed_ingestion_keeps_cursor:
  assumes "syncGroup sha clk http token org g t (Some u) s = (Inr (x # xs), s1)"
    and "forE (\<lambda>(n, source). work_ingest d c n job (Some u) source) (enumerate 0 (x # xs)) s1 = (Inl e, s2)"
  shows "\<exists>i. src_externalId (last (x # xs)) = Some (g @ '':'' @ i) \<and>
     getConnectorState ''groupme'' (groupme_scope g (Some u)) t s2 = (Inr (text_or_undefined (Some i), JObj []), s2)"
proof -
  have "preserves (\<lambda>s. connector_state s = k)
      (forE (\<lambda>(n, source). work_ingest d c n job (Some u) source) (enumerate 0 (x # xs)))" for k
    unfolding work_ingest_def by (intro preserves_intros sqlite_cursors.ingest_keeps)
  from preserves_valueD [where f = connector_state, OF this assms(2)] syncGroup_cursor [OF assms(1)]
  show ?thesis by (auto simp: getConnectorState_def getE_def)
qed

section \<open>An instance\<close>

definition demo_worker :: worker_deps where
  "demo_worker = \<lparr>wk_config = demo_config,
     wk_library = \<lparr>zod_failure = (\<lambda>_ _. ([], [])), zod_url = (\<lambda>_. True), parse_url = (\<lambda>_. None),
       search_param = (\<lambda>_ _. None), zod_datetime = (\<lambda>_. True), zod_email = (\<lambda>_. True)\<rparr>,
     wk_sha = id, wk_legacy = (\<lambda>_. None), wk_parse = (\<lambda>_. None), wk_gcm = demo_gcm, wk_vault = demo_vault,
     wk_providers = demo_configuration, wk_token = demo_token, wk_extract = (\<lambda>_. Inl (Error ''no extractor'')),
     wk_web = (\<lambda>_ _. Inl (Error ''no network'')), wk_http = (\<lambda>_ _ _ _. Inl (Error ''no network'')),
     wk_codec = \<lparr>cd_base64 = (\<lambda>_. []), cd_utf8 = (\<lambda>_. []), cd_to_base64 = (\<lambda>_. [])\<rparr>\<rparr>"

definition demo_held :: Job where
  "demo_held = \<lparr>job_id = ''j'', job_tenantId = ''t'', job_type = ''privacy.reconcile'', job_idempotencyKey = ''k'',
     job_payload = JNull, job_status = job_running, job_attemptCount = 2, job_maxAttempts = 5,
     job_availableAt = nowIso 0, job_leasedBy = Some ''w'', job_leasedUntil = Some (toISOString 60000)\<rparr>"

definition demo_running :: store where
  "demo_running = (new_Store 0 ''t'')\<lparr>jobs := [\<lparr>jb_id = ''j'', jb_tenant_id = ''t'', jb_type = ''privacy.reconcile'',
     jb_idempotency_key = ''k'', jb_payload = JNull, jb_status = job_running, jb_priority = 100, jb_attempt_count = 2,
     jb_max_attempts = 5, jb_available_at = nowIso 0, jb_leased_until = Some (toISOString 60000),
     jb_leased_by = Some ''w'', jb_last_error = None, jb_created_at = nowIso 0, jb_updated_at = nowIso 0\<rparr>]\<rparr>"

lemma demo_settles:
  "\<exists>s'. settle_job demo_worker (\<lambda>_. 0) (new_heartbeat demo_held) (Inr None) demo_running = (Inr JobCompleted, s')"
proof -
  have later: "nowIso 0 < toISOString 60000" by (simp add: nowIso_def iso_range_def)
  then have nonempty: "truthy (Some (toISOString 60000))" by (auto simp: truthy_def)
  have until: "lease_end (\<lambda>_. None) demo_held = Some 60000"
    by (simp add: lease_end_def demo_held_def iso_range_def)
  have "hb_stop (wk_legacy demo_worker) (\<lambda>_. 0) 60 (new_heartbeat demo_held) demo_running = (Inr (Some demo_held), demo_running)"
    using nonempty until by (simp add: hb_stop_def new_heartbeat_def demo_worker_def bindE_def retE_def) (simp add: demo_held_def)
  moreover have "\<exists>s'. complete (\<lambda>n. 0) demo_held demo_running = (Inr (), s')"
    using later nonempty by (simp add: complete_def lease_missing_def demo_held_def demo_running_def bindE_def update_jobs_def
        count_where_def holds_lease_def retE_def throwE_def truthy_def)
  ultimately show ?thesis
    by (auto simp: settle_job_def reschedule_def settle_owned_def bindE_def catchE_def retE_def)
qed

theorem worker_settlement_witness:
  "\<exists>s'. settle_job demo_worker (\<lambda>_. 0) (new_heartbeat demo_held) (Inr None) demo_running = (Inr JobCompleted, s') \<and>
     own_rows ''j'' (jobs demo_running) (jobs s')"
proof -
  obtain s' where run: "settle_job demo_worker (\<lambda>_. 0) (new_heartbeat demo_held) (Inr None) demo_running = (Inr JobCompleted, s')"
    using demo_settles by blast
  have "\<not> still_connected demo_worker demo_held (Inr None) demo_running" by (simp add: still_connected_def)
  with worker_settlement [OF run] run show ?thesis by (simp add: new_heartbeat_def demo_held_def)
qed

end
