(* ===== verification/Extractor.thy ===== *)
theory Extractor
  imports Regex Connectors
begin

text \<open>
  The extraction of claims from the text of a source, src/src/extractor.ts: the patterns of the heuristic
  extractor over the matcher of \<open>Regex\<close>, the dates and times they find, the claims they become, and
  the request and the answer of the model-based extractor. The claims are pushed on a list, which is the
  state of the operations; a date that does not exist throws. The parser of the old date formats, the time
  zone database and the clock are arguments, as in \<open>LibDate\<close>.
\<close>

section \<open>Dates and times in a text\<close>

definition separator_re :: regex where
  "separator_re = Chars (one_of ''-/'')"

definition one_or_two_digits :: regex where
  "one_or_two_digits = Seq digit_re (opt digit_re)"

definition year_re :: regex where
  "year_re = seqs [exactly CHR ''2'', exactly CHR ''0'', digit_re, digit_re]"

definition iso_date_re :: regex where
  "iso_date_re = seqs [WordBoundary, Group 1 year_re, separator_re, Group 2 one_or_two_digits, separator_re,
     Group 3 one_or_two_digits, WordBoundary]"

definition months :: "(string \<times> string) list" where
  "months = [(''jan'', ''01''), (''january'', ''01''), (''feb'', ''02''), (''february'', ''02''), (''mar'', ''03''),
     (''march'', ''03''), (''apr'', ''04''), (''april'', ''04''), (''may'', ''05''), (''jun'', ''06''), (''june'', ''06''),
     (''jul'', ''07''), (''july'', ''07''), (''aug'', ''08''), (''august'', ''08''), (''sep'', ''09''), (''sept'', ''09''),
     (''september'', ''09''), (''oct'', ''10''), (''october'', ''10''), (''nov'', ''11''), (''november'', ''11''),
     (''dec'', ''12''), (''december'', ''12'')]"

definition month_re :: regex where
  "month_re = alts [Seq (lit ''jan'') (opt (lit ''uary'')), Seq (lit ''feb'') (opt (lit ''ruary'')),
     Seq (lit ''mar'') (opt (lit ''ch'')), Seq (lit ''apr'') (opt (lit ''il'')), lit ''may'',
     Seq (lit ''jun'') (opt (lit ''e'')), Seq (lit ''jul'') (opt (lit ''y'')), Seq (lit ''aug'') (opt (lit ''ust'')),
     Seq (lit ''sep'') (opt (Seq (lit ''t'') (opt (lit ''ember'')))), Seq (lit ''oct'') (opt (lit ''ober'')),
     Seq (lit ''nov'') (opt (lit ''ember'')), Seq (lit ''dec'') (opt (lit ''ember''))]"

definition month_date_re :: regex where
  "month_date_re = seqs [WordBoundary, Group 1 month_re, opt (exactly CHR ''.''), plus_re space_re,
     Group 2 one_or_two_digits, opt (alts [lit ''st'', lit ''nd'', lit ''rd'', lit ''th'']),
     opt (seqs [opt (exactly CHR '',''), Star space_re, Group 3 year_re])]"

definition weekday_re :: regex where
  "weekday_re = seqs [WordBoundary, Group 1 (alts (map lit DAYS)), WordBoundary]"

text \<open>\<open>String(new Date(publishedAt).getUTCFullYear())\<close>, of the clock when there is no publication time.\<close>

definition year_text :: "(string \<Rightarrow> int option) \<Rightarrow> int \<Rightarrow> string option \<Rightarrow> string" where
  "year_text legacy now publishedAt =
     (if truthy publishedAt then
        (case Date_parse legacy (the publishedAt) of None \<Rightarrow> ''NaN'' | Some t \<Rightarrow> show_int (YearFromDay (DayOf t)))
      else show_int (YearFromDay (DayOf now)))"

definition two_digits :: "string \<Rightarrow> string" where
  "two_digits s = padStart 2 CHR ''0'' s"

definition dateFromText ::
    "(string \<Rightarrow> int option) \<Rightarrow> int \<Rightarrow> string \<Rightarrow> string option \<Rightarrow> string + string option" where
  "dateFromText legacy now s publishedAt =
     (case regex_match iso_date_re s of
        Some h \<Rightarrow> Inr (Some (nullish (match_group 1 h) [] @ ''-'' @ two_digits (nullish (match_group 2 h) []) @ ''-''
          @ two_digits (nullish (match_group 3 h) [])))
      | None \<Rightarrow>
        (case regex_match month_date_re s of
           Some h \<Rightarrow> Inr (Some (nullish (match_group 3 h) (year_text legacy now publishedAt) @ ''-''
             @ nullish (map_of months (remove1 CHR ''.'' (toLowerCase (nullish (match_group 1 h) [])))) ''undefined'' @ ''-''
             @ two_digits (nullish (match_group 2 h) [])))
         | None \<Rightarrow>
           (case regex_match weekday_re s of
              Some h \<Rightarrow> resolveRelativeWeekday legacy (nullish (match_group 1 h) []) publishedAt
            | None \<Rightarrow> Inr None)))"

definition hour_re :: regex where
  "hour_re = Alt (Seq (exactly CHR ''1'') (Chars (one_of ''012'')))
     (Seq (opt (exactly CHR ''0'')) digit_re)"

definition minute_re :: regex where
  "minute_re = Seq (Chars (one_of ''012345'')) digit_re"

definition time_re :: regex where
  "time_re = seqs [WordBoundary, Group 1 hour_re, opt (Seq (exactly CHR '':'') (Group 2 minute_re)),
     Star space_re, Group 3 (Alt (lit ''am'') (lit ''pm'')), WordBoundary]"

definition timeFromText :: "string \<Rightarrow> string option" where
  "timeFromText s = (case regex_match time_re s of None \<Rightarrow> None
     | Some h \<Rightarrow> Some (nullish (match_group 1 h) [] @ '':'' @ nullish (match_group 2 h) ''00'' @ '' ''
         @ nullish (match_group 3 h) []))"

section \<open>The heuristic extractor\<close>

definition closed_re :: regex where
  "closed_re = alts [lit ''no longer accepting responses'',
     seqs [lit ''application'', opt (lit ''s''), lit '' '', opt (lit ''are ''), lit ''closed''],
     lit ''application closed'', lit ''closed for applications'']"

definition open_re :: regex where
  "open_re = alts [
     seqs [lit ''application'', opt (lit ''s''), lit '' '', opt (lit ''are ''), opt (lit ''now ''),
       Alt (lit ''open'') (lit ''live'')],
     lit ''apply now'', lit ''accepting applications'']"

definition close_re :: regex where
  "close_re = Seq (lit ''close'') (opt (Chars (one_of ''sdSD'')))"

definition due_re :: regex where
  "due_re = alts [lit ''due'', lit ''deadline'', close_re]"

definition application_re :: regex where
  "application_re = alts [lit ''application'', lit ''apply'', lit ''submission'']"

definition phrase_char :: "char \<Rightarrow> bool" where
  "phrase_char c \<longleftrightarrow> c \<noteq> CHR ''.'' \<and> c \<noteq> CHR 0x0A"

definition deadline_phrase_re :: regex where
  "deadline_phrase_re = seqs [alts [Seq (lit ''application'') (opt (lit ''s'')), lit ''apply'',
       Seq (lit ''submission'') (opt (lit ''s''))],
     UpTo 140 (Chars phrase_char), due_re, UpTo 140 (Chars phrase_char)]"

definition event_re :: regex where
  "event_re = alts [lit ''interest meeting'', seqs [lit ''info'', opt (lit ''rmation''), lit '' session''],
     lit ''coffee chat'', seqs [lit ''recruit'', Alt (lit ''ing'') (lit ''ment''), lit '' event''],
     seqs [lit ''boot'', opt space_re, lit ''camp''], lit ''expo'']"

definition visible_char :: "char \<Rightarrow> bool" where
  "visible_char c \<longleftrightarrow> \<not> is_space c"

definition link_re :: regex where
  "link_re = seqs [case_lit ''http'', opt (exactly CHR ''s''), case_lit ''://'', plus_re (Chars visible_char)]"

definition form_url_re :: regex where
  "form_url_re = alts [lit ''forms.gle'', lit ''docs.google.com/forms'', lit ''qualtrics'', lit ''/apply'']"

definition handle_char :: "char \<Rightarrow> bool" where
  "handle_char c \<longleftrightarrow> is_alnum c \<or> c = CHR ''.'' \<or> c = CHR ''_''"

definition handle_re :: regex where
  "handle_re = seqs [Alt (lit ''instagram'') (lit ''ig''), Star space_re,
     opt (Chars (one_of '':@'')), Star space_re, opt (exactly CHR ''@''),
     Group 1 (seqs [Chars handle_char, Chars handle_char, Chars handle_char, UpTo 27 (Chars handle_char)])]"

type_synonym 'a extraction = "(error, ExtractedClaim list, 'a) op"

definition push_claim :: "ExtractedClaim \<Rightarrow> unit extraction" where
  "push_claim c = modifyE (\<lambda>cs. cs @ [c])"

definition plain_claim :: "ClaimField \<Rightarrow> json \<Rightarrow> rat \<Rightarrow> string \<Rightarrow> ExtractedClaim" where
  "plain_claim field v confidence evidence = \<lparr>ext_field = field, ext_value = v, ext_confidence = confidence,
     ext_evidence = Some evidence, ext_temporalPrecision = None\<rparr>"

definition status_claims :: "string \<Rightarrow> unit extraction" where
  "status_claims text =
     bindE (if regex_test closed_re text then
        bindE (push_claim (plain_claim application_open (JBool False) (98/100) ''Explicit closed-language in source''))
          (\<lambda>_. push_claim (plain_claim field_status (JStr ''closed'') (98/100) ''Explicit closed-language in source''))
      else retE ()) (\<lambda>_.
     if regex_test open_re text then
       push_claim (plain_claim application_open (JBool True) (92/100) ''Explicit open-language in source'')
     else retE ())"

record zone_library =
  zl_legacy :: "string \<Rightarrow> int option"
  zl_render :: tz_render

definition date_error :: "string + 'a \<Rightarrow> 'a extraction" where
  "date_error r = (case r of Inl m \<Rightarrow> throwE (Error m) | Inr x \<Rightarrow> retE x)"

definition found_date :: "zone_library \<Rightarrow> int \<Rightarrow> string \<Rightarrow> string option \<Rightarrow> string option extraction" where
  "found_date lib now s publishedAt = date_error (dateFromText (zl_legacy lib) now s publishedAt)"

definition local_moment :: "zone_library \<Rightarrow> string \<Rightarrow> string option \<Rightarrow> string extraction" where
  "local_moment lib date time =
     date_error (combineDateTime (zl_legacy lib) (zl_render lib) date time ''America/New_York'')"

definition precision_of :: "string option \<Rightarrow> string" where
  "precision_of time = (if truthy time then ''date_time'' else ''date'')"

definition deadline_claim :: "zone_library \<Rightarrow> int \<Rightarrow> string option \<Rightarrow> string \<Rightarrow> unit extraction" where
  "deadline_claim lib now publishedAt line =
     (if regex_test application_re line \<and> regex_test due_re line then
        let relevant = (case regex_match deadline_phrase_re line of None \<Rightarrow> line | Some h \<Rightarrow> hit_text h) in
        bindE (found_date lib now relevant publishedAt) (\<lambda>date.
          if truthy date then
            let time = timeFromText relevant in
            bindE (local_moment lib (the date) time) (\<lambda>v.
              push_claim \<lparr>ext_field = application_deadline, ext_value = JStr v, ext_confidence = 94/100,
                ext_evidence = Some relevant, ext_temporalPrecision = Some (precision_of time)\<rparr>)
          else retE ())
      else retE ())"

definition event_value :: "string \<Rightarrow> string \<Rightarrow> string option \<Rightarrow> json" where
  "event_value line v time = members [(''title'', Some (JStr (take 160 (replace_all link_re [] line)))),
     (''startsAt'', Some (JStr v)), (''startsAtPrecision'', Some (JStr (precision_of time))),
     (''url'', case extractUrls line of [] \<Rightarrow> None | u # _ \<Rightarrow> Some (JStr u))]"

definition event_claim :: "zone_library \<Rightarrow> int \<Rightarrow> string option \<Rightarrow> string \<Rightarrow> unit extraction" where
  "event_claim lib now publishedAt line =
     (if regex_test event_re line then
        bindE (found_date lib now line publishedAt) (\<lambda>date.
          if truthy date then
            let time = timeFromText line in
            bindE (local_moment lib (the date) time) (\<lambda>v.
              push_claim (plain_claim field_event (event_value line v time) (84/100) line))
          else retE ())
      else retE ())"

definition line_claims :: "zone_library \<Rightarrow> int \<Rightarrow> string option \<Rightarrow> string \<Rightarrow> unit extraction" where
  "line_claims lib now publishedAt line =
     bindE (deadline_claim lib now publishedAt line) (\<lambda>_. event_claim lib now publishedAt line)"

definition url_claim :: "string \<Rightarrow> unit extraction" where
  "url_claim url = (if regex_test form_url_re url then
     push_claim (plain_claim application_url (JStr url) (90/100) (''Application-like URL: '' @ url)) else retE ())"

definition handle_claim :: "hit \<Rightarrow> unit extraction" where
  "handle_claim h = push_claim (plain_claim social_handle
     (members [(''platform'', Some (JStr ''instagram'')), (''handle'', map_option JStr (match_group 1 h))]) (72/100)
     (hit_text h))"

definition source_text :: "SourceItem \<Rightarrow> string" where
  "source_text source = filter (\<lambda>c. c \<noteq> CHR 0x0D) (src_rawText source)"

definition text_lines :: "string \<Rightarrow> string list" where
  "text_lines text = filter (\<lambda>l. l \<noteq> []) (map trim (split_on CHR 0x0A text))"

definition heuristic_claims :: "zone_library \<Rightarrow> int \<Rightarrow> SourceItem \<Rightarrow> unit extraction" where
  "heuristic_claims lib now source =
     (let text = source_text source in
      bindE (status_claims text) (\<lambda>_.
      bindE (forE (line_claims lib now (src_publishedAt source)) (text_lines text)) (\<lambda>_.
      bindE (forE url_claim (extractUrls text)) (\<lambda>_.
        forE handle_claim (matchAll handle_re text)))))"

definition heuristicExtract :: "zone_library \<Rightarrow> int \<Rightarrow> SourceItem \<Rightarrow> error + ExtractionResult" where
  "heuristicExtract lib now source = (case heuristic_claims lib now source [] of
     (Inl e, _) \<Rightarrow> Inl e
   | (Inr _, cs) \<Rightarrow> Inr \<lparr>res_claims = cs, res_discoveredUrls = extractUrls (source_text source)\<rparr>)"

section \<open>The model-based extractor\<close>

text \<open>\<open>post\<close> is the client for the model's service: the address, the headers and the body to the answer. The
  text the model returns is parsed and taken as it is, unchecked; \<open>read_result\<close> is that reading.\<close>

definition input_text :: "string \<Rightarrow> json" where
  "input_text t = JObj [(''type'', JStr ''input_text''), (''text'', JStr t)]"

definition image_input :: "MediaRef \<Rightarrow> json" where
  "image_input m = JObj [(''type'', JStr ''input_image''),
     (''image_url'', JStr (nullish (media_url m)
        (''data:'' @ nullish (media_mimeType m) ''image/png'' @ '';base64,'' @ nullish (media_base64 m) ''undefined''))),
     (''detail'', JStr ''high'')]"

definition user_content :: "SourceItem \<Rightarrow> json list" where
  "user_content source =
     input_text (''Source type: '' @ source_type_text (src_sourceType source) @ [CHR 0x0A] @ ''Published at: ''
       @ nullish (src_publishedAt source) ''unknown'' @ [CHR 0x0A] @ ''URL: '' @ nullish (src_url source) []
       @ [CHR 0x0A, CHR 0x0A] @ src_rawText source)
     # map image_input (filter (\<lambda>m. media_type m = media_image \<and> (truthy (media_url m) \<or> truthy (media_base64 m)))
         (src_media source))"

definition system_prompt :: string where
  "system_prompt = ''Extract recruiting facts only. Never invent dates. Distinguish application deadlines from event dates. If relative dates appear, use published_at to resolve them. Return URLs exactly.''"

definition json_type :: "string \<Rightarrow> json" where
  "json_type t = JObj [(''type'', JStr t)]"

definition claim_schema :: json where
  "claim_schema = JObj [(''type'', JStr ''object''), (''additionalProperties'', JBool False),
     (''properties'', JObj [
        (''field'', JObj [(''type'', JStr ''string''), (''enum'', JArr (map JStr [''application_open'', ''application_deadline'',
           ''application_url'', ''event'', ''requirement'', ''status'', ''social_handle'', ''recruiting_note'']))]),
        (''value'', JObj []), (''confidence'', json_type ''number''), (''evidence'', json_type ''string'')]),
     (''required'', JArr (map JStr [''field'', ''value'', ''confidence'', ''evidence'']))]"

definition extraction_schema :: json where
  "extraction_schema = JObj [(''type'', JStr ''object''), (''additionalProperties'', JBool False),
     (''properties'', JObj [
        (''claims'', JObj [(''type'', JStr ''array''), (''items'', claim_schema)]),
        (''discoveredUrls'', JObj [(''type'', JStr ''array''), (''items'', json_type ''string'')])]),
     (''required'', JArr (map JStr [''claims'', ''discoveredUrls'']))]"

definition openai_body :: "string \<Rightarrow> SourceItem \<Rightarrow> json" where
  "openai_body model source = JObj [(''model'', JStr model),
     (''input'', JArr [
        JObj [(''role'', JStr ''system''), (''content'', JArr [input_text system_prompt])],
        JObj [(''role'', JStr ''user''), (''content'', JArr (user_content source))]]),
     (''text'', JObj [(''format'', JObj [(''type'', JStr ''json_schema''), (''name'', JStr ''recruiting_extraction''),
        (''strict'', JBool True), (''schema'', extraction_schema)])])]"

text \<open>\<open>json.output?.flatMap(o => o.content ?? [])\<close> and then the first output text.\<close>

definition output_parts :: "json option \<Rightarrow> (error, 's, json list option) op" where
  "output_parts out = (case out of None \<Rightarrow> retE None | Some JNull \<Rightarrow> retE None
   | Some (JArr os) \<Rightarrow>
       bindE (mapE (\<lambda>entry. bindE (dot (Some entry) ''content'') (\<lambda>c. retE (case c of
          None \<Rightarrow> [] | Some JNull \<Rightarrow> [] | Some (JArr xs) \<Rightarrow> xs | Some x \<Rightarrow> [x]))) os) (\<lambda>xss. retE (Some (concat xss)))
   | Some _ \<Rightarrow> throwE (TypeError ''json.output?.flatMap is not a function''))"

fun find_output :: "json list \<Rightarrow> (error, 's, json option) op" where
  "find_output [] = retE None"
| "find_output (x # xs) = bindE (dot (Some x) ''type'') (\<lambda>t.
     if t = Some (JStr ''output_text'') then retE (Some x) else find_output xs)"

definition openai_output :: "json \<Rightarrow> (error, 's, string) op" where
  "openai_output answer =
     bindE (dot (Some answer) ''output_text'') (\<lambda>direct.
     bindE (if \<not> is_nullish direct then retE direct
       else bindE (output_parts (json_get answer ''output'')) (\<lambda>parts. case parts of None \<Rightarrow> retE None
         | Some xs \<Rightarrow> bindE (find_output xs) (\<lambda>x. retE (opt_dot x ''text'')))) (\<lambda>outputText.
       if \<not> js_truthy outputText then throwE (Error ''OpenAI response had no output_text'')
       else retE (text_of outputText)))"

definition openai_extract ::
    "zone_library \<Rightarrow> int \<Rightarrow> (string \<Rightarrow> (string \<times> string) list \<Rightarrow> string \<Rightarrow> error + http_answer) \<Rightarrow>
       (string \<Rightarrow> error + ExtractionResult) \<Rightarrow> string \<Rightarrow> string \<Rightarrow> SourceItem \<Rightarrow> (error, 's, ExtractionResult) op" where
  "openai_extract lib now post read_result apiKey model source =
     (if apiKey = [] then lift_result (heuristicExtract lib now source)
      else bindE (lift_result (post ''https://api.openai.com/v1/responses''
          [(''authorization'', ''Bearer '' @ apiKey), (''content-type'', ''application/json'')]
          (stringify (openai_body model source)))) (\<lambda>r.
        if ha_status r < 200 \<or> 299 < ha_status r then
          throwE (Error (''OpenAI extraction failed: '' @ show_int (ha_status r) @ '' '' @ ha_text r))
        else bindE (lift_result (ha_json r)) (\<lambda>answer.
          bindE (openai_output answer) (\<lambda>t. lift_result (read_result t)))))"

definition fallbackExtractor :: "zone_library \<Rightarrow> int \<Rightarrow> SourceItem \<Rightarrow> error + ExtractionResult" where
  "fallbackExtractor lib now s = heuristicExtract lib now s"

section \<open>Open and closed\<close>

definition closed_phrases :: "string list" where
  "closed_phrases = [''no longer accepting responses'', ''application closed'', ''application are closed'',
     ''applications closed'', ''applications are closed'', ''application closed'', ''closed for applications'']"

definition open_phrases :: "string list" where
  "open_phrases = [''application open'', ''application live'', ''application now open'', ''application now live'',
     ''application are open'', ''application are live'', ''application are now open'', ''application are now live'',
     ''applications open'', ''applications live'', ''applications now open'', ''applications now live'',
     ''applications are open'', ''applications are live'', ''applications are now open'', ''applications are now live'',
     ''apply now'', ''accepting applications'']"

definition says :: "string list \<Rightarrow> string \<Rightarrow> bool" where
  "says phrases text = list_ex (includes_str (toLowerCase text)) phrases"

lemma spells_cong: "spells r ws \<Longrightarrow> ws = vs \<Longrightarrow> spells r vs"
  by simp

lemma closed_re_spells: "spells closed_re closed_phrases"
  unfolding closed_re_def alts.simps seqs.simps
  by (rule spells_cong, (rule spells_intros)+, code_simp)

lemma open_re_spells: "spells open_re open_phrases"
  unfolding open_re_def alts.simps seqs.simps
  by (rule spells_cong, (rule spells_intros)+, code_simp)

definition event_phrases :: "string list" where
  "event_phrases = [''interest meeting'', ''info session'', ''information session'', ''coffee chat'',
     ''recruiting event'', ''recruitment event'']"

definition camp_re :: regex where
  "camp_re = seqs [lit ''boot'', opt space_re, lit ''camp'']"

lemma event_re_test:
  "regex_test event_re s \<longleftrightarrow> says event_phrases s \<or> regex_test camp_re s \<or> says [''expo''] s"
proof -
  have "regex_test event_re s \<longleftrightarrow> list_ex (\<lambda>r. regex_test r s) [lit ''interest meeting'',
      seqs [lit ''info'', opt (lit ''rmation''), lit '' session''], lit ''coffee chat'',
      seqs [lit ''recruit'', Alt (lit ''ing'') (lit ''ment''), lit '' event''], camp_re, lit ''expo'']"
    by (simp add: event_re_def camp_re_def regex_test_Alt)
  moreover have "spells (seqs [lit ''info'', opt (lit ''rmation''), lit '' session'']) [''info session'', ''information session'']"
    "spells (seqs [lit ''recruit'', Alt (lit ''ing'') (lit ''ment''), lit '' event'']) [''recruiting event'', ''recruitment event'']"
    unfolding seqs.simps by (rule spells_cong, (rule spells_intros)+, code_simp)+
  moreover have "spells (lit ''interest meeting'') [''interest meeting'']" "spells (lit ''coffee chat'') [''coffee chat'']"
    "spells (lit ''expo'') [''expo'']"
    by (rule spells_cong, rule spells_lit, code_simp)+
  ultimately show ?thesis by (auto simp: regex_test_spells says_def event_phrases_def)
qed

section \<open>What the claims look like\<close>

text \<open>The type of a claim: the confidence and the precision are those that the tables accept, and the
  value is of the kind that its field has. A moment is one that the date parser reads.\<close>

definition moment_ok :: "zone_library \<Rightarrow> string \<Rightarrow> bool" where
  "moment_ok lib v \<longleftrightarrow> Date_parse (zl_legacy lib) v \<noteq> None"

definition value_typed :: "zone_library \<Rightarrow> string list \<Rightarrow> ClaimField \<Rightarrow> json \<Rightarrow> bool" where
  "value_typed lib urls field v = (case field of
     application_open \<Rightarrow> v = JBool True \<or> v = JBool False
   | field_status \<Rightarrow> v = JStr ''closed''
   | application_deadline \<Rightarrow> (\<exists>m. v = JStr m \<and> moment_ok lib m)
   | field_event \<Rightarrow> (\<exists>t m. json_text v ''title'' = Some t \<and> length t \<le> 160 \<and>
        json_text v ''startsAt'' = Some m \<and> moment_ok lib m \<and> precision_ok (json_text v ''startsAtPrecision''))
   | application_url \<Rightarrow> (\<exists>u \<in> set urls. v = JStr u)
   | social_handle \<Rightarrow> (\<exists>h. v = JObj [(''platform'', JStr ''instagram''), (''handle'', JStr h)] \<and>
        3 \<le> length h \<and> length h \<le> 30 \<and> list_all handle_char h)
   | _ \<Rightarrow> False)"

text \<open>What the evidence of a claim is. For a deadline, an event and a handle it is a piece of the text. For an
  application URL it names the URL. For the status it is a fixed remark; what supports the claim is that the text says one of the closed or of the open phrases.\<close>

definition quoted :: "string \<Rightarrow> ExtractedClaim \<Rightarrow> bool" where
  "quoted text c \<longleftrightarrow> (\<exists>q. ext_evidence c = Some q \<and> occurs_in q text)"

definition evidence_ok :: "string \<Rightarrow> ExtractedClaim \<Rightarrow> bool" where
  "evidence_ok text c = (case ext_field c of
     application_deadline \<Rightarrow> quoted text c
   | field_event \<Rightarrow> quoted text c
   | social_handle \<Rightarrow> quoted text c
   | application_url \<Rightarrow> (\<exists>u. ext_value c = JStr u \<and> regex_test form_url_re u \<and>
        ext_evidence c = Some (''Application-like URL: '' @ u))
   | application_open \<Rightarrow>
        ext_value c = JBool False \<and> says closed_phrases text \<and> ext_evidence c = Some ''Explicit closed-language in source'' \<or>
        ext_value c = JBool True \<and> says open_phrases text \<and> ext_evidence c = Some ''Explicit open-language in source''
   | field_status \<Rightarrow> says closed_phrases text \<and> ext_evidence c = Some ''Explicit closed-language in source''
   | _ \<Rightarrow> False)"

definition claim_typed :: "zone_library \<Rightarrow> string \<Rightarrow> string list \<Rightarrow> ExtractedClaim \<Rightarrow> bool" where
  "claim_typed lib text urls c \<longleftrightarrow> confidence_ok (ext_confidence c) \<and> precision_ok (ext_temporalPrecision c) \<and>
     value_typed lib urls (ext_field c) (ext_value c) \<and> evidence_ok text c"

lemmas claim_typed_defs = claim_typed_def value_typed_def evidence_ok_def quoted_def plain_claim_def confidence_ok_def

lemma precision_of_ok: "precision_ok (Some (precision_of time))"
  by (simp add: precision_ok_def precision_of_def TemporalPrecision_def)

lemma preserves_push: "P c \<Longrightarrow> preserves (list_all P) (push_claim c)"
  by (auto simp: push_claim_def intro!: preserves_modifyE)

lemma preserves_bind_result:
  assumes "preserves I m" and "\<And>x s t. m s = (Inr x, t) \<Longrightarrow> preserves I (k x)"
  shows "preserves I (bindE m k)"
  unfolding preserves_def bindE_def
proof (intro allI impI)
  fix s assume I: "I s"
  obtain r t where m: "m s = (r, t)" by fastforce
  have "I t" using preservesD [OF assms(1) I m] .
  then show "I (snd (case m s of (Inl e, s') \<Rightarrow> (Inl e, s') | (Inr x, s') \<Rightarrow> k x s'))"
    using assms(2) m by (cases r) (auto simp: preserves_def)
qed

lemma preserves_date_error: "preserves I (date_error r)"
  by (cases r) (auto simp: date_error_def intro: preserves_intros)

lemma local_moment_ok: "local_moment lib d time s = (Inr v, t) \<Longrightarrow> moment_ok lib v"
  by (cases "combineDateTime (zl_legacy lib) (zl_render lib) d time ''America/New_York''")
    (auto simp: local_moment_def date_error_def moment_ok_def effect_simps dest!: combineDateTime_sound)

lemma split_on_prefix: "split_on c s = y # ys \<Longrightarrow> \<exists>z. s = y @ z"
proof (induction s arbitrary: y ys)
  case (Cons x s)
  then show ?case by (cases "split_on c s") (auto split: if_splits)
qed auto

lemma trim_occurs: "occurs_in (trim s) s"
proof -
  have 1: "\<exists>x. t = x @ dropWhile is_space t" for t by (metis takeWhile_dropWhile_id)
  obtain x where x: "s = x @ dropWhile is_space s" using 1 by blast
  obtain y where y: "rev (dropWhile is_space s) = y @ dropWhile is_space (rev (dropWhile is_space s))"
    using 1 by blast
  have "dropWhile is_space s = trim s @ rev y" using arg_cong [OF y, of rev] by (simp add: trim_def)
  then have "s = x @ trim s @ rev y" using x by simp
  then show ?thesis unfolding occurs_in_def by blast
qed

lemma split_on_occurs: "l \<in> set (split_on c s) \<Longrightarrow> occurs_in l s"
proof (induction s arbitrary: l)
  case (Cons x s)
  have tl: "occurs_in l (x # s)" if "occurs_in l s" for l
    using that unfolding occurs_in_def by (metis append_Cons)
  obtain y ys where y: "split_on c s = y # ys" by (cases "split_on c s") auto
  have "\<exists>z. s = y @ z" using y by (metis split_on_prefix)
  then have hd: "occurs_in (x # y) (x # s)" unfolding occurs_in_def by (metis append_Cons append_Nil)
  show ?case
  proof (cases "x = c \<and> l = []")
    case True
    then show ?thesis unfolding occurs_in_def by (metis append_Nil)
  next
    case False
    then show ?thesis using Cons hd tl by (auto simp: y split: if_splits)
  qed
qed auto

lemma text_lines_occur: "l \<in> set (text_lines text) \<Longrightarrow> occurs_in l text"
  by (auto simp: text_lines_def intro: occurs_in_trans trim_occurs split_on_occurs)

lemma status_claims_typed: "preserves (list_all (claim_typed lib text urls)) (status_claims text)"
  unfolding status_claims_def regex_test_spells [OF closed_re_spells] regex_test_spells [OF open_re_spells]
  by (intro preserves_intros preserves_push)
    (simp_all add: claim_typed_defs precision_ok_def says_def flip: list_ex_iff)

lemma deadline_claim_typed:
  assumes "occurs_in line text"
  shows "preserves (list_all (claim_typed lib text urls)) (deadline_claim lib now p line)"
proof -
  let ?relevant = "case regex_match deadline_phrase_re line of None \<Rightarrow> line | Some h \<Rightarrow> hit_text h"
  have "occurs_in ?relevant text"
    using assms by (auto split: option.splits intro: occurs_in_trans match_occurs)
  then have "claim_typed lib text urls \<lparr>ext_field = application_deadline, ext_value = JStr v, ext_confidence = 94/100,
      ext_evidence = Some ?relevant, ext_temporalPrecision = Some (precision_of time)\<rparr>" if "moment_ok lib v" for v time
    using that precision_of_ok by (simp add: claim_typed_defs)
  then show ?thesis unfolding deadline_claim_def Let_def found_date_def local_moment_def
    by (intro preserves_intros preserves_date_error preserves_bind_result preserves_push)
      (use local_moment_ok [unfolded local_moment_def] in blast)
qed

lemma event_claim_typed:
  assumes "occurs_in line text"
  shows "preserves (list_all (claim_typed lib text urls)) (event_claim lib now p line)"
proof -
  have "claim_typed lib text urls (plain_claim field_event (event_value line v time) (84/100) line)"
    if "moment_ok lib v" for v time
    using that assms precision_of_ok [of time]
    by (simp add: claim_typed_defs event_value_def members_def json_text_def json_get_def precision_ok_def)
  then show ?thesis unfolding event_claim_def Let_def found_date_def local_moment_def
    by (intro preserves_intros preserves_date_error preserves_bind_result preserves_push)
      (use local_moment_ok [unfolded local_moment_def] in blast)
qed

lemma url_claim_typed:
  "u \<in> set urls \<Longrightarrow> preserves (list_all (claim_typed lib text urls)) (url_claim u)"
  unfolding url_claim_def
  by (intro preserves_intros preserves_push) (simp add: claim_typed_defs precision_ok_def)

lemma handle_group:
  assumes "h \<in> set (matchAll handle_re text)"
  shows "\<exists>w. match_group 1 h = Some w \<and> 3 \<le> length w \<and> length w \<le> 30 \<and> list_all handle_char w"
proof -
  obtain b t where "search handle_re b t = Some h"
    using assms hits_search unfolding matchAll_def by blast
  note g = search_groups [OF this]
  have "always_set 1 handle_re" by (simp add: handle_re_def)
  then obtain w where w: "match_group 1 h = Some w" using g by blast
  then have "captured handle_re 1 w" using g by blast
  then have "\<exists>b a. consumes (seqs [Chars handle_char, Chars handle_char, Chars handle_char,
      UpTo 27 (Chars handle_char)]) b w a"
    by (auto simp: captured_def handle_re_def lit_def letter_def exactly_def opt_def space_re_def)
  then show ?thesis using w
    by (auto simp: consumes_Chars_Seq consumes_UpTo_chars)
qed

lemma handle_claim_typed:
  assumes "h \<in> set (matchAll handle_re text)"
  shows "preserves (list_all (claim_typed lib text urls)) (handle_claim h)"
  unfolding handle_claim_def
proof (rule preserves_push)
  obtain w where "match_group 1 h = Some w" "3 \<le> length w" "length w \<le> 30" "list_all handle_char w"
    using handle_group [OF assms] by blast
  then show "claim_typed lib text urls (plain_claim social_handle (members [(''platform'', Some (JStr ''instagram'')),
      (''handle'', map_option JStr (match_group 1 h))]) (72/100) (hit_text h))"
    using matchAll_occurs [OF assms] by (simp add: claim_typed_defs members_def precision_ok_def)
qed

lemma heuristic_claims_typed:
  "preserves (list_all (claim_typed lib (source_text source) (extractUrls (source_text source))))
     (heuristic_claims lib now source)"
  unfolding heuristic_claims_def Let_def line_claims_def
  by (intro preserves_intros status_claims_typed deadline_claim_typed event_claim_typed url_claim_typed
      handle_claim_typed text_lines_occur)

definition status_field :: "ExtractedClaim \<Rightarrow> bool" where
  "status_field c \<longleftrightarrow> ext_field c \<in> {application_open, field_status}"

lemma status_claims_result:
  "status_claims text [] = (Inr (),
     (if says closed_phrases text then
        [plain_claim application_open (JBool False) (98/100) ''Explicit closed-language in source'',
         plain_claim field_status (JStr ''closed'') (98/100) ''Explicit closed-language in source''] else []) @
     (if says open_phrases text then
        [plain_claim application_open (JBool True) (92/100) ''Explicit open-language in source''] else []))"
  by (simp add: status_claims_def regex_test_spells [OF closed_re_spells] regex_test_spells [OF open_re_spells]
      says_def push_claim_def bindE_def effect_simps)

lemma push_other: "\<not> status_field c \<Longrightarrow> preserves (\<lambda>cs. filter status_field cs = k) (push_claim c)"
  by (auto simp: push_claim_def intro!: preserves_modifyE)

lemma other_claims:
  "preserves (\<lambda>cs. filter status_field cs = k) (line_claims lib now p line)"
  "preserves (\<lambda>cs. filter status_field cs = k) (url_claim u)"
  "preserves (\<lambda>cs. filter status_field cs = k) (handle_claim h)"
  unfolding line_claims_def deadline_claim_def event_claim_def Let_def found_date_def local_moment_def url_claim_def
    handle_claim_def
  by (intro preserves_intros preserves_date_error push_other; simp add: status_field_def plain_claim_def)+

lemma heuristicExtract_Inr:
  "heuristicExtract lib now source = Inr result \<longleftrightarrow>
     heuristic_claims lib now source [] = (Inr (), res_claims result) \<and>
     res_discoveredUrls result = extractUrls (source_text source)"
  by (cases result) (auto simp: heuristicExtract_def split: prod.splits sum.splits)

text \<open>C15. Every claim of the heuristic extractor is well typed. Its confidence and its precision are those the
  database accepts, and its value has the kind of its field: a deadline and the start of an event are moments that
  the date parser reads, an application URL is one of the discovered URLs, a handle has 3 to 30 characters of a
  handle. The evidence depends on the field. For a deadline, an event and a handle it is a piece of the text of
  the source. For an application URL it is not quoted but names the URL, which matches the patterns of a form. For the
  two status fields it is a fixed remark, and the claim is made only when the text says one of the closed phrases
  (closed) or one of the open phrases (open). There are no claims of another field.\<close>

theorem heuristic_extract_typed:
  assumes "heuristicExtract lib now source = Inr result"
  shows "list_all (claim_typed lib (source_text source) (res_discoveredUrls result)) (res_claims result)"
proof -
  have run: "heuristic_claims lib now source [] = (Inr (), res_claims result)"
    and urls: "res_discoveredUrls result = extractUrls (source_text source)"
    using assms by (simp_all add: heuristicExtract_Inr)
  show ?thesis unfolding urls using preservesD [OF heuristic_claims_typed _ run] by simp
qed

text \<open>What the heuristic extractor says about applications being open or closed is decided by fixed
  phrases. The patterns match exactly the listed phrases, in any case of the letters; the closed phrases give the two closed
  claims, the open phrases the open claim, and nothing else of the text gives one. In particular a text that
  says "no longer accepting applications" says "accepting applications".\<close>

lemma status_by_phrase:
  assumes "heuristicExtract lib now source = Inr result"
  shows "map (\<lambda>c. (ext_field c, ext_value c)) (filter status_field (res_claims result)) =
    (if says closed_phrases (source_text source)
     then [(application_open, JBool False), (field_status, JStr ''closed'')] else []) @
    (if says open_phrases (source_text source) then [(application_open, JBool True)] else [])"
proof -
  let ?text = "source_text source"
  obtain cs where cs: "status_claims ?text [] = (Inr (), cs)" using status_claims_result by blast
  have "bindE (status_claims ?text) (\<lambda>_. bindE (forE (line_claims lib now (src_publishedAt source)) (text_lines ?text)) (\<lambda>_.
      bindE (forE url_claim (extractUrls ?text)) (\<lambda>_. forE handle_claim (matchAll handle_re ?text)))) []
      = (Inr (), res_claims result)"
    using assms by (simp add: heuristicExtract_Inr heuristic_claims_def Let_def)
  then have "bindE (forE (line_claims lib now (src_publishedAt source)) (text_lines ?text)) (\<lambda>_.
      bindE (forE url_claim (extractUrls ?text)) (\<lambda>_. forE handle_claim (matchAll handle_re ?text))) cs
      = (Inr (), res_claims result)"
    by (simp add: bindE_def cs)
  then have "filter status_field (res_claims result) = filter status_field cs"
    by (rule preserves_valueD [rotated]) (intro preserves_intros other_claims)
  moreover have "map (\<lambda>c. (ext_field c, ext_value c)) (filter status_field cs) =
    (if says closed_phrases ?text then [(application_open, JBool False), (field_status, JStr ''closed'')] else []) @
    (if says open_phrases ?text then [(application_open, JBool True)] else [])"
    using cs unfolding status_claims_result by (auto simp: status_field_def plain_claim_def)
  ultimately show ?thesis by simp
qed

section \<open>Examples\<close>

definition demo_zone :: tz_render where
  "demo_zone zone t = (let u = t - 14400000; d = DayOf u; ms = u mod msPerDay in
    \<lparr>lt_year = YearFromDay d, lt_month = Suc (monthOf d), lt_day = nat (dateOf d), lt_hour = nat (ms div 3600000),
     lt_minute = nat (ms div 60000 mod 60), lt_second = nat (ms div 1000 mod 60)\<rparr>)"

definition demo_library :: zone_library where
  "demo_library = \<lparr>zl_legacy = \<lambda>_. None, zl_render = demo_zone\<rparr>"

definition demo_post :: "string \<Rightarrow> SourceItem" where
  "demo_post text = \<lparr>src_id = ''src_1'', src_tenantId = None, src_contributorUserId = None, src_organizationId = ''org'',
     src_sourceType = instagram, src_externalId = None, src_url = None, src_title = None, src_rawText = text,
     src_media = [], src_publishedAt = None, src_fetchedAt = ''2026-08-20T12:00:00.000Z'', src_metadata = None\<rparr>"

definition demo_text :: string where
  "demo_text = ''due apply 2026-09-01 ig a_b''"

definition demo_result :: ExtractionResult where
  "demo_result = \<lparr>res_claims =
     [\<lparr>ext_field = application_deadline, ext_value = JStr ''2026-09-01T23:59:00-04:00'', ext_confidence = 94/100,
       ext_evidence = Some demo_text, ext_temporalPrecision = Some ''date''\<rparr>,
      \<lparr>ext_field = social_handle, ext_value = JObj [(''platform'', JStr ''instagram''), (''handle'', JStr ''a_b'')],
       ext_confidence = 72/100, ext_evidence = Some ''ig a_b'', ext_temporalPrecision = None\<rparr>],
     res_discoveredUrls = []\<rparr>"

lemma demo_date_number:
  "date_number [''2026'', ''09'', ''01''] 0 = Some 2026" "date_number [''2026'', ''09'', ''01''] 1 = Some 9"
  "date_number [''2026'', ''09'', ''01''] 2 = Some 1"
  by (simp_all add: date_number_def jsNumber_digits is_digit_def nat_of_digits_def digit_val_def)

lemma demo_offset: "offsetForDate demo_zone ''2026-09-01'' tz = Inr ''-04:00''"
proof -
  have parts: "split_on CHR ''-'' ''2026-09-01'' = [''2026'', ''09'', ''01'']" by code_simp
  have day: "is_calendar_date 2026 9 1" by code_simp
  have shift: "offset_text ((Date_UTC (lt_year (demo_zone tz (Date_UTC 2026 8 1 12 0 0)))
      (int (lt_month (demo_zone tz (Date_UTC 2026 8 1 12 0 0))) - 1)
      (int (lt_day (demo_zone tz (Date_UTC 2026 8 1 12 0 0))))
      (int (lt_hour (demo_zone tz (Date_UTC 2026 8 1 12 0 0)))) (int (lt_minute (demo_zone tz (Date_UTC 2026 8 1 12 0 0))))
      (int (lt_second (demo_zone tz (Date_UTC 2026 8 1 12 0 0)))) - Date_UTC 2026 8 1 12 0 0 + 30000) div 60000) = ''-04:00''"
    by code_simp
  show ?thesis unfolding offsetForDate_def parts demo_date_number Let_def using day shift by simp
qed

lemma demo_moment: "combineDateTime (\<lambda>_. None) demo_zone ''2026-09-01'' None tz = Inr ''2026-09-01T23:59:00-04:00''"
proof -
  have "validateLocalDateTime (\<lambda>_. None) demo_zone ''2026-09-01T23:59:00-04:00'' ''2026-09-01'' 23 59 tz =
      Inr ''2026-09-01T23:59:00-04:00''"
    by code_simp
  then show ?thesis by (simp add: combineDateTime_def demo_offset)
qed

lemma demo_deadline:
  "deadline_claim demo_library 0 None demo_text [] = (Inr (), [hd (res_claims demo_result)])"
proof -
  have facts: "regex_test application_re demo_text" "regex_test due_re demo_text"
    "regex_match deadline_phrase_re demo_text = None" "timeFromText demo_text = None"
    "dateFromText (\<lambda>_. None) 0 demo_text None = Inr (Some ''2026-09-01'')"
    by code_simp+
  show ?thesis
    by (simp add: deadline_claim_def facts found_date_def local_moment_def demo_library_def demo_moment
        date_error_def push_claim_def bindE_def effect_simps demo_result_def precision_of_def)
qed

lemma demo_extract: "heuristicExtract demo_library 0 (demo_post demo_text) = Inr demo_result"
proof -
  have at: "src_publishedAt (demo_post demo_text) = None" by (simp add: demo_post_def)
  have parts: "source_text (demo_post demo_text) = demo_text" "\<not> says closed_phrases demo_text"
    "\<not> says open_phrases demo_text" "text_lines demo_text = [demo_text]" "extractUrls demo_text = []"
    "\<not> says event_phrases demo_text" "\<not> regex_test camp_re demo_text" "\<not> says [''expo''] demo_text"
    by code_simp+
  have handles: "forE handle_claim (matchAll handle_re demo_text) [c] = (Inr (), c # tl (res_claims demo_result))" for c
  proof -
    have "matchAll handle_re demo_text = [\<lparr>hit_skipped = ''due apply 2026-09-01 '', hit_text = ''ig a_b'',
        hit_groups = [(1, ''a_b'')], hit_rest = []\<rparr>]"
      by code_simp
    then show ?thesis by (simp add: handle_claim_def push_claim_def bindE_def effect_simps match_group_def
        plain_claim_def members_def demo_result_def)
  qed
  show ?thesis
    by (simp add: heuristicExtract_def heuristic_claims_def at parts status_claims_result bindE_def effect_simps
        line_claims_def demo_deadline event_claim_def event_re_test handles Let_def)
      (simp add: demo_result_def)
qed

theorem heuristic_extract_typed_witness:
  "heuristicExtract demo_library 0 (demo_post demo_text) = Inr demo_result \<and>
     list_all (claim_typed demo_library demo_text []) (res_claims demo_result)"
proof -
  have "source_text (demo_post demo_text) = demo_text" "res_discoveredUrls demo_result = []" by code_simp+
  then show ?thesis using heuristic_extract_typed [OF demo_extract] demo_extract by simp
qed

definition demo_refusal :: string where
  "demo_refusal = ''We are no longer accepting applications''"

lemma status_by_phrase_witness:
  "\<exists>result. heuristicExtract demo_library 0 (demo_post demo_refusal) = Inr result \<and>
     map (\<lambda>c. (ext_field c, ext_value c)) (filter status_field (res_claims result)) = [(application_open, JBool True)]"
proof -
  have at: "src_publishedAt (demo_post demo_refusal) = None" by (simp add: demo_post_def)
  have parts: "source_text (demo_post demo_refusal) = demo_refusal" "\<not> says closed_phrases demo_refusal"
    "says open_phrases demo_refusal" "text_lines demo_refusal = [demo_refusal]" "extractUrls demo_refusal = []"
    "\<not> regex_test due_re demo_refusal" "\<not> says event_phrases demo_refusal" "\<not> regex_test camp_re demo_refusal"
    "\<not> says [''expo''] demo_refusal" "matchAll handle_re demo_refusal = []"
    by code_simp+
  have run: "heuristicExtract demo_library 0 (demo_post demo_refusal) = Inr \<lparr>res_claims =
      [plain_claim application_open (JBool True) (92/100) ''Explicit open-language in source''], res_discoveredUrls = []\<rparr>"
    by (simp add: heuristicExtract_def heuristic_claims_def at parts status_claims_result bindE_def effect_simps
        line_claims_def deadline_claim_def event_claim_def event_re_test Let_def)
  show ?thesis using status_by_phrase [OF run] run by (simp add: parts)
qed

text \<open>The phrase of a deadline ends at a full stop, also at that of an abbreviated month, and the day is lost.
  A handle is found inside a word.\<close>

lemma deadline_cut_at_stop:
  "map_option hit_text (regex_match deadline_phrase_re ''applications due Sept. 5'') = Some ''applications due Sept''"
  "dateFromText legacy now ''applications due Sept'' p = Inr None"
  by code_simp+

lemma handle_inside_word: "map hit_text (matchAll handle_re ''assignments'') = [''ignments'']"
  by code_simp

end
