(* ===== verification/Web.thy ===== *)
theory Web
  imports Regex Urls
begin

text \<open>
  The web connector, src/src/connectors/web.ts: a page becomes a source, its text without tags, its links and
  its title. The check of the address is the argument \<open>validate\<close>, the client for public addresses the
  argument \<open>http\<close>; a request cut off after twelve seconds is an error of the client. The two URL parsers
  of the platform are arguments, as in \<open>Urls\<close>.
\<close>

section \<open>HTML as text\<close>

definition decodeEntities :: "string \<Rightarrow> string" where
  "decodeEntities s =
     replace_all (case_lit ''&gt;'') ''>'' (replace_all (case_lit ''&lt;'') ''<''
       (replace_all (case_lit ''&#39;'') [CHR 0x27] (replace_all (case_lit ''&quot;'') [CHR 0x22]
         (replace_all (case_lit ''&amp;'') ''&'' s))))"

definition any_char :: regex where
  "any_char = Chars (none_of [])"

definition not_gt :: regex where
  "not_gt = Chars (none_of ''>'')"

definition script_re :: regex where
  "script_re = seqs [lit ''<script'', LazyStar any_char, lit ''</script>'']"

definition style_re :: regex where
  "style_re = seqs [lit ''<style'', LazyStar any_char, lit ''</style>'']"

definition tag_re :: regex where
  "tag_re = seqs [exactly CHR ''<'', plus_re not_gt, exactly CHR ''>'']"

definition stripTags :: "string \<Rightarrow> string" where
  "stripTags html = decodeEntities (trim (replace_all (plus_re space_re) '' '' (replace_all tag_re '' ''
     (replace_all style_re '' '' (replace_all script_re '' '' html)))))"

definition quote_re :: regex where
  "quote_re = Chars (one_of [CHR 0x22, CHR 0x27])"

definition anchor_re :: regex where
  "anchor_re = seqs [lit ''<a'', WordBoundary, Star not_gt, lit ''href='', quote_re,
     Group 1 (plus_re (Chars (none_of [CHR 0x22, CHR 0x27]))), quote_re, Star not_gt, exactly CHR ''>'']"

definition anchor_link :: "(string \<Rightarrow> string \<Rightarrow> URL option) \<Rightarrow> string \<Rightarrow> hit \<Rightarrow> string list" where
  "anchor_link parse_at base h =
     (if \<not> truthy (match_group 1 h) then []
      else case parse_at (decodeEntities (the (match_group 1 h))) base of None \<Rightarrow> []
        | Some u \<Rightarrow> [url_href u])"

definition linksFromHtml :: "(string \<Rightarrow> string \<Rightarrow> URL option) \<Rightarrow> string \<Rightarrow> string \<Rightarrow> string list" where
  "linksFromHtml parse_at html base = dedup (concat (map (anchor_link parse_at base) (matchAll anchor_re html)))"

definition title_re :: regex where
  "title_re = seqs [lit ''<title'', Star not_gt, exactly CHR ''>'', Group 1 (LazyStar any_char), lit ''</title>'']"

definition titleFromHtml :: "string \<Rightarrow> string option" where
  "titleFromHtml html = (case regex_match title_re html of None \<Rightarrow> None
     | Some h \<Rightarrow> if truthy (match_group 1 h) then Some (stripTags (the (match_group 1 h))) else None)"

section \<open>Fetching a page\<close>

record page =
  page_status :: int
  page_contentType :: "string option"
  page_url :: string
  page_text :: string

record web_library =
  wl_parse :: "string \<Rightarrow> URL option"
  wl_parse_at :: "string \<Rightarrow> string \<Rightarrow> URL option"
  wl_sha :: "string \<Rightarrow> string"
  wl_validate :: "string \<Rightarrow> error + URL"
  wl_http :: "string \<Rightarrow> error + page"

definition page_type :: "web_library \<Rightarrow> SourceType option \<Rightarrow> string \<Rightarrow> SourceType" where
  "page_type lib sourceType finalUrl = nullish sourceType
     (case classifyUrl (wl_parse lib) finalUrl of url_application \<Rightarrow> application | url_bio_link \<Rightarrow> bio_link | _ \<Rightarrow> website)"

definition page_source ::
    "web_library \<Rightarrow> int \<Rightarrow> string \<Rightarrow> SourceType option \<Rightarrow> string \<Rightarrow> string \<Rightarrow> string \<Rightarrow> SourceItem \<times> string list" where
  "page_source lib now orgId sourceType ct finalUrl body =
     (let html = includes_str ct ''html'';
          links = (if html then linksFromHtml (wl_parse_at lib) body finalUrl else extractUrls body);
          st = page_type lib sourceType finalUrl;
          text = (if html then stripTags body else body)
      in (\<lparr>src_id = stableId (wl_sha lib) ''src'' (source_type_text st @ '':'' @ finalUrl @ '':'' @ take 500 text),
           src_tenantId = None, src_contributorUserId = None, src_organizationId = orgId, src_sourceType = st,
           src_externalId = Some (source_type_text st @ '':'' @ finalUrl), src_url = Some finalUrl,
           src_title = (if html then titleFromHtml body else None), src_rawText = text, src_media = [],
           src_publishedAt = None, src_fetchedAt = nowIso now,
           src_metadata = Some (JObj [(''contentType'', JStr ct)])\<rparr>, links))"

definition fetchSource ::
    "web_library \<Rightarrow> int \<Rightarrow> string \<Rightarrow> string \<Rightarrow> SourceType option \<Rightarrow> error + SourceItem \<times> string list" where
  "fetchSource lib now orgId url sourceType =
     (case wl_validate lib url of Inl e \<Rightarrow> Inl e
      | Inr _ \<Rightarrow>
        (case wl_http lib url of Inl e \<Rightarrow> Inl e
         | Inr r \<Rightarrow>
           if page_status r < 200 \<or> 299 < page_status r then
             Inl (Error (''Fetch failed '' @ show_int (page_status r) @ '': '' @ url))
           else
             let ct = nullish (page_contentType r) [];
                 finalUrl = (if page_url r \<noteq> [] then page_url r else url) in
             if \<not> includes_str ct ''text/html'' \<and> \<not> includes_str ct ''text/plain'' then
               Inl (Error (''Unsupported content-type '' @ ct))
             else Inr (page_source lib now orgId sourceType ct finalUrl (page_text r))))"

section \<open>What is fetched\<close>

text \<open>A source comes only from an address that passed the check and a successful answer of text.\<close>

lemma page_source_fields:
  assumes "page_source lib now orgId sourceType ct finalUrl body = (source, links)"
  shows "src_url source = Some finalUrl \<and> src_organizationId source = orgId \<and> src_tenantId source = None \<and>
    src_contributorUserId source = None \<and> src_sourceType source = page_type lib sourceType finalUrl"
  using assms by (auto simp only: page_source_def Let_def prod.inject SourceItem.simps)

lemma fetchSource_Inr:
  assumes "fetchSource lib now orgId url sourceType = Inr (source, links)"
  shows "(\<exists>u. wl_validate lib url = Inr u) \<and> (\<exists>r. wl_http lib url = Inr r \<and> 200 \<le> page_status r \<and> page_status r \<le> 299 \<and>
    src_url source = Some (if page_url r \<noteq> [] then page_url r else url)) \<and>
    src_organizationId source = orgId \<and> src_tenantId source = None \<and> src_contributorUserId source = None"
proof -
  obtain u r where u: "wl_validate lib url = Inr u" and r: "wl_http lib url = Inr r"
    using assms by (auto simp: fetchSource_def split: sum.splits)
  have ok: "200 \<le> page_status r" "page_status r \<le> 299"
    using assms by (auto simp: fetchSource_def u r split: if_splits)
  have "page_source lib now orgId sourceType (nullish (page_contentType r) [])
      (if page_url r \<noteq> [] then page_url r else url) (page_text r) = (source, links)"
    using assms ok by (simp add: fetchSource_def u r Let_def split: if_splits)
  note page_source_fields [OF this]
  then show ?thesis using u r ok by blast
qed

text \<open>The entity of the ampersand is decoded first, so that an escaped entity is decoded twice.\<close>

lemma entities_decoded_twice: "decodeEntities ''&amp;lt;'' = ''<''"
  by code_simp

end
