(* ===== verification/Spec2Isabelle.thy ===== *)
theory Spec2Isabelle
  imports PgRefines PgOperations RouteSafety Worker Extractor Web
begin

text \<open>
  A verification development of Recruiting OS, a service that collects recruiting announcements of student
  organizations and shows the open opportunities of each. All paths below are under src/src.

  \<^bold>\<open>The program.\<close> An HTTP server (http/app.ts and http/routes) lets members of a tenant log in, read the
  opportunities, submit addresses and screenshots, connect accounts of providers, and export or erase their
  account. What takes long is a job of a durable queue. Workers (bootstrap/worker.ts) lease jobs, fetch
  sources through the connectors, let an extractor find claims in them, and resolve the claims of an
  organization into opportunities. The state is one relational database; the code has each repository for
  SQLite and for Postgres, and both are modelled.

  \<^bold>\<open>The style of the model.\<close> An operation of the program is a function from the state to a result and the new
  state (type \<open>op\<close> of Prelude); the result is an error of the sum type \<open>error\<close> or a value, so every throw is a
  branch. A table is the list of its rows, each a record, and \<open>db_ok\<close> says that the keys, references and checks of
  the schema hold; a transaction restores the tables when it throws. Numbers are integers or exact rationals,
  dates are milliseconds with the calendar of ECMAScript, JSON texts are parsed and printed. Code that is not in the
  repository is an argument: SHA-256, random values, the clock (a function from the number of the reading), the URL
  parser, DNS, the transport, AES-GCM, zod's formats and messages, the verification of a token, and \<open>Date.parse\<close> on text
  outside the ISO format. Where a theorem needs a law of such an argument, the law is a named hypothesis
  (\<open>gcm_correct\<close>), and the witness of the theorem instantiates it.

  \<^bold>\<open>The theories.\<close>

  \<^item> Prelude: the operations with \<open>preserves\<close> and its introduction rules, tables, strings, numbers.
  \<^item> DateTime, LibDate: the ISO format of ECMAScript and lib/date.ts.
  \<^item> Domain: domain/models.ts, domain/errors.ts, domain/data-policy.ts, lib/util.ts. JsonText: \<open>JSON.parse\<close>, \<open>JSON.stringify\<close>,
    \<open>parseJsonSafe\<close>; the parser has fuel of twice the length of the text plus two, and the round trip shows that this
    is enough for every printed value.
  \<^item> Database, Store, StoreIntegrity: the schema, the transaction and every method of store.ts, and that each method
    keeps \<open>db_ok\<close>.
  \<^item> JobQueue, JobSystem: infrastructure/queue/sqlite-job-queue.ts, and the queue with its producers and workers as a
    step relation whose reachable states satisfy \<open>system_ok\<close> (fencing, exclusive leases, bounded attempts, redaction,
    the status machine, idempotent enqueueing, retries).
  \<^item> Resolver, Ingest: resolver.ts and ingest.ts over the locale \<open>repository\<close> of the port, interpreted on the
    store three times, for the integrity, the evidence and the cursors of connectors.
  \<^item> Urls: url.ts and lib/safe-url.ts. Outbound: infrastructure/outbound-http and the token request of
    infrastructure/auth/provider-oauth-service.ts. \<open>fetch_loop\<close> and \<open>safe_loop\<close> recur on the attempts and redirects that
    are left, so both end.
  \<^item> Auth: roles, identities and sessions of application/auth and infrastructure/auth/sqlite-auth-repository.ts, with the
    session service over the locale of its repository. Oidc: infrastructure/auth/oidc-service.ts.
  \<^item> Credentials: the vault, the repository of credentials, the audit log, the OAuth client and the refreshing
    service, over the locale \<open>credential_store\<close>.
  \<^item> Privacy: export and erasure of an account in infrastructure/privacy/sqlite-privacy-repository.ts.
  \<^item> RateLimit, Config, Metrics: infrastructure/rate-limit/in-memory-rate-limiter.ts, config/env.ts and
    infrastructure/observability/metrics.ts.
  \<^item> Gateway, Requests, Routes, RouteSafety: the hook in front of every route (http/app.ts, http/request-context.ts), the
    schemas and views (http/schemas, http/public-dto.ts), the handlers of http/routes, and what they promise together.
  \<^item> Connectors, Worker: the connectors for GroupMe, Instagram, LinkedIn, Gmail and screenshots, and the body of the
    loop of bootstrap/worker.ts with the heartbeat and the scheduler.
  \<^item> Regex, Extractor, Web: the regular expressions of the language with a backtracking matcher and its declarative
    meaning, extractor.ts (the heuristics and the request to the model with the reading of its answer) and the
    reduction of a page to text, links and title in connectors/web.ts.
  \<^item> PgQueue, PgRefines: infrastructure/queue/postgres-job-queue.ts with the functions of the migrations that it
    calls, and its simulation by the queue on SQLite, call by call.
  \<^item> PgDatabase, PgStore, PgIntegrity: the schema of the migrations with row-level security, every method of
    infrastructure/database/postgres/postgres-store.ts, that no method reaches the rows of another tenant
    (\<open>isolates\<close>), and the two locales of the ingestion service interpreted on it.
  \<^item> PgAccounts, PgPrivacy: infrastructure/auth/postgres-auth-repository.ts, the credentials, audit log and rate
    limiter on Postgres, with the locale \<open>credential_store\<close> interpreted a second time, and
    infrastructure/privacy/postgres-privacy-repository.ts with the cascades of the schema.
  \<^item> PgOperations: migrate.ts, maintenance.ts, grant-runtime-role.ts and runtime-role.ts of
    infrastructure/database/postgres.

  \<^bold>\<open>What is shown.\<close> The properties carry the numbers C1 to C40. C1 to C7 are about the queue: of two copies of a leased
  job only the newer one can settle it, a job is not leased twice at a time, attempts are bounded, finished screenshot
  jobs hold no image, every step follows the status machine, failed attempts are retried. C8 to C13 are about evidence:
  a failed ingestion leaves the claims and opportunities as they were, a successful one is complete, opportunities cite
  stored claims, and the deadline shown is that of the last reviewed override or, without one, of a best-scored claim.
  C14 and C15 are about texts: the address filter is exactly the list of reserved ranges, and every claim of the
  heuristics is typed, with dates, events and handles quoted from the text, a form address named, and a status only
  where the text has one of its phrases. C16 to C22 are about Postgres: its queue does the same as the one on SQLite on
  the calls that both admit (\<open>calls_ok\<close>), a lease settles whatever the resolution of its clock, its store keeps
  tenants apart, its ingestion is atomic, its erasure removes the account with the states of its connectors, an
  interrupted migration is resumed, and the maintenance applies the retention periods to exactly the rows past them. Then: sessions live until their end or revocation and never come back; an
  erasure removes the account, exactly the evidence nobody else contributed, and no row of others, in the tenant or outside; JSON and
  credentials round-trip; the limiter admits at most its limit; a production configuration fails closed. The last group
  spans components: the gate denies by default, every route behind the gate needs its rights and stays in the tenant of its caller (the
  deletion of the account: in the rows of the user; the logins and callbacks are outside of this statement), a
  revocation withdraws credential and jobs, outbound requests end and reach only allowed hosts or, on every hop, the public addresses that its
  host was resolved to, a login identity is the verified one of its token, and a worker settles only what it has leased and reschedules no revoked
  connector.

  Some properties state a defect, because that is what the code does: on SQLite the erasure of a member who authored an
  override throws, and two events with one title and start block the resolution of an organization. Lemmas of the
  same kind: \<open>safeRelativeReturnTo_open_redirect\<close> (the filter of return paths applied twice leads to another host), \<open>settled_version_not_processed\<close> (an
  interrupted version is not processed again), \<open>discovery_failure_kept\<close> (a failed discovery is cached),
  \<open>null_override_ignored\<close> (a null in an override is dropped), \<open>failed_ingestion_keeps_cursor\<close> (the cursor of a connector
  moves before its messages are ingested), \<open>status_by_phrase\<close> (a text that says "no longer accepting applications" says
  "accepting applications"), \<open>deadline_cut_at_stop\<close> and \<open>handle_inside_word\<close> (of the heuristics) and
  \<open>pg_cancel_keeps_payload\<close> (a cancelled screenshot job keeps its image on Postgres).

  \<^bold>\<open>Simplifications.\<close> Operations of one process do not interleave inside a handler; the queue system interleaves whole
  calls, as the database does. \<open>worker_round\<close> runs the ticks of the heartbeat after the processing, which touches no
  job. The theorem on settlement starts from any store, so any activity of others may come before it. Cookies, statuses
  and bodies of replies are modelled; content types, download headers and log lines are not. The text members of an
  answer of a provider are kept by their \<open>String\<close> form. Texts are lists of characters of one byte; case and white space
  are those of ASCII. Numbers in JSON are integers. On Postgres a timestamptz is a number of microseconds, and what
  the driver and the server do with times is a parameter (\<open>pg_platform\<close>, with the law \<open>platform_ok\<close>); transactions run
  one after the other, with the rows that others hold locked an argument of leasing; the order of the members of a
  jsonb object, the range of an integer column and the state of a transaction after an error that its code would catch
  are not modelled. A clock reading, also with a lease added to it, is inside the range of dates, for which
  \<open>toISOString\<close> does not throw (the callers ask for 60 seconds). What is thrown is an error object: a thrown value that is
  false, which the worker would take for success, does not occur in the model.

  \<^bold>\<open>Not modelled.\<close> Static assets and probes (http/routes/public.ts, http/ui.ts), wiring (bootstrap/api.ts,
  bootstrap/dependencies.ts apart from \<open>validateRuntime\<close>, server.ts), logging and the scripts have no logic of their own:
  they construct objects, listen for signals, print, or drive the service from outside.
\<close>

end
